(* ===== verification/Sha256.thy ===== *)
theory Sha256
  imports GoLib
begin

text \<open>
  \<open>crypto/sha256.Sum256\<close>, which \<open>identity.Hash\<close> calls: FIPS 180-4 over 32-bit words. The padded
  message is a whole number of 64-byte blocks and a digest is 32 bytes; these are the two facts the
  rest of the development needs of it.
\<close>

type_synonym w32 = "32 word"

definition rotr :: "nat \<Rightarrow> w32 \<Rightarrow> w32" where
  "rotr n x = word_rotr n x"

definition sha_ch :: "w32 \<Rightarrow> w32 \<Rightarrow> w32 \<Rightarrow> w32" where
  "sha_ch x y z = (x AND y) XOR ((NOT x) AND z)"

definition sha_maj :: "w32 \<Rightarrow> w32 \<Rightarrow> w32 \<Rightarrow> w32" where
  "sha_maj x y z = (x AND y) XOR (x AND z) XOR (y AND z)"

definition big_sigma0 :: "w32 \<Rightarrow> w32" where
  "big_sigma0 x = rotr 2 x XOR rotr 13 x XOR rotr 22 x"

definition big_sigma1 :: "w32 \<Rightarrow> w32" where
  "big_sigma1 x = rotr 6 x XOR rotr 11 x XOR rotr 25 x"

definition small_sigma0 :: "w32 \<Rightarrow> w32" where
  "small_sigma0 x = rotr 7 x XOR rotr 18 x XOR drop_bit 3 x"

definition small_sigma1 :: "w32 \<Rightarrow> w32" where
  "small_sigma1 x = rotr 17 x XOR rotr 19 x XOR drop_bit 10 x"

definition sha_K :: "w32 list" where
  "sha_K =
    [1116352408, 1899447441, 3049323471, 3921009573, 961987163, 1508970993, 2453635748, 2870763221,
     3624381080, 310598401, 607225278, 1426881987, 1925078388, 2162078206, 2614888103, 3248222580,
     3835390401, 4022224774, 264347078, 604807628, 770255983, 1249150122, 1555081692, 1996064986,
     2554220882, 2821834349, 2952996808, 3210313671, 3336571891, 3584528711, 113926993, 338241895,
     666307205, 773529912, 1294757372, 1396182291, 1695183700, 1986661051, 2177026350, 2456956037,
     2730485921, 2820302411, 3259730800, 3345764771, 3516065817, 3600352804, 4094571909, 275423344,
     430227734, 506948616, 659060556, 883997877, 958139571, 1322822218, 1537002063, 1747873779,
     1955562222, 2024104815, 2227730452, 2361852424, 2428436474, 2756734187, 3204031479, 3329325298]"

datatype digest = Digest w32 w32 w32 w32 w32 w32 w32 w32

definition sha_init :: digest where
  "sha_init = Digest 1779033703 3144134277 1013904242 2773480762
                     1359893119 2600822924 528734635 1541459225"

definition word_be :: "byte \<Rightarrow> byte \<Rightarrow> byte \<Rightarrow> byte \<Rightarrow> w32" where
  "word_be a b c d =
     push_bit 24 (ucast a) OR push_bit 16 (ucast b) OR push_bit 8 (ucast c) OR ucast d"

definition bytes_be :: "w32 \<Rightarrow> byte list" where
  "bytes_be w = [ucast (drop_bit 24 w), ucast (drop_bit 16 w), ucast (drop_bit 8 w), ucast w]"

fun be_words :: "byte list \<Rightarrow> w32 list" where
  "be_words (a # b # c # d # r) = word_be a b c d # be_words r"
| "be_words _ = []"

text \<open>The message schedule, newest word first: \<open>n\<close> words are added to the sixteen of a block.\<close>

fun schedule :: "nat \<Rightarrow> w32 list \<Rightarrow> w32 list" where
  "schedule 0 ws = rev ws"
| "schedule (Suc n) ws =
     schedule n ((small_sigma1 (ws ! 1) + ws ! 6 + small_sigma0 (ws ! 14) + ws ! 15) # ws)"

fun sha_round :: "digest \<Rightarrow> w32 \<times> w32 \<Rightarrow> digest" where
  "sha_round (Digest a b c d e f g h) (k, w) =
     (let t1 = h + big_sigma1 e + sha_ch e f g + k + w; t2 = big_sigma0 a + sha_maj a b c
      in Digest (t1 + t2) a b c (d + t1) e f g)"

fun digest_add :: "digest \<Rightarrow> digest \<Rightarrow> digest" where
  "digest_add (Digest a b c d e f g h) (Digest a' b' c' d' e' f' g' h') =
     Digest (a + a') (b + b') (c + c') (d + d') (e + e') (f + f') (g + g') (h + h')"

definition compress :: "digest \<Rightarrow> byte list \<Rightarrow> digest" where
  "compress h blk = digest_add h (foldl sha_round h (zip sha_K (schedule 48 (rev (be_words blk)))))"

definition sha_pad :: "byte list \<Rightarrow> byte list" where
  "sha_pad m =
     (let n = length m; z = (119 - n mod 64) mod 64; bits = (of_nat (8 * n) :: 64 word)
      in m @ [0x80] @ replicate z 0 @ map (\<lambda>i. ucast (drop_bit (56 - 8 * i) bits)) [0..<8])"

fun sha_blocks :: "nat \<Rightarrow> digest \<Rightarrow> byte list \<Rightarrow> digest" where
  "sha_blocks 0 h m = h"
| "sha_blocks (Suc n) h m = sha_blocks n (compress h (take 64 m)) (drop 64 m)"

fun digest_bytes :: "digest \<Rightarrow> byte list" where
  "digest_bytes (Digest a b c d e f g h) = concat (map bytes_be [a, b, c, d, e, f, g, h])"

definition Sum256 :: "byte list \<Rightarrow> byte list" where
  "Sum256 m = (let p = sha_pad m in digest_bytes (sha_blocks (length p div 64) sha_init p))"

lemma length_digest_bytes [simp]: "length (digest_bytes d) = 32"
  by (cases d) (simp add: bytes_be_def)

lemma length_Sum256 [simp]: "length (Sum256 m) = 32"
  by (simp add: Sum256_def Let_def)

text \<open>Padding fills whole blocks, so \<open>sha_blocks\<close> consumes every byte of the padded message.\<close>

lemma sha_pad_blocks: "length (sha_pad m) mod 64 = 0"
proof -
  define r where "r = length m mod 64"
  define z where "z = (119 - r) mod 64"
  have "r < 64" by (simp add: r_def)
  have z: "z = (if r \<le> 55 then 55 - r else 119 - r)"
  proof (cases "r \<le> 55")
    case True
    then have "z = (64 + (55 - r)) mod 64" by (simp add: z_def)
    also have "\<dots> = 55 - r" by simp
    finally show ?thesis using True by simp
  next
    case False
    then show ?thesis using \<open>r < 64\<close> by (simp add: z_def)
  qed
  have "length (sha_pad m) mod 64 = (r + (9 + z)) mod 64"
    by (simp add: sha_pad_def Let_def r_def z_def mod_add_left_eq)
  also have "\<dots> = 0"
    using \<open>r < 64\<close> by (simp add: z)
  finally show ?thesis .
qed

end
