(* ===== verification/Identity.thy ===== *)
theory Identity
  imports Sha256
begin

text \<open>
  Package \<open>internal/identity\<close>: API tokens and their hashes (\<open>token.go\<close>), principals
  (\<open>principal.go\<close>), service accounts (\<open>serviceaccount.go\<close>), sessions (\<open>session.go\<close>), identity
  providers, organisation domains and login states (\<open>provider.go\<close>). Times are integers counting
  microseconds from Go's zero time, so \<open>0\<close> is \<open>time.Time{}\<close>. A role is the string the Go type is.
\<close>

type_synonym role = string
type_synonym time = int

section \<open>Data\<close>

datatype principal_kind = PrincipalUser | PrincipalServiceAccount

record principal =
  pKind :: principal_kind
  pUserID :: string
  pOrgID :: string
  pIsServerAdmin :: bool
  pServiceAccountID :: string
  pScopes :: "string list"
  pAuthProvider :: string

record service_account =
  saID :: string
  saOrgID :: string
  saName :: string
  saDescription :: string
  saScopes :: "string list"
  saDisabled :: bool
  saIsInternal :: bool
  saAvatarAssetID :: "string option"
  saCreatedBy :: string
  saCreatedAt :: time
  saUpdatedAt :: time

record token =
  tkID :: string
  tkServiceAccountID :: string
  tkName :: string
  tkPrefix :: string
  tkHash :: string
  tkExpiresAt :: "time option"
  tkLastUsedAt :: "time option"
  tkRevoked :: bool
  tkCreatedBy :: string
  tkCreatedAt :: time

text \<open>\<open>sPrevTokenHash\<close> is the column \<open>prev_token_hash\<close>: \<open>None\<close> is NULL, which a Go \<open>""\<close> is stored as.\<close>

record session =
  sID :: string
  sUserID :: string
  sTokenHash :: string
  sPrevTokenHash :: "string option"
  sAuthTokenSeen :: bool
  sSeenAt :: "time option"
  sUserAgent :: string
  sClientIP :: string
  sRotatedAt :: time
  sCreatedAt :: time
  sExpiresAt :: time
  sLastActiveAt :: time
  sSAMLSessionIdx :: string
  sSAMLNameIDHash :: string
  sAuthProvider :: string

record auth_provider =
  apID :: string
  apSlug :: string
  apOrgID :: string
  apKind :: string
  apType :: string
  apDisplayName :: string
  apIconAssetID :: string
  apIconURL :: string
  apEnabled :: bool
  apAllowSignUp :: bool
  apAllowedDomains :: string
  apDefaultRole :: role
  apClientID :: string
  apClientSecret :: string
  apAuthURL :: string
  apTokenURL :: string
  apUserinfoURL :: string
  apAPIURL :: string
  apScopes :: string
  apEmailClaim :: string
  apNameClaim :: string
  apSubClaim :: string
  apGroupsClaim :: string
  apIDPMetadataURL :: string
  apIDPMetadataXML :: string
  apIDPEntityID :: string
  apIDPSSOURL :: string
  apIDPCert :: string
  apSPEntityID :: string
  apSPCert :: string
  apSPKey :: string
  apSignRequests :: bool
  apNameIDFormat :: string
  apEmailAttribute :: string
  apNameAttribute :: string
  apGroupsAttribute :: string
  apCreatedAt :: time
  apUpdatedAt :: time

record org_domain =
  odID :: string
  odOrgID :: string
  odDomain :: string
  odCreatedAt :: time
  odUpdatedAt :: time

record login_state =
  lsID :: string
  lsState :: string
  lsOrgID :: string
  lsProviderID :: string
  lsNonce :: string
  lsSAMLRequestID :: string
  lsRedirectTo :: string
  lsCreatedAt :: time
  lsExpiresAt :: time

text \<open>Go's zero value \<open>AuthProvider{}\<close>.\<close>

definition AuthProvider_zero :: auth_provider where
  "AuthProvider_zero =
     \<lparr>apID = [], apSlug = [], apOrgID = [], apKind = [], apType = [],
      apDisplayName = [], apIconAssetID = [], apIconURL = [], apEnabled = False,
      apAllowSignUp = False, apAllowedDomains = [], apDefaultRole = [], apClientID = [],
      apClientSecret = [], apAuthURL = [], apTokenURL = [], apUserinfoURL = [], apAPIURL = [],
      apScopes = [], apEmailClaim = [], apNameClaim = [], apSubClaim = [], apGroupsClaim = [],
      apIDPMetadataURL = [], apIDPMetadataXML = [], apIDPEntityID = [], apIDPSSOURL = [],
      apIDPCert = [], apSPEntityID = [], apSPCert = [], apSPKey = [], apSignRequests = False,
      apNameIDFormat = [], apEmailAttribute = [], apNameAttribute = [], apGroupsAttribute = [],
      apCreatedAt = 0, apUpdatedAt = 0\<rparr>"

section \<open>Tokens (token.go)\<close>

definition tokenPrefix :: string where
  "tokenPrefix = ''uig_''"

definition prefixLen :: nat where
  "prefixLen = length tokenPrefix + 8"

definition Hash :: "string \<Rightarrow> string" where
  "Hash plaintext = hex_encode (Sum256 (map byte_of_char plaintext))"

definition Prefix :: "string \<Rightarrow> string" where
  "Prefix plaintext = (if length plaintext < prefixLen then plaintext else take prefixLen plaintext)"

text \<open>The constant-time comparison: \<open>diff\<close> collects the bitwise differences of all positions.\<close>

fun xor_diff :: "byte \<Rightarrow> string \<Rightarrow> string \<Rightarrow> byte" where
  "xor_diff diff (a # as) (b # bs) =
     xor_diff (diff OR (byte_of_char a XOR byte_of_char b)) as bs"
| "xor_diff diff _ _ = diff"

definition Verify :: "string \<Rightarrow> string \<Rightarrow> bool" where
  "Verify plaintext storedHash =
     (let computed = Hash plaintext
      in if length computed \<noteq> length storedHash then False
         else xor_diff 0 computed storedHash = 0)"

section \<open>Service accounts (serviceaccount.go)\<close>

definition SystemServiceAccountName :: string where
  "SystemServiceAccountName = ''System Service''"

definition systemServiceAccountDescription :: string where
  "systemServiceAccountDescription =
     ''Built-in account used for internal service-level tasks (e.g. screenshot rendering).''"

text \<open>The first argument is what \<open>uuid.NewString\<close> returned.\<close>

definition NewSystemServiceAccount :: "string \<Rightarrow> string \<Rightarrow> string list \<Rightarrow> service_account" where
  "NewSystemServiceAccount uuid orgID scopes =
     \<lparr>saID = uuid, saOrgID = orgID, saName = SystemServiceAccountName,
      saDescription = systemServiceAccountDescription, saScopes = scopes, saDisabled = False,
      saIsInternal = True, saAvatarAssetID = None, saCreatedBy = [], saCreatedAt = 0,
      saUpdatedAt = 0\<rparr>"

section \<open>Lemmas on tokens\<close>

lemma length_Hash [simp]: "length (Hash p) = 64"
  by (simp add: Hash_def)

lemma Hash_not_Nil [simp]: "Hash p \<noteq> []"
  by (metis length_Hash list.size(3) zero_neq_numeral)

lemma byte_of_char_inj: "byte_of_char a = byte_of_char b \<longleftrightarrow> a = b"
proof
  assume "byte_of_char a = byte_of_char b"
  then have "unat (byte_of_char a) = unat (byte_of_char b)" by simp
  then have "(of_char a :: nat) = of_char b"
    by (simp add: byte_of_char_def unsigned_of_nat take_bit_eq_mod)
  then show "a = b" by simp
qed simp

lemma or_zero_iff: "(a OR b = 0) \<longleftrightarrow> a = 0 \<and> b = (0 :: 'a::len word)"
  by (auto simp: bit_eq_iff bit_simps)

lemma xor_zero_iff: "(a XOR b = 0) \<longleftrightarrow> a = (b :: 'a::len word)"
  by (auto simp: bit_eq_iff bit_simps)

lemma xor_diff_zero:
  "length s = length t \<Longrightarrow> xor_diff d s t = 0 \<longleftrightarrow> d = 0 \<and> s = t"
  by (induction s t arbitrary: d rule: list_induct2)
    (auto simp: or_zero_iff xor_zero_iff byte_of_char_inj)

text \<open>The constant-time comparison is equality: \<open>Verify\<close> accepts a plaintext exactly when its
  SHA-256 digest, in lower-case hex, is the stored hash.\<close>

lemma Verify_eq_hash: "Verify plaintext storedHash \<longleftrightarrow> Hash plaintext = storedHash"
  by (auto simp: Verify_def Let_def xor_diff_zero)

lemma length_Prefix: "length (Prefix p) = min 12 (length p)"
  by (simp add: Prefix_def prefixLen_def tokenPrefix_def)

lemma Prefix_is_prefix: "HasPrefix p (Prefix p)"
  by (simp add: Prefix_def HasPrefix_def)

end
