(* ===== verification/Authz.thy ===== *)
theory Authz
  imports Identity
begin

text \<open>
  Package \<open>internal/authz\<close>: roles (\<open>role.go\<close>), named scopes, the static table from roles to scopes
  and the check of a required scope against granted ones (\<open>scope.go\<close>).
\<close>

section \<open>Roles and scopes\<close>

definition RoleAdmin :: role where "RoleAdmin = ''admin''"
definition RoleEditor :: role where "RoleEditor = ''editor''"
definition RoleViewer :: role where "RoleViewer = ''viewer''"

definition AllScopes :: "string list" where
  "AllScopes =
    [''diagrams:read'', ''diagrams:write'',
     ''docs:read'', ''docs:write'',
     ''maps:read'', ''maps:write'',
     ''services:read'', ''services:write'',
     ''chat:read'', ''chat:write'',
     ''folders:read'', ''folders:write'',
     ''members:read'', ''members:add'', ''members:remove'', ''members:update-role'',
     ''teams:read'', ''teams:create'', ''teams:edit'', ''teams:delete'', ''teams:add-member'',
     ''teams:remove-member'',
     ''serviceaccounts:read'', ''serviceaccounts:create'', ''serviceaccounts:edit'',
     ''serviceaccounts:delete'', ''serviceaccounts:create-token'', ''serviceaccounts:revoke-token'',
     ''mlstudio:read'', ''mlstudio:write'',
     ''billing:read'', ''billing:write'',
     ''agents:read'', ''agents:write'',
     ''timeline:read'', ''timeline:write'',
     ''org:update'', ''org:delete'',
     ''authproviders:read'', ''authproviders:write'',
     ''integrations:read'', ''integrations:write'']"

definition viewer_scopes :: "string list" where
  "viewer_scopes =
    [''diagrams:read'', ''docs:read'', ''maps:read'', ''services:read'', ''chat:read'',
     ''folders:read'', ''members:read'', ''teams:read'', ''serviceaccounts:read'', ''mlstudio:read'',
     ''billing:read'', ''agents:read'', ''timeline:read'', ''integrations:read'']"

definition editor_scopes :: "string list" where
  "editor_scopes =
    [''diagrams:read'', ''docs:read'', ''maps:read'', ''services:read'', ''chat:read'',
     ''folders:read'', ''members:read'', ''teams:read'', ''serviceaccounts:read'', ''mlstudio:read'',
     ''billing:read'', ''agents:read'', ''timeline:read'', ''integrations:read'',
     ''diagrams:write'', ''docs:write'', ''maps:write'', ''services:write'', ''chat:write'',
     ''folders:write'', ''mlstudio:write'', ''billing:write'', ''agents:write'', ''timeline:write'']"

definition admin_scopes :: "string list" where
  "admin_scopes =
    [''diagrams:*'', ''docs:*'', ''maps:*'', ''services:*'', ''chat:*'', ''folders:*'',
     ''members:*'', ''teams:*'', ''serviceaccounts:*'', ''mlstudio:*'', ''billing:*'', ''agents:*'',
     ''timeline:*'', ''org:*'', ''authproviders:*'', ''integrations:*'']"

text \<open>The map \<open>RoleScopes\<close>, looked up: a missing key is Go's nil slice.\<close>

definition RoleScopes :: "role \<Rightarrow> string list option" where
  "RoleScopes r =
     map_of [(RoleViewer, viewer_scopes), (RoleEditor, editor_scopes), (RoleAdmin, admin_scopes)] r"

definition ScopesForRole :: "role \<Rightarrow> string list" where
  "ScopesForRole r = (case RoleScopes r of None \<Rightarrow> [] | Some ss \<Rightarrow> ss)"

definition knownResources :: "string list" where
  "knownResources =
     concat (map (\<lambda>s. case Cut s '':'' of (res, _, ok) \<Rightarrow> if ok then [res] else []) AllScopes)"

definition ValidScope :: "string \<Rightarrow> bool" where
  "ValidScope s =
     (case Cut s '':'' of (res, action, ok) \<Rightarrow>
        if ok \<and> action = ''*'' then List.member knownResources res else List.member AllScopes s)"

definition Has :: "string list \<Rightarrow> string \<Rightarrow> bool" where
  "Has scopes want =
     (case Cut want '':'' of (wantRes, _, _) \<Rightarrow>
        list_ex (\<lambda>s. s = want \<or>
           (case Cut s '':'' of (res, action, ok) \<Rightarrow> ok \<and> action = ''*'' \<and> res = wantRes)) scopes)"

section \<open>Abstract specification\<close>

text \<open>
  A grant is a set of (resource, action) pairs: a concrete scope grants one pair, a wildcard grants
  every action of its resource. \<open>Has\<close> decides membership.
\<close>

definition scope_of :: "string \<Rightarrow> string \<Rightarrow> string" where
  "scope_of res action = res @ '':'' @ action"

inductive granted :: "string list \<Rightarrow> string \<Rightarrow> string \<Rightarrow> bool" where
  exact: "scope_of res action \<in> set scopes \<Longrightarrow> granted scopes res action"
| wildcard: "scope_of res ''*'' \<in> set scopes \<Longrightarrow> granted scopes res action"

inductive_simps granted_iff: "granted scopes res action"

lemma Cut_scope_of: "CHR '':'' \<notin> set res \<Longrightarrow> Cut (scope_of res action) '':'' = (res, action, True)"
  by (simp add: scope_of_def Cut_found)

lemma wildcard_iff:
  "(case Cut s '':'' of (res', action, ok) \<Rightarrow> ok \<and> action = ''*'' \<and> res' = res) \<longleftrightarrow>
     s = scope_of res ''*'' \<and> CHR '':'' \<notin> set res"
proof
  assume "case Cut s '':'' of (res', action, ok) \<Rightarrow> ok \<and> action = ''*'' \<and> res' = res"
  then have "Cut s '':'' = (res, ''*'', True)" by (auto split: prod.splits)
  then show "s = scope_of res ''*'' \<and> CHR '':'' \<notin> set res"
    by (simp add: Cut_iff scope_of_def)
next
  assume "s = scope_of res ''*'' \<and> CHR '':'' \<notin> set res"
  then show "case Cut s '':'' of (res', action, ok) \<Rightarrow> ok \<and> action = ''*'' \<and> res' = res"
    by (simp add: Cut_scope_of)
qed

text \<open>C16. \<open>Has\<close> decides the grant relation: a required scope is satisfied exactly when the granted
  list holds it or the wildcard of its resource.\<close>

theorem Has_iff_granted:
  assumes "CHR '':'' \<notin> set res"
  shows "Has scopes (scope_of res action) \<longleftrightarrow> granted scopes res action"
  using assms
  by (auto simp: Has_def Cut_scope_of wildcard_iff granted_iff list_ex_iff)

theorem Has_iff_granted_witness:
  "Has [''maps:*'', ''docs:read''] (scope_of ''docs'' ''read'') \<longleftrightarrow>
     granted [''maps:*'', ''docs:read''] ''docs'' ''read''"
  by (rule Has_iff_granted) simp

lemma Has_mono: "set xs \<subseteq> set ys \<Longrightarrow> Has xs w \<Longrightarrow> Has ys w"
  unfolding Has_def list_ex_iff split_beta by (meson subsetD)

lemma Has_Nil [simp]: "\<not> Has [] w"
  by (simp add: Has_def split: prod.splits)

text \<open>The roles form a hierarchy on every scope of the catalogue, although each slice is written
  out without inheritance: a viewer scope is an editor scope, an editor scope an admin scope.\<close>

lemma role_hierarchy:
  assumes "want \<in> set AllScopes"
  shows "(Has (ScopesForRole RoleViewer) want \<longrightarrow> Has (ScopesForRole RoleEditor) want)
       \<and> (Has (ScopesForRole RoleEditor) want \<longrightarrow> Has (ScopesForRole RoleAdmin) want)"
proof -
  have "list_all (\<lambda>w. (Has (ScopesForRole RoleViewer) w \<longrightarrow> Has (ScopesForRole RoleEditor) w)
       \<and> (Has (ScopesForRole RoleEditor) w \<longrightarrow> Has (ScopesForRole RoleAdmin) w)) AllScopes"
    by code_simp
  with assms show ?thesis by (simp add: list_all_iff)
qed

lemma role_hierarchy_witness:
  "''teams:read'' \<in> set AllScopes \<and> Has (ScopesForRole RoleAdmin) ''teams:read''"
proof -
  have "''teams:read'' \<in> set AllScopes" by code_simp
  moreover have "Has (ScopesForRole RoleViewer) ''teams:read''" by code_simp
  ultimately show ?thesis using role_hierarchy [of "''teams:read''"] by blast
qed

text \<open>The admin role satisfies every scope of the catalogue, the editor role none of the
  administrative ones, and an unknown role satisfies none at all.\<close>

lemma role_coverage:
  "list_all (Has (ScopesForRole RoleAdmin)) AllScopes \<and>
   \<not> Has (ScopesForRole RoleEditor) ''members:add'' \<and>
   \<not> Has (ScopesForRole RoleEditor) ''org:delete'' \<and>
   \<not> Has (ScopesForRole RoleEditor) ''authproviders:read'' \<and>
   {r. \<exists>w. Has (ScopesForRole r) w} \<subseteq> {RoleAdmin, RoleEditor, RoleViewer}"
proof -
  have "list_all (Has (ScopesForRole RoleAdmin)) AllScopes" by code_simp
  moreover have "\<not> Has (ScopesForRole RoleEditor) ''members:add''" by code_simp
  moreover have "\<not> Has (ScopesForRole RoleEditor) ''org:delete''" by code_simp
  moreover have "\<not> Has (ScopesForRole RoleEditor) ''authproviders:read''" by code_simp
  ultimately show ?thesis
    by (auto simp: ScopesForRole_def RoleScopes_def split: if_splits)
qed

lemma AllScopes_valid: "s \<in> set AllScopes \<Longrightarrow> ValidScope s"
proof -
  have "list_all ValidScope AllScopes" by code_simp
  then show "s \<in> set AllScopes \<Longrightarrow> ValidScope s" by (simp add: list_all_iff)
qed

text \<open>A scope that is accepted for a grant never reaches outside the catalogue: it is a concrete
  scope of the catalogue, or the wildcard of a resource that has one.\<close>

lemma ValidScope_iff:
  "ValidScope s \<longleftrightarrow> s \<in> set AllScopes \<or> (\<exists>res a. s = scope_of res ''*'' \<and> scope_of res a \<in> set AllScopes
     \<and> CHR '':'' \<notin> set res)"
proof -
  have known: "res \<in> set knownResources \<longleftrightarrow> (\<exists>a. scope_of res a \<in> set AllScopes \<and> CHR '':'' \<notin> set res)" for res
  proof
    assume "res \<in> set knownResources"
    then obtain t where t: "t \<in> set AllScopes"
        and r: "res \<in> set (case Cut t '':'' of (res, _, ok) \<Rightarrow> if ok then [res] else [])"
      by (auto simp: knownResources_def)
    from r obtain a where cut: "Cut t '':'' = (res, a, True)"
      by (cases "Cut t '':''") (auto split: if_splits)
    then obtain a where "t = res @ CHR '':'' # a" "CHR '':'' \<notin> set res" using Cut_iff by metis
    with t show "\<exists>a. scope_of res a \<in> set AllScopes \<and> CHR '':'' \<notin> set res"
      by (auto simp: scope_of_def)
  next
    assume "\<exists>a. scope_of res a \<in> set AllScopes \<and> CHR '':'' \<notin> set res"
    then obtain a where a: "scope_of res a \<in> set AllScopes" "CHR '':'' \<notin> set res" by blast
    then have "Cut (scope_of res a) '':'' = (res, a, True)" by (simp add: Cut_scope_of)
    with a(1) show "res \<in> set knownResources"
      by (force simp: knownResources_def)
  qed
  have no_star: "\<not> (\<exists>res. s = scope_of res ''*'' \<and> CHR '':'' \<notin> set res)" if "s \<in> set AllScopes" for s
  proof -
    have "list_all (\<lambda>t. case Cut t '':'' of (_, a, ok) \<Rightarrow> \<not> (ok \<and> a = ''*'')) AllScopes" by code_simp
    with that have "\<not> (case Cut s '':'' of (_, a, ok) \<Rightarrow> ok \<and> a = ''*'')"
      by (auto simp: list_all_iff)
    then show ?thesis by (auto simp: Cut_scope_of)
  qed
  show ?thesis
  proof (cases "\<exists>res. s = scope_of res ''*'' \<and> CHR '':'' \<notin> set res")
    case True
    then obtain res where res: "s = scope_of res ''*''" "CHR '':'' \<notin> set res" by blast
    have uniq: "res' = res" if "s = scope_of res' ''*''" for res'
      using that res(1) by (simp add: scope_of_def)
    have "ValidScope s \<longleftrightarrow> (\<exists>a. scope_of res a \<in> set AllScopes)"
      using res by (simp add: ValidScope_def Cut_scope_of known)
    moreover have "s \<notin> set AllScopes" using no_star res by blast
    ultimately show ?thesis using res uniq by metis
  next
    case False
    obtain b a ok where cut: "Cut s '':'' = (b, a, ok)" by (metis prod_cases3)
    with wildcard_iff [of b s] False have "\<not> (ok \<and> a = ''*'')" by auto
    with cut have "ValidScope s \<longleftrightarrow> s \<in> set AllScopes" by (auto simp: ValidScope_def)
    with False show ?thesis by blast
  qed
qed

end
