(* ===== verification/Errors.thy ===== *)
theory Errors
  imports GoLib
begin

text \<open>
  Error values. A sentinel error that the code tests with \<open>errors.Is\<close> is a constructor; an error made
  by \<open>fmt.Errorf\<close> keeps its format and its arguments, and \<open>Wrapf\<close> is one that wraps another with
  \<open>%w\<close>. The errors of PostgreSQL are the violations of the constraints that the migrations declare,
  a statement the server refuses to parse, and a lost connection. \<open>GitHubErrorResponse\<close> is the error type of the
  GitHub client library with the status of the response.
\<close>

datatype error =
    Errorf string "string list"
  | Wrapf string "string list" error
  | StoreErrNotFound
  | StoreErrConflict
  | StoreErrTeamNotFound
  | AuthzErrNotFound
  | AuthzErrForbidden
  | UniqueViolation string
  | ForeignKeyViolation string
  | CheckViolation string
  | SyntaxError
  | ConnectionLost
  | GitHubErrorResponse nat

text \<open>\<open>errors.Is\<close>: equal, or wraps an error for which it holds.\<close>

fun errors_Is :: "error \<Rightarrow> error \<Rightarrow> bool" where
  "errors_Is (Wrapf fmt args e) target = (Wrapf fmt args e = target \<or> errors_Is e target)"
| "errors_Is e target = (e = target)"

type_synonym 'a result = "error + 'a"

lemma errors_Is_refl [simp]: "errors_Is e e"
  by (cases e) auto

end
