(* ===== verification/Regex.thy ===== *)
theory Regex
  imports GoLib
begin

text \<open>
  The regular expressions of \<open>identity/provider.go\<close>, each anchored with \<open>^\<close> and \<open>$\<close>, as terms with
  a matcher by derivatives. The matcher is proved equal to membership in the language of the
  expression, and the expressions of the package are characterised below.
\<close>

datatype rexp =
    RNone
  | REps
  | RCls "char \<Rightarrow> bool"
  | RAlt rexp rexp
  | RSeq rexp rexp
  | RStar rexp

definition ROpt :: "rexp \<Rightarrow> rexp" where
  "ROpt r = RAlt REps r"

definition RPlus :: "rexp \<Rightarrow> rexp" where
  "RPlus r = RSeq r (RStar r)"

fun nullable :: "rexp \<Rightarrow> bool" where
  "nullable RNone = False"
| "nullable REps = True"
| "nullable (RCls p) = False"
| "nullable (RAlt r s) = (nullable r \<or> nullable s)"
| "nullable (RSeq r s) = (nullable r \<and> nullable s)"
| "nullable (RStar r) = True"

fun deriv :: "char \<Rightarrow> rexp \<Rightarrow> rexp" where
  "deriv c RNone = RNone"
| "deriv c REps = RNone"
| "deriv c (RCls p) = (if p c then REps else RNone)"
| "deriv c (RAlt r s) = RAlt (deriv c r) (deriv c s)"
| "deriv c (RSeq r s) =
     (if nullable r then RAlt (RSeq (deriv c r) s) (deriv c s) else RSeq (deriv c r) s)"
| "deriv c (RStar r) = RSeq (deriv c r) (RStar r)"

definition MatchString :: "rexp \<Rightarrow> string \<Rightarrow> bool" where
  "MatchString r s = nullable (foldl (\<lambda>q c. deriv c q) r s)"

section \<open>The language of an expression\<close>

inductive_set star :: "string set \<Rightarrow> string set" for A where
  star_Nil [intro, simp]: "[] \<in> star A"
| star_app [intro]: "u \<in> A \<Longrightarrow> v \<in> star A \<Longrightarrow> u @ v \<in> star A"

fun lang :: "rexp \<Rightarrow> string set" where
  "lang RNone = {}"
| "lang REps = {[]}"
| "lang (RCls p) = {[c] |c. p c}"
| "lang (RAlt r s) = lang r \<union> lang s"
| "lang (RSeq r s) = {u @ v |u v. u \<in> lang r \<and> v \<in> lang s}"
| "lang (RStar r) = star (lang r)"

lemma nullable_iff: "nullable r \<longleftrightarrow> [] \<in> lang r"
  by (induction r) auto

lemma star_Cons:
  assumes "c # w \<in> star A"
  shows "\<exists>u v. w = u @ v \<and> c # u \<in> A \<and> v \<in> star A"
proof -
  have "x \<in> star A \<Longrightarrow> x = c # w \<Longrightarrow> \<exists>u v. w = u @ v \<and> c # u \<in> A \<and> v \<in> star A" for x
  proof (induction rule: star.induct)
    case (star_app u v)
    then show ?case by (cases u) auto
  qed simp
  with assms show ?thesis by blast
qed

lemma lang_deriv: "w \<in> lang (deriv c r) \<longleftrightarrow> c # w \<in> lang r"
proof (induction r arbitrary: w)
  case (RSeq r s)
  have "c # w \<in> lang (RSeq r s) \<longleftrightarrow>
      (\<exists>u v. w = u @ v \<and> c # u \<in> lang r \<and> v \<in> lang s) \<or> [] \<in> lang r \<and> c # w \<in> lang s"
    by (auto simp: Cons_eq_append_conv)
  then show ?case using RSeq.IH by (auto simp: nullable_iff)
next
  case (RStar r)
  have "c # w \<in> star (lang r) \<longleftrightarrow> (\<exists>u v. w = u @ v \<and> c # u \<in> lang r \<and> v \<in> star (lang r))"
    using star_Cons by (metis append_Cons star_app)
  then show ?case using RStar.IH by auto
qed auto

lemma MatchString_lang: "MatchString r s \<longleftrightarrow> s \<in> lang r"
proof -
  have "nullable (foldl (\<lambda>q c. deriv c q) r s) \<longleftrightarrow> s \<in> lang r"
    by (induction s arbitrary: r) (auto simp: nullable_iff lang_deriv)
  then show ?thesis by (simp add: MatchString_def)
qed

section \<open>The patterns of provider.go\<close>

definition alnum :: "char \<Rightarrow> bool" where
  "alnum c = (is_lower c \<or> is_digit c)"

definition is_char :: "char \<Rightarrow> char \<Rightarrow> bool" where
  "is_char d c = (c = d)"

definition alnum_dash :: "char \<Rightarrow> bool" where
  "alnum_dash c = (alnum c \<or> c = CHR ''-'')"

text \<open>\<open>^[a-z0-9]+(-[a-z0-9]+)*$\<close>\<close>

definition slugPattern :: rexp where
  "slugPattern =
     RSeq (RPlus (RCls alnum)) (RStar (RSeq (RCls (is_char CHR ''-'')) (RPlus (RCls alnum))))"

text \<open>\<open>^[a-z0-9]([a-z0-9-]*[a-z0-9])?$\<close>\<close>

definition domainLabelPattern :: rexp where
  "domainLabelPattern =
     RSeq (RCls alnum) (ROpt (RSeq (RStar (RCls alnum_dash)) (RCls alnum)))"

text \<open>\<open>[a-z]\<close>, not anchored: a letter occurs somewhere.\<close>

definition domainLetterPattern :: rexp where
  "domainLetterPattern =
     RSeq (RStar (RCls (\<lambda>_. True))) (RSeq (RCls is_lower) (RStar (RCls (\<lambda>_. True))))"

section \<open>What the patterns accept\<close>

lemma star_cls: "s \<in> star {[c] |c. p c} \<longleftrightarrow> (\<forall>c\<in>set s. p c)"
proof
  show "s \<in> star {[c] |c. p c} \<Longrightarrow> \<forall>c\<in>set s. p c"
    by (induction rule: star.induct) auto
  show "\<forall>c\<in>set s. p c \<Longrightarrow> s \<in> star {[c] |c. p c}"
  proof (induction s)
    case (Cons c s)
    then have "[c] @ s \<in> star {[c] |c. p c}" by (intro star_app) auto
    then show ?case by simp
  qed simp
qed

lemma lang_seq: "s \<in> lang (RSeq q r) \<longleftrightarrow> (\<exists>u v. s = u @ v \<and> u \<in> lang q \<and> v \<in> lang r)"
  by simp

lemma lang_cls_seq: "s \<in> lang (RSeq (RCls p) r) \<longleftrightarrow> (\<exists>c w. s = c # w \<and> p c \<and> w \<in> lang r)"
proof
  assume "s \<in> lang (RSeq (RCls p) r)"
  then show "\<exists>c w. s = c # w \<and> p c \<and> w \<in> lang r" unfolding lang_seq by auto
next
  assume "\<exists>c w. s = c # w \<and> p c \<and> w \<in> lang r"
  then obtain c w where "s = [c] @ w" "p c" "w \<in> lang r" by auto
  then show "s \<in> lang (RSeq (RCls p) r)" unfolding lang_seq lang.simps by blast
qed

lemma lang_seq_cls: "s \<in> lang (RSeq r (RCls p)) \<longleftrightarrow> (\<exists>w c. s = w @ [c] \<and> p c \<and> w \<in> lang r)"
  unfolding lang_seq lang.simps by blast

lemma lang_opt: "s \<in> lang (ROpt r) \<longleftrightarrow> s = [] \<or> s \<in> lang r"
  by (simp add: ROpt_def)

lemma lang_star_cls: "s \<in> lang (RStar (RCls p)) \<longleftrightarrow> (\<forall>c\<in>set s. p c)"
  by (simp add: star_cls)

lemma lang_plus_cls: "s \<in> lang (RPlus (RCls p)) \<longleftrightarrow> s \<noteq> [] \<and> (\<forall>c\<in>set s. p c)"
  by (cases s) (simp_all add: RPlus_def lang_cls_seq lang_star_cls del: lang.simps)

text \<open>A repeated word \<open>-w\<close> is a string that starts with \<open>-\<close> and whose dash-separated parts are words.\<close>

definition word_ok :: "string \<Rightarrow> bool" where
  "word_ok w = (w \<noteq> [] \<and> list_all alnum w)"

lemma alnum_not_dash: "alnum c \<Longrightarrow> c \<noteq> CHR ''-''"
  by (auto simp: alnum_def is_lower_def is_digit_def Let_def)

lemma Split_word_tail:
  "CHR ''-'' \<notin> set w \<Longrightarrow> Split (w @ CHR ''-'' # r) CHR ''-'' = w # Split r CHR ''-''"
  by (induction w) auto

lemma Split_word: "CHR ''-'' \<notin> set w \<Longrightarrow> Split w CHR ''-'' = [w]"
  by (induction w) auto

lemma slug_star_iff:
  "s \<in> star {CHR ''-'' # w |w. word_ok w} \<longleftrightarrow>
     s = [] \<or> (\<exists>r. s = CHR ''-'' # r \<and> list_all word_ok (Split r CHR ''-''))"
    (is "?L s \<longleftrightarrow> ?R s")
proof
  show "?L s \<Longrightarrow> ?R s"
  proof (induction rule: star.induct)
    case (star_app u v)
    then obtain w where w: "u = CHR ''-'' # w" "word_ok w" by auto
    then have nd: "CHR ''-'' \<notin> set w"
      by (auto simp: word_ok_def list_all_iff dest: alnum_not_dash)
    show ?case
      using star_app.IH w nd by (auto simp: Split_word Split_word_tail)
  qed simp
next
  have "list_all word_ok (Split r CHR ''-'') \<Longrightarrow> CHR ''-'' # r \<in> star {CHR ''-'' # w |w. word_ok w}" for r
  proof (induction "length r" arbitrary: r rule: less_induct)
    case less
    show ?case
    proof (cases "CHR ''-'' \<in> set r")
      case True
      then obtain w r' where r: "r = w @ CHR ''-'' # r'" "CHR ''-'' \<notin> set w"
        by (metis split_list_first)
      with less.prems have "word_ok w" and "list_all word_ok (Split r' CHR ''-'')"
        by (auto simp: Split_word_tail)
      with less.hyps [of r'] r have "(CHR ''-'' # w) @ (CHR ''-'' # r') \<in> star {CHR ''-'' # w |w. word_ok w}"
        by (intro star_app) auto
      with r show ?thesis by simp
    next
      case False
      with less.prems have "word_ok r" by (simp add: Split_word)
      then have "(CHR ''-'' # r) @ [] \<in> star {CHR ''-'' # w |w. word_ok w}"
        by (intro star_app) auto
      then show ?thesis by simp
    qed
  qed
  then show "?R s \<Longrightarrow> ?L s" by auto
qed

lemma slugPattern_iff:
  "MatchString slugPattern s \<longleftrightarrow> list_all word_ok (Split s CHR ''-'')"
proof -
  have word: "(w \<noteq> [] \<and> (\<forall>c\<in>set w. alnum c)) \<longleftrightarrow> word_ok w" for w
    by (simp add: word_ok_def list_all_iff)
  have star_lang: "lang (RSeq (RCls (is_char CHR ''-'')) (RPlus (RCls alnum)))
      = {CHR ''-'' # w |w. word_ok w}"
    by (auto simp: lang_cls_seq lang_plus_cls word is_char_def simp del: lang.simps)
  have "s \<in> lang slugPattern \<longleftrightarrow>
      (\<exists>u v. s = u @ v \<and> word_ok u \<and> v \<in> star {CHR ''-'' # w |w. word_ok w})"
    by (simp only: slugPattern_def lang_seq lang_plus_cls word lang.simps(6) star_lang)
  also have "\<dots> \<longleftrightarrow> list_all word_ok (Split s CHR ''-'')"
  proof
    assume "\<exists>u v. s = u @ v \<and> word_ok u \<and> v \<in> star {CHR ''-'' # w |w. word_ok w}"
    then obtain u v where s: "s = u @ v" "word_ok u" "v \<in> star {CHR ''-'' # w |w. word_ok w}" by blast
    then have "CHR ''-'' \<notin> set u"
      by (auto simp: word_ok_def list_all_iff dest: alnum_not_dash)
    with s show "list_all word_ok (Split s CHR ''-'')"
      by (auto simp: slug_star_iff Split_word Split_word_tail)
  next
    assume ok: "list_all word_ok (Split s CHR ''-'')"
    show "\<exists>u v. s = u @ v \<and> word_ok u \<and> v \<in> star {CHR ''-'' # w |w. word_ok w}"
    proof (cases "CHR ''-'' \<in> set s")
      case True
      then obtain u r where "s = u @ CHR ''-'' # r" "CHR ''-'' \<notin> set u"
        by (metis split_list_first)
      with ok show ?thesis
        by (intro exI [of _ u] exI [of _ "CHR ''-'' # r"]) (simp add: Split_word_tail slug_star_iff)
    next
      case False
      with ok show ?thesis by (intro exI [of _ s] exI [of _ "[]"]) (simp add: Split_word)
    qed
  qed
  finally show ?thesis by (simp add: MatchString_lang)
qed

lemma domainLabelPattern_iff:
  "MatchString domainLabelPattern s \<longleftrightarrow>
     s \<noteq> [] \<and> alnum (hd s) \<and> alnum (last s) \<and> list_all alnum_dash s"
proof -
  have "s \<in> lang domainLabelPattern \<longleftrightarrow>
      (\<exists>c. s = [c] \<and> alnum c) \<or>
      (\<exists>c u d. s = c # u @ [d] \<and> alnum c \<and> alnum d \<and> list_all alnum_dash u)"
    unfolding domainLabelPattern_def lang_cls_seq lang_opt lang_seq_cls lang_star_cls list_all_iff
    by blast
  also have "\<dots> \<longleftrightarrow> s \<noteq> [] \<and> alnum (hd s) \<and> alnum (last s) \<and> list_all alnum_dash s"
  proof (cases s rule: rev_cases)
    case (snoc ys y)
    then show ?thesis by (cases ys) (auto simp: alnum_dash_def)
  qed simp
  finally show ?thesis by (simp add: MatchString_lang)
qed

lemma domainLetterPattern_iff: "MatchString domainLetterPattern s \<longleftrightarrow> list_ex is_lower s"
proof -
  have "s \<in> lang domainLetterPattern \<longleftrightarrow> (\<exists>u c v. s = u @ c # v \<and> is_lower c)"
  proof -
    have "s \<in> lang domainLetterPattern \<longleftrightarrow>
        (\<exists>u v. s = u @ v \<and> u \<in> lang (RStar (RCls (\<lambda>_. True))) \<and>
           v \<in> lang (RSeq (RCls is_lower) (RStar (RCls (\<lambda>_. True)))))"
      unfolding domainLetterPattern_def by (rule lang_seq)
    then show ?thesis unfolding lang_cls_seq lang_star_cls by blast
  qed
  also have "\<dots> \<longleftrightarrow> list_ex is_lower s"
    unfolding list_ex_iff Bex_def in_set_conv_decomp by blast
  finally show ?thesis by (simp add: MatchString_lang)
qed

end
