(* ===== verification/Provider.thy ===== *)
theory Provider
  imports Authz Errors Regex
begin

text \<open>
  \<open>internal/identity/provider.go\<close>: validation of identity providers, the e-mail domain filter of a
  provider, and the normal form of an organisation's domain. The theorems characterise what the
  validators accept without the regular expressions they are written with.
\<close>

definition KindOIDC :: string where "KindOIDC = ''oidc''"
definition KindSAML :: string where "KindSAML = ''saml''"
definition TypeGeneric :: string where "TypeGeneric = ''generic''"
definition TypeEntra :: string where "TypeEntra = ''entra''"
definition TypeOkta :: string where "TypeOkta = ''okta''"

definition ValidateSlug :: "string \<Rightarrow> error option" where
  "ValidateSlug slug =
     (if slug = [] then Some (Errorf ''identity: slug is required'' [])
      else if length slug < 2 \<or> length slug > 63
      then Some (Errorf ''identity: slug must be between 2 and 63 characters'' [])
      else if \<not> MatchString slugPattern slug
      then Some (Errorf ''identity: slug must be lowercase letters, digits and single hyphens, e.g. acme-okta'' [])
      else None)"

definition Validate :: "auth_provider \<Rightarrow> error option" where
  "Validate p =
     (if TrimSpace (apOrgID p) = [] then Some (Errorf ''identity: orgId is required'' [])
      else case ValidateSlug (apSlug p) of Some err \<Rightarrow> Some err
      | None \<Rightarrow>
        if TrimSpace (apDisplayName p) = [] then Some (Errorf ''identity: displayName is required'' [])
        else if apDefaultRole p \<noteq> RoleAdmin \<and> apDefaultRole p \<noteq> RoleEditor \<and> apDefaultRole p \<noteq> RoleViewer
        then Some (Errorf ''identity: unknown default role %q'' [apDefaultRole p])
        else if apKind p = KindOIDC then
          (if apType p \<noteq> TypeGeneric \<and> apType p \<noteq> TypeEntra \<and> apType p \<noteq> TypeOkta
           then Some (Errorf ''identity: unknown oidc type %q'' [apType p])
           else if TrimSpace (apClientID p) = []
           then Some (Errorf ''identity: clientId is required for oidc providers'' [])
           else if TrimSpace (apAuthURL p) = [] \<or> TrimSpace (apTokenURL p) = []
           then Some (Errorf ''identity: authUrl and tokenUrl are required for oidc providers'' [])
           else None)
        else if apKind p = KindSAML then
          (if TrimSpace (apIDPSSOURL p) = []
           then Some (Errorf ''identity: idpSsoUrl is required for saml providers'' [])
           else if TrimSpace (apIDPCert p) = []
           then Some (Errorf ''identity: idpCert is required for saml providers'' [])
           else None)
        else Some (Errorf ''identity: unknown provider kind %q'' [apKind p]))"

definition EmailAllowed :: "auth_provider \<Rightarrow> string \<Rightarrow> bool" where
  "EmailAllowed p email =
     (if TrimSpace (apAllowedDomains p) = [] then True
      else let at = LastIndex email CHR ''@'' in
        if at < 0 then False
        else let domain = ToLower (drop (nat at + 1) email) in
          list_ex (\<lambda>d. ToLower (TrimSpace d) = domain) (Split (apAllowedDomains p) CHR '',''))"

definition NormalizeOrgDomain :: "string \<Rightarrow> string result" where
  "NormalizeOrgDomain value =
     (let domain = TrimSpace value;
          domain = TrimPrefix domain ''@'';
          domain = ToLower (TrimSpace domain)
      in if length domain < 3 \<or> length domain > 253
         then Inl (Errorf ''identity: invalid organization domain'' [])
         else let labels = Split domain CHR ''.'' in
           if length labels < 2 then Inl (Errorf ''identity: invalid organization domain'' [])
           else if list_ex (\<lambda>label. length label < 1 \<or> length label > 63
                     \<or> \<not> MatchString domainLabelPattern label) labels
           then Inl (Errorf ''identity: invalid organization domain'' [])
           else if \<not> MatchString domainLetterPattern (last labels)
           then Inl (Errorf ''identity: invalid organization domain'' [])
           else Inr domain)"

section \<open>Slugs\<close>

text \<open>A slug is accepted exactly when it has 2 to 63 bytes and its hyphen-separated parts are
  all non-empty words of lower-case letters and digits.\<close>

lemma ValidateSlug_iff:
  "ValidateSlug slug = None \<longleftrightarrow>
     2 \<le> length slug \<and> length slug \<le> 63 \<and> list_all word_ok (Split slug CHR ''-'')"
  by (auto simp: ValidateSlug_def slugPattern_iff)

text \<open>A provider that validates has an organisation, a valid slug, one of the three roles as its
  default and one of the two kinds with the endpoints that kind needs.\<close>

lemma Validate_iff:
  "Validate p = None \<longleftrightarrow>
     TrimSpace (apOrgID p) \<noteq> [] \<and> ValidateSlug (apSlug p) = None \<and> TrimSpace (apDisplayName p) \<noteq> [] \<and>
     RoleScopes (apDefaultRole p) \<noteq> None \<and>
     (apKind p = KindOIDC \<and> List.member [TypeGeneric, TypeEntra, TypeOkta] (apType p) \<and>
        TrimSpace (apClientID p) \<noteq> [] \<and> TrimSpace (apAuthURL p) \<noteq> [] \<and> TrimSpace (apTokenURL p) \<noteq> []
      \<or> apKind p = KindSAML \<and> TrimSpace (apIDPSSOURL p) \<noteq> [] \<and> TrimSpace (apIDPCert p) \<noteq> [])"
proof -
  have roles: "RoleScopes r \<noteq> None \<longleftrightarrow> r = RoleAdmin \<or> r = RoleEditor \<or> r = RoleViewer" for r
    by (auto simp: RoleScopes_def)
  have kinds: "KindSAML \<noteq> KindOIDC" by (simp add: KindOIDC_def KindSAML_def)
  show ?thesis
    unfolding Validate_def roles using kinds by (simp split: option.split)
qed

section \<open>E-mail domains\<close>

lemma LastIndex_append:
  "c \<notin> set d \<Longrightarrow> LastIndex (l @ c # d) c = int (length l)"
proof (induction l)
  case Nil
  have "LastIndex d c = -1" using Nil by (induction d) (auto simp: Let_def)
  then show ?case by (simp add: Let_def)
qed (auto simp: Let_def)

lemma LastIndex_none: "LastIndex s c < 0 \<longleftrightarrow> c \<notin> set s"
  by (induction s) (auto simp: Let_def)

text \<open>With a domain list configured, an address is admitted exactly when the part after its last
  \<open>@\<close> is, without regard to case and surrounding space, an entry of the list.\<close>

lemma EmailAllowed_iff:
  assumes "TrimSpace (apAllowedDomains p) \<noteq> []"
  shows "EmailAllowed p email \<longleftrightarrow>
     (\<exists>local dom d. email = local @ CHR ''@'' # dom \<and> CHR ''@'' \<notin> set dom \<and>
        d \<in> set (Split (apAllowedDomains p) CHR '','') \<and> EqualFold (TrimSpace d) dom)"
proof (cases "CHR ''@'' \<in> set email")
  case True
  then obtain l dom where e: "email = l @ CHR ''@'' # dom" "CHR ''@'' \<notin> set dom"
    by (metis split_list_last)
  have uniq: "l' = l \<and> dom' = dom" if "email = l' @ CHR ''@'' # dom'" "CHR ''@'' \<notin> set dom'" for l' dom'
  proof -
    have "length l' = length l"
      using LastIndex_append [OF that(2), of l'] LastIndex_append [OF e(2), of l] that(1) e(1)
      by (metis of_nat_eq_iff)
    moreover have "l' @ CHR ''@'' # dom' = l @ CHR ''@'' # dom" using that(1) e(1) by metis
    ultimately show ?thesis by simp
  qed
  have "EmailAllowed p email \<longleftrightarrow>
      (\<exists>d\<in>set (Split (apAllowedDomains p) CHR '',''). ToLower (TrimSpace d) = ToLower dom)"
    using assms LastIndex_append [OF e(2), of l] e(1)
    by (simp add: EmailAllowed_def list_ex_iff del: LastIndex.simps)
  then show ?thesis unfolding EqualFold_def using e uniq by metis
next
  case False
  with LastIndex_none [of email "CHR ''@''"] have "LastIndex email CHR ''@'' < 0" by blast
  with assms False show ?thesis by (auto simp: EmailAllowed_def)
qed

lemma EmailAllowed_iff_witness:
  "let p = AuthProvider_zero\<lparr>apAllowedDomains := ''beta.org, acme.io''\<rparr> in
     EmailAllowed p ''x@Acme.io'' \<longleftrightarrow>
     (\<exists>local dom d. ''x@Acme.io'' = local @ CHR ''@'' # dom \<and> CHR ''@'' \<notin> set dom \<and>
        d \<in> set (Split (apAllowedDomains p) CHR '','') \<and> EqualFold (TrimSpace d) dom)"
  unfolding Let_def by (rule EmailAllowed_iff) code_simp

section \<open>Organisation domains\<close>

text \<open>The CHECK constraint on \<open>org_domains.domain\<close> (migration 0070), as the shape of its labels.\<close>

definition label_ok :: "string \<Rightarrow> bool" where
  "label_ok l = (1 \<le> length l \<and> length l \<le> 63 \<and> list_all alnum_dash l \<and> alnum (hd l) \<and> alnum (last l))"

definition domain_ok :: "string \<Rightarrow> bool" where
  "domain_ok d =
     (3 \<le> length d \<and> length d \<le> 253 \<and> 2 \<le> length (Split d CHR ''.'') \<and>
      list_all label_ok (Split d CHR ''.'') \<and> list_ex is_lower (last (Split d CHR ''.'')))"

text \<open>A domain is accepted exactly when what is left after trimming, dropping one leading \<open>@\<close> and
  lower-casing satisfies the format that the table \<open>org_domains\<close> demands, and that is what is
  returned.\<close>

lemma NormalizeOrgDomain_iff:
  "NormalizeOrgDomain value = Inr d \<longleftrightarrow>
     d = ToLower (TrimSpace (TrimPrefix (TrimSpace value) ''@'')) \<and> domain_ok d"
proof -
  have label: "label_ok l \<longleftrightarrow> \<not> (length l < 1 \<or> length l > 63 \<or> \<not> MatchString domainLabelPattern l)" for l
    by (cases l) (auto simp: label_ok_def domainLabelPattern_iff)
  have neg: "\<not> list_ex (\<lambda>l. \<not> Q l) ls \<longleftrightarrow> list_all Q ls" for Q :: "string \<Rightarrow> bool" and ls
    by (auto simp: list_ex_iff list_all_iff)
  have labels: "list_all label_ok ls \<longleftrightarrow>
      \<not> list_ex (\<lambda>l. length l < 1 \<or> length l > 63 \<or> \<not> MatchString domainLabelPattern l) ls" for ls
    using neg [of label_ok ls] by (simp only: label not_not)
  show ?thesis
    unfolding NormalizeOrgDomain_def domain_ok_def labels domainLetterPattern_iff Let_def by auto
qed

lemma domain_ok_chars:
  assumes "domain_ok d"
  shows "\<forall>c\<in>set d. c = CHR ''.'' \<or> alnum_dash c" and "d \<noteq> []"
proof -
  from assms have "\<forall>w\<in>set (Split d CHR ''.''). \<forall>c\<in>set w. alnum_dash c"
    by (auto simp: domain_ok_def label_ok_def list_all_iff)
  then have "\<forall>c\<in>(\<Union>w\<in>set (Split d CHR ''.''). set w). alnum_dash c" by blast
  then show "\<forall>c\<in>set d. c = CHR ''.'' \<or> alnum_dash c"
    unfolding set_concat_Split by blast
  from assms show "d \<noteq> []" by (auto simp: domain_ok_def)
qed

lemma alnum_dash_props:
  assumes "c = CHR ''.'' \<or> alnum_dash c"
  shows "\<not> isSpace c" and "lower_char c = c" and "c \<noteq> CHR ''@''"
  using assms
  by (auto simp: isSpace_def lower_char_def alnum_dash_def alnum_def is_lower_def is_digit_def Let_def)

lemma TrimSpace_no_space: "\<forall>c\<in>set s. \<not> isSpace c \<Longrightarrow> TrimSpace s = s"
proof -
  assume "\<forall>c\<in>set s. \<not> isSpace c"
  then have "dropWhile isSpace s = s" and "dropWhile isSpace (rev s) = rev s"
    by (cases s, simp_all) (cases s rule: rev_cases, simp_all)
  then show ?thesis by (simp add: TrimSpace_def)
qed

lemma domain_ok_normal:
  assumes "domain_ok d"
  shows "ToLower (TrimSpace (TrimPrefix (TrimSpace d) ''@'')) = d"
proof -
  note chars = domain_ok_chars [OF assms] and props = alnum_dash_props
  have "TrimSpace d = d" using chars props by (blast intro: TrimSpace_no_space)
  moreover have "TrimPrefix d ''@'' = d"
    using chars props(3) by (cases d) (auto simp: TrimPrefix_def HasPrefix_def)
  moreover have "ToLower d = d"
    using chars(1) props(2) unfolding ToLower_def by (simp add: map_idI)
  ultimately show ?thesis by simp
qed

text \<open>Normalisation is idempotent: a domain that it returns is a fixed point, so a stored domain
  compares equal to a newly normalised one.\<close>

lemma NormalizeOrgDomain_idem:
  assumes "NormalizeOrgDomain value = Inr d"
  shows "NormalizeOrgDomain d = Inr d"
proof -
  from assms have "domain_ok d" unfolding NormalizeOrgDomain_iff by blast
  then show ?thesis using domain_ok_normal [of d] by (simp add: NormalizeOrgDomain_iff)
qed

end
