(* ===== verification/Rolemap.thy ===== *)
theory Rolemap
  imports Authz Errors
begin

text \<open>
  Package \<open>internal/rolemap\<close>: rules that derive a member's role from the attributes an identity
  provider asserts. The theorems show that \<open>Resolve\<close> takes the first matching rule in the order of
  priority, position breaking ties, and that rules that pass \<open>ValidateRule\<close> never fail.

  \<open>any\<close> is the dynamic value of a decoded JSON document; a number keeps the text that \<open>%v\<close> prints.
  The argument \<open>Compile\<close> stands for \<open>regexp.Compile\<close>: \<open>None\<close> is a pattern that does not compile.
\<close>

datatype any =
    ANil
  | AString string
  | AStrings "string list"
  | AList "any list"
  | AMap "(string \<times> any) list"
  | ABool bool
  | ANumber string

record rule =
  rID :: string
  rProviderID :: string
  rPriority :: int
  rAttributeKey :: string
  rOperator :: string
  rAttributeValue :: string
  rRole :: role

definition OpEquals :: string where "OpEquals = ''equals''"
definition OpNotEquals :: string where "OpNotEquals = ''notEquals''"
definition OpContains :: string where "OpContains = ''contains''"
definition OpNotContains :: string where "OpNotContains = ''notContains''"
definition OpStartsWith :: string where "OpStartsWith = ''startsWith''"
definition OpEndsWith :: string where "OpEndsWith = ''endsWith''"
definition OpExists :: string where "OpExists = ''exists''"
definition OpNotExists :: string where "OpNotExists = ''notExists''"
definition OpRegex :: string where "OpRegex = ''regex''"

lemmas operator_defs = OpEquals_def OpNotEquals_def OpContains_def OpNotContains_def OpStartsWith_def
  OpEndsWith_def OpExists_def OpNotExists_def OpRegex_def

definition ValidOperators :: "string list" where
  "ValidOperators = [OpEquals, OpNotEquals, OpContains, OpNotContains, OpStartsWith, OpEndsWith,
     OpExists, OpNotExists, OpRegex]"

definition ValidOperator :: "string \<Rightarrow> bool" where
  "ValidOperator op = list_ex (\<lambda>v. v = op) ValidOperators"

definition TakesValue :: "string \<Rightarrow> bool" where
  "TakesValue op = (if op = OpExists \<or> op = OpNotExists then False else True)"

definition ValidateRule :: "(string \<Rightarrow> (string \<Rightarrow> bool) option) \<Rightarrow> rule \<Rightarrow> error option" where
  "ValidateRule Compile r =
     (if TrimSpace (rAttributeKey r) = [] then Some (Errorf ''rolemap: attribute key is required'' [])
      else if \<not> ValidOperator (rOperator r)
      then Some (Errorf ''rolemap: unknown operator %q'' [rOperator r])
      else if TakesValue (rOperator r) \<and> rAttributeValue r = []
      then Some (Errorf ''rolemap: operator %q requires a value'' [rOperator r])
      else if rOperator r = OpRegex \<and> Compile (rAttributeValue r) = None
      then Some (Errorf ''rolemap: invalid regex %q: %w'' [rAttributeValue r])
      else if rRole r \<noteq> RoleAdmin \<and> rRole r \<noteq> RoleEditor \<and> rRole r \<noteq> RoleViewer
      then Some (Errorf ''rolemap: unknown role %q'' [rRole r])
      else None)"

section \<open>Attribute lookup\<close>

text \<open>\<open>fmt.Sprintf("%v", x)\<close>; the keys of a map are printed in sorted order.\<close>

fun intersperse :: "string list \<Rightarrow> string" where
  "intersperse [] = []"
| "intersperse [x] = x"
| "intersperse (x # y # ys) = x @ '' '' @ intersperse (y # ys)"

fun Sprintv :: "any \<Rightarrow> string" where
  "Sprintv ANil = ''<nil>''"
| "Sprintv (AString s) = s"
| "Sprintv (AStrings ss) = ''['' @ intersperse ss @ '']''"
| "Sprintv (AList vs) = ''['' @ intersperse (map Sprintv vs) @ '']''"
| "Sprintv (AMap kvs) =
     ''map['' @ intersperse (map (\<lambda>(k, t). k @ '':'' @ t)
                (sort_key fst (map (\<lambda>(k, v). (k, Sprintv v)) kvs))) @ '']''"
| "Sprintv (ABool b) = (if b then ''true'' else ''false'')"
| "Sprintv (ANumber t) = t"

lemma Cut_shorter: "(b, a, True) = Cut s [c] \<Longrightarrow> length a < length s"
  using Cut_iff [of s c b a] by auto

function Lookup :: "(string \<times> any) list \<Rightarrow> string \<Rightarrow> any" where
  "Lookup attrs key =
     (case map_of attrs key of Some val \<Rightarrow> val
      | None \<Rightarrow>
        (case Cut key ''.'' of (part0, part1, found) \<Rightarrow>
           (case map_of attrs part0 of None \<Rightarrow> ANil
            | Some val \<Rightarrow>
              if \<not> found then val
              else (case val of AMap nested \<Rightarrow> Lookup nested part1 | _ \<Rightarrow> ANil))))"
  by pat_completeness auto

termination
  by (relation "measure (\<lambda>(attrs, key). length key)") (auto dest: Cut_shorter)

declare Lookup.simps [simp del]

definition stringValues :: "any \<Rightarrow> string list" where
  "stringValues raw =
     (case raw of ANil \<Rightarrow> []
      | AString s \<Rightarrow> [s]
      | AStrings ss \<Rightarrow> ss
      | AList vs \<Rightarrow> concat (map (\<lambda>item. case item of ANil \<Rightarrow> [] | AString s \<Rightarrow> [s] | _ \<Rightarrow> [Sprintv item]) vs)
      | _ \<Rightarrow> [Sprintv raw])"

section \<open>Matching and resolution\<close>

definition Match ::
  "(string \<Rightarrow> (string \<Rightarrow> bool) option) \<Rightarrow> rule \<Rightarrow> (string \<times> any) list \<Rightarrow> bool result" where
  "Match Compile r attrs =
     (let raw = Lookup attrs (rAttributeKey r);
          present = (raw \<noteq> ANil);
          values = stringValues raw
      in if rOperator r = OpExists then Inr present
         else if rOperator r = OpNotExists then Inr (\<not> present)
         else if rOperator r = OpEquals then Inr (list_ex (\<lambda>v. v = rAttributeValue r) values)
         else if rOperator r = OpNotEquals then
           (if \<not> present then Inr False
            else Inr (\<not> list_ex (\<lambda>v. v = rAttributeValue r) values))
         else if rOperator r = OpContains then Inr (list_ex (\<lambda>v. Contains v (rAttributeValue r)) values)
         else if rOperator r = OpNotContains then
           (if \<not> present then Inr False
            else Inr (\<not> list_ex (\<lambda>v. Contains v (rAttributeValue r)) values))
         else if rOperator r = OpStartsWith then Inr (list_ex (\<lambda>v. HasPrefix v (rAttributeValue r)) values)
         else if rOperator r = OpEndsWith then Inr (list_ex (\<lambda>v. HasSuffix v (rAttributeValue r)) values)
         else if rOperator r = OpRegex then
           (case Compile (rAttributeValue r) of
              None \<Rightarrow> Inl (Errorf ''rolemap: rule %s: invalid regex %q: %w'' [rID r, rAttributeValue r])
            | Some re \<Rightarrow> Inr (list_ex re values))
         else Inl (Errorf ''rolemap: rule %s: unknown operator %q'' [rID r, rOperator r]))"

text \<open>The loop over the ordered rules, then \<open>Resolve\<close>, which orders them by a stable sort.\<close>

fun resolve_loop ::
  "(string \<Rightarrow> (string \<Rightarrow> bool) option) \<Rightarrow> rule list \<Rightarrow> (string \<times> any) list \<Rightarrow> role \<Rightarrow> role result" where
  "resolve_loop Compile [] attrs defaultRole = Inr defaultRole"
| "resolve_loop Compile (r # rs) attrs defaultRole =
     (case Match Compile r attrs of
        Inl err \<Rightarrow> Inl err
      | Inr matched \<Rightarrow> if matched then Inr (rRole r) else resolve_loop Compile rs attrs defaultRole)"

definition Resolve ::
  "(string \<Rightarrow> (string \<Rightarrow> bool) option) \<Rightarrow> rule list \<Rightarrow> (string \<times> any) list \<Rightarrow> role \<Rightarrow> role result" where
  "Resolve Compile rules attrs defaultRole =
     resolve_loop Compile (sort_key rPriority rules) attrs defaultRole"

section \<open>The order of rules\<close>

definition example_rule :: rule where
  "example_rule = \<lparr>rID = ''r1'', rProviderID = ''p1'', rPriority = 1, rAttributeKey = ''groups.main'',
     rOperator = OpEquals, rAttributeValue = ''ops'', rRole = RoleAdmin\<rparr>"

lemma resolve_loop_iff:
  "resolve_loop Compile rs attrs d = Inr role \<longleftrightarrow>
     (\<exists>A r B. rs = A @ r # B \<and> (\<forall>a\<in>set A. Match Compile a attrs = Inr False)
        \<and> Match Compile r attrs = Inr True \<and> role = rRole r)
     \<or> (\<forall>a\<in>set rs. Match Compile a attrs = Inr False) \<and> role = d"
proof (induction rs)
  case (Cons x xs)
  have split: "(\<exists>A r B. x # xs = A @ r # B \<and> (\<forall>a\<in>set A. P a) \<and> Q r) \<longleftrightarrow>
      Q x \<or> P x \<and> (\<exists>A r B. xs = A @ r # B \<and> (\<forall>a\<in>set A. P a) \<and> Q r)" for P Q
  proof
    assume "\<exists>A r B. x # xs = A @ r # B \<and> (\<forall>a\<in>set A. P a) \<and> Q r"
    then obtain A r B where "x # xs = A @ r # B" "\<forall>a\<in>set A. P a" "Q r" by blast
    then show "Q x \<or> P x \<and> (\<exists>A r B. xs = A @ r # B \<and> (\<forall>a\<in>set A. P a) \<and> Q r)"
      by (cases A) auto
  next
    assume "Q x \<or> P x \<and> (\<exists>A r B. xs = A @ r # B \<and> (\<forall>a\<in>set A. P a) \<and> Q r)"
    then show "\<exists>A r B. x # xs = A @ r # B \<and> (\<forall>a\<in>set A. P a) \<and> Q r"
    proof
      assume "P x \<and> (\<exists>A r B. xs = A @ r # B \<and> (\<forall>a\<in>set A. P a) \<and> Q r)"
      then obtain A r B where "P x" "xs = A @ r # B" "\<forall>a\<in>set A. P a" "Q r" by blast
      then have "x # xs = (x # A) @ r # B \<and> (\<forall>a\<in>set (x # A). P a) \<and> Q r" by simp
      then show ?thesis by blast
    qed (metis append_Nil empty_iff empty_set)
  qed
  show ?case
    unfolding split using Cons.IH
    by (cases "Match Compile x attrs") (auto split: if_splits)
qed auto

lemma sorted_prefix_class:
  assumes "sorted (map k xs)" and "xs = A @ r # B"
  shows "set A \<supseteq> {x \<in> set xs. k x < k r}" and "\<forall>a\<in>set A. k a \<le> k r"
    and "filter (\<lambda>x. k x = k r) xs = filter (\<lambda>x. k x = k r) A @ r # filter (\<lambda>x. k x = k r) B"
proof -
  from assms have "\<forall>b\<in>set B. k r \<le> k b" and "\<forall>a\<in>set A. k a \<le> k r"
    by (auto simp: sorted_append)
  with assms(2) show "set A \<supseteq> {x \<in> set xs. k x < k r}" and "\<forall>a\<in>set A. k a \<le> k r"
    by fastforce+
qed (simp add: assms(2))

lemma filter_decomp:
  "filter Q xs = A @ r # B \<Longrightarrow> \<exists>us vs. xs = us @ r # vs \<and> A = filter Q us"
proof (induction xs arbitrary: A)
  case (Cons x xs)
  show ?case
  proof (cases "Q x \<and> A = []")
    case True
    with Cons.prems have "x # xs = [] @ r # xs \<and> A = filter Q []" by simp
    then show ?thesis by blast
  next
    case False
    with Cons.prems obtain A' where "filter Q xs = A' @ r # B" "A = (if Q x then x # A' else A')"
      by (cases A) (auto split: if_splits)
    with Cons.IH [of A'] obtain us vs where "x # xs = (x # us) @ r # vs" "A = filter Q (x # us)"
      by auto
    then show ?thesis by blast
  qed
qed simp

lemma resolve_sorted_iff:
  fixes k :: "'r \<Rightarrow> int"
  assumes "sorted (map k xs)"
  shows "(\<exists>A r B. xs = A @ r # B \<and> (\<forall>a\<in>set A. P a) \<and> Q r) \<longleftrightarrow>
     (\<exists>A r B. filter (\<lambda>x. k x = k r) xs = A @ r # B \<and> (\<forall>a\<in>set A. P a)
        \<and> (\<forall>x\<in>set xs. k x < k r \<longrightarrow> P x) \<and> Q r)" (is "?L \<longleftrightarrow> ?R")
proof
  assume ?L
  then obtain A r B where d: "xs = A @ r # B" "\<forall>a\<in>set A. P a" "Q r" by blast
  note c = sorted_prefix_class [OF assms d(1)]
  have "\<forall>a\<in>set (filter (\<lambda>x. k x = k r) A). P a" using d(2) by simp
  moreover have "\<forall>x\<in>set xs. k x < k r \<longrightarrow> P x" using c(1) d(2) by blast
  ultimately show ?R using c(3) d(3) by blast
next
  assume ?R
  then obtain A r B where d: "filter (\<lambda>x. k x = k r) xs = A @ r # B" "\<forall>a\<in>set A. P a"
      "\<forall>x\<in>set xs. k x < k r \<longrightarrow> P x" "Q r" by blast
  from d(1) obtain us vs where xs: "xs = us @ r # vs" and A: "A = filter (\<lambda>x. k x = k r) us"
    using filter_decomp [OF d(1)] by blast
  from sorted_prefix_class(2) [OF assms xs] have "\<forall>u\<in>set us. k u \<le> k r" .
  then have "\<forall>u\<in>set us. k u < k r \<or> u \<in> set A" by (auto simp: A)
  with d(2,3) xs have "\<forall>u\<in>set us. P u" by auto
  with xs d(4) show ?L by blast
qed

text \<open>C17. \<open>Resolve\<close> returns the role of the rule that comes first among the matching ones in the
  order of priority, the earlier rule of the list first where priorities are equal, and the default
  role when no rule matches.\<close>

theorem Resolve_first_match:
  "Resolve Compile rules attrs defaultRole = Inr role \<longleftrightarrow>
     (\<exists>A r B. filter (\<lambda>x. rPriority x = rPriority r) rules = A @ r # B \<and>
        (\<forall>a\<in>set A. Match Compile a attrs = Inr False) \<and>
        (\<forall>x\<in>set rules. rPriority x < rPriority r \<longrightarrow> Match Compile x attrs = Inr False) \<and>
        Match Compile r attrs = Inr True \<and> role = rRole r)
     \<or> (\<forall>r\<in>set rules. Match Compile r attrs = Inr False) \<and> role = defaultRole"
proof -
  have stable: "filter (\<lambda>x. rPriority x = v) (sort_key rPriority rules)
      = filter (\<lambda>x. rPriority x = v) rules" for v
    by (rule sort_key_stable)
  show ?thesis
    unfolding Resolve_def resolve_loop_iff
    by (subst resolve_sorted_iff [where k = rPriority]) (simp_all add: stable)
qed

theorem Resolve_first_match_witness:
  "Resolve (\<lambda>_. None) [example_rule, example_rule\<lparr>rRole := RoleEditor\<rparr>]
     [(''groups'', AMap [(''main'', AString ''ops'')])] RoleViewer = Inr RoleAdmin"
proof -
  let ?attrs = "[(''groups'', AMap [(''main'', AString ''ops'')])]"
  let ?rules = "[example_rule, example_rule\<lparr>rRole := RoleEditor\<rparr>]"
  have "Match (\<lambda>_. None) example_rule ?attrs = Inr True" by code_simp
  moreover have "RoleAdmin = rRole example_rule" by code_simp
  moreover have "filter (\<lambda>x. rPriority x = rPriority example_rule) ?rules
      = [] @ example_rule # [example_rule\<lparr>rRole := RoleEditor\<rparr>]"
    by simp
  moreover have "\<forall>x\<in>set ?rules. rPriority x < rPriority example_rule \<longrightarrow>
      Match (\<lambda>_. None) x ?attrs = Inr False"
    by simp
  ultimately show ?thesis unfolding Resolve_first_match
    by - (rule disjI1, rule exI [of _ "[]"], rule exI [of _ example_rule],
        rule exI [of _ "[example_rule\<lparr>rRole := RoleEditor\<rparr>]"], simp)
qed

lemma ValidateRule_None:
  assumes "ValidateRule Compile r = None"
  shows "ValidOperator (rOperator r)" and "rOperator r = OpRegex \<Longrightarrow> Compile (rAttributeValue r) \<noteq> None"
    and "RoleScopes (rRole r) \<noteq> None"
  using assms by (auto simp: ValidateRule_def RoleScopes_def split: if_splits)

lemma Match_total:
  assumes "ValidateRule Compile r = None"
  shows "\<exists>b. Match Compile r attrs = Inr b"
proof -
  from ValidateRule_None(1) [OF assms]
  consider "rOperator r = OpEquals" | "rOperator r = OpNotEquals" | "rOperator r = OpContains"
    | "rOperator r = OpNotContains" | "rOperator r = OpStartsWith" | "rOperator r = OpEndsWith"
    | "rOperator r = OpExists" | "rOperator r = OpNotExists" | "rOperator r = OpRegex"
    by (auto simp: ValidOperator_def ValidOperators_def)
  then show ?thesis
    using ValidateRule_None(2) [OF assms] by cases (auto simp: Match_def Let_def operator_defs)
qed

text \<open>Rules that were validated when they were stored never make a login fail: resolution returns
  one of the three roles whatever the attributes.\<close>

lemma Resolve_validated:
  assumes "\<forall>r\<in>set rules. ValidateRule Compile r = None" and "RoleScopes defaultRole \<noteq> None"
  shows "\<exists>role. Resolve Compile rules attrs defaultRole = Inr role \<and> RoleScopes role \<noteq> None"
proof -
  have "\<exists>role. resolve_loop Compile rs attrs defaultRole = Inr role \<and> RoleScopes role \<noteq> None"
    if "\<forall>r\<in>set rs. ValidateRule Compile r = None" for rs
    using that
  proof (induction rs)
    case (Cons r rs)
    with Match_total [of Compile r attrs] ValidateRule_None(3) [of Compile r] show ?case
      by (auto split: if_splits)
  qed (use assms(2) in simp)
  with assms(1) show ?thesis by (simp add: Resolve_def)
qed

end
