(* ===== verification/Database.thy ===== *)
theory Database
  imports Provider Rolemap
begin

text \<open>
  The state the program works on: the PostgreSQL tables of the identity and access layer
  (\<open>migrations/\<close>), the clock, the two sources of randomness, the cache, and the schedule of failures.

  A row is the Go struct that the store reads it into (package \<open>org\<close>, \<open>identity\<close>, \<open>rolemap\<close>);
  a field that a query computes (the count of a team's members, the joined e-mail of a member) is the
  zero value in the table. A NULL text that the store reads as the empty string is the empty string.

  A statement runs in its own transaction: it fails as a whole or takes effect as a whole. The
  schedule says what happens on the wire: a statement is executed, is lost before it reaches the
  server, or is executed although the client sees an error. The clock does not move within a request.
\<close>

section \<open>Rows\<close>

record user =
  uID :: string
  uEmail :: string
  uName :: string
  uLogin :: string
  uPasswordHash :: string
  uMustChangePassword :: bool
  uDisabled :: bool
  uRole :: string
  uAvatarAssetID :: "string option"
  uLastSeenAt :: "time option"
  uCreatedAt :: time
  uUpdatedAt :: time

record org =
  oID :: string
  oName :: string
  oLogoAssetID :: "string option"
  oDisabled :: bool
  oAutoJoin :: bool
  oOnboardingDone :: bool
  oCreatedAt :: time
  oUpdatedAt :: time

record org_member =
  mUserID :: string
  mOrgID :: string
  mRole :: role
  mSource :: string
  mEmail :: string
  mName :: string
  mTeamID :: "string option"
  mCreatedAt :: time
  mUpdatedAt :: time

record team =
  tID :: string
  tOrgID :: string
  tName :: string
  tEmail :: string
  tExternalID :: string
  tMemberCount :: nat
  tCreatedAt :: time
  tUpdatedAt :: time

record team_member =
  tmTeamID :: string
  tmUserID :: string
  tmOrgID :: string
  tmPermission :: string
  tmCreatedAt :: time
  tmUpdatedAt :: time

record sa_row = service_account +
  saDeletedAt :: "time option"

record rule_row = rule +
  rCreatedAt :: time

record auth_identity =
  aiUserID :: string
  aiProviderID :: string
  aiSub :: string

record login_attempt =
  laUsername :: string
  laIP :: string
  laCreatedAt :: time

text \<open>\<open>mcp_usage_orgs\<close> and \<open>import_teams\<close> are the columns \<open>mcp_usage_events.org_id\<close> and
  \<open>repository_imports.(org_id, team_id)\<close>: the two foreign keys to these tables that do not cascade.\<close>

record database =
  users :: "user list"
  orgs :: "org list"
  org_members :: "org_member list"
  teams :: "team list"
  team_members :: "team_member list"
  service_accounts :: "sa_row list"
  service_account_tokens :: "token list"
  user_sessions :: "session list"
  user_auth :: "auth_identity list"
  login_attempts :: "login_attempt list"
  org_domains :: "org_domain list"
  auth_providers :: "auth_provider list"
  auth_role_mappings :: "rule_row list"
  auth_login_state :: "login_state list"
  mcp_usage_orgs :: "string list"
  import_teams :: "(string \<times> string) list"

datatype fault = Healthy | Lost | LostReply

record world =
  db :: database
  clock :: time
  faults :: "fault list"
  entropy :: "nat \<Rightarrow> (nat \<Rightarrow> byte) option"
  draws :: nat
  uuids :: "nat \<Rightarrow> string"
  uuid_draws :: nat
  collation :: "string \<Rightarrow> string"
  cache :: "string \<rightharpoonup> string"

type_synonym 'a prog = "(world, 'a) state"

definition empty_database :: database where
  "empty_database =
     \<lparr>users = [], orgs = [], org_members = [], teams = [], team_members = [], service_accounts = [],
      service_account_tokens = [], user_sessions = [], user_auth = [], login_attempts = [],
      org_domains = [], auth_providers = [], auth_role_mappings = [], auth_login_state = [],
      mcp_usage_orgs = [], import_teams = []\<rparr>"

section \<open>Effects\<close>

text \<open>\<open>exec f\<close> runs one statement. \<open>f\<close> gets the time and the database; \<open>Inl\<close> is an error of the
  server and leaves the database unchanged.\<close>

definition next_fault :: "world \<Rightarrow> fault" where
  "next_fault w = (case faults w of [] \<Rightarrow> Healthy | f # _ \<Rightarrow> f)"

definition exec :: "(time \<Rightarrow> database \<Rightarrow> error + 'a \<times> database) \<Rightarrow> 'a result prog" where
  "exec f = State (\<lambda>w.
     let w' = w\<lparr>faults := tl (faults w)\<rparr> in
     case f (clock w) (db w) of
       Inl e \<Rightarrow> (Inl (if next_fault w = Healthy then e else ConnectionLost), w')
     | Inr (a, d) \<Rightarrow>
         (case next_fault w of
            Healthy \<Rightarrow> (Inr a, w'\<lparr>db := d\<rparr>)
          | Lost \<Rightarrow> (Inl ConnectionLost, w')
          | LostReply \<Rightarrow> (Inl ConnectionLost, w'\<lparr>db := d\<rparr>)))"

text \<open>\<open>fmt.Errorf("postgres: Op: %w", err)\<close> around the error of a statement.\<close>

definition wrap :: "string \<Rightarrow> 'a result prog \<Rightarrow> 'a result prog" where
  "wrap fmt m = State_Monad.bind m (\<lambda>r. ret (case r of Inl e \<Rightarrow> Inl (Wrapf fmt [] e) | Inr a \<Rightarrow> Inr a))"

definition query :: "(time \<Rightarrow> database \<Rightarrow> 'a) \<Rightarrow> 'a result prog" where
  "query f = exec (\<lambda>now d. Inr (f now d, d))"

definition command :: "(time \<Rightarrow> database \<Rightarrow> database result) \<Rightarrow> unit result prog" where
  "command f = exec (\<lambda>now d. case f now d of Inl e \<Rightarrow> Inl e | Inr d' \<Rightarrow> Inr ((), d'))"

definition now :: "time prog" where
  "now = State (\<lambda>w. (clock w, w))"

text \<open>\<open>rand.Read\<close> on a slice of \<open>n\<close> bytes; \<open>None\<close> is an error.\<close>

definition rand_Read :: "nat \<Rightarrow> byte list option prog" where
  "rand_Read n = State (\<lambda>w.
     (map_option (\<lambda>f. map f [0..<n]) (entropy w (draws w)), w\<lparr>draws := Suc (draws w)\<rparr>))"

definition uuid_NewString :: "string prog" where
  "uuid_NewString = State (\<lambda>w. (uuids w (uuid_draws w), w\<lparr>uuid_draws := Suc (uuid_draws w)\<rparr>))"

definition collate :: "(string \<Rightarrow> string) prog" where
  "collate = State (\<lambda>w. (collation w, w))"

text \<open>\<open>if err != nil { return ..., err }\<close>\<close>

definition bindE :: "'a result prog \<Rightarrow> ('a \<Rightarrow> 'b result prog) \<Rightarrow> 'b result prog" where
  "bindE m k = State_Monad.bind m (\<lambda>r. case r of Inl e \<Rightarrow> ret (Inl e) | Inr a \<Rightarrow> k a)"

text \<open>\<open>_ = cache.Del(key)\<close>: an error of the cache is ignored, and the key may then still be there.\<close>

definition cache_Del :: "string \<Rightarrow> unit prog" where
  "cache_Del key = State (\<lambda>w.
     let w' = w\<lparr>faults := tl (faults w)\<rparr>
     in ((), if next_fault w = Lost then w' else w'\<lparr>cache := (cache w)(key := None)\<rparr>))"

text \<open>\<open>identity.Generate\<close>: a fresh token \<open>uig_\<close> followed by 32 random bytes in hex.\<close>

definition tokenRandBytes :: nat where
  "tokenRandBytes = 32"

definition Generate :: "(string \<times> string \<times> string) result prog" where
  "Generate =
     State_Monad.bind (rand_Read tokenRandBytes) (\<lambda>r.
       case r of
         None \<Rightarrow> ret (Inl (Errorf ''identity: generate token: %w'' []))
       | Some b \<Rightarrow>
           State_Monad.bind uuid_NewString (\<lambda>id.
             let plaintext = tokenPrefix @ hex_encode b; hash = Hash plaintext
             in ret (Inr (id, plaintext, hash))))"

section \<open>Running effects\<close>

lemma run_now [simp, run_simps]: "run_state now w = (clock w, w)"
  by (simp add: now_def)

lemma run_collate [simp, run_simps]: "run_state collate w = (collation w, w)"
  by (simp add: collate_def)

lemma run_rand_Read [simp, run_simps]:
  "run_state (rand_Read n) w =
     (map_option (\<lambda>f. map f [0..<n]) (entropy w (draws w)), w\<lparr>draws := Suc (draws w)\<rparr>)"
  by (simp add: rand_Read_def)

lemma run_uuid [simp, run_simps]:
  "run_state uuid_NewString w = (uuids w (uuid_draws w), w\<lparr>uuid_draws := Suc (uuid_draws w)\<rparr>)"
  by (simp add: uuid_NewString_def)

text \<open>With no fault scheduled a statement does what the server does.\<close>

lemma no_faults [simp]: "faults w = [] \<Longrightarrow> w\<lparr>faults := []\<rparr> = w"
  by (cases w) simp

lemma run_exec_healthy [run_simps]:
  "faults w = [] \<Longrightarrow> run_state (exec f) w =
     (case f (clock w) (db w) of Inl e \<Rightarrow> (Inl e, w) | Inr (a, d) \<Rightarrow> (Inr a, w\<lparr>db := d\<rparr>))"
  by (cases w) (simp add: exec_def next_fault_def split: sum.splits prod.splits)

text \<open>Whatever the schedule, a statement whose reply arrives took effect, and one that failed either
  did not or its reply was lost.\<close>

lemma run_exec_Inr [run_elims]:
  assumes "run_state (exec f) w = (Inr a, w')"
  obtains d where "f (clock w) (db w) = Inr (a, d)" and "w' = w\<lparr>db := d, faults := tl (faults w)\<rparr>"
  using assms by (auto simp: exec_def Let_def split: sum.splits fault.splits)

lemma run_exec_cases:
  assumes "run_state (exec f) w = (r, w')"
  obtains (same) "w' = w\<lparr>faults := tl (faults w)\<rparr>"
    | (step) a d where "f (clock w) (db w) = Inr (a, d)" and "w' = w\<lparr>db := d, faults := tl (faults w)\<rparr>"
  using assms by (auto simp: exec_def Let_def split: sum.splits fault.splits)

text \<open>An invariant of the database that a statement keeps is kept under every schedule of faults.\<close>

definition on_db :: "(database \<Rightarrow> bool) \<Rightarrow> world \<Rightarrow> bool" where
  "on_db I w = I (db w)"

lemma keeps_exec:
  assumes "\<And>now d a d'. I d \<Longrightarrow> f now d = Inr (a, d') \<Longrightarrow> I d'"
  shows "keeps (on_db I) (exec f)"
proof (rule hoareI)
  fix w r w' assume "on_db I w" and "run_state (exec f) w = (r, w')"
  from this(2) show "on_db I w'"
    by (cases rule: run_exec_cases) (use \<open>on_db I w\<close> assms in \<open>auto simp: on_db_def\<close>)
qed

lemma keeps_on_db_conj:
  "keeps (on_db I) m \<Longrightarrow> keeps (on_db J) m \<Longrightarrow> keeps (on_db (\<lambda>d. I d \<and> J d)) m"
  by (simp add: hoare_def on_db_def split_beta)

lemma keeps_query [keeps_rules]: "keeps (on_db I) (query f)"
  unfolding query_def by (rule keeps_exec) simp

lemma keeps_command:
  assumes "\<And>now d d'. I d \<Longrightarrow> f now d = Inr d' \<Longrightarrow> I d'"
  shows "keeps (on_db I) (command f)"
  unfolding command_def using assms by (intro keeps_exec) (auto split: sum.splits)

lemma hoare_exec:
  assumes "\<And>w. P w \<Longrightarrow> J (db w)" and "\<And>w a d'. P w \<Longrightarrow> f (clock w) (db w) = Inr (a, d') \<Longrightarrow> J d'"
  shows "hoare P (exec f) (\<lambda>_. on_db J)"
proof (rule hoareI)
  fix w r w' assume "P w" and "run_state (exec f) w = (r, w')"
  from this(2) show "on_db J w'"
    by (cases rule: run_exec_cases) (use \<open>P w\<close> assms in \<open>auto simp: on_db_def\<close>)
qed

lemma hoare_command:
  assumes "\<And>w. P w \<Longrightarrow> J (db w)" and "\<And>w d'. P w \<Longrightarrow> f (clock w) (db w) = Inr d' \<Longrightarrow> J d'"
  shows "hoare P (wrap fmt (command f)) (\<lambda>_. on_db J)"
proof -
  have "hoare P (command f) (\<lambda>_. on_db J)"
    unfolding command_def using assms by (intro hoare_exec) (auto split: sum.splits)
  then show ?thesis
    unfolding wrap_def by (rule hoare_bind) (rule keeps_return)
qed

lemma keeps_wrap [keeps_rules]: "keeps I m \<Longrightarrow> keeps I (wrap fmt m)"
  unfolding wrap_def by (intro keeps_rules)

lemma keeps_bindE [keeps_rules]:
  "keeps I m \<Longrightarrow> (\<And>a. keeps I (k a)) \<Longrightarrow> keeps I (bindE m k)"
  unfolding bindE_def by (intro keeps_rules)

lemma keeps_effects [keeps_rules]:
  "keeps (on_db I) now" "keeps (on_db I) collate" "keeps (on_db I) (rand_Read n)"
  "keeps (on_db I) uuid_NewString" "keeps (on_db I) (cache_Del k)"
  by (simp_all add: hoare_def on_db_def cache_Del_def Let_def)

lemma keeps_Generate [keeps_rules]: "keeps (on_db I) Generate"
  unfolding Generate_def by (intro keeps_rules)

section \<open>Inverting runs\<close>

lemma run_wrap_Inr [simp]:
  "run_state (wrap fmt m) w = (Inr a, w') \<longleftrightarrow> run_state m w = (Inr a, w')"
  by (auto simp: wrap_def split: prod.splits sum.splits)

lemma run_query_Inr [run_elims]:
  assumes "run_state (query f) w = (Inr a, w')"
  obtains "a = f (clock w) (db w)" and "w' = w\<lparr>faults := tl (faults w)\<rparr>"
  using assms unfolding query_def by (elim run_exec_Inr) simp

lemma run_command_Inr [run_elims]:
  assumes "run_state (command f) w = (Inr a, w')"
  obtains d where "f (clock w) (db w) = Inr d" and "w' = w\<lparr>db := d, faults := tl (faults w)\<rparr>"
  using assms unfolding command_def
  by (elim run_exec_Inr) (auto split: sum.splits)

lemma run_bindE_Inr [run_elims]:
  assumes "run_state (bindE m k) w = (Inr b, w'')"
  obtains a w' where "run_state m w = (Inr a, w')" and "run_state (k a) w' = (Inr b, w'')"
  using assms unfolding bindE_def by (auto split: prod.splits sum.splits)

lemma run_query_healthy [run_simps, simp]:
  "faults w = [] \<Longrightarrow> run_state (query f) w = (Inr (f (clock w) (db w)), w)"
  by (simp add: query_def run_exec_healthy)

lemma run_command_healthy [run_simps, simp]:
  "faults w = [] \<Longrightarrow> run_state (command f) w =
     (case f (clock w) (db w) of Inl e \<Rightarrow> (Inl e, w) | Inr d \<Rightarrow> (Inr (), w\<lparr>db := d\<rparr>))"
  by (simp add: command_def run_exec_healthy split: sum.splits)

lemma run_wrap [run_simps, simp]:
  "run_state (wrap fmt m) w =
     (case run_state m w of (r, w') \<Rightarrow> (case r of Inl e \<Rightarrow> Inl (Wrapf fmt [] e) | Inr a \<Rightarrow> Inr a, w'))"
  by (simp add: wrap_def split: prod.splits)

lemma run_bindE [run_simps]:
  "run_state (bindE m k) w =
     (case run_state m w of (Inl e, w') \<Rightarrow> (Inl e, w') | (Inr a, w') \<Rightarrow> run_state (k a) w')"
  by (simp add: bindE_def split: prod.splits sum.splits)

section \<open>Well-formed databases\<close>

text \<open>
  What the primary keys, unique constraints, foreign keys and the domain check of the migrations
  demand, table by table. \<open>keys k rows\<close> is the set of values of a key column.
\<close>

abbreviation keys :: "('r \<Rightarrow> 'k) \<Rightarrow> 'r list \<Rightarrow> 'k set" where
  "keys k rows \<equiv> k ` set rows"

abbreviation unique :: "('r \<Rightarrow> 'k) \<Rightarrow> 'r list \<Rightarrow> bool" where
  "unique k rows \<equiv> distinct (map k rows)"

definition user_tables_ok :: "database \<Rightarrow> bool" where
  "user_tables_ok d \<longleftrightarrow>
     unique uID (users d) \<and> unique uEmail (users d) \<and> unique uLogin (users d) \<and>
     unique (\<lambda>a. (aiProviderID a, aiSub a)) (user_auth d) \<and> keys aiUserID (user_auth d) \<subseteq> keys uID (users d) \<and>
     unique sID (user_sessions d) \<and> unique sTokenHash (user_sessions d) \<and>
     keys sUserID (user_sessions d) \<subseteq> keys uID (users d)"

definition org_tables_ok :: "database \<Rightarrow> bool" where
  "org_tables_ok d \<longleftrightarrow>
     unique oID (orgs d) \<and>
     unique (\<lambda>m. (mUserID m, mOrgID m)) (org_members d) \<and>
     keys mUserID (org_members d) \<subseteq> keys uID (users d) \<and> keys mOrgID (org_members d) \<subseteq> keys oID (orgs d) \<and>
     unique tID (teams d) \<and> unique (\<lambda>t. (tOrgID t, tName t)) (teams d) \<and>
     keys tOrgID (teams d) \<subseteq> keys oID (orgs d) \<and>
     unique (\<lambda>m. (tmTeamID m, tmUserID m)) (team_members d) \<and>
     keys tmTeamID (team_members d) \<subseteq> keys tID (teams d) \<and>
     keys tmUserID (team_members d) \<subseteq> keys uID (users d) \<and>
     keys tmOrgID (team_members d) \<subseteq> keys oID (orgs d) \<and>
     set (mcp_usage_orgs d) \<subseteq> keys oID (orgs d) \<and>
     keys fst (import_teams d) \<subseteq> keys oID (orgs d) \<and> keys snd (import_teams d) \<subseteq> keys tID (teams d)"

definition sa_tables_ok :: "database \<Rightarrow> bool" where
  "sa_tables_ok d \<longleftrightarrow>
     unique saID (service_accounts d) \<and> unique (\<lambda>a. (saOrgID a, saName a)) (service_accounts d) \<and>
     keys saOrgID (service_accounts d) \<subseteq> keys oID (orgs d) \<and>
     unique tkID (service_account_tokens d) \<and> unique tkPrefix (service_account_tokens d) \<and>
     keys tkServiceAccountID (service_account_tokens d) \<subseteq> keys saID (service_accounts d)"

definition provider_tables_ok :: "database \<Rightarrow> bool" where
  "provider_tables_ok d \<longleftrightarrow>
     unique odID (org_domains d) \<and> unique (\<lambda>x. (odOrgID x, odDomain x)) (org_domains d) \<and>
     keys odOrgID (org_domains d) \<subseteq> keys oID (orgs d) \<and> (\<forall>x\<in>set (org_domains d). domain_ok (odDomain x)) \<and>
     unique apID (auth_providers d) \<and> unique (\<lambda>p. (apOrgID p, apSlug p)) (auth_providers d) \<and>
     unique (\<lambda>p. (apOrgID p, apDisplayName p)) (auth_providers d) \<and>
     keys apOrgID (auth_providers d) \<subseteq> keys oID (orgs d) \<and>
     unique rID (auth_role_mappings d) \<and>
     keys rProviderID (auth_role_mappings d) \<subseteq> keys apID (auth_providers d) \<and>
     unique lsID (auth_login_state d) \<and> unique lsState (auth_login_state d) \<and>
     keys lsOrgID (auth_login_state d) \<subseteq> keys oID (orgs d) \<and>
     keys lsProviderID (auth_login_state d) \<subseteq> keys apID (auth_providers d)"

definition db_ok :: "database \<Rightarrow> bool" where
  "db_ok d \<longleftrightarrow> user_tables_ok d \<and> org_tables_ok d \<and> sa_tables_ok d \<and> provider_tables_ok d"

lemmas tables_ok_defs = user_tables_ok_def org_tables_ok_def sa_tables_ok_def provider_tables_ok_def

lemma keys_update_where [simp]:
  "(\<And>r. k (f r) = k r) \<Longrightarrow> keys k (update_where P f rows) = keys k rows"
proof -
  assume "\<And>r. k (f r) = k r"
  then have "set (map k (update_where P f rows)) = set (map k rows)"
    by (simp only: map_update_where)
  then show ?thesis by simp
qed

lemma key_exists: "(\<exists>r\<in>set rows. k r = x) \<longleftrightarrow> x \<in> keys k rows"
  by (auto simp: image_iff)

lemma key_exists2: "(\<exists>r\<in>set rows. k r = x \<and> l r = y) \<longleftrightarrow> (x, y) \<in> keys (\<lambda>r. (k r, l r)) rows"
  by (auto simp: image_iff)

lemma update_where_none: "x \<notin> keys k rows \<Longrightarrow> update_where (\<lambda>r. k r = x) f rows = rows"
  unfolding update_where_def by (rule map_idI) auto

lemma keys_delete_subset: "keys k rows \<subseteq> A \<Longrightarrow> keys k (delete_where P rows) \<subseteq> A"
  by auto

text \<open>Deleting the parents with a key in \<open>Q\<close> together with the children that refer to them keeps the
  foreign key.\<close>

lemma keys_delete_cascade:
  assumes "keys f children \<subseteq> keys k parents"
    and "\<And>c p. c \<in> set children \<Longrightarrow> p \<in> set parents \<Longrightarrow> f c = k p \<Longrightarrow> P p \<Longrightarrow> Q c"
  shows "keys f (delete_where Q children) \<subseteq> keys k (delete_where P parents)"
proof
  fix x assume "x \<in> keys f (delete_where Q children)"
  then obtain c where c: "c \<in> set children" "\<not> Q c" "x = f c" by auto
  with assms(1) obtain p where p: "p \<in> set parents" "f c = k p" by auto
  with assms(2) c have "\<not> P p" by blast
  with c p show "x \<in> keys k (delete_where P parents)" by auto
qed

lemmas key_simps = key_exists key_exists2 update_where_none

text \<open>A key changed in the one row that has the identity \<open>i\<close> stays unique when no other row has the
  new value.\<close>

lemma unique_update_one:
  assumes "unique k rows" and "unique ident rows"
    and "\<And>r. r \<in> set rows \<Longrightarrow> P r \<Longrightarrow> ident r = i" and "\<And>r. P r \<Longrightarrow> k (f r) = v"
    and "\<And>r. r \<in> set rows \<Longrightarrow> \<not> P r \<Longrightarrow> k r \<noteq> v"
  shows "unique k (update_where P f rows)"
  using assms
proof (induction rows)
  case (Cons x xs)
  have IH: "unique k (update_where P f xs)" using Cons by simp
  show ?case
  proof (cases "P x")
    case True
    then have none: "\<not> P r" if "r \<in> set xs" for r
      using Cons.prems(2,3) that by (auto simp: image_iff)
    then have "update_where P f xs = xs"
      unfolding update_where_def by (simp add: map_idI)
    moreover have "k (f x) \<notin> keys k xs" using Cons.prems(4,5) True none by auto
    ultimately show ?thesis using True Cons.prems(1) by simp
  next
    case False
    have "k x \<notin> keys k (update_where P f xs)"
      using Cons.prems(1,4,5) False by (auto simp: set_update_where)
    with False IH show ?thesis by simp
  qed
qed simp

text \<open>The same for a name that is unique within a scope, such as a team's name in its organisation.\<close>

lemma unique_update_scoped:
  assumes "unique ident rows" and "unique (\<lambda>r. (scp r, nm r)) rows"
    and "\<And>r. scp (f r) = scp r" and "\<And>r. nm (f r) = n"
    and "\<And>x. P x \<Longrightarrow> ident x = i"
    and "\<And>x r. x \<in> set rows \<Longrightarrow> P x \<Longrightarrow> r \<in> set rows \<Longrightarrow> ident r \<noteq> i \<Longrightarrow> scp r = scp x \<Longrightarrow> nm r \<noteq> n"
  shows "unique (\<lambda>r. (scp r, nm r)) (update_where P f rows)"
proof (cases "\<exists>x\<in>set rows. P x")
  case True
  then obtain x where x: "x \<in> set rows" "P x" by blast
  have only: "r = x" if "r \<in> set rows" "ident r = i" for r
    using assms(1,5) x that by (metis distinct_map inj_onD)
  have fresh: "(scp r, nm r) \<noteq> (scp x, n)" if "r \<in> set rows" "r \<noteq> x" for r
  proof -
    have "ident r \<noteq> i" using only that by blast
    then show ?thesis using assms(6) [OF x that(1)] by auto
  qed
  have "unique (\<lambda>r. (scp r, nm r)) (update_where (\<lambda>r. r = x) f rows)"
    using assms(2,1) by (rule unique_update_one) (use x fresh assms(3,4) in auto)
  moreover have "update_where P f rows = update_where (\<lambda>r. r = x) f rows"
    unfolding update_where_def by (rule map_cong [OF refl]) (metis only x(2) assms(5))
  ultimately show ?thesis by simp
next
  case False
  then have "update_where P f rows = rows"
    unfolding update_where_def by (intro map_idI) auto
  with assms(2) show ?thesis by simp
qed

end
