(* ===== verification/Http.thy ===== *)
theory Http
  imports Database
begin

text \<open>
  Requests, responses and package \<open>internal/httputil\<close>. A JSON body is the value that the code
  encodes, with the field names of the struct tags; \<open>JErr e\<close> is the text \<open>e.Error()\<close>. A request
  carries what the handlers read of it: headers, the session cookie, path values, query values and
  the principal that the middleware put into its context. A decoded request body is an argument of
  its handler, \<open>None\<close> when decoding failed.
\<close>

datatype json =
    JNull
  | JStr string
  | JBool bool
  | JInt int
  | JFloat "64 word"
  | JTime time
  | JErr error
  | JRaw string
  | JArr "json list"
  | JObj "(string \<times> json) list"

datatype body = NoBody | BodyJSON json | BodyText string

record cookie =
  ckName :: string
  ckValue :: string
  ckPath :: string
  ckDomain :: string
  ckExpires :: "time option"
  ckMaxAge :: int
  ckHttpOnly :: bool
  ckSecure :: bool
  ckSameSite :: string

record response =
  rStatus :: nat
  rBody :: body
  rCookies :: "cookie list"
  rLocation :: "string option"

record http_request =
  hAuthorization :: string
  hSessionCookie :: "string option"
  hAPIKey :: string
  hInternalToken :: string
  hUserAgent :: string
  hRemoteAddr :: string
  pathValue :: "string \<Rightarrow> string"
  queryValue :: "string \<Rightarrow> string"
  formValue :: "(string \<Rightarrow> string) option"
  ctxPrincipal :: "principal option"

section \<open>Responses (respond.go)\<close>

definition JSON :: "nat \<Rightarrow> json \<Rightarrow> response" where
  "JSON status b = \<lparr>rStatus = status, rBody = BodyJSON b, rCookies = [], rLocation = None\<rparr>"

definition apiError :: "string \<Rightarrow> json \<Rightarrow> json" where
  "apiError code msg = JObj [(''code'', JStr code), (''message'', msg)]"

definition Error :: "error \<Rightarrow> response" where
  "Error err =
     (if errors_Is err StoreErrNotFound then JSON 404 (apiError ''not_found'' (JErr err))
      else if errors_Is err StoreErrConflict then JSON 409 (apiError ''conflict'' (JErr err))
      else JSON 500 (apiError ''internal_error'' (JStr ''an unexpected error occurred'')))"

definition BadRequest :: "json \<Rightarrow> response" where
  "BadRequest msg = JSON 400 (apiError ''bad_request'' msg)"

definition Conflict :: "json \<Rightarrow> response" where
  "Conflict msg = JSON 409 (apiError ''conflict'' msg)"

definition Forbidden :: response where
  "Forbidden = JSON 403 (apiError ''forbidden'' (JStr ''insufficient permissions''))"

definition Unauthorized :: response where
  "Unauthorized = JSON 401 (apiError ''unauthenticated'' (JStr ''authentication required''))"

definition TooManyRequests :: "json \<Rightarrow> response" where
  "TooManyRequests msg = JSON 429 (apiError ''too_many_requests'' msg)"

definition NoContent :: response where
  "NoContent = \<lparr>rStatus = 204, rBody = NoBody, rCookies = [], rLocation = None\<rparr>"

text \<open>\<open>http.Error\<close> with a literal body, and \<open>http.Redirect\<close> with status 302.\<close>

definition http_Error :: "nat \<Rightarrow> string \<Rightarrow> response" where
  "http_Error status b = \<lparr>rStatus = status, rBody = BodyText b, rCookies = [], rLocation = None\<rparr>"

definition Redirect :: "string \<Rightarrow> response" where
  "Redirect url = \<lparr>rStatus = 302, rBody = NoBody, rCookies = [], rLocation = Some url\<rparr>"

definition add_cookie :: "cookie \<Rightarrow> response \<Rightarrow> response" where
  "add_cookie c r = r\<lparr>rCookies := rCookies r @ [c]\<rparr>"

text \<open>A field with the tag \<open>omitempty\<close>.\<close>

definition omit_str :: "string \<Rightarrow> string \<Rightarrow> (string \<times> json) list" where
  "omit_str k v = (if v = [] then [] else [(k, JStr v)])"

definition omit_opt :: "string \<Rightarrow> ('a \<Rightarrow> json) \<Rightarrow> 'a option \<Rightarrow> (string \<times> json) list" where
  "omit_opt k f v = (case v of None \<Rightarrow> [] | Some x \<Rightarrow> [(k, f x)])"

section \<open>List parameters (list.go)\<close>

definition defaultListLimit :: int where "defaultListLimit = 24"
definition maxListLimit :: int where "maxListLimit = 100"

definition ListLimit :: "string \<Rightarrow> int" where
  "ListLimit raw =
     (if raw = [] then defaultListLimit
      else case Atoi raw of
        None \<Rightarrow> defaultListLimit
      | Some n \<Rightarrow> if n \<le> 0 then defaultListLimit else if n > maxListLimit then maxListLimit else n)"

definition ListOffset :: "string \<Rightarrow> int" where
  "ListOffset raw =
     (if raw = [] then 0
      else case Atoi raw of None \<Rightarrow> 0 | Some n \<Rightarrow> if n < 0 then 0 else n)"

definition Exact :: "(string \<Rightarrow> string) \<Rightarrow> string \<Rightarrow> string option" where
  "Exact q name = (let v = TrimSpace (q name) in if v = [] then None else Some v)"

section \<open>The idiom of a handler\<close>

text \<open>\<open>if err != nil { httputil.Error(w, r, err); return }\<close>\<close>

definition on_err :: "'a result prog \<Rightarrow> ('a \<Rightarrow> response prog) \<Rightarrow> response prog" where
  "on_err m k = State_Monad.bind m (\<lambda>r. case r of Inl e \<Rightarrow> ret (Error e) | Inr a \<Rightarrow> k a)"

lemma keeps_on_err [keeps_rules]:
  "keeps I m \<Longrightarrow> (\<And>a. keeps I (k a)) \<Longrightarrow> keeps I (on_err m k)"
  unfolding on_err_def by (intro keeps_rules)

lemma hoare_on_err:
  assumes "hoare P m R" and "\<And>e w. R (Inl e) w \<Longrightarrow> Q (Error e) w" and "\<And>a. hoare (R (Inr a)) (k a) Q"
  shows "hoare P (on_err m k) Q"
  unfolding on_err_def
proof (rule hoare_bind [OF assms(1)])
  show "hoare (R a) (case a of Inl e \<Rightarrow> ret (Error e) | Inr x \<Rightarrow> k x) Q" for a
    using assms(2,3) by (cases a) (auto intro: hoare_return)
qed

text \<open>The form for a call that keeps the invariant \<open>I\<close>, in front of one that establishes \<open>J\<close>.\<close>

lemma hoare_on_err_keeps:
  assumes "keeps I m" and "\<And>w. I w \<Longrightarrow> J w" and "\<And>a. hoare I (k a) (\<lambda>_. J)"
  shows "hoare I (on_err m k) (\<lambda>_. J)"
  by (rule hoare_on_err [OF assms(1)]) (use assms(2,3) in auto)

lemma run_on_err [run_simps]:
  "run_state (on_err m k) w =
     (case run_state m w of (Inl e, w') \<Rightarrow> (Error e, w') | (Inr a, w') \<Rightarrow> run_state (k a) w')"
  by (simp add: on_err_def split: prod.splits sum.splits)

section \<open>Status codes\<close>

lemma rStatus_simps [simp]:
  "rStatus (JSON s b) = s" "rStatus (BadRequest m) = 400" "rStatus (Conflict m) = 409"
  "rStatus Forbidden = 403" "rStatus Unauthorized = 401" "rStatus (TooManyRequests m) = 429"
  "rStatus NoContent = 204" "rStatus (http_Error s t) = s" "rStatus (Redirect u) = 302"
  "rStatus (add_cookie c r) = rStatus r"
  by (simp_all add: JSON_def BadRequest_def Conflict_def Forbidden_def Unauthorized_def
      TooManyRequests_def NoContent_def http_Error_def Redirect_def add_cookie_def)

text \<open>An error is never reported as a success.\<close>

lemma rStatus_Error: "rStatus (Error e) \<in> {404, 409, 500}"
  by (simp add: Error_def)

lemma Error_not_ok [simp]:
  "rStatus (Error e) \<noteq> 200" "rStatus (Error e) \<noteq> 201" "rStatus (Error e) \<noteq> 204" "rStatus (Error e) \<noteq> 302"
  "200 \<noteq> rStatus (Error e)" "201 \<noteq> rStatus (Error e)" "204 \<noteq> rStatus (Error e)" "302 \<noteq> rStatus (Error e)"
  "rStatus (Error e) \<noteq> 401" "rStatus (Error e) \<noteq> 403" "rStatus (Error e) \<noteq> 400" "rStatus (Error e) \<noteq> 429"
  using rStatus_Error [of e] by auto

text \<open>The success codes of the API.\<close>

definition ok_status :: "response \<Rightarrow> bool" where
  "ok_status r \<longleftrightarrow> rStatus r \<in> {200, 201, 204, 302}"

lemma ok_status_simps [simp]:
  "\<not> ok_status (Error e)" "\<not> ok_status (BadRequest m)" "\<not> ok_status (Conflict m)" "\<not> ok_status Forbidden"
  "\<not> ok_status Unauthorized" "\<not> ok_status (TooManyRequests m)" "ok_status NoContent" "ok_status (Redirect u)"
  "ok_status (add_cookie c r) = ok_status r" "ok_status (JSON s b) \<longleftrightarrow> s \<in> {200, 201, 204, 302}"
  "ok_status (http_Error s t) \<longleftrightarrow> s \<in> {200, 201, 204, 302}"
  by (simp_all add: ok_status_def)

text \<open>A handler that answers with a success went past the error check with the call's result.\<close>

lemma run_on_err_ok [run_elims]:
  assumes "run_state (on_err m k) w = (r, w'')" and "ok_status r"
  obtains a w' where "run_state m w = (Inr a, w')" and "run_state (k a) w' = (r, w'')"
  using assms by (auto simp: run_on_err split: prod.splits sum.splits)

text \<open>Whatever the query string says, a page of a list holds between 1 and 100 entries and starts
  at a non-negative offset that a 64-bit integer can hold.\<close>

lemma ListLimit_bounds:
  "1 \<le> ListLimit raw \<and> ListLimit raw \<le> 100 \<and> 0 \<le> ListOffset raw \<and> ListOffset raw < 2 ^ 63"
proof -
  have "n < 2 ^ 63" if "Atoi raw = Some n" for n
    using that by (auto simp: Atoi_def Let_def split: if_splits option.splits list.splits prod.splits)
  then show ?thesis
    by (auto simp: ListLimit_def ListOffset_def defaultListLimit_def maxListLimit_def split: option.split)
qed

end
