(* ===== verification/UserStore.thy ===== *)
theory UserStore
  imports Database
begin

text \<open>
  \<open>internal/store/postgres/user_store.go\<close>, \<open>session_store.go\<close> and \<open>login_store.go\<close>: users, their
  sessions, their identities at providers, and login attempts.
\<close>

section \<open>Users (user_store.go)\<close>

definition SetUserAvatar :: "string \<Rightarrow> string option \<Rightarrow> unit result prog" where
  "SetUserAvatar userID assetID = wrap ''postgres: SetUserAvatar: %w'' (command (\<lambda>now d.
     Inr (d\<lparr>users := update_where (\<lambda>u. uID u = userID)
                       (\<lambda>u. u\<lparr>uAvatarAssetID := assetID, uUpdatedAt := now\<rparr>) (users d)\<rparr>)))"

text \<open>The row that \<open>CreateUser\<close> and \<open>UpsertUser\<close> insert: the avatar and the last visit are not among
  the inserted columns.\<close>

definition user_row :: "time \<Rightarrow> user \<Rightarrow> user" where
  "user_row t u = u\<lparr>uAvatarAssetID := None, uLastSeenAt := None,
     uCreatedAt := (if uCreatedAt u = 0 then t else uCreatedAt u),
     uUpdatedAt := (if uUpdatedAt u = 0 then t else uUpdatedAt u)\<rparr>"

definition CreateUser :: "user \<Rightarrow> unit result prog" where
  "CreateUser u = wrap ''postgres: CreateUser: %w'' (command (\<lambda>now d.
     let u = user_row now u in
     if exists_row (\<lambda>r. uID r = uID u) (users d) then Inl (UniqueViolation ''users_pkey'')
     else if exists_row (\<lambda>r. uEmail r = uEmail u) (users d) then Inl (UniqueViolation ''users_email_key'')
     else if exists_row (\<lambda>r. uLogin r = uLogin u) (users d) then Inl (UniqueViolation ''users_login_key'')
     else Inr (d\<lparr>users := users d @ [u]\<rparr>)))"

text \<open>\<open>ON CONFLICT (email)\<close> arbitrates the e-mail only: a duplicate id or login is still an error.\<close>

definition UpsertUser :: "user \<Rightarrow> unit result prog" where
  "UpsertUser u = wrap ''postgres: UpsertUser: %w'' (command (\<lambda>now d.
     let u = user_row now u in
     if exists_row (\<lambda>r. uEmail r = uEmail u) (users d) then
       (if exists_row (\<lambda>r. uEmail r \<noteq> uEmail u \<and> uLogin r = uLogin u) (users d)
        then Inl (UniqueViolation ''users_login_key'')
        else Inr (d\<lparr>users := update_where (\<lambda>r. uEmail r = uEmail u)
               (\<lambda>r. r\<lparr>uName := uName u, uLogin := uLogin u, uPasswordHash := uPasswordHash u,
                      uMustChangePassword := uMustChangePassword u, uDisabled := uDisabled u,
                      uRole := uRole u, uUpdatedAt := now\<rparr>) (users d)\<rparr>))
     else if exists_row (\<lambda>r. uID r = uID u) (users d) then Inl (UniqueViolation ''users_pkey'')
     else if exists_row (\<lambda>r. uLogin r = uLogin u) (users d) then Inl (UniqueViolation ''users_login_key'')
     else Inr (d\<lparr>users := users d @ [u]\<rparr>)))"

definition GetUser :: "string \<Rightarrow> user option result prog" where
  "GetUser i = wrap ''postgres: GetUser: %w'' (query (\<lambda>_ d. find (\<lambda>u. uID u = i) (users d)))"

definition GetUserByEmail :: "string \<Rightarrow> user option result prog" where
  "GetUserByEmail email =
     wrap ''postgres: GetUserByEmail: %w'' (query (\<lambda>_ d. find (\<lambda>u. uEmail u = email) (users d)))"

definition GetUserByLogin :: "string \<Rightarrow> user option result prog" where
  "GetUserByLogin login =
     wrap ''postgres: GetUserByLogin: %w'' (query (\<lambda>_ d. find (\<lambda>u. uLogin u = login) (users d)))"

text \<open>The unqualified columns \<open>role\<close>, \<open>created_at\<close> and \<open>updated_at\<close> occur in both joined tables, so
  the server refuses the statement.\<close>

definition ListUsers :: "string \<Rightarrow> user list result prog" where
  "ListUsers orgID = wrap ''postgres: ListUsers: %w'' (exec (\<lambda>_ d. Inl SyntaxError))"

definition ListAllUsers :: "user list result prog" where
  "ListAllUsers = State_Monad.bind collate (\<lambda>c.
     wrap ''postgres: ListAllUsers: %w'' (query (\<lambda>_ d. sort_key (\<lambda>u. c (uName u)) (users d))))"

definition CountAllUsers :: "nat result prog" where
  "CountAllUsers = wrap ''postgres: CountAllUsers: %w'' (query (\<lambda>_ d. length (users d)))"

definition CountActiveUsers :: "nat result prog" where
  "CountActiveUsers =
     wrap ''postgres: CountActiveUsers: %w'' (query (\<lambda>_ d. length (filter (\<lambda>u. \<not> uDisabled u) (users d))))"

definition AnyUserExists :: "bool result prog" where
  "AnyUserExists = wrap ''postgres: AnyUserExists: %w'' (query (\<lambda>_ d. users d \<noteq> []))"

definition UpdateUser :: "user \<Rightarrow> unit result prog" where
  "UpdateUser u = wrap ''postgres: UpdateUser: %w'' (command (\<lambda>now d.
     if exists_row (\<lambda>r. uID r = uID u) (users d) \<and>
        exists_row (\<lambda>r. uID r \<noteq> uID u \<and> uLogin r = uLogin u) (users d)
     then Inl (UniqueViolation ''users_login_key'')
     else Inr (d\<lparr>users := update_where (\<lambda>r. uID r = uID u)
            (\<lambda>r. r\<lparr>uName := uName u, uLogin := uLogin u, uPasswordHash := uPasswordHash u,
                   uMustChangePassword := uMustChangePassword u, uDisabled := uDisabled u,
                   uRole := uRole u, uUpdatedAt := now\<rparr>) (users d)\<rparr>)))"

definition DisableUser :: "string \<Rightarrow> unit result prog" where
  "DisableUser i = wrap ''postgres: DisableUser: %w'' (command (\<lambda>now d.
     Inr (d\<lparr>users := update_where (\<lambda>u. uID u = i)
                       (\<lambda>u. u\<lparr>uDisabled := True, uUpdatedAt := now\<rparr>) (users d)\<rparr>)))"

definition TouchUser :: "string \<Rightarrow> unit result prog" where
  "TouchUser i = wrap ''postgres: TouchUser: %w'' (command (\<lambda>now d.
     Inr (d\<lparr>users := update_where (\<lambda>u. uID u = i) (\<lambda>u. u\<lparr>uLastSeenAt := Some now\<rparr>) (users d)\<rparr>)))"

section \<open>Sessions (session_store.go)\<close>

definition session_row :: "time \<Rightarrow> session \<Rightarrow> session" where
  "session_row t s = s\<lparr>
     sCreatedAt := (if sCreatedAt s = 0 then t else sCreatedAt s),
     sRotatedAt := (if sRotatedAt s = 0 then t else sRotatedAt s),
     sLastActiveAt := (if sLastActiveAt s = 0 then t else sLastActiveAt s),
     sAuthProvider := (if sAuthProvider s = [] then ''password'' else sAuthProvider s)\<rparr>"

definition CreateSession :: "session \<Rightarrow> unit result prog" where
  "CreateSession s = wrap ''postgres: CreateSession: %w'' (command (\<lambda>now d.
     let s = session_row now s in
     if exists_row (\<lambda>r. sID r = sID s) (user_sessions d) then Inl (UniqueViolation ''user_sessions_pkey'')
     else if exists_row (\<lambda>r. sTokenHash r = sTokenHash s) (user_sessions d)
     then Inl (UniqueViolation ''user_sessions_token_hash_key'')
     else if \<not> exists_row (\<lambda>u. uID u = sUserID s) (users d)
     then Inl (ForeignKeyViolation ''user_sessions_user_id_fkey'')
     else Inr (d\<lparr>user_sessions := user_sessions d @ [s]\<rparr>)))"

definition session_matches :: "time \<Rightarrow> string \<Rightarrow> session \<Rightarrow> bool" where
  "session_matches t hash s =
     ((sTokenHash s = hash \<or> (sPrevTokenHash s = Some hash \<and> \<not> sAuthTokenSeen s)) \<and> sExpiresAt s > t)"

definition GetSessionByToken :: "string \<Rightarrow> session option result prog" where
  "GetSessionByToken hash =
     wrap ''postgres: GetSessionByToken: %w'' (query (\<lambda>now d. find (session_matches now hash) (user_sessions d)))"

definition RotateSession :: "string \<Rightarrow> string \<Rightarrow> string \<Rightarrow> unit result prog" where
  "RotateSession i newHash prevHash = wrap ''postgres: RotateSession: %w'' (command (\<lambda>now d.
     if exists_row (\<lambda>r. sID r = i) (user_sessions d) \<and>
        exists_row (\<lambda>r. sID r \<noteq> i \<and> sTokenHash r = newHash) (user_sessions d)
     then Inl (UniqueViolation ''user_sessions_token_hash_key'')
     else Inr (d\<lparr>user_sessions := update_where (\<lambda>r. sID r = i)
            (\<lambda>r. r\<lparr>sTokenHash := newHash, sPrevTokenHash := Some prevHash, sAuthTokenSeen := False,
                   sRotatedAt := now, sLastActiveAt := now\<rparr>) (user_sessions d)\<rparr>)))"

definition MarkTokenSeen :: "string \<Rightarrow> unit result prog" where
  "MarkTokenSeen i = wrap ''postgres: MarkTokenSeen: %w'' (command (\<lambda>now d.
     Inr (d\<lparr>user_sessions := update_where (\<lambda>r. sID r = i)
            (\<lambda>r. r\<lparr>sAuthTokenSeen := True, sSeenAt := Some now\<rparr>) (user_sessions d)\<rparr>)))"

definition DeleteSession :: "string \<Rightarrow> unit result prog" where
  "DeleteSession i = wrap ''postgres: DeleteSession: %w'' (command (\<lambda>_ d.
     Inr (d\<lparr>user_sessions := delete_where (\<lambda>r. sID r = i) (user_sessions d)\<rparr>)))"

definition DeleteUserSessions :: "string \<Rightarrow> unit result prog" where
  "DeleteUserSessions userID = wrap ''postgres: DeleteUserSessions: %w'' (command (\<lambda>_ d.
     Inr (d\<lparr>user_sessions := delete_where (\<lambda>r. sUserID r = userID) (user_sessions d)\<rparr>)))"

definition ListUserSessions :: "string \<Rightarrow> session list result prog" where
  "ListUserSessions userID = wrap ''postgres: ListUserSessions: %w'' (query (\<lambda>_ d.
     sort_key (\<lambda>s. - sLastActiveAt s) (filter (\<lambda>s. sUserID s = userID) (user_sessions d))))"

section \<open>Identities and login attempts (login_store.go)\<close>

definition UpsertAuthIdentity :: "auth_identity \<Rightarrow> unit result prog" where
  "UpsertAuthIdentity a = wrap ''postgres: UpsertAuthIdentity: %w'' (command (\<lambda>_ d.
     if \<not> exists_row (\<lambda>u. uID u = aiUserID a) (users d)
     then Inl (ForeignKeyViolation ''user_auth_user_id_fkey'')
     else if exists_row (\<lambda>r. aiProviderID r = aiProviderID a \<and> aiSub r = aiSub a) (user_auth d)
     then Inr (d\<lparr>user_auth := update_where (\<lambda>r. aiProviderID r = aiProviderID a \<and> aiSub r = aiSub a)
                   (\<lambda>r. r\<lparr>aiUserID := aiUserID a\<rparr>) (user_auth d)\<rparr>)
     else Inr (d\<lparr>user_auth := user_auth d @ [a]\<rparr>)))"

definition RecordLoginAttempt :: "string \<Rightarrow> string \<Rightarrow> unit result prog" where
  "RecordLoginAttempt username ip = wrap ''postgres: RecordLoginAttempt: %w'' (command (\<lambda>now d.
     Inr (d\<lparr>login_attempts := login_attempts d @ [\<lparr>laUsername = username, laIP = ip, laCreatedAt = now\<rparr>]\<rparr>)))"

definition CountLoginAttempts :: "string \<Rightarrow> time \<Rightarrow> nat result prog" where
  "CountLoginAttempts username since = wrap ''postgres: CountLoginAttempts: %w'' (query (\<lambda>_ d.
     length (filter (\<lambda>a. laUsername a = username \<and> laCreatedAt a > since) (login_attempts d))))"

section \<open>Preservation\<close>

lemma user_row_keys [simp]:
  "uID (user_row t u) = uID u" "uEmail (user_row t u) = uEmail u" "uLogin (user_row t u) = uLogin u"
  by (simp_all add: user_row_def)

lemma session_row_keys [simp]:
  "sID (session_row t s) = sID s" "sTokenHash (session_row t s) = sTokenHash s"
  "sUserID (session_row t s) = sUserID s" "sExpiresAt (session_row t s) = sExpiresAt s"
  "sPrevTokenHash (session_row t s) = sPrevTokenHash s" "sAuthTokenSeen (session_row t s) = sAuthTokenSeen s"
  by (simp_all add: session_row_def)

lemma users_update_ok:
  assumes "db_ok d" and "\<And>u. uID (f u) = uID u" and "\<And>u. uEmail (f u) = uEmail u"
    and "unique uLogin (update_where P f (users d))"
  shows "db_ok (d\<lparr>users := update_where P f (users d)\<rparr>)"
  using assms by (simp add: db_ok_def tables_ok_defs)

lemma users_insert_ok:
  assumes "db_ok d" and "uID u \<notin> keys uID (users d)" and "uEmail u \<notin> keys uEmail (users d)"
    and "uLogin u \<notin> keys uLogin (users d)"
  shows "db_ok (d\<lparr>users := users d @ [u]\<rparr>)"
  using assms by (auto simp: db_ok_def tables_ok_defs)

lemma sessions_update_ok:
  assumes "db_ok d" and "\<And>s. sID (f s) = sID s" and "\<And>s. sUserID (f s) = sUserID s"
    and "unique sTokenHash (update_where P f (user_sessions d))"
  shows "db_ok (d\<lparr>user_sessions := update_where P f (user_sessions d)\<rparr>)"
  using assms by (simp add: db_ok_def tables_ok_defs)

lemma sessions_delete_ok:
  "db_ok d \<Longrightarrow> db_ok (d\<lparr>user_sessions := delete_where P (user_sessions d)\<rparr>)"
  by (auto simp: db_ok_def tables_ok_defs)

lemma sessions_insert_ok:
  assumes "db_ok d" and "sID s \<notin> keys sID (user_sessions d)"
    and "sTokenHash s \<notin> keys sTokenHash (user_sessions d)" and "sUserID s \<in> keys uID (users d)"
  shows "db_ok (d\<lparr>user_sessions := user_sessions d @ [s]\<rparr>)"
  using assms by (simp add: db_ok_def tables_ok_defs)

lemma identities_ok:
  assumes "db_ok d" and "unique (\<lambda>a. (aiProviderID a, aiSub a)) ai" and "keys aiUserID ai \<subseteq> keys uID (users d)"
  shows "db_ok (d\<lparr>user_auth := ai\<rparr>)"
  using assms by (simp add: db_ok_def tables_ok_defs)

lemma attempts_ok: "db_ok (d\<lparr>login_attempts := la\<rparr>) = db_ok d"
  by (simp add: db_ok_def tables_ok_defs)

lemma db_ok_identities:
  assumes "db_ok d"
  shows "unique (\<lambda>a. (aiProviderID a, aiSub a)) (user_auth d)"
    and "x \<in> set (user_auth d) \<Longrightarrow> aiUserID x \<in> keys uID (users d)"
  using assms by (auto simp: db_ok_def user_tables_ok_def)

lemma db_ok_unique:
  assumes "db_ok d"
  shows "unique uID (users d)" and "unique uEmail (users d)" and "unique uLogin (users d)"
    and "unique sID (user_sessions d)" and "unique sTokenHash (user_sessions d)"
  using assms by (simp_all add: db_ok_def user_tables_ok_def)

lemma keeps_db_user_writes [keeps_rules]:
  "keeps (on_db db_ok) (SetUserAvatar i a)" "keeps (on_db db_ok) (DisableUser i)"
  "keeps (on_db db_ok) (TouchUser i)"
  unfolding SetUserAvatar_def DisableUser_def TouchUser_def
  by (intro keeps_wrap keeps_command; auto intro!: users_update_ok dest: db_ok_unique)+

lemma keeps_db_CreateUser [keeps_rules]: "keeps (on_db db_ok) (CreateUser u)"
  unfolding CreateUser_def Let_def
  by (intro keeps_wrap keeps_command) (auto intro!: users_insert_ok split: if_splits)

lemma keeps_db_UpdateUser [keeps_rules]: "keeps (on_db db_ok) (UpdateUser u)"
  unfolding UpdateUser_def
  by (intro keeps_wrap keeps_command)
    (auto split: if_splits simp: key_simps intro!: users_update_ok
      intro: unique_update_one [where ident = uID and i = "uID u" and v = "uLogin u"] dest: db_ok_unique)

lemma keeps_db_UpsertUser [keeps_rules]: "keeps (on_db db_ok) (UpsertUser u)"
  unfolding UpsertUser_def Let_def
  by (intro keeps_wrap keeps_command)
    (auto split: if_splits intro!: users_insert_ok users_update_ok
      intro: unique_update_one [where ident = uEmail and i = "uEmail u" and v = "uLogin u"] dest: db_ok_unique)

lemma keeps_db_CreateSession [keeps_rules]: "keeps (on_db db_ok) (CreateSession s)"
  unfolding CreateSession_def Let_def
  by (intro keeps_wrap keeps_command) (auto split: if_splits simp: key_simps intro!: sessions_insert_ok)

lemma keeps_db_session_writes [keeps_rules]:
  "keeps (on_db db_ok) (MarkTokenSeen i)" "keeps (on_db db_ok) (DeleteSession i)"
  "keeps (on_db db_ok) (DeleteUserSessions i)"
  unfolding MarkTokenSeen_def DeleteSession_def DeleteUserSessions_def
  by (intro keeps_wrap keeps_command; auto intro!: sessions_update_ok sessions_delete_ok dest: db_ok_unique)+

lemma keeps_db_RotateSession [keeps_rules]: "keeps (on_db db_ok) (RotateSession i h p)"
  unfolding RotateSession_def
  by (intro keeps_wrap keeps_command)
    (auto split: if_splits simp: key_simps intro!: sessions_update_ok
      intro: unique_update_one [where ident = sID and i = i and v = h] dest: db_ok_unique)

lemma keeps_db_UpsertAuthIdentity [keeps_rules]: "keeps (on_db db_ok) (UpsertAuthIdentity a)"
  unfolding UpsertAuthIdentity_def
  by (intro keeps_wrap keeps_command)
    (auto split: if_splits intro!: identities_ok dest: db_ok_identities simp: set_update_where key_simps)

lemma keeps_db_RecordLoginAttempt [keeps_rules]: "keeps (on_db db_ok) (RecordLoginAttempt n i)"
  unfolding RecordLoginAttempt_def
  by (intro keeps_wrap keeps_command) (auto simp: attempts_ok)

lemma keeps_user_reads [keeps_rules]:
  "keeps (on_db I) (GetUser i)" "keeps (on_db I) (GetUserByEmail e)" "keeps (on_db I) (GetUserByLogin l)"
  "keeps (on_db I) (ListUsers g)" "keeps (on_db I) ListAllUsers" "keeps (on_db I) CountAllUsers"
  "keeps (on_db I) CountActiveUsers" "keeps (on_db I) AnyUserExists"
  "keeps (on_db I) (GetSessionByToken h)" "keeps (on_db I) (ListUserSessions i)"
  "keeps (on_db I) (CountLoginAttempts n t)"
  unfolding GetUser_def GetUserByEmail_def GetUserByLogin_def ListUsers_def ListAllUsers_def
    CountAllUsers_def CountActiveUsers_def AnyUserExists_def GetSessionByToken_def ListUserSessions_def
    CountLoginAttempts_def
  by (intro keeps_rules keeps_exec; simp)+

end
