(* ===== verification/OrgStore.thy ===== *)
theory OrgStore
  imports Database
begin

text \<open>
  \<open>internal/store/postgres/org_store.go\<close>, \<open>member_store.go\<close>, \<open>team_store.go\<close> and the membership part
  of \<open>authz_store.go\<close>: organisations, memberships and teams.
\<close>

section \<open>Organisations (org_store.go)\<close>

definition org_row :: "time \<Rightarrow> org \<Rightarrow> org" where
  "org_row t g = g\<lparr>oCreatedAt := (if oCreatedAt g = 0 then t else oCreatedAt g),
     oUpdatedAt := (if oUpdatedAt g = 0 then t else oUpdatedAt g)\<rparr>"

definition CreateOrg :: "org \<Rightarrow> unit result prog" where
  "CreateOrg g = wrap ''postgres: CreateOrg: %w'' (command (\<lambda>now d.
     let g = org_row now g in
     if exists_row (\<lambda>r. oID r = oID g) (orgs d) then Inl (UniqueViolation ''orgs_pkey'')
     else Inr (d\<lparr>orgs := orgs d @ [g]\<rparr>)))"

definition GetOrg :: "string \<Rightarrow> org option result prog" where
  "GetOrg i = wrap ''postgres: GetOrg: %w'' (query (\<lambda>_ d. find (\<lambda>g. oID g = i) (orgs d)))"

definition ListOrgs :: "org list result prog" where
  "ListOrgs = State_Monad.bind collate (\<lambda>c.
     wrap ''postgres: ListOrgs: %w'' (query (\<lambda>_ d. sort_key (\<lambda>g. c (oName g)) (orgs d))))"

definition ListAutoJoinOrgs :: "org list result prog" where
  "ListAutoJoinOrgs = State_Monad.bind collate (\<lambda>c.
     wrap ''postgres: ListAutoJoinOrgs: %w'' (query (\<lambda>_ d.
       sort_key (\<lambda>g. c (oName g)) (filter (\<lambda>g. oAutoJoin g \<and> \<not> oDisabled g) (orgs d)))))"

definition CountAllOrgs :: "nat result prog" where
  "CountAllOrgs = wrap ''postgres: CountAllOrgs: %w'' (query (\<lambda>_ d. length (orgs d)))"

definition UpdateOrg :: "org \<Rightarrow> unit result prog" where
  "UpdateOrg g = wrap ''postgres: UpdateOrg: %w'' (command (\<lambda>now d.
     Inr (d\<lparr>orgs := update_where (\<lambda>r. oID r = oID g)
        (\<lambda>r. r\<lparr>oName := oName g, oDisabled := oDisabled g, oAutoJoin := oAutoJoin g, oUpdatedAt := now\<rparr>)
        (orgs d)\<rparr>)))"

definition SetOrgLogo :: "string \<Rightarrow> string option \<Rightarrow> unit result prog" where
  "SetOrgLogo i assetID = wrap ''postgres: SetOrgLogo: %w'' (command (\<lambda>now d.
     Inr (d\<lparr>orgs := update_where (\<lambda>r. oID r = i)
        (\<lambda>r. r\<lparr>oLogoAssetID := assetID, oUpdatedAt := now\<rparr>) (orgs d)\<rparr>)))"

definition SetOnboardingDone :: "string \<Rightarrow> unit result prog" where
  "SetOnboardingDone i = wrap ''postgres: SetOnboardingDone: %w'' (command (\<lambda>now d.
     Inr (d\<lparr>orgs := update_where (\<lambda>r. oID r = i)
        (\<lambda>r. r\<lparr>oOnboardingDone := True, oUpdatedAt := now\<rparr>) (orgs d)\<rparr>)))"

text \<open>Deleting an organisation cascades to every table that refers to it; the usage log has the one
  foreign key that does not cascade.\<close>

definition cascade_org :: "string \<Rightarrow> database \<Rightarrow> database" where
  "cascade_org i d =
     (let gone_team = (\<lambda>t. t \<in> set (map tID (filter (\<lambda>t. tOrgID t = i) (teams d))));
          gone_sa = (\<lambda>a. a \<in> set (map saID (filter (\<lambda>a. saOrgID a = i) (service_accounts d))));
          gone_prov = (\<lambda>p. p \<in> set (map apID (filter (\<lambda>p. apOrgID p = i) (auth_providers d))))
      in d\<lparr>orgs := delete_where (\<lambda>g. oID g = i) (orgs d),
           org_members := delete_where (\<lambda>m. mOrgID m = i) (org_members d),
           teams := delete_where (\<lambda>t. tOrgID t = i) (teams d),
           team_members := delete_where (\<lambda>m. tmOrgID m = i \<or> gone_team (tmTeamID m)) (team_members d),
           service_accounts := delete_where (\<lambda>a. saOrgID a = i) (service_accounts d),
           service_account_tokens := delete_where (\<lambda>t. gone_sa (tkServiceAccountID t)) (service_account_tokens d),
           org_domains := delete_where (\<lambda>x. odOrgID x = i) (org_domains d),
           auth_providers := delete_where (\<lambda>p. apOrgID p = i) (auth_providers d),
           auth_role_mappings := delete_where (\<lambda>r. gone_prov (rProviderID r)) (auth_role_mappings d),
           auth_login_state := delete_where (\<lambda>s. lsOrgID s = i \<or> gone_prov (lsProviderID s)) (auth_login_state d),
           import_teams := delete_where (\<lambda>x. fst x = i) (import_teams d)\<rparr>)"

text \<open>An import that refers to a team of this organisation but belongs to another one keeps the team
  alive: the delete fails.\<close>

definition DeleteOrg :: "string \<Rightarrow> unit result prog" where
  "DeleteOrg i = wrap ''postgres: DeleteOrg: %w'' (command (\<lambda>_ d.
     if exists_row (\<lambda>u. u = i) (mcp_usage_orgs d)
     then Inl (ForeignKeyViolation ''mcp_usage_events_org_id_fkey'')
     else if exists_row (\<lambda>x. fst x \<noteq> i \<and> exists_row (\<lambda>t. tID t = snd x \<and> tOrgID t = i) (teams d)) (import_teams d)
     then Inl (ForeignKeyViolation ''repository_imports_team_id_fkey'')
     else Inr (cascade_org i d)))"

definition AnyOrgExists :: "bool result prog" where
  "AnyOrgExists = wrap ''postgres: AnyOrgExists: %w'' (query (\<lambda>_ d. orgs d \<noteq> []))"

section \<open>Members (member_store.go)\<close>

definition member_row :: "time \<Rightarrow> org_member \<Rightarrow> org_member" where
  "member_row t m = m\<lparr>mEmail := [], mName := [], mTeamID := None, mCreatedAt := t, mUpdatedAt := t\<rparr>"

definition AddMember :: "org_member \<Rightarrow> unit result prog" where
  "AddMember m = wrap ''postgres: AddMember: %w'' (command (\<lambda>now d.
     if exists_row (\<lambda>r. mUserID r = mUserID m \<and> mOrgID r = mOrgID m) (org_members d)
     then Inl (UniqueViolation ''org_members_pkey'')
     else if \<not> exists_row (\<lambda>u. uID u = mUserID m) (users d)
     then Inl (ForeignKeyViolation ''org_members_user_id_fkey'')
     else if \<not> exists_row (\<lambda>g. oID g = mOrgID m) (orgs d)
     then Inl (ForeignKeyViolation ''org_members_org_id_fkey'')
     else Inr (d\<lparr>org_members := org_members d @ [member_row now m]\<rparr>)))"

definition upsert_member :: "time \<Rightarrow> org_member \<Rightarrow> database \<Rightarrow> database result" where
  "upsert_member t m d =
     (if exists_row (\<lambda>r. mUserID r = mUserID m \<and> mOrgID r = mOrgID m) (org_members d)
      then Inr (d\<lparr>org_members := update_where (\<lambda>r. mUserID r = mUserID m \<and> mOrgID r = mOrgID m)
             (\<lambda>r. r\<lparr>mRole := mRole m, mSource := mSource m, mUpdatedAt := t\<rparr>) (org_members d)\<rparr>)
      else if \<not> exists_row (\<lambda>u. uID u = mUserID m) (users d)
      then Inl (ForeignKeyViolation ''org_members_user_id_fkey'')
      else if \<not> exists_row (\<lambda>g. oID g = mOrgID m) (orgs d)
      then Inl (ForeignKeyViolation ''org_members_org_id_fkey'')
      else Inr (d\<lparr>org_members := org_members d @ [member_row t m]\<rparr>))"

definition UpsertMember :: "org_member \<Rightarrow> unit result prog" where
  "UpsertMember m = wrap ''postgres: UpsertMember: %w'' (command (\<lambda>now d. upsert_member now m d))"

definition GetMember :: "string \<Rightarrow> string \<Rightarrow> org_member option result prog" where
  "GetMember userID orgID = wrap ''postgres: GetMember: %w'' (query (\<lambda>_ d.
     find (\<lambda>m. mUserID m = userID \<and> mOrgID m = orgID) (org_members d)))"

text \<open>The lateral join: the team the member was first added to.\<close>

definition first_team :: "database \<Rightarrow> org_member \<Rightarrow> string option" where
  "first_team d m =
     (case sort_key tmCreatedAt (filter (\<lambda>t. tmUserID t = mUserID m \<and> tmOrgID t = mOrgID m) (team_members d)) of
        [] \<Rightarrow> None | t # _ \<Rightarrow> Some (tmTeamID t))"

definition ListMembers :: "string \<Rightarrow> org_member list result prog" where
  "ListMembers orgID = wrap ''postgres: ListMembers: %w'' (query (\<lambda>_ d.
     concat (map (\<lambda>m. case find (\<lambda>u. uID u = mUserID m) (users d) of
                        None \<Rightarrow> []
                      | Some u \<Rightarrow> [m\<lparr>mEmail := uEmail u, mName := uName u, mTeamID := first_team d m\<rparr>])
       (sort_key mCreatedAt (filter (\<lambda>m. mOrgID m = orgID) (org_members d))))))"

definition UpdateMemberRole :: "string \<Rightarrow> string \<Rightarrow> role \<Rightarrow> string \<Rightarrow> unit result prog" where
  "UpdateMemberRole userID orgID role source = wrap ''postgres: UpdateMemberRole: %w'' (command (\<lambda>now d.
     Inr (d\<lparr>org_members := update_where (\<lambda>m. mUserID m = userID \<and> mOrgID m = orgID)
        (\<lambda>m. m\<lparr>mRole := role, mSource := source, mUpdatedAt := now\<rparr>) (org_members d)\<rparr>)))"

record org_membership_view =
  vOrg :: org
  vRole :: role

definition ListOrgsForUser :: "string \<Rightarrow> org_membership_view list result prog" where
  "ListOrgsForUser userID = State_Monad.bind collate (\<lambda>c.
     wrap ''postgres: ListOrgsForUser: %w'' (query (\<lambda>_ d.
       sort_key (\<lambda>v. c (oName (vOrg v)))
         (concat (map (\<lambda>m. map (\<lambda>g. \<lparr>vOrg = g\<lparr>oAutoJoin := False\<rparr>, vRole = mRole m\<rparr>)
                              (filter (\<lambda>g. oID g = mOrgID m) (orgs d)))
            (filter (\<lambda>m. mUserID m = userID) (org_members d)))))))"

definition RemoveMember :: "string \<Rightarrow> string \<Rightarrow> unit result prog" where
  "RemoveMember userID orgID = wrap ''postgres: RemoveMember: %w'' (command (\<lambda>_ d.
     Inr (d\<lparr>org_members := delete_where (\<lambda>m. mUserID m = userID \<and> mOrgID m = orgID) (org_members d)\<rparr>)))"

section \<open>Memberships as the authorizer reads them (authz_store.go)\<close>

record authz_member =
  amUserID :: string
  amOrgID :: string
  amRole :: role
  amSource :: string

definition GetOrgMember :: "string \<Rightarrow> string \<Rightarrow> authz_member result prog" where
  "GetOrgMember userID orgID =
     bindE (wrap ''postgres: GetOrgMember: %w'' (query (\<lambda>_ d.
              find (\<lambda>m. mUserID m = userID \<and> mOrgID m = orgID) (org_members d))))
       (\<lambda>r. ret (case r of
          None \<Rightarrow> Inl AuthzErrNotFound
        | Some m \<Rightarrow> Inr \<lparr>amUserID = userID, amOrgID = orgID, amRole = mRole m, amSource = mSource m\<rparr>))"

definition UpsertOrgMember :: "string \<Rightarrow> string \<Rightarrow> role \<Rightarrow> string \<Rightarrow> unit result prog" where
  "UpsertOrgMember userID orgID role source = wrap ''postgres: UpsertOrgMember: %w'' (command (\<lambda>now d.
     upsert_member now \<lparr>mUserID = userID, mOrgID = orgID, mRole = role, mSource = source, mEmail = [],
       mName = [], mTeamID = None, mCreatedAt = 0, mUpdatedAt = 0\<rparr> d))"

section \<open>Teams (team_store.go)\<close>

definition team_row :: "time \<Rightarrow> team \<Rightarrow> team" where
  "team_row t x = x\<lparr>tMemberCount := 0, tCreatedAt := (if tCreatedAt x = 0 then t else tCreatedAt x),
     tUpdatedAt := (if tUpdatedAt x = 0 then t else tUpdatedAt x)\<rparr>"

definition CreateTeam :: "team \<Rightarrow> unit result prog" where
  "CreateTeam t = wrap ''postgres: CreateTeam: %w'' (command (\<lambda>now d.
     let t = team_row now t in
     if exists_row (\<lambda>r. tID r = tID t) (teams d) then Inl (UniqueViolation ''teams_pkey'')
     else if exists_row (\<lambda>r. tOrgID r = tOrgID t \<and> tName r = tName t) (teams d)
     then Inl (UniqueViolation ''teams_org_id_name_key'')
     else if \<not> exists_row (\<lambda>g. oID g = tOrgID t) (orgs d)
     then Inl (ForeignKeyViolation ''teams_org_id_fkey'')
     else Inr (d\<lparr>teams := teams d @ [t]\<rparr>)))"

definition with_count :: "database \<Rightarrow> team \<Rightarrow> team" where
  "with_count d t = t\<lparr>tMemberCount := length (filter (\<lambda>m. tmTeamID m = tID t) (team_members d))\<rparr>"

definition GetTeam :: "string \<Rightarrow> team option result prog" where
  "GetTeam i = wrap ''postgres: GetTeam: %w'' (query (\<lambda>_ d.
     map_option (with_count d) (find (\<lambda>t. tID t = i) (teams d))))"

definition ListTeams :: "string \<Rightarrow> team list result prog" where
  "ListTeams orgID = State_Monad.bind collate (\<lambda>c.
     wrap ''postgres: ListTeams: %w'' (query (\<lambda>_ d.
       map (with_count d) (sort_key (\<lambda>t. c (tName t)) (filter (\<lambda>t. tOrgID t = orgID) (teams d))))))"

definition UpdateTeam :: "team \<Rightarrow> unit result prog" where
  "UpdateTeam t = wrap ''postgres: UpdateTeam: %w'' (command (\<lambda>now d.
     if exists_row (\<lambda>x. tID x = tID t \<and>
          exists_row (\<lambda>r. tID r \<noteq> tID t \<and> tOrgID r = tOrgID x \<and> tName r = tName t) (teams d)) (teams d)
     then Inl (UniqueViolation ''teams_org_id_name_key'')
     else Inr (d\<lparr>teams := update_where (\<lambda>r. tID r = tID t)
        (\<lambda>r. r\<lparr>tName := tName t, tEmail := tEmail t, tExternalID := tExternalID t, tUpdatedAt := now\<rparr>)
        (teams d)\<rparr>)))"

definition DeleteTeam :: "string \<Rightarrow> unit result prog" where
  "DeleteTeam i = wrap ''postgres: DeleteTeam: %w'' (command (\<lambda>_ d.
     if exists_row (\<lambda>x. snd x = i) (import_teams d)
     then Inl (ForeignKeyViolation ''repository_imports_team_id_fkey'')
     else Inr (d\<lparr>teams := delete_where (\<lambda>t. tID t = i) (teams d),
                 team_members := delete_where (\<lambda>m. tmTeamID m = i) (team_members d)\<rparr>)))"

definition team_member_row :: "time \<Rightarrow> team_member \<Rightarrow> team_member" where
  "team_member_row t m = m\<lparr>tmCreatedAt := t, tmUpdatedAt := t\<rparr>"

definition AddTeamMember :: "team_member \<Rightarrow> unit result prog" where
  "AddTeamMember m = wrap ''postgres: AddTeamMember: %w'' (command (\<lambda>now d.
     if exists_row (\<lambda>r. tmTeamID r = tmTeamID m \<and> tmUserID r = tmUserID m) (team_members d)
     then Inr (d\<lparr>team_members := update_where (\<lambda>r. tmTeamID r = tmTeamID m \<and> tmUserID r = tmUserID m)
             (\<lambda>r. r\<lparr>tmPermission := tmPermission m, tmUpdatedAt := now\<rparr>) (team_members d)\<rparr>)
     else if \<not> exists_row (\<lambda>t. tID t = tmTeamID m) (teams d)
     then Inl (ForeignKeyViolation ''team_members_team_id_fkey'')
     else if \<not> exists_row (\<lambda>u. uID u = tmUserID m) (users d)
     then Inl (ForeignKeyViolation ''team_members_user_id_fkey'')
     else if \<not> exists_row (\<lambda>g. oID g = tmOrgID m) (orgs d)
     then Inl (ForeignKeyViolation ''team_members_org_id_fkey'')
     else Inr (d\<lparr>team_members := team_members d @ [team_member_row now m]\<rparr>)))"

definition ListTeamMembers :: "string \<Rightarrow> team_member list result prog" where
  "ListTeamMembers teamID = wrap ''postgres: ListTeamMembers: %w'' (query (\<lambda>_ d.
     sort_key tmCreatedAt (filter (\<lambda>m. tmTeamID m = teamID) (team_members d))))"

definition RemoveTeamMember :: "string \<Rightarrow> string \<Rightarrow> unit result prog" where
  "RemoveTeamMember teamID userID = wrap ''postgres: RemoveTeamMember: %w'' (command (\<lambda>_ d.
     Inr (d\<lparr>team_members := delete_where (\<lambda>m. tmTeamID m = teamID \<and> tmUserID m = userID) (team_members d)\<rparr>)))"

definition RemoveUserFromOrgTeams :: "string \<Rightarrow> string \<Rightarrow> unit result prog" where
  "RemoveUserFromOrgTeams orgID userID = wrap ''postgres: RemoveUserFromOrgTeams: %w'' (command (\<lambda>_ d.
     Inr (d\<lparr>team_members := delete_where (\<lambda>m. tmOrgID m = orgID \<and> tmUserID m = userID) (team_members d)\<rparr>)))"

section \<open>Preservation\<close>

lemma row_keys [simp]:
  "oID (org_row t g) = oID g" "mUserID (member_row t m) = mUserID m" "mOrgID (member_row t m) = mOrgID m"
  "mRole (member_row t m) = mRole m" "mSource (member_row t m) = mSource m"
  "tID (team_row t x) = tID x" "tOrgID (team_row t x) = tOrgID x" "tName (team_row t x) = tName x"
  "tmTeamID (team_member_row t y) = tmTeamID y" "tmUserID (team_member_row t y) = tmUserID y"
  "tmOrgID (team_member_row t y) = tmOrgID y"
  by (simp_all add: org_row_def member_row_def team_row_def team_member_row_def)

lemma orgs_insert_ok:
  assumes "db_ok d" and "oID g \<notin> keys oID (orgs d)"
  shows "db_ok (d\<lparr>orgs := orgs d @ [g]\<rparr>)"
  using assms by (simp add: db_ok_def tables_ok_defs subset_insertI2)

lemma orgs_update_ok:
  assumes "db_ok d" and "\<And>g. oID (f g) = oID g"
  shows "db_ok (d\<lparr>orgs := update_where P f (orgs d)\<rparr>)"
  using assms by (simp add: db_ok_def tables_ok_defs)

lemma members_update_ok:
  assumes "db_ok d" and "\<And>m. mUserID (f m) = mUserID m" and "\<And>m. mOrgID (f m) = mOrgID m"
  shows "db_ok (d\<lparr>org_members := update_where P f (org_members d)\<rparr>)"
  using assms by (simp add: db_ok_def tables_ok_defs)

lemma members_delete_ok: "db_ok d \<Longrightarrow> db_ok (d\<lparr>org_members := delete_where P (org_members d)\<rparr>)"
  unfolding db_ok_def tables_ok_defs by (simp add: keys_delete_subset del: set_delete_where)

lemma members_insert_ok:
  assumes "db_ok d" and "(mUserID m, mOrgID m) \<notin> keys (\<lambda>m. (mUserID m, mOrgID m)) (org_members d)"
    and "mUserID m \<in> keys uID (users d)" and "mOrgID m \<in> keys oID (orgs d)"
  shows "db_ok (d\<lparr>org_members := org_members d @ [m]\<rparr>)"
  using assms by (simp add: db_ok_def tables_ok_defs)

lemma team_members_update_ok:
  assumes "db_ok d" and "\<And>m. tmUserID (f m) = tmUserID m" and "\<And>m. tmOrgID (f m) = tmOrgID m"
    and "\<And>m. tmTeamID (f m) = tmTeamID m"
  shows "db_ok (d\<lparr>team_members := update_where P f (team_members d)\<rparr>)"
  using assms by (simp add: db_ok_def tables_ok_defs)

lemma team_members_delete_ok: "db_ok d \<Longrightarrow> db_ok (d\<lparr>team_members := delete_where P (team_members d)\<rparr>)"
  unfolding db_ok_def tables_ok_defs by (simp add: keys_delete_subset del: set_delete_where)

lemma team_members_insert_ok:
  assumes "db_ok d" and "(tmTeamID m, tmUserID m) \<notin> keys (\<lambda>m. (tmTeamID m, tmUserID m)) (team_members d)"
    and "tmTeamID m \<in> keys tID (teams d)" and "tmUserID m \<in> keys uID (users d)"
    and "tmOrgID m \<in> keys oID (orgs d)"
  shows "db_ok (d\<lparr>team_members := team_members d @ [m]\<rparr>)"
  using assms by (simp add: db_ok_def tables_ok_defs)

lemma teams_ok:
  assumes "db_ok d" and "unique tID ts" and "unique (\<lambda>t. (tOrgID t, tName t)) ts"
    and "keys tOrgID ts \<subseteq> keys oID (orgs d)" and "keys tID (teams d) \<subseteq> keys tID ts"
  shows "db_ok (d\<lparr>teams := ts\<rparr>)"
  using assms unfolding db_ok_def tables_ok_defs by simp (meson order_trans)

lemma db_ok_members:
  assumes "db_ok d"
  shows "unique (\<lambda>m. (mUserID m, mOrgID m)) (org_members d)"
    and "m \<in> set (org_members d) \<Longrightarrow> mUserID m \<in> keys uID (users d)"
    and "m \<in> set (org_members d) \<Longrightarrow> mOrgID m \<in> keys oID (orgs d)"
  using assms by (auto simp: db_ok_def org_tables_ok_def)

lemma db_ok_teams:
  assumes "db_ok d"
  shows "unique tID (teams d)" and "unique (\<lambda>t. (tOrgID t, tName t)) (teams d)"
    and "t \<in> set (teams d) \<Longrightarrow> tOrgID t \<in> keys oID (orgs d)"
    and "unique (\<lambda>m. (tmTeamID m, tmUserID m)) (team_members d)"
    and "m \<in> set (team_members d) \<Longrightarrow> tmTeamID m \<in> keys tID (teams d)"
    and "m \<in> set (team_members d) \<Longrightarrow> tmUserID m \<in> keys uID (users d)"
    and "m \<in> set (team_members d) \<Longrightarrow> tmOrgID m \<in> keys oID (orgs d)"
  using assms by (auto simp: db_ok_def org_tables_ok_def)

lemma keeps_db_org_writes [keeps_rules]:
  "keeps (on_db db_ok) (CreateOrg g)" "keeps (on_db db_ok) (UpdateOrg g)"
  "keeps (on_db db_ok) (SetOrgLogo i a)" "keeps (on_db db_ok) (SetOnboardingDone i)"
  unfolding CreateOrg_def UpdateOrg_def SetOrgLogo_def SetOnboardingDone_def Let_def
  by (intro keeps_wrap keeps_command;
      auto split: if_splits simp: key_simps intro!: orgs_insert_ok orgs_update_ok)+

lemma upsert_member_ok:
  assumes "db_ok d" and "upsert_member t m d = Inr d'"
  shows "db_ok d'"
  using assms unfolding upsert_member_def
  by (auto split: if_splits simp: key_simps intro!: members_insert_ok members_update_ok members_delete_ok)

lemma keeps_db_member_writes [keeps_rules]:
  "keeps (on_db db_ok) (AddMember m)" "keeps (on_db db_ok) (UpdateMemberRole i j r s)"
  "keeps (on_db db_ok) (RemoveMember i j)"
  unfolding AddMember_def UpdateMemberRole_def RemoveMember_def
  by (intro keeps_wrap keeps_command;
      auto split: if_splits simp: key_simps intro!: members_insert_ok members_update_ok members_delete_ok)+

lemma keeps_db_member_upserts [keeps_rules]:
  "keeps (on_db db_ok) (UpsertMember m)" "keeps (on_db db_ok) (UpsertOrgMember i j r s)"
  unfolding UpsertMember_def UpsertOrgMember_def
  by (intro keeps_wrap keeps_command; auto dest: upsert_member_ok)+

lemma keeps_db_team_member_writes [keeps_rules]:
  "keeps (on_db db_ok) (AddTeamMember m)" "keeps (on_db db_ok) (RemoveTeamMember i j)"
  "keeps (on_db db_ok) (RemoveUserFromOrgTeams i j)"
  unfolding AddTeamMember_def RemoveTeamMember_def RemoveUserFromOrgTeams_def
  by (intro keeps_wrap keeps_command;
      auto split: if_splits simp: key_simps intro!: team_members_insert_ok team_members_update_ok team_members_delete_ok)+

lemma keeps_db_CreateTeam [keeps_rules]: "keeps (on_db db_ok) (CreateTeam t)"
  unfolding CreateTeam_def Let_def
  by (intro keeps_wrap keeps_command)
    (auto split: if_splits simp: key_simps intro!: teams_ok dest: db_ok_teams(1,2) intro: db_ok_teams(3))

lemma keeps_db_UpdateTeam [keeps_rules]: "keeps (on_db db_ok) (UpdateTeam t)"
proof -
  have step: "db_ok (d\<lparr>teams := update_where (\<lambda>r. tID r = tID t) f (teams d)\<rparr>)"
    if "db_ok d" and "\<And>r. tID (f r) = tID r" and "\<And>r. tOrgID (f r) = tOrgID r" and "\<And>r. tName (f r) = tName t"
      and "\<not> exists_row (\<lambda>x. tID x = tID t \<and>
          exists_row (\<lambda>r. tID r \<noteq> tID t \<and> tOrgID r = tOrgID x \<and> tName r = tName t) (teams d)) (teams d)" for d f
  proof (rule teams_ok [OF that(1)])
    let ?ts = "update_where (\<lambda>r. tID r = tID t) f (teams d)"
    show "unique tID ?ts" using db_ok_teams(1) [OF that(1)] that(2) by simp
    show "unique (\<lambda>t. (tOrgID t, tName t)) ?ts"
      using db_ok_teams(1,2) [OF that(1)] that(3,4) by (rule unique_update_scoped) (use that(5) in auto)
    show "keys tOrgID ?ts \<subseteq> keys oID (orgs d)"
      using db_ok_teams(3) [OF that(1)] that(3) by auto
    show "keys tID (teams d) \<subseteq> keys tID ?ts" using that(2) by simp
  qed
  show ?thesis
    unfolding UpdateTeam_def
    by (intro keeps_wrap keeps_command) (auto split: if_splits intro!: step simp del: exists_row_iff)
qed

lemma keeps_db_DeleteTeam [keeps_rules]: "keeps (on_db db_ok) (DeleteTeam i)"
proof -
  have "db_ok (d\<lparr>teams := delete_where (\<lambda>t. tID t = i) (teams d),
                 team_members := delete_where (\<lambda>m. tmTeamID m = i) (team_members d)\<rparr>)"
    if "db_ok d" and "i \<notin> keys snd (import_teams d)" for d
  proof -
    have "keys tmTeamID (delete_where (\<lambda>m. tmTeamID m = i) (team_members d))
        \<subseteq> keys tID (delete_where (\<lambda>t. tID t = i) (teams d))"
      by (rule keys_delete_cascade) (use that(1) in \<open>simp_all add: db_ok_def org_tables_ok_def\<close>)
    moreover have "keys snd (delete_where (\<lambda>_. False) (import_teams d))
        \<subseteq> keys tID (delete_where (\<lambda>t. tID t = i) (teams d))"
      by (rule keys_delete_cascade) (use that in \<open>auto simp: db_ok_def org_tables_ok_def\<close>)
    then have "keys snd (import_teams d) \<subseteq> keys tID (delete_where (\<lambda>t. tID t = i) (teams d))"
      by (simp add: delete_where_def)
    ultimately show ?thesis
      using that(1) unfolding db_ok_def tables_ok_defs
      by (simp add: keys_delete_subset del: set_delete_where)
  qed
  then show ?thesis
    unfolding DeleteTeam_def
    by (intro keeps_wrap keeps_command) (auto split: if_splits simp: key_simps)
qed

text \<open>The cascade of an organisation leaves no dangling reference.\<close>

lemma cascade_org_ok:
  assumes ok: "db_ok d" and usage: "i \<notin> set (mcp_usage_orgs d)"
    and imp: "\<And>x t. x \<in> set (import_teams d) \<Longrightarrow> fst x \<noteq> i \<Longrightarrow> t \<in> set (teams d) \<Longrightarrow> tID t = snd x \<Longrightarrow> tOrgID t \<noteq> i"
  shows "db_ok (cascade_org i d)"
proof -
  note parts = ok [unfolded db_ok_def tables_ok_defs]
  have org_fk: "keys f (delete_where Q rows) \<subseteq> keys oID (delete_where (\<lambda>g. oID g = i) (orgs d))"
    if "keys f rows \<subseteq> keys oID (orgs d)" and "\<And>r. f r = i \<Longrightarrow> Q r" for f :: "'x \<Rightarrow> string" and Q rows
    using that(1) by (rule keys_delete_cascade) (use that(2) in auto)
  have usage': "set (mcp_usage_orgs d) \<subseteq> keys oID (delete_where (\<lambda>g. oID g = i) (orgs d))"
    using parts usage by auto
  have team_fk: "keys tmTeamID (delete_where (\<lambda>m. tmOrgID m = i \<or> tmTeamID m \<in> keys tID (filter (\<lambda>t. tOrgID t = i) (teams d))) (team_members d))
      \<subseteq> keys tID (delete_where (\<lambda>t. tOrgID t = i) (teams d))"
    by (rule keys_delete_cascade) (use parts in auto)
  have sa_fk: "keys tkServiceAccountID (delete_where (\<lambda>t. tkServiceAccountID t \<in> keys saID (filter (\<lambda>a. saOrgID a = i) (service_accounts d))) (service_account_tokens d))
      \<subseteq> keys saID (delete_where (\<lambda>a. saOrgID a = i) (service_accounts d))"
    by (rule keys_delete_cascade) (use parts in auto)
  have rule_fk: "keys rProviderID (delete_where (\<lambda>r. rProviderID r \<in> keys apID (filter (\<lambda>p. apOrgID p = i) (auth_providers d))) (auth_role_mappings d))
      \<subseteq> keys apID (delete_where (\<lambda>p. apOrgID p = i) (auth_providers d))"
    by (rule keys_delete_cascade) (use parts in auto)
  have state_fk: "keys lsProviderID (delete_where (\<lambda>s. lsOrgID s = i \<or> lsProviderID s \<in> keys apID (filter (\<lambda>p. apOrgID p = i) (auth_providers d))) (auth_login_state d))
      \<subseteq> keys apID (delete_where (\<lambda>p. apOrgID p = i) (auth_providers d))"
    by (rule keys_delete_cascade) (use parts in auto)
  have import_fk: "keys snd (delete_where (\<lambda>x. fst x = i) (import_teams d))
      \<subseteq> keys tID (delete_where (\<lambda>t. tOrgID t = i) (teams d))"
  proof (rule keys_delete_cascade)
    show "keys snd (import_teams d) \<subseteq> keys tID (teams d)" using parts by simp
    show "fst x = i" if "x \<in> set (import_teams d)" "t \<in> set (teams d)" "snd x = tID t" "tOrgID t = i" for x t
      using imp [OF that(1) _ that(2)] that(3,4) by auto
  qed
  show ?thesis
    using parts usage' team_fk sa_fk rule_fk state_fk import_fk
    unfolding db_ok_def tables_ok_defs cascade_org_def Let_def set_map
    by (simp add: keys_delete_subset org_fk del: set_delete_where set_filter) simp
qed

lemma keeps_db_DeleteOrg [keeps_rules]: "keeps (on_db db_ok) (DeleteOrg i)"
  unfolding DeleteOrg_def
  by (intro keeps_wrap keeps_command) (auto split: if_splits intro!: cascade_org_ok)

lemma keeps_org_reads [keeps_rules]:
  "keeps (on_db I) (GetOrg i)" "keeps (on_db I) ListOrgs" "keeps (on_db I) ListAutoJoinOrgs"
  "keeps (on_db I) CountAllOrgs" "keeps (on_db I) AnyOrgExists" "keeps (on_db I) (GetMember i j)"
  "keeps (on_db I) (ListMembers i)" "keeps (on_db I) (ListOrgsForUser i)" "keeps (on_db I) (GetOrgMember i j)"
  "keeps (on_db I) (GetTeam i)" "keeps (on_db I) (ListTeams i)" "keeps (on_db I) (ListTeamMembers i)"
  unfolding GetOrg_def ListOrgs_def ListAutoJoinOrgs_def CountAllOrgs_def AnyOrgExists_def GetMember_def
    ListMembers_def ListOrgsForUser_def GetOrgMember_def GetTeam_def ListTeams_def ListTeamMembers_def
  by (intro keeps_rules)+

end
