(* ===== verification/AccountStore.thy ===== *)
theory AccountStore
  imports Database
begin

text \<open>
  \<open>internal/store/postgres/serviceaccount_store.go\<close>: service accounts and their API tokens. A deleted
  account keeps its row, with \<open>deleted_at\<close> set.
\<close>

definition sa_live :: "sa_row \<Rightarrow> bool" where
  "sa_live r = (saDeletedAt r = None)"

text \<open>What \<open>scanSA\<close> reads of a row.\<close>

definition scanSA :: "sa_row \<Rightarrow> service_account" where
  "scanSA r = service_account.truncate r"

definition SetServiceAccountAvatar :: "string \<Rightarrow> string option \<Rightarrow> unit result prog" where
  "SetServiceAccountAvatar saID' assetID = wrap ''postgres: SetServiceAccountAvatar: %w'' (command (\<lambda>now d.
     Inr (d\<lparr>service_accounts := update_where (\<lambda>r. saID r = saID' \<and> sa_live r)
        (\<lambda>r. r\<lparr>saAvatarAssetID := assetID, saUpdatedAt := now\<rparr>) (service_accounts d)\<rparr>)))"

definition sa_insert_row :: "time \<Rightarrow> service_account \<Rightarrow> sa_row" where
  "sa_insert_row t a = service_account.extend (a\<lparr>saAvatarAssetID := None, saCreatedAt := t, saUpdatedAt := t\<rparr>)
     \<lparr>saDeletedAt = None\<rparr>"

definition CreateServiceAccount :: "service_account \<Rightarrow> unit result prog" where
  "CreateServiceAccount a = wrap ''postgres: CreateServiceAccount: %w'' (command (\<lambda>now d.
     if exists_row (\<lambda>r. saID r = saID a) (service_accounts d) then Inl (UniqueViolation ''service_accounts_pkey'')
     else if exists_row (\<lambda>r. saOrgID r = saOrgID a \<and> saName r = saName a) (service_accounts d)
     then Inl (UniqueViolation ''service_accounts_org_id_name_key'')
     else if \<not> exists_row (\<lambda>g. oID g = saOrgID a) (orgs d)
     then Inl (ForeignKeyViolation ''service_accounts_org_id_fkey'')
     else if saCreatedBy a \<noteq> [] \<and> \<not> exists_row (\<lambda>u. uID u = saCreatedBy a) (users d)
     then Inl (ForeignKeyViolation ''service_accounts_created_by_fkey'')
     else Inr (d\<lparr>service_accounts := service_accounts d @ [sa_insert_row now a]\<rparr>)))"

definition GetServiceAccount :: "string \<Rightarrow> service_account option result prog" where
  "GetServiceAccount i = wrap ''postgres: GetServiceAccount: %w'' (query (\<lambda>_ d.
     map_option scanSA (find (\<lambda>r. saID r = i \<and> sa_live r) (service_accounts d))))"

definition GetSystemServiceAccount :: "string \<Rightarrow> service_account option result prog" where
  "GetSystemServiceAccount orgID = wrap ''postgres: GetSystemServiceAccount: %w'' (query (\<lambda>_ d.
     map_option scanSA (find (\<lambda>r. saOrgID r = orgID \<and> saName r = SystemServiceAccountName \<and> saIsInternal r
       \<and> sa_live r) (service_accounts d))))"

definition ListServiceAccounts :: "string \<Rightarrow> service_account list result prog" where
  "ListServiceAccounts orgID = wrap ''postgres: ListServiceAccounts: %w'' (query (\<lambda>_ d.
     map scanSA (sort_key (\<lambda>r. - saCreatedAt r)
       (filter (\<lambda>r. saOrgID r = orgID \<and> sa_live r) (service_accounts d)))))"

definition UpdateServiceAccount :: "service_account \<Rightarrow> unit result prog" where
  "UpdateServiceAccount a = wrap ''postgres: UpdateServiceAccount: %w'' (command (\<lambda>now d.
     if exists_row (\<lambda>x. saID x = saID a \<and> sa_live x \<and>
          exists_row (\<lambda>r. saID r \<noteq> saID a \<and> saOrgID r = saOrgID x \<and> saName r = saName a) (service_accounts d))
          (service_accounts d)
     then Inl (UniqueViolation ''service_accounts_org_id_name_key'')
     else Inr (d\<lparr>service_accounts := update_where (\<lambda>r. saID r = saID a \<and> sa_live r)
        (\<lambda>r. r\<lparr>saName := saName a, saDescription := saDescription a, saScopes := saScopes a,
               saDisabled := saDisabled a, saUpdatedAt := now\<rparr>) (service_accounts d)\<rparr>)))"

definition DeleteServiceAccount :: "string \<Rightarrow> unit result prog" where
  "DeleteServiceAccount i = wrap ''postgres: DeleteServiceAccount: %w'' (command (\<lambda>now d.
     Inr (d\<lparr>service_accounts := update_where (\<lambda>r. saID r = i) (\<lambda>r. r\<lparr>saDeletedAt := Some now\<rparr>)
                                 (service_accounts d)\<rparr>)))"

section \<open>Tokens\<close>

definition token_row :: "time \<Rightarrow> token \<Rightarrow> token" where
  "token_row t k = k\<lparr>tkLastUsedAt := None, tkRevoked := False, tkCreatedAt := t\<rparr>"

definition CreateToken :: "token \<Rightarrow> unit result prog" where
  "CreateToken k = wrap ''postgres: CreateToken: %w'' (command (\<lambda>now d.
     if exists_row (\<lambda>r. tkID r = tkID k) (service_account_tokens d)
     then Inl (UniqueViolation ''service_account_tokens_pkey'')
     else if exists_row (\<lambda>r. tkPrefix r = tkPrefix k) (service_account_tokens d)
     then Inl (UniqueViolation ''service_account_tokens_prefix_key'')
     else if \<not> exists_row (\<lambda>a. saID a = tkServiceAccountID k) (service_accounts d)
     then Inl (ForeignKeyViolation ''service_account_tokens_service_account_id_fkey'')
     else if tkCreatedBy k \<noteq> [] \<and> \<not> exists_row (\<lambda>u. uID u = tkCreatedBy k) (users d)
     then Inl (ForeignKeyViolation ''service_account_tokens_created_by_fkey'')
     else Inr (d\<lparr>service_account_tokens := service_account_tokens d @ [token_row now k]\<rparr>)))"

text \<open>The column \<open>created_by\<close> is not read back.\<close>

definition scan_token :: "token \<Rightarrow> token" where
  "scan_token k = k\<lparr>tkCreatedBy := []\<rparr>"

definition GetTokenByPrefix :: "string \<Rightarrow> token option result prog" where
  "GetTokenByPrefix prefix = wrap ''postgres: GetTokenByPrefix: %w'' (query (\<lambda>_ d.
     map_option scan_token (find (\<lambda>k. tkPrefix k = prefix) (service_account_tokens d))))"

definition ListTokens :: "string \<Rightarrow> token list result prog" where
  "ListTokens serviceAccountID = wrap ''postgres: ListTokens: %w'' (query (\<lambda>_ d.
     map scan_token (sort_key (\<lambda>k. - tkCreatedAt k)
       (filter (\<lambda>k. tkServiceAccountID k = serviceAccountID) (service_account_tokens d)))))"

definition RevokeToken :: "string \<Rightarrow> unit result prog" where
  "RevokeToken tokenID = wrap ''postgres: RevokeToken: %w'' (command (\<lambda>_ d.
     Inr (d\<lparr>service_account_tokens := update_where (\<lambda>k. tkID k = tokenID) (\<lambda>k. k\<lparr>tkRevoked := True\<rparr>)
                                        (service_account_tokens d)\<rparr>)))"

definition TouchToken :: "string \<Rightarrow> unit result prog" where
  "TouchToken tokenID = wrap ''postgres: TouchToken: %w'' (command (\<lambda>now d.
     Inr (d\<lparr>service_account_tokens := update_where (\<lambda>k. tkID k = tokenID) (\<lambda>k. k\<lparr>tkLastUsedAt := Some now\<rparr>)
                                        (service_account_tokens d)\<rparr>)))"

section \<open>Preservation\<close>

lemma sa_insert_row_simps [simp]:
  "saID (sa_insert_row t a) = saID a" "saOrgID (sa_insert_row t a) = saOrgID a"
  "saName (sa_insert_row t a) = saName a" "saScopes (sa_insert_row t a) = saScopes a"
  "saDisabled (sa_insert_row t a) = saDisabled a" "saIsInternal (sa_insert_row t a) = saIsInternal a"
  "sa_live (sa_insert_row t a)"
  by (simp_all add: sa_insert_row_def service_account.defs sa_live_def)

lemma scanSA_simps [simp]:
  "saID (scanSA r) = saID r" "saOrgID (scanSA r) = saOrgID r" "saName (scanSA r) = saName r"
  "saScopes (scanSA r) = saScopes r" "saDisabled (scanSA r) = saDisabled r"
  "saIsInternal (scanSA r) = saIsInternal r"
  by (simp_all add: scanSA_def service_account.defs)

lemma token_row_simps [simp]:
  "tkID (token_row t k) = tkID k" "tkPrefix (token_row t k) = tkPrefix k" "tkHash (token_row t k) = tkHash k"
  "tkServiceAccountID (token_row t k) = tkServiceAccountID k" "tkExpiresAt (token_row t k) = tkExpiresAt k"
  "\<not> tkRevoked (token_row t k)"
  by (simp_all add: token_row_def)

lemma scan_token_simps [simp]:
  "tkID (scan_token k) = tkID k" "tkPrefix (scan_token k) = tkPrefix k" "tkHash (scan_token k) = tkHash k"
  "tkServiceAccountID (scan_token k) = tkServiceAccountID k" "tkExpiresAt (scan_token k) = tkExpiresAt k"
  "tkRevoked (scan_token k) = tkRevoked k"
  by (simp_all add: scan_token_def)

lemma accounts_update_ok:
  assumes "db_ok d" and "\<And>r. saID (f r) = saID r" and "\<And>r. saOrgID (f r) = saOrgID r"
    and "unique (\<lambda>a. (saOrgID a, saName a)) (update_where P f (service_accounts d))"
  shows "db_ok (d\<lparr>service_accounts := update_where P f (service_accounts d)\<rparr>)"
  using assms by (simp add: db_ok_def tables_ok_defs)

lemma accounts_insert_ok:
  assumes "db_ok d" and "saID a \<notin> keys saID (service_accounts d)"
    and "(saOrgID a, saName a) \<notin> keys (\<lambda>a. (saOrgID a, saName a)) (service_accounts d)"
    and "saOrgID a \<in> keys oID (orgs d)"
  shows "db_ok (d\<lparr>service_accounts := service_accounts d @ [a]\<rparr>)"
  using assms by (simp add: db_ok_def tables_ok_defs subset_insertI2)

lemma tokens_update_ok:
  assumes "db_ok d" and "\<And>k. tkID (f k) = tkID k" and "\<And>k. tkPrefix (f k) = tkPrefix k"
    and "\<And>k. tkServiceAccountID (f k) = tkServiceAccountID k"
  shows "db_ok (d\<lparr>service_account_tokens := update_where P f (service_account_tokens d)\<rparr>)"
  using assms by (simp add: db_ok_def tables_ok_defs)

lemma tokens_insert_ok:
  assumes "db_ok d" and "tkID k \<notin> keys tkID (service_account_tokens d)"
    and "tkPrefix k \<notin> keys tkPrefix (service_account_tokens d)"
    and "tkServiceAccountID k \<in> keys saID (service_accounts d)"
  shows "db_ok (d\<lparr>service_account_tokens := service_account_tokens d @ [k]\<rparr>)"
  using assms by (simp add: db_ok_def tables_ok_defs)

lemma db_ok_accounts:
  assumes "db_ok d"
  shows "unique saID (service_accounts d)" and "unique (\<lambda>a. (saOrgID a, saName a)) (service_accounts d)"
    and "unique tkID (service_account_tokens d)" and "unique tkPrefix (service_account_tokens d)"
    and "k \<in> set (service_account_tokens d) \<Longrightarrow> tkServiceAccountID k \<in> keys saID (service_accounts d)"
  using assms by (auto simp: db_ok_def sa_tables_ok_def)

lemma keeps_db_account_writes [keeps_rules]:
  "keeps (on_db db_ok) (SetServiceAccountAvatar i a)" "keeps (on_db db_ok) (DeleteServiceAccount i)"
  "keeps (on_db db_ok) (CreateServiceAccount x)"
  unfolding SetServiceAccountAvatar_def DeleteServiceAccount_def CreateServiceAccount_def
  by (intro keeps_wrap keeps_command;
      auto split: if_splits simp: key_simps intro!: accounts_update_ok accounts_insert_ok dest: db_ok_accounts)+

lemma keeps_db_token_writes [keeps_rules]:
  "keeps (on_db db_ok) (CreateToken k)" "keeps (on_db db_ok) (RevokeToken i)" "keeps (on_db db_ok) (TouchToken i)"
  unfolding CreateToken_def RevokeToken_def TouchToken_def
  by (intro keeps_wrap keeps_command;
      auto split: if_splits simp: key_simps intro!: tokens_update_ok tokens_insert_ok)+

lemma keeps_db_UpdateServiceAccount [keeps_rules]: "keeps (on_db db_ok) (UpdateServiceAccount a)"
proof -
  have step: "db_ok (d\<lparr>service_accounts := update_where (\<lambda>r. saID r = saID a \<and> sa_live r) f (service_accounts d)\<rparr>)"
    if "db_ok d" and "\<And>r. saID (f r) = saID r" and "\<And>r. saOrgID (f r) = saOrgID r" and "\<And>r. saName (f r) = saName a"
      and "\<not> exists_row (\<lambda>x. saID x = saID a \<and> sa_live x \<and>
          exists_row (\<lambda>r. saID r \<noteq> saID a \<and> saOrgID r = saOrgID x \<and> saName r = saName a) (service_accounts d))
          (service_accounts d)" for d f
  proof (rule accounts_update_ok [OF that(1-3)])
    show "unique (\<lambda>t. (saOrgID t, saName t)) (update_where (\<lambda>r. saID r = saID a \<and> sa_live r) f (service_accounts d))"
      using db_ok_accounts(1,2) [OF that(1)] that(3,4) by (rule unique_update_scoped) (use that(5) in auto)
  qed
  show ?thesis
    unfolding UpdateServiceAccount_def
    by (intro keeps_wrap keeps_command) (auto split: if_splits intro!: step simp del: exists_row_iff)
qed

lemma keeps_account_reads [keeps_rules]:
  "keeps (on_db I) (GetServiceAccount i)" "keeps (on_db I) (GetSystemServiceAccount i)"
  "keeps (on_db I) (ListServiceAccounts i)" "keeps (on_db I) (GetTokenByPrefix p)" "keeps (on_db I) (ListTokens i)"
  unfolding GetServiceAccount_def GetSystemServiceAccount_def ListServiceAccounts_def GetTokenByPrefix_def
    ListTokens_def
  by (intro keeps_rules)+

end
