(* ===== verification/Middleware.thy ===== *)
theory Middleware
  imports Http UserStore OrgStore AccountStore
begin

text \<open>
  Package \<open>internal/middleware\<close> (who is calling) and \<open>internal/authz/authorizer.go\<close> (what a user may
  do in an organisation).

  The middleware is written against two interfaces, \<open>BearerVerifier\<close> and the store of service
  accounts; the router against a third, \<open>Authorizer\<close>. Each is a locale below: its operations, and what
  the client relies on. The client's soundness is proved in the locales and then obtained for the
  program by interpreting them with \<open>SessionVerifier\<close> and \<open>authorizer\<close>.
\<close>

section \<open>Session verifier (session_verifier.go)\<close>

definition VerifyBearer :: "string \<Rightarrow> principal result prog" where
  "VerifyBearer token =
     bindE (GetSessionByToken (Hash token)) (\<lambda>sess.
       case sess of
         None \<Rightarrow> ret (Inl AuthzErrForbidden)
       | Some s \<Rightarrow>
           State_Monad.bind (GetUser (sUserID s)) (\<lambda>r.
             let isServerAdmin =
                   (case r of
                      Inl _ \<Rightarrow> False
                    | Inr None \<Rightarrow> False
                    | Inr (Some u) \<Rightarrow> \<not> uDisabled u \<and> uRole u = ''server_admin'')
             in ret (Inr \<lparr>pKind = PrincipalUser, pUserID = sUserID s, pOrgID = [],
                          pIsServerAdmin = isServerAdmin, pServiceAccountID = [], pScopes = [],
                          pAuthProvider = sAuthProvider s\<rparr>)))"

section \<open>Middleware (middleware.go)\<close>

text \<open>\<open>mwBearer\<close> is the interface value \<open>bearer\<close>, \<open>None\<close> for nil; \<open>mwSAStore\<close> says whether the store
  of service accounts is non-nil.\<close>

record middleware =
  mwBearer :: "(string \<Rightarrow> principal result prog) option"
  mwSAStore :: bool

definition extractBearer :: "http_request \<Rightarrow> string" where
  "extractBearer r =
     (let auth = hAuthorization r in
      if auth = [] then []
      else case SplitN2 auth '' '' of
             [scheme, rest] \<Rightarrow> if EqualFold scheme ''bearer'' then TrimSpace rest else []
           | _ \<Rightarrow> [])"

definition verifyAPIKey :: "string \<Rightarrow> principal result prog" where
  "verifyAPIKey plaintext =
     bindE (GetTokenByPrefix (Prefix plaintext)) (\<lambda>tok.
       case tok of
         None \<Rightarrow> ret (Inl AuthzErrForbidden)
       | Some k \<Rightarrow>
           State_Monad.bind now (\<lambda>t.
             if tkRevoked k then ret (Inl AuthzErrForbidden)
             else if (case tkExpiresAt k of None \<Rightarrow> False | Some e \<Rightarrow> e < t) then ret (Inl AuthzErrForbidden)
             else if \<not> Verify plaintext (tkHash k) then ret (Inl AuthzErrForbidden)
             else State_Monad.bind (TouchToken (tkID k)) (\<lambda>_.
               State_Monad.bind (GetServiceAccount (tkServiceAccountID k)) (\<lambda>sa.
                 case sa of
                   Inl _ \<Rightarrow> ret (Inl AuthzErrForbidden)
                 | Inr None \<Rightarrow> ret (Inl AuthzErrForbidden)
                 | Inr (Some a) \<Rightarrow>
                     if saDisabled a then ret (Inl AuthzErrForbidden)
                     else ret (Inr \<lparr>pKind = PrincipalServiceAccount, pUserID = saID a, pOrgID = saOrgID a,
                                    pIsServerAdmin = False, pServiceAccountID = saID a,
                                    pScopes = saScopes a, pAuthProvider = []\<rparr>)))))"

definition authenticate :: "middleware \<Rightarrow> http_request \<Rightarrow> principal result prog" where
  "authenticate m r =
     (case mwBearer m of
        Some verify \<Rightarrow>
          if extractBearer r \<noteq> [] then verify (extractBearer r)
          else (case hSessionCookie r of
                  Some c \<Rightarrow>
                    if c \<noteq> [] then verify c
                    else if hAPIKey r \<noteq> [] \<and> mwSAStore m then verifyAPIKey (hAPIKey r)
                    else ret (Inl AuthzErrForbidden)
                | None \<Rightarrow>
                    if hAPIKey r \<noteq> [] \<and> mwSAStore m then verifyAPIKey (hAPIKey r)
                    else ret (Inl AuthzErrForbidden))
      | None \<Rightarrow>
          if hAPIKey r \<noteq> [] \<and> mwSAStore m then verifyAPIKey (hAPIKey r)
          else ret (Inl AuthzErrForbidden))"

type_synonym handler = "http_request \<Rightarrow> response prog"

definition unauthenticated_body :: json where
  "unauthenticated_body = JObj [(''error'', JStr ''unauthenticated''), (''code'', JInt 401)]"

definition Middleware_Handler :: "middleware \<Rightarrow> handler \<Rightarrow> handler" where
  "Middleware_Handler m next r =
     State_Monad.bind (authenticate m r) (\<lambda>res.
       case res of
         Inl _ \<Rightarrow> ret (JSON 401 unauthenticated_body)
       | Inr p \<Rightarrow> next (r\<lparr>ctxPrincipal := Some p\<rparr>))"

section \<open>Authorizer (authorizer.go)\<close>

definition IsUserServerAdmin :: "string \<Rightarrow> bool result prog" where
  "IsUserServerAdmin userID =
     bindE (GetUser userID) (\<lambda>u.
       ret (Inr (case u of
                   None \<Rightarrow> False
                 | Some u \<Rightarrow> if uDisabled u then False else uRole u = ''server_admin'')))"

definition ScopesForUser :: "string \<Rightarrow> string \<Rightarrow> string list result prog" where
  "ScopesForUser userID orgID =
     bindE (IsUserServerAdmin userID) (\<lambda>serverAdmin.
       if serverAdmin then ret (Inr (ScopesForRole RoleAdmin))
       else State_Monad.bind (GetOrgMember userID orgID) (\<lambda>m.
         case m of
           Inl err \<Rightarrow> if errors_Is err AuthzErrNotFound then ret (Inr []) else ret (Inl err)
         | Inr m \<Rightarrow> ret (Inr (ScopesForRole (amRole m)))))"

section \<open>Specifications\<close>

text \<open>\<open>live_session d t token s\<close>: the token opens the session \<open>s\<close> at time \<open>t\<close>.\<close>

definition live_session :: "database \<Rightarrow> time \<Rightarrow> string \<Rightarrow> session \<Rightarrow> bool" where
  "live_session d t token s \<longleftrightarrow> s \<in> set (user_sessions d) \<and> session_matches t (Hash token) s"

definition server_admin :: "database \<Rightarrow> string \<Rightarrow> bool" where
  "server_admin d i \<longleftrightarrow> (\<exists>u\<in>set (users d). uID u = i \<and> \<not> uDisabled u \<and> uRole u = ''server_admin'')"

definition session_principal :: "world \<Rightarrow> string \<Rightarrow> principal \<Rightarrow> bool" where
  "session_principal w token p \<longleftrightarrow>
     pKind p = PrincipalUser \<and> pOrgID p = [] \<and> pScopes p = [] \<and>
     (pIsServerAdmin p \<longrightarrow> server_admin (db w) (pUserID p)) \<and>
     (\<exists>s. live_session (db w) (clock w) token s \<and> pUserID p = sUserID s \<and> pAuthProvider p = sAuthProvider s)"

text \<open>\<open>live_key d t key k a\<close>: the API key is the token \<open>k\<close> of the account \<open>a\<close>, and both may be used.\<close>

definition live_key :: "database \<Rightarrow> time \<Rightarrow> string \<Rightarrow> token \<Rightarrow> sa_row \<Rightarrow> bool" where
  "live_key d t key k a \<longleftrightarrow>
     k \<in> set (service_account_tokens d) \<and> tkPrefix k = Prefix key \<and> tkHash k = Hash key \<and> \<not> tkRevoked k \<and>
     (case tkExpiresAt k of None \<Rightarrow> True | Some e \<Rightarrow> t \<le> e) \<and>
     a \<in> set (service_accounts d) \<and> saID a = tkServiceAccountID k \<and> sa_live a \<and> \<not> saDisabled a"

definition key_principal :: "world \<Rightarrow> string \<Rightarrow> principal \<Rightarrow> bool" where
  "key_principal w key p \<longleftrightarrow>
     (\<exists>k a. live_key (db w) (clock w) key k a \<and>
        p = \<lparr>pKind = PrincipalServiceAccount, pUserID = saID a, pOrgID = saOrgID a, pIsServerAdmin = False,
             pServiceAccountID = saID a, pScopes = saScopes a, pAuthProvider = []\<rparr>)"

text \<open>The scopes a user has in an organisation.\<close>

definition user_scopes :: "database \<Rightarrow> string \<Rightarrow> string \<Rightarrow> string list" where
  "user_scopes d i g =
     (if server_admin d i then ScopesForRole RoleAdmin
      else case find (\<lambda>m. mUserID m = i \<and> mOrgID m = g) (org_members d) of
             None \<Rightarrow> [] | Some m \<Rightarrow> ScopesForRole (mRole m))"

text \<open>What a request may change before its handler runs: the time a token was last used.\<close>

definition same_but_touch :: "world \<Rightarrow> world \<Rightarrow> bool" where
  "same_but_touch w w' \<longleftrightarrow>
     clock w' = clock w \<and> collation w' = collation w \<and> entropy w' = entropy w \<and> draws w' = draws w \<and>
     uuids w' = uuids w \<and> uuid_draws w' = uuid_draws w \<and> cache w' = cache w \<and>
     (faults w = [] \<longrightarrow> faults w' = []) \<and>
     (\<exists>toks. db w' = db w\<lparr>service_account_tokens := toks\<rparr> \<and>
        map (\<lambda>k. k\<lparr>tkLastUsedAt := None\<rparr>) toks = map (\<lambda>k. k\<lparr>tkLastUsedAt := None\<rparr>) (service_account_tokens (db w)))"

lemma same_but_touch_refl [simp, intro]: "same_but_touch w w"
  unfolding same_but_touch_def by (auto intro: exI [of _ "service_account_tokens (db w)"])

lemma same_but_touch_trans [trans]:
  assumes "same_but_touch a b" and "same_but_touch b c"
  shows "same_but_touch a c"
  using assms unfolding same_but_touch_def by (auto intro!: exI [of _ "service_account_tokens (db c)"])

lemma same_but_touch_faults [simp]: "same_but_touch w (w\<lparr>faults := tl (faults w)\<rparr>)"
  unfolding same_but_touch_def by (auto intro: exI [of _ "service_account_tokens (db w)"])

lemma same_but_touch_tables:
  assumes "same_but_touch w w'"
  shows "users (db w') = users (db w)" "org_members (db w') = org_members (db w)"
    "user_sessions (db w') = user_sessions (db w)" "service_accounts (db w') = service_accounts (db w)"
    "orgs (db w') = orgs (db w)" "clock w' = clock w"
  using assms by (auto simp: same_but_touch_def)

lemma server_admin_touch:
  "same_but_touch w w' \<Longrightarrow> server_admin (db w') i = server_admin (db w) i"
  by (simp add: server_admin_def same_but_touch_tables)

lemma user_scopes_touch:
  "same_but_touch w w' \<Longrightarrow> user_scopes (db w') i g = user_scopes (db w) i g"
  by (simp add: user_scopes_def server_admin_touch same_but_touch_tables)

lemma query_touch: "run_state (query f) w = (r, w') \<Longrightarrow> w' = w\<lparr>faults := tl (faults w)\<rparr>"
  unfolding query_def by (auto elim: run_exec_cases)

lemma read_touch:
  assumes "run_state (wrap fmt (query f)) w = (r, w')"
  shows "same_but_touch w w'" and "\<And>a. r = Inr a \<Longrightarrow> f (clock w) (db w) = a"
proof -
  obtain r' where q: "run_state (query f) w = (r', w')" and r: "\<And>a. r = Inr a \<Longrightarrow> r' = Inr a"
    using assms by (auto split: prod.splits sum.splits)
  from q show "same_but_touch w w'" by (simp add: query_touch [OF q])
  show "f (clock w) (db w) = a" if "r = Inr a" for a
    using q r [OF that] by (auto elim: run_query_Inr)
qed

lemma TouchToken_touch: "run_state (TouchToken i) w = (r, w') \<Longrightarrow> same_but_touch w w'"
proof -
  assume "run_state (TouchToken i) w = (r, w')"
  then obtain r' where "run_state (exec (\<lambda>now d. Inr ((),
      d\<lparr>service_account_tokens := update_where (\<lambda>k. tkID k = i) (\<lambda>k. k\<lparr>tkLastUsedAt := Some now\<rparr>)
          (service_account_tokens d)\<rparr>))) w = (r', w')"
    by (auto simp: TouchToken_def command_def split: prod.splits)
  then show "same_but_touch w w'"
  proof (cases rule: run_exec_cases)
    case (step a d)
    have "map (\<lambda>k. k\<lparr>tkLastUsedAt := None\<rparr>) (update_where (\<lambda>k. tkID k = i)
        (\<lambda>k. k\<lparr>tkLastUsedAt := Some (clock w)\<rparr>) (service_account_tokens (db w)))
      = map (\<lambda>k. k\<lparr>tkLastUsedAt := None\<rparr>) (service_account_tokens (db w))"
      by (rule map_update_where) simp
    with step show ?thesis unfolding same_but_touch_def by auto
  qed simp
qed

lemma db_ok_touch: "same_but_touch w w' \<Longrightarrow> db_ok (db w) \<Longrightarrow> db_ok (db w')"
proof -
  assume "same_but_touch w w'" and ok: "db_ok (db w)"
  then obtain toks where d: "db w' = db w\<lparr>service_account_tokens := toks\<rparr>"
    and m: "map (\<lambda>k. k\<lparr>tkLastUsedAt := None\<rparr>) toks = map (\<lambda>k. k\<lparr>tkLastUsedAt := None\<rparr>) (service_account_tokens (db w))"
    by (auto simp: same_but_touch_def)
  have field: "map f toks = map f (service_account_tokens (db w))" if "\<And>k x. f (k\<lparr>tkLastUsedAt := x\<rparr>) = f k" for f :: "token \<Rightarrow> string"
  proof -
    have "map f (map (\<lambda>k. k\<lparr>tkLastUsedAt := None\<rparr>) ks) = map f ks" for ks
      using that by simp
    then show ?thesis using m by metis
  qed
  have keys: "keys tkServiceAccountID toks = keys tkServiceAccountID (service_account_tokens (db w))"
    using arg_cong [OF field [of tkServiceAccountID], of set] by simp
  show ?thesis
    using ok field [of tkID] field [of tkPrefix] keys unfolding d
    by (simp add: db_ok_def tables_ok_defs)
qed

section \<open>The verifier and the authorizer meet their contracts\<close>

lemma VerifyBearer_sound:
  assumes "run_state (VerifyBearer token) w = (r, w')"
  shows "same_but_touch w w'" and "\<And>p. r = Inr p \<Longrightarrow> session_principal w token p"
proof -
  obtain r1 w1 where one: "run_state (GetSessionByToken (Hash token)) w = (r1, w1)" by fastforce
  note q1 = read_touch [OF one [unfolded GetSessionByToken_def]]
  have "same_but_touch w w' \<and> (\<forall>p. r = Inr p \<longrightarrow> session_principal w token p)"
  proof (cases "\<exists>s. r1 = Inr (Some s)")
    case False
    with assms one q1(1) show ?thesis
      by (auto simp: VerifyBearer_def run_bindE split: sum.splits option.splits)
  next
    case True
    then obtain s where s: "r1 = Inr (Some s)" by blast
    obtain r2 w2 where two: "run_state (GetUser (sUserID s)) w1 = (r2, w2)" by fastforce
    note q2 = read_touch [OF two [unfolded GetUser_def]]
    have live: "live_session (db w) (clock w) token s"
      using q1(2) [OF s] by (auto simp: live_session_def dest: find_SomeD)
    have adm: "server_admin (db w) (sUserID s)"
      if "r2 = Inr (Some u)" "\<not> uDisabled u" "uRole u = ''server_admin''" for u
      using q2(2) [OF that(1)] that(2,3) same_but_touch_tables(1) [OF q1(1)]
      by (auto simp: server_admin_def dest: find_SomeD)
    from assms one two s have w': "w' = w2"
      and p: "\<And>p. r = Inr p \<Longrightarrow> pKind p = PrincipalUser \<and> pOrgID p = [] \<and> pScopes p = [] \<and>
        pUserID p = sUserID s \<and> pAuthProvider p = sAuthProvider s \<and>
        (pIsServerAdmin p \<longrightarrow> (\<exists>u. r2 = Inr (Some u) \<and> \<not> uDisabled u \<and> uRole u = ''server_admin''))"
      by (auto simp: VerifyBearer_def run_bindE split: sum.splits option.splits)
    have "session_principal w token p'" if "r = Inr p'" for p'
      using p [OF that] live adm unfolding session_principal_def by metis
    moreover have "same_but_touch w w'" using q1(1) q2(1) w' same_but_touch_trans by blast
    ultimately show ?thesis by blast
  qed
  then show "same_but_touch w w'" and "\<And>p. r = Inr p \<Longrightarrow> session_principal w token p" by auto
qed

lemma IsUserServerAdmin_sound:
  assumes "run_state (IsUserServerAdmin i) w = (r, w')" and "db_ok (db w)"
  shows "same_but_touch w w'" and "\<And>b. r = Inr b \<Longrightarrow> b = server_admin (db w) i"
proof -
  obtain r1 w1 where one: "run_state (GetUser i) w = (r1, w1)" by fastforce
  note q1 = read_touch [OF one [unfolded GetUser_def]]
  from assms(1) one have w': "w' = w1" and r: "\<And>b. r = Inr b \<Longrightarrow> \<exists>x. r1 = Inr x \<and>
      b = (case x of None \<Rightarrow> False | Some u \<Rightarrow> if uDisabled u then False else uRole u = ''server_admin'')"
    by (auto simp: IsUserServerAdmin_def run_bindE split: sum.splits)
  from q1(1) w' show "same_but_touch w w'" by simp
  fix b assume "r = Inr b"
  with r obtain x where x: "r1 = Inr x"
    "b = (case x of None \<Rightarrow> False | Some u \<Rightarrow> if uDisabled u then False else uRole u = ''server_admin'')" by blast
  have uniq: "unique uID (users (db w))" using assms(2) by (rule db_ok_unique)
  show "b = server_admin (db w) i"
  proof (cases x)
    case None
    with q1(2) [OF x(1)] have "\<forall>u\<in>set (users (db w)). uID u \<noteq> i"
      by (simp add: find_None_iff)
    with None x(2) show ?thesis by (auto simp: server_admin_def)
  next
    case (Some u)
    with q1(2) [OF x(1)] have "find (\<lambda>u. uID u = i) (users (db w)) = Some u" by simp
    then have u: "u \<in> set (users (db w))" "uID u = i"
      using find_Some_iff_key [OF uniq] by auto
    then have only: "v = u" if "v \<in> set (users (db w))" "uID v = i" for v
      using that uniq by (metis distinct_map inj_onD)
    have "server_admin (db w) i \<longleftrightarrow> \<not> uDisabled u \<and> uRole u = ''server_admin''"
      unfolding server_admin_def using u only by blast
    with Some x(2) show ?thesis by simp
  qed
qed

lemma GetOrgMember_sound:
  assumes "run_state (GetOrgMember i g) w = (r, w')"
  shows "same_but_touch w w'"
    and "\<And>m. r = Inr m \<Longrightarrow> \<exists>row. find (\<lambda>m. mUserID m = i \<and> mOrgID m = g) (org_members (db w)) = Some row \<and> amRole m = mRole row"
    and "\<And>e. r = Inl e \<Longrightarrow> errors_Is e AuthzErrNotFound \<Longrightarrow>
      find (\<lambda>m. mUserID m = i \<and> mOrgID m = g) (org_members (db w)) = None \<or> next_fault w \<noteq> Healthy"
proof -
  let ?f = "\<lambda>_ d. find (\<lambda>m. mUserID m = i \<and> mOrgID m = g) (org_members d)"
  obtain r1 w1 where one: "run_state (wrap ''postgres: GetOrgMember: %w'' (query ?f)) w = (r1, w1)" by fastforce
  note q1 = read_touch [OF one]
  from assms one show "same_but_touch w w'"
    using q1(1) by (auto simp: GetOrgMember_def run_bindE simp del: run_wrap split: sum.splits)
  from assms one show "\<exists>row. ?f (clock w) (db w) = Some row \<and> amRole m = mRole row" if "r = Inr m" for m
    using q1(2) that by (auto simp: GetOrgMember_def run_bindE simp del: run_wrap split: sum.splits option.splits)
  fix e assume e: "r = Inl e" "errors_Is e AuthzErrNotFound"
  show "?f (clock w) (db w) = None \<or> next_fault w \<noteq> Healthy"
  proof (rule ccontr)
    assume "\<not> ?thesis"
    then have "\<exists>m. r1 = Inr (Some m)"
      using one by (auto simp: query_def exec_def Let_def)
    with assms one e show False
      by (auto simp: GetOrgMember_def run_bindE simp del: run_wrap)
  qed
qed

lemma ScopesForUser_sound:
  assumes "run_state (ScopesForUser i g) w = (r, w')" and "db_ok (db w)"
  shows "same_but_touch w w'" and "\<And>ss x. r = Inr ss \<Longrightarrow> Has ss x \<Longrightarrow> Has (user_scopes (db w) i g) x"
proof -
  obtain r1 w1 where one: "run_state (IsUserServerAdmin i) w = (r1, w1)" by fastforce
  note q1 = IsUserServerAdmin_sound [OF one assms(2)]
  obtain r2 w2 where two: "run_state (GetOrgMember i g) w1 = (r2, w2)" by fastforce
  note q2 = GetOrgMember_sound [OF two]
  have t: "same_but_touch w w2" using q1(1) q2(1) by (rule same_but_touch_trans)
  from assms(1) one two t q1(1) show "same_but_touch w w'"
    by (auto simp: ScopesForUser_def run_bindE split: sum.splits if_splits)
  fix ss x assume r: "r = Inr ss" and has: "Has ss x"
  then obtain b where b: "r1 = Inr b" using assms(1) one
    by (auto simp: ScopesForUser_def run_bindE split: sum.splits)
  show "Has (user_scopes (db w) i g) x"
  proof (cases b)
    case True
    with assms(1) one b r q1(2) [OF b] has show ?thesis
      by (auto simp: ScopesForUser_def run_bindE user_scopes_def)
  next
    case False
    then have na: "\<not> server_admin (db w) i" using q1(2) [OF b] by simp
    from assms(1) one two b r False has obtain m where m: "r2 = Inr m" "ss = ScopesForRole (amRole m)"
      by (auto simp: ScopesForUser_def run_bindE split: sum.splits if_splits)
    with q2(2) [OF m(1)] same_but_touch_tables(2) [OF q1(1)] na has show ?thesis
      by (auto simp: user_scopes_def)
  qed
qed

lemma verifyAPIKey_sound:
  assumes "run_state (verifyAPIKey key) w = (r, w')"
  shows "same_but_touch w w'" and "\<And>p. r = Inr p \<Longrightarrow> key_principal w key p"
proof -
  obtain r1 w1 where one: "run_state (GetTokenByPrefix (Prefix key)) w = (r1, w1)" by fastforce
  note q1 = read_touch [OF one [unfolded GetTokenByPrefix_def]]
  have "same_but_touch w w' \<and> (\<forall>p. r = Inr p \<longrightarrow> key_principal w key p)"
  proof (cases "\<exists>k. r1 = Inr (Some k) \<and> \<not> tkRevoked k \<and> (\<forall>e. tkExpiresAt k = Some e \<longrightarrow> clock w1 \<le> e) \<and>
      Verify key (tkHash k)")
    case False
    with assms one q1(1) show ?thesis
      by (auto simp: verifyAPIKey_def run_bindE not_less split: sum.splits option.splits if_splits)
  next
    case True
    then obtain k where k: "r1 = Inr (Some k)" "\<not> tkRevoked k"
      "\<forall>e. tkExpiresAt k = Some e \<longrightarrow> clock w1 \<le> e" "Verify key (tkHash k)" by blast
    obtain r2 w2 where two: "run_state (TouchToken (tkID k)) w1 = (r2, w2)" by fastforce
    obtain r3 w3 where three: "run_state (GetServiceAccount (tkServiceAccountID k)) w2 = (r3, w3)" by fastforce
    note q3 = read_touch [OF three [unfolded GetServiceAccount_def]]
    have t2: "same_but_touch w w2" using q1(1) TouchToken_touch [OF two] by (rule same_but_touch_trans)
    have t3: "same_but_touch w w3" using t2 q3(1) by (rule same_but_touch_trans)
    from q1(2) [OF k(1)] obtain k0 where k0: "k0 \<in> set (service_account_tokens (db w))"
        "tkPrefix k0 = Prefix key" "k = scan_token k0"
      by (auto dest: find_SomeD)
    from assms one two three k have w': "w' = w3" and p: "\<And>p. r = Inr p \<Longrightarrow> \<exists>a. r3 = Inr (Some a) \<and>
        \<not> saDisabled a \<and> p = \<lparr>pKind = PrincipalServiceAccount, pUserID = saID a, pOrgID = saOrgID a,
          pIsServerAdmin = False, pServiceAccountID = saID a, pScopes = saScopes a, pAuthProvider = []\<rparr>"
      by (auto simp: verifyAPIKey_def run_bindE split: sum.splits option.splits if_splits)
    have "key_principal w key p'" if "r = Inr p'" for p'
    proof -
      from p [OF that] obtain a where a: "r3 = Inr (Some a)" "\<not> saDisabled a"
          "p' = \<lparr>pKind = PrincipalServiceAccount, pUserID = saID a, pOrgID = saOrgID a,
            pIsServerAdmin = False, pServiceAccountID = saID a, pScopes = saScopes a, pAuthProvider = []\<rparr>" by blast
      from q3(2) [OF a(1)] same_but_touch_tables(4) [OF t2] obtain a0 where
        a0: "a0 \<in> set (service_accounts (db w))" "saID a0 = tkServiceAccountID k" "sa_live a0" "a = scanSA a0"
        by (auto dest: find_SomeD)
      have "live_key (db w) (clock w) key k0 a0"
        using k0 a0 k a(2) same_but_touch_tables(6) [OF q1(1)]
        by (auto simp: live_key_def Verify_def Let_def xor_diff_zero split: option.splits if_splits)
      with a(3) a0(4) show ?thesis unfolding key_principal_def by auto
    qed
    with t3 w' show ?thesis by blast
  qed
  then show "same_but_touch w w'" and "\<And>p. r = Inr p \<Longrightarrow> key_principal w key p" by auto
qed

section \<open>Interfaces\<close>

text \<open>The credentials of a request that name a principal: the first of the bearer token, the session
  cookie and the API key that is present; \<open>denotes\<close> says what a bearer token stands for.\<close>

definition credentials :: "(world \<Rightarrow> string \<Rightarrow> principal \<Rightarrow> bool) \<Rightarrow> http_request \<Rightarrow> world \<Rightarrow> principal \<Rightarrow> bool" where
  "credentials denotes r w p \<longleftrightarrow>
     (extractBearer r \<noteq> [] \<and> denotes w (extractBearer r) p) \<or>
     (extractBearer r = [] \<and> (\<exists>c. hSessionCookie r = Some c \<and> c \<noteq> [] \<and> denotes w c p)) \<or>
     (extractBearer r = [] \<and> (hSessionCookie r = None \<or> hSessionCookie r = Some []) \<and>
        hAPIKey r \<noteq> [] \<and> key_principal w (hAPIKey r) p)"

text \<open>What the middleware relies on of a \<open>BearerVerifier\<close>: it accepts a token only for a principal that
  the token stands for, and it changes nothing.\<close>

locale bearer_verifier =
  fixes verify :: "string \<Rightarrow> principal result prog"
    and denotes :: "world \<Rightarrow> string \<Rightarrow> principal \<Rightarrow> bool"
  assumes verify_touch: "run_state (verify token) w = (r, w') \<Longrightarrow> same_but_touch w w'"
    and verify_denotes: "run_state (verify token) w = (Inr p, w') \<Longrightarrow> denotes w token p"
begin

lemma authenticate_sound:
  assumes "run_state (authenticate \<lparr>mwBearer = Some verify, mwSAStore = sa\<rparr> r) w = (res, w')"
  shows "same_but_touch w w'" and "\<And>p. res = Inr p \<Longrightarrow> credentials denotes r w p"
proof -
  note sound = verify_touch verify_denotes verifyAPIKey_sound
  show "same_but_touch w w'"
    using assms by (auto simp: authenticate_def split: if_splits option.splits dest: sound(1,3))
  show "credentials denotes r w p" if "res = Inr p" for p
    using assms that unfolding credentials_def
    by (auto simp: authenticate_def split: if_splits option.splits dest: sound(2,4))
qed

text \<open>A wrapped handler runs only for an authenticated principal, which it finds in its context;
  otherwise the answer is 401 and nothing but a token's last use has changed.\<close>

lemma Middleware_Handler_sound:
  assumes "run_state (Middleware_Handler \<lparr>mwBearer = Some verify, mwSAStore = sa\<rparr> h r) w = (resp, w')"
  obtains (refused) "resp = JSON 401 unauthenticated_body" and "same_but_touch w w'"
    | (called) p w1 where "credentials denotes r w p" and "same_but_touch w w1"
        and "run_state (h (r\<lparr>ctxPrincipal := Some p\<rparr>)) w1 = (resp, w')"
proof -
  obtain res w1 where a: "run_state (authenticate \<lparr>mwBearer = Some verify, mwSAStore = sa\<rparr> r) w = (res, w1)"
    by fastforce
  note s = authenticate_sound [OF a]
  show ?thesis
    using assms a s that by (cases res) (auto simp: Middleware_Handler_def)
qed

end

interpretation sv: bearer_verifier VerifyBearer session_principal
  using VerifyBearer_sound by unfold_locales blast+

text \<open>What the router relies on of an \<open>Authorizer\<close>: on a well-formed database it grants no scope that the
  user does not have.\<close>

locale scope_authorizer =
  fixes scopes_for :: "string \<Rightarrow> string \<Rightarrow> string list result prog"
    and is_admin :: "string \<Rightarrow> bool result prog"
    and scopes_of :: "database \<Rightarrow> string \<Rightarrow> string \<Rightarrow> string list"
    and admin_of :: "database \<Rightarrow> string \<Rightarrow> bool"
  assumes scopes_touch: "run_state (scopes_for i g) w = (r, w') \<Longrightarrow> db_ok (db w) \<Longrightarrow> same_but_touch w w'"
    and scopes_sound: "run_state (scopes_for i g) w = (Inr ss, w') \<Longrightarrow> db_ok (db w) \<Longrightarrow> Has ss x \<Longrightarrow>
      Has (scopes_of (db w) i g) x"
    and admin_touch: "run_state (is_admin i) w = (r2, w') \<Longrightarrow> db_ok (db w) \<Longrightarrow> same_but_touch w w'"
    and admin_sound: "run_state (is_admin i) w = (Inr b, w') \<Longrightarrow> db_ok (db w) \<Longrightarrow> b = admin_of (db w) i"
    and scopes_of_touch: "same_but_touch w w' \<Longrightarrow> scopes_of (db w') i g = scopes_of (db w) i g"
    and admin_of_touch: "same_but_touch w w' \<Longrightarrow> admin_of (db w') i = admin_of (db w) i"

lemmas authorizer_laws = ScopesForUser_sound(1) ScopesForUser_sound(2) [OF _ _ refl]
  IsUserServerAdmin_sound(1) IsUserServerAdmin_sound(2) [OF _ _ refl]

interpretation az: scope_authorizer ScopesForUser IsUserServerAdmin user_scopes server_admin
  by unfold_locales (erule authorizer_laws user_scopes_touch server_admin_touch; assumption)+

end
