(* ===== verification/Examples.thy ===== *)
theory Examples
  imports Middleware
begin

text \<open>
  A small world on which the theorems are applied: two organisations, an administrator and a viewer of
  the first, a session of each, and a service account with one API key. Digests are never computed: a
  stored hash is the term \<open>Hash token\<close>.
\<close>

definition ex_user :: "string \<Rightarrow> string \<Rightarrow> string \<Rightarrow> user" where
  "ex_user i email role = \<lparr>uID = i, uEmail = email, uName = email, uLogin = email, uPasswordHash = ''h'',
     uMustChangePassword = False, uDisabled = False, uRole = role, uAvatarAssetID = None,
     uLastSeenAt = None, uCreatedAt = 1, uUpdatedAt = 1\<rparr>"

definition ex_org :: "string \<Rightarrow> org" where
  "ex_org i = \<lparr>oID = i, oName = i, oLogoAssetID = None, oDisabled = False, oAutoJoin = False,
     oOnboardingDone = False, oCreatedAt = 1, oUpdatedAt = 1\<rparr>"

definition ex_member :: "string \<Rightarrow> string \<Rightarrow> role \<Rightarrow> org_member" where
  "ex_member u g r = \<lparr>mUserID = u, mOrgID = g, mRole = r, mSource = ''manual'', mEmail = [], mName = [],
     mTeamID = None, mCreatedAt = 1, mUpdatedAt = 1\<rparr>"

definition ex_session :: "string \<Rightarrow> string \<Rightarrow> string \<Rightarrow> session" where
  "ex_session i u token = \<lparr>sID = i, sUserID = u, sTokenHash = Hash token, sPrevTokenHash = None,
     sAuthTokenSeen = False, sSeenAt = None, sUserAgent = [], sClientIP = [], sRotatedAt = 1,
     sCreatedAt = 1, sExpiresAt = 5000, sLastActiveAt = 1, sSAMLSessionIdx = [], sSAMLNameIDHash = [],
     sAuthProvider = ''password''\<rparr>"

definition ex_account :: sa_row where
  "ex_account = \<lparr>saID = ''a1'', saOrgID = ''g1'', saName = ''ci'', saDescription = [],
     saScopes = [''maps:*''], saDisabled = False, saIsInternal = False, saAvatarAssetID = None,
     saCreatedBy = [], saCreatedAt = 1, saUpdatedAt = 1, saDeletedAt = None\<rparr>"

definition ex_key :: string where
  "ex_key = ''uig_0123456789abcdef''"

definition ex_token :: token where
  "ex_token = \<lparr>tkID = ''k1'', tkServiceAccountID = ''a1'', tkName = ''deploy'', tkPrefix = Prefix ex_key,
     tkHash = Hash ex_key, tkExpiresAt = None, tkLastUsedAt = None, tkRevoked = False, tkCreatedBy = [],
     tkCreatedAt = 1\<rparr>"

definition ex_db :: database where
  "ex_db = empty_database\<lparr>
     users := [ex_user ''u1'' ''ann@acme.io'' ''user'', ex_user ''u2'' ''bob@acme.io'' ''user'',
               ex_user ''u3'' ''eve@acme.io'' ''server_admin''],
     orgs := [ex_org ''g1'', ex_org ''g2''],
     org_members := [ex_member ''u1'' ''g1'' RoleAdmin, ex_member ''u2'' ''g1'' RoleViewer],
     user_sessions := [ex_session ''s1'' ''u1'' ''ann-token''],
     service_accounts := [ex_account],
     service_account_tokens := [ex_token]\<rparr>"

definition ex_world :: world where
  "ex_world = \<lparr>db = ex_db, clock = 1000, faults = [], entropy = (\<lambda>n. Some (\<lambda>i. of_nat (n + i))), draws = 0,
     uuids = (\<lambda>n. CHR ''i'' # replicate n CHR ''d''), uuid_draws = 0, collation = (\<lambda>s. s), cache = Map.empty\<rparr>"

definition ex_request :: http_request where
  "ex_request = \<lparr>hAuthorization = ''Bearer ann-token'', hSessionCookie = None, hAPIKey = [], hInternalToken = [],
     hUserAgent = ''curl'', hRemoteAddr = ''10.0.0.1'', pathValue = (\<lambda>k. if k = ''orgID'' then ''g1'' else []),
     queryValue = (\<lambda>_. []), formValue = None, ctxPrincipal = None\<rparr>"

lemmas ex_rows = ex_user_def ex_org_def ex_member_def ex_session_def ex_account_def ex_token_def

lemma ex_db_ok [simp]: "db_ok (db ex_world)"
  by (simp add: db_ok_def tables_ok_defs ex_world_def ex_db_def empty_database_def ex_rows)

lemma ex_world_fields [simp]:
  "clock ex_world = 1000" "faults ex_world = []" "draws ex_world = 0" "uuid_draws ex_world = 0"
  "cache ex_world = Map.empty" "db ex_world = ex_db"
  by (simp_all add: ex_world_def)

lemma ex_bearer [simp]: "extractBearer ex_request = ''ann-token''"
  by code_simp

lemma ex_request_fields [simp]:
  "pathValue ex_request ''orgID'' = ''g1''" "ctxPrincipal ex_request = None" "hSessionCookie ex_request = None"
  "hAPIKey ex_request = []" "hUserAgent ex_request = ''curl''" "hRemoteAddr ex_request = ''10.0.0.1''"
  by (simp_all add: ex_request_def)

lemma Hash_not_short [simp]: "length s \<noteq> 64 \<Longrightarrow> Hash t \<noteq> s" "length s \<noteq> 64 \<Longrightarrow> s \<noteq> Hash t"
  using length_Hash [of t] by auto

lemma ex_verify [simp]:
  "run_state (VerifyBearer ''ann-token'') ex_world =
     (Inr \<lparr>pKind = PrincipalUser, pUserID = ''u1'', pOrgID = [], pIsServerAdmin = False,
           pServiceAccountID = [], pScopes = [], pAuthProvider = ''password''\<rparr>, ex_world)"
  by (simp add: VerifyBearer_def run_bindE GetSessionByToken_def GetUser_def session_matches_def ex_db_def
      ex_rows empty_database_def)

lemma ex_scopes [simp]:
  "run_state (ScopesForUser ''u1'' ''g1'') ex_world = (Inr admin_scopes, ex_world)"
  by (simp add: ScopesForUser_def IsUserServerAdmin_def GetOrgMember_def run_bindE GetUser_def ex_db_def
      ex_rows empty_database_def ScopesForRole_def RoleScopes_def RoleAdmin_def RoleEditor_def RoleViewer_def)

text \<open>The same world with an administrator of the server signed in.\<close>

definition ex_admin_world :: world where
  "ex_admin_world = ex_world\<lparr>db := ex_db\<lparr>user_sessions := [ex_session ''s3'' ''u3'' ''eve-token'']\<rparr>\<rparr>"

definition ex_admin_request :: http_request where
  "ex_admin_request = ex_request\<lparr>hAuthorization := ''bearer eve-token''\<rparr>"

lemma ex_admin_ok: "db_ok (db ex_admin_world)"
  by (simp add: db_ok_def tables_ok_defs ex_admin_world_def ex_db_def empty_database_def ex_rows)

lemma ex_admin_bearer [simp]: "extractBearer ex_admin_request = ''eve-token''"
  by code_simp

lemma ex_admin_verify [simp]:
  "run_state (VerifyBearer ''eve-token'') ex_admin_world =
     (Inr \<lparr>pKind = PrincipalUser, pUserID = ''u3'', pOrgID = [], pIsServerAdmin = True,
           pServiceAccountID = [], pScopes = [], pAuthProvider = ''password''\<rparr>, ex_admin_world)"
  by (simp add: VerifyBearer_def run_bindE GetSessionByToken_def GetUser_def session_matches_def ex_db_def
      ex_rows empty_database_def ex_admin_world_def)

lemma ex_is_admin [simp]: "run_state (IsUserServerAdmin ''u3'') ex_admin_world = (Inr True, ex_admin_world)"
  by (simp add: IsUserServerAdmin_def run_bindE GetUser_def ex_db_def ex_rows empty_database_def ex_admin_world_def)

end
