(* ===== verification/Router.thy ===== *)
theory Router
  imports Examples
begin

text \<open>
  \<open>internal/api/router.go\<close>: the three kinds of protected routes. \<open>protected\<close> needs an authenticated
  principal, \<open>requireScope\<close> a scope in the organisation of the path, \<open>serverAdmin\<close> the global role.
  The guards are proved once against the interfaces and then instantiated with the verifier and the
  authorizer that the program wires in.
\<close>

definition principalScopes ::
  "(string \<Rightarrow> string \<Rightarrow> string list result prog) \<Rightarrow> principal \<Rightarrow> string \<Rightarrow> string list option prog" where
  "principalScopes scopesForUser p orgID =
     (if pKind p = PrincipalServiceAccount then
        (if pOrgID p = [] \<or> pOrgID p \<noteq> orgID then ret None else ret (Some (pScopes p)))
      else State_Monad.bind (scopesForUser (pUserID p) orgID) (\<lambda>r.
        ret (case r of Inl _ \<Rightarrow> None | Inr resolved \<Rightarrow> Some resolved)))"

definition unauthenticated_text :: string where
  "unauthenticated_text = ''{\"error\":\"unauthenticated\",\"code\":401}''"

definition forbidden_text :: string where
  "forbidden_text = ''{\"error\":\"forbidden\",\"code\":403}''"

definition protected :: "middleware \<Rightarrow> handler \<Rightarrow> handler" where
  "protected mw h = Middleware_Handler mw h"

definition requireScope ::
  "middleware \<Rightarrow> (string \<Rightarrow> string \<Rightarrow> string list result prog) \<Rightarrow> string \<Rightarrow> handler \<Rightarrow> handler" where
  "requireScope mw scopesForUser scope h = Middleware_Handler mw (\<lambda>r.
     case ctxPrincipal r of
       None \<Rightarrow> ret (http_Error 401 unauthenticated_text)
     | Some p \<Rightarrow>
         State_Monad.bind (principalScopes scopesForUser p (pathValue r ''orgID'')) (\<lambda>authorized.
           case authorized of
             None \<Rightarrow> ret (http_Error 403 forbidden_text)
           | Some scopes \<Rightarrow>
               if \<not> Has scopes scope then ret (http_Error 403 forbidden_text) else h r))"

definition serverAdmin :: "middleware \<Rightarrow> (string \<Rightarrow> bool result prog) \<Rightarrow> handler \<Rightarrow> handler" where
  "serverAdmin mw isUserServerAdmin h = Middleware_Handler mw (\<lambda>r.
     case ctxPrincipal r of
       None \<Rightarrow> ret (http_Error 401 unauthenticated_text)
     | Some p \<Rightarrow>
         State_Monad.bind (isUserServerAdmin (pUserID p)) (\<lambda>res.
           case res of
             Inl _ \<Rightarrow> ret (http_Error 403 forbidden_text)
           | Inr ok \<Rightarrow> if \<not> ok then ret (http_Error 403 forbidden_text) else h r))"

text \<open>The middleware and the guards as \<open>New\<close> wires them.\<close>

definition mw :: middleware where
  "mw = \<lparr>mwBearer = Some VerifyBearer, mwSAStore = True\<rparr>"

section \<open>Soundness of the guards\<close>

text \<open>A principal holds a scope in an organisation: an account bound to it whose scopes cover it, or a
  user whose scopes there do.\<close>

definition holds_scope :: "(database \<Rightarrow> string \<Rightarrow> string \<Rightarrow> string list) \<Rightarrow> database \<Rightarrow> principal \<Rightarrow> string \<Rightarrow> string \<Rightarrow> bool" where
  "holds_scope scopes_of d p g scope \<longleftrightarrow>
     (case pKind p of
        PrincipalServiceAccount \<Rightarrow> pOrgID p = g \<and> g \<noteq> [] \<and> Has (pScopes p) scope
      | PrincipalUser \<Rightarrow> Has (scopes_of d (pUserID p) g) scope)"

definition refusal :: "response \<Rightarrow> bool" where
  "refusal resp \<longleftrightarrow> resp \<in> {JSON 401 unauthenticated_body, http_Error 401 unauthenticated_text, http_Error 403 forbidden_text}"

lemma not_refusal [simp]: "ok_status resp \<Longrightarrow> \<not> refusal resp"
  by (auto simp: refusal_def)

locale guarded_routes = bearer_verifier verify denotes + scope_authorizer scopes_for is_admin scopes_of admin_of
  for verify denotes scopes_for is_admin scopes_of admin_of
begin

lemma requireScope_sound:
  assumes "run_state (requireScope \<lparr>mwBearer = Some verify, mwSAStore = sa\<rparr> scopes_for scope h r) w = (resp, w')"
    and "db_ok (db w)"
  obtains (refused) "refusal resp" and "same_but_touch w w'"
    | (called) p w1 where "credentials denotes r w p" and "same_but_touch w w1"
        and "holds_scope scopes_of (db w) p (pathValue r ''orgID'') scope"
        and "run_state (h (r\<lparr>ctxPrincipal := Some p\<rparr>)) w1 = (resp, w')"
proof -
  from assms(1) [unfolded requireScope_def] show ?thesis
  proof (cases rule: Middleware_Handler_sound)
    case refused
    then show ?thesis by (intro that(1)) (simp_all add: refusal_def)
  next
    case (called p w1)
    let ?g = "pathValue r ''orgID''"
    obtain a w2 where ps: "run_state (principalScopes scopes_for p ?g) w1 = (a, w2)" by fastforce
    have ok1: "db_ok (db w1)" using called(2) assms(2) by (rule db_ok_touch)
    have t12: "same_but_touch w1 w2"
      using ps scopes_touch [OF _ ok1] by (auto simp: principalScopes_def split: if_splits prod.splits)
    have t: "same_but_touch w w2" using called(2) t12 by (rule same_but_touch_trans)
    show ?thesis
    proof (cases "\<exists>ss. a = Some ss \<and> Has ss scope")
      case False
      with called(3) ps have "resp = http_Error 403 forbidden_text" and "w' = w2"
        by (auto split: option.splits)
      with t show ?thesis by (intro that(1)) (simp_all add: refusal_def)
    next
      case True
      then obtain ss where ss: "a = Some ss" "Has ss scope" by blast
      have users: "Has (scopes_of (db w) (pUserID p) ?g) scope" if "pKind p = PrincipalUser"
      proof -
        have "run_state (scopes_for (pUserID p) ?g) w1 = (Inr ss, w2)"
          using ps ss(1) that by (auto simp: principalScopes_def split: prod.splits sum.splits)
        then have "Has (scopes_of (db w1) (pUserID p) ?g) scope" using ok1 ss(2) by (rule scopes_sound)
        then show ?thesis using scopes_of_touch [OF called(2)] by simp
      qed
      have accounts: "pOrgID p = ?g \<and> ?g \<noteq> [] \<and> Has (pScopes p) scope" if "pKind p = PrincipalServiceAccount"
        using ps ss that by (auto simp: principalScopes_def split: if_splits)
      have "holds_scope scopes_of (db w) p ?g scope"
        using users accounts by (cases "pKind p") (simp_all add: holds_scope_def)
      moreover have "run_state (h (r\<lparr>ctxPrincipal := Some p\<rparr>)) w2 = (resp, w')"
        using called(3) ps ss by simp
      ultimately show ?thesis using called(1) t by (intro that(2))
    qed
  qed
qed

lemma serverAdmin_sound:
  assumes "run_state (serverAdmin \<lparr>mwBearer = Some verify, mwSAStore = sa\<rparr> is_admin h r) w = (resp, w')"
    and "db_ok (db w)"
  obtains (refused) "refusal resp" and "same_but_touch w w'"
    | (called) p w1 where "credentials denotes r w p" and "same_but_touch w w1" and "admin_of (db w) (pUserID p)"
        and "run_state (h (r\<lparr>ctxPrincipal := Some p\<rparr>)) w1 = (resp, w')"
proof -
  from assms(1) [unfolded serverAdmin_def] show ?thesis
  proof (cases rule: Middleware_Handler_sound)
    case refused
    then show ?thesis by (intro that(1)) (simp_all add: refusal_def)
  next
    case (called p w1)
    obtain a w2 where adm: "run_state (is_admin (pUserID p)) w1 = (a, w2)" by fastforce
    have ok1: "db_ok (db w1)" using called(2) assms(2) by (rule db_ok_touch)
    have t: "same_but_touch w w2" using called(2) admin_touch [OF adm ok1] by (rule same_but_touch_trans)
    show ?thesis
    proof (cases "a = Inr True")
      case False
      with called(3) adm have "resp = http_Error 403 forbidden_text" and "w' = w2"
        by (auto split: sum.splits if_splits)
      with t show ?thesis by (intro that(1)) (simp_all add: refusal_def)
    next
      case True
      then have "admin_of (db w) (pUserID p)"
        using admin_sound [of _ w1 True w2] adm ok1 admin_of_touch [OF called(2)] by simp
      moreover have "run_state (h (r\<lparr>ctxPrincipal := Some p\<rparr>)) w2 = (resp, w')"
        using called(3) adm True by simp
      ultimately show ?thesis using called(1) t by (intro that(2))
    qed
  qed
qed

end

interpretation gr: guarded_routes VerifyBearer session_principal ScopesForUser IsUserServerAdmin user_scopes server_admin
  by unfold_locales

section \<open>The guards of the program\<close>

text \<open>C2. A route behind a scope runs its handler only for a caller whose credentials are live and who
  holds the scope in the organisation named by the path: a service account bound to that organisation,
  or a user whose role there (or the server-admin role) grants it. This holds whatever statements fail
  on the way. Otherwise the answer is a refusal.\<close>

theorem requireScope_authorized:
  assumes "run_state (requireScope mw ScopesForUser scope h r) w = (resp, w')" and "db_ok (db w)"
    and "\<not> refusal resp"
  shows "\<exists>p w1. credentials session_principal r w p \<and>
      holds_scope user_scopes (db w) p (pathValue r ''orgID'') scope \<and> same_but_touch w w1 \<and>
      run_state (h (r\<lparr>ctxPrincipal := Some p\<rparr>)) w1 = (resp, w')"
  using assms(1) [unfolded mw_def] assms(2) by (rule gr.requireScope_sound) (use assms(3) in blast)+

theorem requireScope_authorized_witness:
  "\<exists>p w1. credentials session_principal ex_request ex_world p \<and>
     holds_scope user_scopes (db ex_world) p ''g1'' ''org:update'' \<and> same_but_touch ex_world w1 \<and>
     run_state (ret NoContent) w1 = (NoContent, ex_world)"
proof -
  have has: "Has admin_scopes ''org:update''" by code_simp
  have "run_state (requireScope mw ScopesForUser ''org:update'' (\<lambda>_. ret NoContent) ex_request) ex_world
      = (NoContent, ex_world)"
    using has by (simp add: requireScope_def Middleware_Handler_def authenticate_def mw_def principalScopes_def)
  moreover have "\<not> refusal NoContent" by simp
  ultimately show ?thesis
    using requireScope_authorized [of "''org:update''" "\<lambda>_. ret NoContent" ex_request ex_world NoContent ex_world]
      ex_db_ok by simp
qed

text \<open>C3. A server-admin route runs its handler only for a caller with live credentials whose user
  account exists, is enabled and has the role \<open>server_admin\<close>.\<close>

theorem serverAdmin_authorized:
  assumes "run_state (serverAdmin mw IsUserServerAdmin h r) w = (resp, w')" and "db_ok (db w)"
    and "\<not> refusal resp"
  shows "\<exists>p w1. credentials session_principal r w p \<and> server_admin (db w) (pUserID p) \<and>
      same_but_touch w w1 \<and> run_state (h (r\<lparr>ctxPrincipal := Some p\<rparr>)) w1 = (resp, w')"
  using assms(1) [unfolded mw_def] assms(2) by (rule gr.serverAdmin_sound) (use assms(3) in blast)+

theorem serverAdmin_authorized_witness:
  "\<exists>p w1. credentials session_principal ex_admin_request ex_admin_world p \<and>
     server_admin (db ex_admin_world) (pUserID p) \<and> same_but_touch ex_admin_world w1 \<and>
     run_state (ret NoContent) w1 = (NoContent, ex_admin_world)"
proof -
  have "run_state (serverAdmin mw IsUserServerAdmin (\<lambda>_. ret NoContent) ex_admin_request) ex_admin_world
      = (NoContent, ex_admin_world)"
    by (simp add: serverAdmin_def Middleware_Handler_def authenticate_def mw_def)
  then show ?thesis
    using serverAdmin_authorized [of "\<lambda>_. ret NoContent" ex_admin_request ex_admin_world NoContent ex_admin_world]
      ex_admin_ok by simp
qed

end
