(* ===== verification/ProviderStore.thy ===== *)
theory ProviderStore
  imports Database
begin

text \<open>
  \<open>internal/store/postgres/provider_store.go\<close>: identity providers, role mappings, organisation domains
  and the pending logins at a provider.
\<close>

section \<open>Identity providers\<close>

text \<open>The columns \<open>created_at\<close> and \<open>updated_at\<close> are set by the server; the icon's URL and the entity id of
  the service provider are not columns.\<close>

definition provider_row :: "time \<Rightarrow> auth_provider \<Rightarrow> auth_provider" where
  "provider_row t p = p\<lparr>apIconURL := [], apSPEntityID := [], apCreatedAt := t, apUpdatedAt := t\<rparr>"

definition CreateAuthProvider :: "auth_provider \<Rightarrow> unit result prog" where
  "CreateAuthProvider p = State_Monad.bind (command (\<lambda>now d.
       if exists_row (\<lambda>r. apID r = apID p) (auth_providers d) then Inl (UniqueViolation ''auth_providers_pkey'')
       else if exists_row (\<lambda>r. apOrgID r = apOrgID p \<and> apDisplayName r = apDisplayName p) (auth_providers d)
       then Inl (UniqueViolation ''auth_providers_org_id_display_name_key'')
       else if exists_row (\<lambda>r. apOrgID r = apOrgID p \<and> apSlug r = apSlug p) (auth_providers d)
       then Inl (UniqueViolation ''auth_providers_org_slug_key'')
       else if \<not> exists_row (\<lambda>g. oID g = apOrgID p) (orgs d)
       then Inl (ForeignKeyViolation ''auth_providers_org_id_fkey'')
       else Inr (d\<lparr>auth_providers := auth_providers d @ [provider_row now p]\<rparr>)))
     (\<lambda>r. ret (case r of
        Inl e \<Rightarrow>
          if e = UniqueViolation ''auth_providers_org_slug_key'' then Inl StoreErrConflict
          else if e = UniqueViolation ''auth_providers_org_id_display_name_key'' then Inl StoreErrConflict
          else Inl (Wrapf ''postgres: CreateAuthProvider: %w'' [] e)
      | Inr u \<Rightarrow> Inr u))"

definition provider_update :: "time \<Rightarrow> auth_provider \<Rightarrow> auth_provider \<Rightarrow> auth_provider" where
  "provider_update t p r = r\<lparr>apKind := apKind p, apType := apType p, apDisplayName := apDisplayName p,
     apEnabled := apEnabled p, apAllowSignUp := apAllowSignUp p, apAllowedDomains := apAllowedDomains p,
     apDefaultRole := apDefaultRole p, apClientID := apClientID p, apClientSecret := apClientSecret p,
     apAuthURL := apAuthURL p, apTokenURL := apTokenURL p, apUserinfoURL := apUserinfoURL p,
     apAPIURL := apAPIURL p, apScopes := apScopes p, apEmailClaim := apEmailClaim p,
     apNameClaim := apNameClaim p, apSubClaim := apSubClaim p, apGroupsClaim := apGroupsClaim p,
     apIDPMetadataURL := apIDPMetadataURL p, apIDPMetadataXML := apIDPMetadataXML p,
     apIDPEntityID := apIDPEntityID p, apIDPSSOURL := apIDPSSOURL p, apIDPCert := apIDPCert p,
     apSPCert := apSPCert p, apSPKey := apSPKey p, apSignRequests := apSignRequests p,
     apNameIDFormat := apNameIDFormat p, apEmailAttribute := apEmailAttribute p,
     apNameAttribute := apNameAttribute p, apGroupsAttribute := apGroupsAttribute p, apUpdatedAt := t\<rparr>"

text \<open>\<open>RowsAffected\<close> is the number of rows that the statement updated.\<close>

definition UpdateAuthProvider :: "auth_provider \<Rightarrow> unit result prog" where
  "UpdateAuthProvider p = State_Monad.bind (exec (\<lambda>now d.
       if exists_row (\<lambda>r. apID r = apID p \<and> apOrgID r = apOrgID p) (auth_providers d) \<and>
          exists_row (\<lambda>r. apID r \<noteq> apID p \<and> apOrgID r = apOrgID p \<and> apDisplayName r = apDisplayName p) (auth_providers d)
       then Inl (UniqueViolation ''auth_providers_org_id_display_name_key'')
       else Inr (length (filter (\<lambda>r. apID r = apID p \<and> apOrgID r = apOrgID p) (auth_providers d)),
                 d\<lparr>auth_providers := update_where (\<lambda>r. apID r = apID p \<and> apOrgID r = apOrgID p)
                      (provider_update now p) (auth_providers d)\<rparr>)))
     (\<lambda>r. ret (case r of
        Inl e \<Rightarrow>
          if e = UniqueViolation ''auth_providers_org_id_display_name_key'' then Inl StoreErrConflict
          else Inl (Wrapf ''postgres: UpdateAuthProvider: %w'' [] e)
      | Inr n \<Rightarrow> if n = 0 then Inl StoreErrNotFound else Inr ()))"

definition GetAuthProviderBySlug :: "string \<Rightarrow> string \<Rightarrow> auth_provider option result prog" where
  "GetAuthProviderBySlug orgID slug = wrap ''postgres: GetAuthProviderBySlug: %w'' (query (\<lambda>_ d.
     find (\<lambda>p. apOrgID p = orgID \<and> apSlug p = slug) (auth_providers d)))"

definition ListAuthProviders :: "string \<Rightarrow> auth_provider list result prog" where
  "ListAuthProviders orgID = State_Monad.bind collate (\<lambda>c.
     wrap ''postgres: ListAuthProviders: %w'' (query (\<lambda>_ d.
       sort_key (\<lambda>p. c (apDisplayName p)) (filter (\<lambda>p. apOrgID p = orgID) (auth_providers d)))))"

definition ListEnabledAuthProviders :: "string \<Rightarrow> auth_provider list result prog" where
  "ListEnabledAuthProviders orgID = State_Monad.bind collate (\<lambda>c.
     wrap ''postgres: ListEnabledAuthProviders: %w'' (query (\<lambda>_ d.
       sort_key (\<lambda>p. c (apDisplayName p)) (filter (\<lambda>p. apOrgID p = orgID \<and> apEnabled p) (auth_providers d)))))"

definition DeleteAuthProvider :: "string \<Rightarrow> string \<Rightarrow> unit result prog" where
  "DeleteAuthProvider orgID providerID = wrap ''postgres: DeleteAuthProvider: %w'' (command (\<lambda>_ d.
     let gone = (\<lambda>i. exists_row (\<lambda>p. apID p = i \<and> apID p = providerID \<and> apOrgID p = orgID) (auth_providers d))
     in Inr (d\<lparr>auth_providers := delete_where (\<lambda>p. apID p = providerID \<and> apOrgID p = orgID) (auth_providers d),
               auth_role_mappings := delete_where (\<lambda>r. gone (rProviderID r)) (auth_role_mappings d),
               auth_login_state := delete_where (\<lambda>s. gone (lsProviderID s)) (auth_login_state d)\<rparr>)))"

definition SetAuthProviderIcon :: "string \<Rightarrow> string \<Rightarrow> string option \<Rightarrow> unit result prog" where
  "SetAuthProviderIcon orgID providerID assetID = wrap ''postgres: SetAuthProviderIcon: %w'' (command (\<lambda>now d.
     Inr (d\<lparr>auth_providers := update_where (\<lambda>p. apID p = providerID \<and> apOrgID p = orgID)
        (\<lambda>p. p\<lparr>apIconAssetID := (case assetID of None \<Rightarrow> [] | Some a \<Rightarrow> a), apUpdatedAt := now\<rparr>)
        (auth_providers d)\<rparr>)))"

section \<open>Role mappings\<close>

definition rule_insert_row :: "time \<Rightarrow> rule \<Rightarrow> rule_row" where
  "rule_insert_row t r = rule.extend r \<lparr>rCreatedAt = t\<rparr>"

definition CreateRoleMapping :: "rule \<Rightarrow> unit result prog" where
  "CreateRoleMapping m = wrap ''postgres: CreateRoleMapping: %w'' (command (\<lambda>now d.
     if exists_row (\<lambda>r. rID r = rID m) (auth_role_mappings d) then Inl (UniqueViolation ''auth_role_mappings_pkey'')
     else if \<not> exists_row (\<lambda>p. apID p = rProviderID m) (auth_providers d)
     then Inl (ForeignKeyViolation ''auth_role_mappings_provider_id_fkey'')
     else Inr (d\<lparr>auth_role_mappings := auth_role_mappings d @ [rule_insert_row now m]\<rparr>)))"

definition UpdateRoleMapping :: "rule \<Rightarrow> unit result prog" where
  "UpdateRoleMapping m =
     bindE (wrap ''postgres: UpdateRoleMapping: %w'' (exec (\<lambda>_ d.
        Inr (length (filter (\<lambda>r. rID r = rID m \<and> rProviderID r = rProviderID m) (auth_role_mappings d)),
             d\<lparr>auth_role_mappings := update_where (\<lambda>r. rID r = rID m \<and> rProviderID r = rProviderID m)
                 (\<lambda>r. r\<lparr>rPriority := rPriority m, rAttributeKey := rAttributeKey m, rOperator := rOperator m,
                        rAttributeValue := rAttributeValue m, rRole := rRole m\<rparr>) (auth_role_mappings d)\<rparr>))))
       (\<lambda>n. ret (if n = 0 then Inl StoreErrNotFound else Inr ()))"

definition ListRoleMappings :: "string \<Rightarrow> rule list result prog" where
  "ListRoleMappings providerID = wrap ''postgres: ListRoleMappings: %w'' (query (\<lambda>_ d.
     map rule.truncate (sort_key rPriority (sort_key rCreatedAt
       (filter (\<lambda>r. rProviderID r = providerID) (auth_role_mappings d))))))"

definition DeleteRoleMapping :: "string \<Rightarrow> string \<Rightarrow> unit result prog" where
  "DeleteRoleMapping providerID mappingID = wrap ''postgres: DeleteRoleMapping: %w'' (command (\<lambda>_ d.
     Inr (d\<lparr>auth_role_mappings := delete_where (\<lambda>r. rID r = mappingID \<and> rProviderID r = providerID)
                                   (auth_role_mappings d)\<rparr>)))"

section \<open>Organisation domains\<close>

definition CreateOrgDomain :: "org_domain \<Rightarrow> unit result prog" where
  "CreateOrgDomain od = wrap ''postgres: CreateOrgDomain: %w'' (command (\<lambda>now d.
     let x = od\<lparr>odDomain := ToLower (odDomain od), odCreatedAt := now, odUpdatedAt := now\<rparr> in
     if \<not> domain_ok (odDomain x) then Inl (CheckViolation ''org_domains_domain_format_check'')
     else if exists_row (\<lambda>r. odOrgID r = odOrgID x \<and> odDomain r = odDomain x) (org_domains d) then Inr d
     else if exists_row (\<lambda>r. odID r = odID x) (org_domains d) then Inl (UniqueViolation ''org_domains_pkey'')
     else if \<not> exists_row (\<lambda>g. oID g = odOrgID x) (orgs d)
     then Inl (ForeignKeyViolation ''org_domains_org_id_fkey'')
     else Inr (d\<lparr>org_domains := org_domains d @ [x]\<rparr>)))"

definition UpdateOrgDomain :: "org_domain \<Rightarrow> unit result prog" where
  "UpdateOrgDomain od =
     bindE (wrap ''postgres: UpdateOrgDomain: %w'' (exec (\<lambda>now d.
        let v = ToLower (odDomain od); here = (\<lambda>r. odID r = odID od \<and> odOrgID r = odOrgID od) in
        if exists_row here (org_domains d) \<and> \<not> domain_ok v
        then Inl (CheckViolation ''org_domains_domain_format_check'')
        else if exists_row here (org_domains d) \<and>
                exists_row (\<lambda>r. odID r \<noteq> odID od \<and> odOrgID r = odOrgID od \<and> odDomain r = v) (org_domains d)
        then Inl (UniqueViolation ''org_domains_org_id_domain_key'')
        else Inr (length (filter here (org_domains d)),
                  d\<lparr>org_domains := update_where here (\<lambda>r. r\<lparr>odDomain := v, odUpdatedAt := now\<rparr>) (org_domains d)\<rparr>))))
       (\<lambda>rows. ret (if rows = 0 then Inl StoreErrNotFound else Inr ()))"

definition ListOrgDomains :: "string \<Rightarrow> org_domain list result prog" where
  "ListOrgDomains orgID = State_Monad.bind collate (\<lambda>c.
     wrap ''postgres: ListOrgDomains: %w'' (query (\<lambda>_ d.
       sort_key (\<lambda>x. c (odDomain x)) (filter (\<lambda>x. odOrgID x = orgID) (org_domains d)))))"

definition DeleteOrgDomain :: "string \<Rightarrow> string \<Rightarrow> unit result prog" where
  "DeleteOrgDomain orgID domainID = wrap ''postgres: DeleteOrgDomain: %w'' (command (\<lambda>_ d.
     Inr (d\<lparr>org_domains := delete_where (\<lambda>x. odID x = domainID \<and> odOrgID x = orgID) (org_domains d)\<rparr>)))"

definition ListOrgsByDomain :: "string \<Rightarrow> org list result prog" where
  "ListOrgsByDomain domain = State_Monad.bind collate (\<lambda>c.
     wrap ''postgres: ListOrgsByDomain: %w'' (query (\<lambda>_ d.
       sort_key (\<lambda>g. c (oName g))
         (concat (map (\<lambda>g. map (\<lambda>_. g)
                     (filter (\<lambda>x. odOrgID x = oID g \<and> odDomain x = ToLower domain \<and> \<not> oDisabled g) (org_domains d)))
            (orgs d))))))"

section \<open>Pending logins\<close>

definition CreateLoginState :: "login_state \<Rightarrow> unit result prog" where
  "CreateLoginState s = wrap ''postgres: CreateLoginState: %w'' (command (\<lambda>now d.
     if exists_row (\<lambda>r. lsID r = lsID s) (auth_login_state d) then Inl (UniqueViolation ''auth_login_state_pkey'')
     else if exists_row (\<lambda>r. lsState r = lsState s) (auth_login_state d)
     then Inl (UniqueViolation ''auth_login_state_state_key'')
     else if \<not> exists_row (\<lambda>g. oID g = lsOrgID s) (orgs d)
     then Inl (ForeignKeyViolation ''auth_login_state_org_id_fkey'')
     else if \<not> exists_row (\<lambda>p. apID p = lsProviderID s) (auth_providers d)
     then Inl (ForeignKeyViolation ''auth_login_state_provider_id_fkey'')
     else Inr (d\<lparr>auth_login_state := auth_login_state d @ [s\<lparr>lsCreatedAt := now\<rparr>]\<rparr>)))"

text \<open>\<open>DELETE ... RETURNING\<close>: the row is gone whether or not it had expired.\<close>

definition ConsumeLoginState :: "string \<Rightarrow> login_state option result prog" where
  "ConsumeLoginState state =
     bindE (wrap ''postgres: ConsumeLoginState: %w'' (exec (\<lambda>_ d.
        Inr (find (\<lambda>s. lsState s = state) (auth_login_state d),
             d\<lparr>auth_login_state := delete_where (\<lambda>s. lsState s = state) (auth_login_state d)\<rparr>))))
       (\<lambda>r. case r of
          None \<Rightarrow> ret (Inr None)
        | Some s \<Rightarrow> State_Monad.bind now (\<lambda>t. ret (Inr (if t > lsExpiresAt s then None else Some s))))"

definition PurgeExpiredLoginState :: "unit result prog" where
  "PurgeExpiredLoginState = wrap ''postgres: PurgeExpiredLoginState: %w'' (command (\<lambda>now d.
     Inr (d\<lparr>auth_login_state := delete_where (\<lambda>s. lsExpiresAt s < now) (auth_login_state d)\<rparr>)))"

text \<open>\<open>ON CONFLICT (true)\<close> names no column: the server refuses both statements.\<close>

definition UpsertLDAPConfig :: "'cfg \<Rightarrow> unit result prog" where
  "UpsertLDAPConfig cfg = wrap ''postgres: UpsertLDAPConfig: %w'' (exec (\<lambda>_ d. Inl SyntaxError))"

definition UpsertSCIMConfig :: "'cfg \<Rightarrow> unit result prog" where
  "UpsertSCIMConfig cfg = wrap ''postgres: UpsertSCIMConfig: %w'' (exec (\<lambda>_ d. Inl SyntaxError))"

section \<open>Preservation\<close>

lemma provider_row_keys [simp]:
  "apID (provider_row t p) = apID p" "apOrgID (provider_row t p) = apOrgID p"
  "apSlug (provider_row t p) = apSlug p" "apDisplayName (provider_row t p) = apDisplayName p"
  by (simp_all add: provider_row_def)

lemma provider_update_keys [simp]:
  "apID (provider_update t p r) = apID r" "apOrgID (provider_update t p r) = apOrgID r"
  "apSlug (provider_update t p r) = apSlug r" "apDisplayName (provider_update t p r) = apDisplayName p"
  by (simp_all add: provider_update_def)

lemma rule_row_simps [simp]:
  "rID (rule_insert_row t r) = rID r" "rProviderID (rule_insert_row t r) = rProviderID r"
  by (simp_all add: rule_insert_row_def rule.defs)

lemma providers_update_ok:
  assumes "db_ok d" and "\<And>p. apID (f p) = apID p" and "\<And>p. apOrgID (f p) = apOrgID p"
    and "\<And>p. apSlug (f p) = apSlug p"
    and "unique (\<lambda>p. (apOrgID p, apDisplayName p)) (update_where P f (auth_providers d))"
  shows "db_ok (d\<lparr>auth_providers := update_where P f (auth_providers d)\<rparr>)"
  using assms by (simp add: db_ok_def tables_ok_defs)

lemma providers_insert_ok:
  assumes "db_ok d" and "apID p \<notin> keys apID (auth_providers d)"
    and "(apOrgID p, apSlug p) \<notin> keys (\<lambda>p. (apOrgID p, apSlug p)) (auth_providers d)"
    and "(apOrgID p, apDisplayName p) \<notin> keys (\<lambda>p. (apOrgID p, apDisplayName p)) (auth_providers d)"
    and "apOrgID p \<in> keys oID (orgs d)"
  shows "db_ok (d\<lparr>auth_providers := auth_providers d @ [p]\<rparr>)"
  using assms by (simp add: db_ok_def tables_ok_defs subset_insertI2)

lemma db_ok_providers:
  assumes "db_ok d"
  shows "unique apID (auth_providers d)" and "unique (\<lambda>p. (apOrgID p, apSlug p)) (auth_providers d)"
    and "unique (\<lambda>p. (apOrgID p, apDisplayName p)) (auth_providers d)"
    and "unique odID (org_domains d)" and "unique (\<lambda>x. (odOrgID x, odDomain x)) (org_domains d)"
    and "unique lsState (auth_login_state d)"
  using assms by (simp_all add: db_ok_def provider_tables_ok_def)

lemma keeps_db_CreateAuthProvider [keeps_rules]: "keeps (on_db db_ok) (CreateAuthProvider p)"
  unfolding CreateAuthProvider_def
  by (intro keeps_bind keeps_command keeps_return)
    (auto split: if_splits simp: key_simps intro!: providers_insert_ok)

lemma keeps_db_UpdateAuthProvider [keeps_rules]: "keeps (on_db db_ok) (UpdateAuthProvider p)"
proof -
  have "db_ok (d\<lparr>auth_providers := update_where (\<lambda>r. apID r = apID p \<and> apOrgID r = apOrgID p)
      (provider_update t p) (auth_providers d)\<rparr>)"
    if "db_ok d" and fresh: "\<not> (exists_row (\<lambda>r. apID r = apID p \<and> apOrgID r = apOrgID p) (auth_providers d) \<and>
        exists_row (\<lambda>r. apID r \<noteq> apID p \<and> apOrgID r = apOrgID p \<and> apDisplayName r = apDisplayName p) (auth_providers d))"
    for d t
  proof (rule providers_update_ok [OF that(1)])
    show "unique (\<lambda>r. (apOrgID r, apDisplayName r)) (update_where (\<lambda>r. apID r = apID p \<and> apOrgID r = apOrgID p)
        (provider_update t p) (auth_providers d))"
      using db_ok_providers(1,3) [OF that(1)]
      by (rule unique_update_scoped [where n = "apDisplayName p" and i = "apID p"]) (use fresh in auto)
  qed simp_all
  then show ?thesis
    unfolding UpdateAuthProvider_def
    by (intro keeps_bind keeps_exec keeps_return) (auto split: if_splits simp del: exists_row_iff)
qed

lemma keeps_db_DeleteAuthProvider [keeps_rules]: "keeps (on_db db_ok) (DeleteAuthProvider g i)"
proof -
  have cascade: "db_ok (d\<lparr>auth_providers := delete_where P (auth_providers d),
      auth_role_mappings := delete_where Q (auth_role_mappings d), auth_login_state := delete_where R (auth_login_state d)\<rparr>)"
    if ok: "db_ok d" and Q: "\<And>r p. p \<in> set (auth_providers d) \<Longrightarrow> rProviderID r = apID p \<Longrightarrow> P p \<Longrightarrow> Q r"
      and R: "\<And>s p. p \<in> set (auth_providers d) \<Longrightarrow> lsProviderID s = apID p \<Longrightarrow> P p \<Longrightarrow> R s" for d P Q R
  proof -
    note parts = ok [unfolded db_ok_def tables_ok_defs]
    have "keys rProviderID (delete_where Q (auth_role_mappings d)) \<subseteq> keys apID (delete_where P (auth_providers d))"
      by (rule keys_delete_cascade) (use parts Q in simp_all)
    moreover have "keys lsProviderID (delete_where R (auth_login_state d)) \<subseteq> keys apID (delete_where P (auth_providers d))"
      by (rule keys_delete_cascade) (use parts R in simp_all)
    ultimately show ?thesis
      using parts unfolding db_ok_def tables_ok_defs by (simp add: keys_delete_subset del: set_delete_where)
  qed
  show ?thesis
    unfolding DeleteAuthProvider_def Let_def by (intro keeps_wrap keeps_command) (auto intro!: cascade)
qed

lemma keeps_db_SetAuthProviderIcon [keeps_rules]: "keeps (on_db db_ok) (SetAuthProviderIcon g i a)"
  unfolding SetAuthProviderIcon_def
  by (intro keeps_wrap keeps_command) (auto intro!: providers_update_ok dest: db_ok_providers)

lemma rules_insert_ok:
  assumes "db_ok d" and "rID r \<notin> keys rID (auth_role_mappings d)" and "rProviderID r \<in> keys apID (auth_providers d)"
  shows "db_ok (d\<lparr>auth_role_mappings := auth_role_mappings d @ [r]\<rparr>)"
  using assms by (simp add: db_ok_def tables_ok_defs)

lemma rules_update_ok:
  assumes "db_ok d" and "\<And>r. rID (f r) = rID r" and "\<And>r. rProviderID (f r) = rProviderID r"
  shows "db_ok (d\<lparr>auth_role_mappings := update_where P f (auth_role_mappings d)\<rparr>)"
  using assms by (simp add: db_ok_def tables_ok_defs)

lemma rules_delete_ok: "db_ok d \<Longrightarrow> db_ok (d\<lparr>auth_role_mappings := delete_where P (auth_role_mappings d)\<rparr>)"
  unfolding db_ok_def tables_ok_defs by (simp add: keys_delete_subset del: set_delete_where)

lemma keeps_db_rule_writes [keeps_rules]:
  "keeps (on_db db_ok) (CreateRoleMapping m)" "keeps (on_db db_ok) (DeleteRoleMapping i j)"
  unfolding CreateRoleMapping_def DeleteRoleMapping_def
  by (intro keeps_wrap keeps_command;
      auto split: if_splits simp: key_simps intro!: rules_insert_ok rules_delete_ok)+

lemma keeps_db_UpdateRoleMapping [keeps_rules]: "keeps (on_db db_ok) (UpdateRoleMapping m)"
  unfolding UpdateRoleMapping_def
  by (intro keeps_bindE keeps_wrap keeps_exec keeps_return) (auto intro!: rules_update_ok)

lemma domains_insert_ok:
  assumes "db_ok d" and "odID x \<notin> keys odID (org_domains d)"
    and "(odOrgID x, odDomain x) \<notin> keys (\<lambda>x. (odOrgID x, odDomain x)) (org_domains d)"
    and "odOrgID x \<in> keys oID (orgs d)" and "domain_ok (odDomain x)"
  shows "db_ok (d\<lparr>org_domains := org_domains d @ [x]\<rparr>)"
  using assms by (auto simp add: db_ok_def tables_ok_defs)

lemma domains_update_ok:
  assumes "db_ok d" and "\<And>x. odID (f x) = odID x" and "\<And>x. odOrgID (f x) = odOrgID x"
    and "unique (\<lambda>x. (odOrgID x, odDomain x)) (update_where P f (org_domains d))"
    and "\<And>x. x \<in> set (org_domains d) \<Longrightarrow> P x \<Longrightarrow> domain_ok (odDomain (f x))"
  shows "db_ok (d\<lparr>org_domains := update_where P f (org_domains d)\<rparr>)"
proof -
  have "\<forall>x\<in>set (update_where P f (org_domains d)). domain_ok (odDomain x)"
    using assms(1,5) by (auto simp: set_update_where db_ok_def provider_tables_ok_def)
  then show ?thesis using assms(1-4) by (simp add: db_ok_def tables_ok_defs)
qed

lemma domains_delete_ok: "db_ok d \<Longrightarrow> db_ok (d\<lparr>org_domains := delete_where P (org_domains d)\<rparr>)"
proof -
  assume ok: "db_ok d"
  then have "\<forall>x\<in>set (delete_where P (org_domains d)). domain_ok (odDomain x)"
    by (simp add: db_ok_def provider_tables_ok_def)
  with ok show ?thesis
    unfolding db_ok_def tables_ok_defs by (simp add: keys_delete_subset del: set_delete_where)
qed

lemma keeps_db_domain_writes [keeps_rules]:
  "keeps (on_db db_ok) (CreateOrgDomain x)" "keeps (on_db db_ok) (DeleteOrgDomain i j)"
  unfolding CreateOrgDomain_def DeleteOrgDomain_def Let_def
  by (intro keeps_wrap keeps_command;
      auto split: if_splits simp: key_simps intro!: domains_insert_ok domains_delete_ok)+

lemma keeps_db_UpdateOrgDomain [keeps_rules]: "keeps (on_db db_ok) (UpdateOrgDomain x)"
proof -
  let ?here = "\<lambda>r. odID r = odID x \<and> odOrgID r = odOrgID x"
  have "db_ok (d\<lparr>org_domains := update_where ?here (\<lambda>r. r\<lparr>odDomain := v, odUpdatedAt := t\<rparr>) (org_domains d)\<rparr>)"
    if ok: "db_ok d" and v: "exists_row ?here (org_domains d) \<longrightarrow> domain_ok v"
      and fresh: "\<not> (exists_row ?here (org_domains d) \<and>
        exists_row (\<lambda>r. odID r \<noteq> odID x \<and> odOrgID r = odOrgID x \<and> odDomain r = v) (org_domains d))" for d v t
  proof (rule domains_update_ok [OF ok])
    show "unique (\<lambda>x. (odOrgID x, odDomain x)) (update_where ?here (\<lambda>r. r\<lparr>odDomain := v, odUpdatedAt := t\<rparr>) (org_domains d))"
      using db_ok_providers(4,5) [OF ok]
      by (rule unique_update_scoped [where n = v and i = "odID x"]) (use fresh in auto)
  qed (use v in auto)
  then show ?thesis
    unfolding UpdateOrgDomain_def Let_def
    by (intro keeps_bindE keeps_wrap keeps_exec keeps_return) (auto split: if_splits simp del: exists_row_iff)
qed

lemma states_insert_ok:
  assumes "db_ok d" and "lsID s \<notin> keys lsID (auth_login_state d)" and "lsState s \<notin> keys lsState (auth_login_state d)"
    and "lsOrgID s \<in> keys oID (orgs d)" and "lsProviderID s \<in> keys apID (auth_providers d)"
  shows "db_ok (d\<lparr>auth_login_state := auth_login_state d @ [s]\<rparr>)"
  using assms by (simp add: db_ok_def tables_ok_defs)

lemma states_delete_ok: "db_ok d \<Longrightarrow> db_ok (d\<lparr>auth_login_state := delete_where P (auth_login_state d)\<rparr>)"
  unfolding db_ok_def tables_ok_defs by (simp add: keys_delete_subset del: set_delete_where)

lemma keeps_db_state_writes [keeps_rules]:
  "keeps (on_db db_ok) (CreateLoginState s)" "keeps (on_db db_ok) PurgeExpiredLoginState"
  unfolding CreateLoginState_def PurgeExpiredLoginState_def
  by (intro keeps_wrap keeps_command;
      auto split: if_splits simp: key_simps intro!: states_insert_ok states_delete_ok)+

lemma keeps_db_ConsumeLoginState [keeps_rules]: "keeps (on_db db_ok) (ConsumeLoginState s)"
  unfolding ConsumeLoginState_def
  by (intro keeps_bindE keeps_wrap keeps_exec keeps_return keeps_case_option keeps_bind keeps_effects)
    (auto intro!: states_delete_ok)

lemma keeps_provider_reads [keeps_rules]:
  "keeps (on_db I) (GetAuthProviderBySlug i s)" "keeps (on_db I) (ListAuthProviders i)"
  "keeps (on_db I) (ListEnabledAuthProviders i)" "keeps (on_db I) (ListRoleMappings i)"
  "keeps (on_db I) (ListOrgDomains i)" "keeps (on_db I) (ListOrgsByDomain n)"
  "keeps (on_db I) (UpsertLDAPConfig c)" "keeps (on_db I) (UpsertSCIMConfig c)"
  unfolding GetAuthProviderBySlug_def ListAuthProviders_def ListEnabledAuthProviders_def
    ListRoleMappings_def ListOrgDomains_def ListOrgsByDomain_def UpsertLDAPConfig_def UpsertSCIMConfig_def
  by (intro keeps_rules keeps_exec; simp)+

end
