(* ===== verification/StoreContract.thy ===== *)
theory StoreContract
  imports UserStore OrgStore AccountStore ProviderStore
begin

text \<open>
  What the handlers rely on of the store, as an interface: a property \<open>I\<close> of the database that every
  operation they call preserves. Some operations preserve it only for arguments that the handlers promise to
  pass: sessions are created unrotated, pending logins return to a local path, service accounts are given valid scopes, role mappings have passed
  \<open>ValidateRule\<close> and providers are \<open>good\<close>, that is validated or read back from the store.

  Each handler is shown to preserve \<open>I\<close> once, in the locale; the interpretations below then give every
  invariant of the database.
\<close>

text \<open>A path on the same site, as \<open>safeRedirect\<close> makes it.\<close>

definition local_path :: "string \<Rightarrow> bool" where
  "local_path s \<longleftrightarrow> HasPrefix s ''/'' \<and> \<not> HasPrefix s ''//''"

locale store_contract =
  fixes I :: "database \<Rightarrow> bool"
    and Compile :: "string \<Rightarrow> (string \<Rightarrow> bool) option"
    and good :: "auth_provider \<Rightarrow> bool"
  assumes keeps_users [keeps_rules]:
      "keeps (on_db I) (SetUserAvatar i a)" "keeps (on_db I) (CreateUser u)" "keeps (on_db I) (UpsertUser u)"
      "keeps (on_db I) (UpdateUser u)" "keeps (on_db I) (DisableUser i)" "keeps (on_db I) (TouchUser i)"
      "keeps (on_db I) (UpsertAuthIdentity ai)" "keeps (on_db I) (RecordLoginAttempt i j)"
    and keeps_sessions [keeps_rules]:
      "sPrevTokenHash s = None \<Longrightarrow> keeps (on_db I) (CreateSession s)"
      "keeps (on_db I) (DeleteSession i)" "keeps (on_db I) (DeleteUserSessions i)" "keeps (on_db I) (MarkTokenSeen i)"
    and keeps_orgs [keeps_rules]:
      "keeps (on_db I) (CreateOrg g)" "keeps (on_db I) (UpdateOrg g)" "keeps (on_db I) (SetOrgLogo i a)"
      "keeps (on_db I) (SetOnboardingDone i)" "keeps (on_db I) (DeleteOrg i)"
    and keeps_org_members [keeps_rules]:
      "keeps (on_db I) (AddMember m)" "keeps (on_db I) (UpsertMember m)" "keeps (on_db I) (UpdateMemberRole i j k l)"
      "keeps (on_db I) (RemoveMember i j)" "keeps (on_db I) (UpsertOrgMember i j k l)"
    and keeps_teams [keeps_rules]:
      "keeps (on_db I) (CreateTeam t)" "keeps (on_db I) (UpdateTeam t)" "keeps (on_db I) (DeleteTeam i)"
      "keeps (on_db I) (AddTeamMember tm)" "keeps (on_db I) (RemoveTeamMember i j)"
      "keeps (on_db I) (RemoveUserFromOrgTeams i j)"
    and keeps_service_accounts [keeps_rules]:
      "keeps (on_db I) (SetServiceAccountAvatar i a)" "keeps (on_db I) (DeleteServiceAccount i)"
      "list_all ValidScope (saScopes sa) \<Longrightarrow> keeps (on_db I) (CreateServiceAccount sa)"
      "list_all ValidScope (saScopes sa) \<Longrightarrow> keeps (on_db I) (UpdateServiceAccount sa)"
      "keeps (on_db I) (CreateToken tok)" "keeps (on_db I) (RevokeToken i)" "keeps (on_db I) (TouchToken i)"
    and keeps_providers [keeps_rules]:
      "good p \<Longrightarrow> keeps (on_db I) (CreateAuthProvider p)" "good p \<Longrightarrow> keeps (on_db I) (UpdateAuthProvider p)"
      "keeps (on_db I) (DeleteAuthProvider i j)" "keeps (on_db I) (SetAuthProviderIcon i j a)"
      "ValidateRule Compile rl = None \<Longrightarrow> keeps (on_db I) (CreateRoleMapping rl)"
      "ValidateRule Compile rl = None \<Longrightarrow> keeps (on_db I) (UpdateRoleMapping rl)"
      "keeps (on_db I) (DeleteRoleMapping i j)"
    and keeps_domains [keeps_rules]:
      "keeps (on_db I) (CreateOrgDomain od)" "keeps (on_db I) (UpdateOrgDomain od)" "keeps (on_db I) (DeleteOrgDomain i j)"
      "local_path (lsRedirectTo ls) \<Longrightarrow> keeps (on_db I) (CreateLoginState ls)" "keeps (on_db I) (ConsumeLoginState i)" "keeps (on_db I) PurgeExpiredLoginState"
    and provider_read:
      "hoare (on_db I) (GetAuthProviderBySlug i j) (\<lambda>r w. on_db I w \<and> pred_sum (\<lambda>_. True) (pred_option good) r)"
    and good_Validate: "Validate p = None \<Longrightarrow> good p"
    and good_keypair: "good p \<Longrightarrow> good (p\<lparr>apSPCert := i, apSPKey := j\<rparr>)"

interpretation ok: store_contract db_ok Compile "\<lambda>_. True" for Compile
  by unfold_locales
    (auto intro: keeps_rules hoare_conseq [OF keeps_provider_reads(1)] simp: option.pred_True sum.pred_True)

section \<open>Invariants that the constraints of the tables do not give\<close>

text \<open>No session has been rotated: the handlers issue a new session instead of rotating one.\<close>

definition no_rotation :: "database \<Rightarrow> bool" where
  "no_rotation d \<longleftrightarrow> list_all (\<lambda>s. sPrevTokenHash s = None) (user_sessions d)"

text \<open>Every scope of a service account is in the catalogue, or a wildcard of one of its resources.\<close>

definition scopes_valid :: "database \<Rightarrow> bool" where
  "scopes_valid d \<longleftrightarrow> list_all (\<lambda>a. list_all ValidScope (saScopes a)) (service_accounts d)"

text \<open>Every stored role mapping passed validation and every provider has a role for new members.\<close>

definition mappings_valid :: "(string \<Rightarrow> (string \<Rightarrow> bool) option) \<Rightarrow> database \<Rightarrow> bool" where
  "mappings_valid Compile d \<longleftrightarrow>
     list_all (\<lambda>r. ValidateRule Compile (rule.truncate r) = None) (auth_role_mappings d) \<and>
     list_all (\<lambda>p. RoleScopes (apDefaultRole p) \<noteq> None) (auth_providers d)"

text \<open>Every pending login returns to a path of the front end.\<close>

definition redirects_local :: "database \<Rightarrow> bool" where
  "redirects_local d \<longleftrightarrow> list_all (\<lambda>s. local_path (lsRedirectTo s)) (auth_login_state d)"

lemmas write_defs = SetUserAvatar_def CreateUser_def UpsertUser_def UpdateUser_def DisableUser_def TouchUser_def
  UpsertAuthIdentity_def RecordLoginAttempt_def CreateSession_def DeleteSession_def DeleteUserSessions_def
  MarkTokenSeen_def CreateOrg_def UpdateOrg_def SetOrgLogo_def SetOnboardingDone_def DeleteOrg_def
  AddMember_def UpsertMember_def UpdateMemberRole_def RemoveMember_def UpsertOrgMember_def
  CreateTeam_def UpdateTeam_def DeleteTeam_def AddTeamMember_def RemoveTeamMember_def RemoveUserFromOrgTeams_def
  SetServiceAccountAvatar_def DeleteServiceAccount_def CreateServiceAccount_def UpdateServiceAccount_def
  CreateToken_def RevokeToken_def TouchToken_def CreateAuthProvider_def UpdateAuthProvider_def
  DeleteAuthProvider_def SetAuthProviderIcon_def CreateRoleMapping_def UpdateRoleMapping_def DeleteRoleMapping_def
  CreateOrgDomain_def UpdateOrgDomain_def DeleteOrgDomain_def CreateLoginState_def ConsumeLoginState_def
  PurgeExpiredLoginState_def

lemmas keeps_by_cases = keeps_bind keeps_bindE keeps_wrap keeps_command keeps_exec keeps_return keeps_case_option
  keeps_effects keeps_case_sum

lemma list_all_update: "list_all P rows \<Longrightarrow> (\<And>r. P r \<Longrightarrow> Q r \<Longrightarrow> P (f r)) \<Longrightarrow> list_all P (update_where Q f rows)"
  by (induction rows) auto

lemma list_all_delete: "list_all P rows \<Longrightarrow> list_all P (delete_where Q rows)"
  by (auto simp: list_all_iff)

lemmas list_all_rows = list_all_update list_all_delete

lemma upsert_member_frame:
  assumes "upsert_member t m d = Inr d'"
  shows "user_sessions d' = user_sessions d" "service_accounts d' = service_accounts d"
    "auth_role_mappings d' = auth_role_mappings d" "auth_providers d' = auth_providers d"
    "auth_login_state d' = auth_login_state d"
  using assms by (auto simp: upsert_member_def split: if_splits)

lemma cascade_org_frame:
  "user_sessions (cascade_org i d) = user_sessions d"
  "\<exists>P. service_accounts (cascade_org i d) = delete_where P (service_accounts d)"
  "\<exists>P. auth_role_mappings (cascade_org i d) = delete_where P (auth_role_mappings d)"
  "\<exists>P. auth_providers (cascade_org i d) = delete_where P (auth_providers d)"
  "\<exists>P. auth_login_state (cascade_org i d) = delete_where P (auth_login_state d)"
  by (auto simp: cascade_org_def Let_def)

interpretation rot: store_contract no_rotation Compile "\<lambda>_. True" for Compile
  by unfold_locales
    (auto intro!: keeps_by_cases hoare_conseq [OF keeps_provider_reads(1)] list_all_rows
      simp: write_defs Let_def no_rotation_def upsert_member_frame cascade_org_frame option.pred_True sum.pred_True
      split: if_splits)

lemma cascade_org_valid:
  "list_all P (service_accounts d) \<Longrightarrow> list_all P (service_accounts (cascade_org i d))"
  "list_all Q (auth_role_mappings d) \<Longrightarrow> list_all Q (auth_role_mappings (cascade_org i d))"
  "list_all R (auth_providers d) \<Longrightarrow> list_all R (auth_providers (cascade_org i d))"
  "list_all S (auth_login_state d) \<Longrightarrow> list_all S (auth_login_state (cascade_org i d))"
  using cascade_org_frame(2,3,4,5) [of i d] list_all_delete by metis+

interpretation scp: store_contract scopes_valid Compile "\<lambda>_. True" for Compile
  by unfold_locales
    (auto intro!: keeps_by_cases hoare_conseq [OF keeps_provider_reads(1)] list_all_rows cascade_org_valid
      simp: write_defs Let_def scopes_valid_def upsert_member_frame option.pred_True sum.pred_True
      split: if_splits)

interpretation rdr: store_contract redirects_local Compile "\<lambda>_. True" for Compile
  by unfold_locales
    (auto intro!: keeps_by_cases hoare_conseq [OF keeps_provider_reads(1)] list_all_rows cascade_org_valid
      simp: write_defs Let_def redirects_local_def upsert_member_frame option.pred_True sum.pred_True
      split: if_splits)

lemma truncate_update:
  "rule.truncate (r\<lparr>rPriority := a, rAttributeKey := b, rOperator := c, rAttributeValue := d, rRole := e\<rparr> :: rule_row) =
   \<lparr>rID = rID r, rProviderID = rProviderID r, rPriority = a, rAttributeKey = b, rOperator = c, rAttributeValue = d, rRole = e\<rparr>"
  by (simp add: rule.defs)

lemma ValidateRule_fields:
  assumes "ValidateRule Compile m = None"
  shows "ValidateRule Compile \<lparr>rID = i, rProviderID = j, rPriority = rPriority m, rAttributeKey = rAttributeKey m,
    rOperator = rOperator m, rAttributeValue = rAttributeValue m, rRole = rRole m\<rparr> = None"
  using assms by (auto simp: ValidateRule_def split: if_splits)

lemma truncate_insert: "rule.truncate (rule_insert_row t m) = m"
  by (simp add: rule_insert_row_def rule.defs)

lemma mappings_provider_read:
  "hoare (on_db (mappings_valid Compile)) (GetAuthProviderBySlug i j)
     (\<lambda>r w. on_db (mappings_valid Compile) w \<and> pred_sum (\<lambda>_. True) (pred_option (\<lambda>p. RoleScopes (apDefaultRole p) \<noteq> None)) r)"
proof (rule hoareI)
  fix w r w'
  assume inv: "on_db (mappings_valid Compile) w" and run: "run_state (GetAuthProviderBySlug i j) w = (r, w')"
  have "on_db (mappings_valid Compile) w'" using hoareD [OF keeps_provider_reads(1) inv run] .
  moreover have "RoleScopes (apDefaultRole p) \<noteq> None" if "r = Inr (Some p)" for p
  proof -
    have "p \<in> set (auth_providers (db w))"
      using run that unfolding GetAuthProviderBySlug_def
      by (auto elim!: run_query_Inr dest!: find_SomeD [OF sym] simp del: run_wrap)
    with inv show ?thesis by (auto simp: on_db_def mappings_valid_def list_all_iff)
  qed
  ultimately show "on_db (mappings_valid Compile) w' \<and>
      pred_sum (\<lambda>_. True) (pred_option (\<lambda>p. RoleScopes (apDefaultRole p) \<noteq> None)) r"
    by (cases r) (auto split: option.splits simp: option.pred_set)
qed

lemma Validate_role: "Validate p = None \<Longrightarrow> RoleScopes (apDefaultRole p) \<noteq> None"
  by (auto simp: Validate_def RoleScopes_def split: if_splits option.splits)

interpretation rmap: store_contract "mappings_valid Compile" Compile "\<lambda>p. RoleScopes (apDefaultRole p) \<noteq> None" for Compile
  by unfold_locales
    (auto intro!: keeps_by_cases list_all_rows cascade_org_valid mappings_provider_read ValidateRule_fields dest!: Validate_role
      simp: write_defs Let_def mappings_valid_def upsert_member_frame truncate_update truncate_insert provider_row_def
        provider_update_def
      simp del: not_None_eq split: if_splits)

end
