(* ===== verification/AuthCommon.thy ===== *)
theory AuthCommon
  imports Http StoreContract
begin

text \<open>
  Helpers that the handlers of \<open>internal/api/auth\<close> share: random identifiers and session tokens
  (\<open>session.go\<close>), presigned asset URLs, the client of the billing service (\<open>internal/enterprise\<close>) and
  the seat limit (\<open>member.go\<close>).

  Three third-party functions are arguments: \<open>bcrypt\<close> (comparison, and hashing with a given salt), the
  resolver of asset URLs, and the answer of the billing service for an organisation.
\<close>

section \<open>Identifiers and session tokens\<close>

text \<open>An error of \<open>rand.Read\<close> is ignored: the buffer is then all zeros.\<close>

definition format_id :: "byte list \<Rightarrow> string" where
  "format_id b =
     (let b = b[6 := (b ! 6 AND 0x0f) OR 0x40];
          b = b[8 := (b ! 8 AND 0x3f) OR 0x80]
      in hex_encode (take 4 b) @ ''-'' @ hex_encode (take 2 (drop 4 b)) @ ''-'' @
         hex_encode (take 2 (drop 6 b)) @ ''-'' @ hex_encode (take 2 (drop 8 b)) @ ''-'' @
         hex_encode (drop 10 b))"

definition newID :: "string prog" where
  "newID = State_Monad.bind (rand_Read 16) (\<lambda>r.
     ret (format_id (case r of None \<Rightarrow> replicate 16 0 | Some bs \<Rightarrow> bs)))"

definition generateSessionToken :: "(string \<times> string) result prog" where
  "generateSessionToken = State_Monad.bind (rand_Read 32) (\<lambda>r.
     case r of
       None \<Rightarrow> ret (Inl (Errorf ''generate session token: %w'' []))
     | Some b \<Rightarrow>
         let plaintext = hex_encode b; hash = Hash plaintext in ret (Inr (plaintext, hash)))"

definition sessionTTL :: time where
  "sessionTTL = 30 * 24 * 3600 * 1000000"

text \<open>The session that a login creates; \<open>t\<close> is \<open>time.Now().UTC()\<close>.\<close>

definition fresh_session :: "string \<Rightarrow> string \<Rightarrow> string \<Rightarrow> http_request \<Rightarrow> time \<Rightarrow> string \<Rightarrow> session" where
  "fresh_session i userID hash r t provider =
     \<lparr>sID = i, sUserID = userID, sTokenHash = hash, sPrevTokenHash = None, sAuthTokenSeen = False,
      sSeenAt = None, sUserAgent = hUserAgent r, sClientIP = hRemoteAddr r, sRotatedAt = t, sCreatedAt = t,
      sExpiresAt = t + sessionTTL, sLastActiveAt = t, sSAMLSessionIdx = [], sSAMLNameIDHash = [],
      sAuthProvider = provider\<rparr>"

text \<open>The literals \<open>org.User{...}\<close> and \<open>org.OrgMember{...}\<close> of the handlers: the fields not named are zero.\<close>

definition new_user :: "string \<Rightarrow> string \<Rightarrow> string \<Rightarrow> string \<Rightarrow> string \<Rightarrow> time \<Rightarrow> user" where
  "new_user i email name hash role t =
     \<lparr>uID = i, uEmail = email, uName = name, uLogin = email, uPasswordHash = hash, uMustChangePassword = False,
      uDisabled = False, uRole = role, uAvatarAssetID = None, uLastSeenAt = None, uCreatedAt = t, uUpdatedAt = t\<rparr>"

definition new_member :: "string \<Rightarrow> string \<Rightarrow> role \<Rightarrow> string \<Rightarrow> org_member" where
  "new_member userID orgID role source =
     \<lparr>mUserID = userID, mOrgID = orgID, mRole = role, mSource = source, mEmail = [], mName = [], mTeamID = None,
      mCreatedAt = 0, mUpdatedAt = 0\<rparr>"

section \<open>Passwords\<close>

record bcrypt =
  CompareHashAndPassword :: "string \<Rightarrow> string \<Rightarrow> bool"
  bcryptHash :: "byte list \<Rightarrow> string \<Rightarrow> string result"

definition GenerateFromPassword :: "bcrypt \<Rightarrow> string \<Rightarrow> string result prog" where
  "GenerateFromPassword bc password = State_Monad.bind (rand_Read 16) (\<lambda>salt.
     ret (case salt of None \<Rightarrow> Inl (Errorf ''bcrypt: no randomness'' []) | Some s \<Rightarrow> bcryptHash bc s password))"

text \<open>What the documentation of \<open>bcrypt\<close> promises: a hash it made compares equal with its password,
  and is not empty.\<close>

definition bcrypt_ok :: "bcrypt \<Rightarrow> bool" where
  "bcrypt_ok bc \<longleftrightarrow> (\<forall>s p h. bcryptHash bc s p = Inr h \<longrightarrow> CompareHashAndPassword bc h p \<and> h \<noteq> [])"

section \<open>Presigned URLs\<close>

definition avatarURL :: "(string \<Rightarrow> string result) option \<Rightarrow> string option \<Rightarrow> string" where
  "avatarURL assets assetID =
     (case assetID of
        None \<Rightarrow> []
      | Some a \<Rightarrow>
          if a = [] then []
          else case assets of
                 None \<Rightarrow> []
               | Some resolve \<Rightarrow> (case resolve a of Inl _ \<Rightarrow> [] | Inr u \<Rightarrow> u))"

section \<open>Plan limits (enterprise/client.go, member.go)\<close>

record seat_limit_info =
  slLimit :: int
  slPlanID :: string
  slMaxDiagrams :: int
  slMaxServices :: int
  slMaxMaps :: int
  slAssistEnabled :: bool

type_synonym enterprise_client = "(string \<Rightarrow> seat_limit_info result) option"

text \<open>\<open>Some resp\<close> when a response has been written.\<close>

definition seatLimitReached :: "enterprise_client \<Rightarrow> string \<Rightarrow> nat \<Rightarrow> response option prog" where
  "seatLimitReached ent orgID status =
     (case ent of
        None \<Rightarrow> ret None
      | Some seatLimit \<Rightarrow>
          (case seatLimit orgID of
             Inl _ \<Rightarrow> ret None
           | Inr info \<Rightarrow>
               if slLimit info < 0 then ret None
               else State_Monad.bind (ListMembers orgID) (\<lambda>r.
                 case r of
                   Inl err \<Rightarrow> ret (Some (Error err))
                 | Inr current \<Rightarrow>
                     if int (length current) < slLimit info then ret None
                     else let plan = (if slPlanID info = [] then ''free'' else slPlanID info)
                          in ret (Some (JSON status (JObj [
                               (''code'', JStr ''seat_limit_reached''),
                               (''message'', JStr (''Your organization has reached its seat limit on the '' @ plan @
                                  '' plan. Upgrade to add more members.''))]))))))"

definition ResourceLimitReached ::
  "enterprise_client \<Rightarrow> string \<Rightarrow> string \<Rightarrow> int \<Rightarrow> (seat_limit_info \<Rightarrow> int) \<Rightarrow> response option" where
  "ResourceLimitReached c orgID resourceName currentCount limit =
     (case c of
        None \<Rightarrow> None
      | Some seatLimit \<Rightarrow>
          (case seatLimit orgID of
             Inl _ \<Rightarrow> None
           | Inr info \<Rightarrow>
               let mx = limit info in
               if mx < 0 \<or> currentCount < mx then None
               else let plan = (if slPlanID info = [] then ''free'' else slPlanID info)
                    in Some (JSON 409 (JObj [
                         (''code'', JStr (resourceName @ ''_limit_reached'')),
                         (''message'', JStr (''Your organization has reached its '' @ resourceName @ '' limit on the '' @
                            plan @ '' plan. Upgrade to create more.''))]))))"

definition allScopeStrings :: "string list" where
  "allScopeStrings = AllScopes"

definition ActorKey :: "string \<Rightarrow> string" where
  "ActorKey i = ''actor:'' @ i"

text \<open>\<open>if h.cache != nil { _ = h.cache.Del(...) }\<close>\<close>

definition forget_actor :: "bool \<Rightarrow> string \<Rightarrow> unit prog" where
  "forget_actor has_cache i = (if has_cache then cache_Del (ActorKey i) else ret ())"

section \<open>Preservation\<close>

lemma keeps_common [keeps_rules]:
  "keeps (on_db I) newID" "keeps (on_db I) generateSessionToken" "keeps (on_db I) (GenerateFromPassword bc pw)"
  "keeps (on_db I) (forget_actor c i)"
  unfolding newID_def generateSessionToken_def GenerateFromPassword_def forget_actor_def
  by (intro keeps_rules)+

lemma keeps_seatLimitReached [keeps_rules]: "keeps (on_db I) (seatLimitReached e g s)"
  unfolding seatLimitReached_def by (intro keeps_rules)

lemma run_forget_actor:
  "run_state (State_Monad.bind (forget_actor c i) (\<lambda>_. ret x)) w = (y, w') \<Longrightarrow> y = x \<and> db w' = db w"
  by (auto simp: forget_actor_def cache_Del_def Let_def split: if_splits)

lemma fresh_session_keys [simp]:
  "sID (fresh_session i u h r t p) = i" "sUserID (fresh_session i u h r t p) = u"
  "sTokenHash (fresh_session i u h r t p) = h" "sPrevTokenHash (fresh_session i u h r t p) = None"
  "sExpiresAt (fresh_session i u h r t p) = t + sessionTTL" "sAuthProvider (fresh_session i u h r t p) = p"
  by (simp_all add: fresh_session_def)

section \<open>Identifiers\<close>

lemma run_newID: "\<exists>i. run_state newID w = (i, w\<lparr>draws := Suc (draws w)\<rparr>)"
  by (simp add: newID_def Let_def)

lemma run_generateSessionToken [run_simps]:
  "run_state generateSessionToken w =
     ((case entropy w (draws w) of
         None \<Rightarrow> Inl (Errorf ''generate session token: %w'' [])
       | Some f \<Rightarrow> let plaintext = hex_encode (map f [0..<32]) in Inr (plaintext, Hash plaintext)),
      w\<lparr>draws := Suc (draws w)\<rparr>)"
  by (simp add: generateSessionToken_def Let_def split: option.splits)

lemma generateSessionToken_Inr:
  assumes "run_state generateSessionToken w = (Inr (plaintext, hash), w')"
  shows "hash = Hash plaintext" and "w' = w\<lparr>draws := Suc (draws w)\<rparr>" and "length plaintext = 64"
  using assms by (auto simp: run_generateSessionToken Let_def split: option.splits)

lemma div16: "n div 16 = drop_bit 4 (n :: nat)"
  by (simp add: drop_bit_eq_div)

lemma version_digit: "unat ((x AND 0x0f) OR (0x40 :: byte)) div 16 = 4"
  by (simp add: div16 unsigned_or_eq unsigned_and_eq drop_bit_or drop_bit_and)

lemma variant_digit: "unat ((x AND 0x3f) OR (0x80 :: byte)) div 16 \<in> {8, 9, 10, 11}"
proof -
  have "unat ((x AND 0x3f) OR (0x80 :: byte)) div 16 = (drop_bit 4 (unat x) AND 3) OR 8"
    by (simp add: div16 unsigned_or_eq unsigned_and_eq drop_bit_or drop_bit_and)
  also have "drop_bit 4 (unat x) AND 3 = drop_bit 4 (unat x) mod 4"
    using take_bit_eq_mask [of 2 "drop_bit 4 (unat x)"] by (simp add: take_bit_eq_mod mask_eq_exp_minus_1)
  finally have eq: "unat ((x AND 0x3f) OR (0x80 :: byte)) div 16 = (drop_bit 4 (unat x) mod 4) OR 8" .
  have "drop_bit 4 (unat x) mod 4 \<in> {0, 1, 2, 3}" by auto
  then show ?thesis unfolding eq by auto
qed

lemma hex_digit_values:
  "hex_digit 4 = CHR ''4''" "hex_digit 8 = CHR ''8''" "hex_digit 9 = CHR ''9''" "hex_digit 10 = CHR ''a''"
  "hex_digit 11 = CHR ''b''"
  by code_simp+

lemma format_id_shape:
  assumes "length b = 16"
  shows "length (format_id b) = 36 \<and> format_id b ! 8 = CHR ''-'' \<and> format_id b ! 13 = CHR ''-'' \<and>
    format_id b ! 14 = CHR ''4'' \<and> format_id b ! 18 = CHR ''-'' \<and> format_id b ! 23 = CHR ''-'' \<and>
    format_id b ! 19 \<in> {CHR ''8'', CHR ''9'', CHR ''a'', CHR ''b''}"
proof -
  obtain b0 b1 b2 b3 b4 b5 b6 b7 b8 b9 b10 b11 b12 b13 b14 b15
    where bs: "b = [b0, b1, b2, b3, b4, b5, b6, b7, b8, b9, b10, b11, b12, b13, b14, b15]"
    using assms by (auto simp: length_Suc_conv numeral_eq_Suc)
  show ?thesis
    unfolding bs using variant_digit [of b8]
    by (auto simp: format_id_def hex_encode_def hex_byte_def version_digit hex_digit_values)
qed

text \<open>Identifiers have the canonical form of a random (version 4) UUID, 36 characters with the
  version and variant digits in place, even when the source of randomness fails.\<close>

lemma newID_format:
  "let i = fst (run_state newID w) in
     length i = 36 \<and> i ! 8 = CHR ''-'' \<and> i ! 13 = CHR ''-'' \<and> i ! 14 = CHR ''4'' \<and> i ! 18 = CHR ''-'' \<and>
     i ! 23 = CHR ''-'' \<and> i ! 19 \<in> {CHR ''8'', CHR ''9'', CHR ''a'', CHR ''b''}"
proof -
  let ?b = "case entropy w (draws w) of None \<Rightarrow> replicate 16 0 | Some f \<Rightarrow> map f [0..<16]"
  have "length ?b = 16" and "fst (run_state newID w) = format_id ?b"
    by (cases "entropy w (draws w)"; simp add: newID_def)+
  then show ?thesis using format_id_shape by metis
qed

end
