(* ===== verification/MemberHandler.thy ===== *)
theory MemberHandler
  imports AuthCommon Examples
begin

text \<open>
  \<open>internal/api/auth/member.go\<close>: the members of an organisation. A handler gets the decoded body of the
  request (\<open>None\<close> when it is not valid JSON) and reads the organisation and the user from the path.
\<close>

definition memberToResponse :: "org_member \<Rightarrow> json" where
  "memberToResponse m = JObj ([(''userId'', JStr (mUserID m)), (''orgId'', JStr (mOrgID m)), (''role'', JStr (mRole m)),
     (''source'', JStr (mSource m)), (''email'', JStr (mEmail m)), (''name'', JStr (mName m))] @
     omit_opt ''teamId'' JStr (mTeamID m) @
     [(''createdAt'', JTime (mCreatedAt m)), (''updatedAt'', JTime (mUpdatedAt m))])"

record addMemberRequest =
  amrName :: string
  amrEmail :: string
  amrPassword :: string
  amrRole :: string

record updateMemberRequest =
  umrName :: string
  umrEmail :: string
  umrRole :: string
  umrTeamID :: string

definition MemberHandler_List :: handler where
  "MemberHandler_List r =
     on_err (ListMembers (pathValue r ''orgID'')) (\<lambda>members.
       ret (JSON 200 (JObj [(''members'', JArr (map memberToResponse members))])))"

definition MemberHandler_Add :: "bcrypt \<Rightarrow> enterprise_client \<Rightarrow> addMemberRequest option \<Rightarrow> handler" where
  "MemberHandler_Add bc ent body r =
     (let orgID = pathValue r ''orgID'' in
      case body of
        None \<Rightarrow> ret (BadRequest (JStr ''invalid JSON''))
      | Some req \<Rightarrow>
          if amrName req = [] \<or> amrEmail req = [] \<or> amrPassword req = [] \<or> amrRole req = []
          then ret (BadRequest (JStr ''name, email, password, and role are required''))
          else on_err (GetUserByEmail (amrEmail req)) (\<lambda>existing.
            if existing \<noteq> None then ret (Error StoreErrConflict)
            else State_Monad.bind (seatLimitReached ent orgID 409) (\<lambda>limited.
              case limited of
                Some resp \<Rightarrow> ret resp
              | None \<Rightarrow>
                  on_err (GenerateFromPassword bc (amrPassword req)) (\<lambda>hash.
                  State_Monad.bind newID (\<lambda>i.
                    let u = new_user i (amrEmail req) (amrName req) hash ''user'' 0 in
                    on_err (CreateUser u) (\<lambda>_.
                      let m = new_member i orgID (amrRole req) ''manual'' in
                      on_err (AddMember m) (\<lambda>_.
                        ret (JSON 201 (memberToResponse (m\<lparr>mEmail := uEmail u, mName := uName u\<rparr>))))))))))"

definition MemberHandler_UpdateMember :: "updateMemberRequest option \<Rightarrow> handler" where
  "MemberHandler_UpdateMember body r =
     (let orgID = pathValue r ''orgID''; userID = pathValue r ''userID'' in
      case body of
        None \<Rightarrow> ret (BadRequest (JStr ''invalid JSON''))
      | Some req \<Rightarrow>
          if umrName req = [] \<or> umrEmail req = [] \<or> umrRole req = []
          then ret (BadRequest (JStr ''name, email, and role are required''))
          else on_err (GetUser userID) (\<lambda>found.
            case found of
              None \<Rightarrow> ret (Error StoreErrNotFound)
            | Some u \<Rightarrow>
                on_err (if umrEmail req \<noteq> uEmail u then GetUserByEmail (umrEmail req) else ret (Inr None)) (\<lambda>clash.
                  if (case clash of None \<Rightarrow> False | Some c \<Rightarrow> uID c \<noteq> userID) then ret (Error StoreErrConflict)
                  else
                    let u = u\<lparr>uName := umrName req, uEmail := umrEmail req, uLogin := umrEmail req\<rparr> in
                    on_err (UpdateUser u) (\<lambda>_.
                    on_err (UpdateMemberRole userID orgID (umrRole req) ''manual'') (\<lambda>_.
                    on_err (RemoveUserFromOrgTeams orgID userID) (\<lambda>_.
                    on_err (if umrTeamID req \<noteq> []
                            then AddTeamMember \<lparr>tmTeamID = umrTeamID req, tmUserID = userID, tmOrgID = orgID,
                                   tmPermission = ''member'', tmCreatedAt = 0, tmUpdatedAt = 0\<rparr>
                            else ret (Inr ())) (\<lambda>_.
                      ret (JSON 200 (memberToResponse ((new_member userID orgID (umrRole req) ''manual'')
                        \<lparr>mEmail := uEmail u, mName := uName u,
                         mTeamID := (if umrTeamID req \<noteq> [] then Some (umrTeamID req) else None)\<rparr>))))))))))"

definition MemberHandler_Remove :: handler where
  "MemberHandler_Remove r =
     on_err (RemoveMember (pathValue r ''userID'') (pathValue r ''orgID'')) (\<lambda>_. ret NoContent)"

section \<open>Preservation\<close>

context store_contract
begin

lemma keeps_member_handler [keeps_rules]:
  "keeps (on_db I) (MemberHandler_List r)" "keeps (on_db I) (MemberHandler_Add bc ent ab r)"
  "keeps (on_db I) (MemberHandler_UpdateMember ub r)" "keeps (on_db I) (MemberHandler_Remove r)"
  unfolding MemberHandler_List_def MemberHandler_Add_def MemberHandler_UpdateMember_def MemberHandler_Remove_def
  by (intro keeps_rules)+

end

section \<open>Seats\<close>

text \<open>On a well-formed database every membership has its user, so the join loses no row.\<close>

definition seats :: "string \<Rightarrow> database \<Rightarrow> nat" where
  "seats g d = length (filter (\<lambda>m. mOrgID m = g) (org_members d))"

lemma ListMembers_length:
  assumes "run_state (ListMembers g) w = (Inr ms, w')" and "db_ok (db w)"
  shows "length ms = seats g (db w)" and "w' = w\<lparr>faults := tl (faults w)\<rparr>"
proof -
  let ?row = "\<lambda>m. case find (\<lambda>u. uID u = mUserID m) (users (db w)) of None \<Rightarrow> []
      | Some u \<Rightarrow> [m\<lparr>mEmail := uEmail u, mName := uName u, mTeamID := first_team (db w) m\<rparr>]"
  let ?rows = "sort_key mCreatedAt (filter (\<lambda>m. mOrgID m = g) (org_members (db w)))"
  from assms(1) have ms: "ms = concat (map ?row ?rows)" and w': "w' = w\<lparr>faults := tl (faults w)\<rparr>"
    unfolding ListMembers_def by (auto elim!: run_query_Inr simp del: run_wrap)
  have one: "length (?row m) = 1" if "m \<in> set ?rows" for m
  proof -
    have "mUserID m \<in> keys uID (users (db w))" using that db_ok_members(2) [OF assms(2)] by simp
    then have "find (\<lambda>u. uID u = mUserID m) (users (db w)) \<noteq> None"
      unfolding find_None_iff by auto
    then show ?thesis by auto
  qed
  have len: "length (concat (map ?row xs)) = length xs" if "\<And>m. m \<in> set xs \<Longrightarrow> length (?row m) = 1" for xs
    using that by (induction xs) auto
  have "length (concat (map ?row ?rows)) = length ?rows" by (rule len) (rule one)
  then show "length ms = seats g (db w)" unfolding ms by (simp add: seats_def)
  from w' show "w' = w\<lparr>faults := tl (faults w)\<rparr>" .
qed

lemma seatLimitReached_None:
  assumes "run_state (seatLimitReached (Some ent) g s) w = (None, w')" and "ent g = Inr info"
    and "0 \<le> slLimit info" and "db_ok (db w)"
  shows "int (seats g (db w)) < slLimit info"
  using assms ListMembers_length(1) [of g w]
  by (fastforce simp: seatLimitReached_def Let_def split: prod.splits sum.splits if_splits)

lemma seatLimitReached_db:
  assumes "run_state (seatLimitReached ent g s) w = (x, w')"
  shows "db w' = db w" and "clock w' = clock w"
proof -
  have "db w2 = db w \<and> clock w2 = clock w" if "run_state (ListMembers g) w = (y, w2)" for y w2
    using that by (auto simp: ListMembers_def dest!: query_touch split: prod.splits)
  with assms show "db w' = db w" and "clock w' = clock w"
    by (auto simp: seatLimitReached_def Let_def split: option.splits sum.splits if_splits prod.splits)
qed

text \<open>The state in which a seat is still to be given: the database is well-formed and \<open>n\<close> seats are taken.\<close>

definition seats_are :: "string \<Rightarrow> nat \<Rightarrow> world \<Rightarrow> bool" where
  "seats_are g n = on_db (\<lambda>d. db_ok d \<and> seats g d = n)"

lemma hoare_seatLimit:
  assumes "ent g = Inr info" and "0 \<le> slLimit info"
  shows "hoare (seats_are g n) (seatLimitReached (Some ent) g s)
    (\<lambda>x w. seats_are g n w \<and> (x = None \<longrightarrow> int n < slLimit info))"
proof (rule hoareI)
  fix w x w' assume "seats_are g n w" and run: "run_state (seatLimitReached (Some ent) g s) w = (x, w')"
  then show "seats_are g n w' \<and> (x = None \<longrightarrow> int n < slLimit info)"
    using seatLimitReached_None [of ent g s w w' info] assms seatLimitReached_db(1) [OF run]
    by (auto simp: seats_are_def on_db_def)
qed

lemma keeps_seats:
  assumes "\<And>t d d'. f t d = Inr d' \<Longrightarrow> org_members d' = org_members d" and "keeps (on_db db_ok) (wrap fmt (command f))"
  shows "keeps (seats_are g n) (wrap fmt (command f))"
proof -
  have "keeps (on_db (\<lambda>d. seats g d = n)) (wrap fmt (command f))"
    using assms(1) by (intro keeps_wrap keeps_command) (auto simp: seats_def)
  with assms(2) show ?thesis
    unfolding seats_are_def by (rule keeps_on_db_conj)
qed

lemma AddMember_seats:
  "hoare (seats_are g n) (AddMember m) (\<lambda>_. on_db (\<lambda>d. seats g d \<le> Suc n))"
  "hoare (seats_are g n) (UpsertMember m) (\<lambda>_. on_db (\<lambda>d. seats g d \<le> Suc n))"
proof -
  have same: "length (filter (\<lambda>m. mOrgID m = g) (update_where P f ms)) = length (filter (\<lambda>m. mOrgID m = g) ms)"
    if "\<And>m. mOrgID (f m) = mOrgID m" for P f ms
    using that by (induction ms) auto
  show "hoare (seats_are g n) (AddMember m) (\<lambda>_. on_db (\<lambda>d. seats g d \<le> Suc n))"
    unfolding AddMember_def
    by (rule hoare_command) (auto simp: seats_are_def on_db_def seats_def split: if_splits)
  show "hoare (seats_are g n) (UpsertMember m) (\<lambda>_. on_db (\<lambda>d. seats g d \<le> Suc n))"
    unfolding UpsertMember_def upsert_member_def
    by (rule hoare_command) (auto simp: seats_are_def on_db_def seats_def same split: if_splits)
qed

lemma keeps_seats_steps:
  "keeps (seats_are g n) (GetUserByEmail e)" "keeps (seats_are g n) (GenerateFromPassword bc pw)"
  "keeps (seats_are g n) newID" "keeps (seats_are g n) (CreateUser u)"
proof -
  show "keeps (seats_are g n) (CreateUser u)"
    unfolding CreateUser_def Let_def
    by (rule keeps_seats) (use keeps_db_CreateUser [of u] in \<open>auto simp: CreateUser_def Let_def split: if_splits\<close>)
qed (unfold seats_are_def, (intro keeps_rules)+)

text \<open>C18. When the billing service answers with a limit, one request to add a member, run without another one between its check and
  its insert, does not take the organisation over the seats of its plan: whatever happens to its statements, the number of members afterwards is at
  most the limit, or what it was. When the service does not answer the check is skipped, as documented; and the check and the insert are two
  statements, so requests that run at the same time can both pass it.\<close>

theorem Add_within_seats:
  assumes "run_state (MemberHandler_Add bc (Some ent) body r) w = (resp, w')" and "db_ok (db w)"
    and "ent (pathValue r ''orgID'') = Inr info" and "0 \<le> slLimit info"
  shows "int (seats (pathValue r ''orgID'') (db w')) \<le>
    max (int (seats (pathValue r ''orgID'') (db w))) (slLimit info)"
proof -
  let ?g = "pathValue r ''orgID''" and ?n = "seats (pathValue r ''orgID'') (db w)"
  let ?I = "seats_are ?g ?n" and ?J = "on_db (\<lambda>d. int (seats ?g d) \<le> max (int ?n) (slLimit info))"
  note steps = keeps_seats_steps [of ?g ?n]
  have IJ: "?I v \<Longrightarrow> ?J v" for v by (simp add: seats_are_def on_db_def)
  have stop: "hoare ?I (ret x) (\<lambda>_. ?J)" for x by (rule hoare_return) (rule IJ)
  have add: "hoare ?I (on_err (AddMember m) (\<lambda>_. ret x)) (\<lambda>_. ?J)" if "int ?n < slLimit info" for m x
  proof -
    have "hoare ?I (AddMember m) (\<lambda>_. ?J)"
      using AddMember_seats(1) by (rule hoare_conseq) (use that in \<open>auto simp: on_db_def\<close>)
    then show ?thesis by (rule hoare_on_err) (auto intro: hoare_return)
  qed
  have seat: "hoare (\<lambda>v. ?I v \<and> (x = None \<longrightarrow> int ?n < slLimit info))
      (case x of None \<Rightarrow> on_err (GenerateFromPassword bc pw) (\<lambda>hash. State_Monad.bind newID (\<lambda>i.
          on_err (CreateUser (u hash i)) (\<lambda>_. on_err (AddMember (m i)) (\<lambda>_. ret (f i hash)))))
       | Some y \<Rightarrow> ret y) (\<lambda>_. ?J)" for x pw u m f
  proof (cases x)
    case None
    have "hoare ?I (on_err (GenerateFromPassword bc pw) (\<lambda>hash. State_Monad.bind newID (\<lambda>i.
        on_err (CreateUser (u hash i)) (\<lambda>_. on_err (AddMember (m i)) (\<lambda>_. ret (f i hash)))))) (\<lambda>_. ?J)"
      if "int ?n < slLimit info"
      by (intro hoare_on_err_keeps hoare_bind [OF steps(3)] steps add that IJ)
    then show ?thesis unfolding None by (auto simp: hoare_def)
  qed (auto intro!: hoare_return IJ)
  have "hoare ?I (MemberHandler_Add bc (Some ent) body r) (\<lambda>_. ?J)"
    unfolding MemberHandler_Add_def Let_def
    by (intro hoare_case_option hoare_if hoare_on_err_keeps hoare_bind [OF hoare_seatLimit [of ent ?g info]]
        stop steps IJ seat assms(3,4))
  from hoareD [OF this _ assms(1)] have "?J w'" by (simp add: seats_are_def on_db_def assms(2))
  then show ?thesis by (simp add: on_db_def)
qed


theorem Add_within_seats_witness:
  "int (seats ''g1'' (db (snd (run_state
      (MemberHandler_Add \<lparr>CompareHashAndPassword = (=), bcryptHash = (\<lambda>_ p. Inr p)\<rparr>
         (Some (\<lambda>_. Inr \<lparr>slLimit = 3, slPlanID = [], slMaxDiagrams = 1, slMaxServices = 1, slMaxMaps = 1,
                            slAssistEnabled = False\<rparr>))
         (Some \<lparr>amrName = ''Cy'', amrEmail = ''cy@acme.io'', amrPassword = ''pw'', amrRole = ''viewer''\<rparr>)
         ex_request) ex_world)))) \<le> 3"
proof -
  have "seats ''g1'' (db ex_world) = 2"
    by (simp add: seats_def ex_db_def ex_rows empty_database_def)
  moreover note Add_within_seats [where bc = "\<lparr>CompareHashAndPassword = (=), bcryptHash = (\<lambda>_ p. Inr p)\<rparr>"
      and ent = "\<lambda>_. Inr \<lparr>slLimit = 3, slPlanID = [], slMaxDiagrams = 1, slMaxServices = 1, slMaxMaps = 1, slAssistEnabled = False\<rparr>"
      and body = "Some \<lparr>amrName = ''Cy'', amrEmail = ''cy@acme.io'', amrPassword = ''pw'', amrRole = ''viewer''\<rparr>"
      and r = ex_request and w = ex_world, OF surjective_pairing]
  ultimately show ?thesis using ex_db_ok by simp
qed

section \<open>Updating and removing members\<close>

definition ex_member_request :: http_request where
  "ex_member_request = ex_request\<lparr>pathValue := (\<lambda>k. if k = ''orgID'' then ''g1'' else ''u2'')\<rparr>"

text \<open>Updating a member reports the new e-mail address but stores the old one: no outcome of the
  handler changes the address of any user, and a successful answer shows the requested address all the
  same. (The login name, which was the address, does change.)\<close>

lemma UpdateMember_email_not_stored:
  assumes "run_state (MemberHandler_UpdateMember (Some req) r) w = (resp, w')"
  shows "map (\<lambda>u. (uID u, uEmail u)) (users (db w')) = map (\<lambda>u. (uID u, uEmail u)) (users (db w)) \<and>
    (rStatus resp = 200 \<longrightarrow> (\<exists>fs. rBody resp = BodyJSON (JObj fs) \<and> (''email'', JStr (umrEmail req)) \<in> set fs))"
proof
  let ?I = "on_db (\<lambda>d. map (\<lambda>u. (uID u, uEmail u)) (users d) = map (\<lambda>u. (uID u, uEmail u)) (users (db w)))"
  have steps: "keeps ?I (UpdateUser u)" "keeps ?I (UpdateMemberRole i g role src)"
      "keeps ?I (RemoveUserFromOrgTeams g i)" "keeps ?I (AddTeamMember tm)" for u i g role src tm
    unfolding UpdateUser_def UpdateMemberRole_def RemoveUserFromOrgTeams_def AddTeamMember_def
    by (intro keeps_wrap keeps_command; auto split: if_splits)+
  have "keeps ?I (MemberHandler_UpdateMember (Some req) r)"
    unfolding MemberHandler_UpdateMember_def by (intro keeps_rules steps)
  from hoareD [OF this _ assms]
  show "map (\<lambda>u. (uID u, uEmail u)) (users (db w')) = map (\<lambda>u. (uID u, uEmail u)) (users (db w))"
    by (simp add: on_db_def)
  show "rStatus resp = 200 \<longrightarrow> (\<exists>fs. rBody resp = BodyJSON (JObj fs) \<and> (''email'', JStr (umrEmail req)) \<in> set fs)"
  proof
    assume "rStatus resp = 200"
    then have ok: "ok_status resp" and "rStatus resp = 200" by (simp_all add: ok_status_def)
    with assms show "\<exists>fs. rBody resp = BodyJSON (JObj fs) \<and> (''email'', JStr (umrEmail req)) \<in> set fs"
      by (auto simp: MemberHandler_UpdateMember_def Let_def JSON_def memberToResponse_def
          elim!: run_on_err_ok [OF _ ok] split: if_splits option.splits)
  qed
qed

lemma UpdateMember_email_not_stored_witness:
  "let (resp, w) = run_state (MemberHandler_UpdateMember
       (Some \<lparr>umrName = ''Bob'', umrEmail = ''rob@acme.io'', umrRole = ''editor'', umrTeamID = []\<rparr>) ex_member_request) ex_world
   in rStatus resp = 200 \<and> map uEmail (users (db w)) = map uEmail (users (db ex_world))"
proof -
  let ?req = "\<lparr>umrName = ''Bob'', umrEmail = ''rob@acme.io'', umrRole = ''editor'', umrTeamID = []\<rparr>"
  obtain resp w where run: "run_state (MemberHandler_UpdateMember (Some ?req) ex_member_request) ex_world = (resp, w)"
    by fastforce
  have "rStatus (fst (run_state (MemberHandler_UpdateMember (Some ?req) ex_member_request) ex_world)) = 200"
    by (simp add: MemberHandler_UpdateMember_def Let_def run_on_err GetUser_def GetUserByEmail_def UpdateUser_def
        UpdateMemberRole_def RemoveUserFromOrgTeams_def ex_member_request_def ex_db_def ex_rows empty_database_def)
  moreover have "map snd (map (\<lambda>u. (uID u, uEmail u)) (users (db w))) = map snd (map (\<lambda>u. (uID u, uEmail u)) (users (db ex_world)))"
    using UpdateMember_email_not_stored [OF run] by (simp only:)
  ultimately show ?thesis using run by (simp add: comp_def)
qed

text \<open>Removing a member takes effect at once: a user who is not an administrator of the server holds
  no scope in the organisation afterwards, and everyone else's scopes, everywhere, are what they were.\<close>

lemma Remove_revokes:
  assumes "run_state (MemberHandler_Remove r) w = (resp, w')" and "rStatus resp = 204"
    and "\<not> server_admin (db w) (pathValue r ''userID'')"
  shows "user_scopes (db w') (pathValue r ''userID'') (pathValue r ''orgID'') = [] \<and>
    (\<forall>i g. (i, g) \<noteq> (pathValue r ''userID'', pathValue r ''orgID'') \<longrightarrow> user_scopes (db w') i g = user_scopes (db w) i g)"
proof -
  let ?i = "pathValue r ''userID''" and ?g = "pathValue r ''orgID''"
  have ok: "ok_status resp" using assms(2) by (simp add: ok_status_def)
  from assms(1) have w': "db w' = db w\<lparr>org_members := delete_where (\<lambda>m. mUserID m = ?i \<and> mOrgID m = ?g) (org_members (db w))\<rparr>"
    unfolding MemberHandler_Remove_def RemoveMember_def
    by (rule run_on_err_ok [OF _ ok]) (auto elim!: run_command_Inr simp del: run_wrap)
  have adm: "server_admin (db w') i = server_admin (db w) i" for i
    by (simp add: w' server_admin_def)
  have other: "find (\<lambda>m. mUserID m = i \<and> mOrgID m = g) (delete_where (\<lambda>m. mUserID m = ?i \<and> mOrgID m = ?g) ms)
      = find (\<lambda>m. mUserID m = i \<and> mOrgID m = g) ms" if "(i, g) \<noteq> (?i, ?g)" for i g and ms :: "org_member list"
    using that by (induction ms) (auto simp: delete_where_def)
  have "user_scopes (db w') i g = user_scopes (db w) i g" if "(i, g) \<noteq> (?i, ?g)" for i g
    unfolding user_scopes_def adm using other [OF that] by (simp add: w')
  moreover have "user_scopes (db w') ?i ?g = []"
    using assms(3) by (simp add: user_scopes_def adm) (simp add: w')
  ultimately show ?thesis by blast
qed

lemma Remove_revokes_witness:
  "user_scopes (db (snd (run_state (MemberHandler_Remove ex_member_request) ex_world))) ''u2'' ''g1'' = []"
proof -
  have p: "pathValue ex_member_request ''orgID'' = ''g1''" "pathValue ex_member_request ''userID'' = ''u2''"
    by (simp_all add: ex_member_request_def)
  have "rStatus (fst (run_state (MemberHandler_Remove ex_member_request) ex_world)) = 204"
    by (simp add: MemberHandler_Remove_def run_on_err RemoveMember_def)
  moreover have "\<not> server_admin (db ex_world) ''u2''"
    by (simp add: server_admin_def ex_db_def ex_rows empty_database_def)
  ultimately show ?thesis
    using Remove_revokes [OF surjective_pairing, of ex_member_request ex_world] unfolding p by blast
qed

end
