(* ===== verification/GoTime.thy ===== *)
theory GoTime
  imports GoLib
begin

text \<open>
  \<open>time.Parse(time.RFC3339, s)\<close>, as the handlers use it. The result is in microseconds since 1970-01-01 UTC, the
  resolution of the \<open>timestamptz\<close> columns that store it. The parser of the standard library follows the
  layout chunk by chunk and is more liberal than the RFC: an hour may have one digit, a fraction of a second
  may follow a comma, and a zone offset may be as large as 24:60.
\<close>

definition digit_value :: "char \<Rightarrow> int" where
  "digit_value c = of_char c - 48"

text \<open>\<open>getnum\<close>: one or two digits, exactly two when \<open>fixed\<close>.\<close>

fun getnum :: "bool \<Rightarrow> string \<Rightarrow> (int \<times> string) option" where
  "getnum fixed [] = None"
| "getnum fixed [c] = (if is_digit c \<and> \<not> fixed then Some (digit_value c, []) else None)"
| "getnum fixed (c # e # s) =
     (if \<not> is_digit c then None
      else if is_digit e then Some (digit_value c * 10 + digit_value e, s)
      else if fixed then None else Some (digit_value c, e # s))"

definition in_range :: "int \<Rightarrow> int \<Rightarrow> (int \<times> string) option \<Rightarrow> (int \<times> string) option" where
  "in_range lo hi r = (case r of None \<Rightarrow> None | Some (n, s) \<Rightarrow> if lo \<le> n \<and> n \<le> hi then Some (n, s) else None)"

definition skip_char :: "char \<Rightarrow> string \<Rightarrow> string option" where
  "skip_char c s = (case s of [] \<Rightarrow> None | x # xs \<Rightarrow> if x = c then Some xs else None)"

definition leap_year :: "int \<Rightarrow> bool" where
  "leap_year y \<longleftrightarrow> y mod 4 = 0 \<and> (y mod 100 \<noteq> 0 \<or> y mod 400 = 0)"

definition days_in :: "int \<Rightarrow> int \<Rightarrow> int" where
  "days_in m y = (if m = 2 then (if leap_year y then 29 else 28) else if m \<in> {4, 6, 9, 11} then 30 else 31)"

text \<open>The number of days from 1970-01-01 to a date of the Gregorian calendar.\<close>

definition days_before_month :: "int \<Rightarrow> int \<Rightarrow> int" where
  "days_before_month m y = sum_list (map (\<lambda>k. days_in (int k) y) [1..<nat m])"

definition days_since_epoch :: "int \<Rightarrow> int \<Rightarrow> int \<Rightarrow> int" where
  "days_since_epoch y m d =
     365 * (y - 1970) + ((y - 1) div 4 - (y - 1) div 100 + (y - 1) div 400 - 477) + days_before_month m y + d - 1"

text \<open>A fraction of a second, if there is one: at most nine digits count, and six are kept.\<close>

definition parse_fraction :: "string \<Rightarrow> int \<times> string" where
  "parse_fraction s =
     (case s of
        c # e # _ \<Rightarrow>
          if c \<in> {CHR ''.'', CHR '',''} \<and> is_digit e then
            let ds = takeWhile is_digit (tl s)
            in (foldl (\<lambda>n x. n * 10 + digit_value x) 0 (take 6 (ds @ replicate 6 CHR ''0'')), drop (length ds) (tl s))
          else (0, s)
      | _ \<Rightarrow> (0, s))"

text \<open>\<open>Z07:00\<close>: the offset in seconds, and nothing may follow.\<close>

definition parse_zone :: "string \<Rightarrow> int option" where
  "parse_zone s =
     (if s = ''Z'' then Some 0
      else case s of
        [sg, h1, h2, c, m1, m2] \<Rightarrow>
          if c \<noteq> CHR '':'' then None
          else case (in_range 0 24 (getnum True [h1, h2]), in_range 0 60 (getnum True [m1, m2])) of
            (Some (h, _), Some (m, _)) \<Rightarrow>
              if sg = CHR ''+'' then Some ((h * 60 + m) * 60)
              else if sg = CHR ''-'' then Some (- ((h * 60 + m) * 60)) else None
          | _ \<Rightarrow> None
      | _ \<Rightarrow> None)"

definition parse_year :: "string \<Rightarrow> (int \<times> string) option" where
  "parse_year s =
     (case (getnum True s, getnum True (drop 2 s)) of
        (Some (a, _), Some (b, rest)) \<Rightarrow> Some (a * 100 + b, rest)
      | _ \<Rightarrow> None)"

definition Parse_RFC3339 :: "string \<Rightarrow> int option" where
  "Parse_RFC3339 s =
     Option.bind (parse_year s) (\<lambda>(year, s).
     Option.bind (skip_char CHR ''-'' s) (\<lambda>s.
     Option.bind (in_range 1 12 (getnum True s)) (\<lambda>(month, s).
     Option.bind (skip_char CHR ''-'' s) (\<lambda>s.
     Option.bind (getnum True s) (\<lambda>(day, s).
     Option.bind (skip_char CHR ''T'' s) (\<lambda>s.
     Option.bind (in_range 0 23 (getnum False s)) (\<lambda>(hour, s).
     Option.bind (skip_char CHR '':'' s) (\<lambda>s.
     Option.bind (in_range 0 59 (getnum True s)) (\<lambda>(mins, s).
     Option.bind (skip_char CHR '':'' s) (\<lambda>s.
     Option.bind (in_range 0 59 (getnum True s)) (\<lambda>(sec, s).
     case parse_fraction s of (usec, s) \<Rightarrow>
     Option.bind (parse_zone s) (\<lambda>offset.
       if 1 \<le> day \<and> day \<le> days_in month year
       then Some ((((days_since_epoch year month day * 24 + hour) * 60 + mins) * 60 + sec - offset) * 1000000 + usec)
       else None))))))))))))"

text \<open>Known instants.\<close>

lemma Parse_RFC3339_examples:
  "Parse_RFC3339 ''1970-01-01T00:00:00Z'' = Some 0"
  "Parse_RFC3339 ''2000-02-29T23:59:59.5+01:00'' = Some 951865199500000"
  "Parse_RFC3339 ''2024-12-31T23:59:59Z'' = Some 1735689599000000"
  "Parse_RFC3339 ''2023-02-29T00:00:00Z'' = None"
  "Parse_RFC3339 ''2024-12-31 23:59:59Z'' = None"
  by code_simp+

end
