(* ===== verification/AccountHandler.thy ===== *)
theory AccountHandler
  imports AuthCommon GoTime Examples
begin

text \<open>
  \<open>internal/api/auth/serviceaccount.go\<close>: service accounts and their API tokens. \<open>has_cache\<close> says whether the
  cache of actors is configured.
\<close>

definition saToJSON :: "service_account \<Rightarrow> json" where
  "saToJSON a = JObj ([(''id'', JStr (saID a)), (''orgId'', JStr (saOrgID a)), (''name'', JStr (saName a))] @
     omit_str ''description'' (saDescription a) @
     [(''scopes'', JArr (map JStr (saScopes a))), (''disabled'', JBool (saDisabled a)), (''isInternal'', JBool (saIsInternal a))] @
     omit_opt ''avatarAssetId'' JStr (saAvatarAssetID a) @ omit_str ''createdBy'' (saCreatedBy a) @
     [(''createdAt'', JTime (saCreatedAt a)), (''updatedAt'', JTime (saUpdatedAt a))])"

text \<open>The field \<open>Hash\<close> has the tag \<open>json:"-"\<close>.\<close>

definition tokenToJSON :: "token \<Rightarrow> json" where
  "tokenToJSON k = JObj ([(''id'', JStr (tkID k)), (''serviceAccountId'', JStr (tkServiceAccountID k)),
     (''name'', JStr (tkName k)), (''prefix'', JStr (tkPrefix k))] @
     omit_opt ''expiresAt'' JTime (tkExpiresAt k) @ omit_opt ''lastUsedAt'' JTime (tkLastUsedAt k) @
     [(''revoked'', JBool (tkRevoked k))] @ omit_str ''createdBy'' (tkCreatedBy k) @
     [(''createdAt'', JTime (tkCreatedAt k))])"

record createServiceAccountRequest =
  csaName :: string
  csaDescription :: string
  csaScopes :: "string list"

record updateServiceAccountRequest =
  usaName :: string
  usaDescription :: string
  usaScopes :: "string list"
  usaDisabled :: bool

fun knownScopes :: "string list \<Rightarrow> string list" where
  "knownScopes [] = []"
| "knownScopes (s # scopes) = (if ValidScope s then s # knownScopes scopes else knownScopes scopes)"

record createTokenRequest =
  ctName :: string
  ctExpiresAt :: "string option"

definition createTokenResponse :: "string \<Rightarrow> string \<Rightarrow> string \<Rightarrow> json" where
  "createTokenResponse i name plaintext = JObj [(''id'', JStr i), (''name'', JStr name), (''token'', JStr plaintext)]"

definition AccountHandler_List :: handler where
  "AccountHandler_List r = on_err (ListServiceAccounts (pathValue r ''orgID'')) (\<lambda>accounts.
     ret (JSON 200 (JObj [(''serviceAccounts'', JArr (map saToJSON accounts))])))"

definition AccountHandler_Create :: "createServiceAccountRequest option \<Rightarrow> handler" where
  "AccountHandler_Create body r =
     (let orgID = pathValue r ''orgID'' in
      case body of
        None \<Rightarrow> ret (BadRequest (JStr ''invalid JSON''))
      | Some req \<Rightarrow>
          if csaName req = [] then ret (BadRequest (JStr ''name is required''))
          else State_Monad.bind uuid_NewString (\<lambda>i.
            let sa = \<lparr>saID = i, saOrgID = orgID, saName = csaName req, saDescription = csaDescription req,
                      saScopes = knownScopes (csaScopes req), saDisabled = False, saIsInternal = False,
                      saAvatarAssetID = None, saCreatedBy = [], saCreatedAt = 0, saUpdatedAt = 0\<rparr> in
            on_err (CreateServiceAccount sa) (\<lambda>_. ret (JSON 201 (saToJSON sa)))))"

definition AccountHandler_Get :: handler where
  "AccountHandler_Get r = on_err (GetServiceAccount (pathValue r ''saID'')) (\<lambda>sa.
     case sa of None \<Rightarrow> ret (Error StoreErrNotFound) | Some a \<Rightarrow> ret (JSON 200 (saToJSON a)))"

definition AccountHandler_Update :: "bool \<Rightarrow> updateServiceAccountRequest option \<Rightarrow> handler" where
  "AccountHandler_Update has_cache body r =
     (let said = pathValue r ''saID'' in
      on_err (GetServiceAccount said) (\<lambda>existing.
        case existing of
          None \<Rightarrow> ret (Error StoreErrNotFound)
        | Some old \<Rightarrow>
            if saIsInternal old then ret Forbidden
            else case body of
              None \<Rightarrow> ret (BadRequest (JStr ''invalid JSON''))
            | Some req \<Rightarrow>
                if usaName req = [] then ret (BadRequest (JStr ''name is required''))
                else
                  let sa = \<lparr>saID = said, saOrgID = [], saName = usaName req, saDescription = usaDescription req,
                            saScopes = knownScopes (usaScopes req), saDisabled = usaDisabled req,
                            saIsInternal = False, saAvatarAssetID = None, saCreatedBy = [], saCreatedAt = 0,
                            saUpdatedAt = 0\<rparr> in
                  on_err (UpdateServiceAccount sa) (\<lambda>_.
                    State_Monad.bind (forget_actor has_cache said) (\<lambda>_. ret NoContent))))"

definition AccountHandler_Delete :: "bool \<Rightarrow> handler" where
  "AccountHandler_Delete has_cache r =
     (let said = pathValue r ''saID'' in
      on_err (GetServiceAccount said) (\<lambda>existing.
        case existing of
          None \<Rightarrow> ret (Error StoreErrNotFound)
        | Some old \<Rightarrow>
            if saIsInternal old then ret Forbidden
            else on_err (DeleteServiceAccount said) (\<lambda>_.
              State_Monad.bind (forget_actor has_cache said) (\<lambda>_. ret NoContent))))"

definition AccountHandler_ListTokens :: handler where
  "AccountHandler_ListTokens r = on_err (ListTokens (pathValue r ''saID'')) (\<lambda>tokens.
     ret (JSON 200 (JObj [(''tokens'', JArr (map tokenToJSON tokens))])))"

definition AccountHandler_CreateToken :: "createTokenRequest option \<Rightarrow> handler" where
  "AccountHandler_CreateToken body r =
     (let said = pathValue r ''saID'' in
      case body of
        None \<Rightarrow> ret (BadRequest (JStr ''invalid JSON''))
      | Some req \<Rightarrow>
          if ctName req = [] then ret (BadRequest (JStr ''name is required''))
          else on_err Generate (\<lambda>(i, plaintext, hash).
            let expiry = (case ctExpiresAt req of
                            None \<Rightarrow> Some None
                          | Some e \<Rightarrow> if e = [] then Some None else map_option Some (Parse_RFC3339 e))
            in case expiry of
                 None \<Rightarrow> ret (BadRequest (JStr ''expiresAt must be an RFC3339 timestamp''))
               | Some exp \<Rightarrow>
                   let tok = \<lparr>tkID = i, tkServiceAccountID = said, tkName = ctName req, tkPrefix = Prefix plaintext,
                              tkHash = hash, tkExpiresAt = exp, tkLastUsedAt = None, tkRevoked = False,
                              tkCreatedBy = [], tkCreatedAt = 0\<rparr> in
                   on_err (CreateToken tok) (\<lambda>_.
                     ret (JSON 201 (createTokenResponse i (ctName req) plaintext)))))"

definition AccountHandler_RevokeToken :: handler where
  "AccountHandler_RevokeToken r = on_err (RevokeToken (pathValue r ''tokenID'')) (\<lambda>_. ret NoContent)"

definition AccountHandler_ListScopes :: handler where
  "AccountHandler_ListScopes r = ret (JSON 200 (JObj [(''scopes'', JArr (map JStr AllScopes))]))"

section \<open>Preservation\<close>

lemma knownScopes_filter: "knownScopes ss = filter ValidScope ss"
  by (induction ss) simp_all

lemma knownScopes_valid [simp]: "list_all ValidScope (knownScopes ss)"
  by (simp add: knownScopes_filter list_all_iff)

context store_contract
begin

lemma keeps_account_handler [keeps_rules]:
  "keeps (on_db I) (AccountHandler_List r)" "keeps (on_db I) (AccountHandler_Create cb r)"
  "keeps (on_db I) (AccountHandler_Get r)" "keeps (on_db I) (AccountHandler_Update c ub r)"
  "keeps (on_db I) (AccountHandler_Delete c r)" "keeps (on_db I) (AccountHandler_ListTokens r)"
  "keeps (on_db I) (AccountHandler_CreateToken tb r)" "keeps (on_db I) (AccountHandler_RevokeToken r)"
  "keeps (on_db I) (AccountHandler_ListScopes r)"
  unfolding AccountHandler_List_def AccountHandler_Create_def AccountHandler_Get_def AccountHandler_Update_def
    AccountHandler_Delete_def AccountHandler_ListTokens_def AccountHandler_CreateToken_def
    AccountHandler_RevokeToken_def AccountHandler_ListScopes_def
  by (intro keeps_rules; simp)+

end

end
