(* ===== verification/TeamHandler.thy ===== *)
theory TeamHandler
  imports AuthCommon Examples
begin

text \<open>\<open>internal/api/auth/team.go\<close>: the teams of an organisation and their members.\<close>

definition teamToResponse :: "team \<Rightarrow> json" where
  "teamToResponse t = JObj ([(''id'', JStr (tID t)), (''orgId'', JStr (tOrgID t)), (''name'', JStr (tName t))] @
     omit_str ''email'' (tEmail t) @ omit_str ''externalId'' (tExternalID t) @
     [(''memberCount'', JInt (int (tMemberCount t))), (''createdAt'', JTime (tCreatedAt t)), (''updatedAt'', JTime (tUpdatedAt t))])"

definition teamMemberResponse :: "team_member \<Rightarrow> json" where
  "teamMemberResponse m = JObj [(''teamId'', JStr (tmTeamID m)), (''userId'', JStr (tmUserID m)),
     (''permission'', JStr (tmPermission m)), (''createdAt'', JTime (tmCreatedAt m))]"

text \<open>The requests to create and to update a team have the same fields.\<close>

record teamRequest =
  trName :: string
  trEmail :: string

record addTeamMemberRequest =
  atmUserID :: string
  atmPermission :: string

definition TeamHandler_List :: handler where
  "TeamHandler_List r = on_err (ListTeams (pathValue r ''orgID'')) (\<lambda>ts.
     ret (JSON 200 (JObj [(''teams'', JArr (map teamToResponse ts))])))"

definition TeamHandler_Create :: "teamRequest option \<Rightarrow> handler" where
  "TeamHandler_Create body r =
     (case body of
        None \<Rightarrow> ret (BadRequest (JStr ''invalid JSON''))
      | Some req \<Rightarrow>
          if trName req = [] then ret (BadRequest (JStr ''name is required''))
          else State_Monad.bind uuid_NewString (\<lambda>i.
            let t = \<lparr>tID = i, tOrgID = pathValue r ''orgID'', tName = trName req, tEmail = trEmail req, tExternalID = [],
                     tMemberCount = 0, tCreatedAt = 0, tUpdatedAt = 0\<rparr> in
            on_err (CreateTeam t) (\<lambda>_. ret (JSON 201 (teamToResponse t)))))"

definition TeamHandler_Get :: handler where
  "TeamHandler_Get r = on_err (GetTeam (pathValue r ''teamID'')) (\<lambda>t.
     case t of None \<Rightarrow> ret (Error StoreErrNotFound) | Some t \<Rightarrow> ret (JSON 200 (teamToResponse t)))"

definition TeamHandler_Update :: "teamRequest option \<Rightarrow> handler" where
  "TeamHandler_Update body r =
     (case body of
        None \<Rightarrow> ret (BadRequest (JStr ''invalid JSON''))
      | Some req \<Rightarrow>
          if trName req = [] then ret (BadRequest (JStr ''name is required''))
          else on_err (GetTeam (pathValue r ''teamID'')) (\<lambda>t.
            case t of
              None \<Rightarrow> ret (Error StoreErrNotFound)
            | Some t \<Rightarrow>
                let t = t\<lparr>tName := trName req, tEmail := trEmail req\<rparr> in
                on_err (UpdateTeam t) (\<lambda>_. ret (JSON 200 (teamToResponse t)))))"

definition TeamHandler_Delete :: handler where
  "TeamHandler_Delete r = on_err (DeleteTeam (pathValue r ''teamID'')) (\<lambda>_. ret NoContent)"

definition TeamHandler_ListMembers :: handler where
  "TeamHandler_ListMembers r = on_err (ListTeamMembers (pathValue r ''teamID'')) (\<lambda>ms.
     ret (JSON 200 (JObj [(''members'', JArr (map teamMemberResponse ms))])))"

definition TeamHandler_AddMember :: "addTeamMemberRequest option \<Rightarrow> handler" where
  "TeamHandler_AddMember body r =
     (case body of
        None \<Rightarrow> ret (BadRequest (JStr ''invalid JSON''))
      | Some req \<Rightarrow>
          if atmUserID req = [] then ret (BadRequest (JStr ''userId is required''))
          else
            let perm = (if atmPermission req = [] then ''member'' else atmPermission req) in
            on_err (AddTeamMember \<lparr>tmTeamID = pathValue r ''teamID'', tmUserID = atmUserID req, tmOrgID = pathValue r ''orgID'',
                      tmPermission = perm, tmCreatedAt = 0, tmUpdatedAt = 0\<rparr>) (\<lambda>_.
              ret \<lparr>rStatus = 201, rBody = NoBody, rCookies = [], rLocation = None\<rparr>))"

definition TeamHandler_RemoveMember :: handler where
  "TeamHandler_RemoveMember r =
     on_err (RemoveTeamMember (pathValue r ''teamID'') (pathValue r ''userID'')) (\<lambda>_. ret NoContent)"

context store_contract
begin

lemma keeps_team_handler [keeps_rules]:
  "keeps (on_db I) (TeamHandler_List r)" "keeps (on_db I) (TeamHandler_Create tb r)" "keeps (on_db I) (TeamHandler_Get r)"
  "keeps (on_db I) (TeamHandler_Update tb r)" "keeps (on_db I) (TeamHandler_Delete r)"
  "keeps (on_db I) (TeamHandler_ListMembers r)" "keeps (on_db I) (TeamHandler_AddMember ab r)"
  "keeps (on_db I) (TeamHandler_RemoveMember r)"
  unfolding TeamHandler_List_def TeamHandler_Create_def TeamHandler_Get_def TeamHandler_Update_def
    TeamHandler_Delete_def TeamHandler_ListMembers_def TeamHandler_AddMember_def TeamHandler_RemoveMember_def
  by (intro keeps_rules)+

end

end
