(* ===== verification/OrgHandler.thy ===== *)
theory OrgHandler
  imports AuthCommon Examples
begin

text \<open>
  \<open>internal/api/auth/org.go\<close>: organisations, as the server administrator and as their members see them.
  \<open>assets\<close> resolves the URL of a logo.
\<close>

type_synonym asset_resolver = "(string \<Rightarrow> string result) option"

definition orgToResponse :: "asset_resolver \<Rightarrow> org \<Rightarrow> json" where
  "orgToResponse assets g = JObj ([(''id'', JStr (oID g)), (''name'', JStr (oName g))] @
     omit_str ''logoUrl'' (avatarURL assets (oLogoAssetID g)) @
     [(''disabled'', JBool (oDisabled g)), (''autoJoin'', JBool (oAutoJoin g)),
      (''createdAt'', JTime (oCreatedAt g)), (''updatedAt'', JTime (oUpdatedAt g))])"

definition orgsJSON :: "asset_resolver \<Rightarrow> org list \<Rightarrow> response" where
  "orgsJSON assets gs = JSON 200 (JObj [(''orgs'', JArr (map (orgToResponse assets) gs))])"

record createOrgRequest =
  corName :: string
  corAutoJoin :: bool

record updateOrgRequest =
  uorName :: "string option"
  uorDisabled :: "bool option"
  uorAutoJoin :: "bool option"

text \<open>The literal \<open>org.Org{ID: ..., Name: ..., AutoJoin: ...}\<close>.\<close>

definition new_org :: "string \<Rightarrow> string \<Rightarrow> bool \<Rightarrow> time \<Rightarrow> org" where
  "new_org i name autoJoin t =
     \<lparr>oID = i, oName = name, oLogoAssetID = None, oDisabled = False, oAutoJoin = autoJoin, oOnboardingDone = False,
      oCreatedAt = t, oUpdatedAt = t\<rparr>"

definition OrgHandler_List :: "asset_resolver \<Rightarrow> handler" where
  "OrgHandler_List assets r = on_err ListOrgs (\<lambda>gs. ret (orgsJSON assets gs))"

definition OrgHandler_ListMine :: "asset_resolver \<Rightarrow> handler" where
  "OrgHandler_ListMine assets r =
     (case ctxPrincipal r of
        None \<Rightarrow> ret Unauthorized
      | Some p \<Rightarrow>
          if pKind p = PrincipalServiceAccount then
            on_err (GetOrg (pOrgID p)) (\<lambda>g. ret (orgsJSON assets (case g of None \<Rightarrow> [] | Some g \<Rightarrow> [g])))
          else if pIsServerAdmin p then on_err ListOrgs (\<lambda>gs. ret (orgsJSON assets gs))
          else on_err (ListOrgsForUser (pUserID p)) (\<lambda>views. ret (orgsJSON assets (map vOrg views))))"

definition OrgHandler_Create :: "asset_resolver \<Rightarrow> createOrgRequest option \<Rightarrow> handler" where
  "OrgHandler_Create assets body r =
     (case ctxPrincipal r of
        None \<Rightarrow> ret Unauthorized
      | Some p \<Rightarrow>
          (case body of
             None \<Rightarrow> ret (BadRequest (JStr ''invalid JSON''))
           | Some req \<Rightarrow>
               if corName req = [] then ret (BadRequest (JStr ''name is required''))
               else State_Monad.bind uuid_NewString (\<lambda>i.
                 let g = new_org i (corName req) (corAutoJoin req) 0 in
                 on_err (CreateOrg g) (\<lambda>_.
                 on_err (if pKind p = PrincipalUser
                         then AddMember (new_member (pUserID p) i RoleAdmin ''manual'')
                         else ret (Inr ())) (\<lambda>_.
                 State_Monad.bind uuid_NewString (\<lambda>j.
                   on_err (CreateServiceAccount (NewSystemServiceAccount j i allScopeStrings)) (\<lambda>_.
                     ret (JSON 201 (orgToResponse assets g)))))))))"

definition OrgHandler_Get :: "asset_resolver \<Rightarrow> handler" where
  "OrgHandler_Get assets r = on_err (GetOrg (pathValue r ''orgID'')) (\<lambda>g.
     case g of None \<Rightarrow> ret (Error StoreErrNotFound) | Some g \<Rightarrow> ret (JSON 200 (orgToResponse assets g)))"

definition OrgHandler_GetMine :: "asset_resolver \<Rightarrow> handler" where
  "OrgHandler_GetMine assets r =
     (case ctxPrincipal r of
        None \<Rightarrow> ret Unauthorized
      | Some p \<Rightarrow>
          let orgID = pathValue r ''orgID'';
              show = on_err (GetOrg orgID) (\<lambda>g.
                case g of None \<Rightarrow> ret (Error StoreErrNotFound) | Some g \<Rightarrow> ret (JSON 200 (orgToResponse assets g)))
          in if pKind p = PrincipalServiceAccount then
               (if pOrgID p \<noteq> orgID then ret Forbidden else show)
             else if \<not> pIsServerAdmin p then
               on_err (GetMember (pUserID p) orgID) (\<lambda>member.
                 if member = None then ret (Error StoreErrNotFound) else show)
             else show)"

definition OrgHandler_Update :: "asset_resolver \<Rightarrow> updateOrgRequest option \<Rightarrow> handler" where
  "OrgHandler_Update assets body r =
     (case body of
        None \<Rightarrow> ret (BadRequest (JStr ''invalid JSON''))
      | Some req \<Rightarrow>
          if uorName req = Some [] then ret (BadRequest (JStr ''name is required''))
          else on_err (GetOrg (pathValue r ''orgID'')) (\<lambda>g.
            case g of
              None \<Rightarrow> ret (Error StoreErrNotFound)
            | Some g \<Rightarrow>
                let g = (case uorName req of None \<Rightarrow> g | Some n \<Rightarrow> g\<lparr>oName := n\<rparr>);
                    g = (case uorDisabled req of None \<Rightarrow> g | Some b \<Rightarrow> g\<lparr>oDisabled := b\<rparr>);
                    g = (case uorAutoJoin req of None \<Rightarrow> g | Some b \<Rightarrow> g\<lparr>oAutoJoin := b\<rparr>)
                in on_err (UpdateOrg g) (\<lambda>_. ret (JSON 200 (orgToResponse assets g)))))"

definition OrgHandler_Delete :: handler where
  "OrgHandler_Delete r = on_err (DeleteOrg (pathValue r ''orgID'')) (\<lambda>_. ret NoContent)"

definition OrgHandler_CompleteOnboarding :: handler where
  "OrgHandler_CompleteOnboarding r =
     on_err (GetOrg (pathValue r ''orgID'')) (\<lambda>g.
       case g of
         None \<Rightarrow> ret (Error StoreErrNotFound)
       | Some _ \<Rightarrow> on_err (SetOnboardingDone (pathValue r ''orgID'')) (\<lambda>_. ret NoContent))"

section \<open>Preservation\<close>

lemma system_scopes_valid [simp]: "list_all ValidScope (saScopes (NewSystemServiceAccount i g allScopeStrings))"
  using AllScopes_valid by (auto simp: NewSystemServiceAccount_def allScopeStrings_def list_all_iff)

context store_contract
begin

lemma keeps_org_handler [keeps_rules]:
  "keeps (on_db I) (OrgHandler_List as r)" "keeps (on_db I) (OrgHandler_ListMine as r)"
  "keeps (on_db I) (OrgHandler_Create as cb r)" "keeps (on_db I) (OrgHandler_Get as r)"
  "keeps (on_db I) (OrgHandler_GetMine as r)" "keeps (on_db I) (OrgHandler_Update as ub r)"
  "keeps (on_db I) (OrgHandler_Delete r)" "keeps (on_db I) (OrgHandler_CompleteOnboarding r)"
  unfolding OrgHandler_List_def OrgHandler_ListMine_def OrgHandler_Create_def OrgHandler_Get_def
    OrgHandler_GetMine_def OrgHandler_Update_def OrgHandler_Delete_def OrgHandler_CompleteOnboarding_def
  by (intro keeps_rules; simp)+

end

end
