(* ===== verification/Base64.thy ===== *)
theory Base64
  imports GoLib
begin

text \<open>
  Package \<open>encoding/base64\<close>: the padded standard encoding (\<open>StdEncoding\<close>) and the unpadded URL encoding
  (\<open>RawURLEncoding\<close>). Decoding skips line breaks and does not look at the unused bits of the last digit.
\<close>

definition std_digit :: "nat \<Rightarrow> char" where
  "std_digit n = (if n = 62 then CHR ''+'' else if n = 63 then CHR ''/'' else b64_digit n)"

fun StdEncode :: "byte list \<Rightarrow> string" where
  "StdEncode [] = []"
| "StdEncode [a] = map std_digit [unat a div 4, (unat a mod 4) * 16] @ ''==''"
| "StdEncode [a, b] =
     map std_digit [unat a div 4, (unat a mod 4) * 16 + unat b div 16, (unat b mod 16) * 4] @ ''=''"
| "StdEncode (a # b # c # bs) =
     map std_digit [unat a div 4, (unat a mod 4) * 16 + unat b div 16, (unat b mod 16) * 4 + unat c div 64,
       unat c mod 64] @ StdEncode bs"

text \<open>The value of a digit; \<open>d62\<close> and \<open>d63\<close> are the two digits in which the alphabets differ.\<close>

definition digit_of :: "char \<Rightarrow> char \<Rightarrow> char \<Rightarrow> nat option" where
  "digit_of d62 d63 c =
     (let n = of_char c :: nat in
      if 65 \<le> n \<and> n \<le> 90 then Some (n - 65)
      else if 97 \<le> n \<and> n \<le> 122 then Some (n - 71)
      else if 48 \<le> n \<and> n \<le> 57 then Some (n + 4)
      else if c = d62 then Some 62 else if c = d63 then Some 63 else None)"

definition byte1 :: "nat \<Rightarrow> nat \<Rightarrow> byte" where "byte1 p q = of_nat (p * 4 + q div 16)"
definition byte2 :: "nat \<Rightarrow> nat \<Rightarrow> byte" where "byte2 q r = of_nat ((q mod 16) * 16 + r div 4)"
definition byte3 :: "nat \<Rightarrow> nat \<Rightarrow> byte" where "byte3 r s = of_nat ((r mod 4) * 64 + s)"

fun decode_digits :: "bool \<Rightarrow> (char \<Rightarrow> nat option) \<Rightarrow> string \<Rightarrow> byte list option" where
  "decode_digits padded val [] = Some []"
| "decode_digits padded val [w] = None"
| "decode_digits padded val [w, x] =
     (if padded then None
      else case (val w, val x) of (Some p, Some q) \<Rightarrow> Some [byte1 p q] | _ \<Rightarrow> None)"
| "decode_digits padded val [w, x, y] =
     (if padded then None
      else case (val w, val x, val y) of (Some p, Some q, Some r) \<Rightarrow> Some [byte1 p q, byte2 q r] | _ \<Rightarrow> None)"
| "decode_digits padded val (w # x # y # z # s) =
     (case (val w, val x) of
        (Some p, Some q) \<Rightarrow>
          if padded \<and> y = CHR ''='' then (if z = CHR ''='' \<and> s = [] then Some [byte1 p q] else None)
          else (case val y of
              None \<Rightarrow> None
            | Some r \<Rightarrow>
                if padded \<and> z = CHR ''='' then (if s = [] then Some [byte1 p q, byte2 q r] else None)
                else (case (val z, decode_digits padded val s) of
                    (Some t, Some bs) \<Rightarrow> Some (byte1 p q # byte2 q r # byte3 r t # bs)
                  | _ \<Rightarrow> None))
      | _ \<Rightarrow> None)"

definition strip_breaks :: "string \<Rightarrow> string" where
  "strip_breaks s = filter (\<lambda>c. of_char c \<noteq> (10 :: nat) \<and> of_char c \<noteq> (13 :: nat)) s"

definition StdDecode :: "string \<Rightarrow> byte list option" where
  "StdDecode s = decode_digits True (digit_of CHR ''+'' CHR ''/'') (strip_breaks s)"

definition RawURLDecode :: "string \<Rightarrow> byte list option" where
  "RawURLDecode s = decode_digits False (digit_of CHR ''-'' CHR ''_'') (strip_breaks s)"

section \<open>Round trips\<close>

lemma of_char_small: "n < 256 \<Longrightarrow> of_char (char_of n :: char) = (n :: nat)"
  by simp

lemma digit_value_64:
  assumes "n < 64"
  shows "d62 = CHR ''+'' \<Longrightarrow> d63 = CHR ''/'' \<Longrightarrow> digit_of d62 d63 (std_digit n) = Some n"
    and "d62 = CHR ''-'' \<Longrightarrow> d63 = CHR ''_'' \<Longrightarrow> digit_of d62 d63 (b64_digit n) = Some n"
    and "of_char (b64_digit n) \<in> {45 :: nat, 95} \<union> {48..57} \<union> {65..90} \<union> {97..122}"
    and "of_char (std_digit n) \<in> {43 :: nat, 47} \<union> {48..57} \<union> {65..90} \<union> {97..122}"
proof -
  consider "n < 26" | "26 \<le> n" "n < 52" | "52 \<le> n" "n < 62" | "n = 62" | "n = 63" using assms by linarith
  note cases = this
  show "d62 = CHR ''+'' \<Longrightarrow> d63 = CHR ''/'' \<Longrightarrow> digit_of d62 d63 (std_digit n) = Some n"
    by (cases rule: cases) (auto simp add: std_digit_def b64_digit_def digit_of_def Let_def)
  show "d62 = CHR ''-'' \<Longrightarrow> d63 = CHR ''_'' \<Longrightarrow> digit_of d62 d63 (b64_digit n) = Some n"
    by (cases rule: cases) (auto simp add: b64_digit_def digit_of_def Let_def)
  show "of_char (b64_digit n) \<in> {45 :: nat, 95} \<union> {48..57} \<union> {65..90} \<union> {97..122}"
    by (cases rule: cases) (auto simp add: b64_digit_def)
  show "of_char (std_digit n) \<in> {43 :: nat, 47} \<union> {48..57} \<union> {65..90} \<union> {97..122}"
    by (cases rule: cases) (auto simp add: std_digit_def b64_digit_def)
qed

lemma std_digit_64 [simp]:
  assumes "n < 64"
  shows "digit_of CHR ''+'' CHR ''/'' (std_digit n) = Some n" "std_digit n \<noteq> CHR ''=''"
    "of_char (std_digit n) \<noteq> (10 :: nat)" "of_char (std_digit n) \<noteq> (13 :: nat)"
proof -
  show "digit_of CHR ''+'' CHR ''/'' (std_digit n) = Some n" using digit_value_64(1) [OF assms] by simp
  note r = digit_value_64(4) [OF assms]
  from r show "of_char (std_digit n) \<noteq> (10 :: nat)" "of_char (std_digit n) \<noteq> (13 :: nat)" by auto
  show "std_digit n \<noteq> CHR ''=''"
  proof
    assume "std_digit n = CHR ''=''"
    with r show False by simp
  qed
qed

lemma b64_digit_64 [simp]:
  assumes "n < 64"
  shows "digit_of CHR ''-'' CHR ''_'' (b64_digit n) = Some n"
    "of_char (b64_digit n) \<noteq> (10 :: nat)" "of_char (b64_digit n) \<noteq> (13 :: nat)"
proof -
  show "digit_of CHR ''-'' CHR ''_'' (b64_digit n) = Some n" using digit_value_64(2) [OF assms] by simp
  from digit_value_64(3) [OF assms] show "of_char (b64_digit n) \<noteq> (10 :: nat)" "of_char (b64_digit n) \<noteq> (13 :: nat)"
    by auto
qed

lemma byte_lt [simp]: "unat (a :: byte) < 256"
  using unsigned_less [of a] by simp

lemma digit_parts: "(x :: nat) mod 4 \<le> 3" "x mod 16 \<le> 15" "x mod 64 \<le> 63"
  "x < 256 \<Longrightarrow> x div 4 \<le> 63" "x < 256 \<Longrightarrow> x div 16 \<le> 15" "x < 256 \<Longrightarrow> x div 64 \<le> 3"
proof -
  have "x mod 4 < 4" "x mod 16 < 16" "x mod 64 < 64" by simp_all
  then show "x mod 4 \<le> 3" "x mod 16 \<le> 15" "x mod 64 \<le> 63" by linarith+
  have d: "x div k < l" if "x < l * k" for k l using that by (rule less_mult_imp_div_less)
  show "x < 256 \<Longrightarrow> x div 4 \<le> 63" using d [of 64 4] by simp
  show "x < 256 \<Longrightarrow> x div 16 \<le> 15" using d [of 16 16] by simp
  show "x < 256 \<Longrightarrow> x div 64 \<le> 3" using d [of 4 64] by simp
qed

lemma digit_bounds [simp]:
  "unat (a :: byte) div 4 < 64" "(unat (a :: byte) mod 4) * 16 < 64"
  "(unat (a :: byte) mod 4) * 16 + unat (b :: byte) div 16 < 64" "(unat (b :: byte) mod 16) * 4 < 64"
  "(unat (b :: byte) mod 16) * 4 + unat (c :: byte) div 64 < 64" "unat c mod 64 < 64"
  using digit_parts(4) [of "unat a"] digit_parts(1) [of "unat a"] digit_parts(2,5) [of "unat b"]
    digit_parts(3,6) [of "unat c"] byte_lt [of a] byte_lt [of b] byte_lt [of c]
  by linarith+

lemma bytes_back [simp]:
  "byte1 (unat (a :: byte) div 4) ((unat a mod 4) * 16 + unat (b :: byte) div 16) = a"
  "byte1 (unat a div 4) ((unat a mod 4) * 16) = a"
  "byte2 ((unat a mod 4) * 16 + unat b div 16) ((unat b mod 16) * 4 + unat (c :: byte) div 64) = b"
  "byte2 ((unat a mod 4) * 16 + unat b div 16) ((unat b mod 16) * 4) = b"
  "byte3 ((unat b mod 16) * 4 + unat c div 64) (unat c mod 64) = c"
proof -
  have of: "of_nat m = x" if "m = unat x" for m and x :: byte using that by simp
  have split: "x div d * d + x mod d = x" for x d :: nat by simp
  have high: "(k * d + l) div d = k" if "l < d" for k l d :: nat using that by simp
  have low: "(k * d + l) mod d = l" if "l < d" for k l d :: nat using that by simp
  have small: "unat b div 16 < 16" "unat c div 64 < 4"
    using digit_parts(5) [OF byte_lt, of b] digit_parts(6) [OF byte_lt, of c] by linarith+
  show "byte1 (unat a div 4) ((unat a mod 4) * 16 + unat b div 16) = a"
    unfolding byte1_def high [OF small(1)] by (rule of, rule split)
  show "byte1 (unat a div 4) ((unat a mod 4) * 16) = a"
    unfolding byte1_def by (rule of) simp
  show "byte2 ((unat a mod 4) * 16 + unat b div 16) ((unat b mod 16) * 4 + unat c div 64) = b"
    unfolding byte2_def high [OF small(2)] low [OF small(1)] by (rule of, rule split)
  show "byte2 ((unat a mod 4) * 16 + unat b div 16) ((unat b mod 16) * 4) = b"
    unfolding byte2_def low [OF small(1)] by (rule of) simp
  show "byte3 ((unat b mod 16) * 4 + unat c div 64) (unat c mod 64) = c"
    unfolding byte3_def low [OF small(2)] by (rule of, rule split)
qed

lemma strip_std [simp]: "strip_breaks (StdEncode bs) = StdEncode bs"
  unfolding strip_breaks_def by (induction bs rule: StdEncode.induct) simp_all

lemma strip_url [simp]: "strip_breaks (base64url bs) = base64url bs"
  unfolding strip_breaks_def by (induction bs rule: base64url.induct) simp_all

lemma StdDecode_StdEncode: "StdDecode (StdEncode bs) = Some bs"
proof -
  have "decode_digits True (digit_of CHR ''+'' CHR ''/'') (StdEncode bs) = Some bs"
    by (induction bs rule: StdEncode.induct) (simp_all add: digit_of_def [of _ _ "CHR ''=''"])
  then show ?thesis by (simp add: StdDecode_def)
qed

lemma RawURLDecode_base64url: "RawURLDecode (base64url bs) = Some bs"
proof -
  have "decode_digits False (digit_of CHR ''-'' CHR ''_'') (base64url bs) = Some bs"
    by (induction bs rule: base64url.induct) simp_all
  then show ?thesis by (simp add: RawURLDecode_def)
qed

end
