(* ===== verification/Crypto.thy ===== *)
theory Crypto
  imports Database Base64
begin

text \<open>
  Package \<open>internal/crypto\<close>: the cipher that protects the secrets of identity providers at rest. AES-GCM is
  an argument, \<open>aead\<close>; \<open>aead_ok\<close> is what \<open>crypto/cipher\<close> documents of it: what was sealed opens again under
  the same key and nonce. The theorem shows that a secret survives encryption, encoding and decryption.
\<close>

record aead =
  Seal :: "byte list \<Rightarrow> byte list \<Rightarrow> byte list \<Rightarrow> byte list"
  Open :: "byte list \<Rightarrow> byte list \<Rightarrow> byte list \<Rightarrow> byte list option"

definition NonceSize :: nat where
  "NonceSize = 12"

definition aead_ok :: "aead \<Rightarrow> bool" where
  "aead_ok A \<longleftrightarrow> (\<forall>key nonce p. length nonce = NonceSize \<longrightarrow> Open A key nonce (Seal A key nonce p) = Some p)"

definition bytes_of :: "string \<Rightarrow> byte list" where
  "bytes_of s = map byte_of_char s"

definition string_of :: "byte list \<Rightarrow> string" where
  "string_of bs = map (\<lambda>b. char_of (unat b)) bs"

record cipher =
  cAEAD :: aead
  cKey :: "byte list"

definition NewCipher :: "aead \<Rightarrow> string \<Rightarrow> cipher result" where
  "NewCipher A secret =
     (if secret = [] then Inl (Errorf ''crypto: secret key is empty'' [])
      else Inr \<lparr>cAEAD = A, cKey = Sum256 (bytes_of secret)\<rparr>)"

definition Encrypt :: "cipher \<Rightarrow> string \<Rightarrow> string result prog" where
  "Encrypt c plaintext = State_Monad.bind (rand_Read NonceSize) (\<lambda>r.
     ret (case r of
            None \<Rightarrow> Inl (Errorf ''crypto: read nonce: %w'' [])
          | Some nonce \<Rightarrow> Inr (StdEncode (nonce @ Seal (cAEAD c) (cKey c) nonce (bytes_of plaintext)))))"

definition Decrypt :: "cipher \<Rightarrow> string \<Rightarrow> string result" where
  "Decrypt c encoded =
     (case StdDecode encoded of
        None \<Rightarrow> Inl (Errorf ''crypto: decode: %w'' [])
      | Some raw \<Rightarrow>
          if length raw < NonceSize then Inl (Errorf ''crypto: ciphertext too short'' [])
          else (case Open (cAEAD c) (cKey c) (take NonceSize raw) (drop NonceSize raw) of
              None \<Rightarrow> Inl (Errorf ''crypto: decrypt: %w'' [])
            | Some p \<Rightarrow> Inr (string_of p)))"

lemma keeps_Encrypt [keeps_rules]: "keeps (on_db I) (Encrypt c p)"
  unfolding Encrypt_def by (intro keeps_rules)

lemma string_of_bytes_of [simp]: "string_of (bytes_of s) = s"
proof -
  have "char_of (unat (byte_of_char c)) = c" for c
    by (simp add: byte_of_char_def unat_of_nat)
  then show ?thesis by (simp add: string_of_def bytes_of_def comp_def)
qed

text \<open>A secret that was encrypted decrypts to itself under the same key, for every nonce that the
  source of randomness gives.\<close>

lemma Decrypt_Encrypt:
  assumes "aead_ok (cAEAD c)" and "run_state (Encrypt c plaintext) w = (Inr sealed, w')"
  shows "Decrypt c sealed = Inr plaintext"
proof -
  from assms(2) obtain f where s: "sealed = StdEncode (map f [0..<NonceSize] @
      Seal (cAEAD c) (cKey c) (map f [0..<NonceSize]) (bytes_of plaintext))"
    by (auto simp: Encrypt_def split: option.splits)
  have "Open (cAEAD c) (cKey c) n (Seal (cAEAD c) (cKey c) n (bytes_of plaintext)) = Some (bytes_of plaintext)"
    if "length n = NonceSize" for n
    using assms(1) that by (simp add: aead_ok_def)
  then show ?thesis
    unfolding s by (simp add: Decrypt_def StdDecode_StdEncode)
qed

text \<open>An instance: the sealed text is the plaintext, so opening it gives it back.\<close>

definition plain_aead :: aead where
  "plain_aead = \<lparr>Seal = (\<lambda>_ _ p. p), Open = (\<lambda>_ _ p. Some p)\<rparr>"

end
