(* ===== verification/OAuth.thy ===== *)
theory OAuth
  imports Rolemap Base64
begin

text \<open>
  Package \<open>internal/oauth\<close>: the authorization-code flow. The identity provider is an argument: \<open>remote\<close> gives
  the reply of each of its endpoints (an error of the connection, or the status and the decoded body, \<open>None\<close>
  when the body is not the expected JSON), the JSON decoder of a token's payload, and the host name of a URL.
\<close>

type_synonym claims = "(string \<times> any) list"

record oauth_provider =
  opName :: string
  opClientID :: string
  opClientSecret :: string
  opAuthURL :: string
  opTokenURL :: string
  opUserinfoURL :: string
  opScopes :: string

definition EntraEndpoints :: "string \<Rightarrow> string \<times> string \<times> string" where
  "EntraEndpoints tenantID =
     (let base = ''https://login.microsoftonline.com/'' @ tenantID @ ''/oauth2/v2.0''
      in (base @ ''/authorize'', base @ ''/token'', ''https://graph.microsoft.com/oidc/userinfo''))"

definition OktaEndpoints :: "string \<Rightarrow> string \<times> string \<times> string" where
  "OktaEndpoints dmn =
     (let base = ''https://'' @ dmn @ ''/oauth2/v1'' in (base @ ''/authorize'', base @ ''/token'', base @ ''/userinfo''))"

section \<open>Query strings (net/url)\<close>

definition unreserved :: "char \<Rightarrow> bool" where
  "unreserved c = (let n = of_char c :: nat in
     48 \<le> n \<and> n \<le> 57 \<or> 65 \<le> n \<and> n \<le> 90 \<or> 97 \<le> n \<and> n \<le> 122 \<or> n \<in> {45, 46, 95, 126})"

definition upper_hex :: "nat \<Rightarrow> char" where
  "upper_hex n = (if n < 10 then char_of (48 + n) else char_of (55 + n))"

definition escape_char :: "char \<Rightarrow> string" where
  "escape_char c =
     (if unreserved c then [c]
      else if c = CHR '' '' then ''+''
      else let n = of_char c in [CHR ''%'', upper_hex (n div 16), upper_hex (n mod 16)])"

definition QueryEscape :: "string \<Rightarrow> string" where
  "QueryEscape s = concat (map escape_char s)"

fun join_params :: "(string \<times> string) list \<Rightarrow> string" where
  "join_params [] = []"
| "join_params [(k, v)] = QueryEscape k @ ''='' @ QueryEscape v"
| "join_params ((k, v) # kv # kvs) = QueryEscape k @ ''='' @ QueryEscape v @ ''&'' @ join_params (kv # kvs)"

text \<open>\<open>url.Values.Encode\<close>: in the order of the keys, one value for each.\<close>

definition Values_Encode :: "(string \<times> string) list \<Rightarrow> string" where
  "Values_Encode kvs = join_params (sort_key fst kvs)"

definition AuthCodeURL :: "oauth_provider \<Rightarrow> string \<Rightarrow> string \<Rightarrow> string \<Rightarrow> string" where
  "AuthCodeURL p redirectURI state nonce =
     (let q = [(''client_id'', opClientID p), (''redirect_uri'', redirectURI), (''response_type'', ''code''),
               (''scope'', opScopes p), (''state'', state)];
          q = (if nonce \<noteq> [] then q @ [(''nonce'', nonce)] else q);
          sep = (if Contains (opAuthURL p) ''?'' then ''&'' else ''?'')
      in opAuthURL p @ sep @ Values_Encode q)"

section \<open>The token endpoint\<close>

record token_body =
  tbAccessToken :: string
  tbIDToken :: string
  tbError :: string
  tbErrorDescription :: string

record github_email =
  geEmail :: string
  gePrimary :: bool
  geVerified :: bool

record oauth_token =
  otAccessToken :: string
  otIDToken :: string

record remote =
  tokenReply :: "oauth_provider \<Rightarrow> string \<Rightarrow> string \<Rightarrow> (nat \<times> token_body option) result"
  userinfoReply :: "oauth_provider \<Rightarrow> string \<Rightarrow> (nat \<times> claims option) result"
  emailsReply :: "string \<Rightarrow> (nat \<times> github_email list option) result"
  jsonClaims :: "byte list \<Rightarrow> claims option"
  urlHostname :: "string \<Rightarrow> string option"

definition Exchange :: "remote \<Rightarrow> oauth_provider \<Rightarrow> string \<Rightarrow> string \<Rightarrow> oauth_token result" where
  "Exchange R p code redirectURI =
     (case tokenReply R p code redirectURI of
        Inl e \<Rightarrow> Inl (Wrapf ''oauth: token request: %w'' [] e)
      | Inr (status, body) \<Rightarrow>
          if status \<noteq> 200 then Inl (Errorf ''oauth: token endpoint returned %d: %s'' [])
          else (case body of
              None \<Rightarrow> Inl (Errorf ''oauth: decode token response: %w'' [])
            | Some tok \<Rightarrow>
                if tbAccessToken tok = [] then
                  (if tbError tok \<noteq> []
                   then Inl (Errorf ''oauth: token endpoint error %q: %s'' [tbError tok, tbErrorDescription tok])
                   else Inl (Errorf ''oauth: token response missing access_token'' []))
                else Inr \<lparr>otAccessToken = tbAccessToken tok, otIDToken = tbIDToken tok\<rparr>))"

definition IDTokenClaims :: "remote \<Rightarrow> string \<Rightarrow> claims result" where
  "IDTokenClaims R idToken =
     (case Split idToken CHR ''.'' of
        [_, part, _] \<Rightarrow>
          (case RawURLDecode part of
             None \<Rightarrow> Inl (Errorf ''oauth: decode id_token payload: %w'' [])
           | Some payload \<Rightarrow>
               (case jsonClaims R payload of
                  None \<Rightarrow> Inl (Errorf ''oauth: parse id_token payload: %w'' [])
                | Some cs \<Rightarrow> Inr cs))
      | _ \<Rightarrow> Inl (Errorf ''oauth: id_token is not a JWT'' []))"

definition VerifyNonce :: "claims \<Rightarrow> string \<Rightarrow> error option" where
  "VerifyNonce cs want =
     (if want = [] then Some (Errorf ''oauth: no nonce was issued for this login'' [])
      else case map_of cs ''nonce'' of
        Some (AString got) \<Rightarrow>
          if got = [] then Some (Errorf ''oauth: id_token is missing the nonce claim'' [])
          else if got \<noteq> want then Some (Errorf ''oauth: id_token nonce does not match the login request'' [])
          else None
      | _ \<Rightarrow> Some (Errorf ''oauth: id_token is missing the nonce claim'' []))"

section \<open>User info\<close>

definition isGitHubHost :: "remote \<Rightarrow> string \<Rightarrow> bool" where
  "isGitHubHost R rawURL =
     (case urlHostname R rawURL of
        None \<Rightarrow> False
      | Some h \<Rightarrow> (let host = ToLower h in host = ''api.github.com'' \<or> host = ''github.com''))"

definition fetchGitHubPrimaryEmail :: "remote \<Rightarrow> string \<Rightarrow> string result" where
  "fetchGitHubPrimaryEmail R accessToken =
     (case emailsReply R accessToken of
        Inl e \<Rightarrow> Inl (Wrapf ''oauth: github emails request: %w'' [] e)
      | Inr (status, body) \<Rightarrow>
          if status \<noteq> 200 then Inl (Errorf ''oauth: github emails endpoint returned %d: %s'' [])
          else (case body of
              None \<Rightarrow> Inl (Errorf ''oauth: decode github emails: %w'' [])
            | Some emails \<Rightarrow>
                (case find (\<lambda>e. gePrimary e \<and> geVerified e) emails of
                   Some e \<Rightarrow> Inr (geEmail e)
                 | None \<Rightarrow>
                     (case find geVerified emails of Some e \<Rightarrow> Inr (geEmail e) | None \<Rightarrow> Inr []))))"

text \<open>\<open>claims[key] = v\<close>\<close>

definition set_claim :: "string \<Rightarrow> any \<Rightarrow> claims \<Rightarrow> claims" where
  "set_claim k v cs = (k, v) # filter (\<lambda>(k', _). k' \<noteq> k) cs"

definition claimString :: "claims \<Rightarrow> string \<Rightarrow> string" where
  "claimString cs key = (case map_of cs key of Some (AString v) \<Rightarrow> v | _ \<Rightarrow> [])"

definition FetchUserInfo :: "remote \<Rightarrow> oauth_provider \<Rightarrow> string \<Rightarrow> claims result" where
  "FetchUserInfo R p accessToken =
     (case userinfoReply R p accessToken of
        Inl e \<Rightarrow> Inl (Wrapf ''oauth: userinfo request: %w'' [] e)
      | Inr (status, body) \<Rightarrow>
          if status \<noteq> 200 then Inl (Errorf ''oauth: userinfo endpoint returned %d: %s'' [])
          else (case body of
              None \<Rightarrow> Inl (Errorf ''oauth: decode userinfo response: %w'' [])
            | Some cs \<Rightarrow>
                if isGitHubHost R (opUserinfoURL p) \<and> claimString cs ''email'' = [] then
                  (case fetchGitHubPrimaryEmail R accessToken of
                     Inl e \<Rightarrow> Inl e
                   | Inr email \<Rightarrow> Inr (if email \<noteq> [] then set_claim ''email'' (AString email) cs else cs))
                else Inr cs))"

text \<open>Copying the entries of a map over another.\<close>

definition merge_claims :: "claims \<Rightarrow> claims \<Rightarrow> claims" where
  "merge_claims into new = new @ filter (\<lambda>(k, _). k \<notin> fst ` set new) into"

definition MergedClaims :: "remote \<Rightarrow> oauth_provider \<Rightarrow> oauth_token \<Rightarrow> string \<Rightarrow> claims result" where
  "MergedClaims R p tok nonce =
     (let start =
        (if otIDToken tok \<noteq> [] then
           (case IDTokenClaims R (otIDToken tok) of
              Inl e \<Rightarrow> Inl e
            | Inr idClaims \<Rightarrow>
                (case VerifyNonce idClaims nonce of Some e \<Rightarrow> Inl e | None \<Rightarrow> Inr (merge_claims [] idClaims)))
         else Inr [])
      in case start of
           Inl e \<Rightarrow> Inl e
         | Inr merged \<Rightarrow>
             (case FetchUserInfo R p (otAccessToken tok) of
                Inl e \<Rightarrow> Inl e
              | Inr userinfo \<Rightarrow> Inr (merge_claims merged userinfo)))"

section \<open>Properties\<close>

lemma merge_claims_lookup: "map_of (merge_claims into new) k = (case map_of new k of Some v \<Rightarrow> Some v | None \<Rightarrow> map_of into k)"
proof -
  have "map_of (filter (\<lambda>(k, _). k \<notin> A) into) k = (if k \<in> A then None else map_of into k)" for A
    by (induction into) auto
  moreover have "map_of new k = None \<longleftrightarrow> k \<notin> fst ` set new" by (rule map_of_eq_None_iff)
  ultimately show ?thesis
    unfolding merge_claims_def map_of_append by (auto simp: map_add_def split: option.splits)
qed

text \<open>A login whose token response carries an ID token is accepted only when that token repeats the
  nonce which this login issued; the claims it then yields are those of the user-info endpoint, completed by
  those of the ID token.\<close>

lemma MergedClaims_nonce:
  assumes "MergedClaims R p tok nonce = Inr cs" and "otIDToken tok \<noteq> []"
  shows "\<exists>idc info. IDTokenClaims R (otIDToken tok) = Inr idc \<and> nonce \<noteq> [] \<and> map_of idc ''nonce'' = Some (AString nonce) \<and>
    FetchUserInfo R p (otAccessToken tok) = Inr info \<and>
    (\<forall>k. map_of cs k = (case map_of info k of Some v \<Rightarrow> Some v | None \<Rightarrow> map_of idc k))"
proof -
  from assms obtain idc info where 1: "IDTokenClaims R (otIDToken tok) = Inr idc" "VerifyNonce idc nonce = None"
      "FetchUserInfo R p (otAccessToken tok) = Inr info" and cs: "cs = merge_claims (merge_claims [] idc) info"
    by (auto simp: MergedClaims_def Let_def split: sum.splits option.splits if_splits)
  from 1(2) have "nonce \<noteq> []" "map_of idc ''nonce'' = Some (AString nonce)"
    by (auto simp: VerifyNonce_def split: if_splits option.splits any.splits)
  moreover have "map_of cs k = (case map_of info k of Some v \<Rightarrow> Some v | None \<Rightarrow> map_of idc k)" for k
    unfolding cs by (simp add: merge_claims_lookup split: option.splits)
  ultimately show ?thesis using 1 by blast
qed

lemma MergedClaims_nonce_witness:
  "let p = \<lparr>opName = [], opClientID = [], opClientSecret = [], opAuthURL = [], opTokenURL = [], opUserinfoURL = [], opScopes = []\<rparr>;
       R = \<lparr>tokenReply = (\<lambda>_ _ _. Inl ConnectionLost), userinfoReply = (\<lambda>_ _. Inr (200, Some [])),
            emailsReply = (\<lambda>_. Inl ConnectionLost), jsonClaims = (\<lambda>_. Some [(''nonce'', AString ''n1'')]),
            urlHostname = (\<lambda>_. None)\<rparr>;
       tok = \<lparr>otAccessToken = ''a'', otIDToken = ''h.e30.s''\<rparr>
   in \<exists>idc. MergedClaims R p tok ''n1'' = Inr [(''nonce'', AString ''n1'')] \<and>
        IDTokenClaims R (otIDToken tok) = Inr idc \<and> map_of idc ''nonce'' = Some (AString ''n1'')"
proof -
  let ?p = "\<lparr>opName = [], opClientID = [], opClientSecret = [], opAuthURL = [], opTokenURL = [], opUserinfoURL = [], opScopes = []\<rparr>"
  let ?R = "\<lparr>tokenReply = (\<lambda>_ _ _. Inl ConnectionLost), userinfoReply = (\<lambda>_ _. Inr (200, Some [])),
      emailsReply = (\<lambda>_. Inl ConnectionLost), jsonClaims = (\<lambda>_. Some [(''nonce'', AString ''n1'')]), urlHostname = (\<lambda>_. None)\<rparr>"
  let ?tok = "\<lparr>otAccessToken = ''a'', otIDToken = ''h.e30.s''\<rparr>"
  have "Split ''h.e30.s'' CHR ''.'' = [''h'', ''e30'', ''s'']" by code_simp
  moreover have "RawURLDecode ''e30'' = Some [123, 125]" by code_simp
  ultimately have "MergedClaims ?R ?p ?tok ''n1'' = Inr [(''nonce'', AString ''n1'')]"
    by (simp add: MergedClaims_def IDTokenClaims_def VerifyNonce_def FetchUserInfo_def isGitHubHost_def merge_claims_def)
  then show ?thesis using MergedClaims_nonce [of ?R ?p ?tok "''n1''"] by auto
qed

section \<open>The authorization URL\<close>

text \<open>How the provider reads a query string: split at \<open>&\<close>, each part at the first \<open>=\<close>, both sides
  unescaped.\<close>

definition unhex :: "char \<Rightarrow> nat" where
  "unhex c = (let n = of_char c in if n < 58 then n - 48 else n - 55)"

fun QueryUnescape :: "string \<Rightarrow> string" where
  "QueryUnescape [] = []"
| "QueryUnescape (c # s) =
     (if c = CHR ''%'' then (case s of a # b # s' \<Rightarrow> char_of (unhex a * 16 + unhex b) # QueryUnescape s' | _ \<Rightarrow> [])
      else if c = CHR ''+'' then CHR '' '' # QueryUnescape s
      else c # QueryUnescape s)"

definition parse_query :: "string \<Rightarrow> (string \<times> string) list" where
  "parse_query q = map (\<lambda>part. case Cut part ''='' of (k, v, _) \<Rightarrow> (QueryUnescape k, QueryUnescape v)) (Split q CHR ''&'')"

lemma upper_hex_16: assumes "n < 16" shows "unhex (upper_hex n) = n" "of_char (upper_hex n) \<in> {48 .. 57 :: nat} \<union> {65 .. 70}"
  using assms by (auto simp: unhex_def upper_hex_def Let_def)

lemma reserved_chars: "\<not> unreserved CHR ''%''" "\<not> unreserved CHR ''+''" "\<not> unreserved CHR ''&''" "\<not> unreserved CHR ''=''"
  by (simp_all add: unreserved_def)

lemma unescape_char: "QueryUnescape (escape_char c @ s) = c # QueryUnescape s"
proof (cases "unreserved c \<or> c = CHR '' ''")
  case True
  then show ?thesis using reserved_chars(1,2) by (auto simp: escape_char_def)
next
  case False
  have "of_char c div 16 < (16 :: nat)" and "of_char c mod 16 < (16 :: nat)"
    by (simp_all add: less_mult_imp_div_less)
  then have "char_of (unhex (upper_hex (of_char c div 16)) * 16 + unhex (upper_hex (of_char c mod 16))) = c"
    by (simp only: upper_hex_16 div_mult_mod_eq) simp
  with False show ?thesis by (simp add: escape_char_def Let_def)
qed

lemma QueryUnescape_QueryEscape [simp]: "QueryUnescape (QueryEscape s) = s"
  unfolding QueryEscape_def by (induction s) (simp_all add: unescape_char)

lemma hex_not_separator: "n < 16 \<Longrightarrow> upper_hex n \<noteq> CHR ''&'' \<and> upper_hex n \<noteq> CHR ''=''"
  using upper_hex_16(2) [of n] by auto

lemma QueryEscape_separators [simp]: "CHR ''&'' \<notin> set (QueryEscape s)" "CHR ''='' \<notin> set (QueryEscape s)"
proof -
  have "CHR ''&'' \<notin> set (escape_char c) \<and> CHR ''='' \<notin> set (escape_char c)" for c
    using reserved_chars(3,4) hex_not_separator [of "of_char c div 16"] hex_not_separator [of "of_char c mod 16"]
    by (auto simp: escape_char_def Let_def less_mult_imp_div_less)
  then show "CHR ''&'' \<notin> set (QueryEscape s)" "CHR ''='' \<notin> set (QueryEscape s)"
    by (auto simp: QueryEscape_def)
qed

lemma parse_query_param: "(case Cut (QueryEscape k @ ''='' @ QueryEscape v) ''='' of (a, b, _) \<Rightarrow>
    (QueryUnescape a, QueryUnescape b)) = (k, v)"
  by (simp add: Cut_found)

lemma parse_query_join: "kvs \<noteq> [] \<Longrightarrow> parse_query (join_params kvs) = kvs"
proof (induction kvs rule: join_params.induct)
  case (2 k v)
  have "Split (QueryEscape k @ ''='' @ QueryEscape v) CHR ''&'' = [QueryEscape k @ ''='' @ QueryEscape v]"
    by (rule Split_single) simp
  then show ?case using parse_query_param by (simp add: parse_query_def)
next
  case (3 k v kv kvs)
  have "Split ((QueryEscape k @ ''='' @ QueryEscape v) @ CHR ''&'' # join_params (kv # kvs)) CHR ''&''
      = (QueryEscape k @ ''='' @ QueryEscape v) # Split (join_params (kv # kvs)) CHR ''&''"
    by (rule Split_cons) simp
  then show ?case using 3 parse_query_param [of k v] by (simp add: parse_query_def)
qed simp

text \<open>The authorization URL carries exactly the parameters of the request: reading its query string
  gives back the client, the nonce, the redirect address, the scope and the state, whatever characters they
  contain.\<close>

lemma AuthCodeURL_roundtrip:
  assumes "nonce \<noteq> []"
  shows "parse_query (drop (Suc (length (opAuthURL p))) (AuthCodeURL p redirectURI state nonce)) =
    [(''client_id'', opClientID p), (''nonce'', nonce), (''redirect_uri'', redirectURI), (''response_type'', ''code''),
     (''scope'', opScopes p), (''state'', state)]"
proof -
  let ?q = "[(''client_id'', opClientID p), (''redirect_uri'', redirectURI), (''response_type'', ''code''),
     (''scope'', opScopes p), (''state'', state), (''nonce'', nonce)]"
  have sorted: "sort_key fst ?q = [(''client_id'', opClientID p), (''nonce'', nonce), (''redirect_uri'', redirectURI),
     (''response_type'', ''code''), (''scope'', opScopes p), (''state'', state)]"
    by (simp add: sort_key_simps)
  have "drop (Suc (length (opAuthURL p))) (AuthCodeURL p redirectURI state nonce) = Values_Encode ?q"
    using assms by (simp add: AuthCodeURL_def)
  then show ?thesis unfolding Values_Encode_def sorted by (simp only:) (rule parse_query_join, simp)
qed

lemma AuthCodeURL_roundtrip_witness:
  "parse_query (drop 13 (AuthCodeURL \<lparr>opName = [], opClientID = ''a&b'', opClientSecret = [], opAuthURL = ''https://idp/'',
     opTokenURL = [], opUserinfoURL = [], opScopes = ''openid email''\<rparr> ''https://x/cb?y=z'' ''s='' ''n'')) =
   [(''client_id'', ''a&b''), (''nonce'', ''n''), (''redirect_uri'', ''https://x/cb?y=z''), (''response_type'', ''code''),
    (''scope'', ''openid email''), (''state'', ''s='')]"
  using AuthCodeURL_roundtrip [of "''n''" "\<lparr>opName = [], opClientID = ''a&b'', opClientSecret = [],
      opAuthURL = ''https://idp/'', opTokenURL = [], opUserinfoURL = [], opScopes = ''openid email''\<rparr>"
      "''https://x/cb?y=z''" "''s=''"] by (simp add: numeral_eq_Suc)

end
