(* ===== verification/Saml.thy ===== *)
theory Saml
  imports Http OAuth
begin

text \<open>
  Package \<open>internal/saml\<close>: the service provider's side of SAML. The XML, signature and certificate code of the
  libraries is an argument, \<open>saml_lib\<close>: PEM decoding, the parsing of keys, certificates and URLs, the building
  of an authentication request and the validation of a response. What the package itself does with them (which
  certificates it trusts, when it signs, which request a response may answer, and how attributes are
  collected, and what is taken from a metadata document) is modelled in full.
\<close>

record saml_provider =
  spvIDPEntityID :: string
  spvIDPSSOURL :: string
  spvIDPCert :: string
  spvSPEntityID :: string
  spvSPCert :: string
  spvSPKey :: string
  spvSignRequests :: bool
  spvNameIDFormat :: string

text \<open>The fields of \<open>csaml.ServiceProvider\<close> that the package sets.\<close>

record service_provider =
  svEntityID :: string
  svAcsURL :: string
  svNameIDFormat :: string
  svIDPEntityID :: string
  svIDPCerts :: "string list"
  svIDPSSOURL :: string
  svMetadataURL :: string
  svKeypair :: "(string \<times> string) option"
  svSigns :: bool

record saml_attribute =
  saName' :: string
  saFriendlyName :: string
  saValues :: "string list"

record assertion =
  asNameID :: "string option"
  asStatements :: "saml_attribute list list"

record saml_identity =
  siNameID :: string
  siAttributes :: claims

text \<open>What the package reads of a metadata document: of each identity provider the sign-on services
  (binding and location) and the keys (use and certificates).\<close>

record idp_descriptor =
  idServices :: "(string \<times> string) list"
  idKeys :: "(string \<times> string list) list"

record entity_descriptor =
  edEntityID :: string
  edIDPs :: "idp_descriptor list"

record metadata =
  mdEntityID :: string
  mdSSOURL :: string
  mdCert :: string

record saml_lib =
  pemDecode :: "string \<Rightarrow> (byte list \<times> string) option"
  parsesURL :: "string \<Rightarrow> bool"
  parsePKCS1 :: "byte list \<Rightarrow> bool"
  parsePKCS8 :: "byte list \<Rightarrow> bool option"
  parseCert :: "byte list \<Rightarrow> bool"
  makeRequest :: "byte list option \<Rightarrow> service_provider \<Rightarrow> string \<Rightarrow> string result"
  redirectTo :: "service_provider \<Rightarrow> string \<Rightarrow> string \<Rightarrow> string result"
  parseResponse :: "service_provider \<Rightarrow> http_request \<Rightarrow> string list \<Rightarrow> assertion result"
  xmlMetadata :: "service_provider \<Rightarrow> string result"
  parseMetadataXML :: "string \<Rightarrow> entity_descriptor result"
  fetchMetadata :: "string \<Rightarrow> entity_descriptor result"
  redirectBinding :: string
  pemEncodeCert :: "byte list \<Rightarrow> string"
  generateKeypair :: "byte list option \<Rightarrow> string \<Rightarrow> (string \<times> string) result"

text \<open>\<open>strings.Join(strings.Fields(s), "")\<close>\<close>

definition drop_spaces :: "string \<Rightarrow> string" where
  "drop_spaces s = filter (\<lambda>c. \<not> isSpace c) s"

text \<open>The blocks of a PEM bundle, as base64. The remainder that \<open>pem.Decode\<close> returns is shorter than its
  input, so as many rounds as there are characters are enough.\<close>

fun pem_blocks :: "nat \<Rightarrow> (string \<Rightarrow> (byte list \<times> string) option) \<Rightarrow> string \<Rightarrow> string list" where
  "pem_blocks 0 decode rest = []"
| "pem_blocks (Suc n) decode rest =
     (case decode rest of
        None \<Rightarrow> []
      | Some (block, remainder) \<Rightarrow> StdEncode block # pem_blocks n decode remainder)"

definition normalizeCerts :: "saml_lib \<Rightarrow> string \<Rightarrow> string list result" where
  "normalizeCerts L cert =
     (let cert = TrimSpace cert in
      if cert = [] then Inl (Errorf ''saml: idp certificate is required'' [])
      else
        let out = pem_blocks (Suc (length cert)) (pemDecode L) cert in
        if out \<noteq> [] then Inr out
        else
          let body = drop_spaces cert in
          (case StdDecode body of
             None \<Rightarrow> Inl (Errorf ''saml: idp certificate is neither PEM nor base64: %w'' [])
           | Some _ \<Rightarrow> Inr [body]))"

definition keypair :: "saml_lib \<Rightarrow> string \<Rightarrow> string \<Rightarrow> error option" where
  "keypair L certPEM keyPEM =
     (case pemDecode L keyPEM of
        None \<Rightarrow> Some (Errorf ''saml: sp key is not valid PEM'' [])
      | Some (keyBytes, _) \<Rightarrow>
          let key_err =
            (if parsePKCS1 L keyBytes then None
             else case parsePKCS8 L keyBytes of
               None \<Rightarrow> Some (Errorf ''saml: parse sp key: %w'' [])
             | Some isRSA \<Rightarrow> if isRSA then None else Some (Errorf ''saml: sp key is not an RSA key'' []))
          in case key_err of
               Some e \<Rightarrow> Some e
             | None \<Rightarrow>
                 (case pemDecode L certPEM of
                    None \<Rightarrow> Some (Errorf ''saml: sp certificate is not valid PEM'' [])
                  | Some (certBytes, _) \<Rightarrow>
                      if parseCert L certBytes then None else Some (Errorf ''saml: parse sp certificate: %w'' [])))"

definition serviceProvider :: "saml_lib \<Rightarrow> saml_provider \<Rightarrow> string \<Rightarrow> string \<Rightarrow> service_provider result" where
  "serviceProvider L p acsURL metadataURL =
     (if \<not> parsesURL L acsURL then Inl (Errorf ''saml: parse acs url: %w'' [])
      else case normalizeCerts L (spvIDPCert p) of
        Inl e \<Rightarrow> Inl e
      | Inr certs \<Rightarrow>
          let sp = \<lparr>svEntityID = spvSPEntityID p, svAcsURL = acsURL, svNameIDFormat = spvNameIDFormat p,
                    svIDPEntityID = spvIDPEntityID p, svIDPCerts = certs, svIDPSSOURL = spvIDPSSOURL p,
                    svMetadataURL = [], svKeypair = None, svSigns = False\<rparr> in
          if metadataURL \<noteq> [] \<and> \<not> parsesURL L metadataURL then Inl (Errorf ''saml: parse metadata url: %w'' [])
          else
            let sp = sp\<lparr>svMetadataURL := metadataURL\<rparr> in
            if TrimSpace (spvSPCert p) \<noteq> [] \<and> TrimSpace (spvSPKey p) \<noteq> [] then
              (case keypair L (spvSPCert p) (spvSPKey p) of
                 Some e \<Rightarrow> Inl e
               | None \<Rightarrow> Inr (sp\<lparr>svKeypair := Some (spvSPCert p, spvSPKey p), svSigns := spvSignRequests p\<rparr>))
            else if spvSignRequests p then Inl (Errorf ''saml: signing requests needs an SP certificate and key'' [])
            else Inr sp)"

text \<open>The identifier of the request is random; the library draws it.\<close>

definition AuthnRequest :: "saml_lib \<Rightarrow> saml_provider \<Rightarrow> string \<Rightarrow> string \<Rightarrow> (string \<times> string) result prog" where
  "AuthnRequest L p acsURL relayState =
     (case serviceProvider L p acsURL [] of
        Inl e \<Rightarrow> ret (Inl e)
      | Inr sp \<Rightarrow>
          State_Monad.bind (rand_Read 20) (\<lambda>rnd.
            case makeRequest L rnd sp (spvIDPSSOURL p) of
              Inl e \<Rightarrow> ret (Inl (Wrapf ''saml: build authn request: %w'' [] e))
            | Inr reqID \<Rightarrow>
                (case redirectTo L sp reqID relayState of
                   Inl e \<Rightarrow> ret (Inl (Wrapf ''saml: sign authn request: %w'' [] e))
                 | Inr url \<Rightarrow> ret (Inr (url, reqID)))))"

definition collapse :: "string list \<Rightarrow> any" where
  "collapse values = (case values of [v] \<Rightarrow> AString v | _ \<Rightarrow> AStrings values)"

definition add_attribute :: "saml_attribute \<Rightarrow> claims \<Rightarrow> claims" where
  "add_attribute attr out =
     (let out = (if saName' attr \<noteq> [] then set_claim (saName' attr) (collapse (saValues attr)) out else out)
      in if saFriendlyName attr \<noteq> [] then set_claim (saFriendlyName attr) (collapse (saValues attr)) out else out)"

definition ValidateResponse :: "saml_lib \<Rightarrow> saml_provider \<Rightarrow> string \<Rightarrow> http_request \<Rightarrow> string \<Rightarrow> saml_identity result" where
  "ValidateResponse L p acsURL r expectedRequestID =
     (if expectedRequestID = [] then Inl (Errorf ''saml: no pending authn request for this response'' [])
      else case serviceProvider L p acsURL [] of
        Inl e \<Rightarrow> Inl e
      | Inr sp \<Rightarrow>
          if formValue r = None then Inl (Errorf ''saml: parse acs form: %w'' [])
          else case parseResponse L sp r [expectedRequestID] of
            Inl e \<Rightarrow> Inl (Wrapf ''saml: validate response: %w'' [] e)
          | Inr a \<Rightarrow>
              (case asNameID a of
                 None \<Rightarrow> Inl (Errorf ''saml: assertion has no NameID'' [])
               | Some n \<Rightarrow>
                   if n = [] then Inl (Errorf ''saml: assertion has no NameID'' [])
                   else Inr \<lparr>siNameID = n, siAttributes = fold add_attribute (concat (asStatements a)) []\<rparr>))"

definition SPMetadata :: "saml_lib \<Rightarrow> saml_provider \<Rightarrow> string \<Rightarrow> string \<Rightarrow> string result" where
  "SPMetadata L p acsURL metadataURL =
     (case serviceProvider L p acsURL metadataURL of
        Inl e \<Rightarrow> Inl e
      | Inr sp \<Rightarrow>
          (case xmlMetadata L sp of
             Inl e \<Rightarrow> Inl (Wrapf ''saml: marshal sp metadata: %w'' [] e)
           | Inr out \<Rightarrow> Inr (''<?xml version=\"1.0\" encoding=\"UTF-8\"?>'' @ [char_of (10 :: nat)] @ out)))"

section \<open>Metadata of an identity provider\<close>

definition metadata_sso :: "saml_lib \<Rightarrow> entity_descriptor \<Rightarrow> string" where
  "metadata_sso L ed =
     (case find (\<lambda>(b, l). b = redirectBinding L \<and> l \<noteq> []) (concat (map idServices (edIDPs ed))) of
        None \<Rightarrow> [] | Some (_, l) \<Rightarrow> l)"

text \<open>The certificates of the keys that may sign.\<close>

definition signing_certs :: "entity_descriptor \<Rightarrow> string list" where
  "signing_certs ed =
     concat (map snd (filter (\<lambda>(use, _). use = [] \<or> use = ''signing'') (concat (map idKeys (edIDPs ed)))))"

fun join_certs :: "saml_lib \<Rightarrow> string list \<Rightarrow> string result" where
  "join_certs L [] = Inr []"
| "join_certs L (c # cs) =
     (case StdDecode (drop_spaces c) of
        None \<Rightarrow> Inl (Errorf ''saml: metadata certificate is not base64: %w'' [])
      | Some der \<Rightarrow> (case join_certs L cs of Inl e \<Rightarrow> Inl e | Inr rest \<Rightarrow> Inr (pemEncodeCert L der @ rest)))"

definition ParseMetadata :: "saml_lib \<Rightarrow> string \<Rightarrow> string \<Rightarrow> metadata result" where
  "ParseMetadata L metadataURL metadataXML =
     (let doc =
        (if TrimSpace metadataXML \<noteq> [] then
           (case parseMetadataXML L metadataXML of
              Inl e \<Rightarrow> Inl (Wrapf ''saml: parse metadata document: %w'' [] e) | Inr ed \<Rightarrow> Inr ed)
         else if TrimSpace metadataURL \<noteq> [] then
           (if \<not> parsesURL L metadataURL then Inl (Errorf ''saml: parse metadata url: %w'' [])
            else (case fetchMetadata L metadataURL of
                Inl e \<Rightarrow> Inl (Wrapf ''saml: fetch metadata: %w'' [] e) | Inr ed \<Rightarrow> Inr ed))
         else Inl (Errorf ''saml: a metadata url or document is required'' []))
      in case doc of
           Inl e \<Rightarrow> Inl e
         | Inr ed \<Rightarrow>
             (case join_certs L (signing_certs ed) of
                Inl e \<Rightarrow> Inl e
              | Inr cert \<Rightarrow>
                  if metadata_sso L ed = [] then Inl (Errorf ''saml: metadata has no HTTP-Redirect SSO endpoint'' [])
                  else if cert = [] then Inl (Errorf ''saml: metadata has no signing certificate'' [])
                  else Inr \<lparr>mdEntityID = edEntityID ed, mdSSOURL = metadata_sso L ed, mdCert = cert\<rparr>))"

definition GenerateSPKeypair :: "saml_lib \<Rightarrow> string \<Rightarrow> (string \<times> string) result prog" where
  "GenerateSPKeypair L entityID = State_Monad.bind (rand_Read 256) (\<lambda>rnd. ret (generateKeypair L rnd entityID))"

lemma keeps_GenerateSPKeypair [keeps_rules]: "keeps (on_db I) (GenerateSPKeypair L e)"
  unfolding GenerateSPKeypair_def by (intro keeps_rules)

lemma keeps_AuthnRequest [keeps_rules]: "keeps (on_db I) (AuthnRequest L p a s)"
  unfolding AuthnRequest_def by (intro keeps_rules)

section \<open>Properties\<close>

text \<open>More rounds than characters change nothing when the remainder shrinks.\<close>

lemma pem_blocks_enough:
  assumes "\<And>s b s'. decode s = Some (b, s') \<Longrightarrow> length s' < length s"
  shows "length s < n \<Longrightarrow> length s < m \<Longrightarrow> pem_blocks n decode s = pem_blocks m decode s"
proof (induction n arbitrary: m s)
  case (Suc n)
  then obtain k where m: "m = Suc k" by (cases m) auto
  show ?case
  proof (cases "decode s")
    case (Some x)
    then obtain b s' where x: "decode s = Some (b, s')" by (cases x) auto
    have "length s' < length s" using x by (rule assms)
    then have "pem_blocks n decode s' = pem_blocks k decode s'"
      using Suc.prems m by (intro Suc.IH) auto
    with x m show ?thesis by simp
  qed (simp add: m)
qed simp

text \<open>A SAML response is accepted only as the answer to the one request this login sent: the library
  is asked to match exactly the stored request id, which is not empty, against the certificates configured
  for the provider, and the resulting identity has a name.\<close>

lemma ValidateResponse_bound:
  assumes "ValidateResponse L p acsURL r expected = Inr idn"
  shows "\<exists>sp certs a. expected \<noteq> [] \<and> serviceProvider L p acsURL [] = Inr sp \<and>
    normalizeCerts L (spvIDPCert p) = Inr certs \<and> svIDPCerts sp = certs \<and> certs \<noteq> [] \<and> svAcsURL sp = acsURL \<and>
    parseResponse L sp r [expected] = Inr a \<and> asNameID a = Some (siNameID idn) \<and> siNameID idn \<noteq> []"
proof -
  from assms obtain sp a where 1: "expected \<noteq> []" "serviceProvider L p acsURL [] = Inr sp"
      "parseResponse L sp r [expected] = Inr a" "asNameID a = Some (siNameID idn)" "siNameID idn \<noteq> []"
    by (auto simp: ValidateResponse_def split: if_splits sum.splits option.splits)
  from 1(2) have "normalizeCerts L (spvIDPCert p) = Inr (svIDPCerts sp)" "svAcsURL sp = acsURL"
    by (auto simp: serviceProvider_def Let_def split: if_splits sum.splits option.splits)
  moreover from this(1) have "svIDPCerts sp \<noteq> []"
    by (auto simp: normalizeCerts_def Let_def split: if_splits option.splits)
  ultimately show ?thesis using 1 by blast
qed

definition ex_lib :: saml_lib where
  "ex_lib = \<lparr>pemDecode = (\<lambda>_. None), parsesURL = (\<lambda>_. True), parsePKCS1 = (\<lambda>_. True), parsePKCS8 = (\<lambda>_. None),
     parseCert = (\<lambda>_. True), makeRequest = (\<lambda>_ _ _. Inr ''id-1''), redirectTo = (\<lambda>_ i s. Inr (''https://idp/sso?'' @ s)),
     parseResponse = (\<lambda>_ _ is. if is = [''id-1''] then Inr \<lparr>asNameID = Some ''ann'', asStatements = []\<rparr> else Inl ConnectionLost),
     xmlMetadata = (\<lambda>_. Inr ''<md/>''), parseMetadataXML = (\<lambda>_. Inl ConnectionLost),
     fetchMetadata = (\<lambda>_. Inl ConnectionLost), redirectBinding = ''redirect'', pemEncodeCert = (\<lambda>_. []),
     generateKeypair = (\<lambda>_ _. Inr (''cert'', ''key''))\<rparr>"

definition ex_saml :: saml_provider where
  "ex_saml = \<lparr>spvIDPEntityID = ''idp'', spvIDPSSOURL = ''https://idp/sso'', spvIDPCert = ''MIIB'', spvSPEntityID = ''sp'',
     spvSPCert = [], spvSPKey = [], spvSignRequests = False, spvNameIDFormat = []\<rparr>"

lemma ValidateResponse_bound_witness:
  "\<exists>sp a. parseResponse ex_lib sp \<lparr>hAuthorization = [], hSessionCookie = None, hAPIKey = [], hInternalToken = [], hUserAgent = [],
        hRemoteAddr = [], pathValue = (\<lambda>_. []), queryValue = (\<lambda>_. []), formValue = Some (\<lambda>_. []), ctxPrincipal = None\<rparr> [''id-1''] = Inr a \<and>
     asNameID a = Some ''ann'' \<and> svIDPCerts sp = [''MIIB'']"
proof -
  let ?r = "\<lparr>hAuthorization = [], hSessionCookie = None, hAPIKey = [], hInternalToken = [], hUserAgent = [],
      hRemoteAddr = [], pathValue = (\<lambda>_. []), queryValue = (\<lambda>_. []), formValue = Some (\<lambda>_. []), ctxPrincipal = None\<rparr>"
  have t: "TrimSpace ''MIIB'' = ''MIIB''" "drop_spaces ''MIIB'' = ''MIIB''" by code_simp+
  have d: "StdDecode ''MIIB'' = Some [48, 130, 1]" by code_simp
  have n: "normalizeCerts ex_lib ''MIIB'' = Inr [''MIIB'']"
    by (simp add: normalizeCerts_def t d ex_lib_def)
  have "ValidateResponse ex_lib ex_saml ''https://x/acs'' ?r ''id-1'' = Inr \<lparr>siNameID = ''ann'', siAttributes = []\<rparr>"
    by (simp add: ValidateResponse_def serviceProvider_def ex_saml_def n) (simp add: ex_lib_def TrimSpace_def)
  from ValidateResponse_bound [OF this] show ?thesis using n by (auto simp: ex_saml_def)
qed

end
