(* ===== verification/SessionHandler.thy ===== *)
theory SessionHandler
  imports AuthCommon Crypto Saml Examples
begin

text \<open>
  \<open>internal/api/auth/session.go\<close>: signing in with a password or through an identity provider, signing out,
  and what a signed-in principal sees of itself.

  The record \<open>session_handler\<close> holds the fields of the handler, with \<open>None\<close> for nil, and the functions of
  other packages that it calls: \<open>bcrypt\<close>, the identity providers (\<open>remote\<close>, \<open>saml_lib\<close>), \<open>mail.ParseAddress\<close>
  (the address of a mailbox, or nothing) and \<open>regexp.Compile\<close>.
\<close>

record session_handler =
  shAssets :: "(string \<Rightarrow> string result) option"
  shCipher :: "cipher option"
  shPublicURL :: string
  shFrontendURL :: string
  shCookieDomain :: string
  shEnterprise :: enterprise_client
  shBcrypt :: bcrypt
  shRemote :: remote
  shSaml :: saml_lib
  shParseAddress :: "string \<Rightarrow> string option"
  shCompile :: "string \<Rightarrow> (string \<Rightarrow> bool) option"

definition sessionCookie :: string where
  "sessionCookie = ''uigraph_session''"

definition loginStateTTL :: time where "loginStateTTL = 10 * 60 * 1000000"
definition discoverWindow :: time where "discoverWindow = 15 * 60 * 1000000"
definition discoverLimit :: nat where "discoverLimit = 20"

text \<open>\<open>NewSessionHandler\<close> trims the trailing slashes of the two base URLs.\<close>

definition NewSessionHandler :: "session_handler \<Rightarrow> session_handler" where
  "NewSessionHandler h =
     h\<lparr>shPublicURL := TrimRight (shPublicURL h) CHR ''/'', shFrontendURL := TrimRight (shFrontendURL h) CHR ''/''\<rparr>"

definition frontendBase :: "session_handler \<Rightarrow> string" where
  "frontendBase h = (if shFrontendURL h \<noteq> [] then shFrontendURL h else shPublicURL h)"

section \<open>Helpers\<close>

definition extractBearerToken :: "http_request \<Rightarrow> string" where
  "extractBearerToken r =
     (let auth = hAuthorization r in if length auth > 7 \<and> take 7 auth = ''Bearer '' then drop 7 auth else [])"

definition oidcRedirectURI :: "string \<Rightarrow> string \<Rightarrow> string \<Rightarrow> string" where
  "oidcRedirectURI publicURL orgID slug = publicURL @ ''/api/v1/auth/orgs/'' @ orgID @ ''/callback/'' @ slug"

definition acsURL :: "string \<Rightarrow> string \<Rightarrow> string \<Rightarrow> string" where
  "acsURL publicURL orgID slug = publicURL @ ''/api/v1/auth/orgs/'' @ orgID @ ''/saml/'' @ slug @ ''/acs''"

definition samlMetadataURL :: "string \<Rightarrow> string \<Rightarrow> string \<Rightarrow> string" where
  "samlMetadataURL publicURL orgID slug = publicURL @ ''/api/v1/auth/orgs/'' @ orgID @ ''/saml/'' @ slug @ ''/metadata''"

definition safeRedirect :: "string \<Rightarrow> string" where
  "safeRedirect raw = (if HasPrefix raw ''/'' \<and> \<not> HasPrefix raw ''//'' then raw else ''/'')"

definition claimOr :: "string \<Rightarrow> string \<Rightarrow> string" where
  "claimOr configured fallback = (if configured \<noteq> [] then configured else fallback)"

definition attrString :: "claims \<Rightarrow> string \<Rightarrow> string" where
  "attrString attrs key =
     (case map_of attrs key of
        Some (AString v) \<Rightarrow> v
      | Some (AStrings vs) \<Rightarrow> (case vs of [] \<Rightarrow> [] | v # _ \<Rightarrow> v)
      | _ \<Rightarrow> [])"

definition validEmail :: "(string \<Rightarrow> string option) \<Rightarrow> string \<Rightarrow> string option" where
  "validEmail parseAddress raw =
     (let email = TrimSpace raw in
      case parseAddress email of None \<Rightarrow> None | Some address \<Rightarrow> if address \<noteq> email then None else Some email)"

definition secureCookies :: "session_handler \<Rightarrow> bool" where
  "secureCookies h = HasPrefix (shPublicURL h) ''https://''"

definition setSessionCookie :: "session_handler \<Rightarrow> string \<Rightarrow> time \<Rightarrow> response \<Rightarrow> response" where
  "setSessionCookie h token expires = add_cookie
     \<lparr>ckName = sessionCookie, ckValue = token, ckPath = ''/'', ckDomain = shCookieDomain h, ckExpires = Some expires,
      ckMaxAge = 0, ckHttpOnly = True, ckSecure = secureCookies h, ckSameSite = ''Lax''\<rparr>"

definition clearCookie :: "session_handler \<Rightarrow> string \<Rightarrow> string \<Rightarrow> response \<Rightarrow> response" where
  "clearCookie h name path = add_cookie
     \<lparr>ckName = name, ckValue = [], ckPath = path, ckDomain = shCookieDomain h, ckExpires = None,
      ckMaxAge = -1, ckHttpOnly = True, ckSecure = secureCookies h, ckSameSite = ''Lax''\<rparr>"

definition decrypt_secret :: "session_handler \<Rightarrow> string \<Rightarrow> string result" where
  "decrypt_secret h ciphertext =
     (if ciphertext = [] then Inr []
      else case shCipher h of
        None \<Rightarrow> Inl (Errorf ''auth: no secret key configured, provider secrets cannot be read'' [])
      | Some c \<Rightarrow> Decrypt c ciphertext)"

definition oauthProvider :: "session_handler \<Rightarrow> auth_provider \<Rightarrow> oauth_provider result" where
  "oauthProvider h p =
     (case decrypt_secret h (apClientSecret p) of
        Inl e \<Rightarrow> Inl e
      | Inr secret \<Rightarrow> Inr \<lparr>opName = apDisplayName p, opClientID = apClientID p, opClientSecret = secret,
          opAuthURL = apAuthURL p, opTokenURL = apTokenURL p, opUserinfoURL = apUserinfoURL p, opScopes = apScopes p\<rparr>)"

definition samlProviderFor :: "auth_provider \<Rightarrow> string \<Rightarrow> string \<Rightarrow> saml_provider" where
  "samlProviderFor p publicURL spKey =
     \<lparr>spvIDPEntityID = apIDPEntityID p, spvIDPSSOURL = apIDPSSOURL p, spvIDPCert = apIDPCert p,
      spvSPEntityID = samlMetadataURL publicURL (apOrgID p) (apSlug p), spvSPCert = apSPCert p, spvSPKey = spKey,
      spvSignRequests = apSignRequests p, spvNameIDFormat = apNameIDFormat p\<rparr>"

definition samlProvider :: "session_handler \<Rightarrow> auth_provider \<Rightarrow> saml_provider result" where
  "samlProvider h p =
     (case decrypt_secret h (apSPKey p) of Inl e \<Rightarrow> Inl e | Inr key \<Rightarrow> Inr (samlProviderFor p (shPublicURL h) key))"

text \<open>The three sign-in paths end alike: a fresh token, and a session that stores its hash.\<close>

definition start_session :: "string \<Rightarrow> string \<Rightarrow> http_request \<Rightarrow> (string \<times> session) result prog" where
  "start_session userID provider r =
     bindE generateSessionToken (\<lambda>(plaintext, hash).
       State_Monad.bind newID (\<lambda>i.
       State_Monad.bind now (\<lambda>t.
         let sess = fresh_session i userID hash r t provider in
         bindE (CreateSession sess) (\<lambda>_. ret (Inr (plaintext, sess))))))"

section \<open>Password login\<close>

record loginRequest =
  lrEmail :: string
  lrPassword :: string

definition SessionHandler_Login :: "session_handler \<Rightarrow> loginRequest option \<Rightarrow> handler" where
  "SessionHandler_Login h body r =
     (case body of
        None \<Rightarrow> ret (BadRequest (JStr ''invalid JSON''))
      | Some req \<Rightarrow>
          if lrEmail req = [] \<or> lrPassword req = []
          then ret (BadRequest (JStr ''email and password are required''))
          else on_err (GetUserByEmail (lrEmail req)) (\<lambda>found.
            case found of
              None \<Rightarrow> ret Unauthorized
            | Some u \<Rightarrow>
                if uPasswordHash u = [] then ret Unauthorized
                else if uDisabled u then ret Forbidden
                else if \<not> CompareHashAndPassword (shBcrypt h) (uPasswordHash u) (lrPassword req) then ret Unauthorized
                else on_err (start_session (uID u) [] r) (\<lambda>(plaintext, sess).
                  ret (setSessionCookie h plaintext (sExpiresAt sess)
                    (JSON 200 (JObj ([(''token'', JStr plaintext)] @
                       (if uMustChangePassword u then [(''mustChangePassword'', JBool True)] else []))))))))"

section \<open>Finding an organisation\<close>

definition discoveredOrg :: "session_handler \<Rightarrow> org \<Rightarrow> json" where
  "discoveredOrg h g = JObj ([(''id'', JStr (oID g)), (''name'', JStr (oName g))] @
     omit_str ''logoUrl'' (avatarURL (shAssets h) (oLogoAssetID g)))"

text \<open>The memberships that were not seen yet, in order.\<close>

fun unseen_orgs :: "string list \<Rightarrow> org list \<Rightarrow> org list" where
  "unseen_orgs seen [] = []"
| "unseen_orgs seen (g # gs) =
     (if oID g \<in> set seen then unseen_orgs seen gs else g # unseen_orgs (oID g # seen) gs)"

definition SessionHandler_DiscoverOrgs :: "session_handler \<Rightarrow> string option \<Rightarrow> handler" where
  "SessionHandler_DiscoverOrgs h body r =
     (case body of
        None \<Rightarrow> ret (BadRequest (JStr ''invalid JSON''))
      | Some reqEmail \<Rightarrow>
          let email = ToLower (TrimSpace reqEmail); at = LastIndex email CHR ''@'' in
          if at \<le> 0 \<or> at = int (length email) - 1
          then ret (BadRequest (JStr ''a valid email address is required''))
          else State_Monad.bind now (\<lambda>t.
            on_err (CountLoginAttempts email (t - discoverWindow)) (\<lambda>n.
              if n \<ge> discoverLimit then ret (TooManyRequests (JStr ''too many attempts, try again later''))
              else on_err (RecordLoginAttempt email (hRemoteAddr r)) (\<lambda>_.
                on_err (ListOrgsByDomain (drop (nat at + 1) email)) (\<lambda>byDomain.
                on_err (GetUserByEmail email) (\<lambda>u.
                  on_err (case u of None \<Rightarrow> ret (Inr []) | Some u \<Rightarrow> ListOrgsForUser (uID u)) (\<lambda>memberships.
                    ret (JSON 200 (JObj [(''orgs'', JArr (map (discoveredOrg h)
                      (byDomain @ unseen_orgs (map oID byDomain) (map vOrg memberships))))])))))))))"

definition providerInfo :: "session_handler \<Rightarrow> auth_provider \<Rightarrow> json" where
  "providerInfo h p = JObj [(''id'', JStr (apID p)), (''slug'', JStr (apSlug p)), (''kind'', JStr (apKind p)),
     (''displayName'', JStr (apDisplayName p)), (''iconUrl'', JStr (avatarURL (shAssets h) (Some (apIconAssetID p)))),
     (''loginUrl'', JStr (''/api/v1/auth/orgs/'' @ apOrgID p @ ''/login/'' @ apSlug p))]"

definition SessionHandler_OrgProviders :: "session_handler \<Rightarrow> handler" where
  "SessionHandler_OrgProviders h r =
     on_err (ListEnabledAuthProviders (pathValue r ''orgID'')) (\<lambda>providers.
       ret (JSON 200 (JObj [(''providers'', JArr (map (providerInfo h) providers))])))"

section \<open>Login through an identity provider\<close>

definition loadProvider :: "http_request \<Rightarrow> auth_provider result prog" where
  "loadProvider r =
     bindE (GetAuthProviderBySlug (pathValue r ''orgID'') (pathValue r ''slug'')) (\<lambda>prov.
       ret (case prov of
              None \<Rightarrow> Inl StoreErrNotFound
            | Some p \<Rightarrow> if \<not> apEnabled p then Inl StoreErrNotFound else Inr p))"

text \<open>\<open>Inl resp\<close> when a response has been written.\<close>

definition consumeState :: "http_request \<Rightarrow> string \<Rightarrow> string \<Rightarrow> (response + auth_provider \<times> login_state) prog" where
  "consumeState r state kind =
     (if state = [] then ret (Inl (BadRequest (JStr ''missing login state'')))
      else State_Monad.bind (ConsumeLoginState state) (\<lambda>res.
        case res of
          Inl err \<Rightarrow> ret (Inl (Error err))
        | Inr None \<Rightarrow> ret (Inl (BadRequest (JStr ''login state is unknown or expired'')))
        | Inr (Some ls) \<Rightarrow>
            State_Monad.bind (loadProvider r) (\<lambda>res.
              case res of
                Inl err \<Rightarrow> ret (Inl (Error err))
              | Inr prov \<Rightarrow>
                  if lsProviderID ls \<noteq> apID prov
                  then ret (Inl (BadRequest (JStr ''login state does not belong to this provider'')))
                  else if apKind prov \<noteq> kind
                  then ret (Inl (BadRequest (JStr ''login state does not belong to this provider'')))
                  else ret (Inr (prov, ls)))))"

definition SessionHandler_InitiateLogin :: "session_handler \<Rightarrow> handler" where
  "SessionHandler_InitiateLogin h r =
     on_err (loadProvider r) (\<lambda>prov.
     on_err generateSessionToken (\<lambda>(state, _).
     State_Monad.bind newID (\<lambda>i.
     State_Monad.bind now (\<lambda>t.
       let ls = \<lparr>lsID = i, lsState = state, lsOrgID = apOrgID prov, lsProviderID = apID prov, lsNonce = [],
                 lsSAMLRequestID = [], lsRedirectTo = safeRedirect (queryValue r ''redirect_to''),
                 lsCreatedAt = t, lsExpiresAt = t + loginStateTTL\<rparr> in
       if apKind prov = KindOIDC then
         on_err generateSessionToken (\<lambda>(nonce, _).
           case oauthProvider h prov of
             Inl err \<Rightarrow> ret (Error err)
           | Inr p \<Rightarrow>
               on_err (CreateLoginState (ls\<lparr>lsNonce := nonce\<rparr>)) (\<lambda>_.
                 ret (Redirect (AuthCodeURL p (oidcRedirectURI (shPublicURL h) (apOrgID prov) (apSlug prov)) state nonce))))
       else if apKind prov = KindSAML then
         (case samlProvider h prov of
            Inl err \<Rightarrow> ret (Error err)
          | Inr p \<Rightarrow>
              on_err (AuthnRequest (shSaml h) p (acsURL (shPublicURL h) (apOrgID prov) (apSlug prov)) state) (\<lambda>(url, requestID).
                on_err (CreateLoginState (ls\<lparr>lsSAMLRequestID := requestID\<rparr>)) (\<lambda>_. ret (Redirect url))))
       else ret (Error (Errorf ''auth: provider %s has unknown kind %q'' [apSlug prov, apKind prov]))))))"

record completedAuth =
  caSub :: string
  caEmail :: string
  caName :: string
  caAttributes :: claims

text \<open>The user that a first sign-in creates.\<close>

definition sso_user :: "string \<Rightarrow> completedAuth \<Rightarrow> string \<Rightarrow> user" where
  "sso_user i auth email =
     new_user i email (if caName auth = [] then email else caName auth) [] [] 0"

text \<open>The end of \<open>completeLogin\<close>: the membership, the identity at the provider, the session.\<close>

definition join_and_open ::
  "session_handler \<Rightarrow> auth_provider \<Rightarrow> login_state \<Rightarrow> completedAuth \<Rightarrow> user \<Rightarrow> role \<Rightarrow> handler" where
  "join_and_open h prov ls auth u role r =
     on_err (UpsertMember (new_member (uID u) (apOrgID prov) role ''sso'')) (\<lambda>_.
     on_err (if caSub auth \<noteq> []
             then UpsertAuthIdentity \<lparr>aiUserID = uID u, aiProviderID = apID prov, aiSub = caSub auth\<rparr>
             else ret (Inr ())) (\<lambda>_.
     on_err (start_session (uID u) (apDisplayName prov) r) (\<lambda>(plaintext, sess).
       ret (setSessionCookie h plaintext (sExpiresAt sess) (Redirect (frontendBase h @ lsRedirectTo ls))))))"

text \<open>The part of \<open>completeLogin\<close> after the user is known.\<close>

definition finish_login ::
  "session_handler \<Rightarrow> auth_provider \<Rightarrow> login_state \<Rightarrow> completedAuth \<Rightarrow> user \<Rightarrow> handler" where
  "finish_login h prov ls auth u r =
     (if uDisabled u then ret Forbidden
      else on_err (ListRoleMappings (apID prov)) (\<lambda>rules.
        case Resolve (shCompile h) rules (caAttributes auth) (apDefaultRole prov) of
          Inl err \<Rightarrow> ret (Error err)
        | Inr role \<Rightarrow>
            on_err (GetMember (uID u) (apOrgID prov)) (\<lambda>existingMember.
            State_Monad.bind (if existingMember = None then seatLimitReached (shEnterprise h) (apOrgID prov) 403 else ret None) (\<lambda>limited.
              case limited of
                Some resp \<Rightarrow> ret resp
              | None \<Rightarrow>
                  join_and_open h prov ls auth u role r))))"

definition completeLogin :: "session_handler \<Rightarrow> auth_provider \<Rightarrow> login_state \<Rightarrow> completedAuth \<Rightarrow> handler" where
  "completeLogin h prov ls auth r =
     (if caEmail auth = [] then ret (BadRequest (JStr ''the provider returned no email address''))
      else case validEmail (shParseAddress h) (caEmail auth) of
        None \<Rightarrow> ret (BadRequest (JStr ''the provider returned an invalid email address''))
      | Some email \<Rightarrow>
          if \<not> EmailAllowed prov email then ret Forbidden
          else on_err (GetUserByEmail email) (\<lambda>found.
            case found of
              Some u \<Rightarrow> finish_login h prov ls auth u r
            | None \<Rightarrow>
                if \<not> apAllowSignUp prov then ret Forbidden
                else State_Monad.bind newID (\<lambda>i.
                  let u = sso_user i auth email in
                  on_err (CreateUser u) (\<lambda>_. finish_login h prov ls auth u r))))"

definition SessionHandler_OIDCCallback :: "session_handler \<Rightarrow> handler" where
  "SessionHandler_OIDCCallback h r =
     State_Monad.bind (consumeState r (queryValue r ''state'') KindOIDC) (\<lambda>res.
       case res of
         Inl resp \<Rightarrow> ret resp
       | Inr (prov, ls) \<Rightarrow>
           let code = queryValue r ''code'' in
           if code = [] then ret (BadRequest (JStr ''missing authorization code''))
           else case oauthProvider h prov of
             Inl err \<Rightarrow> ret (Error err)
           | Inr p \<Rightarrow>
               (case Exchange (shRemote h) p code (oidcRedirectURI (shPublicURL h) (apOrgID prov) (apSlug prov)) of
                  Inl err \<Rightarrow> ret (Error err)
                | Inr tok \<Rightarrow>
                    (case MergedClaims (shRemote h) p tok (lsNonce ls) of
                       Inl err \<Rightarrow> ret (Error err)
                     | Inr cs \<Rightarrow>
                         completeLogin h prov ls
                           \<lparr>caSub = claimString cs (claimOr (apSubClaim prov) ''sub''),
                            caEmail = claimString cs (claimOr (apEmailClaim prov) ''email''),
                            caName = claimString cs (claimOr (apNameClaim prov) ''name''), caAttributes = cs\<rparr> r)))"

definition SessionHandler_SAMLACS :: "session_handler \<Rightarrow> handler" where
  "SessionHandler_SAMLACS h r =
     (case formValue r of
        None \<Rightarrow> ret (BadRequest (JStr ''invalid ACS form''))
      | Some form \<Rightarrow>
          State_Monad.bind (consumeState r (form ''RelayState'') KindSAML) (\<lambda>res.
            case res of
              Inl resp \<Rightarrow> ret resp
            | Inr (prov, ls) \<Rightarrow>
                (case samlProvider h prov of
                   Inl err \<Rightarrow> ret (Error err)
                 | Inr p \<Rightarrow>
                     (case ValidateResponse (shSaml h) p (acsURL (shPublicURL h) (apOrgID prov) (apSlug prov)) r (lsSAMLRequestID ls) of
                        Inl err \<Rightarrow> ret (Error err)
                      | Inr idn \<Rightarrow>
                          let email = (if apEmailAttribute prov \<noteq> [] then attrString (siAttributes idn) (apEmailAttribute prov)
                                       else siNameID idn) in
                          if apEmailAttribute prov \<noteq> [] \<and> email = []
                          then ret (BadRequest (JErr (Errorf ''configured email attribute %q was not returned by the SAML provider''
                                 [apEmailAttribute prov])))
                          else completeLogin h prov ls
                            \<lparr>caSub = siNameID idn, caEmail = email,
                             caName = attrString (siAttributes idn) (claimOr (apNameAttribute prov) ''displayName''),
                             caAttributes = siAttributes idn\<rparr> r))))"

definition SessionHandler_SAMLMetadata :: "session_handler \<Rightarrow> handler" where
  "SessionHandler_SAMLMetadata h r =
     on_err (loadProvider r) (\<lambda>prov.
       if apKind prov \<noteq> KindSAML then ret (Error StoreErrNotFound)
       else case samlProvider h prov of
         Inl err \<Rightarrow> ret (Error err)
       | Inr p \<Rightarrow>
           (case SPMetadata (shSaml h) p (acsURL (shPublicURL h) (apOrgID prov) (apSlug prov))
                   (samlMetadataURL (shPublicURL h) (apOrgID prov) (apSlug prov)) of
              Inl err \<Rightarrow> ret (Error err)
            | Inr out \<Rightarrow> ret \<lparr>rStatus = 200, rBody = BodyText out, rCookies = [], rLocation = None\<rparr>))"

section \<open>The signed-in principal\<close>

definition SessionHandler_Logout :: "session_handler \<Rightarrow> handler" where
  "SessionHandler_Logout h r =
     (let bearer = extractBearerToken r;
          token = (if bearer = [] then (case hSessionCookie r of None \<Rightarrow> [] | Some c \<Rightarrow> c) else bearer);
          bye = clearCookie h sessionCookie ''/'' NoContent in
      if token = [] then ret bye
      else State_Monad.bind (GetSessionByToken (Hash token)) (\<lambda>res.
        case res of
          Inr (Some sess) \<Rightarrow> State_Monad.bind (DeleteSession (sID sess)) (\<lambda>_. ret bye)
        | _ \<Rightarrow> ret bye))"

definition meResponse :: "string \<Rightarrow> string \<Rightarrow> string \<Rightarrow> string \<Rightarrow> string \<Rightarrow> string \<Rightarrow> string \<Rightarrow> string \<Rightarrow> string \<Rightarrow> json" where
  "meResponse userID orgID email name login kind role provider avatar =
     JObj ([(''userId'', JStr userID)] @ omit_str ''orgId'' orgID @
       [(''email'', JStr email), (''name'', JStr name), (''login'', JStr login), (''kind'', JStr kind),
        (''role'', JStr role), (''authProvider'', JStr provider)] @ omit_str ''avatarUrl'' avatar)"

definition SessionHandler_Me :: "session_handler \<Rightarrow> handler" where
  "SessionHandler_Me h r =
     (case ctxPrincipal r of
        None \<Rightarrow> ret Unauthorized
      | Some p \<Rightarrow>
          if pKind p = PrincipalServiceAccount then
            on_err (GetServiceAccount (pServiceAccountID p)) (\<lambda>sa.
              case sa of
                None \<Rightarrow> ret (Error StoreErrNotFound)
              | Some a \<Rightarrow> ret (JSON 200 (meResponse (saID a) (saOrgID a) [] (saName a) [] ''service_account'' [] []
                  (avatarURL (shAssets h) (saAvatarAssetID a)))))
          else
            on_err (GetUser (pUserID p)) (\<lambda>found.
              case found of
                None \<Rightarrow> ret (Error StoreErrNotFound)
              | Some u \<Rightarrow> ret (JSON 200 (meResponse (pUserID p) [] (uEmail u) (uName u) (uLogin u) ''user'' (uRole u)
                  (pAuthProvider p) (avatarURL (shAssets h) (uAvatarAssetID u))))))"

definition myOrg :: "session_handler \<Rightarrow> org \<Rightarrow> string \<Rightarrow> bool \<Rightarrow> json" where
  "myOrg h g role onboarded = JObj ([(''id'', JStr (oID g)), (''name'', JStr (oName g))] @
     omit_str ''logoUrl'' (avatarURL (shAssets h) (oLogoAssetID g)) @
     [(''role'', JStr role), (''onboardingDone'', JBool onboarded)])"

definition SessionHandler_MyOrgs :: "session_handler \<Rightarrow> handler" where
  "SessionHandler_MyOrgs h r =
     (case ctxPrincipal r of
        None \<Rightarrow> ret Unauthorized
      | Some p \<Rightarrow>
          if pKind p = PrincipalServiceAccount then
            on_err (GetServiceAccount (pServiceAccountID p)) (\<lambda>sa.
              case sa of
                None \<Rightarrow> ret (Error StoreErrNotFound)
              | Some a \<Rightarrow>
                  on_err (GetOrg (saOrgID a)) (\<lambda>g.
                    case g of
                      None \<Rightarrow> ret (Error StoreErrNotFound)
                    | Some g \<Rightarrow> ret (JSON 200 (JObj [(''orgs'', JArr [myOrg h g [] False])]))))
          else if pIsServerAdmin p then
            on_err ListOrgs (\<lambda>gs.
              ret (JSON 200 (JObj [(''orgs'', JArr (map (\<lambda>g. myOrg h g RoleAdmin (oOnboardingDone g)) gs))])))
          else
            on_err (ListOrgsForUser (pUserID p)) (\<lambda>ms.
              ret (JSON 200 (JObj [(''orgs'', JArr (map (\<lambda>m. myOrg h (vOrg m) (vRole m) (oOnboardingDone (vOrg m))) ms))]))))"

definition SessionHandler_SessionToken :: "session_handler \<Rightarrow> handler" where
  "SessionHandler_SessionToken h r =
     (case ctxPrincipal r of
        None \<Rightarrow> ret Unauthorized
      | Some p \<Rightarrow>
          if pKind p \<noteq> PrincipalUser then ret Unauthorized
          else on_err (start_session (pUserID p) (pAuthProvider p) r) (\<lambda>(plaintext, sess).
            ret (JSON 200 (JObj [(''token'', JStr plaintext), (''expiresAt'', JTime (sExpiresAt sess))]))))"

section \<open>Preservation\<close>

lemma safeRedirect_local [simp]: "local_path (safeRedirect raw)"
  by (simp add: safeRedirect_def local_path_def HasPrefix_def)

lemma keeps_case_prod2 [keeps_rules]:
  "(\<And>a b. keeps I (f a b)) \<Longrightarrow> keeps I (case_prod f x)"
  by (cases x) auto

context store_contract
begin

lemma keeps_start_session [keeps_rules]:
  "keeps (on_db I) (start_session i s r)" "keeps (on_db I) (loadProvider r)" "keeps (on_db I) (consumeState r s k)"
  unfolding start_session_def loadProvider_def consumeState_def Let_def by (intro keeps_rules; simp)+

lemma keeps_finish [keeps_rules]: "keeps (on_db I) (finish_login h prov ls a u r)"
  unfolding finish_login_def join_and_open_def by (intro keeps_rules)

lemma keeps_complete [keeps_rules]: "keeps (on_db I) (completeLogin h prov ls a r)"
  unfolding completeLogin_def by (intro keeps_rules)

lemma keeps_session_handler [keeps_rules]:
  "keeps (on_db I) (SessionHandler_Login h lb r)" "keeps (on_db I) (SessionHandler_DiscoverOrgs h eb r)"
  "keeps (on_db I) (SessionHandler_OrgProviders h r)" "keeps (on_db I) (SessionHandler_InitiateLogin h r)"
  "keeps (on_db I) (SessionHandler_OIDCCallback h r)" "keeps (on_db I) (SessionHandler_SAMLACS h r)"
  "keeps (on_db I) (SessionHandler_SAMLMetadata h r)" "keeps (on_db I) (SessionHandler_Logout h r)"
  "keeps (on_db I) (SessionHandler_Me h r)" "keeps (on_db I) (SessionHandler_MyOrgs h r)"
  "keeps (on_db I) (SessionHandler_SessionToken h r)"
  unfolding SessionHandler_Login_def SessionHandler_DiscoverOrgs_def SessionHandler_OrgProviders_def
    SessionHandler_InitiateLogin_def SessionHandler_OIDCCallback_def SessionHandler_SAMLACS_def
    SessionHandler_SAMLMetadata_def SessionHandler_Logout_def SessionHandler_Me_def SessionHandler_MyOrgs_def
    SessionHandler_SessionToken_def
  by (intro keeps_rules; simp)+

end

end
