(* ===== verification/UserHandler.thy ===== *)
theory UserHandler
  imports OrgHandler SessionHandler
begin

text \<open>
  \<open>internal/api/auth/user.go\<close> (accounts, for server administrators), \<open>avatar.go\<close> (pictures),
  \<open>signup.go\<close> (accounts provisioned by the hosted service) and \<open>internal/bootstrap/bootstrap.go\<close> (the first
  start). \<open>presign\<close> is the object store's signing of upload URLs; deleting an object there has no effect on
  this state.
\<close>

section \<open>User accounts (user.go)\<close>

definition userToResponse :: "asset_resolver \<Rightarrow> user \<Rightarrow> json" where
  "userToResponse assets u = JObj ([(''id'', JStr (uID u)), (''email'', JStr (uEmail u)), (''name'', JStr (uName u)),
     (''login'', JStr (uLogin u)), (''disabled'', JBool (uDisabled u)), (''role'', JStr (uRole u))] @
     omit_str ''avatarUrl'' (avatarURL assets (uAvatarAssetID u)) @ omit_opt ''lastSeenAt'' JTime (uLastSeenAt u) @
     [(''createdAt'', JTime (uCreatedAt u)), (''updatedAt'', JTime (uUpdatedAt u))])"

record createUserRequest =
  curEmail :: string
  curName :: string
  curPassword :: string
  curRole :: string

record updateUserRequest =
  uurName :: string
  uurRole :: string
  uurDisabled :: "bool option"

definition validUserRole :: "string \<Rightarrow> bool" where
  "validUserRole role = (role = ''user'' \<or> role = ''server_admin'')"

definition UserHandler_List :: "asset_resolver \<Rightarrow> handler" where
  "UserHandler_List assets r = on_err ListAllUsers (\<lambda>us.
     ret (JSON 200 (JObj [(''users'', JArr (map (userToResponse assets) us))])))"

definition UserHandler_Create :: "bcrypt \<Rightarrow> asset_resolver \<Rightarrow> createUserRequest option \<Rightarrow> handler" where
  "UserHandler_Create bc assets body r =
     (case body of
        None \<Rightarrow> ret (BadRequest (JStr ''invalid JSON''))
      | Some req \<Rightarrow>
          if curEmail req = [] \<or> curName req = [] \<or> curPassword req = []
          then ret (BadRequest (JStr ''email, name, and password are required''))
          else on_err (GenerateFromPassword bc (curPassword req)) (\<lambda>hash.
            let role = (if curRole req = [] then ''user'' else curRole req) in
            if \<not> validUserRole role then ret (BadRequest (JStr (''role must be 'user' or 'server_admin'' @ [CHR 0x27])))
            else on_err (GetUserByEmail (curEmail req)) (\<lambda>existing.
              if existing \<noteq> None then ret (Error StoreErrConflict)
              else State_Monad.bind now (\<lambda>t. State_Monad.bind newID (\<lambda>i.
                let u = new_user i (curEmail req) (curName req) hash role t in
                on_err (CreateUser u) (\<lambda>_. ret (JSON 201 (userToResponse assets u))))))))"

definition UserHandler_Get :: "asset_resolver \<Rightarrow> handler" where
  "UserHandler_Get assets r = on_err (GetUser (pathValue r ''userID'')) (\<lambda>u.
     case u of None \<Rightarrow> ret (Error StoreErrNotFound) | Some u \<Rightarrow> ret (JSON 200 (userToResponse assets u)))"

definition UserHandler_Update :: "bool \<Rightarrow> asset_resolver \<Rightarrow> updateUserRequest option \<Rightarrow> handler" where
  "UserHandler_Update has_cache assets body r =
     (let userID = pathValue r ''userID'' in
      case body of
        None \<Rightarrow> ret (BadRequest (JStr ''invalid JSON''))
      | Some req \<Rightarrow>
          on_err (GetUser userID) (\<lambda>found.
            case found of
              None \<Rightarrow> ret (Error StoreErrNotFound)
            | Some u \<Rightarrow>
                let u = (if uurName req \<noteq> [] then u\<lparr>uName := uurName req\<rparr> else u) in
                if uurRole req \<noteq> [] \<and> \<not> validUserRole (uurRole req)
                then ret (BadRequest (JStr (''role must be 'user' or 'server_admin'' @ [CHR 0x27])))
                else
                  let u = (if uurRole req \<noteq> [] then u\<lparr>uRole := uurRole req\<rparr> else u);
                      u = (case uurDisabled req of None \<Rightarrow> u | Some b \<Rightarrow> u\<lparr>uDisabled := b\<rparr>) in
                  on_err (UpdateUser u) (\<lambda>_.
                    State_Monad.bind (forget_actor has_cache userID) (\<lambda>_.
                      ret (JSON 200 (userToResponse assets u))))))"

definition generateTemporaryPassword :: "string result prog" where
  "generateTemporaryPassword = State_Monad.bind (rand_Read 18) (\<lambda>b.
     ret (case b of None \<Rightarrow> Inl (Errorf ''crypto/rand'' []) | Some b \<Rightarrow> Inr (base64url b)))"

definition UserHandler_ResetPassword :: "bcrypt \<Rightarrow> bool \<Rightarrow> handler" where
  "UserHandler_ResetPassword bc has_cache r =
     (let userID = pathValue r ''userID'' in
      on_err (GetUser userID) (\<lambda>found.
        case found of
          None \<Rightarrow> ret (Error StoreErrNotFound)
        | Some u \<Rightarrow>
            on_err generateTemporaryPassword (\<lambda>temp.
            on_err (GenerateFromPassword bc temp) (\<lambda>hash.
            on_err (UpdateUser (u\<lparr>uPasswordHash := hash, uMustChangePassword := True\<rparr>)) (\<lambda>_.
              State_Monad.bind (forget_actor has_cache userID) (\<lambda>_.
                ret (JSON 200 (JObj [(''temporaryPassword'', JStr temp)]))))))))"

definition UserHandler_Disable :: "bool \<Rightarrow> handler" where
  "UserHandler_Disable has_cache r =
     on_err (DisableUser (pathValue r ''userID'')) (\<lambda>_.
       State_Monad.bind (forget_actor has_cache (pathValue r ''userID'')) (\<lambda>_. ret NoContent))"

section \<open>Pictures (avatar.go)\<close>

definition UserAvatarAssetID :: "string \<Rightarrow> string" where "UserAvatarAssetID i = ''user_'' @ i"
definition ServiceAccountAvatarAssetID :: "string \<Rightarrow> string" where "ServiceAccountAvatarAssetID i = ''sa_'' @ i"
definition OrgLogoAssetID :: "string \<Rightarrow> string" where "OrgLogoAssetID i = ''org_'' @ i"
definition AssetKey :: "string \<Rightarrow> string" where "AssetKey i = ''assets/'' @ i"
definition AssetURLKey :: "string \<Rightarrow> string" where "AssetURLKey i = ''asset:url:'' @ i"

definition presignUpload :: "(string \<Rightarrow> string result) \<Rightarrow> string \<Rightarrow> response" where
  "presignUpload presign assetID =
     (case presign (AssetKey assetID) of
        Inl err \<Rightarrow> Error err
      | Inr url \<Rightarrow> JSON 200 (JObj [(''assetId'', JStr assetID), (''uploadUrl'', JStr url)]))"

definition bust :: "bool \<Rightarrow> string \<Rightarrow> string \<Rightarrow> unit prog" where
  "bust has_cache actorID assetID =
     (if \<not> has_cache then ret ()
      else State_Monad.bind (cache_Del (ActorKey actorID)) (\<lambda>_. cache_Del (AssetURLKey assetID)))"

definition AvatarHandler_PrepareUserAvatarUpload :: "(string \<Rightarrow> string result) \<Rightarrow> handler" where
  "AvatarHandler_PrepareUserAvatarUpload presign r =
     (case ctxPrincipal r of
        None \<Rightarrow> ret Unauthorized
      | Some p \<Rightarrow> if pKind p \<noteq> PrincipalUser then ret Forbidden
                  else ret (presignUpload presign (UserAvatarAssetID (pUserID p))))"

definition AvatarHandler_PrepareServiceAccountAvatarUpload :: "(string \<Rightarrow> string result) \<Rightarrow> handler" where
  "AvatarHandler_PrepareServiceAccountAvatarUpload presign r =
     on_err (GetServiceAccount (pathValue r ''saID'')) (\<lambda>sa.
       case sa of
         None \<Rightarrow> ret (Error StoreErrNotFound)
       | Some _ \<Rightarrow> ret (presignUpload presign (ServiceAccountAvatarAssetID (pathValue r ''saID''))))"

definition AvatarHandler_PrepareOrgLogoUpload :: "(string \<Rightarrow> string result) \<Rightarrow> handler" where
  "AvatarHandler_PrepareOrgLogoUpload presign r =
     on_err (GetOrg (pathValue r ''orgID'')) (\<lambda>g.
       case g of
         None \<Rightarrow> ret (Error StoreErrNotFound)
       | Some _ \<Rightarrow> ret (presignUpload presign (OrgLogoAssetID (pathValue r ''orgID''))))"

definition AvatarHandler_PutUserAvatar :: "bool \<Rightarrow> handler" where
  "AvatarHandler_PutUserAvatar has_cache r =
     (case ctxPrincipal r of
        None \<Rightarrow> ret Unauthorized
      | Some p \<Rightarrow>
          if pKind p \<noteq> PrincipalUser then ret Forbidden
          else
            let assetID = UserAvatarAssetID (pUserID p) in
            on_err (SetUserAvatar (pUserID p) (Some assetID)) (\<lambda>_.
              State_Monad.bind (bust has_cache (pUserID p) assetID) (\<lambda>_.
                ret (JSON 200 (JObj [(''assetId'', JStr assetID)])))))"

definition AvatarHandler_DeleteUserAvatar :: "bool \<Rightarrow> handler" where
  "AvatarHandler_DeleteUserAvatar has_cache r =
     (case ctxPrincipal r of
        None \<Rightarrow> ret Unauthorized
      | Some p \<Rightarrow>
          if pKind p \<noteq> PrincipalUser then ret Forbidden
          else on_err (SetUserAvatar (pUserID p) None) (\<lambda>_.
            State_Monad.bind (bust has_cache (pUserID p) (UserAvatarAssetID (pUserID p))) (\<lambda>_. ret NoContent)))"

definition AvatarHandler_PutServiceAccountAvatar :: "bool \<Rightarrow> handler" where
  "AvatarHandler_PutServiceAccountAvatar has_cache r =
     (let said = pathValue r ''saID'' in
      on_err (GetServiceAccount said) (\<lambda>sa.
        case sa of
          None \<Rightarrow> ret (Error StoreErrNotFound)
        | Some _ \<Rightarrow>
            let assetID = ServiceAccountAvatarAssetID said in
            on_err (SetServiceAccountAvatar said (Some assetID)) (\<lambda>_.
              State_Monad.bind (bust has_cache said assetID) (\<lambda>_. ret (JSON 200 (JObj [(''assetId'', JStr assetID)]))))))"

definition AvatarHandler_DeleteServiceAccountAvatar :: "bool \<Rightarrow> handler" where
  "AvatarHandler_DeleteServiceAccountAvatar has_cache r =
     (let said = pathValue r ''saID'' in
      on_err (GetServiceAccount said) (\<lambda>sa.
        case sa of
          None \<Rightarrow> ret (Error StoreErrNotFound)
        | Some _ \<Rightarrow>
            on_err (SetServiceAccountAvatar said None) (\<lambda>_.
              State_Monad.bind (bust has_cache said (ServiceAccountAvatarAssetID said)) (\<lambda>_. ret NoContent))))"

definition AvatarHandler_PutOrgLogo :: "bool \<Rightarrow> handler" where
  "AvatarHandler_PutOrgLogo has_cache r =
     (let orgID = pathValue r ''orgID'' in
      on_err (GetOrg orgID) (\<lambda>g.
        case g of
          None \<Rightarrow> ret (Error StoreErrNotFound)
        | Some _ \<Rightarrow>
            let assetID = OrgLogoAssetID orgID in
            on_err (SetOrgLogo orgID (Some assetID)) (\<lambda>_.
              State_Monad.bind (bust has_cache orgID assetID) (\<lambda>_. ret (JSON 200 (JObj [(''assetId'', JStr assetID)]))))))"

definition AvatarHandler_DeleteOrgLogo :: "bool \<Rightarrow> handler" where
  "AvatarHandler_DeleteOrgLogo has_cache r =
     (let orgID = pathValue r ''orgID'' in
      on_err (GetOrg orgID) (\<lambda>g.
        case g of
          None \<Rightarrow> ret (Error StoreErrNotFound)
        | Some _ \<Rightarrow>
            on_err (SetOrgLogo orgID None) (\<lambda>_.
              State_Monad.bind (bust has_cache orgID (OrgLogoAssetID orgID)) (\<lambda>_. ret NoContent))))"

section \<open>Provisioned accounts (signup.go)\<close>

record provisionAccountRequest =
  parEmail :: string
  parPassword :: string
  parName :: string
  parOrgName :: string

definition internal_caller :: "string \<Rightarrow> http_request \<Rightarrow> bool" where
  "internal_caller internalToken r \<longleftrightarrow> internalToken \<noteq> [] \<and> hInternalToken r = internalToken"

definition SignupHandler_ProvisionAccount :: "bcrypt \<Rightarrow> string \<Rightarrow> provisionAccountRequest option \<Rightarrow> handler" where
  "SignupHandler_ProvisionAccount bc internalToken body r =
     (if \<not> internal_caller internalToken r then ret Unauthorized
      else case body of
        None \<Rightarrow> ret (BadRequest (JStr ''invalid JSON''))
      | Some req \<Rightarrow>
          if parEmail req = [] \<or> parPassword req = [] \<or> parName req = [] \<or> parOrgName req = []
          then ret (BadRequest (JStr ''email, password, name, and orgName are required''))
          else on_err (GetUserByEmail (parEmail req)) (\<lambda>existing.
            if existing \<noteq> None then ret (Error StoreErrConflict)
            else on_err (GenerateFromPassword bc (parPassword req)) (\<lambda>hash.
              State_Monad.bind newID (\<lambda>i.
                let u = new_user i (parEmail req) (parName req) hash ''user'' 0 in
                on_err (CreateUser u) (\<lambda>_.
                State_Monad.bind uuid_NewString (\<lambda>j.
                on_err (CreateOrg (new_org j (parOrgName req) False 0)) (\<lambda>_.
                on_err (AddMember (new_member i j RoleAdmin ''manual'')) (\<lambda>_.
                State_Monad.bind uuid_NewString (\<lambda>k.
                on_err (CreateServiceAccount (NewSystemServiceAccount k j allScopeStrings)) (\<lambda>_.
                on_err (start_session i ''password'' r) (\<lambda>(plaintext, sess).
                  ret (JSON 201 (JObj [(''sessionToken'', JStr plaintext), (''expiresAt'', JTime (sExpiresAt sess)),
                    (''userId'', JStr i), (''orgId'', JStr j)])))))))))))))"

definition SignupHandler_LookupAccountByEmail :: "string \<Rightarrow> handler" where
  "SignupHandler_LookupAccountByEmail internalToken r =
     (if \<not> internal_caller internalToken r then ret Unauthorized
      else if queryValue r ''email'' = [] then ret (BadRequest (JStr ''email is required''))
      else on_err (GetUserByEmail (queryValue r ''email'')) (\<lambda>found.
        case found of
          None \<Rightarrow> ret (Error StoreErrNotFound)
        | Some u \<Rightarrow> ret (JSON 200 (JObj [(''userId'', JStr (uID u)), (''name'', JStr (uName u)), (''email'', JStr (uEmail u))]))))"

definition SignupHandler_SetAccountPassword :: "bcrypt \<Rightarrow> string \<Rightarrow> string option \<Rightarrow> handler" where
  "SignupHandler_SetAccountPassword bc internalToken body r =
     (if \<not> internal_caller internalToken r then ret Unauthorized
      else case body of
        None \<Rightarrow> ret (BadRequest (JStr ''invalid JSON''))
      | Some password \<Rightarrow>
          if length password < 8 then ret (BadRequest (JStr ''password must be at least 8 characters''))
          else on_err (GetUser (pathValue r ''userID'')) (\<lambda>found.
            case found of
              None \<Rightarrow> ret (Error StoreErrNotFound)
            | Some u \<Rightarrow>
                on_err (GenerateFromPassword bc password) (\<lambda>hash.
                on_err (UpdateUser (u\<lparr>uPasswordHash := hash, uMustChangePassword := False\<rparr>)) (\<lambda>_.
                  ret NoContent))))"

section \<open>First start (bootstrap.go)\<close>

definition bootstrap_Run :: "bcrypt \<Rightarrow> string \<Rightarrow> string \<Rightarrow> unit result prog" where
  "bootstrap_Run bc adminEmail adminPassword =
     bindE (wrap ''bootstrap: check users: %w'' AnyUserExists) (\<lambda>exists.
       if exists then ret (Inr ())
       else State_Monad.bind now (\<lambda>t. State_Monad.bind uuid_NewString (\<lambda>orgID.
         bindE (wrap ''bootstrap: create default org: %w'' (CreateOrg (new_org orgID ''Main Org'' False t))) (\<lambda>_.
         bindE (wrap ''bootstrap: hash password: %w'' (GenerateFromPassword bc adminPassword)) (\<lambda>hash.
         State_Monad.bind uuid_NewString (\<lambda>userID.
           let login = hd (SplitN2 adminEmail ''@'');
               u = (new_user userID adminEmail ''Admin'' hash ''server_admin'' t)
                     \<lparr>uLogin := login, uMustChangePassword := (adminPassword = ''admin'')\<rparr> in
           bindE (wrap ''bootstrap: create admin user: %w'' (UpsertUser u)) (\<lambda>_.
             wrap ''bootstrap: add admin to org: %w''
               (AddMember ((new_member userID orgID RoleAdmin ''manual'')\<lparr>mCreatedAt := t, mUpdatedAt := t\<rparr>)))))))))"

section \<open>Preservation\<close>

lemma keeps_user_helpers [keeps_rules]:
  "keeps (on_db I) generateTemporaryPassword" "keeps (on_db I) (bust c i j)"
  unfolding generateTemporaryPassword_def bust_def by (intro keeps_rules)+

context store_contract
begin

lemma keeps_user_handler [keeps_rules]:
  "keeps (on_db I) (UserHandler_List as r)" "keeps (on_db I) (UserHandler_Create bc as cb r)"
  "keeps (on_db I) (UserHandler_Get as r)" "keeps (on_db I) (UserHandler_Update c as ub r)"
  "keeps (on_db I) (UserHandler_ResetPassword bc c r)" "keeps (on_db I) (UserHandler_Disable c r)"
  unfolding UserHandler_List_def UserHandler_Create_def UserHandler_Get_def UserHandler_Update_def
    UserHandler_ResetPassword_def UserHandler_Disable_def
  by (intro keeps_rules)+

lemma keeps_avatar_handler [keeps_rules]:
  "keeps (on_db I) (AvatarHandler_PrepareUserAvatarUpload ps r)"
  "keeps (on_db I) (AvatarHandler_PrepareServiceAccountAvatarUpload ps r)"
  "keeps (on_db I) (AvatarHandler_PrepareOrgLogoUpload ps r)" "keeps (on_db I) (AvatarHandler_PutUserAvatar c r)"
  "keeps (on_db I) (AvatarHandler_DeleteUserAvatar c r)" "keeps (on_db I) (AvatarHandler_PutServiceAccountAvatar c r)"
  "keeps (on_db I) (AvatarHandler_DeleteServiceAccountAvatar c r)" "keeps (on_db I) (AvatarHandler_PutOrgLogo c r)"
  "keeps (on_db I) (AvatarHandler_DeleteOrgLogo c r)"
  unfolding AvatarHandler_PrepareUserAvatarUpload_def AvatarHandler_PrepareServiceAccountAvatarUpload_def
    AvatarHandler_PrepareOrgLogoUpload_def AvatarHandler_PutUserAvatar_def AvatarHandler_DeleteUserAvatar_def
    AvatarHandler_PutServiceAccountAvatar_def AvatarHandler_DeleteServiceAccountAvatar_def
    AvatarHandler_PutOrgLogo_def AvatarHandler_DeleteOrgLogo_def
  by (intro keeps_rules)+

lemma keeps_signup_handler [keeps_rules]:
  "keeps (on_db I) (SignupHandler_ProvisionAccount bc tok pb r)" "keeps (on_db I) (SignupHandler_LookupAccountByEmail tok r)"
  "keeps (on_db I) (SignupHandler_SetAccountPassword bc tok sb r)" "keeps (on_db I) (bootstrap_Run bc e pw)"
  unfolding SignupHandler_ProvisionAccount_def SignupHandler_LookupAccountByEmail_def
    SignupHandler_SetAccountPassword_def bootstrap_Run_def
  by (intro keeps_rules; simp)+

end

end
