(* ===== verification/ProviderHandler.thy ===== *)
theory ProviderHandler
  imports SessionHandler
begin

text \<open>
  \<open>internal/api/auth/authprovider.go\<close>: the administration of identity providers, role mappings and domains.
  Secrets are encrypted before they are stored and masked before they are shown.
\<close>

record provider_handler =
  phPresign :: "string \<Rightarrow> string result"
  phAssets :: "(string \<Rightarrow> string result) option"
  phCipher :: "cipher option"
  phPublicURL :: string
  phSaml :: saml_lib
  phCompile :: "string \<Rightarrow> (string \<Rightarrow> bool) option"

definition secretMask :: string where
  "secretMask = ''***''"

record authProviderRequest =
  aprSlug :: string
  aprKind :: string
  aprType :: string
  aprDisplayName :: string
  aprEnabled :: bool
  aprAllowSignUp :: bool
  aprAllowedDomains :: string
  aprDefaultRole :: role
  aprClientID :: string
  aprClientSecret :: string
  aprAuthURL :: string
  aprTokenURL :: string
  aprUserinfoURL :: string
  aprAPIURL :: string
  aprScopes :: string
  aprEmailClaim :: string
  aprNameClaim :: string
  aprSubClaim :: string
  aprGroupsClaim :: string
  aprIDPMetadataURL :: string
  aprIDPMetadataXML :: string
  aprIDPEntityID :: string
  aprIDPSSOURL :: string
  aprIDPCert :: string
  aprSignRequests :: bool
  aprNameIDFormat :: string
  aprEmailAttribute :: string
  aprNameAttribute :: string
  aprGroupsAttribute :: string

record roleMappingRequest =
  rmrPriority :: int
  rmrAttributeKey :: string
  rmrOperator :: string
  rmrAttributeValue :: string
  rmrRole :: role

section \<open>JSON\<close>

definition omit_bool :: "string \<Rightarrow> bool \<Rightarrow> (string \<times> json) list" where
  "omit_bool k b = (if b then [(k, JBool True)] else [])"

text \<open>The field \<open>IconAssetID\<close> has the tag \<open>json:"-"\<close>.\<close>

definition providerToJSON :: "auth_provider \<Rightarrow> json" where
  "providerToJSON p = JObj (
     [(''id'', JStr (apID p)), (''slug'', JStr (apSlug p)), (''orgId'', JStr (apOrgID p)), (''kind'', JStr (apKind p)),
      (''type'', JStr (apType p)), (''displayName'', JStr (apDisplayName p)), (''iconUrl'', JStr (apIconURL p)),
      (''enabled'', JBool (apEnabled p)), (''allowSignUp'', JBool (apAllowSignUp p)),
      (''allowedDomains'', JStr (apAllowedDomains p)), (''defaultRole'', JStr (apDefaultRole p))] @
     omit_str ''clientId'' (apClientID p) @ omit_str ''clientSecret'' (apClientSecret p) @
     omit_str ''authUrl'' (apAuthURL p) @ omit_str ''tokenUrl'' (apTokenURL p) @ omit_str ''userinfoUrl'' (apUserinfoURL p) @
     omit_str ''apiUrl'' (apAPIURL p) @ omit_str ''scopes'' (apScopes p) @ omit_str ''emailClaim'' (apEmailClaim p) @
     omit_str ''nameClaim'' (apNameClaim p) @ omit_str ''subClaim'' (apSubClaim p) @ omit_str ''groupsClaim'' (apGroupsClaim p) @
     omit_str ''idpMetadataUrl'' (apIDPMetadataURL p) @ omit_str ''idpMetadataXml'' (apIDPMetadataXML p) @
     omit_str ''idpEntityId'' (apIDPEntityID p) @ omit_str ''idpSsoUrl'' (apIDPSSOURL p) @ omit_str ''idpCert'' (apIDPCert p) @
     omit_str ''spEntityId'' (apSPEntityID p) @ omit_str ''spCert'' (apSPCert p) @ omit_str ''spKey'' (apSPKey p) @
     omit_bool ''signRequests'' (apSignRequests p) @ omit_str ''nameIdFormat'' (apNameIDFormat p) @
     omit_str ''emailAttribute'' (apEmailAttribute p) @ omit_str ''nameAttribute'' (apNameAttribute p) @
     omit_str ''groupsAttribute'' (apGroupsAttribute p) @
     [(''createdAt'', JTime (apCreatedAt p)), (''updatedAt'', JTime (apUpdatedAt p))])"

definition ruleToJSON :: "rule \<Rightarrow> json" where
  "ruleToJSON m = JObj [(''id'', JStr (rID m)), (''providerId'', JStr (rProviderID m)), (''priority'', JInt (rPriority m)),
     (''attributeKey'', JStr (rAttributeKey m)), (''operator'', JStr (rOperator m)),
     (''attributeValue'', JStr (rAttributeValue m)), (''role'', JStr (rRole m))]"

definition domainToJSON :: "org_domain \<Rightarrow> json" where
  "domainToJSON x = JObj [(''id'', JStr (odID x)), (''orgId'', JStr (odOrgID x)), (''domain'', JStr (odDomain x)),
     (''createdAt'', JTime (odCreatedAt x)), (''updatedAt'', JTime (odUpdatedAt x))]"

section \<open>Helpers\<close>

definition load_provider :: "http_request \<Rightarrow> auth_provider result prog" where
  "load_provider r =
     bindE (GetAuthProviderBySlug (pathValue r ''orgID'') (pathValue r ''slug'')) (\<lambda>p.
       ret (case p of None \<Rightarrow> Inl StoreErrNotFound | Some p \<Rightarrow> Inr p))"

definition ph_decrypt :: "provider_handler \<Rightarrow> string \<Rightarrow> string result" where
  "ph_decrypt h ciphertext =
     (if ciphertext = [] then Inr []
      else case phCipher h of
        None \<Rightarrow> Inl (Errorf ''no secret key is configured, provider secrets cannot be read'' [])
      | Some c \<Rightarrow> Decrypt c ciphertext)"

definition present :: "provider_handler \<Rightarrow> auth_provider \<Rightarrow> auth_provider" where
  "present h p =
     (let p = (if apKind p = KindSAML then p\<lparr>apSPEntityID := samlMetadataURL (phPublicURL h) (apOrgID p) (apSlug p)\<rparr> else p);
          p = (if apClientSecret p \<noteq> [] then p\<lparr>apClientSecret := secretMask\<rparr> else p);
          p = (if apSPKey p \<noteq> [] then p\<lparr>apSPKey := secretMask\<rparr> else p)
      in if apIconAssetID p \<noteq> [] then
           (case phAssets h of
              None \<Rightarrow> p
            | Some resolve \<Rightarrow> (case resolve (apIconAssetID p) of Inl _ \<Rightarrow> p | Inr u \<Rightarrow> p\<lparr>apIconURL := u\<rparr>))
         else p)"

definition applyOIDC :: "provider_handler \<Rightarrow> authProviderRequest \<Rightarrow> auth_provider \<Rightarrow> auth_provider result prog" where
  "applyOIDC h req p =
     (let p = p\<lparr>apType := (if aprType req = [] then TypeGeneric else aprType req),
                apClientID := TrimSpace (aprClientID req), apAuthURL := TrimSpace (aprAuthURL req),
                apTokenURL := TrimSpace (aprTokenURL req), apUserinfoURL := TrimSpace (aprUserinfoURL req),
                apAPIURL := TrimSpace (aprAPIURL req), apScopes := aprScopes req, apEmailClaim := aprEmailClaim req,
                apNameClaim := aprNameClaim req, apSubClaim := aprSubClaim req, apGroupsClaim := aprGroupsClaim req\<rparr>;
          endpoints =
            (if apAuthURL p = [] \<or> apTokenURL p = [] \<or> apUserinfoURL p = [] then
               (if apType p = TypeEntra then
                  (if apAPIURL p = [] then Inl (Errorf ''an entra provider needs apiUrl (the directory/tenant ID)'' [])
                   else Inr (EntraEndpoints (apAPIURL p)))
                else if apType p = TypeOkta then
                  (if apAPIURL p = [] then Inl (Errorf ''an okta provider needs apiUrl (the okta domain)'' [])
                   else Inr (OktaEndpoints (apAPIURL p)))
                else Inr (apAuthURL p, apTokenURL p, apUserinfoURL p))
             else Inr (apAuthURL p, apTokenURL p, apUserinfoURL p))
      in case endpoints of
           Inl e \<Rightarrow> ret (Inl e)
         | Inr (a, t, u) \<Rightarrow>
             let p = p\<lparr>apAuthURL := a, apTokenURL := t, apUserinfoURL := u\<rparr>;
                 secret = TrimSpace (aprClientSecret req) in
             if secret = [] \<or> secret = secretMask then ret (Inr p)
             else (case phCipher h of
                 None \<Rightarrow> ret (Inl (Errorf ''no secret key is configured, secrets cannot be stored'' []))
               | Some c \<Rightarrow> bindE (Encrypt c secret) (\<lambda>enc. ret (Inr (p\<lparr>apClientSecret := enc\<rparr>)))))"

definition applySAML :: "provider_handler \<Rightarrow> authProviderRequest \<Rightarrow> auth_provider \<Rightarrow> auth_provider result prog" where
  "applySAML h req p =
     (let p = p\<lparr>apType := TypeGeneric, apIDPMetadataURL := TrimSpace (aprIDPMetadataURL req),
                apIDPMetadataXML := aprIDPMetadataXML req, apIDPEntityID := TrimSpace (aprIDPEntityID req),
                apIDPSSOURL := TrimSpace (aprIDPSSOURL req), apIDPCert := TrimSpace (aprIDPCert req),
                apSignRequests := aprSignRequests req, apNameIDFormat := aprNameIDFormat req,
                apEmailAttribute := aprEmailAttribute req, apNameAttribute := aprNameAttribute req,
                apGroupsAttribute := aprGroupsAttribute req\<rparr>;
          filled =
            (if apIDPMetadataURL p \<noteq> [] \<or> apIDPMetadataXML p \<noteq> [] then
               (case ParseMetadata (phSaml h) (apIDPMetadataURL p) (apIDPMetadataXML p) of
                  Inl e \<Rightarrow> Inl e
                | Inr md \<Rightarrow>
                    Inr (p\<lparr>apIDPEntityID := (if apIDPEntityID p = [] then mdEntityID md else apIDPEntityID p),
                           apIDPSSOURL := (if apIDPSSOURL p = [] then mdSSOURL md else apIDPSSOURL p),
                           apIDPCert := (if apIDPCert p = [] then mdCert md else apIDPCert p)\<rparr>))
             else Inr p)
      in case filled of
           Inl e \<Rightarrow> ret (Inl e)
         | Inr p \<Rightarrow>
             if apSPCert p = [] \<or> apSPKey p = [] then
               (case phCipher h of
                  None \<Rightarrow> ret (Inl (Errorf ''no secret key is configured, secrets cannot be stored'' []))
                | Some c \<Rightarrow>
                    bindE (GenerateSPKeypair (phSaml h) (samlMetadataURL (phPublicURL h) (apOrgID p) (apSlug p))) (\<lambda>(certPEM, keyPEM).
                    bindE (Encrypt c keyPEM) (\<lambda>enc. ret (Inr (p\<lparr>apSPCert := certPEM, apSPKey := enc\<rparr>)))))
             else ret (Inr p))"

definition apply_request :: "provider_handler \<Rightarrow> authProviderRequest \<Rightarrow> auth_provider \<Rightarrow> auth_provider result prog" where
  "apply_request h req p =
     (let p = p\<lparr>apKind := aprKind req, apDisplayName := TrimSpace (aprDisplayName req), apEnabled := aprEnabled req,
                apAllowSignUp := aprAllowSignUp req, apAllowedDomains := TrimSpace (aprAllowedDomains req),
                apDefaultRole := aprDefaultRole req\<rparr> in
      if aprKind req = KindOIDC then applyOIDC h req p
      else if aprKind req = KindSAML then applySAML h req p
      else ret (Inl (Errorf ''unknown provider kind %q'' [aprKind req])))"

definition ensureSPKeypair :: "provider_handler \<Rightarrow> auth_provider \<Rightarrow> auth_provider result prog" where
  "ensureSPKeypair h p =
     (if apSPCert p \<noteq> [] \<and> apSPKey p \<noteq> [] then ret (Inr p)
      else case phCipher h of
        None \<Rightarrow> ret (Inl (Errorf ''no secret key is configured, an SP keypair cannot be generated'' []))
      | Some c \<Rightarrow>
          bindE (GenerateSPKeypair (phSaml h) (samlMetadataURL (phPublicURL h) (apOrgID p) (apSlug p))) (\<lambda>(certPEM, keyPEM).
          bindE (Encrypt c keyPEM) (\<lambda>enc.
            let p = p\<lparr>apSPCert := certPEM, apSPKey := enc\<rparr> in
            bindE (UpdateAuthProvider p) (\<lambda>_. ret (Inr p)))))"

section \<open>Providers\<close>

definition ProviderHandler_ListProviders :: "provider_handler \<Rightarrow> handler" where
  "ProviderHandler_ListProviders h r =
     on_err (ListAuthProviders (pathValue r ''orgID'')) (\<lambda>ps.
       ret (JSON 200 (JObj [(''providers'', JArr (map (\<lambda>p. providerToJSON (present h p)) ps))])))"

definition ProviderHandler_GetProvider :: "provider_handler \<Rightarrow> handler" where
  "ProviderHandler_GetProvider h r =
     on_err (load_provider r) (\<lambda>p. ret (JSON 200 (providerToJSON (present h p))))"

text \<open>\<open>if err := ...; err != nil { httputil.BadRequest(w, err.Error()) }\<close>\<close>

definition on_bad :: "'a result prog \<Rightarrow> ('a \<Rightarrow> response prog) \<Rightarrow> response prog" where
  "on_bad m k = State_Monad.bind m (\<lambda>x. case x of Inl e \<Rightarrow> ret (BadRequest (JErr e)) | Inr a \<Rightarrow> k a)"

definition ProviderHandler_CreateProvider :: "provider_handler \<Rightarrow> authProviderRequest option \<Rightarrow> handler" where
  "ProviderHandler_CreateProvider h body r =
     (case body of
        None \<Rightarrow> ret (BadRequest (JStr ''invalid JSON''))
      | Some req \<Rightarrow>
          State_Monad.bind newID (\<lambda>i.
            on_bad (apply_request h req (AuthProvider_zero\<lparr>apID := i, apSlug := aprSlug req, apOrgID := pathValue r ''orgID''\<rparr>)) (\<lambda>p.
              case Validate p of
                Some e \<Rightarrow> ret (BadRequest (JErr e))
              | None \<Rightarrow>
                  on_err (CreateAuthProvider p) (\<lambda>_. ret (JSON 201 (providerToJSON (present h p)))))))"

definition ProviderHandler_UpdateProvider :: "provider_handler \<Rightarrow> authProviderRequest option \<Rightarrow> handler" where
  "ProviderHandler_UpdateProvider h body r =
     on_err (load_provider r) (\<lambda>old.
       case body of
         None \<Rightarrow> ret (BadRequest (JStr ''invalid JSON''))
       | Some req \<Rightarrow>
           if aprSlug req \<noteq> apSlug old then ret (BadRequest (JStr ''slug cannot be changed after the provider is created''))
           else on_bad (apply_request h req old) (\<lambda>p.
             case Validate p of
               Some e \<Rightarrow> ret (BadRequest (JErr e))
             | None \<Rightarrow>
                 on_err (UpdateAuthProvider p) (\<lambda>_. ret (JSON 200 (providerToJSON (present h p))))))"

definition ProviderHandler_DeleteProvider :: handler where
  "ProviderHandler_DeleteProvider r =
     on_err (load_provider r) (\<lambda>p. on_err (DeleteAuthProvider (apOrgID p) (apID p)) (\<lambda>_. ret NoContent))"

definition AuthProviderIconAssetID :: "string \<Rightarrow> string" where
  "AuthProviderIconAssetID i = ''authprovider_'' @ i"

definition ProviderHandler_PrepareProviderIconUpload :: "provider_handler \<Rightarrow> handler" where
  "ProviderHandler_PrepareProviderIconUpload h r =
     on_err (load_provider r) (\<lambda>p.
       let assetID = AuthProviderIconAssetID (apID p) in
       (case phPresign h (''assets/'' @ assetID) of
          Inl e \<Rightarrow> ret (Error e)
        | Inr url \<Rightarrow> ret (JSON 200 (JObj [(''assetId'', JStr assetID), (''uploadUrl'', JStr url)]))))"

definition ProviderHandler_PutProviderIcon :: handler where
  "ProviderHandler_PutProviderIcon r =
     on_err (load_provider r) (\<lambda>p.
       let assetID = AuthProviderIconAssetID (apID p) in
       on_err (SetAuthProviderIcon (apOrgID p) (apID p) (Some assetID)) (\<lambda>_.
         ret (JSON 200 (JObj [(''assetId'', JStr assetID)]))))"

definition ProviderHandler_DeleteProviderIcon :: handler where
  "ProviderHandler_DeleteProviderIcon r =
     on_err (load_provider r) (\<lambda>p. on_err (SetAuthProviderIcon (apOrgID p) (apID p) None) (\<lambda>_. ret NoContent))"

definition ProviderHandler_SAMLMetadata :: "provider_handler \<Rightarrow> handler" where
  "ProviderHandler_SAMLMetadata h r =
     on_err (load_provider r) (\<lambda>p.
       if apKind p \<noteq> KindSAML then ret (BadRequest (JStr ''provider is not a SAML provider''))
       else on_err (ensureSPKeypair h p) (\<lambda>p.
         case ph_decrypt h (apSPKey p) of
           Inl e \<Rightarrow> ret (Error e)
         | Inr key \<Rightarrow>
             let acs = acsURL (phPublicURL h) (apOrgID p) (apSlug p);
                 metadataURL = samlMetadataURL (phPublicURL h) (apOrgID p) (apSlug p) in
             (case SPMetadata (phSaml h) (samlProviderFor p (phPublicURL h) key) acs metadataURL of
                Inl e \<Rightarrow> ret (Error e)
              | Inr doc \<Rightarrow>
                  ret (JSON 200 (JObj [(''entityId'', JStr metadataURL), (''acsUrl'', JStr acs),
                    (''metadataUrl'', JStr metadataURL), (''metadata'', JStr doc)])))))"

section \<open>Role mappings\<close>

definition request_rule :: "string \<Rightarrow> string \<Rightarrow> roleMappingRequest \<Rightarrow> rule" where
  "request_rule i providerID req =
     \<lparr>rID = i, rProviderID = providerID, rPriority = rmrPriority req, rAttributeKey = TrimSpace (rmrAttributeKey req),
      rOperator = rmrOperator req, rAttributeValue = rmrAttributeValue req, rRole = rmrRole req\<rparr>"

definition ProviderHandler_ListRoleMappings :: handler where
  "ProviderHandler_ListRoleMappings r =
     on_err (load_provider r) (\<lambda>p.
     on_err (ListRoleMappings (apID p)) (\<lambda>rules. ret (JSON 200 (JObj [(''mappings'', JArr (map ruleToJSON rules))]))))"

definition ProviderHandler_CreateRoleMapping :: "provider_handler \<Rightarrow> roleMappingRequest option \<Rightarrow> handler" where
  "ProviderHandler_CreateRoleMapping h body r =
     on_err (load_provider r) (\<lambda>p.
       case body of
         None \<Rightarrow> ret (BadRequest (JStr ''invalid JSON''))
       | Some req \<Rightarrow>
           State_Monad.bind newID (\<lambda>i.
             case ValidateRule (phCompile h) (request_rule i (apID p) req) of
               Some e \<Rightarrow> ret (BadRequest (JErr e))
             | None \<Rightarrow>
                 on_err (CreateRoleMapping (request_rule i (apID p) req)) (\<lambda>_.
                   ret (JSON 201 (ruleToJSON (request_rule i (apID p) req))))))"

definition ProviderHandler_UpdateRoleMapping :: "provider_handler \<Rightarrow> roleMappingRequest option \<Rightarrow> handler" where
  "ProviderHandler_UpdateRoleMapping h body r =
     on_err (load_provider r) (\<lambda>p.
       case body of
         None \<Rightarrow> ret (BadRequest (JStr ''invalid JSON''))
       | Some req \<Rightarrow>
           (case ValidateRule (phCompile h) (request_rule (pathValue r ''mappingID'') (apID p) req) of
              Some e \<Rightarrow> ret (BadRequest (JErr e))
            | None \<Rightarrow>
                on_err (UpdateRoleMapping (request_rule (pathValue r ''mappingID'') (apID p) req)) (\<lambda>_.
                  ret (JSON 200 (ruleToJSON (request_rule (pathValue r ''mappingID'') (apID p) req))))))"

definition ProviderHandler_DeleteRoleMapping :: handler where
  "ProviderHandler_DeleteRoleMapping r =
     on_err (load_provider r) (\<lambda>p.
     on_err (DeleteRoleMapping (apID p) (pathValue r ''mappingID'')) (\<lambda>_. ret NoContent))"

definition ProviderHandler_MappingOperators :: handler where
  "ProviderHandler_MappingOperators r =
     ret (JSON 200 (JObj [(''operators'', JArr (map (\<lambda>op. JObj [(''name'', JStr op), (''takesValue'', JBool (TakesValue op))])
       ValidOperators))]))"

section \<open>Domains\<close>

definition ProviderHandler_ListDomains :: handler where
  "ProviderHandler_ListDomains r =
     on_err (ListOrgDomains (pathValue r ''orgID'')) (\<lambda>ds. ret (JSON 200 (JObj [(''domains'', JArr (map domainToJSON ds))])))"

definition ProviderHandler_CreateDomain :: "string option \<Rightarrow> handler" where
  "ProviderHandler_CreateDomain body r =
     (case body of
        None \<Rightarrow> ret (BadRequest (JStr ''invalid JSON''))
      | Some reqDomain \<Rightarrow>
          (case NormalizeOrgDomain reqDomain of
             Inl _ \<Rightarrow> ret (BadRequest (JStr ''a valid email domain is required''))
           | Inr dmn \<Rightarrow>
               on_err (ListOrgDomains (pathValue r ''orgID'')) (\<lambda>ds.
                 if ds \<noteq> [] then ret (Conflict (JStr ''an organization can currently have only one domain''))
                 else State_Monad.bind newID (\<lambda>i.
                   let x = \<lparr>odID = i, odOrgID = pathValue r ''orgID'', odDomain = dmn, odCreatedAt = 0, odUpdatedAt = 0\<rparr> in
                   on_err (CreateOrgDomain x) (\<lambda>_. ret (JSON 201 (domainToJSON x)))))))"

definition ProviderHandler_UpdateDomain :: "string option \<Rightarrow> handler" where
  "ProviderHandler_UpdateDomain body r =
     (case body of
        None \<Rightarrow> ret (BadRequest (JStr ''invalid JSON''))
      | Some reqDomain \<Rightarrow>
          (case NormalizeOrgDomain reqDomain of
             Inl _ \<Rightarrow> ret (BadRequest (JStr ''a valid email domain is required''))
           | Inr dmn \<Rightarrow>
               let x = \<lparr>odID = pathValue r ''domainID'', odOrgID = pathValue r ''orgID'', odDomain = dmn, odCreatedAt = 0,
                        odUpdatedAt = 0\<rparr> in
               on_err (UpdateOrgDomain x) (\<lambda>_. ret (JSON 200 (domainToJSON x)))))"

definition ProviderHandler_DeleteDomain :: handler where
  "ProviderHandler_DeleteDomain r =
     on_err (DeleteOrgDomain (pathValue r ''orgID'') (pathValue r ''domainID'')) (\<lambda>_. ret NoContent)"

section \<open>Preservation\<close>

lemma keeps_on_bad [keeps_rules]:
  "keeps I m \<Longrightarrow> (\<And>a. keeps I (k a)) \<Longrightarrow> keeps I (on_bad m k)"
  unfolding on_bad_def by (intro keeps_rules)

lemma keeps_load_provider [keeps_rules]: "keeps (on_db I) (load_provider r)"
  unfolding load_provider_def by (intro keeps_rules)

lemma keeps_apply_request [keeps_rules]: "keeps (on_db I) (apply_request h req p)"
  unfolding apply_request_def applyOIDC_def applySAML_def by (intro keeps_rules)

context store_contract
begin

text \<open>What is loaded is \<open>good\<close>: it passed validation when it was stored.\<close>

lemma load_provider_good:
  "hoare (on_db I) (load_provider r) (\<lambda>x w. on_db I w \<and> pred_sum (\<lambda>_. True) good x)"
proof (rule hoareI)
  fix w x w' assume w: "on_db I w" and run: "run_state (load_provider r) w = (x, w')"
  then show "on_db I w' \<and> pred_sum (\<lambda>_. True) good x"
    using hoareD [OF provider_read w]
    by (fastforce simp: load_provider_def run_bindE split: prod.splits sum.splits option.splits)
qed

lemma keeps_on_load:
  assumes "\<And>p. good p \<Longrightarrow> keeps (on_db I) (k p)"
  shows "keeps (on_db I) (on_err (load_provider r) k)"
proof (rule hoare_on_err [OF load_provider_good])
  show "hoare (\<lambda>w. on_db I w \<and> pred_sum (\<lambda>_. True) good (Inr p)) (k p) (\<lambda>_. on_db I)" for p
    using assms [of p] by (simp add: hoare_def)
qed simp

lemma keeps_ensureSPKeypair [keeps_rules]: "good p \<Longrightarrow> keeps (on_db I) (ensureSPKeypair h p)"
  unfolding ensureSPKeypair_def by (intro keeps_rules good_keypair)

lemma keeps_provider_writes [keeps_rules]:
  "keeps (on_db I) (ProviderHandler_CreateProvider h cb r)" "keeps (on_db I) (ProviderHandler_UpdateProvider h cb r)"
  "keeps (on_db I) (ProviderHandler_SAMLMetadata h r)"
  unfolding ProviderHandler_CreateProvider_def ProviderHandler_UpdateProvider_def ProviderHandler_SAMLMetadata_def
  by (intro keeps_on_load hoare_case_option keeps_on_bad keeps_rules; auto intro: good_Validate)+

lemma keeps_mapping_writes:
  assumes "phCompile h = Compile"
  shows "keeps (on_db I) (ProviderHandler_CreateRoleMapping h mb r)" "keeps (on_db I) (ProviderHandler_UpdateRoleMapping h mb r)"
  unfolding ProviderHandler_CreateRoleMapping_def ProviderHandler_UpdateRoleMapping_def assms
  by (intro hoare_case_option keeps_rules; simp)+

lemma keeps_provider_handler [keeps_rules]:
  "keeps (on_db I) (ProviderHandler_ListProviders h r)" "keeps (on_db I) (ProviderHandler_GetProvider h r)"
  "keeps (on_db I) (ProviderHandler_DeleteProvider r)" "keeps (on_db I) (ProviderHandler_PrepareProviderIconUpload h r)"
  "keeps (on_db I) (ProviderHandler_PutProviderIcon r)" "keeps (on_db I) (ProviderHandler_DeleteProviderIcon r)"
  "keeps (on_db I) (ProviderHandler_ListRoleMappings r)" "keeps (on_db I) (ProviderHandler_DeleteRoleMapping r)"
  "keeps (on_db I) (ProviderHandler_MappingOperators r)" "keeps (on_db I) (ProviderHandler_ListDomains r)"
  "keeps (on_db I) (ProviderHandler_CreateDomain db' r)" "keeps (on_db I) (ProviderHandler_UpdateDomain db' r)"
  "keeps (on_db I) (ProviderHandler_DeleteDomain r)"
  unfolding ProviderHandler_ListProviders_def ProviderHandler_GetProvider_def ProviderHandler_DeleteProvider_def
    ProviderHandler_PrepareProviderIconUpload_def ProviderHandler_PutProviderIcon_def ProviderHandler_DeleteProviderIcon_def
    ProviderHandler_ListRoleMappings_def ProviderHandler_DeleteRoleMapping_def ProviderHandler_MappingOperators_def
    ProviderHandler_ListDomains_def ProviderHandler_CreateDomain_def ProviderHandler_UpdateDomain_def
    ProviderHandler_DeleteDomain_def
  by (intro keeps_rules)+

end

end
