(* ===== verification/Screenshot.thy ===== *)
theory Screenshot
  imports AuthCommon
begin

text \<open>
  The part of \<open>internal/screenshot/screenshot.go\<close> that touches the identity tables: the worker that renders diagrams
  makes itself a short-lived API key of the organisation's internal account. \<open>cached\<close> is the map \<open>saCache\<close>.
\<close>

definition tokenTTL :: time where
  "tokenTTL = 5 * 60 * 1000000"

definition systemScopes :: "string list" where
  "systemScopes = AllScopes"

definition ensureSA :: "(string \<rightharpoonup> string) \<Rightarrow> string \<Rightarrow> (string \<times> (string \<rightharpoonup> string)) result prog" where
  "ensureSA cached orgID =
     (case cached orgID of
        Some i \<Rightarrow> ret (Inr (i, cached))
      | None \<Rightarrow>
          bindE (GetSystemServiceAccount orgID) (\<lambda>existing.
            case existing of
              Some a \<Rightarrow> ret (Inr (saID a, cached(orgID \<mapsto> saID a)))
            | None \<Rightarrow>
                State_Monad.bind uuid_NewString (\<lambda>i.
                  bindE (CreateServiceAccount (NewSystemServiceAccount i orgID systemScopes)) (\<lambda>_.
                    ret (Inr (i, cached(orgID \<mapsto> i)))))))"

definition mintToken :: "(string \<rightharpoonup> string) \<Rightarrow> string \<Rightarrow> (string \<times> string \<times> (string \<rightharpoonup> string)) result prog" where
  "mintToken cached orgID =
     bindE (ensureSA cached orgID) (\<lambda>(said, cached).
     bindE Generate (\<lambda>(i, plaintext, hash).
     State_Monad.bind now (\<lambda>t.
       bindE (CreateToken \<lparr>tkID = i, tkServiceAccountID = said, tkName = ''screenshot-render-'' @ i,
                tkPrefix = Prefix plaintext, tkHash = hash, tkExpiresAt = Some (t + tokenTTL), tkLastUsedAt = None,
                tkRevoked = False, tkCreatedBy = [], tkCreatedAt = 0\<rparr>) (\<lambda>_.
         ret (Inr (i, plaintext, cached))))))"

lemma systemScopes_valid [simp]: "list_all ValidScope (saScopes (NewSystemServiceAccount i g systemScopes))"
  using AllScopes_valid by (auto simp: NewSystemServiceAccount_def systemScopes_def list_all_iff)

lemma keeps_bindE_pair [keeps_rules]:
  "keeps I m \<Longrightarrow> (\<And>a b. keeps I (k a b)) \<Longrightarrow> keeps I (bindE m (\<lambda>(a, b). k a b))"
  by (intro keeps_bindE) (auto split: prod.splits)

context store_contract
begin

lemma keeps_mintToken [keeps_rules]: "keeps (on_db I) (mintToken c g)"
  unfolding mintToken_def ensureSA_def by (intro keeps_rules; simp)

end

end
