(* ===== verification/Routes.thy ===== *)
theory Routes
  imports Router MemberHandler AccountHandler TeamHandler UserHandler ProviderHandler Screenshot
begin

text \<open>
  \<open>internal/api/router.go\<close>, the table of routes of the identity layer as \<open>New\<close> registers them, and the system that
  they make: requests in any order, the passing of time, failures of the database, restarts, and the screenshot worker.

  A route is the pattern under which it is registered with the handler behind its guard. The match of a URL against a
  pattern is the work of \<open>http.ServeMux\<close>; a request carries the resulting path values. The body of a request, decoded
  into the type that each handler asks for, is the record \<open>decoded\<close>, with \<open>None\<close> where decoding fails.
\<close>

section \<open>Configuration\<close>

text \<open>\<open>aInternal\<close> is the token of the hosted service when \<open>cfg.Enterprise\<close> is set.\<close>

record app =
  aSession :: session_handler
  aProvider :: provider_handler
  aBcrypt :: bcrypt
  aAssets :: asset_resolver
  aPresign :: "string \<Rightarrow> string result"
  aCache :: bool
  aEnterprise :: enterprise_client
  aInternal :: "string option"
  aAdminEmail :: string
  aAdminPassword :: string

record decoded =
  dLogin :: "loginRequest option"
  dEmail :: "string option"
  dAddMember :: "addMemberRequest option"
  dUpdateMember :: "updateMemberRequest option"
  dCreateAccount :: "createServiceAccountRequest option"
  dUpdateAccount :: "updateServiceAccountRequest option"
  dCreateToken :: "createTokenRequest option"
  dCreateOrg :: "createOrgRequest option"
  dUpdateOrg :: "updateOrgRequest option"
  dTeam :: "teamRequest option"
  dTeamMember :: "addTeamMemberRequest option"
  dCreateUser :: "createUserRequest option"
  dUpdateUser :: "updateUserRequest option"
  dProvision :: "provisionAccountRequest option"
  dPassword :: "string option"
  dProvider :: "authProviderRequest option"
  dMapping :: "roleMappingRequest option"
  dDomain :: "string option"

definition NewAuthProviderHandler :: "provider_handler \<Rightarrow> provider_handler" where
  "NewAuthProviderHandler h = h\<lparr>phPublicURL := TrimRight (phPublicURL h) CHR ''/''\<rparr>"

section \<open>The table of routes\<close>

definition internal_routes :: "app \<Rightarrow> decoded \<Rightarrow> (string \<times> handler) list" where
  "internal_routes a b =
     (case aInternal a of
        None \<Rightarrow> []
      | Some token \<Rightarrow>
          [(''POST /internal/v1/accounts'', SignupHandler_ProvisionAccount (aBcrypt a) token (dProvision b)),
           (''GET /internal/v1/accounts/lookup'', SignupHandler_LookupAccountByEmail token),
           (''POST /internal/v1/accounts/{userID}/password'', SignupHandler_SetAccountPassword (aBcrypt a) token (dPassword b))])"

definition public_routes :: "app \<Rightarrow> decoded \<Rightarrow> (string \<times> handler) list" where
  "public_routes a b =
     (let sessionH = NewSessionHandler (aSession a) in
      [(''POST /api/v1/auth/login'', SessionHandler_Login sessionH (dLogin b)),
       (''POST /api/v1/auth/discover-orgs'', SessionHandler_DiscoverOrgs sessionH (dEmail b)),
       (''GET /api/v1/auth/orgs/{orgID}/providers'', SessionHandler_OrgProviders sessionH),
       (''GET /api/v1/auth/orgs/{orgID}/login/{slug}'', SessionHandler_InitiateLogin sessionH),
       (''GET /api/v1/auth/orgs/{orgID}/callback/{slug}'', SessionHandler_OIDCCallback sessionH),
       (''POST /api/v1/auth/orgs/{orgID}/saml/{slug}/acs'', SessionHandler_SAMLACS sessionH),
       (''GET /api/v1/auth/orgs/{orgID}/saml/{slug}/metadata'', SessionHandler_SAMLMetadata sessionH)])"

definition protected_routes :: "app \<Rightarrow> decoded \<Rightarrow> (string \<times> handler) list" where
  "protected_routes a b =
     (let sessionH = NewSessionHandler (aSession a) in
      map (\<lambda>(pattern, h). (pattern, protected mw h))
      [(''POST /api/v1/auth/logout'', SessionHandler_Logout sessionH),
       (''POST /api/v1/auth/session-token'', SessionHandler_SessionToken sessionH),
       (''GET /api/v1/auth/me'', SessionHandler_Me sessionH),
       (''GET /api/v1/auth/orgs'', SessionHandler_MyOrgs sessionH),
       (''POST /api/v1/users/me/avatar/prepare'', AvatarHandler_PrepareUserAvatarUpload (aPresign a)),
       (''PUT /api/v1/users/me/avatar'', AvatarHandler_PutUserAvatar (aCache a)),
       (''DELETE /api/v1/users/me/avatar'', AvatarHandler_DeleteUserAvatar (aCache a)),
       (''GET /api/v1/orgs'', OrgHandler_ListMine (aAssets a)),
       (''POST /api/v1/orgs'', OrgHandler_Create (aAssets a) (dCreateOrg b)),
       (''GET /api/v1/orgs/{orgID}'', OrgHandler_GetMine (aAssets a)),
       (''GET /api/v1/auth/mapping-operators'', ProviderHandler_MappingOperators)])"

definition admin_routes :: "app \<Rightarrow> decoded \<Rightarrow> (string \<times> handler) list" where
  "admin_routes a b =
     map (\<lambda>(pattern, h). (pattern, serverAdmin mw IsUserServerAdmin h))
      [(''GET /api/v1/users'', UserHandler_List (aAssets a)),
       (''POST /api/v1/users'', UserHandler_Create (aBcrypt a) (aAssets a) (dCreateUser b)),
       (''GET /api/v1/users/{userID}'', UserHandler_Get (aAssets a)),
       (''PUT /api/v1/users/{userID}'', UserHandler_Update (aCache a) (aAssets a) (dUpdateUser b)),
       (''DELETE /api/v1/users/{userID}'', UserHandler_Disable (aCache a)),
       (''POST /api/v1/users/{userID}/password'', UserHandler_ResetPassword (aBcrypt a) (aCache a)),
       (''GET /api/v1/server/orgs'', OrgHandler_List (aAssets a)),
       (''POST /api/v1/server/orgs'', OrgHandler_Create (aAssets a) (dCreateOrg b)),
       (''GET /api/v1/server/orgs/{orgID}'', OrgHandler_Get (aAssets a)),
       (''PUT /api/v1/server/orgs/{orgID}'', OrgHandler_Update (aAssets a) (dUpdateOrg b)),
       (''DELETE /api/v1/server/orgs/{orgID}'', OrgHandler_Delete),
       (''POST /api/v1/server/orgs/{orgID}/logo/prepare'', AvatarHandler_PrepareOrgLogoUpload (aPresign a)),
       (''PUT /api/v1/server/orgs/{orgID}/logo'', AvatarHandler_PutOrgLogo (aCache a)),
       (''DELETE /api/v1/server/orgs/{orgID}/logo'', AvatarHandler_DeleteOrgLogo (aCache a))]"

definition org_routes :: "app \<Rightarrow> decoded \<Rightarrow> (string \<times> string \<times> handler) list" where
  "org_routes a b =
     [(''org:update'', ''PUT /api/v1/orgs/{orgID}'', OrgHandler_Update (aAssets a) (dUpdateOrg b)),
      (''org:update'', ''POST /api/v1/orgs/{orgID}/onboarding-complete'', OrgHandler_CompleteOnboarding),
      (''org:update'', ''POST /api/v1/orgs/{orgID}/logo/prepare'', AvatarHandler_PrepareOrgLogoUpload (aPresign a)),
      (''org:update'', ''PUT /api/v1/orgs/{orgID}/logo'', AvatarHandler_PutOrgLogo (aCache a)),
      (''org:update'', ''DELETE /api/v1/orgs/{orgID}/logo'', AvatarHandler_DeleteOrgLogo (aCache a)),
      (''org:delete'', ''DELETE /api/v1/orgs/{orgID}'', OrgHandler_Delete),
      (''members:read'', ''GET /api/v1/orgs/{orgID}/scopes'', AccountHandler_ListScopes),
      (''members:read'', ''GET /api/v1/orgs/{orgID}/members'', MemberHandler_List),
      (''members:add'', ''POST /api/v1/orgs/{orgID}/members'', MemberHandler_Add (aBcrypt a) (aEnterprise a) (dAddMember b)),
      (''members:update-role'', ''PUT /api/v1/orgs/{orgID}/members/{userID}'', MemberHandler_UpdateMember (dUpdateMember b)),
      (''members:remove'', ''DELETE /api/v1/orgs/{orgID}/members/{userID}'', MemberHandler_Remove),
      (''teams:read'', ''GET /api/v1/orgs/{orgID}/teams'', TeamHandler_List),
      (''teams:create'', ''POST /api/v1/orgs/{orgID}/teams'', TeamHandler_Create (dTeam b)),
      (''teams:read'', ''GET /api/v1/orgs/{orgID}/teams/{teamID}'', TeamHandler_Get),
      (''teams:edit'', ''PUT /api/v1/orgs/{orgID}/teams/{teamID}'', TeamHandler_Update (dTeam b)),
      (''teams:delete'', ''DELETE /api/v1/orgs/{orgID}/teams/{teamID}'', TeamHandler_Delete),
      (''teams:read'', ''GET /api/v1/orgs/{orgID}/teams/{teamID}/members'', TeamHandler_ListMembers),
      (''teams:add-member'', ''POST /api/v1/orgs/{orgID}/teams/{teamID}/members'', TeamHandler_AddMember (dTeamMember b)),
      (''teams:remove-member'', ''DELETE /api/v1/orgs/{orgID}/teams/{teamID}/members/{userID}'', TeamHandler_RemoveMember)]"

definition account_routes :: "app \<Rightarrow> decoded \<Rightarrow> (string \<times> string \<times> handler) list" where
  "account_routes a b =
     [(''serviceaccounts:read'', ''GET /api/v1/orgs/{orgID}/service-accounts'', AccountHandler_List),
      (''serviceaccounts:create'', ''POST /api/v1/orgs/{orgID}/service-accounts'', AccountHandler_Create (dCreateAccount b)),
      (''serviceaccounts:read'', ''GET /api/v1/orgs/{orgID}/service-accounts/{saID}'', AccountHandler_Get),
      (''serviceaccounts:edit'', ''PUT /api/v1/orgs/{orgID}/service-accounts/{saID}'', AccountHandler_Update (aCache a) (dUpdateAccount b)),
      (''serviceaccounts:edit'', ''POST /api/v1/orgs/{orgID}/service-accounts/{saID}/avatar/prepare'',
         AvatarHandler_PrepareServiceAccountAvatarUpload (aPresign a)),
      (''serviceaccounts:edit'', ''PUT /api/v1/orgs/{orgID}/service-accounts/{saID}/avatar'', AvatarHandler_PutServiceAccountAvatar (aCache a)),
      (''serviceaccounts:edit'', ''DELETE /api/v1/orgs/{orgID}/service-accounts/{saID}/avatar'', AvatarHandler_DeleteServiceAccountAvatar (aCache a)),
      (''serviceaccounts:delete'', ''DELETE /api/v1/orgs/{orgID}/service-accounts/{saID}'', AccountHandler_Delete (aCache a)),
      (''serviceaccounts:read'', ''GET /api/v1/orgs/{orgID}/service-accounts/{saID}/tokens'', AccountHandler_ListTokens),
      (''serviceaccounts:create-token'', ''POST /api/v1/orgs/{orgID}/service-accounts/{saID}/tokens'', AccountHandler_CreateToken (dCreateToken b)),
      (''serviceaccounts:revoke-token'', ''DELETE /api/v1/orgs/{orgID}/service-accounts/{saID}/tokens/{tokenID}'', AccountHandler_RevokeToken)]"

definition provider_routes :: "app \<Rightarrow> decoded \<Rightarrow> (string \<times> string \<times> handler) list" where
  "provider_routes a b =
     (let h = NewAuthProviderHandler (aProvider a) in
      [(''authproviders:read'', ''GET /api/v1/orgs/{orgID}/auth/providers'', ProviderHandler_ListProviders h),
       (''authproviders:write'', ''POST /api/v1/orgs/{orgID}/auth/providers'', ProviderHandler_CreateProvider h (dProvider b)),
       (''authproviders:read'', ''GET /api/v1/orgs/{orgID}/auth/providers/{slug}'', ProviderHandler_GetProvider h),
       (''authproviders:write'', ''PUT /api/v1/orgs/{orgID}/auth/providers/{slug}'', ProviderHandler_UpdateProvider h (dProvider b)),
       (''authproviders:write'', ''DELETE /api/v1/orgs/{orgID}/auth/providers/{slug}'', ProviderHandler_DeleteProvider),
       (''authproviders:write'', ''POST /api/v1/orgs/{orgID}/auth/providers/{slug}/icon/prepare'', ProviderHandler_PrepareProviderIconUpload h),
       (''authproviders:write'', ''PUT /api/v1/orgs/{orgID}/auth/providers/{slug}/icon'', ProviderHandler_PutProviderIcon),
       (''authproviders:write'', ''DELETE /api/v1/orgs/{orgID}/auth/providers/{slug}/icon'', ProviderHandler_DeleteProviderIcon),
       (''authproviders:read'', ''GET /api/v1/orgs/{orgID}/auth/providers/{slug}/saml/metadata'', ProviderHandler_SAMLMetadata h),
       (''authproviders:read'', ''GET /api/v1/orgs/{orgID}/auth/providers/{slug}/role-mappings'', ProviderHandler_ListRoleMappings),
       (''authproviders:write'', ''POST /api/v1/orgs/{orgID}/auth/providers/{slug}/role-mappings'', ProviderHandler_CreateRoleMapping h (dMapping b)),
       (''authproviders:write'', ''PUT /api/v1/orgs/{orgID}/auth/providers/{slug}/role-mappings/{mappingID}'', ProviderHandler_UpdateRoleMapping h (dMapping b)),
       (''authproviders:write'', ''DELETE /api/v1/orgs/{orgID}/auth/providers/{slug}/role-mappings/{mappingID}'', ProviderHandler_DeleteRoleMapping),
       (''authproviders:read'', ''GET /api/v1/orgs/{orgID}/auth/domains'', ProviderHandler_ListDomains),
       (''authproviders:write'', ''POST /api/v1/orgs/{orgID}/auth/domains'', ProviderHandler_CreateDomain (dDomain b)),
       (''authproviders:write'', ''PUT /api/v1/orgs/{orgID}/auth/domains/{domainID}'', ProviderHandler_UpdateDomain (dDomain b)),
       (''authproviders:write'', ''DELETE /api/v1/orgs/{orgID}/auth/domains/{domainID}'', ProviderHandler_DeleteDomain)])"

definition scoped_routes :: "app \<Rightarrow> decoded \<Rightarrow> (string \<times> handler) list" where
  "scoped_routes a b = map (\<lambda>(scope, pattern, h). (pattern, requireScope mw ScopesForUser scope h))
     (org_routes a b @ account_routes a b @ provider_routes a b)"

definition routes :: "app \<Rightarrow> decoded \<Rightarrow> (string \<times> handler) list" where
  "routes a b = internal_routes a b @ public_routes a b @ protected_routes a b @ admin_routes a b @ scoped_routes a b"

section \<open>Preservation\<close>

context store_contract
begin

lemma keeps_guards:
  assumes "\<And>r. keeps (on_db I) (h r)"
  shows "keeps (on_db I) (protected mw h r)" "keeps (on_db I) (requireScope mw ScopesForUser scope h r)"
    "keeps (on_db I) (serverAdmin mw IsUserServerAdmin h r)"
proof -
  have au: "keeps (on_db I) (authenticate mw r)" for r
  proof -
    have "keeps (on_db I) (VerifyBearer t)" "keeps (on_db I) (verifyAPIKey t)" for t
      unfolding VerifyBearer_def verifyAPIKey_def Let_def by (intro keeps_rules)+
    then show ?thesis by (auto simp: authenticate_def mw_def intro!: keeps_rules)
  qed
  have sc: "keeps (on_db I) (ScopesForUser i g)" "keeps (on_db I) (IsUserServerAdmin i)" for i g
    unfolding ScopesForUser_def IsUserServerAdmin_def by (intro keeps_rules)+
  show "keeps (on_db I) (protected mw h r)" "keeps (on_db I) (requireScope mw ScopesForUser scope h r)"
    "keeps (on_db I) (serverAdmin mw IsUserServerAdmin h r)"
    unfolding protected_def requireScope_def serverAdmin_def Middleware_Handler_def principalScopes_def
    by (intro keeps_rules au sc assms)+
qed

lemma keeps_routes:
  assumes "phCompile (aProvider a) = Compile"
  shows "list_all (\<lambda>(pattern, h). \<forall>r. keeps (on_db I) (h r)) (routes a b)"
proof -
  have c: "phCompile (NewAuthProviderHandler (aProvider a)) = Compile" using assms by (simp add: NewAuthProviderHandler_def)
  have plain: "list_all (\<lambda>(pattern, h). \<forall>r. keeps (on_db I) (h r)) (internal_routes a b @ public_routes a b)"
    by (auto simp: internal_routes_def public_routes_def Let_def split: option.splits intro: keeps_rules)
  have "list_all (\<lambda>(pattern, h). \<forall>r. keeps (on_db I) (h r)) (protected_routes a b)"
    by (auto simp: protected_routes_def Let_def intro!: keeps_guards(1) intro: keeps_rules)
  moreover have "list_all (\<lambda>(pattern, h). \<forall>r. keeps (on_db I) (h r)) (admin_routes a b)"
    by (auto simp: admin_routes_def intro!: keeps_guards(3) intro: keeps_rules)
  moreover have "list_all (\<lambda>(pattern, h). \<forall>r. keeps (on_db I) (h r)) (scoped_routes a b)"
    by (auto simp: scoped_routes_def org_routes_def account_routes_def provider_routes_def Let_def
        intro!: keeps_guards(2) intro: keeps_rules keeps_mapping_writes [OF c])
  ultimately show ?thesis using plain by (simp add: routes_def)
qed

end

end
