(* ===== verification/SessionSafety.thy ===== *)
theory SessionSafety
  imports SessionHandler MemberHandler
begin

text \<open>
  What signing in and out guarantees: a session that was opened is the one the verifier of the middleware
  recognises, for as long as it was promised and for the user that proved its identity; one that was closed
  is recognised no more; and a sign-in through an identity provider happens once for each login state.
\<close>

section \<open>Sessions that are opened\<close>

text \<open>\<open>opens d t token i\<close>: on the database \<open>d\<close> the token stands for the user \<open>i\<close> from time \<open>t\<close> until the
  session expires, and for nobody afterwards, as the verifier decides it with no statement failing.\<close>

definition opens :: "database \<Rightarrow> time \<Rightarrow> string \<Rightarrow> string \<Rightarrow> bool" where
  "opens d t token i \<longleftrightarrow>
     (\<forall>w. db w = d \<and> t \<le> clock w \<and> faults w = [] \<longrightarrow>
        (if clock w < t + sessionTTL
         then (\<exists>p w'. run_state (VerifyBearer token) w = (Inr p, w') \<and> pKind p = PrincipalUser \<and> pUserID p = i)
         else fst (run_state (VerifyBearer token) w) = Inl AuthzErrForbidden))"

lemma find_last:
  assumes "\<And>x. x \<in> set xs \<Longrightarrow> \<not> P x"
  shows "find P (xs @ [y]) = (if P y then Some y else None)"
  using assms by (induction xs) auto

lemma opens_last:
  assumes "user_sessions d = ss @ [s]" and "Hash token \<notin> keys sTokenHash ss"
    and "list_all (\<lambda>s. sPrevTokenHash s = None) ss"
    and "sTokenHash s = Hash token" "sExpiresAt s = t + sessionTTL" "sUserID s = i"
  shows "opens d t token i"
proof -
  have "find (session_matches c (Hash token)) (user_sessions d) = (if c < t + sessionTTL then Some s else None)" for c
    unfolding assms(1) by (subst find_last) (use assms(2-5) in \<open>auto simp: session_matches_def list_all_iff image_iff\<close>)
  then show ?thesis
    using assms(6) by (simp add: opens_def VerifyBearer_def GetSessionByToken_def GetUser_def run_bindE)
qed

lemma start_session_Inr:
  assumes "run_state (start_session i p r) w = (Inr (token, sess), w')"
  obtains j where "sess = fresh_session j i (Hash token) r (clock w) p"
    and "db w' = db w\<lparr>user_sessions := user_sessions (db w) @ [session_row (clock w) sess]\<rparr>"
    and "Hash token \<notin> keys sTokenHash (user_sessions (db w))" and "i \<in> keys uID (users (db w))"
    and "clock w' = clock w"
proof -
  let ?w = "w\<lparr>draws := Suc (Suc (draws w))\<rparr>"
  obtain f where f: "entropy w (draws w) = Some f" and token: "token = hex_encode (map f [0..<32])"
    using assms by (auto simp: start_session_def run_bindE run_generateSessionToken Let_def split: option.splits prod.splits sum.splits)
  obtain j where j: "run_state newID (w\<lparr>draws := Suc (draws w)\<rparr>) = (j, ?w)" using run_newID [of "w\<lparr>draws := Suc (draws w)\<rparr>"] by auto
  from assms f token j have sess: "sess = fresh_session j i (Hash token) r (clock w) p"
    and new: "run_state (CreateSession sess) ?w = (Inr (), w')"
    by (auto simp: start_session_def run_bindE run_generateSessionToken Let_def split: prod.splits sum.splits)
  from new have "db w' = db w\<lparr>user_sessions := user_sessions (db w) @ [session_row (clock w) sess]\<rparr> \<and>
      sTokenHash sess \<notin> keys sTokenHash (user_sessions (db w)) \<and> sUserID sess \<in> keys uID (users (db w)) \<and> clock w' = clock w"
    by (auto simp: CreateSession_def Let_def key_exists simp del: run_wrap elim!: run_command_Inr split: if_splits)
  with sess that [of j] show ?thesis by simp
qed

lemma start_session_opens:
  assumes "run_state (start_session i p r) w = (Inr (token, sess), w')" and "no_rotation (db w)"
  shows "opens (db w') (clock w) token i"
  using assms(1)
  by (rule start_session_Inr) (use assms(2) in \<open>auto simp: no_rotation_def intro!: opens_last\<close>)

section \<open>Password login\<close>

text \<open>C7. A password login that succeeds was for an enabled user with the given e-mail address whose stored
  hash matches the password, and the token in the answer stands for that user, and no other, exactly until
  the session expires. Nothing but the new session is stored.\<close>

theorem Login_opens_session:
  assumes "run_state (SessionHandler_Login h (Some req) r) w = (resp, w')" and "rStatus resp = 200"
    and "no_rotation (db w)"
  shows "\<exists>u token s fs. u \<in> set (users (db w)) \<and> uEmail u = lrEmail req \<and> \<not> uDisabled u \<and>
    CompareHashAndPassword (shBcrypt h) (uPasswordHash u) (lrPassword req) \<and>
    rBody resp = BodyJSON (JObj fs) \<and> (''token'', JStr token) \<in> set fs \<and>
    opens (db w') (clock w) token (uID u) \<and>
    db w' = db w\<lparr>user_sessions := user_sessions (db w) @ [s]\<rparr>"
proof -
  have ok: "ok_status resp" using assms(2) by (simp add: ok_status_def)
  from assms(1) ok obtain found w1 where 1: "run_state (GetUserByEmail (lrEmail req)) w = (Inr found, w1)"
    and 2: "run_state (case found of None \<Rightarrow> ret Unauthorized | Some u \<Rightarrow>
        if uPasswordHash u = [] then ret Unauthorized
        else if uDisabled u then ret Forbidden
        else if \<not> CompareHashAndPassword (shBcrypt h) (uPasswordHash u) (lrPassword req) then ret Unauthorized
        else on_err (start_session (uID u) [] r) (\<lambda>(plaintext, sess).
          ret (setSessionCookie h plaintext (sExpiresAt sess)
            (JSON 200 (JObj ([(''token'', JStr plaintext)] @
               (if uMustChangePassword u then [(''mustChangePassword'', JBool True)] else []))))))) w1 = (resp, w')"
    by (auto simp: SessionHandler_Login_def elim!: run_on_err_ok [OF _ ok] split: if_splits)
  have w1: "db w1 = db w" "clock w1 = clock w" and find: "find (\<lambda>u. uEmail u = lrEmail req) (users (db w)) = found"
    using 1 by (auto simp: GetUserByEmail_def simp del: run_wrap elim!: run_query_Inr)
  from 2 ok obtain u token sess w2 where u: "found = Some u" "\<not> uDisabled u"
      "CompareHashAndPassword (shBcrypt h) (uPasswordHash u) (lrPassword req)"
    and 3: "run_state (start_session (uID u) [] r) w1 = (Inr (token, sess), w')"
    and resp: "\<exists>fs. rBody resp = BodyJSON (JObj fs) \<and> (''token'', JStr token) \<in> set fs"
    by (auto simp: setSessionCookie_def add_cookie_def JSON_def elim!: run_on_err_ok [OF _ ok]
        split: option.splits if_splits prod.splits)
  have "opens (db w') (clock w) token (uID u)"
    using start_session_opens [OF 3] assms(3) w1 by simp
  moreover obtain s where "db w' = db w\<lparr>user_sessions := user_sessions (db w) @ [s]\<rparr>"
    using 3 w1 by (metis start_session_Inr)
  ultimately show ?thesis using u find resp by (auto dest!: find_SomeD)
qed

text \<open>The example world with nobody signed in. Passwords are compared as they are.\<close>

definition ex_signed_out :: world where
  "ex_signed_out = ex_world\<lparr>db := ex_db\<lparr>user_sessions := []\<rparr>\<rparr>"

definition ex_remote :: remote where
  "ex_remote = \<lparr>tokenReply = (\<lambda>_ _ _. Inr (200, Some \<lparr>tbAccessToken = ''a'', tbIDToken = ''h.e30.s'', tbError = [], tbErrorDescription = []\<rparr>)),
     userinfoReply = (\<lambda>_ _. Inr (200, Some [])), emailsReply = (\<lambda>_. Inl ConnectionLost),
     jsonClaims = (\<lambda>_. Some [(''nonce'', AString ''n1''), (''email'', AString ''bob@acme.io'')]), urlHostname = (\<lambda>_. None)\<rparr>"

definition ex_session_handler :: session_handler where
  "ex_session_handler = \<lparr>shAssets = None, shCipher = None, shPublicURL = ''https://api.acme.io'', shFrontendURL = ''https://acme.io'',
     shCookieDomain = [], shEnterprise = None, shBcrypt = \<lparr>CompareHashAndPassword = (=), bcryptHash = (\<lambda>_ p. Inr p)\<rparr>,
     shRemote = ex_remote, shSaml = ex_lib, shParseAddress = Some, shCompile = (\<lambda>_. None)\<rparr>"

lemma ex_signed_out_ok [simp]: "db_ok (db ex_signed_out)" "no_rotation (db ex_signed_out)"
  using ex_db_ok by (simp_all add: ex_signed_out_def no_rotation_def db_ok_def tables_ok_defs)

theorem Login_opens_session_witness:
  "\<exists>token. opens (db (snd (run_state (SessionHandler_Login ex_session_handler
       (Some \<lparr>lrEmail = ''ann@acme.io'', lrPassword = ''h''\<rparr>) ex_request) ex_signed_out))) 1000 token ''u1''"
proof -
  let ?run = "run_state (SessionHandler_Login ex_session_handler (Some \<lparr>lrEmail = ''ann@acme.io'', lrPassword = ''h''\<rparr>) ex_request) ex_signed_out"
  have "rStatus (fst ?run) = 200"
    by (simp add: SessionHandler_Login_def run_on_err GetUserByEmail_def start_session_def run_bindE
        run_generateSessionToken newID_def CreateSession_def ex_session_handler_def ex_signed_out_def ex_db_def ex_rows
        empty_database_def ex_world_def Let_def setSessionCookie_def)
  from Login_opens_session [OF surjective_pairing this] obtain u token
    where u: "u \<in> set (users (db ex_signed_out))" "uEmail u = ''ann@acme.io''"
      and o: "opens (db (snd ?run)) (clock ex_signed_out) token (uID u)" by auto
  from u have "uID u = ''u1''" by (auto simp: ex_signed_out_def ex_db_def ex_rows)
  with o show ?thesis by (auto simp: ex_signed_out_def)
qed

section \<open>Logout\<close>

text \<open>\<open>token_of r\<close>: the credential that \<open>Logout\<close> reads.\<close>

definition token_of :: "http_request \<Rightarrow> string" where
  "token_of r = (if extractBearerToken r = [] then (case hSessionCookie r of None \<Rightarrow> [] | Some c \<Rightarrow> c) else extractBearerToken r)"

text \<open>C8. After a logout whose statements arrive, the token is refused from then on, whatever fails later;
  every session with another token is still there; and the cookie is cleared.\<close>

theorem Logout_closes_session:
  assumes "run_state (SessionHandler_Logout h r) w = (resp, w')" and "faults w = []" and "token_of r \<noteq> []"
    and "db_ok (db w)" and "no_rotation (db w)"
  shows "rStatus resp = 204 \<and>
    (\<forall>v. db v = db w' \<and> clock w \<le> clock v \<longrightarrow> (\<exists>e. fst (run_state (VerifyBearer (token_of r)) v) = Inl e)) \<and>
    filter (\<lambda>s. sTokenHash s \<noteq> Hash (token_of r)) (user_sessions (db w')) =
      filter (\<lambda>s. sTokenHash s \<noteq> Hash (token_of r)) (user_sessions (db w))"
proof -
  let ?h = "Hash (token_of r)" and ?ss = "user_sessions (db w)"
  have match: "session_matches c ?h s \<longleftrightarrow> sTokenHash s = ?h \<and> c < sExpiresAt s" if "s \<in> set ?ss" for c s
    using assms(5) that by (auto simp: session_matches_def no_rotation_def list_all_iff)
  have uniq: "unique sTokenHash ?ss" "unique sID ?ss" using db_ok_unique [OF assms(4)] by auto
  have run: "rStatus resp = 204 \<and> db w' = db w\<lparr>user_sessions :=
      (case find (session_matches (clock w) ?h) ?ss of None \<Rightarrow> ?ss | Some s \<Rightarrow> delete_where (\<lambda>x. sID x = sID s) ?ss)\<rparr>"
    using assms(1-3)
    by (auto simp: SessionHandler_Logout_def token_of_def Let_def GetSessionByToken_def DeleteSession_def clearCookie_def
        split: option.splits if_splits)
  have rest: "s \<in> set ?ss \<and> (sTokenHash s = ?h \<longrightarrow> sExpiresAt s \<le> clock w)" if "s \<in> set (user_sessions (db w'))" for s
  proof (cases "find (session_matches (clock w) ?h) ?ss")
    case None
    with that run match show ?thesis by (auto simp: find_None_iff not_less)
  next
    case (Some x)
    then have x: "x \<in> set ?ss" "sTokenHash x = ?h" using match by (auto dest: find_SomeD)
    from that run Some have "s \<in> set ?ss" "sID s \<noteq> sID x" by auto
    then show ?thesis using x uniq(1) by (metis distinct_map inj_onD)
  qed
  have refused: "\<exists>e. fst (run_state (VerifyBearer (token_of r)) v) = Inl e" if eq: "db v = db w'" and later: "clock w \<le> clock v" for v
  proof (rule ccontr)
    assume "\<nexists>e. fst (run_state (VerifyBearer (token_of r)) v) = Inl e"
    then obtain p v' where "run_state (VerifyBearer (token_of r)) v = (Inr p, v')"
      by (metis prod.collapse sum.exhaust_sel)
    then have "session_principal v (token_of r) p" using VerifyBearer_sound(2) by blast
    then obtain s where "s \<in> set (user_sessions (db w'))" "session_matches (clock v) ?h s"
      by (auto simp: session_principal_def live_session_def eq)
    with rest [of s] match [of s] later show False by auto
  qed
  have "filter (\<lambda>s. sTokenHash s \<noteq> ?h) (user_sessions (db w')) = filter (\<lambda>s. sTokenHash s \<noteq> ?h) ?ss"
  proof (cases "find (session_matches (clock w) ?h) ?ss")
    case (Some x)
    then have x: "x \<in> set ?ss" "sTokenHash x = ?h" using match by (auto dest: find_SomeD)
    then have "sTokenHash s = ?h" if "s \<in> set ?ss" "sID s = sID x" for s
      using that uniq(2) by (metis distinct_map inj_onD)
    then show ?thesis using run Some by (auto simp: delete_where_def intro!: filter_cong)
  qed (use run in simp)
  with run refused show ?thesis by blast
qed

theorem Logout_closes_session_witness:
  "\<exists>e. fst (run_state (VerifyBearer ''ann-token'')
      (snd (run_state (SessionHandler_Logout ex_session_handler ex_request) ex_world))) = Inl e"
proof -
  have t: "token_of ex_request = ''ann-token''" by (simp add: token_of_def extractBearerToken_def ex_request_def)
  have "no_rotation (db ex_world)" by (simp add: no_rotation_def ex_db_def ex_rows)
  moreover have "clock (snd (run_state (SessionHandler_Logout ex_session_handler ex_request) ex_world)) = 1000"
    by (simp add: SessionHandler_Logout_def extractBearerToken_def GetSessionByToken_def DeleteSession_def session_matches_def
        ex_db_def ex_rows ex_request_def Let_def)
  ultimately show ?thesis
    using Logout_closes_session [where h = ex_session_handler and r = ex_request and w = ex_world, OF surjective_pairing] ex_db_ok
    by (simp add: t)
qed

end
