(* ===== verification/SsoSafety.thy ===== *)
theory SsoSafety
  imports SessionSafety
begin

text \<open>
  What a sign-in through an identity provider guarantees. The two callbacks (OIDC and SAML) share the check of
  the pending login (\<open>consumeState\<close>) and the last part (\<open>completeLogin\<close>); each is specified once and the
  callbacks are composed from them.
\<close>

section \<open>The pending login\<close>

text \<open>\<open>pending d t r state kind prov ls\<close>: \<open>state\<close> belongs to a pending login \<open>ls\<close> that has not expired, at the enabled
  provider \<open>prov\<close> of the path, which is of the expected kind.\<close>

definition pending ::
  "database \<Rightarrow> time \<Rightarrow> http_request \<Rightarrow> string \<Rightarrow> string \<Rightarrow> auth_provider \<Rightarrow> login_state \<Rightarrow> bool" where
  "pending d t r state kind prov ls \<longleftrightarrow>
     ls \<in> set (auth_login_state d) \<and> lsState ls = state \<and> t \<le> lsExpiresAt ls \<and> lsProviderID ls = apID prov \<and>
     prov \<in> set (auth_providers d) \<and> apEnabled prov \<and> apKind prov = kind \<and>
     apOrgID prov = pathValue r ''orgID'' \<and> apSlug prov = pathValue r ''slug''"

definition without_state :: "string \<Rightarrow> database \<Rightarrow> database" where
  "without_state state d = d\<lparr>auth_login_state := delete_where (\<lambda>s. lsState s = state) (auth_login_state d)\<rparr>"

lemma without_state_simps [simp]:
  "users (without_state s d) = users d" "user_sessions (without_state s d) = user_sessions d"
  "org_members (without_state s d) = org_members d" "auth_role_mappings (without_state s d) = auth_role_mappings d"
  "no_rotation (without_state s d) = no_rotation d" "auth_providers (without_state s d) = auth_providers d"
  "auth_login_state (without_state s d) = delete_where (\<lambda>x. lsState x = s) (auth_login_state d)"
  by (simp_all add: without_state_def no_rotation_def)

lemma ConsumeLoginState_cases:
  assumes "run_state (ConsumeLoginState state) w = (res, w')"
  shows "clock w' = clock w" and "db w' \<in> {db w, without_state state (db w)}"
    and "\<And>ls. res = Inr (Some ls) \<Longrightarrow> db w' = without_state state (db w) \<and> clock w \<le> lsExpiresAt ls \<and>
      ls \<in> set (auth_login_state (db w)) \<and> lsState ls = state"
  using assms
  by (auto simp: ConsumeLoginState_def run_bindE exec_def Let_def without_state_def not_less
      split: option.splits fault.splits if_splits dest!: find_SomeD)

lemma loadProvider_Inr:
  assumes "run_state (loadProvider r) w = (res, w')"
  shows "db w' = db w" and "clock w' = clock w"
    and "\<And>p. res = Inr p \<Longrightarrow> p \<in> set (auth_providers (db w)) \<and> apEnabled p \<and>
      apOrgID p = pathValue r ''orgID'' \<and> apSlug p = pathValue r ''slug''"
  using assms
  by (auto simp: loadProvider_def GetAuthProviderBySlug_def run_bindE query_def exec_def Let_def
      split: option.splits fault.splits if_splits dest!: find_SomeD)

lemma consumeState_sound:
  assumes "run_state (consumeState r state kind) w = (res, w')"
  shows "clock w' = clock w"
    and "\<And>prov ls. res = Inr (prov, ls) \<Longrightarrow>
      pending (db w) (clock w) r state kind prov ls \<and> db w' = without_state state (db w)"
proof -
  obtain res1 w1 where 1: "run_state (ConsumeLoginState state) w = (res1, w1)" by fastforce
  obtain res2 w2 where 2: "run_state (loadProvider r) w1 = (res2, w2)" by fastforce
  note c = ConsumeLoginState_cases [OF 1] and l = loadProvider_Inr [OF 2]
  show "clock w' = clock w"
    using assms 1 2 c(1) l(2) by (auto simp: consumeState_def split: if_splits sum.splits option.splits)
  show "pending (db w) (clock w) r state kind prov ls \<and> db w' = without_state state (db w)" if "res = Inr (prov, ls)" for prov ls
    using assms that 1 2 c(3) l(1,3)
    by (fastforce simp: consumeState_def pending_def split: if_splits sum.splits option.splits)
qed

lemma consumeState_refused:
  assumes "run_state (consumeState r state kind) w = (Inl resp, w')"
  shows "\<not> ok_status resp"
  using assms by (auto simp: consumeState_def split: if_splits sum.splits option.splits prod.splits)

section \<open>From the assertion to the session\<close>

definition rules_of :: "database \<Rightarrow> string \<Rightarrow> rule list" where
  "rules_of d i = map rule.truncate (sort_key rPriority (sort_key rCreatedAt
     (filter (\<lambda>r. rProviderID r = i) (auth_role_mappings d))))"

text \<open>\<open>has_role d i g role\<close>: the user \<open>i\<close> is a member of the organisation \<open>g\<close> with that role.\<close>

definition has_role :: "database \<Rightarrow> string \<Rightarrow> string \<Rightarrow> role \<Rightarrow> bool" where
  "has_role d i g role \<longleftrightarrow> (\<exists>m\<in>set (org_members d). mUserID m = i \<and> mOrgID m = g \<and> mRole m = role)"

text \<open>The frame of the writes between the user's lookup and the session.\<close>

lemma UpsertMember_Inr:
  assumes "run_state (UpsertMember m) w = (Inr u, w')"
  shows "has_role (db w') (mUserID m) (mOrgID m) (mRole m)" and "users (db w') = users (db w)"
    and "user_sessions (db w') = user_sessions (db w)" and "auth_login_state (db w') = auth_login_state (db w)"
    and "clock w' = clock w"
  using assms
  by (auto simp: UpsertMember_def upsert_member_def has_role_def member_row_def set_update_where bex_Un
      simp del: run_wrap elim!: run_command_Inr split: if_splits) blast

lemma UpsertAuthIdentity_Inr:
  assumes "run_state (UpsertAuthIdentity a) w = (Inr u, w')"
  shows "users (db w') = users (db w)" "org_members (db w') = org_members (db w)"
    "user_sessions (db w') = user_sessions (db w)" "auth_login_state (db w') = auth_login_state (db w)" "clock w' = clock w"
  using assms by (auto simp: UpsertAuthIdentity_def simp del: run_wrap elim!: run_command_Inr split: if_splits)

lemma seatLimitReached_resp:
  assumes "run_state (seatLimitReached ent g 403) w = (Some resp, w')"
  shows "\<not> ok_status resp"
  using assms by (auto simp: seatLimitReached_def Let_def split: option.splits sum.splits if_splits prod.splits)

text \<open>\<open>signed_in h prov ls auth u role resp d t d'\<close>: what the end of a sign-in leaves behind.\<close>

definition signed_in ::
  "session_handler \<Rightarrow> auth_provider \<Rightarrow> login_state \<Rightarrow> string \<Rightarrow> role \<Rightarrow> response \<Rightarrow> time \<Rightarrow> database \<Rightarrow> bool" where
  "signed_in h prov ls i role resp t d \<longleftrightarrow>
     has_role d i (apOrgID prov) role \<and> rLocation resp = Some (frontendBase h @ lsRedirectTo ls) \<and>
     (\<exists>c\<in>set (rCookies resp). ckName c = sessionCookie \<and> opens d t (ckValue c) i)"

lemma join_and_open_sound:
  assumes "run_state (join_and_open h prov ls auth u role r) w = (resp, w')" and ok: "ok_status resp" and "no_rotation (db w)"
  shows "signed_in h prov ls (uID u) role resp (clock w) (db w') \<and>
    users (db w') = users (db w) \<and> auth_login_state (db w') = auth_login_state (db w)"
proof -
  let ?m = "new_member (uID u) (apOrgID prov) role ''sso''"
  from assms(1) obtain w1 w2 token sess where 1: "run_state (UpsertMember ?m) w = (Inr (), w1)"
    and 2: "run_state (if caSub auth \<noteq> [] then UpsertAuthIdentity \<lparr>aiUserID = uID u, aiProviderID = apID prov, aiSub = caSub auth\<rparr>
              else ret (Inr ())) w1 = (Inr (), w2)"
    and 3: "run_state (start_session (uID u) (apDisplayName prov) r) w2 = (Inr (token, sess), w')"
    and resp: "resp = setSessionCookie h token (sExpiresAt sess) (Redirect (frontendBase h @ lsRedirectTo ls))"
    unfolding join_and_open_def
    by (elim run_on_err_ok [OF _ ok]) (auto split: prod.splits)
  note m = UpsertMember_Inr [OF 1]
  have w2: "users (db w2) = users (db w1)" "org_members (db w2) = org_members (db w1)" "clock w2 = clock w1"
      "user_sessions (db w2) = user_sessions (db w1)" "auth_login_state (db w2) = auth_login_state (db w1)"
    using 2 by (auto dest: UpsertAuthIdentity_Inr split: if_splits)
  have rot: "no_rotation (db w2)" using assms(3) w2 m by (simp add: no_rotation_def)
  have d: "users (db w') = users (db w2)" "org_members (db w') = org_members (db w2)"
      "auth_login_state (db w') = auth_login_state (db w2)"
    using 3 by (auto elim!: start_session_Inr)
  have "opens (db w') (clock w) token (uID u)" using start_session_opens [OF 3 rot] w2 m by simp
  moreover have "has_role (db w') (uID u) (apOrgID prov) role"
    using m(1) d w2 by (simp add: has_role_def new_member_def)
  ultimately show ?thesis
    using resp d w2 m by (simp add: signed_in_def setSessionCookie_def add_cookie_def Redirect_def)
qed

lemma finish_login_sound:
  assumes "run_state (finish_login h prov ls auth u r) w = (resp, w')" and ok: "ok_status resp" and "no_rotation (db w)"
  shows "\<exists>role. \<not> uDisabled u \<and>
    Resolve (shCompile h) (rules_of (db w) (apID prov)) (caAttributes auth) (apDefaultRole prov) = Inr role \<and>
    signed_in h prov ls (uID u) role resp (clock w) (db w') \<and>
    users (db w') = users (db w) \<and> auth_login_state (db w') = auth_login_state (db w)"
proof -
  from assms(1) ok have dis: "\<not> uDisabled u" by (auto simp: finish_login_def)
  with assms(1) have "run_state (on_err (ListRoleMappings (apID prov)) (\<lambda>rules.
        case Resolve (shCompile h) rules (caAttributes auth) (apDefaultRole prov) of
          Inl err \<Rightarrow> ret (Error err)
        | Inr role \<Rightarrow>
            on_err (GetMember (uID u) (apOrgID prov)) (\<lambda>mem.
            State_Monad.bind (if mem = None then seatLimitReached (shEnterprise h) (apOrgID prov) 403 else ret None) (\<lambda>limited.
              case limited of Some resp \<Rightarrow> ret resp | None \<Rightarrow> join_and_open h prov ls auth u role r)))) w = (resp, w')"
    by (simp add: finish_login_def)
  then obtain rules w1 role mem w2 where 1: "run_state (ListRoleMappings (apID prov)) w = (Inr rules, w1)"
    and role: "Resolve (shCompile h) rules (caAttributes auth) (apDefaultRole prov) = Inr role"
    and 2: "run_state (GetMember (uID u) (apOrgID prov)) w1 = (Inr mem, w2)"
    and 3: "run_state (State_Monad.bind (if mem = None then seatLimitReached (shEnterprise h) (apOrgID prov) 403 else ret None) (\<lambda>limited.
          case limited of Some resp \<Rightarrow> ret resp | None \<Rightarrow> join_and_open h prov ls auth u role r)) w2 = (resp, w')"
    by (elim run_on_err_ok [OF _ ok]) (use ok in \<open>auto elim!: run_on_err_ok [OF _ ok] split: sum.splits simp del: run_state_bind\<close>)
  from 3 obtain x w3 where 4: "run_state (if mem = None then seatLimitReached (shEnterprise h) (apOrgID prov) 403 else ret None) w2 = (x, w3)"
    and 5: "run_state (case x of Some resp \<Rightarrow> ret resp | None \<Rightarrow> join_and_open h prov ls auth u role r) w3 = (resp, w')"
    by (rule run_bind_cases)
  have "x = None" using 4 5 ok by (auto split: option.splits if_splits dest: seatLimitReached_resp)
  with 5 have 6: "run_state (join_and_open h prov ls auth u role r) w3 = (resp, w')" by simp
  have w1: "db w1 = db w" "clock w1 = clock w" and rules: "rules = rules_of (db w) (apID prov)"
    using 1 by (auto simp: ListRoleMappings_def rules_of_def simp del: run_wrap elim!: run_query_Inr)
  have w2: "db w2 = db w" "clock w2 = clock w"
    using 2 w1 by (auto simp: GetMember_def simp del: run_wrap elim!: run_query_Inr)
  have w3: "db w3 = db w" "clock w3 = clock w"
    using 4 w2 by (auto dest: seatLimitReached_db split: if_splits)
  show ?thesis
    using join_and_open_sound [OF 6 ok] assms(3) dis role rules w3 by auto
qed

text \<open>\<open>sso_login\<close>: the address that the provider asserted is well-formed and allowed, it belongs to an enabled user,
  known before or created because the provider allows signing up, and the user is signed in with the role that
  the provider's rules give.\<close>

definition sso_login ::
  "session_handler \<Rightarrow> auth_provider \<Rightarrow> login_state \<Rightarrow> completedAuth \<Rightarrow> database \<Rightarrow> time \<Rightarrow> response \<Rightarrow> database \<Rightarrow> bool" where
  "sso_login h prov ls auth d t resp d' \<longleftrightarrow> (\<exists>email u role.
     validEmail (shParseAddress h) (caEmail auth) = Some email \<and> EmailAllowed prov email \<and>
     u \<in> set (users d') \<and> uEmail u = email \<and> \<not> uDisabled u \<and>
     (u \<in> set (users d) \<or> apAllowSignUp prov \<and> email \<notin> keys uEmail (users d)) \<and>
     Resolve (shCompile h) (rules_of d (apID prov)) (caAttributes auth) (apDefaultRole prov) = Inr role \<and>
     signed_in h prov ls (uID u) role resp t d')"

lemma CreateUser_Inr:
  assumes "run_state (CreateUser u) w = (Inr x, w')"
  shows "db w' = db w\<lparr>users := users (db w) @ [user_row (clock w) u]\<rparr>" and "clock w' = clock w"
    and "uEmail u \<notin> keys uEmail (users (db w))"
  using assms by (auto simp: CreateUser_def Let_def image_iff simp del: run_wrap elim!: run_command_Inr split: if_splits)

lemma completeLogin_sound:
  assumes "run_state (completeLogin h prov ls auth r) w = (resp, w')" and ok: "ok_status resp" and "no_rotation (db w)"
  shows "sso_login h prov ls auth (db w) (clock w) resp (db w') \<and> auth_login_state (db w') = auth_login_state (db w)"
proof -
  from assms(1) ok obtain email where email: "validEmail (shParseAddress h) (caEmail auth) = Some email"
      "EmailAllowed prov email"
    and run: "run_state (on_err (GetUserByEmail email) (\<lambda>found. case found of
        Some u \<Rightarrow> finish_login h prov ls auth u r
      | None \<Rightarrow> if \<not> apAllowSignUp prov then ret Forbidden
               else State_Monad.bind newID (\<lambda>i. let u = sso_user i auth email in
                 on_err (CreateUser u) (\<lambda>_. finish_login h prov ls auth u r)))) w = (resp, w')"
    by (auto simp: completeLogin_def split: if_splits option.splits)
  from run obtain found w1 where 1: "run_state (GetUserByEmail email) w = (Inr found, w1)"
    and 2: "run_state (case found of
        Some u \<Rightarrow> finish_login h prov ls auth u r
      | None \<Rightarrow> if \<not> apAllowSignUp prov then ret Forbidden
               else State_Monad.bind newID (\<lambda>i. let u = sso_user i auth email in
                 on_err (CreateUser u) (\<lambda>_. finish_login h prov ls auth u r))) w1 = (resp, w')"
    by (rule run_on_err_ok [OF _ ok])
  have w1: "db w1 = db w" "clock w1 = clock w" and found: "found = find (\<lambda>u. uEmail u = email) (users (db w))"
    using 1 by (auto simp: GetUserByEmail_def simp del: run_wrap elim!: run_query_Inr)
  have rot: "no_rotation (db w1)" using assms(3) w1 by simp
  show ?thesis
  proof (cases found)
    case (Some u)
    with 2 have 3: "run_state (finish_login h prov ls auth u r) w1 = (resp, w')" by simp
    have "u \<in> set (users (db w))" "uEmail u = email" using Some found by (auto dest: find_SomeD)
    with finish_login_sound [OF 3 ok rot] email w1 show ?thesis unfolding sso_login_def by auto
  next
    case None
    with 2 ok obtain i w2 where sign: "apAllowSignUp prov" and "run_state newID w1 = (i, w2)"
      and 3: "run_state (on_err (CreateUser (sso_user i auth email)) (\<lambda>_. finish_login h prov ls auth (sso_user i auth email) r)) w2 = (resp, w')"
      by (auto simp: Let_def split: if_splits prod.splits)
    then have w2: "db w2 = db w" "clock w2 = clock w" using w1 run_newID [of w1] by auto
    from 3 obtain w3 where 4: "run_state (CreateUser (sso_user i auth email)) w2 = (Inr (), w3)"
      and 5: "run_state (finish_login h prov ls auth (sso_user i auth email) r) w3 = (resp, w')"
      by (auto elim: run_on_err_ok [OF _ ok])
    note c = CreateUser_Inr [OF 4]
    let ?u = "user_row (clock w) (sso_user i auth email)"
    have u: "uID ?u = uID (sso_user i auth email)" "uEmail ?u = email" "\<not> uDisabled ?u"
      by (simp_all add: user_row_def sso_user_def new_user_def)
    have "no_rotation (db w3)" using assms(3) c w2 by (simp add: no_rotation_def)
    from finish_login_sound [OF 5 ok this] c w2 email sign u show ?thesis
      unfolding sso_login_def by (auto simp: rules_of_def intro!: exI [of _ ?u])
  qed
qed

lemma sso_login_without [simp]:
  "sso_login h prov ls auth (without_state s d) t resp d' = sso_login h prov ls auth d t resp d'"
  by (simp add: sso_login_def rules_of_def)

section \<open>The callbacks\<close>

lemma callback_cases:
  assumes "run_state (State_Monad.bind (consumeState r state kind) (\<lambda>res. case res of Inl resp \<Rightarrow> ret resp | Inr x \<Rightarrow> k x)) w = (resp, w')"
    and "ok_status resp"
  obtains prov ls w1 where "pending (db w) (clock w) r state kind prov ls" and "db w1 = without_state state (db w)"
    and "clock w1 = clock w" and "run_state (k (prov, ls)) w1 = (resp, w')"
proof -
  obtain res w1 where 1: "run_state (consumeState r state kind) w = (res, w1)" by fastforce
  show ?thesis
  proof (cases res)
    case (Inl e)
    with 1 assms consumeState_refused show ?thesis by auto
  next
    case (Inr x)
    obtain prov ls where x: "x = (prov, ls)" by fastforce
    from consumeState_sound [OF 1] Inr x have "pending (db w) (clock w) r state kind prov ls"
      and "db w1 = without_state state (db w)" and "clock w1 = clock w" by auto
    moreover from assms 1 Inr x have "run_state (k (prov, ls)) w1 = (resp, w')" by simp
    ultimately show ?thesis by (rule that)
  qed
qed

text \<open>The example world with two providers of the first organisation and a pending login at each.\<close>

definition ex_provider :: "string \<Rightarrow> string \<Rightarrow> auth_provider" where
  "ex_provider i kind = AuthProvider_zero\<lparr>apID := i, apSlug := i, apOrgID := ''g1'', apKind := kind, apDisplayName := i,
     apEnabled := True, apDefaultRole := RoleEditor, apIDPSSOURL := ''https://idp/sso'', apIDPCert := ''MIIB''\<rparr>"

definition ex_pending :: "string \<Rightarrow> string \<Rightarrow> login_state" where
  "ex_pending i prov = \<lparr>lsID = i, lsState = i, lsOrgID = ''g1'', lsProviderID = prov, lsNonce = ''n1'', lsSAMLRequestID = ''id-1'',
     lsRedirectTo = ''/home'', lsCreatedAt = 900, lsExpiresAt = 2000\<rparr>"

definition ex_sso_world :: world where
  "ex_sso_world = ex_world\<lparr>db := ex_db\<lparr>user_sessions := [],
     users := users ex_db @ [ex_user ''u4'' ''ann'' ''user''],
     auth_providers := [ex_provider ''p1'' KindOIDC, ex_provider ''p2'' KindSAML],
     auth_login_state := [ex_pending ''st1'' ''p1'', ex_pending ''st2'' ''p2'']\<rparr>\<rparr>"

definition ex_callback :: "string \<Rightarrow> http_request" where
  "ex_callback slug = ex_request\<lparr>pathValue := (\<lambda>k. if k = ''orgID'' then ''g1'' else slug),
     queryValue := (\<lambda>k. if k = ''state'' then ''st1'' else ''code''), formValue := Some (\<lambda>_. ''st2'')\<rparr>"

lemmas ex_sso_defs = ex_sso_world_def ex_callback_def ex_pending_def ex_provider_def AuthProvider_zero_def ex_db_def ex_rows
  empty_database_def ex_world_def ex_session_handler_def ex_remote_def

lemma ex_sso_rot [simp]: "no_rotation (db ex_sso_world)"
  by (simp add: ex_sso_world_def no_rotation_def)

lemma ex_trim: "TrimSpace ''bob@acme.io'' = ''bob@acme.io''" "TrimSpace ''ann'' = ''ann''" "TrimSpace [] = []"
  by code_simp+

lemmas run_sso_defs = consumeState_def ConsumeLoginState_def loadProvider_def GetAuthProviderBySlug_def run_bindE run_on_err
  completeLogin_def finish_login_def join_and_open_def GetUserByEmail_def ListRoleMappings_def GetMember_def UpsertMember_def
  upsert_member_def UpsertAuthIdentity_def start_session_def run_generateSessionToken newID_def CreateSession_def
  setSessionCookie_def run_exec_healthy new_member_def validEmail_def EmailAllowed_def Resolve_def seatLimitReached_def Let_def
  KindOIDC_def KindSAML_def claimOr_def claimString_def attrString_def decrypt_secret_def

lemma ex_oidc_ok:
  "ok_status (fst (run_state (SessionHandler_OIDCCallback ex_session_handler (ex_callback ''p1'')) ex_sso_world))"
proof -
  have "Split ''h.e30.s'' CHR ''.'' = [''h'', ''e30'', ''s'']" and "RawURLDecode ''e30'' = Some [123, 125]" by code_simp+
  then show ?thesis
    by (simp add: SessionHandler_OIDCCallback_def run_sso_defs oauthProvider_def Exchange_def MergedClaims_def IDTokenClaims_def
        VerifyNonce_def FetchUserInfo_def isGitHubHost_def merge_claims_def set_claim_def ex_sso_defs ex_trim)
qed

lemma ex_saml_ok:
  "ok_status (fst (run_state (SessionHandler_SAMLACS ex_session_handler (ex_callback ''p2'')) ex_sso_world))"
proof -
  have t: "TrimSpace ''MIIB'' = ''MIIB''" "drop_spaces ''MIIB'' = ''MIIB''" "StdDecode ''MIIB'' = Some [48, 130, 1]"
    by code_simp+
  have n: "normalizeCerts ex_lib ''MIIB'' = Inr [''MIIB'']"
    by (simp add: normalizeCerts_def t ex_lib_def)
  show ?thesis
    by (simp add: SessionHandler_SAMLACS_def run_sso_defs samlProvider_def samlProviderFor_def ValidateResponse_def
        serviceProvider_def n ex_sso_defs ex_trim) (simp add: ex_lib_def ex_trim run_sso_defs ex_sso_defs)
qed

definition oidc_auth :: "auth_provider \<Rightarrow> claims \<Rightarrow> completedAuth" where
  "oidc_auth prov cs =
     \<lparr>caSub = claimString cs (claimOr (apSubClaim prov) ''sub''), caEmail = claimString cs (claimOr (apEmailClaim prov) ''email''),
      caName = claimString cs (claimOr (apNameClaim prov) ''name''), caAttributes = cs\<rparr>"

lemma OIDCCallback_cases:
  assumes "run_state (SessionHandler_OIDCCallback h r) w = (resp, w')" and "ok_status resp"
  obtains prov ls w1 p tok cs where "pending (db w) (clock w) r (queryValue r ''state'') KindOIDC prov ls"
    and "db w1 = without_state (queryValue r ''state'') (db w)" and "clock w1 = clock w"
    and "oauthProvider h prov = Inr p"
    and "Exchange (shRemote h) p (queryValue r ''code'') (oidcRedirectURI (shPublicURL h) (apOrgID prov) (apSlug prov)) = Inr tok"
    and "MergedClaims (shRemote h) p tok (lsNonce ls) = Inr cs"
    and "run_state (completeLogin h prov ls (oidc_auth prov cs) r) w1 = (resp, w')"
  using assms unfolding SessionHandler_OIDCCallback_def
  by (elim callback_cases) (auto simp: Let_def oidc_auth_def split: if_splits sum.splits)

text \<open>\<open>issued\<close>: the claims that an identity provider issued for a code and a nonce. The token endpoint accepted the code, the user-info endpoint
  answered for its access token, and an ID token, when there is one, carries the nonce. A claim of the user-info endpoint comes before one of the ID token.\<close>

definition issued :: "remote \<Rightarrow> oauth_provider \<Rightarrow> string \<Rightarrow> string \<Rightarrow> string \<Rightarrow> claims \<Rightarrow> bool" where
  "issued R p code uri nonce cs \<longleftrightarrow> (\<exists>body info. tokenReply R p code uri = Inr (200, Some body) \<and> tbAccessToken body \<noteq> [] \<and>
     FetchUserInfo R p (tbAccessToken body) = Inr info \<and>
     (if tbIDToken body = [] then \<forall>k. map_of cs k = map_of info k
      else \<exists>hd part sig payload idc. Split (tbIDToken body) CHR ''.'' = [hd, part, sig] \<and> RawURLDecode part = Some payload \<and>
        jsonClaims R payload = Some idc \<and> nonce \<noteq> [] \<and> map_of idc ''nonce'' = Some (AString nonce) \<and>
        (\<forall>k. map_of cs k = (case map_of info k of Some v \<Rightarrow> Some v | None \<Rightarrow> map_of idc k))))"

lemma Exchange_Inr:
  assumes "Exchange R p code uri = Inr tok"
  obtains body where "tokenReply R p code uri = Inr (200, Some body)" and "tbAccessToken body \<noteq> []" and "otAccessToken tok = tbAccessToken body"
    and "otIDToken tok = tbIDToken body"
  using assms by (auto simp: Exchange_def split: sum.splits if_splits option.splits)

lemma IDTokenClaims_Inr:
  assumes "IDTokenClaims R t = Inr idc"
  obtains hd part sig payload where "Split t CHR ''.'' = [hd, part, sig]" and "RawURLDecode part = Some payload" and "jsonClaims R payload = Some idc"
  using assms by (auto simp: IDTokenClaims_def split: list.splits option.splits)

lemma claims_issued:
  assumes "Exchange R p code uri = Inr tok" and "MergedClaims R p tok nonce = Inr cs"
  shows "issued R p code uri nonce cs"
proof -
  obtain body where body: "tokenReply R p code uri = Inr (200, Some body)" "tbAccessToken body \<noteq> []" "otAccessToken tok = tbAccessToken body"
      "otIDToken tok = tbIDToken body"
    using assms(1) by (rule Exchange_Inr)
  show ?thesis
  proof (cases "tbIDToken body = []")
    case True
    then obtain info where "FetchUserInfo R p (tbAccessToken body) = Inr info" "cs = merge_claims [] info"
      using assms(2) body(3,4) by (auto simp: MergedClaims_def split: sum.splits)
    then show ?thesis using body(1,2) True unfolding issued_def by (auto simp: merge_claims_lookup split: option.splits)
  next
    case False
    with body(4) have "otIDToken tok \<noteq> []" by simp
    from MergedClaims_nonce [OF assms(2) this] obtain idc info where c: "IDTokenClaims R (tbIDToken body) = Inr idc" "nonce \<noteq> []"
        "map_of idc ''nonce'' = Some (AString nonce)" "FetchUserInfo R p (tbAccessToken body) = Inr info"
        "\<forall>k. map_of cs k = (case map_of info k of Some v \<Rightarrow> Some v | None \<Rightarrow> map_of idc k)"
      unfolding body(3,4) by blast
    from c(1) show ?thesis using body(1,2) False c(2-5) unfolding issued_def by (elim IDTokenClaims_Inr) auto
  qed
qed

text \<open>C5. An OIDC callback signs somebody in only for a login that is pending at this enabled provider of the
  organisation of the path and has not expired, with claims that the provider issued for the code and the
  nonce of that login: its token endpoint accepted the code, and an ID token in its answer repeats the nonce, which is not empty. (A provider that
  sends no ID token is believed without a nonce.) The user is the one with the asserted, allowed address; and the pending login is used up.\<close>

theorem OIDCCallback_sound:
  assumes "run_state (SessionHandler_OIDCCallback h r) w = (resp, w')" and "ok_status resp" and "no_rotation (db w)"
  shows "\<exists>prov ls p cs. pending (db w) (clock w) r (queryValue r ''state'') KindOIDC prov ls \<and>
    oauthProvider h prov = Inr p \<and>
    issued (shRemote h) p (queryValue r ''code'') (oidcRedirectURI (shPublicURL h) (apOrgID prov) (apSlug prov)) (lsNonce ls) cs \<and>
    sso_login h prov ls (oidc_auth prov cs) (db w) (clock w) resp (db w') \<and>
    auth_login_state (db w') = delete_where (\<lambda>s. lsState s = queryValue r ''state'') (auth_login_state (db w))"
  using assms(1,2)
proof (rule OIDCCallback_cases)
  fix prov ls w1 p tok cs
  assume a: "pending (db w) (clock w) r (queryValue r ''state'') KindOIDC prov ls" "oauthProvider h prov = Inr p"
    and c: "Exchange (shRemote h) p (queryValue r ''code'') (oidcRedirectURI (shPublicURL h) (apOrgID prov) (apSlug prov)) = Inr tok"
      "MergedClaims (shRemote h) p tok (lsNonce ls) = Inr cs"
    and w1: "db w1 = without_state (queryValue r ''state'') (db w)" "clock w1 = clock w"
    and run: "run_state (completeLogin h prov ls (oidc_auth prov cs) r) w1 = (resp, w')"
  from completeLogin_sound [OF run assms(2)] assms(3) w1
  have "sso_login h prov ls (oidc_auth prov cs) (db w) (clock w) resp (db w')"
    and "auth_login_state (db w') = delete_where (\<lambda>s. lsState s = queryValue r ''state'') (auth_login_state (db w))" by auto
  with a claims_issued [OF c] show ?thesis by blast
qed

theorem OIDCCallback_sound_witness:
  "auth_login_state (db (snd (run_state (SessionHandler_OIDCCallback ex_session_handler (ex_callback ''p1'')) ex_sso_world))) =
     [ex_pending ''st2'' ''p2'']"
proof -
  have "delete_where (\<lambda>s. lsState s = queryValue (ex_callback ''p1'') ''state'') (auth_login_state (db ex_sso_world)) =
      [ex_pending ''st2'' ''p2'']"
    by (simp add: ex_sso_world_def ex_pending_def ex_callback_def delete_where_def)
  with OIDCCallback_sound [OF surjective_pairing ex_oidc_ok ex_sso_rot] show ?thesis by metis
qed


definition saml_email :: "auth_provider \<Rightarrow> saml_identity \<Rightarrow> string" where
  "saml_email prov idn =
     (if apEmailAttribute prov \<noteq> [] then attrString (siAttributes idn) (apEmailAttribute prov) else siNameID idn)"

definition saml_auth :: "auth_provider \<Rightarrow> saml_identity \<Rightarrow> completedAuth" where
  "saml_auth prov idn =
     \<lparr>caSub = siNameID idn, caEmail = saml_email prov idn,
      caName = attrString (siAttributes idn) (claimOr (apNameAttribute prov) ''displayName''), caAttributes = siAttributes idn\<rparr>"

lemma SAMLACS_cases:
  assumes "run_state (SessionHandler_SAMLACS h r) w = (resp, w')" and "ok_status resp" and "formValue r = Some form"
  obtains prov ls w1 p idn where "pending (db w) (clock w) r (form ''RelayState'') KindSAML prov ls"
    and "db w1 = without_state (form ''RelayState'') (db w)" and "clock w1 = clock w"
    and "samlProvider h prov = Inr p"
    and "ValidateResponse (shSaml h) p (acsURL (shPublicURL h) (apOrgID prov) (apSlug prov)) r (lsSAMLRequestID ls) = Inr idn"
    and "run_state (completeLogin h prov ls (saml_auth prov idn) r) w1 = (resp, w')"
  using assms(1,2) unfolding SessionHandler_SAMLACS_def assms(3) option.case
  by (elim callback_cases) (auto simp: Let_def saml_auth_def saml_email_def split: if_splits sum.splits)

text \<open>\<open>answers L p acs r req idn\<close>: the library accepts the form as an answer to the one request \<open>req\<close>, checked against the certificates of the identity provider
  and for this address, and the assertion in it names \<open>idn\<close> and has its attributes.\<close>

definition answers :: "saml_lib \<Rightarrow> saml_provider \<Rightarrow> string \<Rightarrow> http_request \<Rightarrow> string \<Rightarrow> saml_identity \<Rightarrow> bool" where
  "answers L p acs r req idn \<longleftrightarrow> req \<noteq> [] \<and> (\<exists>sp certs a. normalizeCerts L (spvIDPCert p) = Inr certs \<and> certs \<noteq> [] \<and> svIDPCerts sp = certs \<and>
     svAcsURL sp = acs \<and> svEntityID sp = spvSPEntityID p \<and> svIDPEntityID sp = spvIDPEntityID p \<and>
     parseResponse L sp r [req] = Inr a \<and> asNameID a = Some (siNameID idn) \<and> siNameID idn \<noteq> [] \<and>
     siAttributes idn = fold add_attribute (concat (asStatements a)) [])"

lemma response_answers:
  assumes "ValidateResponse L p acs r req = Inr idn"
  shows "answers L p acs r req idn"
proof -
  from assms obtain sp a where 1: "req \<noteq> []" "serviceProvider L p acs [] = Inr sp" "parseResponse L sp r [req] = Inr a" "asNameID a = Some (siNameID idn)"
      "siNameID idn \<noteq> []" "siAttributes idn = fold add_attribute (concat (asStatements a)) []"
    by (auto simp: ValidateResponse_def split: if_splits sum.splits option.splits)
  from 1(2) have "normalizeCerts L (spvIDPCert p) = Inr (svIDPCerts sp)" "svAcsURL sp = acs" "svEntityID sp = spvSPEntityID p" "svIDPEntityID sp = spvIDPEntityID p"
    by (auto simp: serviceProvider_def Let_def split: if_splits sum.splits option.splits)
  moreover from this(1) have "svIDPCerts sp \<noteq> []" by (auto simp: normalizeCerts_def Let_def split: if_splits option.splits)
  ultimately show ?thesis using 1 unfolding answers_def by blast
qed

text \<open>C6. A SAML response signs somebody in only when it answers the one request of a login that is pending at this
  enabled provider and has not expired: the library accepted it for that request alone, with the certificates of the provider. The user is the one with the
  asserted, allowed address; and the pending login is used up.\<close>

theorem SAMLACS_sound:
  assumes "run_state (SessionHandler_SAMLACS h r) w = (resp, w')" and "ok_status resp" and "no_rotation (db w)"
    and "formValue r = Some form"
  shows "\<exists>prov ls p idn. pending (db w) (clock w) r (form ''RelayState'') KindSAML prov ls \<and>
    samlProvider h prov = Inr p \<and>
    answers (shSaml h) p (acsURL (shPublicURL h) (apOrgID prov) (apSlug prov)) r (lsSAMLRequestID ls) idn \<and>
    sso_login h prov ls (saml_auth prov idn) (db w) (clock w) resp (db w') \<and>
    auth_login_state (db w') = delete_where (\<lambda>s. lsState s = form ''RelayState'') (auth_login_state (db w))"
  using assms(1,2,4)
proof (rule SAMLACS_cases)
  fix prov ls w1 p idn
  assume a: "pending (db w) (clock w) r (form ''RelayState'') KindSAML prov ls" "samlProvider h prov = Inr p"
    and v: "ValidateResponse (shSaml h) p (acsURL (shPublicURL h) (apOrgID prov) (apSlug prov)) r (lsSAMLRequestID ls) = Inr idn"
    and w1: "db w1 = without_state (form ''RelayState'') (db w)" "clock w1 = clock w"
    and run: "run_state (completeLogin h prov ls (saml_auth prov idn) r) w1 = (resp, w')"
  from completeLogin_sound [OF run assms(2)] assms(3) w1
  have "sso_login h prov ls (saml_auth prov idn) (db w) (clock w) resp (db w')"
    and "auth_login_state (db w') = delete_where (\<lambda>s. lsState s = form ''RelayState'') (auth_login_state (db w))" by auto
  with a response_answers [OF v] show ?thesis by blast
qed

theorem SAMLACS_sound_witness:
  "auth_login_state (db (snd (run_state (SessionHandler_SAMLACS ex_session_handler (ex_callback ''p2'')) ex_sso_world))) =
     [ex_pending ''st1'' ''p1'']"
proof -
  have "formValue (ex_callback ''p2'') = Some (\<lambda>_. ''st2'')" by (simp add: ex_callback_def)
  moreover have "delete_where (\<lambda>s. lsState s = ''st2'') (auth_login_state (db ex_sso_world)) = [ex_pending ''st1'' ''p1'']"
    by (simp add: ex_sso_world_def ex_pending_def delete_where_def)
  ultimately show ?thesis using SAMLACS_sound [OF surjective_pairing ex_saml_ok ex_sso_rot] by metis
qed


text \<open>A pending login is used at most once: after a callback that signed somebody in, no callback with the
  same state succeeds, at this handler or another, unless a pending login with that state is created again.\<close>

lemma OIDCCallback_once:
  assumes "run_state (SessionHandler_OIDCCallback h r) w = (resp, w')" and "ok_status resp" and "no_rotation (db w)"
    and "set (auth_login_state (db w2)) \<subseteq> set (auth_login_state (db w'))" and "queryValue r2 ''state'' = queryValue r ''state''"
  shows "\<not> ok_status (fst (run_state (SessionHandler_OIDCCallback h2 r2) w2))"
proof
  assume ok: "ok_status (fst (run_state (SessionHandler_OIDCCallback h2 r2) w2))"
  from assms(1,2) have gone: "lsState s \<noteq> queryValue r ''state''" if "s \<in> set (auth_login_state (db w'))" for s
  proof (rule OIDCCallback_cases)
    fix prov ls w1 cs
    assume w1: "db w1 = without_state (queryValue r ''state'') (db w)"
      and run: "run_state (completeLogin h prov ls (oidc_auth prov cs) r) w1 = (resp, w')"
    from completeLogin_sound [OF run assms(2)] assms(3) w1 that show ?thesis
      by auto
  qed
  from surjective_pairing ok show False
    by (rule OIDCCallback_cases) (use gone assms(4,5) in \<open>auto simp: pending_def\<close>)
qed

lemma OIDCCallback_once_witness:
  "\<not> ok_status (fst (run_state (SessionHandler_OIDCCallback ex_session_handler (ex_callback ''p1''))
     (snd (run_state (SessionHandler_OIDCCallback ex_session_handler (ex_callback ''p1'')) ex_sso_world))))"
  by (rule OIDCCallback_once [OF surjective_pairing ex_oidc_ok]) simp_all

section \<open>Seats\<close>

text \<open>A property of the memberships alone is kept by what follows \<open>UpsertMember\<close>.\<close>

lemma keeps_after_member:
  assumes "\<And>d d'. org_members d' = org_members d \<Longrightarrow> J d' = J d"
  shows "keeps (on_db J) (UpsertAuthIdentity a)" and "keeps (on_db J) (start_session i p r)"
proof -
  show "keeps (on_db J) (UpsertAuthIdentity a)"
    unfolding UpsertAuthIdentity_def by (intro keeps_wrap keeps_command) (auto split: if_splits intro: assms [THEN iffD2])
  have "keeps (on_db J) (CreateSession s)" for s
    unfolding CreateSession_def Let_def by (intro keeps_wrap keeps_command) (auto split: if_splits intro: assms [THEN iffD2])
  then show "keeps (on_db J) (start_session i p r)"
    unfolding start_session_def by (intro keeps_rules)
qed

lemma join_and_open_seats:
  assumes "hoare P (UpsertMember (new_member (uID u) (apOrgID prov) role ''sso'')) (\<lambda>_. on_db (\<lambda>d. int (seats g d) \<le> x))"
  shows "hoare P (join_and_open h prov ls auth u role r) (\<lambda>_. on_db (\<lambda>d. int (seats g d) \<le> x))"
proof -
  have "keeps (on_db (\<lambda>d. int (seats g d) \<le> x)) (UpsertAuthIdentity a)"
      "keeps (on_db (\<lambda>d. int (seats g d) \<le> x)) (start_session i p r)" for a i p
    by (intro keeps_after_member; simp add: seats_def)+
  then have "keeps (on_db (\<lambda>d. int (seats g d) \<le> x)) (on_err (if caSub auth \<noteq> [] then UpsertAuthIdentity \<lparr>aiUserID = uID u, aiProviderID = apID prov, aiSub = caSub auth\<rparr>
        else ret (Inr ())) (\<lambda>_. on_err (start_session (uID u) (apDisplayName prov) r) (\<lambda>(plaintext, sess).
       ret (setSessionCookie h plaintext (sExpiresAt sess) (Redirect (frontendBase h @ lsRedirectTo ls))))))"
    by (intro keeps_rules)
  then show ?thesis
    unfolding join_and_open_def by (intro hoare_on_err [OF assms]) simp_all
qed

lemma seats_update:
  assumes "\<And>m. mOrgID (f m) = mOrgID m"
  shows "seats g (d\<lparr>org_members := update_where P f (org_members d)\<rparr>) = seats g d"
proof -
  have "length (filter (\<lambda>m. mOrgID m = g) (update_where P f ms)) = length (filter (\<lambda>m. mOrgID m = g) ms)" for ms
    using assms by (induction ms) auto
  then show ?thesis by (simp add: seats_def)
qed

abbreviation is_member :: "string \<Rightarrow> string \<Rightarrow> database \<Rightarrow> bool" where
  "is_member i g d \<equiv> exists_row (\<lambda>m. mUserID m = i \<and> mOrgID m = g) (org_members d)"

lemma UpsertMember_member_seats:
  "hoare (\<lambda>w. seats_are g n w \<and> is_member (mUserID m) (mOrgID m) (db w)) (UpsertMember m) (\<lambda>_. on_db (\<lambda>d. seats g d = n))"
  unfolding UpsertMember_def
  by (rule hoare_command) (auto simp: seats_are_def on_db_def upsert_member_def seats_update split: if_splits)

lemma finish_login_seats:
  assumes "shEnterprise h = Some ent" and "ent (apOrgID prov) = Inr info" and "0 \<le> slLimit info"
  shows "hoare (seats_are (apOrgID prov) n) (finish_login h prov ls auth u r)
    (\<lambda>_. on_db (\<lambda>d. int (seats (apOrgID prov) d) \<le> max (int n) (slLimit info)))"
    (is "hoare ?I _ (\<lambda>_. ?J)")
proof -
  let ?g = "apOrgID prov" and ?lim = "slLimit info"
  have IJ: "?I v \<Longrightarrow> ?J v" for v by (simp add: seats_are_def on_db_def)
  have stop: "hoare ?I (ret x) (\<lambda>_. ?J)" for x by (rule hoare_return) (rule IJ)
  have new: "hoare (\<lambda>w. ?I w \<and> (x = None \<longrightarrow> int n < ?lim))
      (case x of None \<Rightarrow> join_and_open h prov ls auth u role r | Some resp \<Rightarrow> ret resp) (\<lambda>_. ?J)" for x role
  proof (cases x)
    case None
    have "hoare ?I (join_and_open h prov ls auth u role r) (\<lambda>_. ?J)" if "int n < ?lim"
      by (rule join_and_open_seats, rule hoare_conseq [OF AddMember_seats(2)]) (use that in \<open>auto simp: on_db_def\<close>)
    then show ?thesis unfolding None by (auto simp: hoare_def)
  qed (auto intro!: hoare_return IJ)
  have old: "hoare (\<lambda>w. ?I w \<and> is_member (uID u) ?g (db w))
      (join_and_open h prov ls auth u role r) (\<lambda>_. ?J)" for role
    by (rule join_and_open_seats, rule hoare_conseq [OF UpsertMember_member_seats]) (auto simp: on_db_def new_member_def)
  have mem: "hoare ?I (GetMember (uID u) ?g) (\<lambda>x w. ?I w \<and> (\<forall>m. x = Inr (Some m) \<longrightarrow>
      is_member (uID u) ?g (db w)))"
    by (rule hoareI) (auto simp: GetMember_def query_def exec_def Let_def seats_are_def on_db_def
        split: fault.splits dest!: find_SomeD)
  have after: "hoare (\<lambda>w. ?I w \<and> (\<forall>m. Inr y = Inr (Some m) \<longrightarrow>
        is_member (uID u) ?g (db w)))
      (State_Monad.bind (if y = None then seatLimitReached (shEnterprise h) ?g 403 else ret None) (\<lambda>limited.
         case limited of Some resp \<Rightarrow> ret resp | None \<Rightarrow> join_and_open h prov ls auth u role r)) (\<lambda>_. ?J)" for y role
  proof (cases y)
    case None
    have "hoare ?I (State_Monad.bind (seatLimitReached (shEnterprise h) ?g 403) (\<lambda>limited.
         case limited of Some resp \<Rightarrow> ret resp | None \<Rightarrow> join_and_open h prov ls auth u role r)) (\<lambda>_. ?J)"
      unfolding assms(1) by (rule hoare_bind [OF hoare_seatLimit [of ent ?g info] new]) (fact assms(2,3))+
    then show ?thesis by (simp add: None)
  next
    case (Some m)
    show ?thesis using old [of role] by (simp add: Some hoare_def)
  qed
  have "keeps ?I (ListRoleMappings (apID prov))" unfolding seats_are_def by (intro keeps_rules)
  then show ?thesis
    unfolding finish_login_def
    by (intro hoare_if stop hoare_on_err_keeps IJ) (auto split: sum.split intro!: stop hoare_on_err [OF mem _ after] IJ)
qed

text \<open>Signing in through a provider never takes the organisation over the seats of its plan: under every schedule
  of failures the number of members afterwards is at most the limit, or what it was when that was more.\<close>

lemma completeLogin_within_seats:
  assumes "run_state (completeLogin h prov ls auth r) w = (resp, w')" and "db_ok (db w)"
    and "shEnterprise h = Some ent" and "ent (apOrgID prov) = Inr info" and "0 \<le> slLimit info"
  shows "int (seats (apOrgID prov) (db w')) \<le> max (int (seats (apOrgID prov) (db w))) (slLimit info)"
proof -
  let ?n = "seats (apOrgID prov) (db w)"
  let ?I = "seats_are (apOrgID prov) ?n" and ?J = "on_db (\<lambda>d. int (seats (apOrgID prov) d) \<le> max (int ?n) (slLimit info))"
  have IJ: "?I v \<Longrightarrow> ?J v" for v by (simp add: seats_are_def on_db_def)
  have stop: "hoare ?I (ret x) (\<lambda>_. ?J)" for x by (rule hoare_return) (rule IJ)
  note steps = keeps_seats_steps [of "apOrgID prov" ?n]
  have "hoare ?I (completeLogin h prov ls auth r) (\<lambda>_. ?J)"
    unfolding completeLogin_def Let_def
    by (intro hoare_if hoare_case_option stop hoare_on_err_keeps steps IJ hoare_bind [OF steps(3)]
        finish_login_seats [OF assms(3-5)])
  from hoareD [OF this _ assms(1)] have "?J w'" by (simp add: seats_are_def on_db_def assms(2))
  then show ?thesis by (simp add: on_db_def)
qed

lemma completeLogin_within_seats_witness:
  "int (seats ''g1'' (db (snd (run_state (completeLogin
      (ex_session_handler\<lparr>shEnterprise := Some (\<lambda>_. Inr \<lparr>slLimit = 2, slPlanID = [], slMaxDiagrams = 1, slMaxServices = 1,
         slMaxMaps = 1, slAssistEnabled = False\<rparr>)\<rparr>)
      (ex_provider ''p1'' KindOIDC) (ex_pending ''st1'' ''p1'')
      \<lparr>caSub = [], caEmail = ''eve@acme.io'', caName = [], caAttributes = []\<rparr> ex_request) ex_sso_world)))) \<le> 2"
proof -
  let ?info = "\<lparr>slLimit = 2, slPlanID = [], slMaxDiagrams = 1, slMaxServices = 1, slMaxMaps = 1, slAssistEnabled = False\<rparr>"
  have ok: "db_ok (db ex_sso_world)"
    by (simp add: db_ok_def tables_ok_defs ex_sso_defs KindOIDC_def KindSAML_def)
  have g: "apOrgID (ex_provider ''p1'' KindOIDC) = ''g1''" and n: "seats ''g1'' (db ex_sso_world) = 2"
    by (simp_all add: seats_def ex_sso_defs)
  show ?thesis
    using completeLogin_within_seats [where h = "ex_session_handler\<lparr>shEnterprise := Some (\<lambda>_. Inr ?info)\<rparr>" and info = ?info
        and prov = "ex_provider ''p1'' KindOIDC", OF surjective_pairing ok]
    by (simp add: g n)
qed

section \<open>Discovery\<close>

text \<open>\<open>attempts email since d\<close>: the attempts that count against the limit.\<close>

definition attempts :: "string \<Rightarrow> time \<Rightarrow> database \<Rightarrow> nat" where
  "attempts email since d = length (filter (\<lambda>a. laUsername a = email \<and> laCreatedAt a > since) (login_attempts d))"

text \<open>Asking which organisations an address belongs to is limited to 20 attempts per address in 15 minutes: the
  attempts of the window never exceed the limit, whatever fails, and once it is reached a request that reaches
  the database is answered 429 and reveals and changes nothing.\<close>

lemma DiscoverOrgs_limited:
  assumes "run_state (SessionHandler_DiscoverOrgs h (Some raw) r) w = (resp, w')" and "email = ToLower (TrimSpace raw)"
  shows "attempts email (clock w - discoverWindow) (db w') \<le> max (attempts email (clock w - discoverWindow) (db w)) 20 \<and>
    (discoverLimit \<le> attempts email (clock w - discoverWindow) (db w) \<longrightarrow>
       db w' = db w \<and> rStatus resp \<noteq> 200 \<and>
       (faults w = [] \<and> rStatus resp \<noteq> 400 \<longrightarrow> resp = TooManyRequests (JStr ''too many attempts, try again later'')))"
proof -
  let ?since = "clock w - discoverWindow"
  define rest where "rest = on_err (RecordLoginAttempt email (hRemoteAddr r)) (\<lambda>_.
     on_err (ListOrgsByDomain (drop (nat (LastIndex email CHR ''@'') + 1) email)) (\<lambda>byDomain.
     on_err (GetUserByEmail email) (\<lambda>u.
       on_err (case u of None \<Rightarrow> ret (Inr []) | Some u \<Rightarrow> ListOrgsForUser (uID u)) (\<lambda>memberships.
         ret (JSON 200 (JObj [(''orgs'', JArr (map (discoveredOrg h)
           (byDomain @ unseen_orgs (map oID byDomain) (map vOrg memberships))))]))))))"
  have cases: "(rStatus resp = 400 \<and> w' = w) \<or>
      run_state (on_err (CountLoginAttempts email ?since) (\<lambda>n.
        if n \<ge> discoverLimit then ret (TooManyRequests (JStr ''too many attempts, try again later'')) else rest)) w = (resp, w')"
    using assms(1) unfolding SessionHandler_DiscoverOrgs_def rest_def assms(2) Let_def by (auto split: if_splits)
  obtain x w1 where 1: "run_state (CountLoginAttempts email ?since) w = (x, w1)" by fastforce
  then have w1: "db w1 = db w" "clock w1 = clock w" and x: "\<And>n. x = Inr n \<Longrightarrow> n = attempts email ?since (db w)"
      and healthy: "faults w = [] \<Longrightarrow> \<exists>n. x = Inr n"
    by (auto simp: CountLoginAttempts_def attempts_def query_def exec_def next_fault_def Let_def split: fault.splits)
  let ?J = "\<lambda>d. attempts email ?since d \<le> max (attempts email ?since (db w)) 20"
  have rest: "?J (db v')" if "run_state rest v = (y, v')" "attempts email ?since (db v) < discoverLimit" for v y v'
  proof -
    have rec: "hoare (on_db (\<lambda>d. attempts email ?since d < discoverLimit)) (RecordLoginAttempt email (hRemoteAddr r)) (\<lambda>_. on_db ?J)"
      unfolding RecordLoginAttempt_def
      by (rule hoare_command) (auto simp: on_db_def attempts_def discoverLimit_def split: if_splits)
    have "hoare (on_db (\<lambda>d. attempts email ?since d < discoverLimit)) rest (\<lambda>_. on_db ?J)"
      unfolding rest_def by (rule hoare_on_err [OF rec]) (auto intro!: keeps_rules)
    from hoareD [OF this _ that(1)] that(2) show ?thesis by (simp add: on_db_def)
  qed
  show ?thesis
  proof (cases x)
    case (Inl e)
    with cases 1 w1 healthy show ?thesis by (auto simp: run_on_err)
  next
    case (Inr n)
    with cases 1 w1 x [OF Inr] rest [of w1] show ?thesis
      by (auto simp: run_on_err not_le split: if_splits)
  qed
qed

lemma DiscoverOrgs_limited_witness:
  "let w = ex_world\<lparr>db := ex_db\<lparr>login_attempts := replicate 20 \<lparr>laUsername = ''ann@acme.io'', laIP = [], laCreatedAt = 990\<rparr>\<rparr>\<rparr>
   in attempts ''ann@acme.io'' (1000 - discoverWindow)
        (db (snd (run_state (SessionHandler_DiscoverOrgs ex_session_handler (Some '' Ann@acme.io'') ex_request) w))) = 20"
proof -
  let ?w = "ex_world\<lparr>db := ex_db\<lparr>login_attempts := replicate 20 \<lparr>laUsername = ''ann@acme.io'', laIP = [], laCreatedAt = 990\<rparr>\<rparr>\<rparr>"
  have e: "''ann@acme.io'' = ToLower (TrimSpace '' Ann@acme.io'')" by code_simp
  have "attempts ''ann@acme.io'' (1000 - discoverWindow) (db ?w) = 20"
    by (simp add: attempts_def discoverWindow_def)
  with DiscoverOrgs_limited [where h = ex_session_handler and r = ex_request and w = ?w, OF surjective_pairing e] show ?thesis
    by (simp add: discoverLimit_def)
qed

end
