(* ===== verification/GithubDomain.thy ===== *)
theory GithubDomain
  imports Http Sha256
begin

text \<open>
  Package \<open>internal/githubapp\<close> without its HTTP client: the states of a repository import (\<open>domain.go\<close>), names of
  branches, workflow files and services (\<open>workflows.go\<close>), the steps of a workflow job (\<open>client.go\<close>), and the check of the
  signature of a webhook (\<open>internal/api/githubapp/handler.go\<close>).
\<close>

section \<open>Domain (domain.go)\<close>

definition StateSelected :: string where "StateSelected = ''selected''"
definition StateRunQueued :: string where "StateRunQueued = ''run_queued''"
definition StateRunRunning :: string where "StateRunRunning = ''run_running''"
definition StateCompleted :: string where "StateCompleted = ''completed''"
definition StateFailed :: string where "StateFailed = ''failed''"

lemmas state_defs = StateSelected_def StateRunQueued_def StateRunRunning_def StateCompleted_def StateFailed_def

definition State_Validate :: "string \<Rightarrow> error option" where
  "State_Validate s =
     (if s \<in> set [StateSelected, StateRunQueued, StateRunRunning, StateCompleted, StateFailed] then None
      else Some (Errorf ''invalid repository import state %q'' [s]))"

record installation =
  inOrgID :: string
  inGitHubInstallationID :: int
  inCreatedAt :: time
  inAccountID :: int
  inAccountLogin :: string
  inAccountType :: string
  inSuspended :: bool

record repository =
  reGitHubID :: int
  reOwnerID :: int
  reOwner :: string
  reName :: string
  reFullName :: string
  reURL :: string
  reDefaultBranch :: string
  rePrivate :: bool
  reArchived :: bool

record step_info =
  siJobID :: int
  siJobName :: string
  siNumber :: int
  siName :: string
  siStatus :: string
  siConclusion :: string
  siStartedAt :: "time option"
  siCompletedAt :: "time option"

text \<open>\<open>Import\<close>. The field \<open>Error\<close> holds the text of an error; the model keeps the error itself.\<close>

record github_import =
  giID :: string
  giOrgID :: string
  giGitHubOwnerID :: int
  giGitHubRepo :: string
  giTeamID :: string
  giTeamName :: string
  giStatus :: string
  giSteps :: "step_info list"
  giBranch :: string
  giRunID :: int
  giRunURL :: string
  giPRURL :: string
  giError :: "error option"
  giServiceID :: string
  giCreatedAt :: time
  giUpdatedAt :: time
  giRunStartedAt :: "time option"
  giRunCompletedAt :: "time option"
  giCompletedAt :: "time option"

record job =
  jbID :: nat
  jbOrgID :: string
  jbImportID :: string
  jbKind :: string
  jbAttempts :: int
  jbMaxAttempts :: int

definition JobStart :: string where "JobStart = ''start''"
definition JobOpenPR :: string where "JobOpenPR = ''open_pr''"

record workflow_run =
  wrID :: int
  wrRunAttempt :: int
  wrEvent :: string
  wrStatus :: string
  wrConclusion :: string
  wrHeadBranch :: string
  wrHTMLURL :: string
  wrPath :: string

section \<open>Names (workflows.go)\<close>

definition OnboardingWorkflowPath :: string where
  "OnboardingWorkflowPath = ''.github/workflows/uigraph-onboarding.yml''"

definition EnterpriseOnboardingWorkflowPath :: string where
  "EnterpriseOnboardingWorkflowPath = ''.github/workflows/uigraph-enterprise-onboarding.yml''"

definition IsOnboardingWorkflowPath :: "string \<Rightarrow> bool" where
  "IsOnboardingWorkflowPath path \<longleftrightarrow> path = OnboardingWorkflowPath \<or> path = EnterpriseOnboardingWorkflowPath"

definition Branch :: "string \<Rightarrow> string" where
  "Branch importID = ''uigraph/onboarding/'' @ importID"

lemma Branch_inj [simp]: "Branch i = Branch j \<longleftrightarrow> i = j"
  by (simp add: Branch_def)

section \<open>Steps of a job (client.go)\<close>

text \<open>\<open>TaskStep\<close> of the client library: every field is a pointer and the getters give the zero value for nil.\<close>

record task_step =
  tsNumber :: "int option"
  tsName :: "string option"
  tsStatus :: "string option"
  tsConclusion :: "string option"
  tsStartedAt :: "time option"
  tsCompletedAt :: "time option"

definition get_or :: "'a \<Rightarrow> 'a option \<Rightarrow> 'a" where
  "get_or z v = (case v of None \<Rightarrow> z | Some x \<Rightarrow> x)"

definition JobSteps :: "int \<Rightarrow> string \<Rightarrow> task_step list \<Rightarrow> step_info list" where
  "JobSteps jobID jobName steps = map (\<lambda>s.
     \<lparr>siJobID = jobID, siJobName = jobName, siNumber = get_or 0 (tsNumber s), siName = get_or [] (tsName s),
      siStatus = get_or [] (tsStatus s), siConclusion = get_or [] (tsConclusion s),
      siStartedAt = tsStartedAt s, siCompletedAt = tsCompletedAt s\<rparr>) steps"

section \<open>Signatures (handler.go)\<close>

text \<open>\<open>hmac.New(sha256.New, secret)\<close> of the Go library (RFC 2104): a key longer than a block of 64 bytes is hashed first.\<close>

definition hmac_key :: "byte list \<Rightarrow> byte list" where
  "hmac_key secret = (let k = (if length secret > 64 then Sum256 secret else secret) in k @ replicate (64 - length k) 0)"

definition hmac_sha256 :: "byte list \<Rightarrow> byte list \<Rightarrow> byte list" where
  "hmac_sha256 secret body =
     (let k = hmac_key secret in
      Sum256 (map (\<lambda>b. b XOR 0x5c) k @ Sum256 (map (\<lambda>b. b XOR 0x36) k @ body)))"

text \<open>\<open>hex.DecodeString\<close>: either case, an even number of digits.\<close>

definition hex_val :: "char \<Rightarrow> nat option" where
  "hex_val c =
     (let n = of_char c :: nat in
      if 48 \<le> n \<and> n \<le> 57 then Some (n - 48)
      else if 97 \<le> n \<and> n \<le> 102 then Some (n - 87)
      else if 65 \<le> n \<and> n \<le> 70 then Some (n - 55)
      else None)"

fun hex_DecodeString :: "string \<Rightarrow> byte list option" where
  "hex_DecodeString [] = Some []"
| "hex_DecodeString [c] = None"
| "hex_DecodeString (c # d # s) =
     (case (hex_val c, hex_val d, hex_DecodeString s) of
        (Some h, Some l, Some bs) \<Rightarrow> Some (of_nat (16 * h + l) # bs)
      | _ \<Rightarrow> None)"

definition validSignature :: "byte list \<Rightarrow> string \<Rightarrow> byte list \<Rightarrow> bool" where
  "validSignature body signature secret =
     (if \<not> HasPrefix signature ''sha256='' \<or> secret = [] then False
      else case hex_DecodeString (TrimPrefix signature ''sha256='') of
        None \<Rightarrow> False
      | Some received \<Rightarrow> received = hmac_sha256 secret body)"

section \<open>What a signature is\<close>

lemma hex_val_lt: "hex_val c = Some n \<Longrightarrow> n < 16"
  by (auto simp: hex_val_def Let_def split: if_splits)

lemma of_char_lower: "(of_char (lower_char c) :: nat) = (if 65 \<le> (of_char c :: nat) \<and> (of_char c :: nat) \<le> 90 then of_char c + 32 else of_char c)"
  by (auto simp: lower_char_def Let_def)

lemma hex_val_iff: "hex_val c = Some n \<longleftrightarrow> n < 16 \<and> lower_char c = hex_digit n"
proof -
  have "lower_char c = hex_digit n \<longleftrightarrow> (of_char (lower_char c) :: nat) = of_char (hex_digit n)" by simp
  moreover have "hex_val c = Some n \<longleftrightarrow> n < 16 \<and> (of_char (lower_char c) :: nat) = of_char (hex_digit n)"
  proof (cases "n < 16")
    case True
    then show ?thesis unfolding of_char_hex_digit [OF True] of_char_lower by (auto simp: hex_val_def Let_def)
  qed (use hex_val_lt in blast)
  ultimately show ?thesis by simp
qed

lemma byte_of_digits: "h < 16 \<Longrightarrow> l < 16 \<Longrightarrow> unat (of_nat (16 * h + l) :: byte) = 16 * h + l"
  by (subst unat_of_nat) simp

lemma high_digit: "unat (b :: byte) div 16 < 16"
proof -
  have "unat b < 256" using unsigned_less [of b, where 'a = nat] by simp
  then show ?thesis by simp
qed

lemma hex_byte_iff:
  assumes "h < 16" and "l < 16"
  shows "[hex_digit h, hex_digit l] = hex_byte b \<longleftrightarrow> b = of_nat (16 * h + l)"
proof
  assume "[hex_digit h, hex_digit l] = hex_byte b"
  moreover have "unat b div 16 < 16" by (rule high_digit)
  ultimately have "h = unat b div 16" "l = unat b mod 16"
    using assms by (auto simp: hex_byte_def intro: hex_digit_inj)
  then show "b = of_nat (16 * h + l)" by simp
next
  assume b: "b = of_nat (16 * h + l)"
  show "[hex_digit h, hex_digit l] = hex_byte b"
    unfolding b hex_byte_def byte_of_digits [OF assms] using assms by simp
qed

lemma hex_DecodeString_iff: "hex_DecodeString s = Some bs \<longleftrightarrow> ToLower s = hex_encode bs"
proof (induction s arbitrary: bs rule: hex_DecodeString.induct)
  case (2 c)
  have "length (ToLower [c]) \<noteq> length (hex_encode bs)" by simp
  then show ?case by (metis hex_DecodeString.simps(2) option.distinct(1))
next
  case (3 c d s)
  show ?case
  proof (cases bs)
    case (Cons b bs')
    have "ToLower (c # d # s) = hex_encode bs \<longleftrightarrow> [lower_char c, lower_char d] = hex_byte b \<and> ToLower s = hex_encode bs'"
      by (auto simp: Cons ToLower_def hex_encode_def hex_byte_def)
    also have "[lower_char c, lower_char d] = hex_byte b \<longleftrightarrow> (\<exists>h l. hex_val c = Some h \<and> hex_val d = Some l \<and> b = of_nat (16 * h + l))"
    proof
      assume e: "[lower_char c, lower_char d] = hex_byte b"
      have "unat b div 16 < 16" by (rule high_digit)
      then show "\<exists>h l. hex_val c = Some h \<and> hex_val d = Some l \<and> b = of_nat (16 * h + l)"
        using e by (intro exI [of _ "unat b div 16"] exI [of _ "unat b mod 16"]) (auto simp: hex_byte_def hex_val_iff)
    next
      assume "\<exists>h l. hex_val c = Some h \<and> hex_val d = Some l \<and> b = of_nat (16 * h + l)"
      then show "[lower_char c, lower_char d] = hex_byte b"
        by (auto simp: hex_val_iff hex_byte_iff)
    qed
    also have "(\<exists>h l. hex_val c = Some h \<and> hex_val d = Some l \<and> b = of_nat (16 * h + l)) \<and> ToLower s = hex_encode bs'
        \<longleftrightarrow> hex_DecodeString (c # d # s) = Some bs"
      unfolding 3 [symmetric] Cons by (auto simp del: of_nat_add of_nat_mult split: option.splits)
    finally show ?thesis by simp
  qed (auto simp: ToLower_def hex_encode_def split: option.splits)
qed (auto simp: ToLower_def hex_encode_def hex_byte_def)

text \<open>A webhook is accepted exactly when a secret is configured and its signature is \<open>sha256=\<close> followed by the hexadecimal
  digits, in either case, of the HMAC of the body under the secret.\<close>

lemma validSignature_iff:
  "validSignature body signature secret \<longleftrightarrow>
     secret \<noteq> [] \<and> (\<exists>digits. signature = ''sha256='' @ digits \<and> ToLower digits = hex_encode (hmac_sha256 secret body))"
proof (cases "HasPrefix signature ''sha256=''")
  case True
  then obtain digits where "signature = ''sha256='' @ digits" by (auto simp: HasPrefix_iff)
  then show ?thesis
    by (auto simp: validSignature_def TrimPrefix_def HasPrefix_def hex_DecodeString_iff [symmetric] split: option.splits)
qed (auto simp: validSignature_def HasPrefix_iff)

end
