(* ===== verification/Tables.thy ===== *)
theory Tables
  imports AccountStore
begin

text \<open>
  Tables of other components beside those of the identity layer, in the same server: a statement sees both, and the same schedule of
  failures applies. A transaction is one step: a failure inside it rolls it back, a failure of the commit may leave it done with the
  reply lost. \<open>lift\<close> runs a program of the identity layer, \<open>call\<close> asks a service outside, whose answer may change with time.
\<close>

section \<open>Effects\<close>

record 'i side =
  base :: world
  idb :: 'i

type_synonym ('i, 'a) sprog = "('i side, 'a) state"

text \<open>A program of the identity layer run on the shared part.\<close>

definition lift :: "'a prog \<Rightarrow> ('i, 'a) sprog" where
  "lift m = State (\<lambda>g. case run_state m (base g) of (a, w) \<Rightarrow> (a, g\<lparr>base := w\<rparr>))"

definition txn :: "(time \<Rightarrow> database \<Rightarrow> 'i \<Rightarrow> error + 'a \<times> database \<times> 'i) \<Rightarrow> ('i, 'a result) sprog" where
  "txn f = State (\<lambda>g.
     let w = base g; w' = w\<lparr>faults := tl (faults w)\<rparr> in
     case f (clock w) (db w) (idb g) of
       Inl e \<Rightarrow> (Inl (if next_fault w = Healthy then e else ConnectionLost), g\<lparr>base := w'\<rparr>)
     | Inr (a, d, i) \<Rightarrow>
         (case next_fault w of
            Healthy \<Rightarrow> (Inr a, g\<lparr>base := w'\<lparr>db := d\<rparr>, idb := i\<rparr>)
          | Lost \<Rightarrow> (Inl ConnectionLost, g\<lparr>base := w'\<rparr>)
          | LostReply \<Rightarrow> (Inl ConnectionLost, g\<lparr>base := w'\<lparr>db := d\<rparr>, idb := i\<rparr>)))"

definition istmt :: "(time \<Rightarrow> 'i \<Rightarrow> error + 'a \<times> 'i) \<Rightarrow> ('i, 'a result) sprog" where
  "istmt f = txn (\<lambda>now d i. case f now i of Inl e \<Rightarrow> Inl e | Inr (a, i') \<Rightarrow> Inr (a, d, i'))"

definition iquery :: "(time \<Rightarrow> database \<Rightarrow> 'i \<Rightarrow> 'a result) \<Rightarrow> ('i, 'a result) sprog" where
  "iquery f = txn (\<lambda>now d i. case f now d i of Inl e \<Rightarrow> Inl e | Inr a \<Rightarrow> Inr (a, d, i))"

definition ibindE :: "('i, 'a result) sprog \<Rightarrow> ('a \<Rightarrow> ('i, 'b result) sprog) \<Rightarrow> ('i, 'b result) sprog" where
  "ibindE m k = State_Monad.bind m (\<lambda>r. case r of Inl e \<Rightarrow> ret (Inl e) | Inr a \<Rightarrow> k a)"

definition iwrap :: "string \<Rightarrow> ('i, 'a result) sprog \<Rightarrow> ('i, 'a result) sprog" where
  "iwrap fmt m = State_Monad.bind m (\<lambda>r. ret (case r of
     Inl e \<Rightarrow> Inl (if e = StoreErrNotFound then e else Wrapf fmt [] e) | Inr a \<Rightarrow> Inr a))"

definition call :: "(time \<Rightarrow> 'a result) \<Rightarrow> ('i, 'a result) sprog" where
  "call f = State_Monad.bind (lift now) (\<lambda>t. ret (f t))"

section \<open>Rules\<close>

definition on_idb :: "('i \<Rightarrow> bool) \<Rightarrow> 'i side \<Rightarrow> bool" where
  "on_idb I g = I (idb g)"

lemma run_txn_cases:
  assumes "run_state (txn f) g = (r, g')"
  obtains (same) "idb g' = idb g" and "\<And>a. r \<noteq> Inr a" and "base g' = (base g)\<lparr>faults := tl (faults (base g))\<rparr>"
    | (step) a d i where "f (clock (base g)) (db (base g)) (idb g) = Inr (a, d, i)" and "idb g' = i"
        and "base g' = (base g)\<lparr>db := d, faults := tl (faults (base g))\<rparr>" and "\<And>b. r = Inr b \<Longrightarrow> b = a"
  using assms by (auto simp: txn_def Let_def split: sum.splits fault.splits)

lemma keeps_txn:
  assumes "\<And>t d i a d' i'. I i \<Longrightarrow> f t d i = Inr (a, d', i') \<Longrightarrow> I i'"
  shows "keeps (on_idb I) (txn f)"
proof (rule hoareI)
  fix g r g' assume "on_idb I g" and "run_state (txn f) g = (r, g')"
  from this(2) show "on_idb I g'"
    by (cases rule: run_txn_cases) (use \<open>on_idb I g\<close> assms in \<open>auto simp: on_idb_def\<close>)
qed

lemma keeps_istmt:
  assumes "\<And>t i a i'. I i \<Longrightarrow> f t i = Inr (a, i') \<Longrightarrow> I i'"
  shows "keeps (on_idb I) (istmt f)"
  unfolding istmt_def by (rule keeps_txn) (use assms in \<open>auto split: sum.splits\<close>)

lemma keeps_iquery [keeps_rules]: "keeps (on_idb I) (iquery f)"
  unfolding iquery_def by (rule keeps_txn) (auto split: sum.splits)

lemma keeps_lift [keeps_rules]: "keeps (on_idb I) (lift m)"
  by (rule hoareI) (auto simp: lift_def on_idb_def split: prod.splits)

lemma keeps_iwrap [keeps_rules]: "keeps I m \<Longrightarrow> keeps I (iwrap fmt m)"
  unfolding iwrap_def by (intro keeps_rules)

lemma keeps_ibindE [keeps_rules]: "keeps I m \<Longrightarrow> (\<And>a. keeps I (k a)) \<Longrightarrow> keeps I (ibindE m k)"
  unfolding ibindE_def by (intro keeps_rules)

lemma keeps_call [keeps_rules]: "keeps (on_idb I) (call f)"
  unfolding call_def by (intro keeps_rules)

lemma kept: "keeps (on_idb I) m \<Longrightarrow> run_state m g = (r, g') \<Longrightarrow> I (idb g) \<Longrightarrow> I (idb g')"
  by (auto simp: on_idb_def dest: hoareD)

section \<open>Runs\<close>

lemma run_iwrap_cases:
  assumes "run_state (iwrap fmt m) g = (r, g')"
  obtains r' where "run_state m g = (r', g')" and "\<And>a. r = Inr a \<longleftrightarrow> r' = Inr a"
proof -
  obtain r' where run: "run_state m g = (r', g')" using assms by (auto simp: iwrap_def split: prod.splits)
  moreover have "r = Inr a \<longleftrightarrow> r' = Inr a" for a using assms run by (auto simp: iwrap_def split: sum.splits)
  ultimately show thesis by (rule that)
qed

lemma run_istmt_cases:
  assumes "run_state (istmt f) g = (r, g')"
  obtains (same) "idb g' = idb g" and "clock (base g') = clock (base g)" and "\<And>a. r \<noteq> Inr a"
    | (step) a i where "f (clock (base g)) (idb g) = Inr (a, i)" and "idb g' = i" and "clock (base g') = clock (base g)"
        and "\<And>b. r = Inr b \<Longrightarrow> b = a"
  using assms unfolding istmt_def by (cases rule: run_txn_cases) (auto split: sum.splits)

lemma run_txn_healthy:
  "faults (base g) = [] \<Longrightarrow> run_state (txn f) g = (case f (clock (base g)) (db (base g)) (idb g) of
     Inl e \<Rightarrow> (Inl e, g) | Inr (a, d, i) \<Rightarrow> (Inr a, g\<lparr>base := (base g)\<lparr>db := d\<rparr>, idb := i\<rparr>))"
  by (cases "base g") (auto simp: txn_def next_fault_def Let_def split: sum.splits prod.splits)

lemma run_istmt_healthy:
  "faults (base g) = [] \<Longrightarrow> run_state (istmt f) g = (case f (clock (base g)) (idb g) of
     Inl e \<Rightarrow> (Inl e, g) | Inr (a, i) \<Rightarrow> (Inr a, g\<lparr>idb := i\<rparr>))"
  unfolding istmt_def by (simp add: run_txn_healthy split: sum.splits prod.splits)

lemma run_iquery_healthy:
  "faults (base g) = [] \<Longrightarrow> run_state (iquery f) g = (f (clock (base g)) (db (base g)) (idb g), g)"
  by (simp add: iquery_def run_txn_healthy split: sum.splits)

lemma run_call [simp]: "run_state (call f) g = (f (clock (base g)), g)"
  by (simp add: call_def lift_def)

end
