(* ===== verification/ImportStore.thy ===== *)
theory ImportStore
  imports GithubDomain Tables
begin

text \<open>
  \<open>internal/store/postgres/githubapp_store.go\<close>: installations of the GitHub App, repository imports and the queue of
  their jobs. Identifiers that the server generates for jobs are the numbers of a sequence.
\<close>

section \<open>Tables (0073, 0075)\<close>

record install_state =
  isStateHash :: string
  isOrgID :: string
  isUserID :: string
  isGitHubUserID :: "int option"
  isAuthorizedAt :: "time option"
  isExpiresAt :: time
  isConsumedAt :: "time option"

record installation_row =
  irOrgID :: string
  irGitHubInstallationID :: int
  irCreatedAt :: time

record import_row =
  imID :: string
  imOrgID :: string
  imGitHubOwnerID :: int
  imGitHubRepo :: string
  imTeamID :: string
  imStatus :: string
  imSteps :: "step_info list"
  imBranch :: string
  imRunID :: "int option"
  imRunAttempt :: int
  imRunURL :: "string option"
  imPRURL :: "string option"
  imError :: "error option"
  imServiceID :: "string option"
  imCreatedAt :: time
  imUpdatedAt :: time
  imRunStartedAt :: "time option"
  imRunCompletedAt :: "time option"
  imCompletedAt :: "time option"

record job_row =
  jrID :: nat
  jrOrgID :: string
  jrImportID :: string
  jrKind :: string
  jrAvailableAt :: time
  jrLeaseOwner :: "string option"
  jrLeaseExpiresAt :: "time option"
  jrAttempts :: int
  jrMaxAttempts :: int
  jrLastError :: "error option"
  jrCompletedAt :: "time option"
  jrCreatedAt :: time
  jrUpdatedAt :: time

text \<open>What the import reads of the table of services.\<close>

record service_row =
  svID :: string
  svOrgID :: string
  svGitRepoURL :: string
  svCreatedAt :: time
  svDeletedAt :: "time option"

record import_db =
  install_states :: "install_state list"
  installations :: "installation_row list"
  repo_imports :: "import_row list"
  jobs :: "job_row list"
  job_seq :: nat
  deliveries :: "string list"
  services :: "service_row list"

type_synonym import_world = "import_db side"

type_synonym 'a iprog = "(import_db, 'a) sprog"

section \<open>Installation\<close>

definition CreateInstallState :: "string \<Rightarrow> string \<Rightarrow> string \<Rightarrow> time \<Rightarrow> unit result iprog" where
  "CreateInstallState orgID userID stateHash expiresAt = iwrap ''postgres: CreateInstallState: %w'' (txn (\<lambda>now d i.
     if exists_row (\<lambda>s. isStateHash s = stateHash) (install_states i) then Inl (UniqueViolation ''github_installation_states_pkey'')
     else if \<not> exists_row (\<lambda>g. oID g = orgID) (orgs d) then Inl (ForeignKeyViolation ''github_installation_states_org_id_fkey'')
     else if \<not> exists_row (\<lambda>u. uID u = userID) (users d) then Inl (ForeignKeyViolation ''github_installation_states_user_id_fkey'')
     else Inr ((), d, i\<lparr>install_states := install_states i @
       [\<lparr>isStateHash = stateHash, isOrgID = orgID, isUserID = userID, isGitHubUserID = None, isAuthorizedAt = None,
         isExpiresAt = expiresAt, isConsumedAt = None\<rparr>]\<rparr>)))"

definition state_authorizable :: "time \<Rightarrow> string \<Rightarrow> install_state \<Rightarrow> bool" where
  "state_authorizable t stateHash s \<longleftrightarrow>
     isStateHash s = stateHash \<and> isConsumedAt s = None \<and> isExpiresAt s > t \<and> isAuthorizedAt s = None"

definition AuthorizeInstallState :: "string \<Rightarrow> int \<Rightarrow> string result iprog" where
  "AuthorizeInstallState stateHash githubUserID = iwrap ''postgres: AuthorizeInstallState: %w'' (istmt (\<lambda>now i.
     case find (state_authorizable now stateHash) (install_states i) of
       None \<Rightarrow> Inl StoreErrNotFound
     | Some s \<Rightarrow> Inr (isOrgID s, i\<lparr>install_states := update_where (state_authorizable now stateHash)
         (\<lambda>s. s\<lparr>isGitHubUserID := Some githubUserID, isAuthorizedAt := Some now\<rparr>) (install_states i)\<rparr>)))"

definition state_consumable :: "time \<Rightarrow> string \<Rightarrow> int \<Rightarrow> install_state \<Rightarrow> bool" where
  "state_consumable t stateHash githubUserID s \<longleftrightarrow>
     isStateHash s = stateHash \<and> isConsumedAt s = None \<and> isExpiresAt s > t \<and> isAuthorizedAt s \<noteq> None \<and>
     isGitHubUserID s = Some githubUserID"

definition ConsumeInstallState :: "string \<Rightarrow> int \<Rightarrow> string result iprog" where
  "ConsumeInstallState stateHash githubUserID = iwrap ''postgres: ConsumeInstallState: %w'' (istmt (\<lambda>now i.
     case find (state_consumable now stateHash githubUserID) (install_states i) of
       None \<Rightarrow> Inl StoreErrNotFound
     | Some s \<Rightarrow> Inr (isOrgID s, i\<lparr>install_states := update_where (state_consumable now stateHash githubUserID)
         (\<lambda>s. s\<lparr>isConsumedAt := Some now\<rparr>) (install_states i)\<rparr>)))"

definition UpsertInstallation :: "string \<Rightarrow> int \<Rightarrow> unit result iprog" where
  "UpsertInstallation orgID installationID = iwrap ''postgres: UpsertInstallation: %w'' (txn (\<lambda>now d i.
     if exists_row (\<lambda>r. irGitHubInstallationID r = installationID \<and> irOrgID r \<noteq> orgID) (installations i)
     then Inl (UniqueViolation ''github_installations_github_installation_id_key'')
     else if exists_row (\<lambda>r. irOrgID r = orgID) (installations i)
     then Inr ((), d, i\<lparr>installations := update_where (\<lambda>r. irOrgID r = orgID)
       (\<lambda>r. r\<lparr>irGitHubInstallationID := installationID\<rparr>) (installations i)\<rparr>)
     else if \<not> exists_row (\<lambda>g. oID g = orgID) (orgs d) then Inl (ForeignKeyViolation ''github_installations_org_id_fkey'')
     else Inr ((), d, i\<lparr>installations := installations i @
       [\<lparr>irOrgID = orgID, irGitHubInstallationID = installationID, irCreatedAt = now\<rparr>]\<rparr>)))"

definition GetInstallation :: "string \<Rightarrow> installation option result iprog" where
  "GetInstallation orgID = iwrap ''postgres: GetInstallation: %w'' (iquery (\<lambda>_ _ i.
     Inr (map_option (\<lambda>r. \<lparr>inOrgID = irOrgID r, inGitHubInstallationID = irGitHubInstallationID r, inCreatedAt = irCreatedAt r,
         inAccountID = 0, inAccountLogin = [], inAccountType = [], inSuspended = False\<rparr>)
       (find (\<lambda>r. irOrgID r = orgID) (installations i)))))"

definition DeleteInstallation :: "string \<Rightarrow> unit result iprog" where
  "DeleteInstallation orgID =
     ibindE (iwrap ''postgres: DeleteInstallation: %w'' (istmt (\<lambda>_ i.
       Inr (exists_row (\<lambda>r. irOrgID r = orgID) (installations i),
            i\<lparr>installations := delete_where (\<lambda>r. irOrgID r = orgID) (installations i)\<rparr>))))
     (\<lambda>deleted. ret (if deleted then Inr () else Inl StoreErrNotFound))"

section \<open>Imports\<close>

definition job_insert :: "time \<Rightarrow> string \<Rightarrow> string \<Rightarrow> string \<Rightarrow> import_db \<Rightarrow> import_db" where
  "job_insert t orgID importID kind i = i\<lparr>job_seq := Suc (job_seq i), jobs := jobs i @
     [\<lparr>jrID = job_seq i, jrOrgID = orgID, jrImportID = importID, jrKind = kind, jrAvailableAt = t, jrLeaseOwner = None,
       jrLeaseExpiresAt = None, jrAttempts = 0, jrMaxAttempts = 8, jrLastError = None, jrCompletedAt = None,
       jrCreatedAt = t, jrUpdatedAt = t\<rparr>]\<rparr>"

text \<open>The partial unique index: at most one job of a kind that is not completed.\<close>

definition active_job :: "string \<Rightarrow> string \<Rightarrow> job_row \<Rightarrow> bool" where
  "active_job importID kind j \<longleftrightarrow> jrImportID j = importID \<and> jrKind j = kind \<and> jrCompletedAt j = None"

text \<open>\<open>scanImport\<close> on a row of \<open>importSelect\<close>, with the name of the team that the join finds.\<close>

definition scanImport :: "import_row \<Rightarrow> string \<Rightarrow> github_import result" where
  "scanImport m teamName =
     (case State_Validate (imStatus m) of
        Some e \<Rightarrow> Inl e
      | None \<Rightarrow> Inr \<lparr>giID = imID m, giOrgID = imOrgID m, giGitHubOwnerID = imGitHubOwnerID m, giGitHubRepo = imGitHubRepo m,
          giTeamID = imTeamID m, giTeamName = teamName, giStatus = imStatus m, giSteps = imSteps m, giBranch = imBranch m,
          giRunID = get_or 0 (imRunID m), giRunURL = get_or [] (imRunURL m), giPRURL = get_or [] (imPRURL m), giError = imError m,
          giServiceID = get_or [] (imServiceID m), giCreatedAt = imCreatedAt m, giUpdatedAt = imUpdatedAt m,
          giRunStartedAt = imRunStartedAt m, giRunCompletedAt = imRunCompletedAt m, giCompletedAt = imCompletedAt m\<rparr>)"

definition join_teams :: "database \<Rightarrow> import_row list \<Rightarrow> (import_row \<times> string) list" where
  "join_teams d rows = concat (map (\<lambda>m. map (\<lambda>t. (m, tName t)) (filter (\<lambda>t. tID t = imTeamID m) (teams d))) rows)"

definition GetImport :: "string \<Rightarrow> string \<Rightarrow> github_import result iprog" where
  "GetImport orgID importID = iwrap ''postgres: GetImport: %w'' (iquery (\<lambda>_ d i.
     case join_teams d (filter (\<lambda>m. imOrgID m = orgID \<and> imID m = importID) (repo_imports i)) of
       [] \<Rightarrow> Inl StoreErrNotFound
     | (m, name) # _ \<Rightarrow> scanImport m name))"

definition GetLatestImport :: "string \<Rightarrow> github_import option result iprog" where
  "GetLatestImport orgID = iwrap ''postgres: GetLatestImport: %w'' (iquery (\<lambda>_ d i.
     case sort_key (\<lambda>(m, name). - imCreatedAt m) (join_teams d (filter (\<lambda>m. imOrgID m = orgID) (repo_imports i))) of
       [] \<Rightarrow> Inr None
     | (m, name) # _ \<Rightarrow> map_sum id Some (scanImport m name)))"

text \<open>The column \<open>repository_imports.team_id\<close> is also the table \<open>import_teams\<close> of the identity layer.\<close>

definition CreateImport :: "string \<Rightarrow> string \<Rightarrow> int \<Rightarrow> string \<Rightarrow> github_import result iprog" where
  "CreateImport orgID teamID ownerID repo =
     State_Monad.bind (lift uuid_NewString) (\<lambda>importID.
       ibindE (txn (\<lambda>now d i.
         if \<not> exists_row (\<lambda>t. tID t = teamID \<and> tOrgID t = orgID) (teams d) then Inl StoreErrTeamNotFound
         else if exists_row (\<lambda>m. imID m = importID) (repo_imports i) then Inl (UniqueViolation ''repository_imports_pkey'')
         else if \<not> exists_row (\<lambda>g. oID g = orgID) (orgs d) then Inl (ForeignKeyViolation ''repository_imports_org_id_fkey'')
         else if exists_row (\<lambda>m. imOrgID m = orgID \<and> imBranch m = Branch importID) (repo_imports i)
         then Inl (UniqueViolation ''repository_imports_branch_idx'')
         else if exists_row (active_job importID JobStart) (jobs i) then Inl (UniqueViolation ''repository_import_jobs_active_idx'')
         else Inr ((), d\<lparr>import_teams := import_teams d @ [(orgID, teamID)]\<rparr>,
           job_insert now orgID importID JobStart (i\<lparr>repo_imports := repo_imports i @
             [\<lparr>imID = importID, imOrgID = orgID, imGitHubOwnerID = ownerID, imGitHubRepo = repo, imTeamID = teamID,
               imStatus = StateSelected, imSteps = [], imBranch = Branch importID, imRunID = None, imRunAttempt = 1,
               imRunURL = None, imPRURL = None, imError = None, imServiceID = None, imCreatedAt = now, imUpdatedAt = now,
               imRunStartedAt = None, imRunCompletedAt = None, imCompletedAt = None\<rparr>]\<rparr>))))
       (\<lambda>_. GetImport orgID importID))"

definition the_import :: "string \<Rightarrow> string \<Rightarrow> import_row \<Rightarrow> bool" where
  "the_import orgID importID m \<longleftrightarrow> imOrgID m = orgID \<and> imID m = importID"

definition set_imports :: "(import_row \<Rightarrow> bool) \<Rightarrow> (import_row \<Rightarrow> import_row) \<Rightarrow> import_db \<Rightarrow> import_db" where
  "set_imports P f i = i\<lparr>repo_imports := update_where P f (repo_imports i)\<rparr>"

definition SetImportRunQueued :: "string \<Rightarrow> string \<Rightarrow> unit result iprog" where
  "SetImportRunQueued orgID importID = iwrap ''postgres: SetImportRunQueued: %w'' (istmt (\<lambda>now i.
     Inr ((), set_imports (\<lambda>m. the_import orgID importID m \<and> imStatus m = StateSelected)
       (\<lambda>m. m\<lparr>imStatus := StateRunQueued, imUpdatedAt := now\<rparr>) i)))"

definition nullif_empty :: "string \<Rightarrow> string option" where
  "nullif_empty s = (if s = [] then None else Some s)"

definition SetImportPullRequest :: "string \<Rightarrow> string \<Rightarrow> string \<Rightarrow> unit result iprog" where
  "SetImportPullRequest orgID importID url = iwrap ''postgres: SetImportPullRequest: %w'' (istmt (\<lambda>now i.
     Inr ((), set_imports (the_import orgID importID) (\<lambda>m. m\<lparr>imPRURL := nullif_empty url, imUpdatedAt := now\<rparr>) i)))"

definition resumable :: "string \<Rightarrow> string \<Rightarrow> import_row \<Rightarrow> bool" where
  "resumable orgID importID m \<longleftrightarrow> the_import orgID importID m \<and> imStatus m = StateFailed \<and> imRunID m \<noteq> None"

definition ResumeImportRun :: "string \<Rightarrow> string \<Rightarrow> unit result iprog" where
  "ResumeImportRun orgID importID =
     ibindE (iwrap ''postgres: ResumeImportRun: %w'' (istmt (\<lambda>now i.
       Inr (exists_row (resumable orgID importID) (repo_imports i),
         set_imports (resumable orgID importID) (\<lambda>m. m\<lparr>imStatus := StateRunRunning, imError := None, imSteps := [],
           imRunAttempt := imRunAttempt m + 1, imRunStartedAt := Some now, imRunCompletedAt := None, imCompletedAt := None,
           imUpdatedAt := now\<rparr>) i))))
     (\<lambda>affected. ret (if affected then Inr () else Inl StoreErrConflict))"

definition RetryImport :: "string \<Rightarrow> string \<Rightarrow> unit result iprog" where
  "RetryImport orgID importID = istmt (\<lambda>now i.
     case find (the_import orgID importID) (repo_imports i) of
       None \<Rightarrow> Inl StoreErrNotFound
     | Some m \<Rightarrow>
         if imStatus m \<noteq> StateFailed then Inl StoreErrConflict
         else let i' = set_imports (the_import orgID importID) (\<lambda>m. m\<lparr>imStatus := StateSelected, imError := None, imRunID := None,
                imRunURL := None, imSteps := [], imRunAttempt := 1, imRunStartedAt := None, imRunCompletedAt := None,
                imCompletedAt := None, imUpdatedAt := now\<rparr>) i in
           Inr ((), if exists_row (active_job importID JobStart) (jobs i')
             then i'\<lparr>jobs := update_where (active_job importID JobStart) (\<lambda>j. j\<lparr>jrAvailableAt := now, jrAttempts := 0,
                    jrLeaseOwner := None, jrLeaseExpiresAt := None, jrLastError := None\<rparr>) (jobs i')\<rparr>
             else job_insert now orgID importID JobStart i'))"

section \<open>Jobs\<close>

definition claimable :: "time \<Rightarrow> job_row \<Rightarrow> bool" where
  "claimable t j \<longleftrightarrow> jrCompletedAt j = None \<and> jrAvailableAt j \<le> t \<and>
     (case jrLeaseExpiresAt j of None \<Rightarrow> True | Some e \<Rightarrow> e < t)"

definition candidates :: "time \<Rightarrow> job_row list \<Rightarrow> job_row list" where
  "candidates t js = sort_key jrAvailableAt (sort_key jrCreatedAt (filter (claimable t) js))"

definition ClaimJob :: "string \<Rightarrow> time \<Rightarrow> job option result iprog" where
  "ClaimJob owner lease = iwrap ''postgres: ClaimJob: %w'' (istmt (\<lambda>now i.
     case candidates now (jobs i) of
       [] \<Rightarrow> Inr (None, i)
     | c # _ \<Rightarrow> Inr (Some \<lparr>jbID = jrID c, jbOrgID = jrOrgID c, jbImportID = jrImportID c, jbKind = jrKind c,
           jbAttempts = jrAttempts c + 1, jbMaxAttempts = jrMaxAttempts c\<rparr>,
         i\<lparr>jobs := update_where (\<lambda>j. jrID j = jrID c) (\<lambda>j. j\<lparr>jrLeaseOwner := Some owner, jrLeaseExpiresAt := Some (now + lease),
             jrAttempts := jrAttempts j + 1, jrUpdatedAt := now\<rparr>) (jobs i)\<rparr>)))"

definition held_by :: "nat \<Rightarrow> string \<Rightarrow> job_row \<Rightarrow> bool" where
  "held_by jobID owner j \<longleftrightarrow> jrID j = jobID \<and> jrLeaseOwner j = Some owner"

definition CompleteJob :: "nat \<Rightarrow> string \<Rightarrow> unit result iprog" where
  "CompleteJob jobID owner = istmt (\<lambda>now i. Inr ((), i\<lparr>jobs := update_where (held_by jobID owner)
     (\<lambda>j. j\<lparr>jrCompletedAt := Some now, jrLeaseOwner := None, jrLeaseExpiresAt := None, jrUpdatedAt := now\<rparr>) (jobs i)\<rparr>))"

definition RetryJob :: "job \<Rightarrow> string \<Rightarrow> time \<Rightarrow> error \<Rightarrow> unit result iprog" where
  "RetryJob jb owner next message = istmt (\<lambda>now i.
     if jbAttempts jb \<ge> jbMaxAttempts jb then
       let i' = i\<lparr>jobs := update_where (held_by (jbID jb) owner) (\<lambda>j. j\<lparr>jrCompletedAt := Some now, jrLastError := Some message,
             jrLeaseOwner := None, jrLeaseExpiresAt := None, jrUpdatedAt := now\<rparr>) (jobs i)\<rparr> in
       Inr ((), if jbKind jb \<noteq> JobStart then i'
         else set_imports (the_import (jbOrgID jb) (jbImportID jb))
                (\<lambda>m. m\<lparr>imStatus := StateFailed, imError := Some message, imUpdatedAt := now\<rparr>) i')
     else Inr ((), i\<lparr>jobs := update_where (held_by (jbID jb) owner) (\<lambda>j. j\<lparr>jrAvailableAt := next, jrLastError := Some message,
             jrLeaseOwner := None, jrLeaseExpiresAt := None, jrUpdatedAt := now\<rparr>) (jobs i)\<rparr>))"

section \<open>Webhooks\<close>

definition RecordWebhook :: "string \<Rightarrow> bool result iprog" where
  "RecordWebhook deliveryID = istmt (\<lambda>_ i.
     if deliveryID \<in> set (deliveries i) then Inr (False, i) else Inr (True, i\<lparr>deliveries := deliveries i @ [deliveryID]\<rparr>))"

definition active_import :: "string \<Rightarrow> import_row \<Rightarrow> bool" where
  "active_import branch m \<longleftrightarrow> imBranch m = branch \<and> imStatus m \<notin> {StateCompleted, StateFailed}"

definition stale :: "int \<Rightarrow> int \<Rightarrow> import_row \<Rightarrow> bool" where
  "stale runID runAttempt m \<longleftrightarrow>
     runID < get_or 0 (imRunID m) \<or> (runID = get_or 0 (imRunID m) \<and> runAttempt \<noteq> 0 \<and> runAttempt < imRunAttempt m)"

text \<open>\<open>REGEXP_REPLACE(LOWER(TRIM(TRAILING '/' FROM url)), '\.git$', '')\<close>\<close>

definition canonical_url :: "string \<Rightarrow> string" where
  "canonical_url url =
     (let u = ToLower (TrimRight url CHR ''/'') in if HasSuffix u ''.git'' then take (length u - 4) u else u)"

definition matching_services :: "string \<Rightarrow> string \<Rightarrow> service_row list \<Rightarrow> service_row list" where
  "matching_services orgID url svs = sort_key svCreatedAt
     (filter (\<lambda>s. svOrgID s = orgID \<and> svDeletedAt s = None \<and> canonical_url (svGitRepoURL s) = canonical_url url) svs)"

definition run_failed_message :: error where
  "run_failed_message = Errorf ''UiGraph import run failed; verify the repository AI settings and review the run logs'' []"

definition no_service_message :: error where
  "no_service_message = Errorf ''Sync succeeded but no service matched the canonical repository URL'' []"

definition apply_run :: "time \<Rightarrow> workflow_run \<Rightarrow> string \<Rightarrow> import_row \<Rightarrow> import_db \<Rightarrow> import_db" where
  "apply_run t run url m i =
     (let here = the_import (imOrgID m) (imID m) in
      if wrStatus run \<noteq> ''completed'' then
        set_imports here (\<lambda>m. m\<lparr>imStatus := StateRunRunning, imRunID := Some (wrID run), imRunURL := Some (wrHTMLURL run),
          imRunStartedAt := Some (get_or t (imRunStartedAt m)), imUpdatedAt := t\<rparr>) i
      else if wrConclusion run \<noteq> ''success'' then
        set_imports here (\<lambda>m. m\<lparr>imStatus := StateFailed, imError := Some run_failed_message, imRunID := Some (wrID run),
          imRunURL := Some (wrHTMLURL run), imRunCompletedAt := Some t, imUpdatedAt := t\<rparr>) i
      else case matching_services (imOrgID m) url (services i) of
        [] \<Rightarrow> set_imports here (\<lambda>m. m\<lparr>imStatus := StateFailed, imError := Some no_service_message, imRunID := Some (wrID run),
            imRunURL := Some (wrHTMLURL run), imRunCompletedAt := Some t, imUpdatedAt := t\<rparr>) i
      | s # _ \<Rightarrow>
          let i' = set_imports here (\<lambda>m. m\<lparr>imStatus := StateCompleted, imServiceID := Some (svID s), imRunID := Some (wrID run),
            imRunURL := Some (wrHTMLURL run), imRunCompletedAt := Some t, imCompletedAt := Some t, imUpdatedAt := t\<rparr>) i in
          if exists_row (active_job (imID m) JobOpenPR) (jobs i') then i'
          else job_insert t (imOrgID m) (imID m) JobOpenPR i')"

definition ApplyWorkflowRunEvent :: "workflow_run \<Rightarrow> string \<Rightarrow> unit result iprog" where
  "ApplyWorkflowRunEvent run repositoryURL =
     (if wrEvent run \<noteq> ''push'' \<or> \<not> IsOnboardingWorkflowPath (wrPath run) then ret (Inr ())
      else istmt (\<lambda>now i.
        case find (active_import (wrHeadBranch run)) (repo_imports i) of
          None \<Rightarrow> Inr ((), i)
        | Some m \<Rightarrow> if stale (wrID run) (wrRunAttempt run) m then Inr ((), i) else Inr ((), apply_run now run repositoryURL m i)))"

definition merge_steps :: "step_info list \<Rightarrow> step_info list \<Rightarrow> step_info list" where
  "merge_steps current steps =
     sort_key siJobID (sort_key siNumber (filter (\<lambda>s. siJobID s \<notin> siJobID ` set steps) current @ steps))"

definition ApplyWorkflowJobEvent :: "string \<Rightarrow> int \<Rightarrow> int \<Rightarrow> step_info list \<Rightarrow> unit result iprog" where
  "ApplyWorkflowJobEvent branch runID runAttempt steps =
     (if steps = [] then ret (Inr ())
      else istmt (\<lambda>now i.
        case find (active_import branch) (repo_imports i) of
          None \<Rightarrow> Inr ((), i)
        | Some m \<Rightarrow>
            if stale runID runAttempt m then Inr ((), i)
            else Inr ((), set_imports (the_import (imOrgID m) (imID m)) (\<lambda>x. x\<lparr>imSteps := merge_steps (imSteps m) steps,
              imRunID := Some runID, imRunStartedAt := Some (get_or now (imRunStartedAt x)), imUpdatedAt := now\<rparr>) i)))"

section \<open>Import tokens\<close>

definition importServiceAccountName :: string where
  "importServiceAccountName = ''GitHub Import''"

primrec revoke_named :: "string \<Rightarrow> token list \<Rightarrow> unit result prog" where
  "revoke_named repository [] = ret (Inr ())"
| "revoke_named repository (k # ks) =
     (if tkName k \<noteq> repository \<or> tkRevoked k then revoke_named repository ks
      else bindE (RevokeToken (tkID k)) (\<lambda>_. revoke_named repository ks))"

definition import_account :: "string \<Rightarrow> string result prog" where
  "import_account orgID =
     bindE (wrap ''postgres: CreateImportToken: %w'' (query (\<lambda>_ d. map saID (sort_key saCreatedAt
       (filter (\<lambda>a. saOrgID a = orgID \<and> saName a = importServiceAccountName \<and> \<not> saIsInternal a \<and> sa_live a) (service_accounts d))))))
     (\<lambda>ids. case ids of
        i # _ \<Rightarrow> ret (Inr i)
      | [] \<Rightarrow> State_Monad.bind uuid_NewString (\<lambda>i.
          bindE (CreateServiceAccount \<lparr>saID = i, saOrgID = orgID, saName = importServiceAccountName,
              saDescription = ''Token used by repository import artifact and sync workflows'', saScopes = ScopesForRole RoleEditor,
              saDisabled = False, saIsInternal = False, saAvatarAssetID = None, saCreatedBy = [], saCreatedAt = 0, saUpdatedAt = 0\<rparr>)
            (\<lambda>_. ret (Inr i))))"

definition CreateImportToken :: "string \<Rightarrow> string \<Rightarrow> time \<Rightarrow> string result prog" where
  "CreateImportToken orgID repository expiresAt =
     bindE (import_account orgID) (\<lambda>serviceAccountID.
     bindE (ListTokens serviceAccountID) (\<lambda>tokens.
     bindE (revoke_named repository tokens) (\<lambda>_.
     bindE Generate (\<lambda>(i, plaintext, hash).
     bindE (CreateToken \<lparr>tkID = i, tkServiceAccountID = serviceAccountID, tkName = repository, tkPrefix = Prefix plaintext, tkHash = hash,
         tkExpiresAt = Some expiresAt, tkLastUsedAt = None, tkRevoked = False, tkCreatedBy = [], tkCreatedAt = 0\<rparr>) (\<lambda>_.
       ret (Inr plaintext))))))"

end
