(* ===== verification/ImportWorker.thy ===== *)
theory ImportWorker
  imports ImportStore
begin

text \<open>
  \<open>internal/githubapp/worker.go\<close>: the worker that takes jobs of repository imports from the queue, with the interface of
  the GitHub client that it and the handlers use. The client is outside: each of its calls is a function of the time of the
  call, so that answers may change, to a result.
\<close>

record gh_client =
  gcStartRun :: "time \<Rightarrow> int \<Rightarrow> github_import \<Rightarrow> repository \<Rightarrow> unit result"
  gcOpenPullRequest :: "time \<Rightarrow> int \<Rightarrow> github_import \<Rightarrow> repository \<Rightarrow> string result"
  gcGetInstallationAccount :: "time \<Rightarrow> int \<Rightarrow> installation result"
  gcGetRepository :: "time \<Rightarrow> int \<Rightarrow> string \<Rightarrow> string \<Rightarrow> repository result"

definition resolveRepository :: "gh_client \<Rightarrow> int \<Rightarrow> github_import \<Rightarrow> repository result iprog" where
  "resolveRepository c installationID value =
     ibindE (call (\<lambda>t. gcGetInstallationAccount c t installationID)) (\<lambda>account.
       if inAccountID account \<noteq> giGitHubOwnerID value
       then ret (Inl (Errorf ''repository %q is not owned by the connected GitHub account'' [giGitHubRepo value]))
       else call (\<lambda>t. gcGetRepository c t installationID (inAccountLogin account) (giGitHubRepo value)))"

definition process :: "gh_client \<Rightarrow> job \<Rightarrow> unit result iprog" where
  "process c jb =
     ibindE (GetImport (jbOrgID jb) (jbImportID jb)) (\<lambda>value.
     ibindE (GetInstallation (jbOrgID jb)) (\<lambda>inst.
       case inst of
         None \<Rightarrow> ret (Inl (Errorf ''GitHub App is not connected'' []))
       | Some inst \<Rightarrow>
           ibindE (resolveRepository c (inGitHubInstallationID inst) value) (\<lambda>repository.
             if jbKind jb = JobStart then
               ibindE (call (\<lambda>t. gcStartRun c t (inGitHubInstallationID inst) value repository)) (\<lambda>_.
                 SetImportRunQueued (jbOrgID jb) (jbImportID jb))
             else if jbKind jb = JobOpenPR then
               ibindE (call (\<lambda>t. gcOpenPullRequest c t (inGitHubInstallationID inst) value repository)) (\<lambda>url.
                 SetImportPullRequest (jbOrgID jb) (jbImportID jb) url)
             else ret (Inl (Errorf ''unknown GitHub import job kind %q'' [jbKind jb])))))"

text \<open>\<open>min(time.Duration(1<<job.Attempts), 300) * time.Second\<close>: 64-bit arithmetic on a signed number of nanoseconds.\<close>

definition second :: "64 word" where
  "second = 1000000000"

definition backoff :: "int \<Rightarrow> 64 word" where
  "backoff attempts =
     (let d = push_bit (nat attempts) (1 :: 64 word) in (if sint d < 300 then d else 300) * second)"

definition leaseDuration :: time where
  "leaseDuration = 2 * 60 * 1000000"

definition runOne :: "gh_client \<Rightarrow> string \<Rightarrow> unit result iprog" where
  "runOne c owner =
     ibindE (ClaimJob owner leaseDuration) (\<lambda>claimed.
       case claimed of
         None \<Rightarrow> ret (Inr ())
       | Some jb \<Rightarrow>
           State_Monad.bind (process c jb) (\<lambda>res.
             case res of
               Inr _ \<Rightarrow> CompleteJob (jbID jb) owner
             | Inl err \<Rightarrow>
                 State_Monad.bind (lift now) (\<lambda>t.
                   State_Monad.bind (RetryJob jb owner (t + sint (backoff (jbAttempts jb)) div 1000) err) (\<lambda>res.
                     case res of
                       Inl retryErr \<Rightarrow> ret (Inl (Wrapf ''process: %v; persist retry: %w'' [] retryErr))
                     | Inr _ \<Rightarrow> ret (Inl err)))))"

section \<open>The delay between attempts\<close>

lemma sint_word_of_small:
  assumes "0 \<le> k" and "k < 2 ^ 63"
  shows "sint (word_of_int k :: 64 word) = k"
  using assms signed_take_bit_int_eq_self [of 63 k] by (simp add: sint_sbintrunc')

lemma push_bit_sint:
  assumes "n < 63"
  shows "sint (push_bit n (1 :: 64 word)) = 2 ^ n"
proof -
  have "(2 :: int) ^ n < 2 ^ 63" using assms by (intro power_strict_increasing) auto
  moreover have "push_bit n (1 :: 64 word) = word_of_int (2 ^ n)" by (simp add: push_bit_eq_mult)
  ultimately show ?thesis by (simp only: sint_word_of_small zero_le_power zero_le_numeral)
qed

lemma push_bit_overflow: "63 \<le> n \<Longrightarrow> push_bit n (1 :: 64 word) * second = 0"
proof -
  assume "63 \<le> n"
  then obtain k where "n = 63 + k" using le_Suc_ex by blast
  then have "push_bit n (1 :: 64 word) * second = 2 ^ k * (2 ^ 63 * second)"
    by (simp only: push_bit_eq_mult power_add mult_1 ac_simps)
  also have "(2 ^ 63 * second :: 64 word) = 0" by (simp add: second_def)
  finally show ?thesis by simp
qed

text \<open>The delay before the next attempt never overflows into the past or beyond five minutes: it doubles from attempt to
  attempt up to 300 seconds, and is zero from the 63rd attempt on, where the shift leaves the 64-bit range.\<close>

lemma backoff_bounds:
  assumes "0 \<le> attempts"
  shows "sint (backoff attempts) = (if attempts < 63 then min (2 ^ nat attempts) 300 * 1000000000 else 0)"
proof (cases "attempts < 63")
  case True
  then have d: "sint (push_bit (nat attempts) (1 :: 64 word)) = 2 ^ nat attempts" by (intro push_bit_sint) simp
  show ?thesis
  proof (cases "(2 :: int) ^ nat attempts < 300")
    case small: True
    have "push_bit (nat attempts) (1 :: 64 word) * second = word_of_int (2 ^ nat attempts * 1000000000)"
      by (simp add: push_bit_eq_mult second_def)
    with True d small sint_word_of_small [of "2 ^ nat attempts * 1000000000"] show ?thesis
      by (simp add: backoff_def)
  next
    case False
    have "(300 :: 64 word) * second = word_of_int 300000000000" by (simp add: second_def)
    with True d False sint_word_of_small [of 300000000000] show ?thesis by (simp add: backoff_def)
  qed
next
  case False
  then have zero: "push_bit (nat attempts) (1 :: 64 word) * second = 0" by (intro push_bit_overflow) simp
  have "sint (push_bit (nat attempts) (1 :: 64 word)) < 300"
  proof (cases "nat attempts = 63")
    case False
    then have "64 \<le> nat attempts" using \<open>\<not> attempts < 63\<close> by linarith
    then obtain k where "nat attempts = 64 + k" using le_Suc_ex by blast
    then have "push_bit (nat attempts) (1 :: 64 word) = 2 ^ 64 * 2 ^ k" by (simp only: push_bit_eq_mult power_add mult_1)
    moreover have "(2 :: 64 word) ^ 64 = 0" by simp
    ultimately show ?thesis by (simp only: mult_zero_left) simp
  next
    case True
    show ?thesis unfolding True by (simp add: push_bit_eq_mult)
  qed
  with False zero show ?thesis by (simp add: backoff_def)
qed

end
