(* ===== verification/GoText.thy ===== *)
theory GoText
  imports Errors "HOL-Library.AList"
begin

text \<open>
  Text: the functions of \<open>strings\<close>, \<open>strconv\<close> and \<open>encoding/json\<close> that build it. A value for \<open>json.Marshal\<close> is a tree; a Go map
  with string keys is an association list, whose keys are printed in order. Strings are byte strings: a string that is printed is
  valid UTF-8 without the separators U+2028 and U+2029, so that every byte above the ASCII range is printed as it is.
\<close>

section \<open>Strings\<close>

definition newline :: string where
  "newline = [CHR 0x0A]"

fun Join :: "string list \<Rightarrow> string \<Rightarrow> string" where
  "Join [] sep = []"
| "Join [s] sep = s"
| "Join (s # t # ss) sep = s @ sep @ Join (t # ss) sep"

definition spaces :: "nat \<Rightarrow> string" where
  "spaces n = replicate n CHR '' ''"

definition Trim :: "string \<Rightarrow> char \<Rightarrow> string" where
  "Trim s c = rev (dropWhile (\<lambda>x. x = c) (rev (dropWhile (\<lambda>x. x = c) s)))"

definition upper_char :: "char \<Rightarrow> char" where
  "upper_char c = (let n = of_char c :: nat in if 97 \<le> n \<and> n \<le> 122 then char_of (n - 32) else c)"

text \<open>\<open>%q\<close> of an identifier, in which nothing is escaped.\<close>

definition quote :: "string \<Rightarrow> string" where
  "quote s = CHR 0x22 # s @ [CHR 0x22]"

text \<open>A string of \<open>json.Marshal\<close>: quotes, backslashes, control characters and the characters of HTML are escaped.\<close>

definition hex_char :: "nat \<Rightarrow> char" where
  "hex_char n = (if n < 10 then char_of (48 + n) else char_of (87 + n))"

definition escape_char :: "char \<Rightarrow> string" where
  "escape_char c = (let n = of_char c :: nat; back = CHR 0x5C in
     if n = 0x22 \<or> n = 0x5C then [back, c]
     else if n = 0x08 then [back, CHR ''b'']
     else if n = 0x0C then [back, CHR ''f'']
     else if n = 0x0A then [back, CHR ''n'']
     else if n = 0x0D then [back, CHR ''r'']
     else if n = 0x09 then [back, CHR ''t'']
     else if n < 0x20 \<or> n = 0x3C \<or> n = 0x3E \<or> n = 0x26 then [back, CHR ''u'', CHR ''0'', CHR ''0'', hex_char (n div 16), hex_char (n mod 16)]
     else [c])"

definition json_string :: "string \<Rightarrow> string" where
  "json_string s = CHR 0x22 # concat (map escape_char s) @ [CHR 0x22]"

section \<open>Numbers\<close>

fun decimal :: "nat \<Rightarrow> string" where
  "decimal n = (if n < 10 then [char_of (48 + n)] else decimal (n div 10) @ [char_of (48 + n mod 10)])"

declare decimal.simps [simp del]

definition FormatInt :: "int \<Rightarrow> string" where
  "FormatInt n = (if n < 0 then ''-'' else []) @ decimal (nat \<bar>n\<bar>)"

section \<open>Maps\<close>

text \<open>Assignments \<open>m[k] = v\<close> in order, and the index of a list of pairs, in which a later entry replaces an earlier one.\<close>

definition put_all :: "(string \<times> 'v) list \<Rightarrow> (string \<times> 'v) list" where
  "put_all kvs = foldl (\<lambda>m (k, v). AList.update k v m) [] kvs"

definition sorted_entries :: "(string \<times> 'v) list \<Rightarrow> (string \<times> 'v) list" where
  "sorted_entries kvs = sort_key fst kvs"

lemma set_sorted_entries [simp]: "set (sorted_entries kvs) = set kvs"
  by (simp add: sorted_entries_def)

lemma sorted_entries_Nil [simp]: "sorted_entries [] = []" "sorted_entries kvs = [] \<longleftrightarrow> kvs = []"
  by (simp add: sorted_entries_def) (metis set_sorted_entries set_empty)

lemma put_all_map_of: "map_of (put_all kvs) = map_of (rev kvs)"
proof -
  have "map_of (foldl (\<lambda>m (k, v). AList.update k v m) m kvs) = map_of m ++ map_of (rev kvs)" for m :: "(string \<times> 'a) list"
    by (induction kvs arbitrary: m) (auto simp: update_conv' map_add_def split: option.splits)
  then show ?thesis by (simp add: put_all_def)
qed

lemma put_all_keys: "distinct (map fst (put_all kvs))" "fst ` set (put_all kvs) = fst ` set kvs"
proof -
  have "distinct (map fst m) \<Longrightarrow> distinct (map fst (foldl (\<lambda>m (k, v). AList.update k v m) m kvs))" for m :: "(string \<times> 'a) list"
    by (induction kvs arbitrary: m) (auto simp: distinct_update)
  then show "distinct (map fst (put_all kvs))" by (simp add: put_all_def)
  have "dom (map_of (put_all kvs)) = dom (map_of (rev kvs))" by (simp add: put_all_map_of)
  then show "fst ` set (put_all kvs) = fst ` set kvs" by (simp add: dom_map_of_conv_image_fst)
qed

section \<open>Sorting\<close>

text \<open>A stable sort refines an order that the list already has.\<close>

lemma sorted_wrt_sort_key:
  assumes "sorted_wrt R xs"
  shows "sorted_wrt (\<lambda>a b. f a < f b \<or> f a = f b \<and> R a b) (sort_key f (xs :: 'a list))"
proof -
  have "sorted_wrt (\<lambda>a b. f a < f b \<or> f a = f b \<and> R a b) (insort_key f x ys)"
    if "sorted_wrt (\<lambda>a b. f a < f b \<or> f a = f b \<and> R a b) ys" and "\<forall>y\<in>set ys. R x y" for x ys
    using that by (induction ys) (auto simp: set_insort_key)
  note step = this
  show ?thesis using assms by (induction xs) (auto intro: step)
qed

section \<open>JSON\<close>

datatype val =
    VStr string
  | VInt int
  | VFloat string
  | VBool bool
  | VNull
  | VArr "val list"
  | VObj "(string \<times> val) list"

primrec marshal :: "val \<Rightarrow> string" where
  "marshal (VStr s) = json_string s"
| "marshal (VInt n) = FormatInt n"
| "marshal (VFloat s) = s"
| "marshal (VBool b) = (if b then ''true'' else ''false'')"
| "marshal VNull = ''null''"
| "marshal (VArr vs) = ''['' @ Join (map marshal vs) '','' @ '']''"
| "marshal (VObj kvs) =
     ''{'' @ Join (map (\<lambda>(k, s). json_string k @ '':'' @ s) (sorted_entries (map (map_prod id marshal) kvs))) '','' @ ''}''"

text \<open>\<open>json.MarshalIndent\<close> with an empty prefix; \<open>n\<close> is the depth.\<close>

primrec marshal_indent :: "string \<Rightarrow> val \<Rightarrow> nat \<Rightarrow> string" where
  "marshal_indent ind (VStr s) n = json_string s"
| "marshal_indent ind (VInt i) n = FormatInt i"
| "marshal_indent ind (VFloat s) n = s"
| "marshal_indent ind (VBool b) n = (if b then ''true'' else ''false'')"
| "marshal_indent ind VNull n = ''null''"
| "marshal_indent ind (VArr vs) n =
     (if vs = [] then ''[]''
      else ''['' @ newline @ Join (map (\<lambda>f. concat (replicate (Suc n) ind) @ f (Suc n)) (map (marshal_indent ind) vs)) ('','' @ newline) @
        newline @ concat (replicate n ind) @ '']'')"
| "marshal_indent ind (VObj kvs) n =
     (if kvs = [] then ''{}''
      else ''{'' @ newline @ Join (map (\<lambda>(k, f). concat (replicate (Suc n) ind) @ json_string k @ '': '' @ f (Suc n))
          (sorted_entries (map (map_prod id (marshal_indent ind)) kvs))) ('','' @ newline) @
        newline @ concat (replicate n ind) @ ''}'')"

end
