(* ===== verification/ImportHandler.thy ===== *)
theory ImportHandler
  imports ImportWorker Middleware GoText
begin

text \<open>
  \<open>internal/api/githubapp/handler.go\<close>: connecting an organisation to the GitHub App, starting, watching and repeating
  imports, and the webhooks of GitHub. The decoding of JSON is outside; \<open>ihYearLater\<close> is \<open>AddDate(1, 0, 0)\<close> in the time
  zone of the server.
\<close>

record app_client = gh_client +
  gcAuthorizationURL :: "string \<Rightarrow> string \<Rightarrow> string"
  gcInstallationURL :: "string \<Rightarrow> string"
  gcExchangeCode :: "time \<Rightarrow> string \<Rightarrow> string result"
  gcAuthenticatedUserID :: "time \<Rightarrow> string \<Rightarrow> int result"
  gcFindUserInstallation :: "time \<Rightarrow> string \<Rightarrow> int option result"
  gcVerifyUserInstallation :: "time \<Rightarrow> string \<Rightarrow> int \<Rightarrow> unit result"
  gcListInstallationRepositories :: "time \<Rightarrow> int \<Rightarrow> repository list result"
  gcDeleteInstallation :: "time \<Rightarrow> int \<Rightarrow> unit result"
  gcGetWorkflowRun :: "time \<Rightarrow> int \<Rightarrow> repository \<Rightarrow> string \<Rightarrow> int \<Rightarrow> workflow_run result"
  gcListWorkflowRunJobs :: "time \<Rightarrow> int \<Rightarrow> repository \<Rightarrow> int \<Rightarrow> step_info list result"
  gcRerunFailedJobs :: "time \<Rightarrow> int \<Rightarrow> repository \<Rightarrow> int \<Rightarrow> unit result"

record import_handler =
  ihClient :: "app_client option"
  ihCallbackURL :: string
  ihWebhookSecret :: "byte list"
  ihAPIURL :: string
  ihGatewayURL :: string
  ihYearLater :: "time \<Rightarrow> time"

type_synonym ihandler = "http_request \<Rightarrow> response iprog"

section \<open>Errors\<close>

fun notFound :: "error \<Rightarrow> bool" where
  "notFound (GitHubErrorResponse status) = (status = 404)"
| "notFound (Wrapf fmt args e) = notFound e"
| "notFound _ = False"

definition httpError :: "error \<Rightarrow> response" where
  "httpError err =
     (if errors_Is err StoreErrNotFound then Error StoreErrNotFound
      else if errors_Is err StoreErrConflict \<or> errors_Is err StoreErrTeamNotFound then BadRequest (JErr err)
      else Error (Wrapf ''github app: %w'' [] err))"

definition not_configured :: response where
  "not_configured = http_Error 503 ''{\"error\":\"GitHub App is not configured\",\"code\":503}''"

definition fails :: "'a result iprog \<Rightarrow> ('a \<Rightarrow> response iprog) \<Rightarrow> response iprog" where
  "fails m k = State_Monad.bind m (\<lambda>r. case r of Inl e \<Rightarrow> ret (httpError e) | Inr a \<Rightarrow> k a)"

definition with_client :: "import_handler \<Rightarrow> (app_client \<Rightarrow> response iprog) \<Rightarrow> response iprog" where
  "with_client h k = (case ihClient h of None \<Rightarrow> ret not_configured | Some c \<Rightarrow> k c)"

definition with_installation :: "http_request \<Rightarrow> (installation \<Rightarrow> response iprog) \<Rightarrow> response iprog" where
  "with_installation r k = fails (GetInstallation (pathValue r ''orgID'')) (\<lambda>inst.
     case inst of None \<Rightarrow> ret (httpError StoreErrNotFound) | Some inst \<Rightarrow> k inst)"

section \<open>JSON\<close>

definition step_json :: "step_info \<Rightarrow> json" where
  "step_json s = JObj ([(''jobId'', JInt (siJobID s)), (''jobName'', JStr (siJobName s)), (''number'', JInt (siNumber s)),
     (''name'', JStr (siName s)), (''status'', JStr (siStatus s))] @ omit_str ''conclusion'' (siConclusion s) @
     omit_opt ''startedAt'' JTime (siStartedAt s) @ omit_opt ''completedAt'' JTime (siCompletedAt s))"

definition import_json :: "github_import \<Rightarrow> json" where
  "import_json v = JObj ([(''id'', JStr (giID v)), (''githubOwnerId'', JInt (giGitHubOwnerID v)), (''githubRepo'', JStr (giGitHubRepo v)),
     (''teamId'', JStr (giTeamID v)), (''team'', JStr (giTeamName v)), (''status'', JStr (giStatus v)),
     (''steps'', JArr (map step_json (giSteps v))), (''branch'', JStr (giBranch v))] @ omit_str ''runUrl'' (giRunURL v) @
     omit_str ''prUrl'' (giPRURL v) @ omit_opt ''error'' JErr (giError v) @ omit_str ''serviceId'' (giServiceID v) @
     [(''createdAt'', JTime (giCreatedAt v)), (''updatedAt'', JTime (giUpdatedAt v))] @
     omit_opt ''runStartedAt'' JTime (giRunStartedAt v) @ omit_opt ''runCompletedAt'' JTime (giRunCompletedAt v) @
     omit_opt ''completedAt'' JTime (giCompletedAt v))"

definition omit_int :: "string \<Rightarrow> int \<Rightarrow> (string \<times> json) list" where
  "omit_int k v = (if v = 0 then [] else [(k, JInt v)])"

definition installation_json :: "installation \<Rightarrow> json" where
  "installation_json v = JObj ([(''installationId'', JInt (inGitHubInstallationID v)), (''createdAt'', JTime (inCreatedAt v))] @
     omit_int ''accountId'' (inAccountID v) @ omit_str ''account'' (inAccountLogin v) @ omit_str ''accountType'' (inAccountType v) @
     [(''suspended'', JBool (inSuspended v))])"

definition repository_json :: "repository \<Rightarrow> json" where
  "repository_json v = JObj [(''githubId'', JInt (reGitHubID v)), (''ownerId'', JInt (reOwnerID v)), (''owner'', JStr (reOwner v)),
     (''name'', JStr (reName v)), (''fullName'', JStr (reFullName v)), (''url'', JStr (reURL v)),
     (''defaultBranch'', JStr (reDefaultBranch v)), (''private'', JBool (rePrivate v)), (''archived'', JBool (reArchived v))]"

section \<open>Installation\<close>

definition ImportHandler_GetInstallation :: "import_handler \<Rightarrow> ihandler" where
  "ImportHandler_GetInstallation h r =
     (case ihClient h of
        None \<Rightarrow> ret (JSON 200 (JObj [(''enabled'', JBool False), (''installation'', JNull)]))
      | Some c \<Rightarrow>
          fails (GetInstallation (pathValue r ''orgID'')) (\<lambda>inst.
            case inst of
              None \<Rightarrow> ret (JSON 200 (JObj [(''enabled'', JBool True), (''installation'', JNull)]))
            | Some inst \<Rightarrow>
                State_Monad.bind (call (\<lambda>t. gcGetInstallationAccount c t (inGitHubInstallationID inst))) (\<lambda>res.
                  case res of
                    Inl err \<Rightarrow> ret (if notFound err then JSON 200 (JObj [(''enabled'', JBool True), (''installation'', JNull)]) else httpError err)
                  | Inr account \<Rightarrow> ret (JSON 200 (JObj [(''enabled'', JBool True), (''installation'', installation_json
                      (inst\<lparr>inAccountID := inAccountID account, inAccountLogin := inAccountLogin account,
                        inAccountType := inAccountType account, inSuspended := inSuspended account\<rparr>))])))))"

definition stateTTL :: time where
  "stateTTL = 10 * 60 * 1000000"

definition ImportHandler_Install :: "import_handler \<Rightarrow> ihandler" where
  "ImportHandler_Install h r = with_client h (\<lambda>c.
     case ctxPrincipal r of
       None \<Rightarrow> ret Forbidden
     | Some p \<Rightarrow>
         if pKind p \<noteq> PrincipalUser \<or> pUserID p = [] then ret Forbidden
         else State_Monad.bind (lift (rand_Read 32)) (\<lambda>raw.
           case raw of
             None \<Rightarrow> ret (httpError (Errorf ''rand.Read'' []))
           | Some raw \<Rightarrow>
               let state = hex_encode raw in
               State_Monad.bind (lift now) (\<lambda>t.
               fails (CreateInstallState (pathValue r ''orgID'') (pUserID p) (Hash state) (t + stateTTL)) (\<lambda>_.
                 ret (JSON 201 (JObj [(''url'', JStr (gcAuthorizationURL c state (ihCallbackURL h)))]))))))"

text \<open>\<open>strconv.ParseInt(s, 10, 64)\<close> with its error ignored: 0 when \<open>s\<close> is not a number, the nearest value when it is out of
  range.\<close>

definition ParseInt64 :: "string \<Rightarrow> int" where
  "ParseInt64 s =
     (let (neg, ds) = (case s of [] \<Rightarrow> (False, [])
                       | c # r \<Rightarrow> if c = CHR ''-'' then (True, r) else if c = CHR ''+'' then (False, r) else (False, s))
      in if ds = [] then 0
         else case parse_digits ds 0 of
           None \<Rightarrow> 0
         | Some n \<Rightarrow> if neg then - int (min n (2 ^ 63)) else int (min n (2 ^ 63 - 1)))"

definition connect :: "app_client \<Rightarrow> string \<Rightarrow> string \<Rightarrow> int \<Rightarrow> int \<Rightarrow> response iprog" where
  "connect c token stateHash githubUserID installationID =
     fails (call (\<lambda>t. gcVerifyUserInstallation c t token installationID)) (\<lambda>_.
     fails (ConsumeInstallState stateHash githubUserID) (\<lambda>orgID.
     fails (UpsertInstallation orgID installationID) (\<lambda>_.
       ret \<lparr>rStatus = 200, rBody = BodyText ''<!doctype html><meta charset=\"utf-8\"><script>window.close()</script>'',
            rCookies = [], rLocation = None\<rparr>)))"

definition ImportHandler_Callback :: "import_handler \<Rightarrow> ihandler" where
  "ImportHandler_Callback h r =
     (case ihClient h of
        None \<Rightarrow> ret (http_Error 404 ''404 page not found'')
      | Some c \<Rightarrow>
          let state = queryValue r ''state''; stateHash = Hash state; code = queryValue r ''code'';
              installationID = ParseInt64 (queryValue r ''installation_id'') in
          if state = [] then ret (BadRequest (JStr ''state is required''))
          else if installationID \<noteq> 0 \<and> code = [] then
            ret (Redirect (gcAuthorizationURL c state (ihCallbackURL h @ ''?installation_id='' @ FormatInt installationID)))
          else if code = [] then ret (BadRequest (JStr ''code is required''))
          else
            fails (call (\<lambda>t. gcExchangeCode c t code)) (\<lambda>token.
            fails (call (\<lambda>t. gcAuthenticatedUserID c t token)) (\<lambda>githubUserID.
              if installationID \<noteq> 0 then connect c token stateHash githubUserID installationID
              else
                fails (AuthorizeInstallState stateHash githubUserID) (\<lambda>_.
                fails (call (\<lambda>t. gcFindUserInstallation c t token)) (\<lambda>existing.
                  case existing of
                    None \<Rightarrow> ret (Redirect (gcInstallationURL c state))
                  | Some existingID \<Rightarrow> connect c token stateHash githubUserID existingID)))))"

definition ImportHandler_DeleteInstallation :: "import_handler \<Rightarrow> ihandler" where
  "ImportHandler_DeleteInstallation h r = with_client h (\<lambda>c. with_installation r (\<lambda>inst.
     fails (call (\<lambda>t. gcDeleteInstallation c t (inGitHubInstallationID inst))) (\<lambda>_.
     fails (DeleteInstallation (pathValue r ''orgID'')) (\<lambda>_. ret NoContent))))"

definition ImportHandler_ListRepositories :: "import_handler \<Rightarrow> ihandler" where
  "ImportHandler_ListRepositories h r = with_client h (\<lambda>c. with_installation r (\<lambda>inst.
     fails (call (\<lambda>t. gcListInstallationRepositories c t (inGitHubInstallationID inst))) (\<lambda>repositories.
       ret (JSON 200 (JObj [(''repositories'', JArr (map repository_json repositories))])))))"

definition ImportHandler_GetImportEnvironment :: "import_handler \<Rightarrow> ihandler" where
  "ImportHandler_GetImportEnvironment h r =
     ret (JSON 200 (JObj [(''apiUrl'', JStr (ihAPIURL h)), (''gatewayUrl'', JStr (ihGatewayURL h))]))"

definition TokenSecret :: string where
  "TokenSecret = ''UIGRAPH_TOKEN''"

definition no_access :: response where
  "no_access = BadRequest (JStr ''the GitHub App cannot access this repository'')"

definition ImportHandler_CreateImportToken :: "import_handler \<Rightarrow> ihandler" where
  "ImportHandler_CreateImportToken h r = with_client h (\<lambda>c. with_installation r (\<lambda>inst.
     State_Monad.bind (call (\<lambda>t. gcGetRepository c t (inGitHubInstallationID inst) (pathValue r ''owner'') (pathValue r ''repo''))) (\<lambda>res.
       case res of
         Inl err \<Rightarrow> ret (if notFound err then no_access else httpError err)
       | Inr repository \<Rightarrow>
           State_Monad.bind (lift now) (\<lambda>t.
           fails (lift (CreateImportToken (pathValue r ''orgID'') (reFullName repository) (ihYearLater h t))) (\<lambda>plaintext.
             ret (JSON 201 (JObj [(''name'', JStr TokenSecret), (''token'', JStr plaintext)])))))))"

section \<open>Imports\<close>

record createImportRequest =
  cirTeamID :: string
  cirOwner :: string
  cirRepo :: string

definition ImportHandler_CreateImport :: "import_handler \<Rightarrow> createImportRequest option \<Rightarrow> ihandler" where
  "ImportHandler_CreateImport h body r = with_client h (\<lambda>c.
     case body of
       None \<Rightarrow> ret (BadRequest (JStr ''teamId, owner and repo are required''))
     | Some req \<Rightarrow>
         if cirTeamID req = [] \<or> cirOwner req = [] \<or> cirRepo req = []
         then ret (BadRequest (JStr ''teamId, owner and repo are required''))
         else with_installation r (\<lambda>inst.
           State_Monad.bind (call (\<lambda>t. gcGetRepository c t (inGitHubInstallationID inst) (cirOwner req) (cirRepo req))) (\<lambda>res.
             case res of
               Inl err \<Rightarrow> ret (if notFound err then no_access else httpError err)
             | Inr repository \<Rightarrow>
                 fails (CreateImport (pathValue r ''orgID'') (cirTeamID req) (reOwnerID repository) (reName repository)) (\<lambda>value.
                   ret (JSON 201 (import_json value))))))"

text \<open>\<open>reconcileImport\<close>: whether a state of the run was applied, and the error.\<close>

definition reconcileImport :: "import_handler \<Rightarrow> github_import \<Rightarrow> (bool \<times> error option) iprog" where
  "reconcileImport h value =
     (case ihClient h of
        None \<Rightarrow> ret (False, None)
      | Some c \<Rightarrow>
          if giStatus value \<noteq> StateRunQueued \<and> giStatus value \<noteq> StateRunRunning then ret (False, None)
          else State_Monad.bind
            (ibindE (GetInstallation (giOrgID value)) (\<lambda>inst.
               case inst of
                 None \<Rightarrow> ret (Inr None)
               | Some inst \<Rightarrow>
                   ibindE (call (\<lambda>t. gcGetInstallationAccount c t (inGitHubInstallationID inst))) (\<lambda>account.
                   ibindE (call (\<lambda>t. gcGetRepository c t (inGitHubInstallationID inst) (inAccountLogin account) (giGitHubRepo value))) (\<lambda>repository.
                   ibindE (call (\<lambda>t. gcGetWorkflowRun c t (inGitHubInstallationID inst) repository (giBranch value) (giRunID value))) (\<lambda>run.
                     if wrID run = 0 then ret (Inr None)
                     else ibindE (call (\<lambda>t. gcListWorkflowRunJobs c t (inGitHubInstallationID inst) repository (wrID run))) (\<lambda>steps.
                       ibindE (if steps \<noteq> [] then ApplyWorkflowJobEvent (wrHeadBranch run) (wrID run) (wrRunAttempt run) steps else ret (Inr ()))
                         (\<lambda>_. ret (Inr (Some (run, reURL repository))))))))))
            (\<lambda>res. case res of
               Inl err \<Rightarrow> ret (False, Some err)
             | Inr None \<Rightarrow> ret (False, None)
             | Inr (Some (run, url)) \<Rightarrow>
                 State_Monad.bind (ApplyWorkflowRunEvent run url) (\<lambda>res.
                   ret (True, case res of Inl err \<Rightarrow> Some err | Inr _ \<Rightarrow> None))))"

definition reconciled :: "import_handler \<Rightarrow> github_import \<Rightarrow> github_import iprog" where
  "reconciled h value =
     State_Monad.bind (reconcileImport h value) (\<lambda>(applied, err).
       if \<not> applied then ret value
       else State_Monad.bind (GetImport (giOrgID value) (giID value)) (\<lambda>res.
         ret (case res of Inl _ \<Rightarrow> value | Inr refreshed \<Rightarrow> refreshed)))"

definition ImportHandler_GetImport :: "import_handler \<Rightarrow> ihandler" where
  "ImportHandler_GetImport h r =
     fails (GetImport (pathValue r ''orgID'') (pathValue r ''importID'')) (\<lambda>value.
       State_Monad.bind (reconciled h value) (\<lambda>v. ret (JSON 200 (import_json v))))"

definition ImportHandler_GetLatestImport :: "import_handler \<Rightarrow> ihandler" where
  "ImportHandler_GetLatestImport h r =
     fails (GetLatestImport (pathValue r ''orgID'')) (\<lambda>value.
       case value of
         None \<Rightarrow> ret (JSON 200 (JObj [(''import'', JNull)]))
       | Some value \<Rightarrow> State_Monad.bind (reconciled h value) (\<lambda>v. ret (JSON 200 (JObj [(''import'', import_json v)]))))"

definition ImportHandler_Retry :: "ihandler" where
  "ImportHandler_Retry r =
     fails (RetryImport (pathValue r ''orgID'') (pathValue r ''importID'')) (\<lambda>_.
     fails (GetImport (pathValue r ''orgID'') (pathValue r ''importID'')) (\<lambda>value. ret (JSON 202 (import_json value))))"

definition ImportHandler_RerunFailedJobs :: "import_handler \<Rightarrow> ihandler" where
  "ImportHandler_RerunFailedJobs h r =
     (let orgID = pathValue r ''orgID''; importID = pathValue r ''importID'' in
      fails (GetImport orgID importID) (\<lambda>value.
        case (if giRunID value = 0 then None else ihClient h) of
          None \<Rightarrow> ret (BadRequest (JStr ''this import has no GitHub Actions run to re-run''))
        | Some c \<Rightarrow>
            fails (GetInstallation orgID) (\<lambda>inst.
              case inst of
                None \<Rightarrow> ret (BadRequest (JStr ''this organization has no GitHub App installation''))
              | Some inst \<Rightarrow>
                  fails (call (\<lambda>t. gcGetInstallationAccount c t (inGitHubInstallationID inst))) (\<lambda>account.
                  fails (call (\<lambda>t. gcGetRepository c t (inGitHubInstallationID inst) (inAccountLogin account) (giGitHubRepo value))) (\<lambda>repository.
                  fails (call (\<lambda>t. gcRerunFailedJobs c t (inGitHubInstallationID inst) repository (giRunID value))) (\<lambda>_.
                  fails (ResumeImportRun orgID importID) (\<lambda>_.
                  fails (GetImport orgID importID) (\<lambda>refreshed.
                    ret (JSON 202 (import_json refreshed))))))))))"

section \<open>Webhooks\<close>

record workflow_job =
  wjID :: int
  wjName :: string
  wjHeadBranch :: string
  wjRunID :: int
  wjRunAttempt :: int
  wjSteps :: "task_step list"

record webhook_payload =
  wpAction :: string
  wpInstallationID :: int
  wpRepositoryURL :: string
  wpRun :: workflow_run
  wpJob :: "workflow_job option"

text \<open>\<open>whBody\<close> is \<open>None\<close> when the body is longer than a megabyte.\<close>

record webhook =
  whBody :: "byte list option"
  whSignature :: string
  whDelivery :: string
  whEvent :: string

definition Accepted :: response where
  "Accepted = \<lparr>rStatus = 202, rBody = NoBody, rCookies = [], rLocation = None\<rparr>"

definition invalid_signature :: response where
  "invalid_signature = http_Error 401 ''{\"error\":\"invalid signature\",\"code\":401}''"

definition dispatch :: "string \<Rightarrow> webhook_payload \<Rightarrow> response iprog" where
  "dispatch event payload =
     (if event = ''workflow_run'' then
        fails (ApplyWorkflowRunEvent (wpRun payload) (wpRepositoryURL payload)) (\<lambda>_. ret Accepted)
      else if event = ''workflow_job'' then
        (case wpJob payload of
           None \<Rightarrow> ret (BadRequest (JStr ''invalid workflow_job payload''))
         | Some job \<Rightarrow>
             fails (ApplyWorkflowJobEvent (wjHeadBranch job) (wjRunID job) (wjRunAttempt job) (JobSteps (wjID job) (wjName job) (wjSteps job)))
               (\<lambda>_. ret Accepted))
      else ret Accepted)"

definition ImportHandler_Webhook :: "import_handler \<Rightarrow> (byte list \<Rightarrow> webhook_payload option) \<Rightarrow> webhook \<Rightarrow> response iprog" where
  "ImportHandler_Webhook h unmarshal wh =
     (case whBody wh of
        None \<Rightarrow> ret (BadRequest (JStr ''webhook body is too large''))
      | Some body \<Rightarrow>
          if \<not> validSignature body (whSignature wh) (ihWebhookSecret h) then ret invalid_signature
          else if whDelivery wh = [] \<or> whEvent wh = [] then ret (BadRequest (JStr ''GitHub delivery and event headers are required''))
          else case unmarshal body of
            None \<Rightarrow> ret (BadRequest (JStr ''invalid webhook JSON''))
          | Some payload \<Rightarrow>
              fails (RecordWebhook (whDelivery wh)) (\<lambda>created.
                if \<not> created then ret Accepted else dispatch (whEvent wh) payload))"

end
