(* ===== verification/ImportContract.thy ===== *)
theory ImportContract
  imports ImportHandler
begin

text \<open>
  What the worker and the handlers of repository imports rely on of their store, and what follows for them. The contract
  \<open>import_contract\<close> says that every operation of the store keeps a property of the tables, those of the identity layer included; inside
  it, every handler and the worker keep it. It is interpreted with the invariant of the import tables, with the statements that a program is made
  of, and with every invariant of the identity layer.
\<close>

section \<open>Rules\<close>

lemma keeps_fails [keeps_rules]: "keeps I m \<Longrightarrow> (\<And>a. keeps I (k a)) \<Longrightarrow> keeps I (fails m k)"
  unfolding fails_def by (intro keeps_rules)

lemma keeps_import_reads [keeps_rules]:
  "keeps (on_idb I) (GetImport g i)" "keeps (on_idb I) (GetLatestImport g)" "keeps (on_idb I) (GetInstallation g)"
  unfolding GetImport_def GetLatestImport_def GetInstallation_def by (intro keeps_rules)+

lemma keeps_with_client [keeps_rules]: "(\<And>c. keeps I (k c)) \<Longrightarrow> keeps I (with_client h k)"
  unfolding with_client_def by (intro keeps_rules)

lemma keeps_outside [keeps_rules]: "keeps I (call f)" "keeps I (lift now)"
  by (auto simp: hoare_def lift_def now_def)

section \<open>The contract\<close>

locale import_contract =
  fixes K :: "import_world \<Rightarrow> bool"
  assumes connections:
      "keeps K (CreateInstallState g u s t)" "keeps K (AuthorizeInstallState s n)"
      "keeps K (ConsumeInstallState s n)" "keeps K (UpsertInstallation g n)" "keeps K (DeleteInstallation g)"
    and lifecycle_ops:
      "keeps K (CreateImport g tm ow rp)" "keeps K (SetImportRunQueued g i)" "keeps K (SetImportPullRequest g i url)"
      "keeps K (ResumeImportRun g i)" "keeps K (RetryImport g i)"
      "keeps K (ApplyWorkflowRunEvent run url)" "keeps K (ApplyWorkflowJobEvent b r at ss)"
    and job_ops:
      "keeps K (ClaimJob w l)" "keeps K (CompleteJob j w)" "keeps K (RetryJob jb w n e)"
      "keeps K (RecordWebhook dl)"
    and reads:
      "keeps K (GetImport g i)" "keeps K (GetLatestImport g)" "keeps K (GetInstallation g)"
    and identity_ops:
      "keeps K (lift (rand_Read len))" "keeps K (lift (CreateImportToken g repo t))"
begin

lemmas store_rules = connections lifecycle_ops job_ops reads identity_ops

lemma keeps_with_installation: "(\<And>c. keeps K (k c)) \<Longrightarrow> keeps K (with_installation r k)"
  unfolding with_installation_def by (intro keeps_rules store_rules)

lemma keeps_process: "keeps K (process c jb)"
  unfolding process_def resolveRepository_def by (intro keeps_rules store_rules)

lemma keeps_runOne: "keeps K (runOne c owner)"
  unfolding runOne_def by (intro keeps_rules store_rules keeps_process)

lemma keeps_connection_handlers:
  "keeps K (ImportHandler_GetInstallation h r)" "keeps K (ImportHandler_Install h r)"
  "keeps K (ImportHandler_Callback h r)" "keeps K (ImportHandler_DeleteInstallation h r)"
  "keeps K (ImportHandler_ListRepositories h r)" "keeps K (ImportHandler_GetImportEnvironment h r)"
  "keeps K (ImportHandler_CreateImportToken h r)"
  unfolding ImportHandler_GetInstallation_def ImportHandler_Install_def ImportHandler_Callback_def connect_def
    ImportHandler_DeleteInstallation_def ImportHandler_ListRepositories_def ImportHandler_GetImportEnvironment_def
    ImportHandler_CreateImportToken_def
  by (intro keeps_rules keeps_with_installation store_rules)+

lemma keeps_reconciled: "keeps K (reconciled h v)"
  unfolding reconciled_def reconcileImport_def by (intro keeps_rules store_rules)

lemma keeps_import_handlers:
  "keeps K (ImportHandler_CreateImport h body r)" "keeps K (ImportHandler_GetImport h r)"
  "keeps K (ImportHandler_GetLatestImport h r)" "keeps K (ImportHandler_Retry r)"
  "keeps K (ImportHandler_RerunFailedJobs h r)" "keeps K (ImportHandler_Webhook h un wh)"
  unfolding ImportHandler_CreateImport_def ImportHandler_GetImport_def ImportHandler_GetLatestImport_def ImportHandler_Retry_def
    ImportHandler_RerunFailedJobs_def ImportHandler_Webhook_def dispatch_def
  by (intro keeps_rules keeps_with_installation store_rules keeps_reconciled)+

end

end
