(* ===== verification/ImportLife.thy ===== *)
theory ImportLife
  imports ImportContract
begin

text \<open>
  The invariant of the import tables, and the life cycle of an import as a transition system that the tables refine.
\<close>

section \<open>Invariant\<close>

definition connections_ok :: "import_db \<Rightarrow> bool" where
  "connections_ok i \<longleftrightarrow> unique isStateHash (install_states i) \<and> unique irOrgID (installations i) \<and>
     unique irGitHubInstallationID (installations i) \<and> distinct (deliveries i)"

definition import_valid :: "import_row \<Rightarrow> bool" where
  "import_valid m \<longleftrightarrow> imBranch m = Branch (imID m) \<and> State_Validate (imStatus m) = None \<and>
     (imStatus m = StateRunRunning \<longrightarrow> imRunID m \<noteq> None) \<and> (imStatus m = StateCompleted \<longrightarrow> imServiceID m \<noteq> None)"

definition imports_ok :: "import_db \<Rightarrow> bool" where
  "imports_ok i \<longleftrightarrow> unique imID (repo_imports i) \<and> list_all import_valid (repo_imports i)"

text \<open>\<open>active_key\<close> is what the partial unique index indexes.\<close>

definition active_key :: "job_row \<Rightarrow> string \<times> string" where
  "active_key j = (jrImportID j, jrKind j)"

definition active :: "job_row list \<Rightarrow> job_row list" where
  "active js = filter (\<lambda>j. jrCompletedAt j = None) js"

definition jobs_ok :: "import_db \<Rightarrow> bool" where
  "jobs_ok i \<longleftrightarrow> unique jrID (jobs i) \<and> list_all (\<lambda>j. jrID j < job_seq i \<and> 0 \<le> jrAttempts j) (jobs i) \<and>
     unique active_key (active (jobs i)) \<and>
     keys (\<lambda>j. (jrOrgID j, jrImportID j)) (jobs i) \<subseteq> keys (\<lambda>m. (imOrgID m, imID m)) (repo_imports i)"

definition import_ok :: "import_db \<Rightarrow> bool" where
  "import_ok i \<longleftrightarrow> connections_ok i \<and> imports_ok i \<and> jobs_ok i"

lemma list_all_update_where:
  "list_all P rows \<Longrightarrow> (\<And>r. P r \<Longrightarrow> Q r \<Longrightarrow> P (f r)) \<Longrightarrow> list_all P (update_where Q f rows)"
  by (induction rows) auto

lemma State_Validate_iff:
  "State_Validate s = None \<longleftrightarrow> s \<in> {StateSelected, StateRunQueued, StateRunRunning, StateCompleted, StateFailed}"
  by (auto simp: State_Validate_def)

lemma states_differ [simp]:
  "StateSelected \<noteq> StateRunRunning" "StateSelected \<noteq> StateCompleted" "StateRunQueued \<noteq> StateRunRunning" "StateRunQueued \<noteq> StateCompleted"
  "StateRunRunning \<noteq> StateCompleted" "StateFailed \<noteq> StateRunRunning" "StateFailed \<noteq> StateCompleted" "StateCompleted \<noteq> StateRunRunning"
  "StateSelected \<noteq> StateFailed" "StateRunQueued \<noteq> StateFailed" "StateRunRunning \<noteq> StateFailed" "StateCompleted \<noteq> StateFailed"
  by (simp_all add: state_defs)

lemma imports_ok_set:
  assumes "imports_ok i" and "\<And>m. imID (f m) = imID m" and "\<And>m. import_valid m \<Longrightarrow> P m \<Longrightarrow> import_valid (f m)"
  shows "imports_ok (set_imports P f i)"
  using assms by (simp add: imports_ok_def set_imports_def list_all_update_where)

lemma jobs_ok_set_imports:
  assumes "\<And>m. imID (f m) = imID m" and "\<And>m. imOrgID (f m) = imOrgID m"
  shows "jobs_ok (set_imports P f i) = jobs_ok i"
  using assms by (simp add: jobs_ok_def set_imports_def)

lemma connections_ok_set_imports [simp]: "connections_ok (set_imports P f i) = connections_ok i"
  by (simp add: connections_ok_def set_imports_def)

lemma import_ok_set:
  assumes "import_ok i" and "\<And>m. imID (f m) = imID m" "\<And>m. imOrgID (f m) = imOrgID m"
    and "\<And>m. import_valid m \<Longrightarrow> P m \<Longrightarrow> import_valid (f m)"
  shows "import_ok (set_imports P f i)"
  using assms by (simp add: import_ok_def imports_ok_set jobs_ok_set_imports)

lemma active_append [simp]: "active (xs @ ys) = active xs @ active ys"
  by (simp add: active_def)

lemma import_ok_job_insert:
  assumes "import_ok i" and "\<not> exists_row (active_job importID kind) (jobs i)"
    and "(orgID, importID) \<in> keys (\<lambda>m. (imOrgID m, imID m)) (repo_imports i)"
  shows "import_ok (job_insert t orgID importID kind i)"
proof -
  let ?new = "\<lparr>jrID = job_seq i, jrOrgID = orgID, jrImportID = importID, jrKind = kind, jrAvailableAt = t, jrLeaseOwner = None,
      jrLeaseExpiresAt = None, jrAttempts = 0, jrMaxAttempts = 8, jrLastError = None, jrCompletedAt = None, jrCreatedAt = t, jrUpdatedAt = t\<rparr>"
  have old: "jobs_ok i" using assms(1) by (simp add: import_ok_def)
  have "active_key ?new \<notin> keys active_key (active (jobs i))"
    using assms(2) by (auto simp: active_key_def active_def active_job_def)
  then have act: "unique active_key (active (jobs i @ [?new]))"
    using old by (simp add: jobs_ok_def) (simp add: active_def)
  have "job_seq i \<notin> keys jrID (jobs i)" using old by (auto simp: jobs_ok_def list_all_iff)
  then have ids: "unique jrID (jobs i @ [?new])" using old by (simp add: jobs_ok_def)
  have "list_all (\<lambda>j. jrID j < Suc (job_seq i) \<and> 0 \<le> jrAttempts j) (jobs i @ [?new])"
    using old by (auto simp: jobs_ok_def list_all_iff less_SucI)
  then have "jobs_ok (job_insert t orgID importID kind i)"
    using act ids old assms(3) by (simp add: jobs_ok_def job_insert_def)
  then show ?thesis using assms(1) by (simp add: import_ok_def job_insert_def connections_ok_def imports_ok_def)
qed

text \<open>An update of jobs that keeps their keys, and either keeps or sets \<open>completed_at\<close>.\<close>

lemma active_update:
  assumes "\<And>j. active_key (f j) = active_key j" and "\<And>j. jrCompletedAt j \<noteq> None \<Longrightarrow> jrCompletedAt (f j) \<noteq> None"
    and "unique active_key (active js)"
  shows "unique active_key (active (update_where P f js))"
  using assms(3)
proof (induction js)
  case (Cons j js)
  have open_before: "jrCompletedAt y = None" if "jrCompletedAt (f y) = None" for y using that assms(2) [of y] by blast
  have sub: "keys active_key (active (update_where P f js)) \<subseteq> keys active_key (active js)"
  proof
    fix x assume "x \<in> keys active_key (active (update_where P f js))"
    then obtain y where "y \<in> set js" "x = active_key (if P y then f y else y)" "jrCompletedAt (if P y then f y else y) = None"
      by (auto simp: active_def update_where_def)
    then have "x = active_key y" "jrCompletedAt y = None" using assms(1) open_before by (auto split: if_splits)
    then show "x \<in> keys active_key (active js)" using \<open>y \<in> set js\<close> by (auto simp: active_def)
  qed
  show ?case
  proof (cases "jrCompletedAt (if P j then f j else j) = None")
    case True
    then have "jrCompletedAt j = None" using open_before by (auto split: if_splits)
    then have "active_key j \<notin> keys active_key (active js)" "unique active_key (active js)" using Cons.prems by (auto simp: active_def)
    then show ?thesis using True Cons.IH sub assms(1) by (auto simp: active_def)
  next
    case False
    have "unique active_key (active js)" using Cons.prems by (auto simp: active_def split: if_splits)
    then show ?thesis using False Cons.IH by (auto simp: active_def)
  qed
qed simp

lemma import_ok_update_jobs:
  assumes "import_ok i" and "\<And>j. jrID (f j) = jrID j" "\<And>j. active_key (f j) = active_key j" "\<And>j. jrOrgID (f j) = jrOrgID j"
    and "\<And>j. jrCompletedAt j \<noteq> None \<Longrightarrow> jrCompletedAt (f j) \<noteq> None" and "\<And>j. 0 \<le> jrAttempts j \<Longrightarrow> 0 \<le> jrAttempts (f j)"
  shows "import_ok (i\<lparr>jobs := update_where P f (jobs i)\<rparr>)"
proof -
  have "jrImportID (f j) = jrImportID j" for j using assms(3) [of j] by (simp add: active_key_def)
  then have "keys (\<lambda>j. (jrOrgID j, jrImportID j)) (update_where P f (jobs i)) = keys (\<lambda>j. (jrOrgID j, jrImportID j)) (jobs i)"
    using assms(4) by (intro keys_update_where) simp
  moreover have "unique active_key (active (update_where P f (jobs i)))"
    using assms(1) by (intro active_update assms(3,5)) (simp_all add: import_ok_def jobs_ok_def)
  moreover have "list_all (\<lambda>j. jrID j < job_seq i \<and> 0 \<le> jrAttempts j) (update_where P f (jobs i))"
    using assms(1,2,6) by (intro list_all_update_where) (simp_all add: import_ok_def jobs_ok_def)
  ultimately show ?thesis using assms(1,2)
    by (simp add: import_ok_def jobs_ok_def connections_ok_def imports_ok_def)
qed

lemma import_ok_connections:
  assumes "import_ok i" and "connections_ok i \<Longrightarrow> connections_ok i'" and "repo_imports i' = repo_imports i" "jobs i' = jobs i" "job_seq i' = job_seq i"
  shows "import_ok i'"
  using assms by (simp add: import_ok_def imports_ok_def jobs_ok_def)

lemma find_in_keys: "find (the_import g i) rows = Some m \<Longrightarrow> (g, i) \<in> keys (\<lambda>m. (imOrgID m, imID m)) rows"
  by (auto dest!: find_SomeD simp: the_import_def image_iff)

section \<open>The invariant is kept\<close>

lemma unique_retarget:
  assumes "unique l rows" and "unique k rows" and "\<And>r. l r = x \<Longrightarrow> k (f r) = n" and "\<And>r. r \<in> set rows \<Longrightarrow> k r = n \<Longrightarrow> l r = x"
  shows "unique k (update_where (\<lambda>r. l r = x) f rows)"
  using assms
proof (induction rows)
  case (Cons r rows)
  show ?case
  proof (cases "l r = x")
    case True
    then have "update_where (\<lambda>r. l r = x) f rows = rows" using Cons.prems(1) by (intro update_where_none) auto
    moreover have "n \<notin> keys k rows" using True Cons.prems(1,4) by (auto simp: image_iff)
    ultimately show ?thesis using True Cons.prems by auto
  next
    case False
    then have "k r \<noteq> n" using Cons.prems(4) by auto
    then have "k r \<notin> keys k (update_where (\<lambda>r. l r = x) f rows)" using Cons.prems(2,3) by (auto simp: update_where_def)
    then show ?thesis using False Cons by simp
  qed
qed simp

lemma keeps_connections:
  "keeps (on_idb import_ok) (CreateInstallState g u s t)" "keeps (on_idb import_ok) (AuthorizeInstallState s n)"
  "keeps (on_idb import_ok) (ConsumeInstallState s n)" "keeps (on_idb import_ok) (UpsertInstallation g n)"
  "keeps (on_idb import_ok) (DeleteInstallation g)" "keeps (on_idb import_ok) (RecordWebhook dl)"
proof -
  show "keeps (on_idb import_ok) (CreateInstallState g u s t)" unfolding CreateInstallState_def
    by (intro keeps_iwrap keeps_txn, erule import_ok_connections)
      (auto simp: connections_ok_def split: if_splits)
  show "keeps (on_idb import_ok) (AuthorizeInstallState s n)" unfolding AuthorizeInstallState_def
    by (intro keeps_iwrap keeps_istmt, erule import_ok_connections)
      (auto simp: connections_ok_def split: option.splits)
  show "keeps (on_idb import_ok) (ConsumeInstallState s n)" unfolding ConsumeInstallState_def
    by (intro keeps_iwrap keeps_istmt, erule import_ok_connections)
      (auto simp: connections_ok_def split: option.splits)
  show "keeps (on_idb import_ok) (UpsertInstallation g n)" unfolding UpsertInstallation_def
  proof (intro keeps_iwrap keeps_txn, erule import_ok_connections)
    fix t d i a d' i'
    assume ok: "connections_ok i" and step: "(if exists_row (\<lambda>r. irGitHubInstallationID r = n \<and> irOrgID r \<noteq> g) (installations i)
        then Inl (UniqueViolation ''github_installations_github_installation_id_key'')
        else if exists_row (\<lambda>r. irOrgID r = g) (installations i)
        then Inr ((), d, i\<lparr>installations := update_where (\<lambda>r. irOrgID r = g) (\<lambda>r. r\<lparr>irGitHubInstallationID := n\<rparr>) (installations i)\<rparr>)
        else if \<not> exists_row (\<lambda>x. oID x = g) (orgs d) then Inl (ForeignKeyViolation ''github_installations_org_id_fkey'')
        else Inr ((), d, i\<lparr>installations := installations i @
          [\<lparr>irOrgID = g, irGitHubInstallationID = n, irCreatedAt = t\<rparr>]\<rparr>)) = Inr (a, d', i')"
    have "unique irGitHubInstallationID (update_where (\<lambda>r. irOrgID r = g) (\<lambda>r. r\<lparr>irGitHubInstallationID := n\<rparr>) (installations i))"
      if "\<not> exists_row (\<lambda>r. irGitHubInstallationID r = n \<and> irOrgID r \<noteq> g) (installations i)"
      using ok that by (intro unique_retarget) (auto simp: connections_ok_def)
    then show "connections_ok i'" using ok step by (auto simp: connections_ok_def split: if_splits) blast
  qed (auto split: if_splits)
  show "keeps (on_idb import_ok) (DeleteInstallation g)" unfolding DeleteInstallation_def
    by (intro keeps_ibindE keeps_iwrap keeps_istmt keeps_return, erule import_ok_connections)
      (auto simp: connections_ok_def)
  show "keeps (on_idb import_ok) (RecordWebhook dl)" unfolding RecordWebhook_def
    by (intro keeps_istmt, erule import_ok_connections)
      (auto simp: connections_ok_def split: if_splits)
qed

lemma keeps_job_ops:
  "keeps (on_idb import_ok) (ClaimJob w l)" "keeps (on_idb import_ok) (CompleteJob j w)" "keeps (on_idb import_ok) (RetryJob jb w n e)"
proof -
  show "keeps (on_idb import_ok) (ClaimJob w l)" unfolding ClaimJob_def
    by (intro keeps_iwrap keeps_istmt) (auto simp: active_key_def split: list.splits intro!: import_ok_update_jobs)
  show "keeps (on_idb import_ok) (CompleteJob j w)" unfolding CompleteJob_def
    by (intro keeps_istmt) (auto simp: active_key_def intro!: import_ok_update_jobs)
  show "keeps (on_idb import_ok) (RetryJob jb w n e)" unfolding RetryJob_def
    by (intro keeps_istmt) (auto simp: Let_def active_key_def import_valid_def State_Validate_iff split: if_splits
        intro!: import_ok_set import_ok_update_jobs)
qed

lemma keeps_status_ops:
  "keeps (on_idb import_ok) (SetImportRunQueued g i)" "keeps (on_idb import_ok) (SetImportPullRequest g i url)"
  "keeps (on_idb import_ok) (ResumeImportRun g i)" "keeps (on_idb import_ok) (ApplyWorkflowJobEvent b r at ss)"
proof -
  show "keeps (on_idb import_ok) (SetImportRunQueued g i)" unfolding SetImportRunQueued_def
    by (intro keeps_iwrap keeps_istmt) (auto simp: import_valid_def State_Validate_iff intro!: import_ok_set)
  show "keeps (on_idb import_ok) (SetImportPullRequest g i url)" unfolding SetImportPullRequest_def
    by (intro keeps_iwrap keeps_istmt) (auto simp: import_valid_def State_Validate_iff intro!: import_ok_set)
  show "keeps (on_idb import_ok) (ResumeImportRun g i)" unfolding ResumeImportRun_def
    by (intro keeps_ibindE keeps_iwrap keeps_istmt keeps_return)
      (auto simp: import_valid_def State_Validate_iff resumable_def intro!: import_ok_set)
  show "keeps (on_idb import_ok) (ApplyWorkflowJobEvent b r at ss)" unfolding ApplyWorkflowJobEvent_def
    by (intro keeps_if keeps_istmt keeps_return)
      (auto simp: import_valid_def State_Validate_iff split: option.splits if_splits intro!: import_ok_set)
qed

lemma set_imports_frame [simp]: "jobs (set_imports P f i) = jobs i" "services (set_imports P f i) = services i"
  by (simp_all add: set_imports_def)

lemma set_imports_keys:
  assumes "\<And>m. imID (f m) = imID m" and "\<And>m. imOrgID (f m) = imOrgID m"
  shows "keys (\<lambda>m. (imOrgID m, imID m)) (repo_imports (set_imports P f i)) = keys (\<lambda>m. (imOrgID m, imID m)) (repo_imports i)"
  using assms by (simp add: set_imports_def)

lemma import_ok_add:
  assumes "import_ok i" and "imID m \<notin> keys imID (repo_imports i)" and "import_valid m"
  shows "import_ok (i\<lparr>repo_imports := repo_imports i @ [m]\<rparr>)"
  using assms by (auto simp: import_ok_def imports_ok_def jobs_ok_def connections_ok_def)

lemma keeps_CreateImport: "keeps (on_idb import_ok) (CreateImport g tm ow rp)"
  unfolding CreateImport_def
  by (intro keeps_bind keeps_lift keeps_ibindE keeps_import_reads keeps_txn)
    (auto split: if_splits simp: import_valid_def State_Validate_iff intro!: import_ok_job_insert import_ok_add)

lemma keeps_RetryImport: "keeps (on_idb import_ok) (RetryImport g i)"
  unfolding RetryImport_def
proof (rule keeps_istmt)
  fix t i0 a i'
  let ?f = "\<lambda>m. m\<lparr>imStatus := StateSelected, imError := None, imRunID := None, imRunURL := None, imSteps := [], imRunAttempt := 1,
      imRunStartedAt := None, imRunCompletedAt := None, imCompletedAt := None, imUpdatedAt := t\<rparr>"
  let ?i = "set_imports (the_import g i) ?f i0"
  assume "import_ok i0" and step: "(case find (the_import g i) (repo_imports i0) of
       None \<Rightarrow> Inl StoreErrNotFound
     | Some m \<Rightarrow>
         if imStatus m \<noteq> StateFailed then Inl StoreErrConflict
         else let i' = ?i in
           Inr ((), if exists_row (active_job i JobStart) (jobs i')
             then i'\<lparr>jobs := update_where (active_job i JobStart) (\<lambda>j. j\<lparr>jrAvailableAt := t, jrAttempts := 0,
                    jrLeaseOwner := None, jrLeaseExpiresAt := None, jrLastError := None\<rparr>) (jobs i')\<rparr>
             else job_insert t g i JobStart i')) = Inr (a, i')"
  then have ok: "import_ok ?i" by (intro import_ok_set) (auto simp: import_valid_def State_Validate_iff)
  from step obtain m where "find (the_import g i) (repo_imports i0) = Some m" by (auto split: option.splits)
  then have "(g, i) \<in> keys (\<lambda>m. (imOrgID m, imID m)) (repo_imports ?i)" by (subst set_imports_keys) (auto dest: find_in_keys)
  note insert = import_ok_job_insert [OF ok _ this]
  have "import_ok (?i\<lparr>jobs := update_where (active_job i JobStart) (\<lambda>j. j\<lparr>jrAvailableAt := t, jrAttempts := 0,
      jrLeaseOwner := None, jrLeaseExpiresAt := None, jrLastError := None\<rparr>) (jobs ?i)\<rparr>)"
    by (rule import_ok_update_jobs [OF ok]) (auto simp: active_key_def)
  then show "import_ok i'"
    using step insert by (auto simp: Let_def split: option.splits if_splits)
qed

lemma import_ok_apply_run:
  assumes "import_ok i" and "m \<in> set (repo_imports i)"
  shows "import_ok (apply_run t run url m i)"
proof -
  note upd = import_ok_set [OF assms(1)]
  have key: "(imOrgID m, imID m) \<in> keys (\<lambda>m. (imOrgID m, imID m)) (repo_imports i)" using assms(2) by auto
  show ?thesis
  proof (cases "wrStatus run = ''completed'' \<and> wrConclusion run = ''success'' \<and> matching_services (imOrgID m) url (services i) \<noteq> []")
    case False
    then show ?thesis unfolding apply_run_def Let_def
      by (auto simp: import_valid_def State_Validate_iff split: list.splits intro!: upd)
  next
    case True
    then obtain s ss where s: "matching_services (imOrgID m) url (services i) = s # ss" by (meson neq_Nil_conv)
    let ?i = "set_imports (the_import (imOrgID m) (imID m)) (\<lambda>m. m\<lparr>imStatus := StateCompleted, imServiceID := Some (svID s),
        imRunID := Some (wrID run), imRunURL := Some (wrHTMLURL run), imRunCompletedAt := Some t, imCompletedAt := Some t, imUpdatedAt := t\<rparr>) i"
    have ok: "import_ok ?i" by (rule upd) (auto simp: import_valid_def State_Validate_iff)
    have "(imOrgID m, imID m) \<in> keys (\<lambda>m. (imOrgID m, imID m)) (repo_imports ?i)" using key by (subst set_imports_keys) auto
    then show ?thesis using True s ok unfolding apply_run_def Let_def by (auto intro!: import_ok_job_insert)
  qed
qed

lemma keeps_ApplyWorkflowRunEvent: "keeps (on_idb import_ok) (ApplyWorkflowRunEvent run url)"
  unfolding ApplyWorkflowRunEvent_def
  by (intro keeps_if keeps_return keeps_istmt)
    (auto split: option.splits if_splits dest!: find_SomeD intro: import_ok_apply_run)

interpretation inv: import_contract "on_idb import_ok"
  by unfold_locales
    (rule keeps_connections keeps_job_ops keeps_status_ops keeps_CreateImport keeps_RetryImport keeps_ApplyWorkflowRunEvent keeps_import_reads keeps_lift)+

section \<open>The life cycle\<close>

text \<open>The abstract state of an import: its state and the run that it waits for, \<open>None\<close> when there is no such import.\<close>

type_synonym life = "(string \<times> int option) option"

definition lifecycle :: "import_db \<Rightarrow> string \<Rightarrow> life" where
  "lifecycle i x = map_option (\<lambda>m. (imStatus m, imRunID m)) (find (\<lambda>m. imID m = x) (repo_imports i))"

text \<open>The statements of the program by what they may do to an import. \<open>Settle\<close> is the worker's statement after a failed attempt, \<open>Resume\<close>
  and \<open>Retry\<close> are the user's, \<open>Run\<close> and \<open>Jobs\<close> report a workflow run.\<close>

datatype import_op =
    Create
  | Queued string
  | Settle job
  | Resume string
  | Retry string
  | Run workflow_run
  | Jobs string int
  | Other

definition terminal :: "string \<Rightarrow> bool" where
  "terminal s \<longleftrightarrow> s \<in> {StateCompleted, StateFailed}"

text \<open>What a run that GitHub reports makes of an import: a run that has not completed, one that has failed, one that has succeeded. A run that has
  succeeded fails the import when no service has the URL of the repository.\<close>

definition reported :: "workflow_run \<Rightarrow> string \<Rightarrow> bool" where
  "reported run s \<longleftrightarrow> (if wrStatus run \<noteq> ''completed'' then s = StateRunRunning
     else if wrConclusion run \<noteq> ''success'' then s = StateFailed
     else s = StateCompleted \<or> s = StateFailed)"

text \<open>\<open>life_move op x s s'\<close>: the statement \<open>op\<close> may take the import \<open>x\<close> from \<open>s\<close> to another \<open>s'\<close>.\<close>

inductive life_move :: "import_op \<Rightarrow> string \<Rightarrow> life \<Rightarrow> life \<Rightarrow> bool" where
  create: "life_move Create x None (Some (StateSelected, None))"
| queued: "life_move (Queued x) x (Some (StateSelected, r)) (Some (StateRunQueued, r))"
| give_up: "jbImportID jb = x \<Longrightarrow> jbKind jb = JobStart \<Longrightarrow> jbMaxAttempts jb \<le> jbAttempts jb \<Longrightarrow>
    life_move (Settle jb) x (Some (s, r)) (Some (StateFailed, r))"
| resume: "life_move (Resume x) x (Some (StateFailed, Some r)) (Some (StateRunRunning, Some r))"
| retry: "life_move (Retry x) x (Some (StateFailed, r)) (Some (StateSelected, None))"
| report: "wrHeadBranch run = Branch x \<Longrightarrow> wrEvent run = ''push'' \<Longrightarrow> IsOnboardingWorkflowPath (wrPath run) \<Longrightarrow>
    \<not> terminal s \<Longrightarrow> get_or 0 r \<le> wrID run \<Longrightarrow> reported run s' \<Longrightarrow> life_move (Run run) x (Some (s, r)) (Some (s', Some (wrID run)))"
| progress: "\<not> terminal s \<Longrightarrow> get_or 0 r \<le> r' \<Longrightarrow> life_move (Jobs (Branch x) r') x (Some (s, r)) (Some (s, Some r'))"


text \<open>A sequence of statements: each takes a step of the life cycle, or none.\<close>

primrec life_run :: "import_op list \<Rightarrow> string \<Rightarrow> life \<Rightarrow> life \<Rightarrow> bool" where
  "life_run [] x s s' \<longleftrightarrow> s' = s"
| "life_run (op # ops) x s s' \<longleftrightarrow> (\<exists>s1. (s1 = s \<or> life_move op x s s1) \<and> life_run ops x s1 s')"

section \<open>Statements\<close>

text \<open>\<open>import_stmt op i i'\<close>: one statement on the import tables, run at any time and in any world, whether it is lost, its reply is lost, or neither.
  The catalogue may change its services.\<close>

inductive import_stmt :: "import_op \<Rightarrow> import_db \<Rightarrow> import_db \<Rightarrow> bool" where
  "run_state (CreateImport g tm ow rp) w = (r, w') \<Longrightarrow> import_stmt Create (idb w) (idb w')"
| "run_state (SetImportRunQueued g x) w = (a, w') \<Longrightarrow> import_stmt (Queued x) (idb w) (idb w')"
| "run_state (RetryJob jb owner t e) w = (a, w') \<Longrightarrow> import_stmt (Settle jb) (idb w) (idb w')"
| "run_state (ResumeImportRun g x) w = (a, w') \<Longrightarrow> import_stmt (Resume x) (idb w) (idb w')"
| "run_state (RetryImport g x) w = (a, w') \<Longrightarrow> import_stmt (Retry x) (idb w) (idb w')"
| "run_state (ApplyWorkflowRunEvent run url) w = (a, w') \<Longrightarrow> import_stmt (Run run) (idb w) (idb w')"
| "run_state (ApplyWorkflowJobEvent b n k ss) w = (a, w') \<Longrightarrow> import_stmt (Jobs b n) (idb w) (idb w')"
| "run_state (SetImportPullRequest g x url) w = (a, w') \<Longrightarrow> import_stmt Other (idb w) (idb w')"
| "run_state (ClaimJob owner l) w = (c, w') \<Longrightarrow> import_stmt Other (idb w) (idb w')"
| "run_state (CompleteJob j owner) w = (a, w') \<Longrightarrow> import_stmt Other (idb w) (idb w')"
| "run_state (RecordWebhook dl) w = (b, w') \<Longrightarrow> import_stmt Other (idb w) (idb w')"
| "run_state (CreateInstallState g u s t) w = (a, w') \<Longrightarrow> import_stmt Other (idb w) (idb w')"
| "run_state (AuthorizeInstallState s n) w = (o', w') \<Longrightarrow> import_stmt Other (idb w) (idb w')"
| "run_state (ConsumeInstallState s n) w = (o', w') \<Longrightarrow> import_stmt Other (idb w) (idb w')"
| "run_state (UpsertInstallation g n) w = (a, w') \<Longrightarrow> import_stmt Other (idb w) (idb w')"
| "run_state (DeleteInstallation g) w = (a, w') \<Longrightarrow> import_stmt Other (idb w) (idb w')"
| "import_stmt Other i (i\<lparr>services := svs\<rparr>)"

inductive import_run :: "import_op list \<Rightarrow> import_db \<Rightarrow> import_db \<Rightarrow> bool" where
  stop: "import_run [] i i"
| more: "import_stmt op i i1 \<Longrightarrow> import_run ops i1 i' \<Longrightarrow> import_run (op # ops) i i'"

lemma import_run_append: "import_run ops i i1 \<Longrightarrow> import_run ops' i1 i' \<Longrightarrow> import_run (ops @ ops') i i'"
  by (induction rule: import_run.induct) (auto intro: import_run.more)

lemma import_run_single: "import_stmt op i i' \<Longrightarrow> import_run [op] i i'"
  by (auto intro: import_run.intros)

text \<open>Every handler and every round of the worker is a sequence of such statements.\<close>

definition ran_from :: "import_db \<Rightarrow> import_db \<Rightarrow> bool" where
  "ran_from i0 i \<longleftrightarrow> (\<exists>ops. import_run ops i0 i)"

lemma keeps_ran:
  assumes "\<And>w r w'. run_state m w = (r, w') \<Longrightarrow> import_stmt op (idb w) (idb w')"
  shows "keeps (on_idb (ran_from i0)) m"
  by (rule hoareI) (use assms import_run_append import_run_single in \<open>fastforce simp: on_idb_def ran_from_def\<close>)

interpretation statements: import_contract "on_idb (ran_from i0)" for i0
  by unfold_locales (rule keeps_import_reads keeps_lift | (rule keeps_ran, erule import_stmt.intros))+

section \<open>The tables refine the life cycle\<close>

lemma find_update_other:
  assumes "\<And>m. k (f m) = k m"
  shows "find (\<lambda>m. k m = x) (update_where P f rows) = map_option (\<lambda>m. if P m then f m else m) (find (\<lambda>m. k m = x) rows)"
  using assms by (induction rows) auto

lemma life_frame: "repo_imports i' = repo_imports i \<Longrightarrow> lifecycle i' = lifecycle i"
  by (simp add: lifecycle_def fun_eq_iff)

lemma find_by_key: "unique k rows \<Longrightarrow> m \<in> set rows \<Longrightarrow> find (\<lambda>r. k r = k m) rows = Some m"
  by (simp add: find_Some_iff_key)

text \<open>\<open>moves op i i'\<close>: every import takes a step of \<open>op\<close>, or none.\<close>

definition moves :: "import_op \<Rightarrow> import_db \<Rightarrow> import_db \<Rightarrow> bool" where
  "moves op i i' \<longleftrightarrow> (\<forall>x. lifecycle i' x = lifecycle i x \<or> life_move op x (lifecycle i x) (lifecycle i' x))"

lemma moves_same: "lifecycle i' = lifecycle i \<Longrightarrow> moves op i i'" and moves_refl [simp]: "moves op i i"
  by (simp_all add: moves_def)

lemma moves_set_imports:
  assumes "\<And>m. imID (f m) = imID m"
    and "\<And>m. m \<in> set (repo_imports i) \<Longrightarrow> find (\<lambda>x. imID x = imID m) (repo_imports i) = Some m \<Longrightarrow> P m \<Longrightarrow>
      (imStatus (f m), imRunID (f m)) \<noteq> (imStatus m, imRunID m) \<Longrightarrow>
      life_move op (imID m) (Some (imStatus m, imRunID m)) (Some (imStatus (f m), imRunID (f m)))"
  shows "moves op i (set_imports P f i)"
  unfolding moves_def
proof
  fix x
  have eq: "lifecycle (set_imports P f i) x = map_option (\<lambda>m. let m' = if P m then f m else m in (imStatus m', imRunID m'))
      (find (\<lambda>m. imID m = x) (repo_imports i))"
    unfolding lifecycle_def set_imports_def using assms(1) by (simp add: find_update_other option.map_comp comp_def Let_def)
  show "lifecycle (set_imports P f i) x = lifecycle i x \<or> life_move op x (lifecycle i x) (lifecycle (set_imports P f i) x)"
  proof (cases "find (\<lambda>m. imID m = x) (repo_imports i)")
    case (Some m)
    then have m: "m \<in> set (repo_imports i)" "imID m = x" by (auto dest: find_SomeD)
    then show ?thesis using assms(2) [OF m(1)] Some unfolding eq by (auto simp: lifecycle_def Let_def)
  next
    case None
    then show ?thesis by (simp add: eq) (simp add: lifecycle_def)
  qed
qed

text \<open>\<open>advances op m\<close>: from well-formed tables \<open>m\<close> takes only steps of \<open>op\<close>. \<open>quiet m\<close>: it leaves them as they are.\<close>

definition advances :: "import_op \<Rightarrow> 'a iprog \<Rightarrow> bool" where
  "advances op m \<longleftrightarrow> (\<forall>g. import_ok (idb g) \<longrightarrow> moves op (idb g) (idb (snd (run_state m g))))"

definition quiet :: "'a iprog \<Rightarrow> bool" where
  "quiet m \<longleftrightarrow> (\<forall>g. idb (snd (run_state m g)) = idb g)"

lemma advancesD: "advances op m \<Longrightarrow> run_state m g = (r, g') \<Longrightarrow> import_ok (idb g) \<Longrightarrow> moves op (idb g) (idb g')"
  by (metis advances_def snd_conv)

lemma quiet_rules:
  "quiet (ret a)" "quiet (lift n)" "quiet (iquery f)" "quiet m \<Longrightarrow> quiet (iwrap fmt m)"
proof -
  show "quiet (ret a)" "quiet (lift n)" "quiet (iquery f)"
    by (auto simp: quiet_def lift_def iquery_def txn_def Let_def split: prod.splits sum.splits fault.splits)
  show "quiet (iwrap fmt m)" if "quiet m"
    unfolding quiet_def
  proof
    fix g :: import_world
    have "idb (snd (run_state m g)) = idb g" using that by (simp add: quiet_def)
    then show "idb (snd (run_state (iwrap fmt m) g)) = idb g" by (auto simp: iwrap_def split: prod.splits)
  qed
qed

lemma quiet_case: "(\<And>e. quiet (f e)) \<Longrightarrow> (\<And>a. quiet (k a)) \<Longrightarrow> quiet (case r of Inl e \<Rightarrow> f e | Inr a \<Rightarrow> k a)"
  by (cases r) auto

lemma quiet_GetImport: "quiet (GetImport g i)"
  unfolding GetImport_def by (intro quiet_rules)

lemma advances_txn:
  assumes "\<And>t d i a d' i'. import_ok i \<Longrightarrow> f t d i = Inr (a, d', i') \<Longrightarrow> moves op i i'"
  shows "advances op (txn f)"
  unfolding advances_def
proof (intro allI impI)
  fix g :: import_world assume ok: "import_ok (idb g)"
  obtain r g' where run: "run_state (txn f) g = (r, g')" by fastforce
  from run show "moves op (idb g) (idb (snd (run_state (txn f) g)))"
    by (cases rule: run_txn_cases) (use ok assms run in auto)
qed

lemma advances_istmt:
  assumes "\<And>t i a i'. import_ok i \<Longrightarrow> f t i = Inr (a, i') \<Longrightarrow> moves op i i'"
  shows "advances op (istmt f)"
  unfolding istmt_def by (rule advances_txn) (use assms in \<open>auto split: sum.splits\<close>)

lemma advances_first:
  assumes "advances op m" and "\<And>a. quiet (k a)"
  shows "advances op (State_Monad.bind m k)"
  unfolding advances_def
proof (intro allI impI)
  fix g :: import_world assume ok: "import_ok (idb g)"
  obtain a g1 where run: "run_state m g = (a, g1)" by fastforce
  moreover have "idb (snd (run_state (k a) g1)) = idb g1" using assms(2) by (simp add: quiet_def)
  ultimately show "moves op (idb g) (idb (snd (run_state (State_Monad.bind m k) g)))"
    using advancesD [OF assms(1) run ok] by simp
qed

lemma advances_then:
  assumes "quiet m" and "\<And>a. advances op (k a)"
  shows "advances op (State_Monad.bind m k)"
  unfolding advances_def
proof (intro allI impI)
  fix g :: import_world assume ok: "import_ok (idb g)"
  obtain a g1 where run: "run_state m g = (a, g1)" by fastforce
  then have "idb g1 = idb g" using assms(1) by (metis quiet_def snd_conv)
  then show "moves op (idb g) (idb (snd (run_state (State_Monad.bind m k) g)))"
    using advancesD [OF assms(2) [of a] surjective_pairing, of g1] ok run by simp
qed

lemma advances_iwrap: "advances op m \<Longrightarrow> advances op (iwrap fmt m)"
  unfolding iwrap_def by (rule advances_first) (auto intro: quiet_rules)

lemma advances_ibindE: "advances op m \<Longrightarrow> (\<And>a. quiet (k a)) \<Longrightarrow> advances op (ibindE m k)"
  unfolding ibindE_def by (rule advances_first) (auto intro: quiet_rules quiet_case)

lemma advances_ret: "advances op (ret a)"
  by (simp add: advances_def moves_same)

text \<open>A statement that does not write imports.\<close>

lemma advances_frame:
  "(\<And>t d i a d' i'. f t d i = Inr (a, d', i') \<Longrightarrow> repo_imports i' = repo_imports i) \<Longrightarrow> advances op (txn f)"
  "(\<And>t i a i'. s t i = Inr (a, i') \<Longrightarrow> repo_imports i' = repo_imports i) \<Longrightarrow> advances op (istmt s)"
  by (rule advances_txn advances_istmt, rule moves_same, rule life_frame, blast)+

lemma advances_connections:
  "advances op (CreateInstallState g u s t)" "advances op (AuthorizeInstallState s n)" "advances op (ConsumeInstallState s n)"
  "advances op (UpsertInstallation g n)" "advances op (DeleteInstallation g)" "advances op (RecordWebhook dl)" "advances op (ClaimJob w l)"
  "advances op (CompleteJob j w)"
  unfolding CreateInstallState_def AuthorizeInstallState_def ConsumeInstallState_def UpsertInstallation_def DeleteInstallation_def
    RecordWebhook_def ClaimJob_def CompleteJob_def
  by (intro advances_iwrap advances_ibindE advances_frame quiet_rules; auto split: if_splits option.splits list.splits)+

lemma life_job_insert [simp]: "lifecycle (job_insert t g i k d) = lifecycle d" "lifecycle (d\<lparr>jobs := js\<rparr>) = lifecycle d"
  by (simp_all add: lifecycle_def job_insert_def fun_eq_iff)

lemma moves_jobs [simp]: "moves op (d\<lparr>jobs := js\<rparr>) i = moves op d i" "moves op i (d\<lparr>jobs := js\<rparr>) = moves op i d"
  "moves op i (job_insert t g x k d) = moves op i d"
  by (simp_all add: moves_def)

lemma advances_status_ops:
  "advances (Queued x) (SetImportRunQueued g x)" "advances op (SetImportPullRequest g x url)" "advances (Resume x) (ResumeImportRun g x)"
  "advances (Settle jb) (RetryJob jb w n e)"
proof -
  show "advances (Queued x) (SetImportRunQueued g x)" unfolding SetImportRunQueued_def
    by (intro advances_iwrap advances_istmt) (auto simp: the_import_def intro!: moves_set_imports life_move.queued)
  show "advances op (SetImportPullRequest g x url)" unfolding SetImportPullRequest_def
    by (intro advances_iwrap advances_istmt) (auto intro!: moves_set_imports)
  show "advances (Resume x) (ResumeImportRun g x)" unfolding ResumeImportRun_def
    by (intro advances_ibindE advances_iwrap advances_istmt quiet_rules)
      (auto simp: the_import_def resumable_def intro!: moves_set_imports life_move.resume)
  show "advances (Settle jb) (RetryJob jb w n e)" unfolding RetryJob_def
  proof (rule advances_istmt)
    fix t :: time and i i' :: import_db and a :: unit
    let ?f = "\<lambda>m. m\<lparr>imStatus := StateFailed, imError := Some e, imUpdatedAt := t\<rparr>"
    have failed: "moves (Settle jb) d (set_imports (the_import (jbOrgID jb) (jbImportID jb)) ?f d)"
      if "jbKind jb = JobStart" "jbMaxAttempts jb \<le> jbAttempts jb" for d
      using that by (intro moves_set_imports) (auto simp: the_import_def intro: life_move.give_up)
    assume "(if jbMaxAttempts jb \<le> jbAttempts jb
        then let i' = i\<lparr>jobs := update_where (held_by (jbID jb) w) (\<lambda>j. j\<lparr>jrCompletedAt := Some t, jrLastError := Some e,
            jrLeaseOwner := None, jrLeaseExpiresAt := None, jrUpdatedAt := t\<rparr>) (jobs i)\<rparr>
          in Inr ((), if jbKind jb \<noteq> JobStart then i' else set_imports (the_import (jbOrgID jb) (jbImportID jb)) ?f i')
        else Inr ((), i\<lparr>jobs := update_where (held_by (jbID jb) w) (\<lambda>j. j\<lparr>jrAvailableAt := n, jrLastError := Some e,
             jrLeaseOwner := None, jrLeaseExpiresAt := None, jrUpdatedAt := t\<rparr>) (jobs i)\<rparr>)) = Inr (a, i')"
    then show "moves (Settle jb) i i'"
      using failed [of "i\<lparr>jobs := js\<rparr>" for js] by (auto simp: Let_def moves_same split: if_splits)
  qed
qed

lemma advances_CreateImport: "advances Create (CreateImport g tm ow rp)"
  unfolding CreateImport_def
proof (intro advances_then advances_ibindE quiet_rules quiet_GetImport advances_txn)
  fix importID :: string and t :: time and d i d' i' and a :: unit
  let ?new = "\<lparr>imID = importID, imOrgID = g, imGitHubOwnerID = ow, imGitHubRepo = rp, imTeamID = tm,
    imStatus = StateSelected, imSteps = [], imBranch = Branch importID, imRunID = None, imRunAttempt = 1,
    imRunURL = None, imPRURL = None, imError = None, imServiceID = None, imCreatedAt = t, imUpdatedAt = t,
    imRunStartedAt = None, imRunCompletedAt = None, imCompletedAt = None\<rparr>"
  assume step: "(if \<not> exists_row (\<lambda>t. tID t = tm \<and> tOrgID t = g) (teams d) then Inl StoreErrTeamNotFound
         else if exists_row (\<lambda>m. imID m = importID) (repo_imports i) then Inl (UniqueViolation ''repository_imports_pkey'')
         else if \<not> exists_row (\<lambda>x. oID x = g) (orgs d) then Inl (ForeignKeyViolation ''repository_imports_org_id_fkey'')
         else if exists_row (\<lambda>m. imOrgID m = g \<and> imBranch m = Branch importID) (repo_imports i)
         then Inl (UniqueViolation ''repository_imports_branch_idx'')
         else if exists_row (active_job importID JobStart) (jobs i) then Inl (UniqueViolation ''repository_import_jobs_active_idx'')
         else Inr ((), d\<lparr>import_teams := import_teams d @ [(g, tm)]\<rparr>,
           job_insert t g importID JobStart (i\<lparr>repo_imports := repo_imports i @ [?new]\<rparr>))) = Inr (a, d', i')"
  then have new: "find (\<lambda>m. imID m = importID) (repo_imports i) = None" and
    i': "i' = job_insert t g importID JobStart (i\<lparr>repo_imports := repo_imports i @ [?new]\<rparr>)"
    by (auto simp: find_None_iff split: if_splits)
  have "lifecycle i' x = (if x = importID then Some (StateSelected, None) else lifecycle i x)" for x
    using new unfolding i' life_job_insert by (auto simp: lifecycle_def find_append split: option.splits)
  moreover have "lifecycle i importID = None" using new by (simp add: lifecycle_def)
  ultimately show "moves Create i i'" by (auto simp: moves_def intro: life_move.create)
qed

text \<open>An update of the row \<open>m\<close> alone.\<close>

lemma moves_row:
  assumes "import_ok i" and "m \<in> set (repo_imports i)" and "\<And>x. imID (f x) = imID x"
    and "(imStatus (f m), imRunID (f m)) \<noteq> (imStatus m, imRunID m) \<Longrightarrow>
      life_move op (imID m) (Some (imStatus m, imRunID m)) (Some (imStatus (f m), imRunID (f m)))"
  shows "moves op i (set_imports (the_import g (imID m)) f i)"
proof (rule moves_set_imports [OF assms(3)])
  fix x assume x: "find (\<lambda>y. imID y = imID x) (repo_imports i) = Some x" "the_import g (imID m) x"
    "(imStatus (f x), imRunID (f x)) \<noteq> (imStatus x, imRunID x)"
  have "find (\<lambda>y. imID y = imID m) (repo_imports i) = Some m"
    using assms(1,2) by (intro find_by_key) (simp_all add: import_ok_def imports_ok_def)
  then have "x = m" using x(1,2) by (simp add: the_import_def)
  then show "life_move op (imID x) (Some (imStatus x, imRunID x)) (Some (imStatus (f x), imRunID (f x)))" using assms(4) x(3) by simp
qed

lemma advances_RetryImport: "advances (Retry x) (RetryImport g x)"
  unfolding RetryImport_def
proof (rule advances_istmt)
  fix t i0 a i'
  let ?f = "\<lambda>m. m\<lparr>imStatus := StateSelected, imError := None, imRunID := None, imRunURL := None, imSteps := [], imRunAttempt := 1,
      imRunStartedAt := None, imRunCompletedAt := None, imCompletedAt := None, imUpdatedAt := t\<rparr>"
  let ?i = "set_imports (the_import g x) ?f i0"
  assume ok: "import_ok i0" and step: "(case find (the_import g x) (repo_imports i0) of
       None \<Rightarrow> Inl StoreErrNotFound
     | Some m \<Rightarrow>
         if imStatus m \<noteq> StateFailed then Inl StoreErrConflict
         else let i' = ?i in
           Inr ((), if exists_row (active_job x JobStart) (jobs i')
             then i'\<lparr>jobs := update_where (active_job x JobStart) (\<lambda>j. j\<lparr>jrAvailableAt := t, jrAttempts := 0,
                    jrLeaseOwner := None, jrLeaseExpiresAt := None, jrLastError := None\<rparr>) (jobs i')\<rparr>
             else job_insert t g x JobStart i')) = Inr (a, i')"
  then obtain m where m: "find (the_import g x) (repo_imports i0) = Some m" "imStatus m = StateFailed"
    by (auto split: option.splits if_splits)
  then have "m \<in> set (repo_imports i0)" "imID m = x" by (auto dest: find_SomeD simp: the_import_def)
  then have "moves (Retry x) i0 ?i" using m(2) moves_row [OF ok, of m ?f "Retry x" g] by (auto intro: life_move.retry)
  then show "moves (Retry x) i0 i'" using step m by (auto simp: Let_def split: if_splits)
qed

lemma found_active:
  assumes "import_ok i" and "find (active_import b) (repo_imports i) = Some m" and "\<not> stale r n m"
  shows "m \<in> set (repo_imports i)" "b = Branch (imID m)" "\<not> terminal (imStatus m)" "get_or 0 (imRunID m) \<le> r"
  using find_SomeD [OF assms(2)] assms(1,3)
  by (auto simp: active_import_def terminal_def stale_def import_ok_def imports_ok_def list_all_iff import_valid_def)

lemma moves_apply_run:
  assumes "import_ok i" and "find (active_import (wrHeadBranch run)) (repo_imports i) = Some m" and "\<not> stale (wrID run) (wrRunAttempt run) m"
    and "wrEvent run = ''push''" and "IsOnboardingWorkflowPath (wrPath run)"
  shows "moves (Run run) i (apply_run t run url m i)"
proof -
  note a = found_active [OF assms(1-3)]
  have row: "moves (Run run) i (set_imports (the_import (imOrgID m) (imID m)) f i)"
    if "\<And>x. imID (f x) = imID x" "imRunID (f m) = Some (wrID run)" "reported run (imStatus (f m))" for f
    using moves_row [OF assms(1) a(1) that(1)] that(2,3) a(2-4) assms(4,5) by (auto intro: life_move.report)
  show ?thesis unfolding apply_run_def Let_def
    by (auto simp: reported_def split: list.split intro!: row)
qed

lemma advances_events: "advances (Run run) (ApplyWorkflowRunEvent run url)" "advances (Jobs b r) (ApplyWorkflowJobEvent b r at ss)"
proof -
  show "advances (Run run) (ApplyWorkflowRunEvent run url)" unfolding ApplyWorkflowRunEvent_def
    by (auto intro!: advances_ret advances_istmt moves_apply_run split: option.splits if_splits)
  have "moves (Jobs b r) i (set_imports (the_import (imOrgID m) (imID m)) f i)"
    if "import_ok i" "find (active_import b) (repo_imports i) = Some m" "\<not> stale r at m"
      "\<And>x. imID (f x) = imID x" "\<And>x. imRunID (f x) = Some r" "\<And>x. imStatus (f x) = imStatus x" for i m f
    using found_active [OF that(1-3)] moves_row [OF that(1), of m f] that(4-6) by (auto intro: life_move.progress)
  then show "advances (Jobs b r) (ApplyWorkflowJobEvent b r at ss)" unfolding ApplyWorkflowJobEvent_def
    by (auto intro!: advances_ret advances_istmt split: option.splits if_splits)
qed

lemma import_ok_services [simp]: "import_ok (i\<lparr>services := svs\<rparr>) = import_ok i"
  by (simp add: import_ok_def connections_ok_def imports_ok_def jobs_ok_def)

lemma import_stmt_simulates:
  assumes "import_stmt op i i'" and "import_ok i"
  shows "import_ok i'" "moves op i i'"
proof -
  note keep = keeps_connections keeps_job_ops keeps_status_ops keeps_CreateImport keeps_RetryImport keeps_ApplyWorkflowRunEvent
  note adv = advances_connections advances_status_ops advances_CreateImport advances_RetryImport advances_events
  show "import_ok i'" using assms by (cases rule: import_stmt.cases) (auto dest: keep [THEN kept])
  have services: "moves op i (i\<lparr>services := svs\<rparr>)" for svs by (rule moves_same, rule life_frame) simp
  show "moves op i i'" using assms services by (cases rule: import_stmt.cases) (auto dest: adv [THEN advancesD])
qed

lemma import_run_simulates:
  "import_run ops i i' \<Longrightarrow> import_ok i \<Longrightarrow> import_ok i' \<and> life_run ops x (lifecycle i x) (lifecycle i' x)"
proof (induction rule: import_run.induct)
  case (more op i i1 ops i')
  then show ?case using import_stmt_simulates [OF more.hyps(1) more.prems] by (auto simp: moves_def)
qed simp

end
