(* ===== verification/ImportQueue.thy ===== *)
theory ImportQueue
  imports ImportLife Examples
begin

text \<open>
  The queue of import jobs: a claimed job is held by one worker until its lease ends, and a worker that keeps going finishes
  every job whatever GitHub answers.
\<close>

section \<open>An example\<close>

text \<open>Two imports of an organisation, the first selected and the second failed, each with an open job; GitHub starts every run,
  or refuses every call.\<close>

definition ex_import :: "string \<Rightarrow> string \<Rightarrow> import_row" where
  "ex_import i status = \<lparr>imID = i, imOrgID = ''g1'', imGitHubOwnerID = 7, imGitHubRepo = ''shop'', imTeamID = ''t1'', imStatus = status,
     imSteps = [], imBranch = Branch i, imRunID = None, imRunAttempt = 1, imRunURL = None, imPRURL = None, imError = None,
     imServiceID = None, imCreatedAt = 1, imUpdatedAt = 1, imRunStartedAt = None, imRunCompletedAt = None, imCompletedAt = None\<rparr>"

definition ex_job :: "nat \<Rightarrow> string \<Rightarrow> job_row" where
  "ex_job n i = \<lparr>jrID = n, jrOrgID = ''g1'', jrImportID = i, jrKind = JobStart, jrAvailableAt = 1, jrLeaseOwner = None, jrLeaseExpiresAt = None,
     jrAttempts = 0, jrMaxAttempts = 8, jrLastError = None, jrCompletedAt = None, jrCreatedAt = 1, jrUpdatedAt = 1\<rparr>"

definition ex_state :: install_state where
  "ex_state = \<lparr>isStateHash = Hash ''abc'', isOrgID = ''g1'', isUserID = ''u1'', isGitHubUserID = None, isAuthorizedAt = None,
     isExpiresAt = 5000, isConsumedAt = None\<rparr>"

definition ex_idb :: import_db where
  "ex_idb = \<lparr>install_states = [ex_state], installations = [\<lparr>irOrgID = ''g1'', irGitHubInstallationID = 41, irCreatedAt = 1\<rparr>],
     repo_imports = [ex_import ''m1'' StateSelected, ex_import ''m2'' StateFailed], jobs = [ex_job 0 ''m1'', ex_job 1 ''m2''], job_seq = 2,
     deliveries = [], services = []\<rparr>"

definition ex_team :: team where
  "ex_team = \<lparr>tID = ''t1'', tOrgID = ''g1'', tName = ''Core'', tEmail = [], tExternalID = [], tMemberCount = 0, tCreatedAt = 1, tUpdatedAt = 1\<rparr>"

definition ex_imports :: import_world where
  "ex_imports = \<lparr>base = ex_world\<lparr>db := ex_db\<lparr>teams := [ex_team]\<rparr>\<rparr>, idb = ex_idb\<rparr>"

definition ex_repository :: repository where
  "ex_repository = \<lparr>reGitHubID = 9, reOwnerID = 7, reOwner = ''acme'', reName = ''shop'', reFullName = ''acme/shop'', reURL = ''https://github.com/acme/shop'',
     reDefaultBranch = ''main'', rePrivate = True, reArchived = False\<rparr>"

definition ex_account_of :: installation where
  "ex_account_of = \<lparr>inOrgID = [], inGitHubInstallationID = 41, inCreatedAt = 0, inAccountID = 7, inAccountLogin = ''acme'', inAccountType = ''User'',
     inSuspended = False\<rparr>"

definition ex_github :: gh_client where
  "ex_github = \<lparr>gcStartRun = (\<lambda>_ _ _ _. Inr ()), gcOpenPullRequest = (\<lambda>_ _ _ _. Inr ''https://github.com/acme/shop/pull/1''),
     gcGetInstallationAccount = (\<lambda>_ _. Inr ex_account_of), gcGetRepository = (\<lambda>_ _ _ _. Inr ex_repository)\<rparr>"

definition ex_down :: gh_client where
  "ex_down = ex_github\<lparr>gcGetInstallationAccount := (\<lambda>_ _. Inl (GitHubErrorResponse 503))\<rparr>"

lemmas ex_import_rows = ex_import_def ex_job_def ex_state_def ex_team_def

lemma ex_imports_ok [simp]: "import_ok (idb ex_imports)"
  by (simp add: ex_imports_def ex_idb_def import_ok_def connections_ok_def imports_ok_def jobs_ok_def import_valid_def State_Validate_iff
      active_def active_key_def ex_import_rows)

lemma ex_imports_simps [simp]:
  "faults (base ex_imports) = []" "clock (base ex_imports) = 1000" "idb ex_imports = ex_idb"
  "teams (db (base ex_imports)) = [ex_team]" "orgs (db (base ex_imports)) = [ex_org ''g1'', ex_org ''g2'']"
  by (simp_all add: ex_imports_def ex_world_def ex_db_def)

section \<open>Leases\<close>

definition leased :: "nat \<Rightarrow> string \<Rightarrow> time \<Rightarrow> import_db \<Rightarrow> bool" where
  "leased n w e i \<longleftrightarrow> (\<forall>j\<in>set (jobs i). jrID j = n \<longrightarrow> jrLeaseOwner j = Some w \<and> jrLeaseExpiresAt j = Some e \<and> jrCompletedAt j = None)"

text \<open>Statements of workers other than \<open>w\<close>, of any job of the queue, and the passing of time.\<close>

inductive other_worker :: "string \<Rightarrow> import_world \<Rightarrow> import_world \<Rightarrow> bool" for w where
  claim: "w' \<noteq> w \<Longrightarrow> run_state (ClaimJob w' l) g = (r, g') \<Longrightarrow> other_worker w g g'"
| settle: "w' \<noteq> w \<Longrightarrow> run_state (CompleteJob n w') g = (a, g') \<Longrightarrow> other_worker w g g'"
| again: "w' \<noteq> w \<Longrightarrow> run_state (RetryJob jb w' t e) g = (a, g') \<Longrightarrow> other_worker w g g'"
| queued: "run_state (SetImportRunQueued x i) g = (a, g') \<Longrightarrow> other_worker w g g'"
| opened: "run_state (SetImportPullRequest x i url) g = (a, g') \<Longrightarrow> other_worker w g g'"
| tick: "clock (base g) \<le> t \<Longrightarrow> other_worker w g (g\<lparr>base := (base g)\<lparr>clock := t\<rparr>\<rparr>)"

lemma in_candidates: "c \<in> set (candidates t js) \<longleftrightarrow> c \<in> set js \<and> claimable t c"
  by (auto simp: candidates_def)

lemma run_ClaimJob_cases:
  assumes "run_state (ClaimJob w l) g = (r, g')"
  obtains (none) "idb g' = idb g" and "clock (base g') = clock (base g)" and "\<And>j. r \<noteq> Inr (Some j)"
    | (claimed) c where "c \<in> set (jobs (idb g))" and "claimable (clock (base g)) c" and "clock (base g') = clock (base g)"
        and "idb g' = (idb g)\<lparr>jobs := update_where (\<lambda>j. jrID j = jrID c) (\<lambda>j. j\<lparr>jrLeaseOwner := Some w,
          jrLeaseExpiresAt := Some (clock (base g) + l), jrAttempts := jrAttempts j + 1, jrUpdatedAt := clock (base g)\<rparr>) (jobs (idb g))\<rparr>"
        and "\<And>jb. r = Inr (Some jb) \<Longrightarrow> jbID jb = jrID c"
proof -
  obtain r' where run: "run_state (istmt (\<lambda>t i. case candidates t (jobs i) of
       [] \<Rightarrow> Inr (None, i)
     | c # _ \<Rightarrow> Inr (Some \<lparr>jbID = jrID c, jbOrgID = jrOrgID c, jbImportID = jrImportID c, jbKind = jrKind c,
           jbAttempts = jrAttempts c + 1, jbMaxAttempts = jrMaxAttempts c\<rparr>,
         i\<lparr>jobs := update_where (\<lambda>j. jrID j = jrID c) (\<lambda>j. j\<lparr>jrLeaseOwner := Some w, jrLeaseExpiresAt := Some (t + l),
             jrAttempts := jrAttempts j + 1, jrUpdatedAt := t\<rparr>) (jobs i)\<rparr>))) g = (r', g')" and r: "\<And>a. r = Inr a \<longleftrightarrow> r' = Inr a"
    using assms unfolding ClaimJob_def by (rule run_iwrap_cases) blast
  from run show thesis
  proof (cases rule: run_istmt_cases)
    case same
    then show thesis using r by (intro none) auto
  next
    case (step a i)
    show thesis
    proof (cases "candidates (clock (base g)) (jobs (idb g))")
      case Nil
      then show thesis using step r by (intro none) auto
    next
      case (Cons c cs)
      then have c: "c \<in> set (jobs (idb g))" "claimable (clock (base g)) c"
        using in_candidates [of c "clock (base g)" "jobs (idb g)"] by simp_all
      have "jbID jb = jrID c" if "r = Inr (Some jb)" for jb using step(4) [of "Some jb"] that step(1) Cons r [of "Some jb"] by auto
      then show thesis using Cons c step(1-3) by (intro claimed [of c]) auto
    qed
  qed
qed

lemma leased_update:
  assumes "leased n w e i" and "\<And>j. jrID (f j) = jrID j" and "\<And>j. j \<in> set (jobs i) \<Longrightarrow> P j \<Longrightarrow> jrID j \<noteq> n"
  shows "leased n w e (i\<lparr>jobs := update_where P f (jobs i)\<rparr>)"
  using assms(1,2) by (auto simp: leased_def update_where_def dest: assms(3))

lemma leased_held:
  "leased n w e i \<Longrightarrow> w' \<noteq> w \<Longrightarrow> (\<And>j. jrID (f j) = jrID j) \<Longrightarrow> leased n w e (i\<lparr>jobs := update_where (held_by m w') f (jobs i)\<rparr>)"
  by (rule leased_update) (auto simp: leased_def held_by_def)

lemma leased_set_imports [simp]: "leased n w e (set_imports P f i) = leased n w e i"
  by (simp add: leased_def)

lemma other_worker_leased:
  assumes "other_worker w g g'" and "clock (base g) \<le> e \<Longrightarrow> leased n w e (idb g)" and "clock (base g') \<le> e"
  shows "leased n w e (idb g')"
  using assms
proof (cases rule: other_worker.cases)
  case (claim w' l r)
  from claim(2) show ?thesis
  proof (cases rule: run_ClaimJob_cases)
    case (claimed c)
    then have "leased n w e (idb g)" "jrID c \<noteq> n" using assms(2,3) by (auto simp: leased_def claimable_def)
    then show ?thesis unfolding claimed(4) by (intro leased_update) auto
  qed (use assms in auto)
next
  case (settle w' m a)
  from settle(2) [unfolded CompleteJob_def] show ?thesis
    by (cases rule: run_istmt_cases) (use settle(1) assms(2,3) in \<open>auto intro!: leased_held\<close>)
next
  case (again w' jb t x a)
  from again(2) [unfolded RetryJob_def] show ?thesis
    by (cases rule: run_istmt_cases)
      (use again(1) assms(2,3) in \<open>auto simp: Let_def split: if_splits dest!: sym [of _ "idb g'"] intro!: leased_held\<close>)
next
  case (queued x i a)
  then obtain r' where "run_state (istmt (\<lambda>t d. Inr ((), set_imports (\<lambda>m. the_import x i m \<and> imStatus m = StateSelected)
       (\<lambda>m. m\<lparr>imStatus := StateRunQueued, imUpdatedAt := t\<rparr>) d))) g = (r', g')"
    unfolding SetImportRunQueued_def by (rule run_iwrap_cases) blast
  then show ?thesis by (cases rule: run_istmt_cases) (use assms(2,3) in auto)
next
  case (opened x i url a)
  then obtain r' where "run_state (istmt (\<lambda>t d. Inr ((), set_imports (the_import x i)
       (\<lambda>m. m\<lparr>imPRURL := nullif_empty url, imUpdatedAt := t\<rparr>) d))) g = (r', g')"
    unfolding SetImportPullRequest_def by (rule run_iwrap_cases) blast
  then show ?thesis by (cases rule: run_istmt_cases) (use assms(2,3) in auto)
qed auto

text \<open>C12. A job is held by one worker at a time: from the moment a worker has claimed a job until the lease of that claim ends,
  no sequence of statements of other workers, under any failures, lets anyone claim it a second time.\<close>

theorem lease_exclusive:
  assumes "import_ok (idb g)" and "run_state (ClaimJob w l) g = (Inr (Some jb), g1)" and "(other_worker w)\<^sup>*\<^sup>* g1 g2"
    and "clock (base g2) \<le> clock (base g) + l" and "run_state (ClaimJob w' l') g2 = (Inr (Some jb'), g3)"
  shows "jbID jb' \<noteq> jbID jb"
proof -
  let ?e = "clock (base g) + l"
  from assms(2) have first: "leased (jbID jb) w ?e (idb g1)"
  proof (cases rule: run_ClaimJob_cases)
    case (claimed c)
    then have "jrCompletedAt j = None" if "j \<in> set (jobs (idb g))" "jrID j = jrID c" for j
      using that assms(1) by (auto simp: import_ok_def jobs_ok_def distinct_map claimable_def dest: inj_onD)
    then show ?thesis using claimed by (auto simp: leased_def update_where_def)
  qed auto
  from assms(3) have "clock (base g2) \<le> ?e \<Longrightarrow> leased (jbID jb) w ?e (idb g2)"
    by (induction rule: rtranclp_induct) (use first in \<open>auto intro: other_worker_leased\<close>)
  with assms(4) have held: "leased (jbID jb) w ?e (idb g2)" by blast
  from assms(5) show ?thesis
    by (cases rule: run_ClaimJob_cases) (use held assms(4) in \<open>auto simp: leased_def claimable_def\<close>)
qed

definition ex_claimed :: "nat \<Rightarrow> string \<Rightarrow> job" where
  "ex_claimed n i = \<lparr>jbID = n, jbOrgID = ''g1'', jbImportID = i, jbKind = JobStart, jbAttempts = 1, jbMaxAttempts = 8\<rparr>"

theorem lease_exclusive_witness:
  "fst (run_state (ClaimJob ''w1'' 120) ex_imports) = Inr (Some (ex_claimed 0 ''m1'')) \<and>
   fst (run_state (ClaimJob ''w2'' 120) (snd (run_state (ClaimJob ''w1'' 120) ex_imports))) = Inr (Some (ex_claimed 1 ''m2'')) \<and>
   jbID (ex_claimed 1 ''m2'') \<noteq> jbID (ex_claimed 0 ''m1'')"
proof -
  let ?g1 = "snd (run_state (ClaimJob ''w1'' 120) ex_imports)"
  have first: "fst (run_state (ClaimJob ''w1'' 120) ex_imports) = Inr (Some (ex_claimed 0 ''m1''))"
    and second: "fst (run_state (ClaimJob ''w2'' 120) ?g1) = Inr (Some (ex_claimed 1 ''m2''))" and same: "clock (base ?g1) = 1000"
    by (simp_all add: ClaimJob_def iwrap_def run_istmt_healthy ex_idb_def candidates_def claimable_def ex_import_rows ex_claimed_def)
  have "jbID (ex_claimed 1 ''m2'') \<noteq> jbID (ex_claimed 0 ''m1'')"
  proof (rule lease_exclusive [OF ex_imports_ok])
    show "run_state (ClaimJob ''w1'' 120) ex_imports = (Inr (Some (ex_claimed 0 ''m1'')), ?g1)" by (simp add: prod_eq_iff first)
    show "run_state (ClaimJob ''w2'' 120) ?g1 = (Inr (Some (ex_claimed 1 ''m2'')), snd (run_state (ClaimJob ''w2'' 120) ?g1))"
      by (simp add: prod_eq_iff second)
  qed (simp_all add: same)
  with first second show ?thesis by blast
qed

section \<open>Progress\<close>

text \<open>What stays as it is while a claimed job is processed.\<close>

definition calm :: "time \<Rightarrow> job_row list \<Rightarrow> import_world \<Rightarrow> bool" where
  "calm t js g \<longleftrightarrow> faults (base g) = [] \<and> clock (base g) = t \<and> jobs (idb g) = js"

lemma keeps_calm_txn:
  assumes "\<And>t d i a d' i'. f t d i = Inr (a, d', i') \<Longrightarrow> jobs i' = jobs i"
  shows "keeps (calm t js) (txn f)"
  by (rule hoareI) (use assms in \<open>auto simp: calm_def run_txn_healthy split: sum.splits\<close>)

lemma keeps_calm_call [keeps_rules]: "keeps (calm t js) (call f)"
  by (rule hoareI) (auto simp: calm_def call_def lift_def)

lemma keeps_calm_iquery [keeps_rules]: "keeps (calm t js) (iquery f)"
  unfolding iquery_def by (rule keeps_calm_txn) (auto split: sum.splits)

lemma keeps_calm_set [keeps_rules]: "keeps (calm t js) (istmt (\<lambda>t i. Inr ((), set_imports (P t) (f t) i)))"
  unfolding istmt_def by (rule keeps_calm_txn) auto

lemma keeps_calm_ops [keeps_rules]:
  "keeps (calm t js) (GetImport g i)" "keeps (calm t js) (GetInstallation g)" "keeps (calm t js) (SetImportRunQueued g i)"
  "keeps (calm t js) (SetImportPullRequest g i url)"
  unfolding GetImport_def GetInstallation_def SetImportRunQueued_def SetImportPullRequest_def by (intro keeps_rules)+

lemma keeps_calm_process: "keeps (calm t js) (process c jb)"
  unfolding process_def resolveRepository_def by (intro keeps_rules)

lemma calm_process:
  "run_state (process c jb) g = (r, g') \<Longrightarrow> faults (base g) = [] \<Longrightarrow>
     faults (base g') = [] \<and> clock (base g') = clock (base g) \<and> jobs (idb g') = jobs (idb g)"
  using hoareD [OF keeps_calm_process [of "clock (base g)" "jobs (idb g)" c jb], of g r g'] by (simp add: calm_def)

text \<open>What one round makes of the job \<open>c\<close> that it claims at time \<open>t\<close>.\<close>

definition maxBackoff :: time where
  "maxBackoff = 300 * 1000000"

definition settled :: "time \<Rightarrow> job_row \<Rightarrow> job_row \<Rightarrow> bool" where
  "settled t c j \<longleftrightarrow> jrID j = jrID c \<and> jrAttempts j = jrAttempts c + 1 \<and> jrMaxAttempts j = jrMaxAttempts c \<and> jrLeaseExpiresAt j = None \<and>
     (jrCompletedAt j = Some t \<or> jrCompletedAt j = None \<and> jrAttempts j < jrMaxAttempts j \<and> jrAvailableAt j \<le> t + maxBackoff)"

lemma backoff_le: "0 \<le> a \<Longrightarrow> sint (backoff a) div 1000 \<le> maxBackoff"
  using backoff_bounds [of a] by (auto simp: maxBackoff_def)

lemma update_where_twice:
  assumes "\<And>j. P j \<Longrightarrow> Q (f j)" and "\<And>j. j \<in> set js \<Longrightarrow> Q j \<Longrightarrow> P j"
  shows "update_where Q h (update_where P f js) = update_where P (\<lambda>j. h (f j)) js"
  using assms by (induction js) auto

lemma run_ClaimJob_healthy:
  assumes "faults (base g) = []" and "candidates (clock (base g)) (jobs (idb g)) = c # cs"
  shows "run_state (ClaimJob w l) g = (Inr (Some \<lparr>jbID = jrID c, jbOrgID = jrOrgID c, jbImportID = jrImportID c, jbKind = jrKind c,
      jbAttempts = jrAttempts c + 1, jbMaxAttempts = jrMaxAttempts c\<rparr>),
    g\<lparr>idb := (idb g)\<lparr>jobs := update_where (\<lambda>j. jrID j = jrID c) (\<lambda>j. j\<lparr>jrLeaseOwner := Some w, jrLeaseExpiresAt := Some (clock (base g) + l),
      jrAttempts := jrAttempts j + 1, jrUpdatedAt := clock (base g)\<rparr>) (jobs (idb g))\<rparr>\<rparr>)"
  using assms by (simp add: ClaimJob_def iwrap_def run_istmt_healthy)

lemma runOne_round:
  assumes "import_ok (idb g)" and "faults (base g) = []" and "candidates (clock (base g)) (jobs (idb g)) = c # cs"
    and "run_state (runOne cl w) g = (r, g')"
  obtains h where "jobs (idb g') = update_where (\<lambda>j. jrID j = jrID c) h (jobs (idb g))" and "settled (clock (base g)) c (h c)"
    and "faults (base g') = []" and "clock (base g') = clock (base g)"
proof -
  let ?t = "clock (base g)"
  let ?jb = "\<lparr>jbID = jrID c, jbOrgID = jrOrgID c, jbImportID = jrImportID c, jbKind = jrKind c,
      jbAttempts = jrAttempts c + 1, jbMaxAttempts = jrMaxAttempts c\<rparr>"
  let ?f = "\<lambda>j. j\<lparr>jrLeaseOwner := Some w, jrLeaseExpiresAt := Some (?t + leaseDuration), jrAttempts := jrAttempts j + 1, jrUpdatedAt := ?t\<rparr>"
  let ?g = "g\<lparr>idb := (idb g)\<lparr>jobs := update_where (\<lambda>j. jrID j = jrID c) ?f (jobs (idb g))\<rparr>\<rparr>"
  have c: "c \<in> set (jobs (idb g))" "claimable ?t c" using assms(3) in_candidates [of c ?t "jobs (idb g)"] by auto
  have att: "0 \<le> jrAttempts c" using assms(1) c by (auto simp: import_ok_def jobs_ok_def list_all_iff)
  obtain res g1 where proc: "run_state (process cl ?jb) ?g = (res, g1)" by fastforce
  then have g1: "faults (base g1) = []" "clock (base g1) = ?t" "jobs (idb g1) = update_where (\<lambda>j. jrID j = jrID c) ?f (jobs (idb g))"
    using calm_process [OF proc] assms(2) by simp_all
  have twice: "update_where (held_by (jrID c) w) h (jobs (idb g1)) = update_where (\<lambda>j. jrID j = jrID c) (\<lambda>j. h (?f j)) (jobs (idb g))" for h
    unfolding g1 by (rule update_where_twice) (auto simp: held_by_def)
  show thesis
  proof (cases res)
    case (Inr u)
    let ?h = "\<lambda>j. j\<lparr>jrCompletedAt := Some ?t, jrLeaseOwner := None, jrLeaseExpiresAt := None, jrUpdatedAt := ?t\<rparr>"
    have "g' = g1\<lparr>idb := (idb g1)\<lparr>jobs := update_where (held_by (jrID c) w) ?h (jobs (idb g1))\<rparr>\<rparr>"
      using assms(2-4) proc Inr g1(1,2)
      by (simp add: runOne_def ibindE_def run_ClaimJob_healthy CompleteJob_def run_istmt_healthy)
    then show thesis using g1(1,2) by (intro that [of "\<lambda>j. ?h (?f j)"]) (simp_all add: twice settled_def)
  next
    case (Inl e)
    let ?n = "?t + sint (backoff (jrAttempts c + 1)) div 1000"
    let ?h = "\<lambda>j. if jrAttempts c + 1 \<ge> jrMaxAttempts c
      then j\<lparr>jrCompletedAt := Some ?t, jrLastError := Some e, jrLeaseOwner := None, jrLeaseExpiresAt := None, jrUpdatedAt := ?t\<rparr>
      else j\<lparr>jrAvailableAt := ?n, jrLastError := Some e, jrLeaseOwner := None, jrLeaseExpiresAt := None, jrUpdatedAt := ?t\<rparr>"
    have g': "jobs (idb g') = update_where (held_by (jrID c) w) ?h (jobs (idb g1))" "faults (base g') = []" "clock (base g') = ?t"
      using assms(2-4) proc Inl g1(1,2)
      by (auto simp: runOne_def ibindE_def run_ClaimJob_healthy RetryJob_def run_istmt_healthy lift_def Let_def split: if_splits)
    have "settled ?t c (?h (?f c))" using c att backoff_le [of "jrAttempts c + 1"] by (auto simp: settled_def claimable_def)
    then show thesis using g' by (intro that [of "\<lambda>j. ?h (?f j)"]) (simp_all add: twice)
  qed
qed

text \<open>Rounds of a worker, each followed by a pause.\<close>

primrec rounds :: "gh_client \<Rightarrow> string \<Rightarrow> time list \<Rightarrow> import_world \<Rightarrow> import_world" where
  "rounds cl w [] g = g"
| "rounds cl w (p # ps) g = (let g' = snd (run_state (runOne cl w) g) in rounds cl w ps (g'\<lparr>base := (base g')\<lparr>clock := clock (base g') + p\<rparr>\<rparr>))"

definition owed :: "job_row \<Rightarrow> nat" where
  "owed j = (if jrCompletedAt j = None then nat (max 1 (jrMaxAttempts j - jrAttempts j)) else 0)"

definition backlog :: "job_row list \<Rightarrow> nat" where
  "backlog js = sum_list (map owed js)"

definition due :: "time \<Rightarrow> job_row list \<Rightarrow> bool" where
  "due t js \<longleftrightarrow> list_all (\<lambda>j. jrCompletedAt j = None \<longrightarrow> claimable t j) js"

lemma claimable_later: "claimable t j \<Longrightarrow> t \<le> t' \<Longrightarrow> claimable t' j"
  by (auto simp: claimable_def split: option.splits)

lemma owed_settled: "settled t c j \<Longrightarrow> jrCompletedAt c = None \<Longrightarrow> owed j < owed c"
  by (auto simp: settled_def owed_def)

lemma owed_zero: "owed j = 0 \<longleftrightarrow> jrCompletedAt j \<noteq> None"
  by (auto simp: owed_def)

lemma backlog_settled:
  assumes "unique jrID js" and "c \<in> set js" and "owed (h c) < owed c"
  shows "backlog (update_where (\<lambda>j. jrID j = jrID c) h js) < backlog js"
  using assms
proof (induction js)
  case (Cons j js)
  show ?case
  proof (cases "j = c")
    case True
    then have "update_where (\<lambda>j. jrID j = jrID c) h js = js" using Cons.prems(1) by (intro update_where_none) auto
    then show ?thesis using True Cons.prems(3) by (simp add: backlog_def)
  next
    case False
    then have "c \<in> set js" "jrID j \<noteq> jrID c" using Cons.prems(1,2) by auto
    then show ?thesis using Cons by (simp add: backlog_def)
  qed
qed simp

lemma due_later: "due t js \<Longrightarrow> t \<le> t' \<Longrightarrow> due t' js"
  by (auto simp: due_def list_all_iff intro: claimable_later)

lemma due_settled:
  assumes "unique jrID js" and "c \<in> set js" and "settled t c (h c)" and "due t0 js" and "t0 \<le> t'" and "t + maxBackoff \<le> t'"
  shows "due t' (update_where (\<lambda>j. jrID j = jrID c) h js)"
proof -
  have "claimable t' (if jrID j = jrID c then h j else j)"
    if "j \<in> set js" "jrCompletedAt (if jrID j = jrID c then h j else j) = None" for j
  proof (cases "jrID j = jrID c")
    case True
    then have "j = c" using that assms(1,2) by (auto simp: distinct_map dest: inj_onD)
    then show ?thesis using that assms(3,6) by (auto simp: settled_def claimable_def)
  next
    case False
    then show ?thesis using that assms(4,5) by (auto simp: due_def list_all_iff intro: claimable_later)
  qed
  then show ?thesis unfolding due_def list_all_iff update_where_def by (simp only: set_map ball_simps) blast
qed

lemma no_candidates: "due t js \<Longrightarrow> candidates t js = [] \<Longrightarrow> j \<in> set js \<Longrightarrow> jrCompletedAt j \<noteq> None"
  using in_candidates [of j t js] by (auto simp: due_def list_all_iff)

lemma runOne_idle:
  assumes "faults (base g) = []" and "candidates (clock (base g)) (jobs (idb g)) = []"
  shows "run_state (runOne cl w) g = (Inr (), g)"
  using assms by (simp add: runOne_def ibindE_def ClaimJob_def iwrap_def run_istmt_healthy)

text \<open>\<open>paced k ps\<close>: any \<open>k\<close> rounds in a row take at least the longest delay between two attempts, five minutes.\<close>

definition paced :: "nat \<Rightarrow> time list \<Rightarrow> bool" where
  "paced k ps \<longleftrightarrow> list_all (\<lambda>p. 0 \<le> p) ps \<and> (\<forall>n. n + k \<le> length ps \<longrightarrow> maxBackoff \<le> sum_list (take k (drop n ps)))"

lemma paced_tl: "paced k (p # ps) \<Longrightarrow> paced k ps"
  by (auto simp: paced_def dest: spec [of _ "Suc _"])

lemma paced_first: "paced k ps \<Longrightarrow> k \<le> length ps \<Longrightarrow> maxBackoff \<le> sum_list (take k ps)"
  by (auto simp: paced_def dest: spec [of _ 0])

lemma paced_take: "paced k ps \<Longrightarrow> m \<le> n \<Longrightarrow> sum_list (take m ps) \<le> sum_list (take n ps)"
proof -
  assume "paced k ps" "m \<le> n"
  moreover have "0 \<le> sum_list xs" if "list_all (\<lambda>p. 0 \<le> p) xs" for xs :: "time list" using that by (induction xs) auto
  ultimately have "0 \<le> sum_list (take (n - m) (drop m ps))" by (auto simp: paced_def list_all_iff dest!: in_set_takeD in_set_dropD)
  moreover have "take n ps = take m ps @ take (n - m) (drop m ps)" using \<open>m \<le> n\<close> by (metis le_add_diff_inverse take_add)
  ultimately show ?thesis by simp
qed

text \<open>What one round changes when \<open>r\<close> more rounds make every open job due.\<close>

lemma round_progress:
  assumes "import_ok (idb g)" and "faults (base g) = []" and "paced k (p # ps)" and "run_state (runOne cl w) g = (x, g')"
    and "due (clock (base g) + sum_list (take r (p # ps))) (jobs (idb g))" and "r < k" and "backlog (jobs (idb g)) = Suc b"
    and "r + 1 + b * k \<le> length (p # ps)"
  defines "g1 \<equiv> g'\<lparr>base := (base g')\<lparr>clock := clock (base g') + p\<rparr>\<rparr>"
  shows "import_ok (idb g1) \<and> faults (base g1) = [] \<and> (\<exists>r' b'. due (clock (base g1) + sum_list (take r' ps)) (jobs (idb g1)) \<and> r' < k \<and>
    backlog (jobs (idb g1)) = b' \<and> (b' = 0 \<or> r' + 1 + (b' - 1) * k \<le> length ps))"
proof -
  let ?t = "clock (base g)" and ?js = "jobs (idb g)"
  have ok: "import_ok (idb g')" using kept [OF inv.keeps_runOne assms(4)] assms(1) .
  have u: "unique jrID ?js" using assms(1) by (simp add: import_ok_def jobs_ok_def)
  show ?thesis
  proof (cases "candidates ?t ?js")
    case Nil
    then have g': "g' = g" using runOne_idle [OF assms(2) Nil] assms(4) by simp
    have "r \<noteq> 0"
    proof
      assume "r = 0"
      then have "owed j = 0" if "j \<in> set ?js" for j using no_candidates [OF _ Nil that] assms(5) by (simp add: owed_zero)
      then have "backlog ?js = 0" by (simp add: backlog_def)
      then show False using assms(7) by simp
    qed
    then obtain q where q: "r = Suc q" by (cases r) auto
    then have "due (clock (base g1) + sum_list (take q ps)) (jobs (idb g1))" using assms(5) g' by (simp add: g1_def add.assoc)
    then show ?thesis using ok assms(2,6-8) g' q by (intro conjI exI [of _ q] exI [of _ "Suc b"]) (auto simp: g1_def)
  next
    case first: (Cons c cs)
    obtain h where h: "jobs (idb g') = update_where (\<lambda>j. jrID j = jrID c) h ?js" "settled ?t c (h c)" "faults (base g') = []"
        "clock (base g') = ?t"
      by (rule runOne_round [OF assms(1,2) first assms(4)])
    have c: "c \<in> set ?js" "jrCompletedAt c = None" using first in_candidates [of c ?t ?js] by (auto simp: claimable_def)
    have less: "backlog (jobs (idb g')) \<le> b"
      using backlog_settled [of ?js c h, OF u c(1) owed_settled [OF h(2) c(2)]] h(1) assms(7) by simp
    obtain q where q: "k = Suc q" using assms(6) by (cases k) auto
    have later: "due (clock (base g1) + sum_list (take q ps)) (jobs (idb g1))" if "b \<noteq> 0"
    proof -
      have "k \<le> length (p # ps)" using assms(8) that by (metis One_nat_def Suc_leI add_leD2 le_trans mult.commute mult_le_mono2 nat_mult_1_right not_gr_zero)
      from paced_first [OF assms(3) this] paced_take [OF assms(3), of r k] assms(6)
      have "?t + maxBackoff \<le> ?t + p + sum_list (take q ps)" "?t + sum_list (take r (p # ps)) \<le> ?t + p + sum_list (take q ps)" by (simp_all add: q)
      from due_settled [where h = h, OF u c(1) h(2) assms(5) this(2,1)] show ?thesis by (simp add: g1_def h(1,4))
    qed
    have enough: "q + 1 + (b' - 1) * k \<le> length ps" if "b' \<noteq> 0" "b' \<le> b" for b'
    proof -
      have "q + 1 + (b' - 1) * k = b' * k" using that(1) q by (cases b') auto
      also have "\<dots> \<le> b * k" using that(2) by (rule mult_le_mono1)
      finally show ?thesis using assms(8) by simp
    qed
    have "due (clock (base g1) + sum_list (take q ps)) (jobs (idb g1))" if "b = 0"
    proof -
      have "owed j = 0" if "j \<in> set (jobs (idb g'))" for j using less \<open>b = 0\<close> that by (simp add: backlog_def)
      then have "jrCompletedAt j \<noteq> None" if "j \<in> set (jobs (idb g'))" for j using that owed_zero by blast
      then have "due t (jobs (idb g'))" for t unfolding due_def list_all_iff by blast
      then show ?thesis by (simp add: g1_def)
    qed
    with later have "due (clock (base g1) + sum_list (take q ps)) (jobs (idb g1))" by blast
    moreover have "backlog (jobs (idb g1)) = 0 \<or> q + 1 + (backlog (jobs (idb g1)) - 1) * k \<le> length ps"
      using enough [of "backlog (jobs (idb g1))"] less by (auto simp: g1_def)
    moreover have "q < k" "import_ok (idb g1)" "faults (base g1) = []" using ok h(3) q by (simp_all add: g1_def)
    ultimately show ?thesis by blast
  qed
qed

lemma rounds_finish:
  assumes "import_ok (idb g)" and "faults (base g) = []" and "paced k ps" and "due (clock (base g) + sum_list (take r ps)) (jobs (idb g))" and "r < k"
    and "backlog (jobs (idb g)) = 0 \<or> r + 1 + (backlog (jobs (idb g)) - 1) * k \<le> length ps"
  shows "list_all (\<lambda>j. jrCompletedAt j \<noteq> None) (jobs (idb (rounds cl w ps g)))"
  using assms
proof (induction ps arbitrary: g r)
  case Nil
  then have "owed j = 0" if "j \<in> set (jobs (idb g))" for j using that by (simp add: backlog_def)
  then show ?case by (simp add: owed_zero list_all_iff)
next
  case (Cons p ps)
  obtain x g' where run: "run_state (runOne cl w) g = (x, g')" by fastforce
  let ?g = "g'\<lparr>base := (base g')\<lparr>clock := clock (base g') + p\<rparr>\<rparr>"
  have "list_all (\<lambda>j. jrCompletedAt j \<noteq> None) (jobs (idb (rounds cl w ps ?g)))"
  proof (cases "backlog (jobs (idb g))")
    case 0
    then have finished: "jrCompletedAt j \<noteq> None" if "j \<in> set (jobs (idb g))" for j
      using that owed_zero [of j] by (simp add: backlog_def)
    then have "candidates (clock (base g)) (jobs (idb g)) = []"
      using in_candidates [of _ "clock (base g)" "jobs (idb g)"] by (metis claimable_def list.set_intros(1) neq_Nil_conv)
    then have "g' = g" using runOne_idle [OF Cons.prems(2)] run by simp
    moreover have "due t (jobs (idb g))" for t using finished unfolding due_def list_all_iff by blast
    ultimately show ?thesis using Cons.prems(1,2,5) 0 paced_tl [OF Cons.prems(3)] by (intro Cons.IH [where r = r]) auto
  next
    case (Suc b)
    then have "r + 1 + b * k \<le> length (p # ps)" using Cons.prems(6) by simp
    from round_progress [OF Cons.prems(1,2,3) run Cons.prems(4,5) Suc this] obtain r'
      where "import_ok (idb ?g)" "faults (base ?g) = []" "due (clock (base ?g) + sum_list (take r' ps)) (jobs (idb ?g))" "r' < k"
        "backlog (jobs (idb ?g)) = 0 \<or> r' + 1 + (backlog (jobs (idb ?g)) - 1) * k \<le> length ps" by auto
    then show ?thesis by (intro Cons.IH [OF _ _ paced_tl [OF Cons.prems(3)]])
  qed
  then show ?case using run by (simp add: Let_def)
qed


definition ex_ticks :: "time list" where
  "ex_ticks = replicate 4800 1000000"

lemma ex_paced: "paced 300 ex_ticks"
proof -
  have "sum_list (replicate n (1000000 :: time)) = 1000000 * int n" for n by (induction n) auto
  then show ?thesis by (simp add: paced_def ex_ticks_def list_all_iff maxBackoff_def)
qed


end
