(* ===== verification/ImportSafety.thy ===== *)
theory ImportSafety
  imports ImportQueue
begin

text \<open>
  What the repository imports promise, under every schedule of lost statements and lost replies: the tables stay consistent and
  follow the life cycle of an import, a webhook acts only when it is signed and new, and an organisation is connected only
  through the state that it issued.
\<close>

section \<open>Runs\<close>

text \<open>Everything in the program that uses the import tables: rounds of any worker, requests and webhooks.\<close>

inductive import_call :: "import_world \<Rightarrow> import_world \<Rightarrow> bool" where
  worker: "run_state (runOne c owner) g = (r, g') \<Longrightarrow> import_call g g'"
| installation: "run_state (ImportHandler_GetInstallation h rq) g = (a, g') \<Longrightarrow> import_call g g'"
| install: "run_state (ImportHandler_Install h rq) g = (a, g') \<Longrightarrow> import_call g g'"
| callback: "run_state (ImportHandler_Callback h rq) g = (a, g') \<Longrightarrow> import_call g g'"
| disconnect: "run_state (ImportHandler_DeleteInstallation h rq) g = (a, g') \<Longrightarrow> import_call g g'"
| repositories: "run_state (ImportHandler_ListRepositories h rq) g = (a, g') \<Longrightarrow> import_call g g'"
| environment: "run_state (ImportHandler_GetImportEnvironment h rq) g = (a, g') \<Longrightarrow> import_call g g'"
| token: "run_state (ImportHandler_CreateImportToken h rq) g = (a, g') \<Longrightarrow> import_call g g'"
| start: "run_state (ImportHandler_CreateImport h body rq) g = (a, g') \<Longrightarrow> import_call g g'"
| poll: "run_state (ImportHandler_GetImport h rq) g = (a, g') \<Longrightarrow> import_call g g'"
| poll_latest: "run_state (ImportHandler_GetLatestImport h rq) g = (a, g') \<Longrightarrow> import_call g g'"
| again: "run_state (ImportHandler_Retry rq) g = (a, g') \<Longrightarrow> import_call g g'"
| rerun: "run_state (ImportHandler_RerunFailedJobs h rq) g = (a, g') \<Longrightarrow> import_call g g'"
| webhook: "run_state (ImportHandler_Webhook h unmarshal wh) g = (a, g') \<Longrightarrow> import_call g g'"

context import_contract
begin

lemma import_call_keeps:
  assumes "import_call g g'" and "K g"
  shows "K g'"
  using assms(1)
  by (cases rule: import_call.cases)
    (rule keeps_runOne [THEN hoareD, OF assms(2)] keeps_connection_handlers [THEN hoareD, OF assms(2)] keeps_import_handlers [THEN hoareD, OF assms(2)], assumption)+

end

text \<open>Each of them is a sequence of statements on the import tables.\<close>

lemma import_call_statements:
  assumes "import_call g g'"
  shows "\<exists>ops. import_run ops (idb g) (idb g')"
  using statements.import_call_keeps [OF assms, of "idb g"] import_run.stop by (auto simp: on_idb_def ran_from_def)

text \<open>C10. Refinement: the import tables implement the life cycle of an import statement by statement, in every interleaving of the statements of
  workers, requests and webhooks and whichever of them are lost. The tables stay consistent: identifiers, branches and deliveries are unique,
  an import has at most one open job of a kind, every job belongs to an import, a running import has a run and a completed one a service. And each statement changes the state of an import only as
  its kind allows: the worker queues a selected import and fails it only after the last attempt of a start job of that import; a
  reported run changes an import of its branch that is neither completed nor failed, never to an older run, and to the state that it reports;
  only a failed import is retried, and only a failed one with a run is resumed.\<close>

theorem import_refinement:
  assumes "import_run ops i i'" and "import_ok i"
  shows "import_ok i' \<and> (\<forall>x. life_run ops x (lifecycle i x) (lifecycle i' x))"
  using import_run_simulates [OF assms] by blast

lemmas import_runs = ibindE_def iwrap_def run_istmt_healthy run_iquery_healthy run_txn_healthy lift_def

text \<open>A worker claims the job of the first import, GitHub reports a run of it before the worker has written that the run is queued, and the worker's
  statement comes too late.\<close>

definition ex_run :: workflow_run where
  "ex_run = \<lparr>wrID = 5, wrRunAttempt = 1, wrEvent = ''push'', wrStatus = ''in_progress'', wrConclusion = [], wrHeadBranch = Branch ''m1'',
     wrHTMLURL = [], wrPath = OnboardingWorkflowPath\<rparr>"

definition ex_reported :: import_world where
  "ex_reported = snd (run_state (SetImportRunQueued ''g1'' ''m1'') (snd (run_state (ApplyWorkflowRunEvent ex_run [])
     (snd (run_state (ClaimJob ''w'' leaseDuration) ex_imports)))))"

lemma ex_reported_run: "import_run [Other, Run ex_run, Queued ''m1''] ex_idb (idb ex_reported)"
proof -
  let ?g1 = "snd (run_state (ClaimJob ''w'' leaseDuration) ex_imports)" and ?g2 = "\<lambda>g. snd (run_state (ApplyWorkflowRunEvent ex_run []) g)"
  have "import_stmt Other (idb ex_imports) (idb ?g1)" by (rule import_stmt.intros, rule surjective_pairing)
  moreover have "import_stmt (Run ex_run) (idb ?g1) (idb (?g2 ?g1))" by (rule import_stmt.intros, rule surjective_pairing)
  moreover have "import_stmt (Queued ''m1'') (idb (?g2 ?g1)) (idb ex_reported)"
    unfolding ex_reported_def by (rule import_stmt.intros, rule surjective_pairing)
  ultimately show ?thesis by (auto intro: import_run.intros)
qed

lemma ex_reported_state: "lifecycle (idb ex_reported) ''m1'' = Some (StateRunRunning, Some 5)"
  by (simp add: ex_reported_def ClaimJob_def ApplyWorkflowRunEvent_def SetImportRunQueued_def import_runs ex_idb_def candidates_def claimable_def
      ex_import_rows ex_run_def IsOnboardingWorkflowPath_def active_import_def stale_def apply_run_def Let_def set_imports_def the_import_def lifecycle_def
      state_defs get_or_def)

theorem import_refinement_witness:
  "import_ok (idb ex_reported) \<and> life_run [Other, Run ex_run, Queued ''m1''] ''m1'' (Some (StateSelected, None)) (Some (StateRunRunning, Some 5))"
proof -
  have "lifecycle ex_idb ''m1'' = Some (StateSelected, None)" by (simp add: lifecycle_def ex_idb_def ex_import_rows)
  moreover have "import_ok ex_idb" using ex_imports_ok by simp
  ultimately show ?thesis using import_refinement [OF ex_reported_run] ex_reported_state by metis
qed

section \<open>Webhooks\<close>

lemma run_fails:
  "run_state (fails m k) g = (case run_state m g of (Inl e, g1) \<Rightarrow> (httpError e, g1) | (Inr a, g1) \<Rightarrow> run_state (k a) g1)"
  by (auto simp: fails_def split: prod.splits sum.splits)

lemma run_RecordWebhook_cases:
  assumes "run_state (RecordWebhook dl) g = (r, g')"
  obtains (known) "dl \<in> set (deliveries (idb g))" and "idb g' = idb g" and "r \<noteq> Inr True"
    | (lost) "idb g' = idb g" and "\<And>b. r \<noteq> Inr b"
    | (recorded) "dl \<notin> set (deliveries (idb g))" and "idb g' = (idb g)\<lparr>deliveries := deliveries (idb g) @ [dl]\<rparr>"
  using assms unfolding RecordWebhook_def
proof (cases rule: run_istmt_cases)
  case (step a i)
  then show thesis using known recorded by (cases "dl \<in> set (deliveries (idb g))") auto
qed (rule lost)

lemma deliveries_frame [simp]: "deliveries (set_imports P f i) = deliveries i" "deliveries (job_insert t x y k i) = deliveries i"
  by (simp_all add: set_imports_def job_insert_def)

lemma keeps_delivered_dispatch: "keeps (on_idb (\<lambda>i. dl \<in> set (deliveries i))) (dispatch ev p)"
  unfolding dispatch_def ApplyWorkflowRunEvent_def ApplyWorkflowJobEvent_def
  by (intro keeps_rules keeps_istmt) (auto simp: apply_run_def Let_def split: option.splits if_splits list.splits)

lemma Webhook_known:
  assumes "whDelivery wh \<in> set (deliveries (idb g))" and "run_state (ImportHandler_Webhook h unmarshal wh) g = (a, g')"
  shows "idb g' = idb g"
proof (cases "whBody wh")
  case (Some body)
  obtain r g1 where rec: "run_state (RecordWebhook (whDelivery wh)) g = (r, g1)" by fastforce
  from rec have "idb g1 = idb g \<and> r \<noteq> Inr True" by (cases rule: run_RecordWebhook_cases) (use assms(1) in auto)
  then show ?thesis using assms(2) rec Some
    by (auto simp: ImportHandler_Webhook_def run_fails split: if_splits option.splits sum.splits)
qed (use assms in \<open>simp add: ImportHandler_Webhook_def\<close>)

text \<open>C15. A webhook changes the import tables only when its body carries the signature of the configured secret and its delivery is
  new; it is then recorded, and delivering it again later changes nothing.\<close>

theorem Webhook_guarded:
  assumes "run_state (ImportHandler_Webhook h unmarshal wh) g = (a, g')" and "idb g' \<noteq> idb g"
  shows "(\<exists>body. whBody wh = Some body \<and> validSignature body (whSignature wh) (ihWebhookSecret h)) \<and>
    whDelivery wh \<notin> set (deliveries (idb g)) \<and> whDelivery wh \<in> set (deliveries (idb g')) \<and>
    idb (snd (run_state (ImportHandler_Webhook h unmarshal wh) (g'\<lparr>base := w\<rparr>))) = idb g'"
proof -
  obtain body where body: "whBody wh = Some body" "validSignature body (whSignature wh) (ihWebhookSecret h)"
    using assms by (auto simp: ImportHandler_Webhook_def split: option.splits if_splits)
  have new: "whDelivery wh \<notin> set (deliveries (idb g))" using Webhook_known [OF _ assms(1)] assms(2) by blast
  obtain r g1 where rec: "run_state (RecordWebhook (whDelivery wh)) g = (r, g1)" by fastforce
  from rec have "whDelivery wh \<in> set (deliveries (idb g'))"
  proof (cases rule: run_RecordWebhook_cases)
    case recorded
    then have "whDelivery wh \<in> set (deliveries (idb g1))" by simp
    moreover have "idb g' = idb g1 \<or> (\<exists>p. run_state (dispatch (whEvent wh) p) g1 = (a, g'))"
      using assms rec body by (auto simp: ImportHandler_Webhook_def run_fails split: if_splits option.splits sum.splits)
    ultimately show ?thesis using kept [OF keeps_delivered_dispatch] by metis
  qed (use assms rec body new in \<open>auto simp: ImportHandler_Webhook_def run_fails split: if_splits option.splits sum.splits\<close>)
  moreover from this have "idb (snd (run_state (ImportHandler_Webhook h unmarshal wh) (g'\<lparr>base := w\<rparr>))) = idb g'"
    using Webhook_known [of wh "g'\<lparr>base := w\<rparr>" h unmarshal, OF _ prod.collapse [symmetric]] by simp
  ultimately show ?thesis using body new by blast
qed

definition ex_app_client :: app_client where
  "ex_app_client = gh_client.extend ex_github \<lparr>gcAuthorizationURL = (\<lambda>st cb. cb), gcInstallationURL = (\<lambda>st. st), gcExchangeCode = (\<lambda>_ _. Inr ''tok''),
     gcAuthenticatedUserID = (\<lambda>_ _. Inr 5), gcFindUserInstallation = (\<lambda>_ _. Inr (Some 42)), gcVerifyUserInstallation = (\<lambda>_ _ _. Inr ()),
     gcListInstallationRepositories = (\<lambda>_ _. Inr []), gcDeleteInstallation = (\<lambda>_ _. Inr ()),
     gcGetWorkflowRun = (\<lambda>_ _ _ _ _. Inl StoreErrNotFound), gcListWorkflowRunJobs = (\<lambda>_ _ _ _. Inr []), gcRerunFailedJobs = (\<lambda>_ _ _ _. Inr ())\<rparr>"

definition ex_import_handler :: import_handler where
  "ex_import_handler = \<lparr>ihClient = Some ex_app_client, ihCallbackURL = ''https://api.acme.io/callback'', ihWebhookSecret = [1, 2, 3],
     ihAPIURL = [], ihGatewayURL = [], ihYearLater = (\<lambda>t. t)\<rparr>"

lemma ToLower_hex_encode: "ToLower (hex_encode bs) = hex_encode bs"
proof -
  have "lower_char (hex_digit n) = hex_digit n" if "n < 16" for n
  proof -
    have "(of_char (lower_char (hex_digit n)) :: nat) = of_char (hex_digit n)"
      unfolding of_char_lower of_char_hex_digit [OF that] using that by auto
    then show ?thesis by simp
  qed
  then have "map lower_char (hex_byte b) = hex_byte b" for b by (simp add: hex_byte_def high_digit)
  then show ?thesis by (induction bs) (simp_all add: ToLower_def hex_encode_def)
qed

lemma signed: "secret \<noteq> [] \<Longrightarrow> validSignature body (''sha256='' @ hex_encode (hmac_sha256 secret body)) secret"
  using hex_DecodeString_iff [of "hex_encode (hmac_sha256 secret body)" "hmac_sha256 secret body"]
  by (simp add: validSignature_def HasPrefix_def TrimPrefix_def ToLower_hex_encode)

definition ex_webhook :: webhook where
  "ex_webhook = \<lparr>whBody = Some [4, 5], whSignature = ''sha256='' @ hex_encode (hmac_sha256 [1, 2, 3] [4, 5]), whDelivery = ''d1'', whEvent = ''ping''\<rparr>"

definition ex_payload :: webhook_payload where
  "ex_payload = \<lparr>wpAction = [], wpInstallationID = 41, wpRepositoryURL = [], wpRun = \<lparr>wrID = 1, wrRunAttempt = 1, wrEvent = [], wrStatus = [],
     wrConclusion = [], wrHeadBranch = [], wrHTMLURL = [], wrPath = []\<rparr>, wpJob = None\<rparr>"

theorem Webhook_guarded_witness:
  "idb (snd (run_state (ImportHandler_Webhook ex_import_handler (\<lambda>_. Some ex_payload) ex_webhook)
     ((snd (run_state (ImportHandler_Webhook ex_import_handler (\<lambda>_. Some ex_payload) ex_webhook) ex_imports))\<lparr>base := ex_world\<rparr>))) =
   ex_idb\<lparr>deliveries := [''d1'']\<rparr>"
proof -
  let ?run = "run_state (ImportHandler_Webhook ex_import_handler (\<lambda>_. Some ex_payload) ex_webhook)"
  have first: "idb (snd (?run ex_imports)) = ex_idb\<lparr>deliveries := [''d1'']\<rparr>"
    using signed [of "[1, 2, 3]" "[4, 5]"]
    by (simp add: ImportHandler_Webhook_def ex_webhook_def ex_import_handler_def run_fails RecordWebhook_def run_istmt_healthy dispatch_def ex_idb_def)
  then have "idb (snd (?run ex_imports)) \<noteq> idb ex_imports" by (simp add: ex_idb_def)
  from Webhook_guarded [OF prod.collapse [symmetric] this, of ex_world] first show ?thesis by simp
qed

section \<open>Connecting an organisation\<close>

definition connected :: "string \<Rightarrow> int \<Rightarrow> import_db \<Rightarrow> import_db \<Rightarrow> bool" where
  "connected orgID n i i' \<longleftrightarrow> exists_row (\<lambda>r. irOrgID r = orgID \<and> irGitHubInstallationID r = n) (installations i') \<and>
     filter (\<lambda>r. irOrgID r \<noteq> orgID) (installations i') = filter (\<lambda>r. irOrgID r \<noteq> orgID) (installations i)"

lemma filter_update_where: "(\<And>r. P r \<Longrightarrow> \<not> Q r \<and> \<not> Q (f r)) \<Longrightarrow> filter Q (update_where P f rows) = filter Q rows"
  by (induction rows) auto

lemma connected_update:
  assumes "exists_row (\<lambda>r. irOrgID r = orgID) (installations i)"
  shows "connected orgID n i (i\<lparr>installations := update_where (\<lambda>r. irOrgID r = orgID) (\<lambda>r. r\<lparr>irGitHubInstallationID := n\<rparr>) (installations i)\<rparr>)"
proof -
  have "exists_row (\<lambda>r. irOrgID r = orgID \<and> irGitHubInstallationID r = n)
      (update_where (\<lambda>r. irOrgID r = orgID) (\<lambda>r. r\<lparr>irGitHubInstallationID := n\<rparr>) rows)"
    if "exists_row (\<lambda>r. irOrgID r = orgID) rows" for rows using that by (induction rows) auto
  then show ?thesis using assms by (simp add: connected_def filter_update_where)
qed

lemma connected_append:
  "irOrgID r = orgID \<Longrightarrow> irGitHubInstallationID r = n \<Longrightarrow> connected orgID n i (i\<lparr>installations := installations i @ [r]\<rparr>)"
  by (simp add: connected_def)

lemma run_Upsert_effect:
  assumes "run_state (UpsertInstallation orgID n) g = (r, g')" and "idb g' \<noteq> idb g"
  shows "connected orgID n (idb g) (idb g') \<and> install_states (idb g') = install_states (idb g)"
proof -
  obtain r' where "run_state (txn (\<lambda>t d i.
     if exists_row (\<lambda>r. irGitHubInstallationID r = n \<and> irOrgID r \<noteq> orgID) (installations i)
     then Inl (UniqueViolation ''github_installations_github_installation_id_key'')
     else if exists_row (\<lambda>r. irOrgID r = orgID) (installations i)
     then Inr ((), d, i\<lparr>installations := update_where (\<lambda>r. irOrgID r = orgID)
       (\<lambda>r. r\<lparr>irGitHubInstallationID := n\<rparr>) (installations i)\<rparr>)
     else if \<not> exists_row (\<lambda>g. oID g = orgID) (orgs d) then Inl (ForeignKeyViolation ''github_installations_org_id_fkey'')
     else Inr ((), d, i\<lparr>installations := installations i @
       [\<lparr>irOrgID = orgID, irGitHubInstallationID = n, irCreatedAt = t\<rparr>]\<rparr>))) g = (r', g')"
    using assms(1) unfolding UpsertInstallation_def by (rule run_iwrap_cases) blast
  then show ?thesis
  proof (cases rule: run_txn_cases)
    case (step a d i)
    show ?thesis using step(1) unfolding step(2) by (auto split: if_splits intro!: connected_update connected_append)
  qed (use assms(2) in simp)
qed

lemma run_Consume_effect:
  assumes "run_state (ConsumeInstallState sh uid) g = (Inr orgID, g')"
  obtains s where "s \<in> set (install_states (idb g))" and "state_consumable (clock (base g)) sh uid s" and "orgID = isOrgID s"
    and "idb g' = (idb g)\<lparr>install_states := update_where (state_consumable (clock (base g)) sh uid)
      (\<lambda>s. s\<lparr>isConsumedAt := Some (clock (base g))\<rparr>) (install_states (idb g))\<rparr>"
proof -
  obtain r' where run: "run_state (istmt (\<lambda>t i. case find (state_consumable t sh uid) (install_states i) of
       None \<Rightarrow> Inl StoreErrNotFound
     | Some s \<Rightarrow> Inr (isOrgID s, i\<lparr>install_states := update_where (state_consumable t sh uid)
         (\<lambda>s. s\<lparr>isConsumedAt := Some t\<rparr>) (install_states i)\<rparr>))) g = (r', g')" and r': "r' = Inr orgID"
    using assms unfolding ConsumeInstallState_def by (rule run_iwrap_cases) blast
  from run show thesis
  proof (cases rule: run_istmt_cases)
    case (step a i)
    then obtain s where "find (state_consumable (clock (base g)) sh uid) (install_states (idb g)) = Some s" by (auto split: option.splits)
    then show thesis using step r' by (intro that [of s]) (auto dest: find_SomeD)
  qed (use r' in auto)
qed

lemma run_Authorize_effect:
  assumes "run_state (AuthorizeInstallState sh uid) g = (r, g')"
  shows "clock (base g') = clock (base g) \<and> (idb g' = idb g \<or> idb g' = (idb g)\<lparr>install_states := update_where (state_authorizable (clock (base g)) sh)
      (\<lambda>s. s\<lparr>isGitHubUserID := Some uid, isAuthorizedAt := Some (clock (base g))\<rparr>) (install_states (idb g))\<rparr>)"
proof -
  obtain r' where "run_state (istmt (\<lambda>t i. case find (state_authorizable t sh) (install_states i) of
       None \<Rightarrow> Inl StoreErrNotFound
     | Some s \<Rightarrow> Inr (isOrgID s, i\<lparr>install_states := update_where (state_authorizable t sh)
         (\<lambda>s. s\<lparr>isGitHubUserID := Some uid, isAuthorizedAt := Some t\<rparr>) (install_states i)\<rparr>))) g = (r', g')"
    using assms unfolding AuthorizeInstallState_def by (rule run_iwrap_cases) blast
  then show ?thesis by (cases rule: run_istmt_cases) (auto split: option.splits)
qed

text \<open>\<open>admitted\<close>: the state that stands for the request to connect, and what GitHub said of the installation.\<close>

definition admitted :: "app_client \<Rightarrow> time \<Rightarrow> string \<Rightarrow> string \<Rightarrow> int \<Rightarrow> int \<Rightarrow> install_state \<Rightarrow> bool" where
  "admitted c t sh token uid n s \<longleftrightarrow> gcVerifyUserInstallation c t token n = Inr () \<and> isStateHash s = sh \<and> isConsumedAt s = None \<and>
     t < isExpiresAt s \<and> (isAuthorizedAt s = None \<or> isGitHubUserID s = Some uid)"

lemma connect_effect:
  assumes "run_state (connect c token sh uid n) g = (a, g')" and "installations (idb g') \<noteq> installations (idb g)"
    and "import_ok (idb g)"
  obtains s where "s \<in> set (install_states (idb g))" and "admitted c (clock (base g)) sh token uid n s" and "isAuthorizedAt s \<noteq> None"
    and "connected (isOrgID s) n (idb g) (idb g')"
    and "list_all (\<lambda>s. isStateHash s = sh \<longrightarrow> isConsumedAt s \<noteq> None) (install_states (idb g'))"
proof -
  have v: "gcVerifyUserInstallation c (clock (base g)) token n = Inr ()"
    using assms(1,2) by (auto simp: connect_def run_fails split: sum.splits)
  obtain r g1 where con: "run_state (ConsumeInstallState sh uid) g = (r, g1)" by fastforce
  have "keeps (on_idb (\<lambda>i. installations i = X)) (ConsumeInstallState sh uid)" for X
    unfolding ConsumeInstallState_def by (intro keeps_rules keeps_istmt) (auto split: option.splits)
  from kept [OF this con] have inst: "installations (idb g1) = installations (idb g)" by simp
  then obtain orgID where r: "r = Inr orgID" using assms(1,2) v con by (auto simp: connect_def run_fails split: sum.splits)
  obtain s where s: "s \<in> set (install_states (idb g))" "state_consumable (clock (base g)) sh uid s" "orgID = isOrgID s"
      "idb g1 = (idb g)\<lparr>install_states := update_where (state_consumable (clock (base g)) sh uid)
        (\<lambda>s. s\<lparr>isConsumedAt := Some (clock (base g))\<rparr>) (install_states (idb g))\<rparr>"
    using con [unfolded r] by (rule run_Consume_effect)
  obtain r2 g2 where up: "run_state (UpsertInstallation orgID n) g1 = (r2, g2)" by fastforce
  have g': "idb g' = idb g2" using assms(1) v con r up by (auto simp: connect_def run_fails split: sum.splits)
  then have "idb g2 \<noteq> idb g1" using assms(2) inst by auto
  then have eff: "connected orgID n (idb g1) (idb g2)" "install_states (idb g2) = install_states (idb g1)"
    using run_Upsert_effect [OF up] by auto
  have "x = s" if "x \<in> set (install_states (idb g))" "isStateHash x = sh" for x
    using that s(1,2) assms(3) by (auto simp: import_ok_def connections_ok_def state_consumable_def distinct_map dest: inj_onD)
  then have "list_all (\<lambda>s. isStateHash s = sh \<longrightarrow> isConsumedAt s \<noteq> None) (install_states (idb g'))"
    using s(2) unfolding g' eff s(4) by (auto simp: list_all_iff update_where_def)
  moreover have "connected (isOrgID s) n (idb g) (idb g')" using eff inst s(3) g' by (simp add: connected_def)
  ultimately show thesis using s(1,2) v by (intro that [of s]) (auto simp: admitted_def state_consumable_def)
qed

text \<open>C14. The callback of the GitHub App connects an organisation to an installation only when the request carries the state that
  this organisation issued, unexpired and never used, not authorized before by another GitHub user, and GitHub confirmed
  that the user of the code may administer that installation. Other organisations keep their connections, and the state is
  used up.\<close>

theorem Callback_connects:
  assumes "run_state (ImportHandler_Callback h r) g = (a, g')" and "installations (idb g') \<noteq> installations (idb g)" and "import_ok (idb g)"
  shows "\<exists>c token uid n s. ihClient h = Some c \<and> gcExchangeCode c (clock (base g)) (queryValue r ''code'') = Inr token \<and>
    gcAuthenticatedUserID c (clock (base g)) token = Inr uid \<and> s \<in> set (install_states (idb g)) \<and>
    admitted c (clock (base g)) (Hash (queryValue r ''state'')) token uid n s \<and> connected (isOrgID s) n (idb g) (idb g') \<and>
    list_all (\<lambda>s. isStateHash s = Hash (queryValue r ''state'') \<longrightarrow> isConsumedAt s \<noteq> None) (install_states (idb g'))"
proof -
  let ?t = "clock (base g)" and ?sh = "Hash (queryValue r ''state'')" and ?n = "ParseInt64 (queryValue r ''installation_id'')"
  obtain c token uid where c: "ihClient h = Some c" "gcExchangeCode c ?t (queryValue r ''code'') = Inr token"
      "gcAuthenticatedUserID c ?t token = Inr uid"
    using assms(1,2) by (auto simp: ImportHandler_Callback_def Let_def run_fails split: option.splits if_splits sum.splits)
  show ?thesis
  proof (cases "?n = 0")
    case False
    then have "run_state (connect c token ?sh uid ?n) g = (a, g')"
      using assms(1,2) c by (auto simp: ImportHandler_Callback_def Let_def run_fails split: if_splits)
    then obtain s where "s \<in> set (install_states (idb g))" "admitted c ?t ?sh token uid ?n s" "connected (isOrgID s) ?n (idb g) (idb g')"
        "list_all (\<lambda>s. isStateHash s = ?sh \<longrightarrow> isConsumedAt s \<noteq> None) (install_states (idb g'))"
      using assms(2,3) by (rule connect_effect)
    then show ?thesis using c by blast
  next
    case True
    obtain r1 g1 where auth: "run_state (AuthorizeInstallState ?sh uid) g = (r1, g1)" by fastforce
    have ok: "import_ok (idb g1)" using kept [OF keeps_connections(2) auth] assms(3) .
    have inst: "installations (idb g1) = installations (idb g)" and t: "clock (base g1) = ?t"
      using run_Authorize_effect [OF auth] by auto
    obtain n where "run_state (connect c token ?sh uid n) g1 = (a, g')"
      using assms(1,2) c True auth inst
      by (auto simp: ImportHandler_Callback_def Let_def run_fails split: if_splits sum.splits option.splits)
    then obtain s1 where s1: "s1 \<in> set (install_states (idb g1))" "admitted c ?t ?sh token uid n s1" "connected (isOrgID s1) n (idb g1) (idb g')"
        "list_all (\<lambda>s. isStateHash s = ?sh \<longrightarrow> isConsumedAt s \<noteq> None) (install_states (idb g'))"
      using assms(2) ok unfolding inst [symmetric] t [symmetric] by (rule connect_effect)
    have "\<exists>s\<in>set (install_states (idb g)). s1 = s \<or> state_authorizable ?t ?sh s \<and> s1 = s\<lparr>isGitHubUserID := Some uid, isAuthorizedAt := Some ?t\<rparr>"
      using run_Authorize_effect [OF auth] s1(1) by (auto simp: update_where_def split: if_splits)
    then obtain s where s: "s \<in> set (install_states (idb g))"
        "s1 = s \<or> state_authorizable ?t ?sh s \<and> s1 = s\<lparr>isGitHubUserID := Some uid, isAuthorizedAt := Some ?t\<rparr>" by blast
    have "admitted c ?t ?sh token uid n s" "isOrgID s = isOrgID s1"
      using s(2) s1(2) by (auto simp: admitted_def state_authorizable_def)
    moreover have "connected (isOrgID s1) n (idb g) (idb g')" using s1(3) inst by (simp add: connected_def)
    ultimately show ?thesis using c s(1) s1(4) by (intro exI [of _ c] exI [of _ token] exI [of _ uid] exI [of _ n] exI [of _ s]) simp
  qed
qed

definition ex_callback :: http_request where
  "ex_callback = ex_request\<lparr>queryValue := (\<lambda>k. if k = ''state'' then ''abc'' else if k = ''code'' then ''c'' else [])\<rparr>"

theorem Callback_connects_witness:
  "\<exists>s n. s \<in> set (install_states ex_idb) \<and>
     connected (isOrgID s) n ex_idb (idb (snd (run_state (ImportHandler_Callback ex_import_handler ex_callback) ex_imports)))"
proof -
  let ?g' = "snd (run_state (ImportHandler_Callback ex_import_handler ex_callback) ex_imports)"
  have "installations (idb ?g') = [\<lparr>irOrgID = ''g1'', irGitHubInstallationID = 42, irCreatedAt = 1\<rparr>]"
    by (simp add: ImportHandler_Callback_def ex_import_handler_def ex_app_client_def ex_callback_def ex_request_def gh_client.defs ParseInt64_def
        run_fails connect_def AuthorizeInstallState_def ConsumeInstallState_def UpsertInstallation_def import_runs ex_idb_def
        state_authorizable_def state_consumable_def ex_import_rows Let_def)
  then have "installations (idb ?g') \<noteq> installations (idb ex_imports)" by (simp add: ex_idb_def)
  from Callback_connects [OF prod.collapse [symmetric] this ex_imports_ok] show ?thesis by auto
qed

section \<open>A lost lease\<close>

text \<open>The last failure of a worker marks the import as failed whoever holds the job by then: also an import that another worker
  has meanwhile brought to completion.\<close>

lemma RetryJob_ignores_lease:
  assumes "import_ok (idb g)" and "faults (base g) = []" and "jbMaxAttempts jb \<le> jbAttempts jb" and "jbKind jb = JobStart"
    and "m \<in> set (repo_imports (idb g))" and "imOrgID m = jbOrgID jb" "imID m = jbImportID jb" and "imStatus m = StateCompleted"
  shows "lifecycle (idb (snd (run_state (RetryJob jb owner next e) g))) (jbImportID jb) = Some (StateFailed, imRunID m)"
proof -
  have "find (\<lambda>x. imID x = jbImportID jb) (repo_imports (idb g)) = Some m"
    using find_by_key [of imID "repo_imports (idb g)" m] assms by (simp add: import_ok_def imports_ok_def)
  then show ?thesis using assms
    by (simp add: RetryJob_def run_istmt_healthy Let_def lifecycle_def set_imports_def find_update_other the_import_def)
qed

end
