(* ===== verification/System.thy ===== *)
theory System
  imports Routes SsoSafety ImportSafety
begin

text \<open>
  The running system around one database, as \<open>internal/server/server.go\<close> assembles it: the first start on an empty
  database, requests to any route of the identity layer and of the repository imports, with any content and in any order, restarts, the workers of
  \<open>internal/screenshot\<close> and \<open>internal/githubapp\<close>, the passing of time and every failure of a statement. The routes of the other packages do not
  write to the tables of the identity layer. Handlers are taken one after another; each
  of the invariants below is kept by every single statement, which is how it is proved for a handler.
\<close>

section \<open>Steps and reachable states\<close>

text \<open>\<open>worker\<close> is any content of the worker's cache of account ids: it is lost at a restart.\<close>

inductive step :: "app \<Rightarrow> world \<Rightarrow> world \<Rightarrow> bool" for a :: app where
  serve: "(pattern, h) \<in> set (routes a b) \<Longrightarrow> step a w (snd (run_state (h r) w))"
| start: "step a w (snd (run_state (bootstrap_Run (aBcrypt a) (aAdminEmail a) (aAdminPassword a)) w))"
| worker_mint: "step a w (snd (run_state (mintToken worker orgID) w))"
| worker_revoke: "step a w (snd (run_state (RevokeToken tokenID) w))"
| github: "import_call g g' \<Longrightarrow> step a (base g) (base g')"
| tick: "clock w \<le> t \<Longrightarrow> step a w (w\<lparr>clock := t\<rparr>)"
| failures: "step a w (w\<lparr>faults := fs\<rparr>)"

inductive reachable :: "app \<Rightarrow> world \<Rightarrow> bool" for a :: app where
  empty: "db w = empty_database \<Longrightarrow> reachable a w"
| step: "reachable a w \<Longrightarrow> step a w w' \<Longrightarrow> reachable a w'"

inductive_cases stepE: "step a w w'"

section \<open>Invariants\<close>

text \<open>The storage layer keeps a property of the database in every step of the system as soon as it keeps it in every one of
  its operations, which is the contract \<open>system_contract\<close>.\<close>

definition on_base :: "(database \<Rightarrow> bool) \<Rightarrow> import_world \<Rightarrow> bool" where
  "on_base I g = I (db (base g))"

lemma keeps_base_txn:
  assumes "\<And>t d i a d' i'. I d \<Longrightarrow> f t d i = Inr (a, d', i') \<Longrightarrow> I d'"
  shows "keeps (on_base I) (txn f)"
proof (rule hoareI)
  fix g r g' assume "on_base I g" and "run_state (txn f) g = (r, g')"
  from this(2) show "on_base I g'"
    by (cases rule: run_txn_cases) (use \<open>on_base I g\<close> assms in \<open>auto simp: on_base_def\<close>)
qed

lemma keeps_base_same: "keeps (on_base I) (istmt f)" "keeps (on_base I) (iquery q)"
  unfolding istmt_def iquery_def by (rule keeps_base_txn, auto split: sum.splits)+

lemma keeps_base_lift: "keeps (on_db I) m \<Longrightarrow> keeps (on_base I) (lift m)"
  by (auto simp: hoare_def on_base_def on_db_def lift_def split: prod.splits)

text \<open>Beside the operations of the store, an import puts its team into a table of the identity layer.\<close>

locale system_contract = store_contract +
  assumes import_team: "I d \<Longrightarrow> t \<in> set (teams d) \<Longrightarrow> oid \<in> oID ` set (orgs d) \<Longrightarrow> I (d\<lparr>import_teams := import_teams d @ [(oid, tID t)]\<rparr>)"
begin

lemma keeps_CreateImportToken: "keeps (on_db I) (CreateImportToken g repo t)"
proof -
  have revoke: "keeps (on_db I) (revoke_named repo ks)" for ks
    by (induction ks) (auto intro!: keeps_rules)
  have "list_all ValidScope (ScopesForRole RoleEditor)" by code_simp
  then have "keeps (on_db I) (import_account g)"
    unfolding import_account_def by (auto intro!: keeps_rules split: list.splits)
  then show ?thesis unfolding CreateImportToken_def by (intro keeps_rules revoke)
qed

end

sublocale system_contract \<subseteq> imported: import_contract "on_base I"
proof unfold_locales
  show "keeps (on_base I) (CreateImport g tm ow rp)" for g tm ow rp
    unfolding CreateImport_def
    by (intro keeps_bind keeps_ibindE keeps_base_lift keeps_rules keeps_base_txn)
      (auto simp: GetImport_def split: if_splits intro!: keeps_rules keeps_base_same intro: import_team)
  show "keeps (on_base I) (lift (rand_Read len))" "keeps (on_base I) (lift (CreateImportToken g repo t))" for len g repo t
    by (intro keeps_base_lift keeps_rules keeps_CreateImportToken)+
  show "keeps (on_base I) (CreateInstallState g u s t)" "keeps (on_base I) (UpsertInstallation g n)" for g u s t n
    unfolding CreateInstallState_def UpsertInstallation_def by (intro keeps_iwrap keeps_base_txn, auto split: if_splits)+
qed (simp_all add: AuthorizeInstallState_def ConsumeInstallState_def DeleteInstallation_def
    SetImportRunQueued_def SetImportPullRequest_def ResumeImportRun_def RetryImport_def ApplyWorkflowRunEvent_def ApplyWorkflowJobEvent_def ClaimJob_def
    CompleteJob_def RetryJob_def RecordWebhook_def GetImport_def GetLatestImport_def GetInstallation_def keeps_iwrap keeps_ibindE keeps_base_same)

context system_contract
begin

lemma step_keeps:
  assumes "step a w w'" and "I (db w)" and "phCompile (aProvider a) = Compile"
  shows "I (db w')"
proof -
  have prog: "I (db (snd (run_state m w)))" if "keeps (on_db I) m" for m :: "'x prog"
    using hoareD [OF that _ surjective_pairing] assms(2) by (simp add: on_db_def)
  from assms(1) show ?thesis
  proof cases
    case (serve pattern h b r)
    with keeps_routes [OF assms(3)] have "keeps (on_db I) (h r)" by (fastforce simp: list_all_iff)
    with serve(1) show ?thesis by (simp add: prog)
  next
    case (github g g')
    then show ?thesis using imported.import_call_keeps [of g g'] assms(2) by (simp add: on_base_def)
  qed (use assms(2) in \<open>simp_all add: prog keeps_rules\<close>)
qed

lemma reachable_keeps:
  assumes "reachable a w" and "I empty_database" and "phCompile (aProvider a) = Compile"
  shows "I (db w)"
  using assms by (induction rule: reachable.induct) (auto intro: step_keeps)

end

lemma reachable_start:
  assumes "db w = empty_database"
  shows "reachable a (snd (run_state (bootstrap_Run (aBcrypt a) (aAdminEmail a) (aAdminPassword a)) w))"
  using assms by (blast intro: reachable.intros step.start)

interpretation sys_ok: system_contract db_ok Compile "\<lambda>_. True" for Compile
  by unfold_locales (auto simp: db_ok_def tables_ok_defs)

interpretation sys_rot: system_contract no_rotation Compile "\<lambda>_. True" for Compile
  by unfold_locales (simp add: no_rotation_def)

interpretation sys_scp: system_contract scopes_valid Compile "\<lambda>_. True" for Compile
  by unfold_locales (simp add: scopes_valid_def)

interpretation sys_rdr: system_contract redirects_local Compile "\<lambda>_. True" for Compile
  by unfold_locales (simp add: redirects_local_def)

interpretation sys_rmap: system_contract "mappings_valid Compile" Compile "\<lambda>p. RoleScopes (apDefaultRole p) \<noteq> None" for Compile
  by unfold_locales (simp add: mappings_valid_def)

text \<open>The five invariants in every reachable state.\<close>

lemma reachable_ok:
  assumes "reachable a w"
  shows "db_ok (db w)" and "no_rotation (db w)" and "scopes_valid (db w)" and "redirects_local (db w)"
    and "mappings_valid (phCompile (aProvider a)) (db w)"
proof -
  have "db_ok empty_database" "no_rotation empty_database" "scopes_valid empty_database" "redirects_local empty_database"
    "mappings_valid c empty_database" for c
    by (simp_all add: empty_database_def db_ok_def tables_ok_defs no_rotation_def scopes_valid_def redirects_local_def mappings_valid_def)
  note empty = this
  show "db_ok (db w)" using sys_ok.reachable_keeps [OF assms empty(1) refl] .
  show "no_rotation (db w)" using sys_rot.reachable_keeps [OF assms empty(2) refl] .
  show "scopes_valid (db w)" using sys_scp.reachable_keeps [OF assms empty(3) refl] .
  show "redirects_local (db w)" using sys_rdr.reachable_keeps [OF assms empty(4) refl] .
  show "mappings_valid (phCompile (aProvider a)) (db w)" using sys_rmap.reachable_keeps [OF assms empty(5) refl] .
qed

section \<open>Guarded routes\<close>

text \<open>\<open>anonymous r\<close>: the request carries no credential that the middleware looks at.\<close>

definition anonymous :: "http_request \<Rightarrow> bool" where
  "anonymous r \<longleftrightarrow> extractBearer r = [] \<and> hSessionCookie r \<in> {None, Some []} \<and> hAPIKey r = []"

lemma anonymous_refused:
  assumes "anonymous r"
  shows "run_state (Middleware_Handler mw h r) w = (JSON 401 unauthenticated_body, w)"
  using assms by (auto simp: anonymous_def Middleware_Handler_def authenticate_def mw_def)

lemma guarded_route:
  assumes "(pattern, h) \<in> set (protected_routes a b @ admin_routes a b @ scoped_routes a b)"
  shows "\<exists>h'. h = Middleware_Handler mw h'"
  using assms
  by (auto simp: protected_routes_def admin_routes_def scoped_routes_def protected_def serverAdmin_def requireScope_def Let_def)

section \<open>Who may administer\<close>

text \<open>The scopes of the routes that change an organisation, its members, teams, accounts and providers. No editor and no
  viewer holds one of them.\<close>

definition write_scopes :: "string list" where
  "write_scopes =
     [''org:update'', ''org:delete'', ''members:add'', ''members:update-role'', ''members:remove'', ''teams:create'', ''teams:edit'',
      ''teams:delete'', ''teams:add-member'', ''teams:remove-member'', ''serviceaccounts:create'', ''serviceaccounts:edit'',
      ''serviceaccounts:delete'', ''serviceaccounts:create-token'', ''serviceaccounts:revoke-token'', ''authproviders:write'']"

lemma write_scopes_administrative:
  "list_all (\<lambda>s. list_all (\<lambda>scopes. \<not> Has scopes s) [[], ScopesForRole RoleViewer, ScopesForRole RoleEditor]) write_scopes"
  by code_simp

lemma scoped_write_scopes:
  "list_all (\<lambda>(scope, pattern, h). HasPrefix pattern ''GET '' \<or> scope \<in> set write_scopes)
   (org_routes a b @ account_routes a b @ provider_routes a b)"
  by (simp add: org_routes_def account_routes_def provider_routes_def write_scopes_def Let_def HasPrefix_def)

lemma scoped_write_route:
  assumes "(pattern, h) \<in> set (scoped_routes a b)" and "\<not> HasPrefix pattern ''GET ''"
  obtains scope g where "h = requireScope mw ScopesForUser scope g" and "scope \<in> set write_scopes"
proof -
  from assms(1) obtain scope g where m: "(scope, pattern, g) \<in> set (org_routes a b @ account_routes a b @ provider_routes a b)"
    and h: "h = requireScope mw ScopesForUser scope g"
    unfolding scoped_routes_def by (auto split: prod.splits)
  have "scope \<in> set write_scopes" using scoped_write_scopes [of a b] m assms(2) unfolding list_all_iff by fastforce
  then show ?thesis using h by (intro that)
qed

text \<open>\<open>at_most_editor d p g\<close>: the caller has no more rights in the organisation \<open>g\<close> than an editor.\<close>

definition at_most_editor :: "database \<Rightarrow> principal \<Rightarrow> string \<Rightarrow> bool" where
  "at_most_editor d p g \<longleftrightarrow> (case pKind p of
     PrincipalUser \<Rightarrow> user_scopes d (pUserID p) g \<in> {[], ScopesForRole RoleViewer, ScopesForRole RoleEditor}
   | PrincipalServiceAccount \<Rightarrow> pOrgID p \<noteq> g \<or> set (pScopes p) \<subseteq> set (ScopesForRole RoleEditor))"

lemma write_scope_not_held:
  assumes "scope \<in> set write_scopes" and "at_most_editor d p g"
  shows "\<not> holds_scope user_scopes d p g scope"
proof -
  have "\<not> Has scopes scope" if "scopes \<in> {[], ScopesForRole RoleViewer, ScopesForRole RoleEditor}" for scopes
    using assms(1) write_scopes_administrative that by (auto simp: list_all_iff)
  then show ?thesis using assms(2) Has_mono [of "pScopes p" "ScopesForRole RoleEditor" scope]
    by (auto simp: holds_scope_def at_most_editor_def split: principal_kind.splits)
qed

section \<open>Sign-ins\<close>

text \<open>A handler that redirects only into the front end.\<close>

definition redirects_to :: "string \<Rightarrow> response \<Rightarrow> bool" where
  "redirects_to site resp \<longleftrightarrow> (case rLocation resp of None \<Rightarrow> True | Some l \<Rightarrow> \<exists>path. local_path path \<and> l = site @ path)"

lemma stored_rules_valid:
  assumes "mappings_valid Compile d"
  shows "\<forall>r\<in>set (rules_of d i). ValidateRule Compile r = None"
  using assms by (auto simp: mappings_valid_def rules_of_def list_all_iff)

lemma redirects_to_simps [simp]:
  "redirects_to site (Error err)" "redirects_to site Forbidden" "redirects_to site (BadRequest j)" "redirects_to site (JSON n j)"
  "redirects_to site (setSessionCookie h t e (Redirect (site @ path))) = local_path path"
  by (auto simp: redirects_to_def Error_def Forbidden_def BadRequest_def JSON_def
      setSessionCookie_def add_cookie_def Redirect_def Let_def split: option.splits)

lemma seatLimitReached_redirects:
  assumes "run_state (seatLimitReached ent g n) w = (Some resp, w')"
  shows "redirects_to site resp"
  using assms by (auto simp: seatLimitReached_def Let_def split: option.splits sum.splits if_splits prod.splits)

lemma on_err_redirects:
  assumes "\<And>a w1. redirects_to site (fst (run_state (k a) w1))"
  shows "redirects_to site (fst (run_state (on_err m k) w))"
  using assms by (auto simp: run_on_err split: prod.splits sum.splits)

lemma finish_login_redirects:
  assumes "local_path (lsRedirectTo ls)"
  shows "redirects_to (frontendBase h) (fst (run_state (finish_login h prov ls auth u r) w))"
proof -
  have join: "redirects_to (frontendBase h) (fst (run_state (join_and_open h prov ls auth u role r) w1))" for role w1
    unfolding join_and_open_def by (intro on_err_redirects) (simp add: assms split: prod.splits)
  have limited: "redirects_to (frontendBase h) (fst (run_state (State_Monad.bind
      (if new then seatLimitReached ent g 403 else ret None)
      (\<lambda>limited. case limited of Some resp \<Rightarrow> ret resp | None \<Rightarrow> join_and_open h prov ls auth u role r)) w1))" for new ent g role w1
    using join by (auto dest: seatLimitReached_redirects split: prod.splits option.splits)
  show ?thesis unfolding finish_login_def
    by (auto simp del: run_state_bind intro!: on_err_redirects limited split: sum.splits)
qed

lemma completeLogin_redirects:
  assumes "local_path (lsRedirectTo ls)"
  shows "redirects_to (frontendBase h) (fst (run_state (completeLogin h prov ls auth r) w))"
  unfolding completeLogin_def Let_def
  by (auto intro!: on_err_redirects finish_login_redirects assms split: option.splits prod.splits)

lemma consumeState_redirects:
  assumes "run_state (consumeState r state kind) w = (Inl resp, w')"
  shows "redirects_to site resp"
  using assms by (auto simp: consumeState_def split: if_splits sum.splits option.splits prod.splits)

lemma callback_redirects:
  assumes "redirects_local (db w)"
    and "\<And>prov ls w1. local_path (lsRedirectTo ls) \<Longrightarrow> redirects_to site (fst (run_state (k prov ls) w1))"
  shows "redirects_to site (fst (run_state (State_Monad.bind (consumeState r state kind)
    (\<lambda>res. case res of Inl resp \<Rightarrow> ret resp | Inr (prov, ls) \<Rightarrow> k prov ls)) w))"
proof -
  obtain res w1 where c: "run_state (consumeState r state kind) w = (res, w1)" by fastforce
  show ?thesis
  proof (cases res)
    case (Inl resp)
    with c show ?thesis by (simp add: consumeState_redirects)
  next
    case (Inr x)
    then obtain prov ls where x: "res = Inr (prov, ls)" by (cases x) auto
    with consumeState_sound(2) [OF c] assms(1) have "local_path (lsRedirectTo ls)"
      by (auto simp: pending_def redirects_local_def list_all_iff)
    with c x assms(2) show ?thesis by simp
  qed
qed

end
