(* ===== verification/UserSafety.thy ===== *)
theory UserSafety
  imports UserHandler SessionSafety
begin

text \<open>
  Accounts and organisations across their handlers: a password that was set opens a session, an organisation that was
  created belongs to its creator, the first start makes one administrator, and what disabling a user does.
\<close>

section \<open>Passwords\<close>

text \<open>\<open>session_fresh w\<close>: the next token and identifier are drawn and are not in use.\<close>

definition session_fresh :: "world \<Rightarrow> bool" where
  "session_fresh w \<longleftrightarrow>
     (case entropy w (draws w) of None \<Rightarrow> False | Some f \<Rightarrow> Hash (hex_encode (map f [0..<32])) \<notin> keys sTokenHash (user_sessions (db w))) \<and>
     fst (run_state newID (w\<lparr>draws := Suc (draws w)\<rparr>)) \<notin> keys sID (user_sessions (db w))"

lemma start_session_healthy:
  assumes "faults w = []" and "session_fresh w" and "i \<in> keys uID (users (db w))"
  shows "\<exists>token sess w'. run_state (start_session i p r) w = (Inr (token, sess), w')"
proof -
  from assms(2) obtain f where f: "entropy w (draws w) = Some f"
      "Hash (hex_encode (map f [0..<32])) \<notin> keys sTokenHash (user_sessions (db w))"
    by (auto simp: session_fresh_def split: option.splits)
  obtain j where j: "run_state newID (w\<lparr>draws := Suc (draws w)\<rparr>) = (j, w\<lparr>draws := Suc (Suc (draws w))\<rparr>)"
    using run_newID [of "w\<lparr>draws := Suc (draws w)\<rparr>"] by auto
  with assms(2) have "j \<notin> keys sID (user_sessions (db w))" by (simp add: session_fresh_def)
  then show ?thesis
    using assms(1,3) f j
    by (simp add: start_session_def run_bindE run_generateSessionToken CreateSession_def Let_def key_exists)
qed

text \<open>A user with a usable password can sign in.\<close>

lemma Login_accepts:
  assumes "faults w = []" and "session_fresh w" and "db_ok (db w)" and "u \<in> set (users (db w))" and "\<not> uDisabled u"
    and "uEmail u \<noteq> []" and "password \<noteq> []" and "uPasswordHash u \<noteq> []"
    and "CompareHashAndPassword (shBcrypt h) (uPasswordHash u) password"
  shows "rStatus (fst (run_state (SessionHandler_Login h (Some \<lparr>lrEmail = uEmail u, lrPassword = password\<rparr>) r) w)) = 200"
proof -
  have "find (\<lambda>x. uEmail x = uEmail u) (users (db w)) = Some u"
    using find_Some_iff_key [OF db_ok_unique(2) [OF assms(3)]] assms(4) by blast
  moreover obtain token sess w' where "run_state (start_session (uID u) [] r) w = (Inr (token, sess), w')"
    using start_session_healthy [OF assms(1,2)] assms(4) by blast
  ultimately show ?thesis
    using assms by (simp add: SessionHandler_Login_def run_on_err GetUserByEmail_def setSessionCookie_def)
qed

lemma GenerateFromPassword_Inr:
  assumes "run_state (GenerateFromPassword bc pw) w = (Inr hash, w')" and "bcrypt_ok bc"
  shows "CompareHashAndPassword bc hash pw" and "hash \<noteq> []" and "db w' = db w"
  using assms by (auto simp: GenerateFromPassword_def bcrypt_ok_def split: option.splits)

lemma generateTemporaryPassword_Inr:
  assumes "run_state generateTemporaryPassword w = (Inr temp, w')"
  shows "temp \<noteq> []" and "db w' = db w"
proof -
  from assms obtain f where "temp = base64url (map f [0..<18])" and "db w' = db w"
    by (auto simp: generateTemporaryPassword_def split: option.splits)
  then show "temp \<noteq> []" and "db w' = db w"
    using length_base64url [of "map f [0..<18]"] by auto
qed

text \<open>The user that an update leaves behind.\<close>

lemma UpdateUser_Inr:
  assumes "run_state (UpdateUser u) w = (Inr x, w')" and "v \<in> set (users (db w))" and "uID v = uID u"
  shows "v\<lparr>uName := uName u, uLogin := uLogin u, uPasswordHash := uPasswordHash u, uMustChangePassword := uMustChangePassword u,
    uDisabled := uDisabled u, uRole := uRole u, uUpdatedAt := clock w\<rparr> \<in> set (users (db w'))"
proof -
  from assms(1) have "users (db w') = update_where (\<lambda>r. uID r = uID u)
      (\<lambda>r. r\<lparr>uName := uName u, uLogin := uLogin u, uPasswordHash := uPasswordHash u,
             uMustChangePassword := uMustChangePassword u, uDisabled := uDisabled u, uRole := uRole u, uUpdatedAt := clock w\<rparr>) (users (db w))"
    by (auto simp: UpdateUser_def simp del: run_wrap exists_row_iff elim!: run_command_Inr split: if_splits)
  then show ?thesis using assms(2,3) by (auto simp: update_where_def image_iff intro!: bexI [of _ v])
qed

text \<open>A password reset works: the temporary password in its answer opens a session for that user, if enabled, on
  any later occasion where the statements arrive and the session's random values are new.\<close>

lemma ResetPassword_then_Login:
  assumes "run_state (UserHandler_ResetPassword (shBcrypt h) c r) w = (resp, w')" and "rStatus resp = 200"
    and "bcrypt_ok (shBcrypt h)" and "db_ok (db w)"
    and "u \<in> set (users (db w))" and "uID u = pathValue r ''userID''" and "\<not> uDisabled u" and "uEmail u \<noteq> []"
  shows "\<exists>temp. rBody resp = BodyJSON (JObj [(''temporaryPassword'', JStr temp)]) \<and>
    (\<forall>v r'. db v = db w' \<and> faults v = [] \<and> session_fresh v \<longrightarrow>
       rStatus (fst (run_state (SessionHandler_Login h (Some \<lparr>lrEmail = uEmail u, lrPassword = temp\<rparr>) r') v)) = 200)"
proof -
  have ok: "ok_status resp" using assms(2) by (simp add: ok_status_def)
  from assms(1) obtain found w1 where 1: "run_state (GetUser (pathValue r ''userID'')) w = (Inr found, w1)"
    and 2: "run_state (case found of None \<Rightarrow> ret (Error StoreErrNotFound) | Some u \<Rightarrow>
        on_err generateTemporaryPassword (\<lambda>temp. on_err (GenerateFromPassword (shBcrypt h) temp) (\<lambda>hash.
        on_err (UpdateUser (u\<lparr>uPasswordHash := hash, uMustChangePassword := True\<rparr>)) (\<lambda>_.
          State_Monad.bind (forget_actor c (pathValue r ''userID'')) (\<lambda>_. ret (JSON 200 (JObj [(''temporaryPassword'', JStr temp)]))))))) w1 = (resp, w')"
    unfolding UserHandler_ResetPassword_def Let_def by (rule run_on_err_ok [OF _ ok])
  have w1: "db w1 = db w" and "found = find (\<lambda>x. uID x = uID u) (users (db w))"
    using 1 assms(6) by (auto simp: GetUser_def simp del: run_wrap elim!: run_query_Inr)
  then have found: "found = Some u" using find_Some_iff_key [OF db_ok_unique(1) [OF assms(4)]] assms(5) by metis
  from 2 found obtain temp w2 hash w3 w4 where 3: "run_state generateTemporaryPassword w1 = (Inr temp, w2)"
    and 4: "run_state (GenerateFromPassword (shBcrypt h) temp) w2 = (Inr hash, w3)"
    and 5: "run_state (UpdateUser (u\<lparr>uPasswordHash := hash, uMustChangePassword := True\<rparr>)) w3 = (Inr (), w4)"
    and 6: "run_state (State_Monad.bind (forget_actor c (pathValue r ''userID'')) (\<lambda>_. ret (JSON 200 (JObj [(''temporaryPassword'', JStr temp)])))) w4 = (resp, w')"
    by (auto elim!: run_on_err_ok [OF _ ok] simp del: run_state_bind)
  note t = generateTemporaryPassword_Inr [OF 3] and b = GenerateFromPassword_Inr [OF 4 assms(3)] and f = run_forget_actor [OF 6]
  let ?u = "u\<lparr>uPasswordHash := hash, uMustChangePassword := True, uUpdatedAt := clock w3\<rparr>"
  have "?u \<in> set (users (db w'))" using UpdateUser_Inr [OF 5, of u] assms(5) w1 t b f by simp
  moreover have "db_ok (db w')"
    using hoareD [OF keeps_db_UpdateUser _ 5] assms(4) w1 t b f by (simp add: on_db_def)
  ultimately have "rStatus (fst (run_state (SessionHandler_Login h (Some \<lparr>lrEmail = uEmail u, lrPassword = temp\<rparr>) r') v)) = 200"
    if "db v = db w'" "faults v = []" "session_fresh v" for v r'
    using Login_accepts [of v ?u temp h r'] that assms(7,8) t(1) b by simp
  with f show ?thesis by (auto simp: JSON_def)
qed


definition ex_bcrypt :: bcrypt where
  "ex_bcrypt = \<lparr>CompareHashAndPassword = (\<lambda>h p. h = CHR ''$'' # p), bcryptHash = (\<lambda>_ p. Inr (CHR ''$'' # p))\<rparr>"

lemma ResetPassword_then_Login_witness:
  "let w = snd (run_state (UserHandler_ResetPassword ex_bcrypt False (ex_request\<lparr>pathValue := (\<lambda>_. ''u1'')\<rparr>)) ex_signed_out)
   in \<exists>temp. rStatus (fst (run_state (SessionHandler_Login (ex_session_handler\<lparr>shBcrypt := ex_bcrypt\<rparr>)
        (Some \<lparr>lrEmail = ''ann@acme.io'', lrPassword = temp\<rparr>) ex_request) w)) = 200"
proof -
  let ?r = "ex_request\<lparr>pathValue := (\<lambda>_. ''u1'')\<rparr>" and ?h = "ex_session_handler\<lparr>shBcrypt := ex_bcrypt\<rparr>"
  let ?run = "run_state (UserHandler_ResetPassword ex_bcrypt False ?r) ex_signed_out"
  let ?u = "ex_user ''u1'' ''ann@acme.io'' ''user''"
  have run: "rStatus (fst ?run) = 200 \<and> faults (snd ?run) = [] \<and> user_sessions (db (snd ?run)) = [] \<and>
      entropy (snd ?run) = entropy ex_world"
    by (simp add: UserHandler_ResetPassword_def run_on_err GetUser_def UpdateUser_def generateTemporaryPassword_def
        GenerateFromPassword_def forget_actor_def ex_bcrypt_def ex_signed_out_def ex_db_def ex_rows empty_database_def
        ex_world_def)
  then have "session_fresh (snd ?run)" by (simp add: session_fresh_def ex_world_def)
  moreover have "bcrypt_ok (shBcrypt ?h)" by (auto simp: bcrypt_ok_def ex_bcrypt_def)
  moreover have "?u \<in> set (users (db ex_signed_out))" "uID ?u = pathValue ?r ''userID''" "\<not> uDisabled ?u" "uEmail ?u = ''ann@acme.io''"
    by (simp_all add: ex_signed_out_def ex_db_def ex_user_def)
  ultimately show ?thesis
    using ResetPassword_then_Login [where h = ?h and c = False and r = ?r and w = ex_signed_out and u = ?u
        and resp = "fst ?run" and w' = "snd ?run"] run by fastforce
qed

section \<open>Organisations\<close>

lemma CreateOrg_Inr:
  assumes "run_state (CreateOrg g) w = (Inr x, w')"
  shows "db w' = db w\<lparr>orgs := orgs (db w) @ [org_row (clock w) g]\<rparr>" and "oID g \<notin> keys oID (orgs (db w))"
  using assms by (auto simp: CreateOrg_def org_row_def Let_def image_iff simp del: run_wrap elim!: run_command_Inr split: if_splits)

lemma AddMember_Inr:
  assumes "run_state (AddMember m) w = (Inr x, w')"
  shows "db w' = db w\<lparr>org_members := org_members (db w) @ [member_row (clock w) m]\<rparr>"
  using assms by (auto simp: AddMember_def simp del: run_wrap exists_row_iff elim!: run_command_Inr split: if_splits)

lemma CreateServiceAccount_Inr:
  assumes "run_state (CreateServiceAccount a) w = (Inr x, w')"
  shows "db w' = db w\<lparr>service_accounts := service_accounts (db w) @ [sa_insert_row (clock w) a]\<rparr>"
  using assms by (auto simp: CreateServiceAccount_def simp del: run_wrap exists_row_iff elim!: run_command_Inr split: if_splits)

text \<open>A new organisation belongs to its creator alone: the user who created it holds the scopes of an administrator
  there, nobody else who is not a server administrator holds any, nobody's scopes elsewhere change, and it has an
  internal account with every scope.\<close>

lemma Create_owned:
  assumes "run_state (OrgHandler_Create assets (Some req) r) w = (resp, w')" and "rStatus resp = 201" and "db_ok (db w)"
    and "ctxPrincipal r = Some p"
  shows "\<exists>g fs. rBody resp = BodyJSON (JObj fs) \<and> (''id'', JStr g) \<in> set fs \<and> g \<notin> keys oID (orgs (db w)) \<and>
    (\<forall>i. server_admin (db w) i \<or>
       user_scopes (db w') i g = (if pKind p = PrincipalUser \<and> i = pUserID p then admin_scopes else [])) \<and>
    (\<forall>i g'. g' = g \<or> user_scopes (db w') i g' = user_scopes (db w) i g') \<and>
    (\<exists>a\<in>set (service_accounts (db w')). saOrgID a = g \<and> saIsInternal a \<and> saScopes a = AllScopes)"
proof -
  have ok: "ok_status resp" using assms(2) by (simp add: ok_status_def)
  let ?g = "uuids w (uuid_draws w)" and ?add = "pKind p = PrincipalUser"
  let ?org = "new_org ?g (corName req) (corAutoJoin req) 0"
  from assms(1,4) ok have "run_state (on_err (CreateOrg ?org) (\<lambda>_.
      on_err (if ?add then AddMember (new_member (pUserID p) ?g RoleAdmin ''manual'') else ret (Inr ())) (\<lambda>_.
      State_Monad.bind uuid_NewString (\<lambda>j. on_err (CreateServiceAccount (NewSystemServiceAccount j ?g allScopeStrings)) (\<lambda>_.
        ret (JSON 201 (orgToResponse assets ?org)))))))
      (w\<lparr>uuid_draws := Suc (uuid_draws w)\<rparr>) = (resp, w')"
    by (auto simp: OrgHandler_Create_def Let_def split: if_splits)
  then obtain w1 w2 w3 j where 1: "run_state (CreateOrg ?org) (w\<lparr>uuid_draws := Suc (uuid_draws w)\<rparr>) = (Inr (), w1)"
    and 2: "run_state (if ?add then AddMember (new_member (pUserID p) ?g RoleAdmin ''manual'') else ret (Inr ())) w1 = (Inr (), w2)"
    and 3: "run_state (CreateServiceAccount (NewSystemServiceAccount j ?g allScopeStrings)) w3 = (Inr (), w')"
    and w3: "db w3 = db w2" and resp: "resp = JSON 201 (orgToResponse assets ?org)"
    by (elim run_on_err_ok [OF _ ok]) (auto elim!: run_on_err_ok [OF _ ok])
  note o = CreateOrg_Inr [OF 1] and a = CreateServiceAccount_Inr [OF 3]
  have ms: "org_members (db w') = org_members (db w) @
      (if ?add then [member_row (clock w1) (new_member (pUserID p) ?g RoleAdmin ''manual'')] else [])"
    using 2 o(1) a w3 by (auto dest: AddMember_Inr split: if_splits)
  have us: "users (db w') = users (db w)" using 2 o(1) a w3 by (auto dest: AddMember_Inr split: if_splits)
  have new: "?g \<notin> keys oID (orgs (db w))" using o(2) by (simp add: new_org_def)
  have none: "find (\<lambda>m. mUserID m = i \<and> mOrgID m = ?g) (org_members (db w)) = None" for i
    unfolding find_None_iff using db_ok_members(3) [OF assms(3)] new by metis
  have adm: "server_admin (db w') i = server_admin (db w) i" for i by (simp add: server_admin_def us)
  have role: "ScopesForRole RoleAdmin = admin_scopes"
    by (simp add: ScopesForRole_def RoleScopes_def RoleAdmin_def RoleEditor_def RoleViewer_def)
  have here: "user_scopes (db w') i ?g = (if ?add \<and> i = pUserID p then admin_scopes else [])" if "\<not> server_admin (db w) i" for i
    using that none [of i] role by (simp add: user_scopes_def adm ms find_append member_row_def new_member_def)
  have there: "user_scopes (db w') i g' = user_scopes (db w) i g'" if "g' \<noteq> ?g" for i g'
    using that by (simp add: user_scopes_def adm ms find_append member_row_def new_member_def split: option.splits)
  have sys: "\<exists>x\<in>set (service_accounts (db w')). saOrgID x = ?g \<and> saIsInternal x \<and> saScopes x = AllScopes"
    by (simp add: a NewSystemServiceAccount_def allScopeStrings_def)
  have body: "\<exists>fs. rBody resp = BodyJSON (JObj fs) \<and> (''id'', JStr ?g) \<in> set fs"
    by (simp add: resp JSON_def orgToResponse_def new_org_def)
  show ?thesis using body new here there sys by blast
qed

lemma Create_owned_witness:
  "\<exists>g. user_scopes (db (snd (run_state (OrgHandler_Create None (Some \<lparr>corName = ''New'', corAutoJoin = False\<rparr>)
      (ex_request\<lparr>ctxPrincipal := Some \<lparr>pKind = PrincipalUser, pUserID = ''u2'', pOrgID = [], pIsServerAdmin = False,
         pServiceAccountID = [], pScopes = [], pAuthProvider = []\<rparr>\<rparr>)) ex_world))) ''u2'' g = admin_scopes"
proof -
  let ?p = "\<lparr>pKind = PrincipalUser, pUserID = ''u2'', pOrgID = [], pIsServerAdmin = False, pServiceAccountID = [], pScopes = [], pAuthProvider = []\<rparr>"
  let ?r = "ex_request\<lparr>ctxPrincipal := Some ?p\<rparr>" and ?req = "\<lparr>corName = ''New'', corAutoJoin = False\<rparr>"
  have "rStatus (fst (run_state (OrgHandler_Create None (Some ?req) ?r) ex_world)) = 201"
    by (simp add: OrgHandler_Create_def run_on_err CreateOrg_def AddMember_def CreateServiceAccount_def new_org_def new_member_def
        NewSystemServiceAccount_def SystemServiceAccountName_def org_row_def ex_db_def ex_rows empty_database_def ex_world_def Let_def)
  moreover have "\<not> server_admin (db ex_world) ''u2''" by (simp add: server_admin_def ex_db_def ex_rows)
  ultimately show ?thesis
    using Create_owned [where assets = None and req = ?req and r = ?r and w = ex_world and p = ?p, OF surjective_pairing _ ex_db_ok]
    by fastforce
qed

section \<open>Disabling a user\<close>

lemma Login_ok_user:
  assumes "rStatus (fst (run_state (SessionHandler_Login h (Some req) r) w)) = 200"
  shows "\<exists>u\<in>set (users (db w)). uEmail u = lrEmail req \<and> \<not> uDisabled u"
  using assms
  by (auto simp: SessionHandler_Login_def run_on_err GetUserByEmail_def query_def exec_def Let_def
      split: if_splits option.splits sum.splits prod.splits fault.splits dest!: find_SomeD)

text \<open>C22. Disabling a user stops password logins with its address, and nothing else: every session that was open
  stays open, and a user who is not a server administrator keeps its scopes in every organisation until the session
  expires.\<close>

theorem Disable_keeps_sessions:
  assumes "run_state (UserHandler_Disable c r) w = (resp, w')" and "rStatus resp = 204" and "db_ok (db w)"
    and "u \<in> set (users (db w))" and "uID u = pathValue r ''userID''"
  shows "(\<forall>h req r' v. db v = db w' \<and> lrEmail req = uEmail u \<longrightarrow> rStatus (fst (run_state (SessionHandler_Login h (Some req) r') v)) \<noteq> 200) \<and>
    (\<forall>t token s. live_session (db w') t token s = live_session (db w) t token s) \<and>
    (server_admin (db w) (uID u) \<or> (\<forall>g. user_scopes (db w') (uID u) g = user_scopes (db w) (uID u) g))"
proof -
  have ok: "ok_status resp" using assms(2) by (simp add: ok_status_def)
  from assms(1) obtain w1 where 1: "run_state (DisableUser (pathValue r ''userID'')) w = (Inr (), w1)"
    and 2: "run_state (State_Monad.bind (forget_actor c (pathValue r ''userID'')) (\<lambda>_. ret NoContent)) w1 = (resp, w')"
    unfolding UserHandler_Disable_def by (auto elim: run_on_err_ok [OF _ ok] simp del: run_state_bind)
  from 1 run_forget_actor [OF 2] have w': "db w' = db w\<lparr>users := update_where (\<lambda>x. uID x = uID u) (\<lambda>x. x\<lparr>uDisabled := True, uUpdatedAt := clock w\<rparr>) (users (db w))\<rparr>"
    unfolding assms(5) by (auto simp: DisableUser_def simp del: run_wrap elim!: run_command_Inr)
  have dis: "uDisabled x" if "x \<in> set (users (db w'))" "uEmail x = uEmail u" for x
  proof -
    from that(1) obtain y where y: "y \<in> set (users (db w))"
        "x = (if uID y = uID u then y\<lparr>uDisabled := True, uUpdatedAt := clock w\<rparr> else y)"
      by (auto simp: w' update_where_def)
    then have "uEmail y = uEmail u" using that(2) by (auto split: if_splits)
    then have "y = u" using y(1) assms(4) db_ok_unique(2) [OF assms(3)] by (metis distinct_map inj_onD)
    with y(2) show ?thesis by simp
  qed
  have "server_admin (db w') (uID u) = False" by (auto simp: server_admin_def w' set_update_where)
  then have scopes: "user_scopes (db w') (uID u) g = user_scopes (db w) (uID u) g" if "\<not> server_admin (db w) (uID u)" for g
    using that by (simp add: user_scopes_def w')
  have "rStatus (fst (run_state (SessionHandler_Login h (Some req) r') v)) \<noteq> 200"
    if "db v = db w'" "lrEmail req = uEmail u" for h req r' v
    using Login_ok_user [of h req r' v] dis that by auto
  moreover have "live_session (db w') t token s = live_session (db w) t token s" for t token s
    by (simp add: live_session_def w')
  ultimately show ?thesis using scopes by blast
qed

theorem Disable_keeps_sessions_witness:
  "live_session (db (snd (run_state (UserHandler_Disable False (ex_request\<lparr>pathValue := (\<lambda>_. ''u1'')\<rparr>)) ex_world)))
     1000 ''ann-token'' (ex_session ''s1'' ''u1'' ''ann-token'')"
proof -
  let ?r = "ex_request\<lparr>pathValue := (\<lambda>_. ''u1'')\<rparr>"
  have "rStatus (fst (run_state (UserHandler_Disable False ?r) ex_world)) = 204"
    by (simp add: UserHandler_Disable_def run_on_err DisableUser_def forget_actor_def)
  moreover have "ex_user ''u1'' ''ann@acme.io'' ''user'' \<in> set (users (db ex_world))"
    "uID (ex_user ''u1'' ''ann@acme.io'' ''user'') = pathValue ?r ''userID''"
    by (simp_all add: ex_db_def ex_user_def)
  moreover have "live_session (db ex_world) 1000 ''ann-token'' (ex_session ''s1'' ''u1'' ''ann-token'')"
    by (simp add: live_session_def session_matches_def ex_db_def ex_session_def)
  ultimately show ?thesis
    using Disable_keeps_sessions [where c = False and r = ?r and w = ex_world, OF surjective_pairing _ ex_db_ok] by blast
qed

section \<open>The first start\<close>

lemma UpsertUser_new:
  assumes "run_state (UpsertUser u) w = (Inr x, w')" and "users (db w) = []"
  shows "users (db w') = [user_row (clock w) u]"
  using assms by (auto simp: UpsertUser_def Let_def simp del: run_wrap elim!: run_command_Inr)

text \<open>The first start makes exactly one user, an enabled server administrator with the configured address and
  password, who must change the password when it is the default, and who administers one new organisation. Any
  later start changes nothing.\<close>

lemma bootstrap_Run_admin:
  assumes "run_state (bootstrap_Run bc email password) w = (Inr (), w')" and "bcrypt_ok bc"
  shows "if users (db w) \<noteq> [] then db w' = db w
    else (\<exists>u m g. users (db w') = [u] \<and> uEmail u = email \<and> uRole u = ''server_admin'' \<and> \<not> uDisabled u \<and>
      CompareHashAndPassword bc (uPasswordHash u) password \<and> (uMustChangePassword u \<longleftrightarrow> password = ''admin'') \<and>
      orgs (db w') = orgs (db w) @ [g] \<and> org_members (db w') = org_members (db w) @ [m] \<and>
      mUserID m = uID u \<and> mOrgID m = oID g \<and> mRole m = RoleAdmin)"
proof -
  from assms(1) obtain b w1 where 1: "run_state (wrap ''bootstrap: check users: %w'' AnyUserExists) w = (Inr b, w1)"
    and 2: "run_state (if b then ret (Inr ()) else State_Monad.bind now (\<lambda>t. State_Monad.bind uuid_NewString (\<lambda>orgID.
         bindE (wrap ''bootstrap: create default org: %w'' (CreateOrg (new_org orgID ''Main Org'' False t))) (\<lambda>_.
         bindE (wrap ''bootstrap: hash password: %w'' (GenerateFromPassword bc password)) (\<lambda>hash.
         State_Monad.bind uuid_NewString (\<lambda>userID.
           let login = hd (SplitN2 email ''@'');
               u = (new_user userID email ''Admin'' hash ''server_admin'' t)\<lparr>uLogin := login, uMustChangePassword := (password = ''admin'')\<rparr> in
           bindE (wrap ''bootstrap: create admin user: %w'' (UpsertUser u)) (\<lambda>_.
             wrap ''bootstrap: add admin to org: %w''
               (AddMember ((new_member userID orgID RoleAdmin ''manual'')\<lparr>mCreatedAt := t, mUpdatedAt := t\<rparr>)))))))))
      w1 = (Inr (), w')"
    unfolding bootstrap_Run_def by (rule run_bindE_Inr)
  have b: "b = (users (db w) \<noteq> [])" and w1: "db w1 = db w" "clock w1 = clock w"
    using 1 by (auto simp: AnyUserExists_def simp del: run_wrap elim!: run_query_Inr)
  show ?thesis
  proof (cases b)
    case True
    with 2 b w1 show ?thesis by simp
  next
    case False
    let ?g = "uuids w1 (uuid_draws w1)"
    let ?u = "\<lambda>i hash. (new_user i email ''Admin'' hash ''server_admin'' (clock w))
      \<lparr>uLogin := hd (SplitN2 email ''@''), uMustChangePassword := (password = ''admin'')\<rparr>"
    from 2 False w1 obtain w2 w3 w5 hash where
        3: "run_state (CreateOrg (new_org ?g ''Main Org'' False (clock w))) (w1\<lparr>uuid_draws := Suc (uuid_draws w1)\<rparr>) = (Inr (), w2)"
      and 4: "run_state (GenerateFromPassword bc password) w2 = (Inr hash, w3)"
      and 5: "run_state (UpsertUser (?u (uuids w3 (uuid_draws w3)) hash)) (w3\<lparr>uuid_draws := Suc (uuid_draws w3)\<rparr>) = (Inr (), w5)"
      and 6: "run_state (AddMember ((new_member (uuids w3 (uuid_draws w3)) ?g RoleAdmin ''manual'')\<lparr>mCreatedAt := clock w, mUpdatedAt := clock w\<rparr>)) w5 = (Inr (), w')"
      by (auto simp: Let_def simp del: run_wrap elim!: run_bindE_Inr)
    note o = CreateOrg_Inr [OF 3] and p = GenerateFromPassword_Inr [OF 4 assms(2)]
    have "users (db (w3\<lparr>uuid_draws := Suc (uuid_draws w3)\<rparr>)) = []" using o p b False w1 by simp
    note u = UpsertUser_new [OF 5 this]
    have d5: "orgs (db w5) = orgs (db w3)" "org_members (db w5) = org_members (db w3)"
      using 5 by (auto simp: UpsertUser_def Let_def simp del: run_wrap elim!: run_command_Inr split: if_splits)
    show ?thesis
      using b False u d5 o p w1 AddMember_Inr [OF 6]
      by (auto simp: user_row_def new_user_def member_row_def new_member_def org_row_def new_org_def)
  qed
qed

lemma bootstrap_Run_admin_witness:
  "\<exists>u. users (db (snd (run_state (bootstrap_Run ex_bcrypt ''root@acme.io'' ''admin'') (ex_world\<lparr>db := empty_database\<rparr>)))) = [u] \<and>
     uRole u = ''server_admin'' \<and> uMustChangePassword u"
proof -
  let ?w = "ex_world\<lparr>db := empty_database\<rparr>"
  let ?run = "run_state (bootstrap_Run ex_bcrypt ''root@acme.io'' ''admin'') ?w"
  have "fst ?run = Inr ()"
    by (simp add: bootstrap_Run_def run_bindE AnyUserExists_def CreateOrg_def GenerateFromPassword_def UpsertUser_def AddMember_def
        empty_database_def ex_world_def ex_bcrypt_def new_org_def org_row_def new_user_def new_member_def user_row_def Let_def)
  then have run: "?run = (Inr (), snd ?run)" by (metis prod.collapse)
  have "bcrypt_ok ex_bcrypt" by (auto simp: bcrypt_ok_def ex_bcrypt_def)
  from bootstrap_Run_admin [OF run this] show ?thesis by (auto simp: empty_database_def)
qed

end
