(* ===== verification/ProviderSafety.thy ===== *)
theory ProviderSafety
  imports ProviderHandler
begin

text \<open>
  The secrets of identity providers: stored encrypted, usable by the sign-in that needs them, and never shown.
\<close>

section \<open>Answers hide the secrets\<close>

text \<open>Wherever a document has a field for the client secret or the private key, it holds the mask.\<close>

definition secret_field :: "string \<Rightarrow> bool" where
  "secret_field k \<longleftrightarrow> k = ''clientSecret'' \<or> k = ''spKey''"

fun hides_secrets :: "json \<Rightarrow> bool" where
  "hides_secrets (JObj fs) =
     list_all (\<lambda>(k, v). (secret_field k \<longrightarrow> v = JStr secretMask) \<and> hides_secrets v) fs"
| "hides_secrets (JArr js) = list_all hides_secrets js"
| "hides_secrets _ = True"

definition hides_body :: "response \<Rightarrow> bool" where
  "hides_body resp = (case rBody resp of BodyJSON j \<Rightarrow> hides_secrets j | _ \<Rightarrow> True)"

lemma hides_omit [simp]:
  "list_all (\<lambda>(k, v). (secret_field k \<longrightarrow> v = JStr secretMask) \<and> hides_secrets v) (omit_str k s) \<longleftrightarrow>
     s = [] \<or> \<not> secret_field k \<or> s = secretMask"
  "list_all (\<lambda>(k, v). (secret_field k \<longrightarrow> v = JStr secretMask) \<and> hides_secrets v) (omit_bool k b) \<longleftrightarrow>
     \<not> b \<or> \<not> secret_field k"
  by (auto simp: omit_str_def omit_bool_def)

lemma present_secrets:
  "apClientSecret (present h p) \<in> {[], secretMask}" "apSPKey (present h p) \<in> {[], secretMask}"
  by (auto simp: present_def Let_def split: option.splits sum.splits)

lemma present_hides: "hides_secrets (providerToJSON (present h p))"
proof -
  obtain q where q: "q = present h p" "apClientSecret q \<in> {[], secretMask}" "apSPKey q \<in> {[], secretMask}"
    using present_secrets by blast
  show ?thesis unfolding q(1) [symmetric] providerToJSON_def
    using q(2,3) by simp (simp add: secret_field_def)
qed

lemma hides_responses [simp]:
  "hides_body (Error e)" "hides_body (BadRequest (JErr e))" "hides_body (BadRequest (JStr s))"
  "hides_body (JSON n (providerToJSON (present h p)))"
  "hides_body (JSON n (JObj [(''providers'', JArr (map (\<lambda>p. providerToJSON (present h p)) ps))]))"
  by (simp_all add: hides_body_def Error_def BadRequest_def apiError_def JSON_def present_hides list_all_iff secret_field_def)

text \<open>C23. No answer about identity providers shows a client secret or a private key, in clear or encrypted: where the
  field is present it holds three asterisks.\<close>

theorem provider_secrets_hidden:
  "hides_body (fst (run_state (ProviderHandler_ListProviders h r) w)) \<and>
   hides_body (fst (run_state (ProviderHandler_GetProvider h r) w)) \<and>
   hides_body (fst (run_state (ProviderHandler_CreateProvider h body r) w)) \<and>
   hides_body (fst (run_state (ProviderHandler_UpdateProvider h body r) w))"
  unfolding ProviderHandler_ListProviders_def ProviderHandler_GetProvider_def ProviderHandler_CreateProvider_def
    ProviderHandler_UpdateProvider_def on_bad_def
  by (intro conjI) (simp_all add: run_on_err Let_def split: prod.split sum.split option.split)

section \<open>Stored secrets\<close>

lemma Encrypt_decrypts:
  assumes "run_state (Encrypt c secret) w = (Inr sealed, w')" and "aead_ok (cAEAD c)"
  shows "Decrypt c sealed = Inr secret \<and> sealed \<noteq> [] \<and> db w' = db w \<and> clock w' = clock w"
proof -
  have d: "Decrypt c sealed = Inr secret" using Decrypt_Encrypt [OF assms(2,1)] .
  have "StdDecode [] = Some []" by code_simp
  then have "Decrypt c [] \<noteq> Inr secret" by (simp add: Decrypt_def NonceSize_def)
  moreover from assms(1) have "db w' = db w \<and> clock w' = clock w" by (auto simp: Encrypt_def split: option.splits)
  ultimately show ?thesis using d by auto
qed

lemma run_case_endpoints:
  assumes "run_state (case e of Inl x \<Rightarrow> ret (Inl x) | Inr (a, t, u) \<Rightarrow> k a t u) w = (Inr q, w')"
  obtains a t u where "run_state (k a t u) w = (Inr q, w')"
  using assms by (auto split: sum.splits prod.splits)

text \<open>The fields that identify a provider are not touched by the request, and a new secret is stored encrypted.\<close>

lemma applyOIDC_Inr:
  assumes "run_state (applyOIDC h req p) w = (Inr q, w')" and "phCipher h = Some c" and "aead_ok (cAEAD c)"
  shows "apOrgID q = apOrgID p" and "apSlug q = apSlug p" and "db w' = db w" and "clock w' = clock w"
    and "if TrimSpace (aprClientSecret req) \<in> {[], secretMask} then apClientSecret q = apClientSecret p
      else apClientSecret q \<noteq> [] \<and> Decrypt c (apClientSecret q) = Inr (TrimSpace (aprClientSecret req))"
proof -
  let ?s = "TrimSpace (aprClientSecret req)"
  have "apOrgID q = apOrgID p \<and> apSlug q = apSlug p \<and> db w' = db w \<and> clock w' = clock w \<and>
    (if ?s \<in> {[], secretMask} then apClientSecret q = apClientSecret p
     else apClientSecret q \<noteq> [] \<and> Decrypt c (apClientSecret q) = Inr ?s)"
    using assms(1) [unfolded applyOIDC_def Let_def]
    by (rule run_case_endpoints)
      (auto simp: assms(2) split: if_splits elim!: run_bindE_Inr dest!: Encrypt_decrypts [OF _ assms(3)])
  then show "apOrgID q = apOrgID p" and "apSlug q = apSlug p" and "db w' = db w" and "clock w' = clock w"
    and "if ?s \<in> {[], secretMask} then apClientSecret q = apClientSecret p
      else apClientSecret q \<noteq> [] \<and> Decrypt c (apClientSecret q) = Inr ?s" by auto
qed

lemma CreateAuthProvider_Inr:
  assumes "run_state (CreateAuthProvider p) w = (Inr x, w')"
  shows "auth_providers (db w') = auth_providers (db w) @ [provider_row (clock w) p]"
  using assms by (auto simp: CreateAuthProvider_def simp del: exists_row_iff elim!: run_command_Inr split: sum.splits if_splits prod.splits)

text \<open>The client secret given for a new OIDC provider is the one that sign-ins send to the identity provider: what is
  stored is not the secret itself but decrypts to it, under the key that the handlers share.\<close>

lemma CreateProvider_secret_usable:
  assumes "run_state (ProviderHandler_CreateProvider h (Some req) r) w = (resp, w')" and "rStatus resp = 201"
    and "phCipher h = Some c" and "aead_ok (cAEAD c)" and "shCipher sh = Some c"
    and "aprKind req = KindOIDC" and "TrimSpace (aprClientSecret req) \<notin> {[], secretMask}"
  shows "\<exists>p\<in>set (auth_providers (db w')). apOrgID p = pathValue r ''orgID'' \<and> apSlug p = aprSlug req \<and>
    (\<exists>op. oauthProvider sh p = Inr op \<and> opClientSecret op = TrimSpace (aprClientSecret req))"
proof -
  have ok: "ok_status resp" using assms(2) by (simp add: ok_status_def)
  obtain i w0 where "run_state newID w = (i, w0)" by fastforce
  let ?p = "AuthProvider_zero\<lparr>apID := i, apSlug := aprSlug req, apOrgID := pathValue r ''orgID'', apKind := KindOIDC,
      apDisplayName := TrimSpace (aprDisplayName req), apEnabled := aprEnabled req, apAllowSignUp := aprAllowSignUp req,
      apAllowedDomains := TrimSpace (aprAllowedDomains req), apDefaultRole := aprDefaultRole req\<rparr>"
  from assms(1,6) \<open>run_state newID w = (i, w0)\<close> ok obtain q w1 where 1: "run_state (applyOIDC h req ?p) w0 = (Inr q, w1)"
    and 2: "run_state (CreateAuthProvider q) w1 = (Inr (), w')"
    by (auto simp: ProviderHandler_CreateProvider_def on_bad_def apply_request_def Let_def split: prod.splits sum.splits option.splits
        elim!: run_on_err_ok [OF _ ok])
  note a = applyOIDC_Inr [OF 1 assms(3,4)] and b = CreateAuthProvider_Inr [OF 2]
  have "oauthProvider sh (provider_row (clock w1) q) = Inr \<lparr>opName = apDisplayName q, opClientID = apClientID q,
      opClientSecret = TrimSpace (aprClientSecret req), opAuthURL = apAuthURL q, opTokenURL = apTokenURL q,
      opUserinfoURL = apUserinfoURL q, opScopes = apScopes q\<rparr>"
    using a(5) assms(5,7) by (simp add: oauthProvider_def decrypt_secret_def provider_row_def)
  then show ?thesis using a(1,2) b by auto
qed


definition ex_oidc_request :: authProviderRequest where
  "ex_oidc_request = \<lparr>aprSlug = ''acme'', aprKind = KindOIDC, aprType = [], aprDisplayName = ''acme'', aprEnabled = True,
     aprAllowSignUp = False, aprAllowedDomains = [], aprDefaultRole = RoleViewer, aprClientID = ''acme'', aprClientSecret = ''s3'',
     aprAuthURL = ''u'', aprTokenURL = ''u'', aprUserinfoURL = ''u'', aprAPIURL = [], aprScopes = [], aprEmailClaim = [],
     aprNameClaim = [], aprSubClaim = [], aprGroupsClaim = [], aprIDPMetadataURL = [], aprIDPMetadataXML = [], aprIDPEntityID = [],
     aprIDPSSOURL = [], aprIDPCert = [], aprSignRequests = False, aprNameIDFormat = [], aprEmailAttribute = [], aprNameAttribute = [],
     aprGroupsAttribute = []\<rparr>"

definition ex_provider_handler :: provider_handler where
  "ex_provider_handler = \<lparr>phPresign = Inr, phAssets = None, phCipher = Some \<lparr>cAEAD = plain_aead, cKey = [1]\<rparr>, phPublicURL = [],
     phSaml = ex_lib, phCompile = (\<lambda>_. None)\<rparr>"

lemma CreateProvider_secret_usable_witness:
  "\<exists>p\<in>set (auth_providers (db (snd (run_state (ProviderHandler_CreateProvider ex_provider_handler (Some ex_oidc_request) ex_request) ex_world)))).
     apSlug p = ''acme''"
proof -
  have t: "TrimSpace ''acme'' = ''acme''" "TrimSpace ''s3'' = ''s3''" "TrimSpace ''u'' = ''u''" "TrimSpace ''g1'' = ''g1''"
      "TrimSpace [] = []" "ValidateSlug ''acme'' = None"
    by code_simp+
  have "rStatus (fst (run_state (ProviderHandler_CreateProvider ex_provider_handler (Some ex_oidc_request) ex_request) ex_world)) = 201"
    by (simp add: ProviderHandler_CreateProvider_def on_bad_def apply_request_def applyOIDC_def newID_def Encrypt_def run_bindE run_on_err
        CreateAuthProvider_def Validate_def t ex_oidc_request_def ex_provider_handler_def AuthProvider_zero_def secretMask_def Let_def
        KindOIDC_def TypeGeneric_def RoleViewer_def ex_world_def ex_db_def ex_rows empty_database_def)
  moreover have "aead_ok (cAEAD \<lparr>cAEAD = plain_aead, cKey = [1]\<rparr>)" by (simp add: aead_ok_def plain_aead_def)
  moreover have "TrimSpace (aprClientSecret ex_oidc_request) \<notin> {[], secretMask}" "aprKind ex_oidc_request = KindOIDC"
      "phCipher ex_provider_handler = Some \<lparr>cAEAD = plain_aead, cKey = [1]\<rparr>" "aprSlug ex_oidc_request = ''acme''"
    by (simp_all add: ex_oidc_request_def ex_provider_handler_def secretMask_def t)
  moreover obtain sh :: session_handler where "shCipher sh = Some \<lparr>cAEAD = plain_aead, cKey = [1]\<rparr>"
    by (metis session_handler.select_convs(2))
  ultimately show ?thesis
    using CreateProvider_secret_usable [OF surjective_pairing] by metis
qed

end
