(* ===== verification/SystemExamples.thy ===== *)
theory SystemExamples
  imports System UserSafety ProviderSafety
begin

text \<open>
  A run of the system on which the properties of reachable states are applied: a first start on an empty database, the
  administrator signs in and configures an identity provider; and, on another empty database, the hosted service
  provisions a tenant. The source of randomness gives zeros, so a session token is 64 zeros; digests are never computed.
\<close>

definition ex_app :: app where
  "ex_app = \<lparr>aSession = ex_session_handler\<lparr>shBcrypt := ex_bcrypt\<rparr>, aProvider = ex_provider_handler, aBcrypt = ex_bcrypt, aAssets = None,
     aPresign = Inr, aCache = False, aEnterprise = None, aInternal = Some ''s3cret'', aAdminEmail = ''root@acme.io'', aAdminPassword = ''admin''\<rparr>"

definition ex_empty :: world where
  "ex_empty = \<lparr>db = empty_database, clock = 1000, faults = [], entropy = (\<lambda>_. Some (\<lambda>_. 0)), draws = 0,
     uuids = (\<lambda>n. CHR ''i'' # replicate n CHR ''d''), uuid_draws = 0, collation = (\<lambda>s. s), cache = Map.empty\<rparr>"

definition ex_started :: world where
  "ex_started = snd (run_state (bootstrap_Run (aBcrypt ex_app) (aAdminEmail ex_app) (aAdminPassword ex_app)) ex_empty)"

definition ex_body :: decoded where
  "ex_body = \<lparr>dLogin = Some \<lparr>lrEmail = ''root@acme.io'', lrPassword = ''admin''\<rparr>, dEmail = None, dAddMember = None, dUpdateMember = None,
     dCreateAccount = None, dUpdateAccount = None, dCreateToken = None, dCreateOrg = None, dUpdateOrg = None, dTeam = None,
     dTeamMember = None, dCreateUser = None, dUpdateUser = None, dProvision = None, dPassword = None,
     dProvider = Some ex_oidc_request, dMapping = None, dDomain = None\<rparr>"

definition ex_admin_token :: string where
  "ex_admin_token = replicate 64 CHR ''0''"

definition ex_anonymous :: http_request where
  "ex_anonymous = ex_request\<lparr>hAuthorization := [], pathValue := (\<lambda>k. if k = ''orgID'' then ''i'' else [])\<rparr>"

definition ex_signed_in :: world where
  "ex_signed_in = snd (run_state (SessionHandler_Login (NewSessionHandler (aSession ex_app)) (dLogin ex_body) ex_anonymous) ex_started)"

definition ex_with_provider :: world where
  "ex_with_provider = snd (run_state (requireScope mw ScopesForUser ''authproviders:write''
     (ProviderHandler_CreateProvider (NewAuthProviderHandler (aProvider ex_app)) (dProvider ex_body)) (ex_anonymous\<lparr>hSessionCookie := Some ex_admin_token\<rparr>)) ex_signed_in)"

lemma hex_zeros: "hex_encode (map (\<lambda>_. 0) [0..<32]) = ex_admin_token" by code_simp

lemma ex_login: "SplitN2 ''root@acme.io'' ''@'' = [''root'', ''acme.io'']" by code_simp

lemmas ex_start_defs = ex_started_def ex_app_def ex_empty_def bootstrap_Run_def run_bindE AnyUserExists_def CreateOrg_def GenerateFromPassword_def UpsertUser_def AddMember_def
        empty_database_def ex_bcrypt_def new_org_def org_row_def new_user_def new_member_def user_row_def member_row_def Let_def ex_login


lemma ex_signed_in:
  "ex_signed_in = ex_started\<lparr>db := (db ex_started)\<lparr>user_sessions := [session_row 1000 (fresh_session (format_id (map (\<lambda>_. 0) [0..<16])) ''id''
     (Hash ex_admin_token) ex_anonymous 1000 [])]\<rparr>, draws := 3\<rparr>"
  by (simp add: ex_start_defs ex_signed_in_def ex_body_def SessionHandler_Login_def run_on_err GetUserByEmail_def start_session_def
        run_generateSessionToken newID_def CreateSession_def ex_session_handler_def setSessionCookie_def NewSessionHandler_def
        ex_anonymous_def ex_request_def hex_zeros)


lemma ex_started_tables:
  "users (db ex_started) = [new_user ''id'' ''root@acme.io'' ''Admin'' ''$admin'' ''server_admin'' 1000\<lparr>uLogin := ''root'', uMustChangePassword := True\<rparr>]"
  "map oID (orgs (db ex_started)) = [''i'']"
  "faults ex_started = []" "clock ex_started = 1000" "entropy ex_started = (\<lambda>_. Some (\<lambda>_. 0))" "auth_providers (db ex_started) = []"
  by (simp_all add: ex_start_defs)

lemma ex_signed_in_tables [simp]:
  "users (db ex_signed_in) = users (db ex_started)" "orgs (db ex_signed_in) = orgs (db ex_started)"
  "auth_providers (db ex_signed_in) = []" "faults ex_signed_in = []" "clock ex_signed_in = 1000" "entropy ex_signed_in = (\<lambda>_. Some (\<lambda>_. 0))"
  by (simp_all add: ex_signed_in ex_started_tables)


lemma ex_root_session:
  "\<exists>s. user_sessions (db ex_signed_in) = [s] \<and> session_matches 1000 (Hash ex_admin_token) s \<and> sUserID s = ''id''"
  by (simp add: ex_signed_in session_matches_def session_row_def sessionTTL_def Let_def)

lemma ex_root_bearer:
  "\<exists>p. run_state (VerifyBearer ex_admin_token) ex_signed_in = (Inr p, ex_signed_in) \<and> pKind p = PrincipalUser \<and> pUserID p = ''id''"
  using ex_root_session by (auto simp: VerifyBearer_def run_bindE GetSessionByToken_def GetUser_def ex_started_tables)

lemma ex_root_scopes:
  "run_state (ScopesForUser ''id'' g) ex_signed_in = (Inr (ScopesForRole RoleAdmin), ex_signed_in)"
  by (simp add: ScopesForUser_def IsUserServerAdmin_def run_bindE GetUser_def ex_started_tables new_user_def)

lemma ex_provider_created:
  "auth_providers (db (snd (run_state (ProviderHandler_CreateProvider (NewAuthProviderHandler ex_provider_handler) (Some ex_oidc_request)
     (ex_anonymous\<lparr>hSessionCookie := c, ctxPrincipal := p\<rparr>)) ex_signed_in))) \<noteq> []"
proof -
  have t: "TrimSpace ''acme'' = ''acme''" "TrimSpace ''s3'' = ''s3''" "TrimSpace ''u'' = ''u''" "TrimSpace ''i'' = ''i''"
      "TrimSpace [] = []" "ValidateSlug ''acme'' = None"
    by code_simp+
  have "''i'' \<in> keys oID (orgs (db ex_started))" unfolding set_map [symmetric] ex_started_tables(2) by simp
  then have o: "\<exists>r\<in>set (orgs (db ex_started)). oID r = ''i''" by auto
  show ?thesis
    by (simp add: ProviderHandler_CreateProvider_def on_bad_def apply_request_def applyOIDC_def newID_def Encrypt_def run_bindE run_on_err
        Validate_def t ex_oidc_request_def ex_provider_handler_def AuthProvider_zero_def secretMask_def Let_def KindOIDC_def TypeGeneric_def
        RoleViewer_def NewAuthProviderHandler_def ex_anonymous_def CreateAuthProvider_def o)
qed

lemma ex_with_provider: "\<exists>prov. prov \<in> set (auth_providers (db ex_with_provider))"
proof -
  let ?r = "ex_anonymous\<lparr>hSessionCookie := Some ex_admin_token\<rparr>"
  have t: "Has (ScopesForRole RoleAdmin) ''authproviders:write''" "ex_admin_token \<noteq> []" by code_simp+
  have e: "extractBearer ?r = []" by (simp add: extractBearer_def ex_anonymous_def)
  obtain p where p: "run_state (VerifyBearer ex_admin_token) ex_signed_in = (Inr p, ex_signed_in)" "pKind p = PrincipalUser" "pUserID p = ''id''"
    using ex_root_bearer by blast
  have "ex_with_provider = snd (run_state (ProviderHandler_CreateProvider (NewAuthProviderHandler (aProvider ex_app)) (dProvider ex_body)
      (?r\<lparr>ctxPrincipal := Some p\<rparr>)) ex_signed_in)"
    using e p t by (simp add: ex_with_provider_def requireScope_def Middleware_Handler_def authenticate_def mw_def principalScopes_def ex_root_scopes)
  with ex_provider_created [of "Some p" "Some ex_admin_token"] have "auth_providers (db ex_with_provider) \<noteq> []"
    by (simp add: ex_app_def ex_body_def)
  then show ?thesis by (intro exI [of _ "hd (auth_providers (db ex_with_provider))"] hd_in_set)
qed

lemma ex_reachable: "reachable ex_app ex_empty" "reachable ex_app ex_started" "reachable ex_app ex_signed_in" "reachable ex_app ex_with_provider"
proof -
  show e: "reachable ex_app ex_empty" by (rule reachable.empty) (simp add: ex_empty_def)
  show s: "reachable ex_app ex_started" unfolding ex_started_def by (rule reachable_start) (simp add: ex_empty_def)
  have "(''POST /api/v1/auth/login'', SessionHandler_Login (NewSessionHandler (aSession ex_app)) (dLogin ex_body)) \<in> set (routes ex_app ex_body)"
    by (simp add: routes_def public_routes_def Let_def)
  with s show l: "reachable ex_app ex_signed_in" unfolding ex_signed_in_def by (blast intro: reachable.step step.serve)
  have "(''POST /api/v1/orgs/{orgID}/auth/providers'', requireScope mw ScopesForUser ''authproviders:write''
     (ProviderHandler_CreateProvider (NewAuthProviderHandler (aProvider ex_app)) (dProvider ex_body))) \<in> set (routes ex_app ex_body)"
    by (simp add: routes_def scoped_routes_def provider_routes_def Let_def)
  with l show "reachable ex_app ex_with_provider" unfolding ex_with_provider_def by (blast intro: reachable.step step.serve)
qed

text \<open>A tenant of the hosted service, signed in: an administrator of its own organisation only.\<close>

definition ex_tenant :: world where
  "ex_tenant = snd (run_state (SignupHandler_ProvisionAccount (aBcrypt ex_app) ''s3cret''
     (Some \<lparr>parEmail = ''ten@ant.io'', parPassword = ''hunter22'', parName = ''Ten'', parOrgName = ''Ant''\<rparr>)
     (ex_anonymous\<lparr>hInternalToken := ''s3cret''\<rparr>)) ex_empty)"

lemma ex_tenant_reachable: "reachable ex_app ex_tenant"
proof -
  let ?b = "ex_body\<lparr>dProvision := Some \<lparr>parEmail = ''ten@ant.io'', parPassword = ''hunter22'', parName = ''Ten'', parOrgName = ''Ant''\<rparr>\<rparr>"
  have "(''POST /internal/v1/accounts'', SignupHandler_ProvisionAccount (aBcrypt ex_app) ''s3cret'' (dProvision ?b)) \<in> set (routes ex_app ?b)"
    by (simp add: routes_def internal_routes_def ex_app_def)
  with ex_reachable(1) show ?thesis unfolding ex_tenant_def by (auto intro: reachable.step step.serve)
qed

lemma ex_tenant_tables:
  "map uRole (users (db ex_tenant)) = [''user'']" "map mOrgID (org_members (db ex_tenant)) = [''i'']"
  by (simp_all add: ex_tenant_def ex_app_def ex_empty_def SignupHandler_ProvisionAccount_def run_bindE run_on_err CreateOrg_def
      GenerateFromPassword_def CreateUser_def AddMember_def empty_database_def ex_bcrypt_def new_org_def org_row_def new_user_def
      new_member_def user_row_def member_row_def Let_def ex_login internal_caller_def CreateServiceAccount_def start_session_def
      CreateSession_def run_generateSessionToken newID_def GetUserByEmail_def hex_zeros NewSystemServiceAccount_def)

lemma ex_tenant_scopes: "user_scopes (db ex_tenant) j ''g9'' = []"
proof -
  have "set (map uRole (users (db ex_tenant))) = {''user''}" "set (map mOrgID (org_members (db ex_tenant))) = {''i''}"
    unfolding ex_tenant_tables by simp_all
  note rows = this
  have u: "uRole u = ''user''" if "u \<in> set (users (db ex_tenant))" for u using that rows(1) by auto
  have m: "mOrgID m = ''i''" if "m \<in> set (org_members (db ex_tenant))" for m using that rows(2) by auto
  have "\<not> server_admin (db ex_tenant) j" using u by (auto simp: server_admin_def)
  moreover have "find (\<lambda>m. mUserID m = j \<and> mOrgID m = ''g9'') (org_members (db ex_tenant)) = None"
    using m by (auto simp: find_None_iff)
  ultimately show ?thesis by (simp add: user_scopes_def)
qed

definition ex_intruder :: http_request where
  "ex_intruder = ex_anonymous\<lparr>hSessionCookie := Some ex_admin_token, pathValue := (\<lambda>k. if k = ''orgID'' then ''g9'' else [])\<rparr>"

end
