(* ===== verification/AccountSafety.thy ===== *)
theory AccountSafety
  imports AccountHandler
begin

text \<open>
  The life of an API key: it is shown once when it is created, it is accepted with the rights of its account until
  it expires, and it is refused for good once it is revoked or its account is disabled or deleted. The account that
  the program made for its own use cannot be changed.
\<close>

lemma find_unique: "distinct (map k rows) \<Longrightarrow> a \<in> set rows \<Longrightarrow> P a \<Longrightarrow> find (\<lambda>x. k x = k a \<and> P x) rows = Some a"
  by (induction rows) (auto simp: image_iff)

section \<open>Creation\<close>

text \<open>The expiry that a request asks for; the outer \<open>None\<close> is a time that cannot be parsed.\<close>

definition token_expiry :: "createTokenRequest \<Rightarrow> time option option" where
  "token_expiry req = (case ctExpiresAt req of
     None \<Rightarrow> Some None | Some e \<Rightarrow> if e = [] then Some None else map_option Some (Parse_RFC3339 e))"

definition account_principal :: "sa_row \<Rightarrow> principal" where
  "account_principal a = \<lparr>pKind = PrincipalServiceAccount, pUserID = saID a, pOrgID = saOrgID a, pIsServerAdmin = False,
     pServiceAccountID = saID a, pScopes = saScopes a, pAuthProvider = []\<rparr>"

lemma Generate_Inr:
  assumes "run_state Generate w = (Inr (i, key, hash), w')"
  shows "hash = Hash key" and "db w' = db w" and "clock w' = clock w"
  using assms by (auto simp: Generate_def Let_def split: option.splits)

lemma CreateToken_Inr:
  assumes "run_state (CreateToken k) w = (Inr x, w')"
  shows "db w' = db w\<lparr>service_account_tokens := service_account_tokens (db w) @ [token_row (clock w) k]\<rparr>"
    and "tkPrefix k \<notin> keys tkPrefix (service_account_tokens (db w))"
  using assms by (auto simp: CreateToken_def image_iff simp del: run_wrap elim!: run_command_Inr split: if_splits)

lemma scanSA_fields [simp]:
  "saID (scanSA a) = saID a" "saOrgID (scanSA a) = saOrgID a" "saScopes (scanSA a) = saScopes a"
  "saDisabled (scanSA a) = saDisabled a" "saIsInternal (scanSA a) = saIsInternal a"
  by (simp_all add: scanSA_def service_account.defs)

text \<open>A key of a live token is accepted.\<close>

lemma verifyAPIKey_complete:
  assumes "faults v = []" and "find (\<lambda>k. tkPrefix k = Prefix key) (service_account_tokens (db v)) = Some k"
    and "\<not> tkRevoked k" "tkHash k = Hash key" "case tkExpiresAt k of None \<Rightarrow> True | Some e \<Rightarrow> clock v \<le> e"
    and "find (\<lambda>a. saID a = tkServiceAccountID k \<and> sa_live a) (service_accounts (db v)) = Some a" "\<not> saDisabled a"
  shows "fst (run_state (verifyAPIKey key) v) = Inr (account_principal a)"
proof -
  have "Verify key (Hash key)" by (simp add: Verify_def Let_def xor_diff_zero)
  then show ?thesis
    using assms
    by (auto simp: verifyAPIKey_def run_bindE GetTokenByPrefix_def GetServiceAccount_def TouchToken_def scan_token_def
        account_principal_def split: option.splits)
qed

lemma find_account:
  assumes "db_ok d" and "a \<in> set (service_accounts d)" and "sa_live a"
  shows "find (\<lambda>x. saID x = saID a \<and> sa_live x) (service_accounts d) = Some a"
proof -
  have "unique saID (service_accounts d)" using assms(1) by (simp add: db_ok_def sa_tables_ok_def)
  then show ?thesis using find_unique [of saID "service_accounts d" a sa_live] assms(2,3) by blast
qed

text \<open>C19. The key in the answer to a successful creation is accepted, with the organisation and the scopes of its
  account, as long as the account is live and enabled and the requested expiry has not passed.\<close>

theorem CreateToken_accepted:
  assumes "run_state (AccountHandler_CreateToken (Some req) r) w = (resp, w')" and "rStatus resp = 201" and "db_ok (db w)"
  shows "\<exists>i key expiry. rBody resp = BodyJSON (createTokenResponse i (ctName req) key) \<and> token_expiry req = Some expiry \<and>
    (\<forall>v a. db v = db w' \<and> faults v = [] \<and> (case expiry of None \<Rightarrow> True | Some e \<Rightarrow> clock v \<le> e) \<and>
       a \<in> set (service_accounts (db w)) \<and> saID a = pathValue r ''saID'' \<and> sa_live a \<and> \<not> saDisabled a \<longrightarrow>
       fst (run_state (verifyAPIKey key) v) = Inr (account_principal a))"
proof -
  have ok: "ok_status resp" using assms(2) by (simp add: ok_status_def)
  from assms(1) have "run_state (on_err Generate (\<lambda>(i, plaintext, hash).
      case token_expiry req of
        None \<Rightarrow> ret (BadRequest (JStr ''expiresAt must be an RFC3339 timestamp''))
      | Some exp \<Rightarrow> on_err (CreateToken \<lparr>tkID = i, tkServiceAccountID = pathValue r ''saID'', tkName = ctName req,
            tkPrefix = Prefix plaintext, tkHash = hash, tkExpiresAt = exp, tkLastUsedAt = None, tkRevoked = False,
            tkCreatedBy = [], tkCreatedAt = 0\<rparr>) (\<lambda>_. ret (JSON 201 (createTokenResponse i (ctName req) plaintext))))) w = (resp, w')"
    using ok by (auto simp: AccountHandler_CreateToken_def Let_def token_expiry_def split: if_splits)
  then obtain i key hash w1 expiry where 1: "run_state Generate w = (Inr (i, key, hash), w1)"
    and e: "token_expiry req = Some expiry"
    and 2: "run_state (CreateToken \<lparr>tkID = i, tkServiceAccountID = pathValue r ''saID'', tkName = ctName req,
            tkPrefix = Prefix key, tkHash = hash, tkExpiresAt = expiry, tkLastUsedAt = None, tkRevoked = False,
            tkCreatedBy = [], tkCreatedAt = 0\<rparr>) w1 = (Inr (), w')"
    and resp: "resp = JSON 201 (createTokenResponse i (ctName req) key)"
    by (elim run_on_err_ok [OF _ ok]) (use ok in \<open>auto elim!: run_on_err_ok [OF _ ok] split: prod.splits option.splits\<close>)
  note g = Generate_Inr [OF 1] and c = CreateToken_Inr [OF 2]
  let ?k = "token_row (clock w) \<lparr>tkID = i, tkServiceAccountID = pathValue r ''saID'', tkName = ctName req,
      tkPrefix = Prefix key, tkHash = hash, tkExpiresAt = expiry, tkLastUsedAt = None, tkRevoked = False,
      tkCreatedBy = [], tkCreatedAt = 0\<rparr>"
  have "find (\<lambda>k. tkPrefix k = Prefix key) (service_account_tokens (db w)) = None"
    using c(2) g by (auto simp: find_None_iff image_iff)
  then have "find (\<lambda>k. tkPrefix k = Prefix key) (service_account_tokens (db w')) = Some ?k"
    using c(1) g by (simp add: find_append token_row_def)
  then have "fst (run_state (verifyAPIKey key) v) = Inr (account_principal a)"
    if "db v = db w'" "faults v = []" "case expiry of None \<Rightarrow> True | Some e \<Rightarrow> clock v \<le> e"
      "a \<in> set (service_accounts (db w))" "saID a = pathValue r ''saID''" "sa_live a" "\<not> saDisabled a" for v a
    using that c(1) g find_account [OF assms(3) that(4,6)]
    by (intro verifyAPIKey_complete [where k = ?k]) (auto simp: token_row_def)
  with e resp show ?thesis by (auto simp: JSON_def)
qed

definition ex_account_request :: http_request where
  "ex_account_request = ex_request\<lparr>pathValue := (\<lambda>k. if k = ''saID'' then ''a1'' else ''k1'')\<rparr>"

definition ex_keyless :: world where
  "ex_keyless = ex_world\<lparr>db := ex_db\<lparr>service_account_tokens := []\<rparr>\<rparr>"

theorem CreateToken_accepted_witness:
  "\<exists>key. fst (run_state (verifyAPIKey key) (snd (run_state (AccountHandler_CreateToken
       (Some \<lparr>ctName = ''ci'', ctExpiresAt = None\<rparr>) ex_account_request) ex_keyless))) = Inr (account_principal ex_account)"
proof -
  let ?run = "run_state (AccountHandler_CreateToken (Some \<lparr>ctName = ''ci'', ctExpiresAt = None\<rparr>) ex_account_request) ex_keyless"
  have ok: "db_ok (db ex_keyless)"
    using ex_db_ok by (simp add: ex_keyless_def db_ok_def tables_ok_defs)
  have "rStatus (fst ?run) = 201 \<and> faults (snd ?run) = []"
    by (simp add: AccountHandler_CreateToken_def run_on_err Generate_def CreateToken_def ex_keyless_def ex_account_request_def
        ex_db_def ex_rows empty_database_def ex_world_def Let_def)
  moreover have "ex_account \<in> set (service_accounts (db ex_keyless))" "saID ex_account = pathValue ex_account_request ''saID''"
      "sa_live ex_account" "\<not> saDisabled ex_account"
    by (simp_all add: ex_keyless_def ex_db_def ex_account_def ex_account_request_def sa_live_def)
  moreover have "token_expiry \<lparr>ctName = ''ci'', ctExpiresAt = None\<rparr> = Some None" by (simp add: token_expiry_def)
  ultimately show ?thesis
    using CreateToken_accepted [OF surjective_pairing _ ok, of "\<lparr>ctName = ''ci'', ctExpiresAt = None\<rparr>" ex_account_request] by fastforce
qed

section \<open>Revocation\<close>

text \<open>A key is refused for good once its token is revoked, whatever happens to later statements; the tokens of
  every other key are untouched.\<close>

lemma RevokeToken_refused:
  assumes "run_state (AccountHandler_RevokeToken r) w = (resp, w')" and "rStatus resp = 204" and "db_ok (db w)"
    and "k \<in> set (service_account_tokens (db w))" and "tkID k = pathValue r ''tokenID''"
  shows "(\<forall>v key. db v = db w' \<and> Prefix key = tkPrefix k \<longrightarrow> (\<exists>e. fst (run_state (verifyAPIKey key) v) = Inl e)) \<and>
    filter (\<lambda>x. tkID x \<noteq> tkID k) (service_account_tokens (db w')) = filter (\<lambda>x. tkID x \<noteq> tkID k) (service_account_tokens (db w))"
proof -
  have ok: "ok_status resp" using assms(2) by (simp add: ok_status_def)
  let ?toks = "service_account_tokens (db w)"
  from assms(1) have w': "service_account_tokens (db w') = update_where (\<lambda>x. tkID x = tkID k) (\<lambda>x. x\<lparr>tkRevoked := True\<rparr>) ?toks"
    unfolding AccountHandler_RevokeToken_def RevokeToken_def assms(5) [symmetric]
    by (rule run_on_err_ok [OF _ ok]) (auto elim!: run_command_Inr simp del: run_wrap)
  have uniq: "unique tkPrefix ?toks" using assms(3) by (simp add: db_ok_def sa_tables_ok_def)
  have "\<exists>e. fst (run_state (verifyAPIKey key) v) = Inl e" if eq: "db v = db w'" and pre: "Prefix key = tkPrefix k" for v key
  proof (rule ccontr)
    assume "\<nexists>e. fst (run_state (verifyAPIKey key) v) = Inl e"
    then obtain p v' where "run_state (verifyAPIKey key) v = (Inr p, v')" by (metis prod.collapse sum.exhaust_sel)
    then have "key_principal v key p" using verifyAPIKey_sound(2) by blast
    then obtain x where x: "x \<in> set (service_account_tokens (db w'))" "tkPrefix x = tkPrefix k" "\<not> tkRevoked x"
      by (auto simp: key_principal_def live_key_def eq pre)
    then have "x \<in> set ?toks" "tkID x \<noteq> tkID k" by (auto simp: w' set_update_where)
    then have "x = k" using x(2) assms(4) uniq by (metis distinct_map inj_onD)
    with \<open>tkID x \<noteq> tkID k\<close> show False by simp
  qed
  moreover have "filter (\<lambda>x. tkID x \<noteq> tkID k) (service_account_tokens (db w')) = filter (\<lambda>x. tkID x \<noteq> tkID k) ?toks"
    unfolding w' by (rule filter_update_other) simp
  ultimately show ?thesis by blast
qed

lemma RevokeToken_refused_witness:
  "\<exists>e. fst (run_state (verifyAPIKey ex_key) (snd (run_state (AccountHandler_RevokeToken ex_account_request) ex_world))) = Inl e"
proof -
  have "rStatus (fst (run_state (AccountHandler_RevokeToken ex_account_request) ex_world)) = 204"
    by (simp add: AccountHandler_RevokeToken_def run_on_err RevokeToken_def)
  moreover have "ex_token \<in> set (service_account_tokens (db ex_world))" "tkID ex_token = pathValue ex_account_request ''tokenID''"
      "Prefix ex_key = tkPrefix ex_token"
    by (simp_all add: ex_db_def ex_token_def ex_account_request_def)
  ultimately show ?thesis using RevokeToken_refused [OF surjective_pairing _ ex_db_ok] by blast
qed

section \<open>Accounts that are withdrawn\<close>

lemma GetServiceAccount_Inr:
  assumes "run_state (GetServiceAccount i) w = (x, w')"
  shows "db w' = db w" and "\<And>a. x = Inr (Some a) \<Longrightarrow> \<exists>row. row \<in> set (service_accounts (db w)) \<and> saID row = i \<and> sa_live row \<and>
      saIsInternal row = saIsInternal a"
  using assms by (auto simp: GetServiceAccount_def query_def exec_def Let_def split: fault.splits dest!: find_SomeD)

text \<open>What the two handlers have in common: they look the account up, refuse an internal one, write, and forget
  the cached actor.\<close>

lemma guarded_write_ok:
  assumes "run_state (on_err (GetServiceAccount i) (\<lambda>existing. case existing of
      None \<Rightarrow> ret (Error StoreErrNotFound)
    | Some old \<Rightarrow> if saIsInternal old then ret Forbidden
        else on_err m (\<lambda>_. State_Monad.bind (forget_actor c i) (\<lambda>_. ret NoContent)))) w = (resp, w')" and "ok_status resp"
  obtains w1 x w2 where "run_state m w1 = (Inr x, w2)" and "db w' = db w2"
  using assms
  by (elim run_on_err_ok [OF _ assms(2)])
    (auto elim!: run_on_err_ok [OF _ assms(2)] dest!: run_forget_actor split: option.splits if_splits simp del: run_state_bind)

lemma guarded_write_keeps:
  assumes "run_state (on_err (GetServiceAccount i) (\<lambda>existing. case existing of
      None \<Rightarrow> ret (Error StoreErrNotFound)
    | Some old \<Rightarrow> if saIsInternal old then ret Forbidden else k)) w = (resp, w')" and "db_ok (db w)"
    and "hoare (on_db (\<lambda>d. filter saIsInternal (service_accounts d) = X \<and> (\<forall>a\<in>set (service_accounts d). saID a = i \<longrightarrow> \<not> saIsInternal a)))
      k (\<lambda>_. on_db (\<lambda>d. filter saIsInternal (service_accounts d) = X))"
    and "filter saIsInternal (service_accounts (db w)) = X"
  shows "filter saIsInternal (service_accounts (db w')) = X"
proof -
  obtain x w1 where 1: "run_state (GetServiceAccount i) w = (x, w1)" by fastforce
  note g = GetServiceAccount_Inr [OF 1]
  show ?thesis
  proof (cases "\<exists>old. x = Inr (Some old) \<and> \<not> saIsInternal old")
    case True
    then obtain old where old: "x = Inr (Some old)" "\<not> saIsInternal old" by blast
    from g(2) [OF old(1)] old(2) assms(2) have "\<not> saIsInternal a" if "a \<in> set (service_accounts (db w))" "saID a = i" for a
      using that by (auto simp: db_ok_def sa_tables_ok_def distinct_map dest: inj_onD)
    then have "on_db (\<lambda>d. filter saIsInternal (service_accounts d) = X \<and>
        (\<forall>a\<in>set (service_accounts d). saID a = i \<longrightarrow> \<not> saIsInternal a)) w1"
      using assms(4) by (simp add: on_db_def g(1))
    moreover from assms(1) 1 old have "run_state k w1 = (resp, w')" by (simp add: run_on_err)
    ultimately have "on_db (\<lambda>d. filter saIsInternal (service_accounts d) = X) w'" by (rule hoareD [OF assms(3)])
    then show ?thesis by (simp add: on_db_def)
  next
    case False
    with assms(1,4) 1 g(1) show ?thesis by (auto simp: run_on_err split: sum.splits option.splits if_splits)
  qed
qed

text \<open>An account all of whose rows are disabled or deleted opens nothing.\<close>

lemma withdrawn_refused:
  assumes "\<And>a. a \<in> set (service_accounts (db v)) \<Longrightarrow> saID a = i \<Longrightarrow> saDisabled a \<or> \<not> sa_live a"
    and "run_state (verifyAPIKey key) v = (Inr p, v')"
  shows "pServiceAccountID p \<noteq> i"
  using verifyAPIKey_sound(2) [OF assms(2) refl] assms(1) unfolding key_principal_def live_key_def by fastforce

definition updated_account :: "string \<Rightarrow> updateServiceAccountRequest \<Rightarrow> service_account" where
  "updated_account i req = \<lparr>saID = i, saOrgID = [], saName = usaName req, saDescription = usaDescription req,
     saScopes = knownScopes (usaScopes req), saDisabled = usaDisabled req, saIsInternal = False, saAvatarAssetID = None,
     saCreatedBy = [], saCreatedAt = 0, saUpdatedAt = 0\<rparr>"

lemma Update_guarded:
  "AccountHandler_Update c body r = on_err (GetServiceAccount (pathValue r ''saID'')) (\<lambda>existing. case existing of
      None \<Rightarrow> ret (Error StoreErrNotFound)
    | Some old \<Rightarrow> if saIsInternal old then ret Forbidden
        else case body of None \<Rightarrow> ret (BadRequest (JStr ''invalid JSON'')) | Some req \<Rightarrow>
          if usaName req = [] then ret (BadRequest (JStr ''name is required''))
          else on_err (UpdateServiceAccount (updated_account (pathValue r ''saID'') req))
            (\<lambda>_. State_Monad.bind (forget_actor c (pathValue r ''saID'')) (\<lambda>_. ret NoContent)))"
  unfolding AccountHandler_Update_def updated_account_def Let_def by (rule refl)

lemma DeleteServiceAccount_gone:
  assumes "run_state (DeleteServiceAccount i) w = (Inr x, w')" and "a \<in> set (service_accounts (db w'))" and "saID a = i"
  shows "\<not> sa_live a"
proof -
  from assms(1) have "service_accounts (db w') =
      update_where (\<lambda>r. saID r = i) (\<lambda>r. r\<lparr>saDeletedAt := Some (clock w)\<rparr>) (service_accounts (db w))"
    by (auto simp: DeleteServiceAccount_def simp del: run_wrap elim!: run_command_Inr)
  with assms(2) obtain r where "a = (if saID r = i then r\<lparr>saDeletedAt := Some (clock w)\<rparr> else r)"
    by (auto simp only: update_where_def set_map)
  with assms(3) show ?thesis by (cases "saID r = i") (simp_all add: sa_live_def)
qed

lemma UpdateServiceAccount_live:
  assumes "run_state (UpdateServiceAccount b) w = (Inr x, w')" and "a \<in> set (service_accounts (db w'))" and "saID a = saID b"
    and "sa_live a"
  shows "saDisabled a = saDisabled b"
proof -
  from assms(1) have "service_accounts (db w') = update_where (\<lambda>r. saID r = saID b \<and> sa_live r)
      (\<lambda>r. r\<lparr>saName := saName b, saDescription := saDescription b, saScopes := saScopes b, saDisabled := saDisabled b,
             saUpdatedAt := clock w\<rparr>) (service_accounts (db w))"
    by (auto simp: UpdateServiceAccount_def simp del: run_wrap exists_row_iff elim!: run_command_Inr split: if_splits)
  then show ?thesis using assms(2,3,4) by (auto simp: set_update_where sa_live_def)
qed

text \<open>C20. When an account has been deleted, or has been disabled by an update, no key of it is accepted any more,
  under any schedule of failures.\<close>

theorem withdrawn_account_refused:
  assumes "run_state (if deleting then AccountHandler_Delete c r else AccountHandler_Update c (Some req) r) w = (resp, w')"
    and "rStatus resp = 204" and "deleting \<or> usaDisabled req"
  shows "\<forall>v key p v'. db v = db w' \<and> run_state (verifyAPIKey key) v = (Inr p, v') \<longrightarrow> pServiceAccountID p \<noteq> pathValue r ''saID''"
proof -
  have ok: "ok_status resp" using assms(2) by (simp add: ok_status_def)
  let ?i = "pathValue r ''saID''"
  have gone: "saDisabled a \<or> \<not> sa_live a" if a: "a \<in> set (service_accounts (db w'))" "saID a = ?i" for a
  proof (cases deleting)
    case True
    from assms(1) have "run_state (AccountHandler_Delete c r) w = (resp, w')" using True by simp
    from this [unfolded AccountHandler_Delete_def Let_def] ok show ?thesis
      by (rule guarded_write_ok)
        (use a in \<open>auto dest: DeleteServiceAccount_gone\<close>)
  next
    case False
    from assms(1) have run: "run_state (AccountHandler_Update c (Some req) r) w = (resp, w')" using False by simp
    have "usaName req \<noteq> []"
      using run ok by (auto simp: Update_guarded run_on_err split: prod.splits sum.splits option.splits if_splits)
    from run [unfolded Update_guarded option.case if_not_P [OF this]]
    have "run_state (on_err (GetServiceAccount ?i) (\<lambda>existing. case existing of
        None \<Rightarrow> ret (Error StoreErrNotFound)
      | Some old \<Rightarrow> if saIsInternal old then ret Forbidden
          else on_err (UpdateServiceAccount (updated_account ?i req)) (\<lambda>_. State_Monad.bind (forget_actor c ?i) (\<lambda>_. ret NoContent)))) w = (resp, w')" .
    then show ?thesis using ok
      by (rule guarded_write_ok)
        (use a False assms(3) in \<open>auto simp: updated_account_def dest: UpdateServiceAccount_live\<close>)
  qed
  then show ?thesis using withdrawn_refused by metis
qed

theorem withdrawn_account_refused_witness:
  "case run_state (verifyAPIKey ex_key) (snd (run_state (AccountHandler_Delete True ex_account_request) ex_world)) of
     (Inr p, v) \<Rightarrow> pServiceAccountID p \<noteq> ''a1'' | _ \<Rightarrow> True"
proof -
  have "rStatus (fst (run_state (AccountHandler_Delete True ex_account_request) ex_world)) = 204"
    by (simp add: AccountHandler_Delete_def run_on_err GetServiceAccount_def DeleteServiceAccount_def forget_actor_def cache_Del_def
        ex_account_request_def ex_db_def ex_account_def sa_live_def Let_def)
  with withdrawn_account_refused [where deleting = True and c = True and r = ex_account_request and w = ex_world
      and resp = "fst (run_state (AccountHandler_Delete True ex_account_request) ex_world)"
      and w' = "snd (run_state (AccountHandler_Delete True ex_account_request) ex_world)"]
  show ?thesis by (auto simp: ex_account_request_def split: prod.splits sum.splits)
qed

section \<open>The account of the program itself\<close>

lemma internal_writes:
  assumes "saID a = i"
  shows "hoare (on_db (\<lambda>d. filter saIsInternal (service_accounts d) = X \<and> (\<forall>a\<in>set (service_accounts d). saID a = i \<longrightarrow> \<not> saIsInternal a)))
      (DeleteServiceAccount i) (\<lambda>_. on_db (\<lambda>d. filter saIsInternal (service_accounts d) = X))"
    and "hoare (on_db (\<lambda>d. filter saIsInternal (service_accounts d) = X \<and> (\<forall>a\<in>set (service_accounts d). saID a = i \<longrightarrow> \<not> saIsInternal a)))
      (UpdateServiceAccount a) (\<lambda>_. on_db (\<lambda>d. filter saIsInternal (service_accounts d) = X))"
proof -
  have other: "filter saIsInternal (update_where P f rows) = filter saIsInternal rows"
    if "\<forall>a\<in>set rows. saID a = i \<longrightarrow> \<not> saIsInternal a" "\<And>x. P x \<Longrightarrow> saID x = i" "\<And>x. saIsInternal (f x) = saIsInternal x"
    for P f and rows :: "sa_row list"
    using that by (induction rows) auto
  show "hoare (on_db (\<lambda>d. filter saIsInternal (service_accounts d) = X \<and> (\<forall>a\<in>set (service_accounts d). saID a = i \<longrightarrow> \<not> saIsInternal a)))
      (DeleteServiceAccount i) (\<lambda>_. on_db (\<lambda>d. filter saIsInternal (service_accounts d) = X))"
    unfolding DeleteServiceAccount_def by (rule hoare_command) (auto simp: on_db_def other)
  show "hoare (on_db (\<lambda>d. filter saIsInternal (service_accounts d) = X \<and> (\<forall>a\<in>set (service_accounts d). saID a = i \<longrightarrow> \<not> saIsInternal a)))
      (UpdateServiceAccount a) (\<lambda>_. on_db (\<lambda>d. filter saIsInternal (service_accounts d) = X))"
    unfolding UpdateServiceAccount_def by (rule hoare_command) (auto simp: on_db_def assms split: if_splits intro!: other)
qed

text \<open>The internal account of an organisation, the one its integrations run as, is out of reach of the handlers
  that update and delete accounts: whatever is requested and whatever fails, the internal accounts stay what
  they were.\<close>

lemma internal_account_kept:
  assumes "run_state (if deleting then AccountHandler_Delete c r else AccountHandler_Update c body r) w = (resp, w')"
    and "db_ok (db w)"
  shows "filter saIsInternal (service_accounts (db w')) = filter saIsInternal (service_accounts (db w))"
proof -
  let ?i = "pathValue r ''saID''" and ?X = "filter saIsInternal (service_accounts (db w))"
  let ?P = "on_db (\<lambda>d. filter saIsInternal (service_accounts d) = ?X \<and> (\<forall>a\<in>set (service_accounts d). saID a = ?i \<longrightarrow> \<not> saIsInternal a))"
  let ?J = "on_db (\<lambda>d. filter saIsInternal (service_accounts d) = ?X)"
  have stop: "hoare ?P (ret x) (\<lambda>_. ?J)" for x by (rule hoare_return) (simp add: on_db_def)
  have tail: "hoare ?P (on_err m (\<lambda>_. State_Monad.bind (forget_actor c ?i) (\<lambda>_. ret NoContent))) (\<lambda>_. ?J)"
    if "hoare ?P m (\<lambda>_. ?J)" for m :: "unit result prog"
    by (rule hoare_on_err [OF that]) (simp, intro keeps_rules)
  have id: "saID (updated_account ?i req) = ?i" for req by (simp add: updated_account_def)
  show ?thesis
  proof (cases deleting)
    case True
    from assms(1) have "run_state (AccountHandler_Delete c r) w = (resp, w')" using True by simp
    from this [unfolded AccountHandler_Delete_def Let_def] assms(2) tail [OF internal_writes(1) [OF id]] refl
    show ?thesis by (rule guarded_write_keeps)
  next
    case False
    from assms(1) have "run_state (AccountHandler_Update c body r) w = (resp, w')" using False by simp
    from this [unfolded Update_guarded] assms(2) show ?thesis
      by (rule guarded_write_keeps) (intro hoare_case_option hoare_if stop tail internal_writes(2) id, rule refl)
  qed
qed

lemma internal_account_kept_witness:
  "filter saIsInternal (service_accounts (db (snd (run_state (AccountHandler_Delete True ex_account_request) ex_world)))) = []"
  using internal_account_kept [of True True ex_account_request None ex_world, OF _ ex_db_ok, OF surjective_pairing]
  by (simp add: ex_db_def ex_account_def)

end
