(* ===== verification/Graphql.thy ===== *)
theory Graphql
  imports GoText
begin

text \<open>
  \<open>internal/specparser/graphql.go\<close>: from a GraphQL schema, one operation for each field of its root types, with an example request
  and an example response. \<open>gqlparser.LoadSchema\<close> is a parameter. The loaded schema has no nil entries in its lists, so the tests
  for nil fields and directives are left out.
\<close>

section \<open>Schemas (gqlparser/ast)\<close>

datatype gtype = TNil | TNamed string bool | TList gtype bool

datatype def_kind = KScalar | KObject | KInterface | KUnion | KEnum | KInputObject

record arg_def =
  adName :: string
  adType :: gtype

text \<open>An argument of a directive with the raw text of its value, if it has one.\<close>

record directive =
  drName :: string
  drArguments :: "(string \<times> string option) list"

record field_def =
  fdName :: string
  fdDescription :: string
  fdArguments :: "arg_def list"
  fdType :: gtype
  fdDirectives :: "directive list"

record type_def =
  tdKind :: def_kind
  tdFields :: "field_def list"
  tdTypes :: "string list"
  tdEnumValues :: "string list"

type_synonym types = "string \<rightharpoonup> type_def"

record schema =
  scTypes :: types
  scQuery :: "type_def option"
  scMutation :: "type_def option"
  scSubscription :: "type_def option"

record parsedGraphQLOperation =
  poOperationID :: string
  poName :: string
  poKind :: string
  poSignature :: string
  poDescription :: string
  poVariables :: string
  poRequestExample :: string
  poResponseExample :: string
  poTags :: "string list"

section \<open>Types\<close>

fun formatType :: "gtype \<Rightarrow> string" where
  "formatType TNil = []"
| "formatType (TList t nonNull) = (let inner = ''['' @ formatType t @ '']'' in if nonNull then inner @ ''!'' else inner)"
| "formatType (TNamed name nonNull) = (if nonNull then name @ ''!'' else name)"

fun getBaseTypeName :: "gtype \<Rightarrow> string" where
  "getBaseTypeName TNil = []"
| "getBaseTypeName (TList t nonNull) = getBaseTypeName t"
| "getBaseTypeName (TNamed name nonNull) = name"

definition buildFieldSignature :: "field_def \<Rightarrow> string" where
  "buildFieldSignature f = fdName f @
     (if fdArguments f = [] then []
      else ''('' @ Join (map (\<lambda>a. adName a @ '': '' @ formatType (adType a)) (fdArguments f)) '', '' @ '')'') @
     '': '' @ formatType (fdType f)"

definition ForName :: "directive list \<Rightarrow> string \<Rightarrow> directive option" where
  "ForName ds name = find (\<lambda>d. drName d = name) ds"

definition buildTags :: "field_def \<Rightarrow> string \<Rightarrow> string list" where
  "buildTags f kind = [kind] @ (if ForName (fdDirectives f) ''deprecated'' \<noteq> None then [''deprecated''] else []) @
     map (\<lambda>d. ''@'' @ drName d) (filter (\<lambda>d. drName d \<noteq> [] \<and> drName d \<noteq> ''deprecated'') (fdDirectives f)) @
     (let ret = getBaseTypeName (fdType f) in if ret \<noteq> [] then [''returns:'' @ ret] else [])"

section \<open>Selections\<close>

record selectionOptions =
  MaxDepth :: int
  MaxScalarFields :: int
  MaxObjectFields :: int

datatype selNode = Sel
  (FieldName: string)
  (Children: "selNode list")
  (Fragments: "(string \<times> selNode list) list")
  (IsLeaf: bool)
  (ReturnType: gtype)

definition deeper :: "selectionOptions \<Rightarrow> selectionOptions" where
  "deeper opts = opts\<lparr>MaxDepth := MaxDepth opts - 1\<rparr>"

definition kind_in :: "types \<Rightarrow> def_kind set \<Rightarrow> field_def \<Rightarrow> bool" where
  "kind_in types ks f = (case types (getBaseTypeName (fdType f)) of None \<Rightarrow> False | Some d \<Rightarrow> tdKind d \<in> ks)"

text \<open>A loop that appends and then stops at the limit: it always takes the first element.\<close>

definition limited :: "int \<Rightarrow> 'a list \<Rightarrow> 'a list" where
  "limited m xs = take (max 1 (nat m)) xs"

text \<open>\<open>visited[base] = true\<close> until the function returns: the set is passed down.\<close>

function buildSelectionTree :: "types \<Rightarrow> gtype \<Rightarrow> selectionOptions \<Rightarrow> string set \<Rightarrow> selNode list"
  and buildObjectSelection :: "types \<Rightarrow> type_def \<Rightarrow> selectionOptions \<Rightarrow> string set \<Rightarrow> selNode list" where
  "buildSelectionTree types t opts visited =
     (let base = getBaseTypeName t in
      if base = [] then []
      else if base \<in> visited then []
      else case types base of
        None \<Rightarrow> []
      | Some def \<Rightarrow>
          if tdKind def = KScalar \<or> tdKind def = KEnum then []
          else if MaxDepth opts \<le> 0 then []
          else if tdKind def = KObject \<or> tdKind def = KInterface then buildObjectSelection types def opts (insert base visited)
          else if tdKind def = KUnion then
            [Sel [] [] (put_all (concat (map (\<lambda>mt. case types mt of
                 None \<Rightarrow> []
               | Some mtDef \<Rightarrow> [(mt, buildObjectSelection types mtDef (deeper opts) (insert base visited))]) (take 2 (tdTypes def))))) False TNil]
          else [])"
| "buildObjectSelection types def opts visited =
     limited (MaxScalarFields opts) (map (\<lambda>f. Sel (fdName f) [] [] True (fdType f)) (filter (kind_in types {KScalar, KEnum}) (tdFields def))) @
     (if MaxDepth opts > 1 \<and> MaxObjectFields opts > 0 then
        limited (MaxObjectFields opts) (map (\<lambda>f.
          let child = buildSelectionTree types (fdType f) (deeper opts) visited in Sel (fdName f) child [] (child = []) (fdType f))
          (filter (kind_in types {KObject, KInterface, KUnion}) (tdFields def)))
      else [])"
  by pat_completeness auto
termination
  by (relation "measure (\<lambda>x. case x of Inl (_, _, opts, _) \<Rightarrow> Suc (2 * nat (MaxDepth opts)) | Inr (_, _, opts, _) \<Rightarrow> 2 * nat (MaxDepth opts))")
    (auto simp: deeper_def)

declare buildSelectionTree.simps [simp del] buildObjectSelection.simps [simp del]

fun renderNode :: "nat \<Rightarrow> selNode \<Rightarrow> string" where
  "renderNode ind (Sel name children frags leaf rt) =
     (if name = [] \<and> frags \<noteq> [] then
        Join (map (\<lambda>(k, child). spaces ind @ ''... on '' @ k @ '' {'' @ newline @
            (if TrimSpace child \<noteq> [] then child @ newline else []) @ spaces ind @ ''}'')
          (sorted_entries (map (\<lambda>(k, c). (k, Join (map (renderNode (ind + 2)) c) newline)) frags))) newline
      else spaces ind @ name @
        (if leaf \<or> children = [] then []
         else let child = Join (map (renderNode (ind + 2)) children) newline in
           if TrimSpace child = [] then [] else '' {'' @ newline @ child @ newline @ spaces ind @ ''}''))"

definition renderSelectionSet :: "selNode list \<Rightarrow> nat \<Rightarrow> string" where
  "renderSelectionSet nodes ind = Join (map (renderNode ind) nodes) newline"

section \<open>Variables\<close>

definition scalar_example :: "string \<Rightarrow> val option" where
  "scalar_example name =
     (if name = ''String'' \<or> name = ''ID'' then Some (VStr ''example'')
      else if name = ''Int'' then Some (VInt 123)
      else if name = ''Float'' then Some (VFloat ''123.45'')
      else if name = ''Boolean'' then Some (VBool True)
      else None)"

function exampleJSONValueForType :: "types \<Rightarrow> gtype \<Rightarrow> int \<Rightarrow> val" where
  "exampleJSONValueForType types TNil depth = VNull"
| "exampleJSONValueForType types (TList t nonNull) depth = VArr [exampleJSONValueForType types t depth]"
| "exampleJSONValueForType types (TNamed name nonNull) depth =
     (case scalar_example name of
        Some v \<Rightarrow> v
      | None \<Rightarrow>
          (case types name of
             None \<Rightarrow> VObj []
           | Some def \<Rightarrow>
               if tdKind def = KEnum \<and> tdEnumValues def \<noteq> [] then VStr (hd (tdEnumValues def))
               else if tdKind def = KInputObject \<and> depth > 0 then
                 VObj (put_all (map (\<lambda>f. (fdName f, exampleJSONValueForType types (fdType f) (depth - 1))) (tdFields def)))
               else VObj []))"
  by pat_completeness auto
termination
  by (relation "inv_image (less_than <*lex*> less_than) (\<lambda>(_, t, depth). (nat depth, size t))") auto

declare exampleJSONValueForType.simps(3) [simp del]

definition buildVariablesJSON :: "types \<Rightarrow> arg_def list \<Rightarrow> nat \<Rightarrow> string" where
  "buildVariablesJSON types args ind =
     (if args = [] then ''{}''
      else ''{'' @ newline @ Join (map (\<lambda>(k, v). spaces ind @ quote k @ '': '' @ marshal v)
          (sorted_entries (put_all (map (\<lambda>a. (adName a, exampleJSONValueForType types (adType a) 2)) args)))) ('','' @ newline) @
        newline @ ''}'')"

section \<open>Requests\<close>

definition alnum :: "char \<Rightarrow> bool" where
  "alnum c \<longleftrightarrow> is_lower (lower_char c) \<or> is_digit c"

function words :: "string \<Rightarrow> string list" where
  "words [] = []"
| "words (c # s) = (if alnum c then takeWhile alnum (c # s) # words (dropWhile alnum s) else words s)"
  by pat_completeness auto
termination by (relation "measure length") (auto simp: le_imp_less_Suc length_dropWhile_le)

definition toPascal :: "string \<Rightarrow> string" where
  "toPascal s = concat (map (\<lambda>p. upper_char (hd p) # tl p) (words (TrimSpace s)))"

definition renderVarDefs :: "arg_def list \<Rightarrow> string" where
  "renderVarDefs args =
     (if args = [] then [] else ''('' @ Join (map (\<lambda>a. ''$'' @ adName a @ '': '' @ formatType (adType a)) args) '', '' @ '')'')"

definition renderArgCalls :: "arg_def list \<Rightarrow> string" where
  "renderArgCalls args =
     (if args = [] then [] else ''('' @ Join (map (\<lambda>a. adName a @ '': $'' @ adName a) args) '', '' @ '')'')"

definition renderRequestExample :: "string \<Rightarrow> string \<Rightarrow> arg_def list \<Rightarrow> string \<Rightarrow> string" where
  "renderRequestExample kind fieldName args selectionSet =
     ToLower kind @ '' '' @ toPascal kind @ toPascal fieldName @ renderVarDefs args @ '' {'' @ newline @ ''  '' @ fieldName @
     renderArgCalls args @
     (if TrimSpace selectionSet \<noteq> [] then '' {'' @ newline @ selectionSet @ newline @ ''  }'' else []) @ newline @ ''}''"

section \<open>Responses\<close>

function exampleResponseValue :: "types \<Rightarrow> gtype \<Rightarrow> selNode list \<Rightarrow> int \<Rightarrow> val"
  and objectFromSelection :: "types \<Rightarrow> string \<Rightarrow> selNode list \<Rightarrow> int \<Rightarrow> val" where
  "exampleResponseValue types TNil sel depth = VNull"
| "exampleResponseValue types (TList t nonNull) sel depth = VArr [exampleResponseValue types t sel depth]"
| "exampleResponseValue types (TNamed base nonNull) sel depth =
     (case scalar_example base of
        Some v \<Rightarrow> v
      | None \<Rightarrow>
          (case types base of
             None \<Rightarrow> VObj []
           | Some def \<Rightarrow>
               if tdKind def = KEnum then (if tdEnumValues def \<noteq> [] then VStr (hd (tdEnumValues def)) else VStr ''ENUM_VALUE'')
               else if depth \<le> 0 then VObj []
               else case sel of
                 [] \<Rightarrow> VObj []
               | n # ns \<Rightarrow>
                   if ns = [] \<and> FieldName n = [] \<and> Fragments n \<noteq> []
                   then objectFromSelection types base (snd (hd (sorted_entries (Fragments n)))) (depth - 1)
                   else objectFromSelection types base sel (depth - 1)))"
| "objectFromSelection types baseType sel depth =
     (case types baseType of
        None \<Rightarrow> VObj []
      | Some def \<Rightarrow>
          let index = map_of (rev (map (\<lambda>f. (fdName f, f)) (tdFields def))) in
          VObj (put_all (concat (map (\<lambda>n.
            if FieldName n = [] then []
            else case index (FieldName n) of
              None \<Rightarrow> []
            | Some fd \<Rightarrow> [(FieldName n, exampleResponseValue types (fdType fd) (Children n) depth)]) sel))))"
  by pat_completeness auto
termination
  by (relation "inv_image (less_than <*lex*> less_than) (\<lambda>x. case x of
      Inl (_, t, _, depth) \<Rightarrow> (2 * nat depth, size t) | Inr (_, _, _, depth) \<Rightarrow> (Suc (2 * nat depth), 0))") auto

declare exampleResponseValue.simps(3) [simp del] objectFromSelection.simps [simp del]

definition renderResponseExample :: "types \<Rightarrow> string \<Rightarrow> gtype \<Rightarrow> selNode list \<Rightarrow> nat \<Rightarrow> string" where
  "renderResponseExample types rootFieldName returnType sel ind =
     marshal_indent (spaces ind) (VObj [(''data'', VObj [(rootFieldName, exampleResponseValue types returnType sel 3)])]) 0"

section \<open>Operations\<close>

definition deprecation :: "directive \<Rightarrow> string" where
  "deprecation dep =
     (let reason = (case map_of (drArguments dep) ''reason'' of
          Some (Some raw) \<Rightarrow> if TrimSpace raw \<noteq> [] then Trim raw CHR 0x22 else ''No reason provided''
        | _ \<Rightarrow> ''No reason provided'') in ''DEPRECATED: '' @ reason)"

definition example_options :: selectionOptions where
  "example_options = \<lparr>MaxDepth = 10, MaxScalarFields = 10000, MaxObjectFields = 10000\<rparr>"

definition parseFieldAsOperation :: "types \<Rightarrow> field_def \<Rightarrow> string \<Rightarrow> parsedGraphQLOperation" where
  "parseFieldAsOperation types f kind =
     (let desc = TrimSpace (fdDescription f);
          sel = buildSelectionTree types (fdType f) example_options {} in
      \<lparr>poOperationID = fdName f, poName = fdName f, poKind = kind, poSignature = buildFieldSignature f,
       poDescription = (case ForName (fdDirectives f) ''deprecated'' of
           None \<Rightarrow> desc
         | Some dep \<Rightarrow> (if desc \<noteq> [] then desc @ newline @ newline else desc) @ deprecation dep),
       poVariables = buildVariablesJSON types (fdArguments f) 2,
       poRequestExample = renderRequestExample kind (fdName f) (fdArguments f) (renderSelectionSet sel 2),
       poResponseExample = renderResponseExample types (fdName f) (fdType f) sel 2,
       poTags = buildTags f kind\<rparr>)"

definition extractOperationsFromType :: "types \<Rightarrow> type_def option \<Rightarrow> string \<Rightarrow> parsedGraphQLOperation list" where
  "extractOperationsFromType types td kind =
     (case td of None \<Rightarrow> []
      | Some d \<Rightarrow> map (\<lambda>f. parseFieldAsOperation types f kind) (filter (\<lambda>f. \<not> HasPrefix (fdName f) ''__'') (tdFields d)))"

definition sort_operations :: "parsedGraphQLOperation list \<Rightarrow> parsedGraphQLOperation list" where
  "sort_operations ops = sort_key poKind (sort_key poName ops)"

definition ParseGraphQLSchemas :: "((string \<times> string) list \<Rightarrow> schema result) \<Rightarrow> string list \<Rightarrow> parsedGraphQLOperation list result" where
  "ParseGraphQLSchemas LoadSchema contents =
     (if contents = [] then Inl (Errorf ''no schema contents provided'' [])
      else case LoadSchema (map (\<lambda>(i, c). (''schema_'' @ decimal i @ ''.graphql'', c)) (enumerate 0 contents)) of
        Inl err \<Rightarrow> Inl (Wrapf ''failed to parse GraphQL schemas: %w'' [] err)
      | Inr s \<Rightarrow> Inr (sort_operations
          (extractOperationsFromType (scTypes s) (scQuery s) ''Query'' @
           extractOperationsFromType (scTypes s) (scMutation s) ''Mutation'' @
           extractOperationsFromType (scTypes s) (scSubscription s) ''Subscription'')))"

definition ParseGraphQL :: "((string \<times> string) list \<Rightarrow> schema result) \<Rightarrow> string \<Rightarrow> parsedGraphQLOperation list result" where
  "ParseGraphQL LoadSchema content = ParseGraphQLSchemas LoadSchema [content]"

end
