(* ===== verification/GraphqlTyping.thy ===== *)
theory GraphqlTyping
  imports Graphql
begin

text \<open>
  The selections that the examples are made from are well typed, bounded and free of cycles, and the text of a type can be
  read back.
\<close>

section \<open>Typing\<close>

text \<open>\<open>typed_sel types V d b ns\<close>: \<open>ns\<close> is a selection on the type \<open>b\<close> with at most \<open>d\<close> levels, on whose paths no type of \<open>V\<close> and no type
  twice is entered; \<open>typed_node\<close> is the same for one field of a type. A field of an object type may be selected without a
  selection of its own.\<close>

inductive typed_sel :: "types \<Rightarrow> string set \<Rightarrow> nat \<Rightarrow> string \<Rightarrow> selNode list \<Rightarrow> bool"
  and typed_node :: "types \<Rightarrow> string set \<Rightarrow> nat \<Rightarrow> type_def \<Rightarrow> selNode \<Rightarrow> bool" for types where
  none: "typed_sel types V d b []"
| object: "types b = Some def \<Longrightarrow> b \<notin> V \<Longrightarrow> tdKind def \<in> {KObject, KInterface} \<Longrightarrow>
    (\<And>n. n \<in> set ns \<Longrightarrow> typed_node types (insert b V) d def n) \<Longrightarrow> typed_sel types V d b ns"
| union: "types b = Some def \<Longrightarrow> b \<notin> V \<Longrightarrow> tdKind def = KUnion \<Longrightarrow> fst ` set frags \<subseteq> set (tdTypes def) \<Longrightarrow> d' \<le> d \<Longrightarrow>
    (\<And>k ns. (k, ns) \<in> set frags \<Longrightarrow> \<exists>mt. types k = Some mt \<and> (\<forall>n\<in>set ns. typed_node types (insert b V) d' mt n)) \<Longrightarrow>
    typed_sel types V d b [Sel [] [] frags False TNil]"
| scalar: "f \<in> set (tdFields def) \<Longrightarrow> kind_in types {KScalar, KEnum} f \<Longrightarrow> typed_node types V (Suc d) def (Sel (fdName f) [] [] True (fdType f))"
| nested: "f \<in> set (tdFields def) \<Longrightarrow> kind_in types {KObject, KInterface, KUnion} f \<Longrightarrow> typed_sel types V d (getBaseTypeName (fdType f)) ns \<Longrightarrow>
    typed_node types V (Suc d) def (Sel (fdName f) ns [] (ns = []) (fdType f))"

lemma limited_subset: "x \<in> set (limited m xs) \<Longrightarrow> x \<in> set xs"
  by (auto simp: limited_def dest: in_set_takeD)

lemma put_all_mem: "(k, v) \<in> set (put_all kvs) \<Longrightarrow> (k, v) \<in> set kvs"
  using put_all_keys(1) [of kvs] map_of_is_SomeI [of "put_all kvs" k v] map_of_SomeD [of "rev kvs" k v] by (simp add: put_all_map_of)

lemma build_typed:
  "typed_sel types V (nat (MaxDepth opts)) (getBaseTypeName t) (buildSelectionTree types t opts V)"
  "n \<in> set (buildObjectSelection types def opts V) \<Longrightarrow> typed_node types V (max 1 (nat (MaxDepth opts))) def n"
proof (induction types t opts V and types def opts V arbitrary: and n rule: buildSelectionTree_buildObjectSelection.induct)
  case (1 types t opts visited)
  let ?b = "getBaseTypeName t" and ?d = "nat (MaxDepth opts)"
  show ?case
  proof (cases "?b = [] \<or> ?b \<in> visited \<or> types ?b = None \<or> MaxDepth opts \<le> 0")
    case True
    then show ?thesis by (auto simp: buildSelectionTree.simps [of types t] Let_def intro: typed_sel_typed_node.none split: option.splits)
  next
    case False
    then obtain def where def: "types ?b = Some def" by auto
    have d: "max 1 ?d = ?d" "nat (MaxDepth (deeper opts)) \<le> ?d" "1 \<le> ?d" using False by (auto simp: deeper_def)
    consider "tdKind def \<in> {KObject, KInterface}" | "tdKind def = KUnion" | "tdKind def \<in> {KScalar, KEnum, KInputObject}"
      by (cases "tdKind def") auto
    then show ?thesis
    proof cases
      case 1
      then have "typed_sel types visited ?d ?b (buildObjectSelection types def opts (insert ?b visited))"
        using "1.IH"(1) [OF refl _ _ def] False def d by (intro typed_sel_typed_node.object [where types = types and def = def]) auto
      then show ?thesis using 1 False def by (auto simp: buildSelectionTree.simps [of types t] Let_def)
    next
      case 2
      let ?ms = "concat (map (\<lambda>mt. case types mt of None \<Rightarrow> []
         | Some mtDef \<Rightarrow> [(mt, buildObjectSelection types mtDef (deeper opts) (insert ?b visited))]) (take 2 (tdTypes def)))"
      have members: "k \<in> set (tdTypes def) \<and> (\<exists>mt. types k = Some mt \<and> (\<forall>n\<in>set ns. typed_node types (insert ?b visited) (max 1 (nat (MaxDepth (deeper opts)))) mt n))"
        if "(k, ns) \<in> set ?ms" for k ns
      proof -
        from that obtain mt where mt: "k \<in> set (take 2 (tdTypes def))" "types k = Some mt"
            "ns = buildObjectSelection types mt (deeper opts) (insert ?b visited)"
          by (auto split: option.splits dest!: sym [of "Some _"])
        then have "\<forall>n\<in>set ns. typed_node types (insert ?b visited) (max 1 (nat (MaxDepth (deeper opts)))) mt n"
          using "1.IH"(2) [OF refl _ _ def] False 2 by auto
        then show ?thesis using mt by (auto dest: in_set_takeD)
      qed
      then have "typed_sel types visited ?d ?b [Sel [] [] (put_all ?ms) False TNil]"
        using False 2 d def by (intro typed_sel_typed_node.union [where types = types and def = def and d' = "max 1 (nat (MaxDepth (deeper opts)))"]) (auto dest!: put_all_mem)
      then show ?thesis using 2 False def by (auto simp: buildSelectionTree.simps [of types t] Let_def)
    next
      case 3
      then show ?thesis using False def by (auto simp: buildSelectionTree.simps [of types t] Let_def intro: typed_sel_typed_node.none)
    qed
  qed
next
  case (2 types def opts visited)
  let ?d = "nat (MaxDepth opts)"
  from "2.prems" show ?case
    unfolding buildObjectSelection.simps [of types def] set_append Un_iff
  proof
    assume "n \<in> set (limited (MaxScalarFields opts) (map (\<lambda>f. Sel (fdName f) [] [] True (fdType f)) (filter (kind_in types {KScalar, KEnum}) (tdFields def))))"
    then obtain f where "f \<in> set (tdFields def)" "kind_in types {KScalar, KEnum} f" "n = Sel (fdName f) [] [] True (fdType f)"
      by (auto dest!: limited_subset)
    moreover have "max 1 ?d = Suc (max 1 ?d - 1)" by simp
    ultimately show ?thesis using typed_sel_typed_node.scalar [of f def types visited "max 1 ?d - 1"] by metis
  next
    assume n: "n \<in> set (if 1 < MaxDepth opts \<and> 0 < MaxObjectFields opts then
        limited (MaxObjectFields opts) (map (\<lambda>f.
          let child = buildSelectionTree types (fdType f) (deeper opts) visited in Sel (fdName f) child [] (child = []) (fdType f))
          (filter (kind_in types {KObject, KInterface, KUnion}) (tdFields def)))
      else [])"
    then have deep: "1 < MaxDepth opts" "0 < MaxObjectFields opts" by (auto split: if_splits)
    from n obtain f where f: "f \<in> set (tdFields def)" "kind_in types {KObject, KInterface, KUnion} f"
        "n = (let child = buildSelectionTree types (fdType f) (deeper opts) visited in Sel (fdName f) child [] (child = []) (fdType f))"
      using deep by (auto dest!: limited_subset)
    have "max 1 ?d = Suc (nat (MaxDepth (deeper opts)))" using deep by (simp add: deeper_def)
    then show ?thesis using f "2.IH" deep unfolding f(3) Let_def by (auto intro!: typed_sel_typed_node.nested)
  qed
qed

text \<open>C24. The selection of every example is well typed: each selected field is declared on its type and has a selection of its own
  only if its type is an object, an interface or a union; it has at most the given number of levels, and no path enters a
  type twice, so recursive schemas are cut.\<close>

theorem buildSelectionTree_typed:
  "typed_sel types visited (nat (MaxDepth opts)) (getBaseTypeName t) (buildSelectionTree types t opts visited)"
  by (rule build_typed(1))

section \<open>Types can be read back\<close>

definition ident :: "string \<Rightarrow> bool" where
  "ident s \<longleftrightarrow> s \<noteq> [] \<and> list_all (\<lambda>c. alnum c \<or> c = CHR ''_'') s"

lemma ident_chars:
  assumes "ident s"
  shows "s \<noteq> []" "CHR '' '' \<notin> set s" "CHR 0x0A \<notin> set s" "CHR ''!'' \<notin> set s" "CHR ''['' \<notin> set s" "CHR '']'' \<notin> set s"
    "CHR ''{'' \<notin> set s" "CHR ''}'' \<notin> set s"
proof -
  have "\<not> (alnum c \<or> c = CHR ''_'')" if "c \<in> {CHR '' '', CHR 0x0A, CHR ''!'', CHR ''['', CHR '']'', CHR ''{'', CHR ''}''}" for c
    using that by (auto simp: alnum_def is_lower_def is_digit_def lower_char_def Let_def)
  then show "s \<noteq> []" "CHR '' '' \<notin> set s" "CHR 0x0A \<notin> set s" "CHR ''!'' \<notin> set s" "CHR ''['' \<notin> set s" "CHR '']'' \<notin> set s"
      "CHR ''{'' \<notin> set s" "CHR ''}'' \<notin> set s"
    using assms unfolding ident_def list_all_iff by blast+
qed

fun names_ok :: "gtype \<Rightarrow> bool" where
  "names_ok TNil = False"
| "names_ok (TList t nonNull) = names_ok t"
| "names_ok (TNamed name nonNull) = ident name"

text \<open>The type that a text in the syntax of GraphQL denotes.\<close>

function read_type :: "string \<Rightarrow> gtype" where
  "read_type s =
     (let nonNull = s \<noteq> [] \<and> last s = CHR ''!''; s' = (if nonNull then butlast s else s) in
      case s' of
        [] \<Rightarrow> TNil
      | c # r \<Rightarrow> if c = CHR ''['' then TList (read_type (butlast r)) nonNull else TNamed s' nonNull)"
  by pat_completeness auto
termination
proof (relation "measure length")
  fix s :: string and x nonNull s' c r
  assume "s' = (if nonNull then butlast s else s)" "s' = c # r"
  then have "length (c # r) \<le> length s" by (auto simp: length_butlast)
  then show "(butlast r, s) \<in> measure length" by simp
qed simp

declare read_type.simps [simp del]

text \<open>The text of a type in a signature or a variable definition is GraphQL syntax for that type: reading it gives the type back.\<close>

lemma read_formatType:
  assumes "names_ok t"
  shows "read_type (formatType t) = t"
  using assms
proof (induction t)
  case (TList t nonNull)
  then show ?case by (subst read_type.simps) (simp add: Let_def butlast_append)
next
  case (TNamed name nonNull)
  then have i: "name \<noteq> []" "CHR ''!'' \<notin> set name" "CHR ''['' \<notin> set name" using ident_chars [of name] by simp_all
  obtain c r where name: "name = c # r" "c \<noteq> CHR ''[''" using i by (cases name) auto
  have "last name \<noteq> CHR ''!''" using i(2) last_in_set [OF i(1)] by metis
  then show ?case using name by (subst read_type.simps) (auto simp: Let_def)
qed simp

lemma read_formatType_witness: "read_type ''[[Project!]]!'' = TList (TList (TNamed ''Project'' True) False) True"
proof -
  have "names_ok (TList (TList (TNamed ''Project'' True) False) True)"
    by (simp add: ident_def alnum_def is_lower_def is_digit_def lower_char_def)
  from read_formatType [OF this] show ?thesis by simp
qed

end
