(* ===== verification/GraphqlExamples.thy ===== *)
theory GraphqlExamples
  imports GraphqlTyping "HOL-Library.Multiset"
begin

text \<open>
  The request and the response of an operation show the same selection: the text of the request can be read back, and the response
  has a value for every selected field. The operations of a schema are its root fields, in order.
\<close>

section \<open>Selections can be read back\<close>

text \<open>A reader of selection sets, line by line: \<open>name\<close>, \<open>name {\<close>, \<open>... on Type {\<close> and \<open>}\<close>. The stack holds the open selections.\<close>

datatype shape = Shape string "shape list"

definition read_line :: "(string \<times> shape list) list \<Rightarrow> string \<Rightarrow> (string \<times> shape list) list" where
  "read_line st l =
     (let s = dropWhile (\<lambda>c. c = CHR '' '') l in
      if s = ''}'' then (case st of (label, ss) # (label', ss') # st' \<Rightarrow> (label', ss' @ [Shape label ss]) # st' | _ \<Rightarrow> [])
      else if HasSuffix s '' {'' then (take (length s - 2) s, []) # st
      else (case st of (label, ss) # st' \<Rightarrow> (label, ss @ [Shape s []]) # st' | [] \<Rightarrow> []))"

definition read_selection :: "string \<Rightarrow> shape list option" where
  "read_selection text = (case foldl read_line [([], [])] (Split text CHR 0x0A) of [(label, ss)] \<Rightarrow> Some ss | _ \<Rightarrow> None)"

fun shapes :: "selNode \<Rightarrow> shape list" where
  "shapes (Sel name children frags leaf rt) =
     (if name = [] then map (\<lambda>(k, ss). Shape (''... on '' @ k) ss) (sorted_entries (map (\<lambda>(k, c). (k, concat (map shapes c))) frags))
      else [Shape name (concat (map shapes children))])"

text \<open>The nodes that the selection builder makes from a schema whose names are identifiers.\<close>

inductive well_named :: "selNode \<Rightarrow> bool" where
  field: "ident name \<Longrightarrow> (\<And>c. c \<in> set children \<Longrightarrow> well_named c) \<Longrightarrow> well_named (Sel name children [] (children = []) rt)"
| fragments: "frags \<noteq> [] \<Longrightarrow> (\<And>k ns. (k, ns) \<in> set frags \<Longrightarrow> ident k) \<Longrightarrow>
    (\<And>k ns n. (k, ns) \<in> set frags \<Longrightarrow> n \<in> set ns \<Longrightarrow> well_named n) \<Longrightarrow> well_named (Sel [] [] frags False TNil)"

inductive_cases well_named_field: "well_named (Sel (c # name) children frags leaf rt)"

fun lines_of :: "nat \<Rightarrow> selNode \<Rightarrow> string list" where
  "lines_of ind (Sel name children frags leaf rt) =
     (if name = [] then concat (map (\<lambda>(k, ls). [spaces ind @ ''... on '' @ k @ '' {''] @ ls @ [spaces ind @ ''}''])
        (sorted_entries (map (\<lambda>(k, c). (k, concat (map (lines_of (ind + 2)) c))) frags)))
      else if children = [] then [spaces ind @ name]
      else [spaces ind @ name @ '' {''] @ concat (map (lines_of (ind + 2)) children) @ [spaces ind @ ''}''])"

lemma Join_append: "xs \<noteq> [] \<Longrightarrow> ys \<noteq> [] \<Longrightarrow> Join (xs @ ys) sep = Join xs sep @ sep @ Join ys sep"
  by (induction xs sep rule: Join.induct) (auto simp: neq_Nil_conv)

lemma Join_concat: "(\<And>x. x \<in> set xs \<Longrightarrow> f x \<noteq> []) \<Longrightarrow> Join (map (\<lambda>x. Join (f x) sep) xs) sep = Join (concat (map f xs)) sep"
proof (induction xs)
  case (Cons x xs)
  then show ?case by (cases xs) (auto simp: Join_append)
qed simp

lemma Split_Join:
  assumes "ls \<noteq> []" and "\<And>l. l \<in> set ls \<Longrightarrow> c \<notin> set l"
  shows "Split (Join ls [c]) c = ls"
  using assms by (induction ls "[c]" rule: Join.induct) (auto simp: Split_single Split_cons)

lemma sorted_entries_map: "sorted_entries (map (\<lambda>(k, v). (k, f v)) kvs) = map (\<lambda>(k, v). (k, f v)) (sorted_entries kvs)"
proof -
  have ins: "map (\<lambda>(k, v). (k, f v)) (insort_key fst (k, v) kvs) = insort_key fst (k, f v) (map (\<lambda>(k, v). (k, f v)) kvs)" for k v kvs
    by (induction kvs) auto
  show ?thesis unfolding sorted_entries_def by (induction kvs) (auto simp: ins)
qed

lemma ident_not_Nil [simp]: "\<not> ident []"
  by (simp add: ident_def)

lemma lines_not_Nil:
  assumes "well_named n"
  shows "lines_of ind n \<noteq> []"
  using assms
proof (cases rule: well_named.cases)
  case (field name children rt)
  then show ?thesis by (cases name) auto
next
  case (fragments frags)
  then show ?thesis by (cases frags) (auto simp: split_beta)
qed

lemma ident_visible: "ident s \<Longrightarrow> c \<in> set s \<Longrightarrow> \<not> isSpace c"
  by (auto simp: ident_def list_all_iff alnum_def is_lower_def is_digit_def lower_char_def isSpace_def Let_def split: if_splits)

definition visible :: "string \<Rightarrow> bool" where
  "visible s \<longleftrightarrow> (\<exists>c\<in>set s. \<not> isSpace c)"

lemma TrimSpace_visible: "TrimSpace s \<noteq> [] \<longleftrightarrow> visible s"
proof (cases "dropWhile isSpace s")
  case Nil
  then show ?thesis by (auto simp: TrimSpace_def visible_def dropWhile_eq_Nil_conv dest: set_dropWhileD)
next
  case (Cons c r)
  then have "\<not> isSpace c" using hd_dropWhile [of isSpace s] by simp
  moreover have "c \<in> set s" using Cons set_dropWhileD [of c isSpace s] by simp
  ultimately show ?thesis using Cons by (auto simp: TrimSpace_def visible_def dropWhile_eq_Nil_conv)
qed

lemma set_Join: "l \<in> set ls \<Longrightarrow> set l \<subseteq> set (Join ls sep)"
  by (induction ls sep rule: Join.induct) auto

lemma lines_visible:
  assumes "well_named n"
  shows "\<exists>l\<in>set (lines_of ind n). visible l"
  using assms
proof (cases rule: well_named.cases)
  case (field name children rt)
  then obtain c r where "name = c # r" by (cases name) auto
  with field have "visible (spaces ind @ name)" "visible (spaces ind @ name @ '' {'')" using ident_visible [of name c] by (auto simp: visible_def)
  then show ?thesis using field by auto
next
  case (fragments frags)
  then obtain k c r where "frags = (k, c) # r" by (cases frags) auto
  moreover have "visible (spaces ind @ ''... on '' @ k @ '' {'')" by (auto simp: visible_def isSpace_def)
  ultimately show ?thesis using fragments by (auto simp: Bex_def)
qed

lemma children_visible:
  assumes "children \<noteq> []" and "\<And>c. c \<in> set children \<Longrightarrow> well_named c"
  shows "visible (Join (concat (map (lines_of ind) children)) newline)"
proof -
  obtain c where c: "c \<in> set children" using assms(1) by (cases children) auto
  then obtain l where "l \<in> set (lines_of ind c)" "visible l" using lines_visible [OF assms(2)] by blast
  then show ?thesis using c set_Join [of l "concat (map (lines_of ind) children)" newline] by (auto simp: visible_def)
qed

lemma Join_frame: "L \<noteq> [] \<Longrightarrow> Join ([a] @ L @ [b]) sep = a @ sep @ Join L sep @ sep @ b"
  using Join_append [of "[a]" "L @ [b]" sep] Join_append [of L "[b]" sep] by simp

lemma Join_children:
  assumes "\<And>c. c \<in> set ns \<Longrightarrow> well_named c" and "\<And>c. c \<in> set ns \<Longrightarrow> renderNode ind c = Join (lines_of ind c) newline"
  shows "Join (map (renderNode ind) ns) newline = Join (concat (map (lines_of ind) ns)) newline"
proof -
  have eq: "map (renderNode ind) ns = map (\<lambda>x. Join (lines_of ind x) newline) ns" using assms(2) by simp
  show ?thesis unfolding eq by (rule Join_concat) (use lines_not_Nil assms(1) in blast)
qed

lemma render_lines: "well_named n \<Longrightarrow> renderNode ind n = Join (lines_of ind n) newline"
proof (induction arbitrary: ind rule: well_named.induct)
  case (field name children rt)
  show ?case
  proof (cases "children = []")
    case False
    let ?L = "concat (map (lines_of (ind + 2)) children)"
    have body: "Join (map (renderNode (ind + 2)) children) newline = Join ?L newline" using field by (intro Join_children) auto
    have "?L \<noteq> []" using False field(2) lines_not_Nil by (cases children) auto
    moreover have "TrimSpace (Join ?L newline) \<noteq> []" unfolding TrimSpace_visible by (rule children_visible [OF False field(2)])
    ultimately show ?thesis using False field(1) body Join_frame [of ?L] by (cases name) (auto simp: Let_def)
  qed (use field in \<open>cases name; auto\<close>)
next
  case (fragments frags)
  let ?open = "\<lambda>k. spaces ind @ ''... on '' @ k @ '' {''" and ?L = "\<lambda>c. concat (map (lines_of (ind + 2)) c)" and ?close = "spaces ind @ ''}''"
  have one: "?open k @ newline @ (let child = Join (map (renderNode (ind + 2)) c) newline in if TrimSpace child \<noteq> [] then child @ newline else []) @ ?close
      = Join ([?open k] @ ?L c @ [?close]) newline" if "(k, c) \<in> set frags" for k c
  proof (cases "c = []")
    case False
    have body: "Join (map (renderNode (ind + 2)) c) newline = Join (?L c) newline" using that fragments(3,4) by (intro Join_children) auto
    have "?L c \<noteq> []" using False fragments(3) [OF that] lines_not_Nil by (cases c) auto
    moreover have "TrimSpace (Join (?L c) newline) \<noteq> []"
      unfolding TrimSpace_visible using False fragments(3) [OF that] by (intro children_visible) auto
    ultimately show ?thesis unfolding body using Join_frame [of "?L c"] by (simp add: Let_def)
  qed (simp add: TrimSpace_def)
  have "renderNode ind (Sel [] [] frags False TNil) =
      Join (map (\<lambda>(k, c). ?open k @ newline @ (let child = Join (map (renderNode (ind + 2)) c) newline in
        if TrimSpace child \<noteq> [] then child @ newline else []) @ ?close) (sorted_entries frags)) newline"
    using fragments(1) by (simp add: sorted_entries_map) (simp add: comp_def split_def Let_def cong: if_cong)
  also have "\<dots> = Join (map (\<lambda>(k, c). Join ([?open k] @ ?L c @ [?close]) newline) (sorted_entries frags)) newline"
    using one by (intro arg_cong2 [where f = Join] map_cong) auto
  also have "\<dots> = Join (concat (map (\<lambda>(k, c). [?open k] @ ?L c @ [?close]) (sorted_entries frags))) newline"
    using Join_concat [of "sorted_entries frags" "\<lambda>(k, c). [?open k] @ ?L c @ [?close]" newline] by (simp add: split_def)
  also have "\<dots> = Join (lines_of ind (Sel [] [] frags False TNil)) newline"
    by (simp add: sorted_entries_map) (simp add: comp_def split_def)
  finally show ?case .
qed

lemma spaces_set: "c \<in> set (spaces n) \<Longrightarrow> c = CHR '' ''"
  by (simp add: spaces_def)

lemma lines_one_line: "well_named n \<Longrightarrow> l \<in> set (lines_of ind n) \<Longrightarrow> CHR 0x0A \<notin> set l"
proof (induction arbitrary: ind l rule: well_named.induct)
  case (field name children rt)
  then show ?case using ident_chars(3) [OF field(1)] by (cases name) (auto dest: spaces_set split: if_splits)
next
  case (fragments frags)
  then show ?case using ident_chars(3) [OF fragments(2)] by (auto simp: sorted_entries_map dest: spaces_set)
qed

lemma read_name:
  assumes "ident name"
  shows "read_line ((label, ss) # st) (spaces ind @ name) = (label, ss @ [Shape name []]) # st"
    and "read_line st (spaces ind @ name @ '' {'') = (name, []) # st"
    and "read_line st (spaces ind @ ''... on '' @ name @ '' {'') = (''... on '' @ name, []) # st"
proof -
  note i = ident_chars [OF assms]
  obtain c r where c: "name = c # r" "c \<noteq> CHR '' ''" using i by (cases name) auto
  have drop: "dropWhile (\<lambda>c. c = CHR '' '') (spaces ind @ s) = dropWhile (\<lambda>c. c = CHR '' '') s" for s
    by (simp add: spaces_def dropWhile_append)
  have "\<not> HasSuffix name '' {''"
  proof
    assume "HasSuffix name '' {''"
    then have "CHR '' '' \<in> set (drop (length name - 2) name)" by (simp add: HasSuffix_def numeral_2_eq_2)
    then show False using i(2) in_set_dropD by metis
  qed
  moreover have "name \<noteq> ''}''" using i(8) by auto
  ultimately show "read_line ((label, ss) # st) (spaces ind @ name) = (label, ss @ [Shape name []]) # st"
    using c by (auto simp: read_line_def drop Let_def)
  have suf: "HasSuffix (s @ '' {'') '' {''" for s by (simp add: HasSuffix_def)
  show "read_line st (spaces ind @ name @ '' {'') = (name, []) # st"
    using c suf [of name] by (simp add: read_line_def drop Let_def)
  show "read_line st (spaces ind @ ''... on '' @ name @ '' {'') = (''... on '' @ name, []) # st"
    using suf [of "''... on '' @ name"] by (simp add: read_line_def drop Let_def)
qed

lemma read_close: "read_line ((label, ss) # (label', ss') # st) (spaces ind @ ''}'') = (label', ss' @ [Shape label ss]) # st"
  by (simp add: read_line_def spaces_def dropWhile_append Let_def)

lemma read_children:
  assumes "\<And>c label ss st. c \<in> set ns \<Longrightarrow> foldl read_line ((label, ss) # st) (lines_of ind c) = (label, ss @ shapes c) # st"
  shows "foldl read_line ((label, ss) # st) (concat (map (lines_of ind) ns)) = (label, ss @ concat (map shapes ns)) # st"
  using assms by (induction ns arbitrary: ss) auto

lemma read_lines: "well_named n \<Longrightarrow> foldl read_line ((label, ss) # st) (lines_of ind n) = (label, ss @ shapes n) # st"
proof (induction arbitrary: label ss st ind rule: well_named.induct)
  case (field name children rt)
  then have "foldl read_line ((name, []) # (label, ss) # st) (concat (map (lines_of (ind + 2)) children)) =
      (name, concat (map shapes children)) # (label, ss) # st"
    by (subst read_children) auto
  then show ?case using field(1) read_name [OF field(1)] read_close by (cases name) auto
next
  case (fragments frags)
  have one: "foldl read_line ((label, ss) # st) ([spaces ind @ ''... on '' @ k @ '' {''] @ concat (map (lines_of (ind + 2)) c) @ [spaces ind @ ''}'']) =
      (label, ss @ [Shape (''... on '' @ k) (concat (map shapes c))]) # st" if "(k, c) \<in> set frags" for k c ss
  proof -
    have "foldl read_line ((''... on '' @ k, []) # (label, ss) # st) (concat (map (lines_of (ind + 2)) c)) =
        (''... on '' @ k, concat (map shapes c)) # (label, ss) # st"
      using fragments(4) [OF that] by (subst read_children) auto
    then show ?thesis using read_name(3) [OF fragments(2) [OF that], of "(label, ss) # st" ind] read_close by simp
  qed
  have "foldl read_line ((label, ss) # st) (concat (map (\<lambda>(k, c). [spaces ind @ ''... on '' @ k @ '' {''] @ concat (map (lines_of (ind + 2)) c) @ [spaces ind @ ''}'']) fs)) =
      (label, ss @ map (\<lambda>(k, c). Shape (''... on '' @ k) (concat (map shapes c))) fs) # st" if "set fs \<subseteq> set frags" for fs
    using that
  proof (induction fs arbitrary: ss)
    case (Cons f fs)
    obtain k c where f: "f = (k, c)" by fastforce
    then show ?case using Cons.IH [of "ss @ [Shape (''... on '' @ k) (concat (map shapes c))]"] Cons.prems one [of k c ss] by simp
  qed simp
  from this [of "sorted_entries frags"] show ?case
    by (simp add: sorted_entries_map) (simp add: comp_def split_def)
qed

lemma read_renderSelectionSet:
  assumes "ns \<noteq> []" and "\<And>n. n \<in> set ns \<Longrightarrow> well_named n"
  shows "read_selection (renderSelectionSet ns ind) = Some (concat (map shapes ns))"
proof -
  let ?L = "concat (map (lines_of ind) ns)"
  have body: "renderSelectionSet ns ind = Join ?L [CHR 0x0A]"
    unfolding renderSelectionSet_def newline_def [symmetric] using assms(2) by (intro Join_children render_lines)
  have "?L \<noteq> []" using assms lines_not_Nil by (cases ns) auto
  then have "Split (Join ?L [CHR 0x0A]) CHR 0x0A = ?L" using lines_one_line assms(2) by (intro Split_Join) auto
  moreover have "foldl read_line [([], [])] ?L = [([], concat (map shapes ns))]" using read_lines assms(2) by (subst read_children) auto
  ultimately show ?thesis by (simp add: read_selection_def body)
qed

text \<open>What loading a schema guarantees: names are identifiers, and the members of a union are types of the schema.\<close>

definition schema_ok :: "types \<Rightarrow> bool" where
  "schema_ok types \<longleftrightarrow> (\<forall>b def. types b = Some def \<longrightarrow> ident b \<and> (\<forall>f\<in>set (tdFields def). ident (fdName f)) \<and>
     (tdKind def = KUnion \<longrightarrow> tdTypes def \<noteq> [] \<and> set (tdTypes def) \<subseteq> dom types))"

lemma put_all_Nil: "put_all kvs = [] \<longleftrightarrow> kvs = []"
  using put_all_keys(2) [of kvs] by (metis image_is_empty set_empty)

lemma build_named:
  "schema_ok types \<Longrightarrow> n \<in> set (buildSelectionTree types t opts V) \<Longrightarrow> well_named n"
  "schema_ok types \<Longrightarrow> types b = Some def \<Longrightarrow> n \<in> set (buildObjectSelection types def opts V) \<Longrightarrow> well_named n"
proof (induction types t opts V and types def opts V arbitrary: n and b n rule: buildSelectionTree_buildObjectSelection.induct)
  case (1 types t opts visited)
  let ?b = "getBaseTypeName t"
  from "1.prems"(2) obtain def where live: "?b \<noteq> []" "?b \<notin> visited" "types ?b = Some def" "0 < MaxDepth opts"
      "tdKind def \<notin> {KScalar, KEnum}"
    by (auto simp: buildSelectionTree.simps [of types t] Let_def split: option.splits if_splits)
  show ?case
  proof (cases "tdKind def = KUnion")
    case True
    let ?ms = "concat (map (\<lambda>mt. case types mt of None \<Rightarrow> []
       | Some mtDef \<Rightarrow> [(mt, buildObjectSelection types mtDef (deeper opts) (insert ?b visited))]) (take 2 (tdTypes def)))"
    have n: "n = Sel [] [] (put_all ?ms) False TNil"
      using "1.prems"(2) live True by (auto simp: buildSelectionTree.simps [of types t] Let_def)
    have ok: "tdTypes def \<noteq> []" "set (tdTypes def) \<subseteq> dom types" using "1.prems"(1) live True by (auto simp: schema_ok_def)
    have mem: "ident k \<and> (\<forall>n\<in>set ns. well_named n)" if ms: "(k, ns) \<in> set ?ms" for k ns
    proof -
      from ms obtain mt where mt: "k \<in> set (take 2 (tdTypes def))" "types k = Some mt"
          "ns = buildObjectSelection types mt (deeper opts) (insert ?b visited)" by (auto split: option.splits dest!: sym [of "Some _"])
      moreover have "\<forall>n\<in>set ns. well_named n" using "1.IH"(2) [OF refl _ _ live(3)] live mt True "1.prems"(1) by auto
      ultimately show ?thesis using "1.prems"(1) by (auto simp: schema_ok_def)
    qed
    obtain m ms where "tdTypes def = m # ms" "m \<in> dom types" using ok by (cases "tdTypes def") auto
    then have "?ms \<noteq> []" by auto
    then show ?thesis unfolding n using mem by (intro well_named.fragments) (auto simp: put_all_Nil dest!: put_all_mem)
  next
    case False
    then show ?thesis using "1.IH"(1) [OF refl _ _ live(3)] "1.prems" live
      by (auto simp: buildSelectionTree.simps [of types t] Let_def split: if_splits)
  qed
next
  case (2 types def opts visited)
  have named: "ident (fdName f)" if "f \<in> set (tdFields def)" for f using that "2.prems"(1,2) by (auto simp: schema_ok_def)
  from "2.prems"(3) show ?case
    unfolding buildObjectSelection.simps [of types def] set_append Un_iff
  proof
    assume "n \<in> set (limited (MaxScalarFields opts) (map (\<lambda>f. Sel (fdName f) [] [] True (fdType f)) (filter (kind_in types {KScalar, KEnum}) (tdFields def))))"
    then show ?thesis using named well_named.field [of _ "[]"] by (auto dest!: limited_subset)
  next
    assume n: "n \<in> set (if 1 < MaxDepth opts \<and> 0 < MaxObjectFields opts then
        limited (MaxObjectFields opts) (map (\<lambda>f.
          let child = buildSelectionTree types (fdType f) (deeper opts) visited in Sel (fdName f) child [] (child = []) (fdType f))
          (filter (kind_in types {KObject, KInterface, KUnion}) (tdFields def)))
      else [])"
    then have deep: "1 < MaxDepth opts \<and> 0 < MaxObjectFields opts" by (auto split: if_splits)
    from n obtain f where f: "f \<in> set (tdFields def)" "kind_in types {KObject, KInterface, KUnion} f"
        "n = (let child = buildSelectionTree types (fdType f) (deeper opts) visited in Sel (fdName f) child [] (child = []) (fdType f))"
      using deep by (auto dest!: limited_subset)
    then show ?thesis unfolding f(3) Let_def using named "2.IH" [OF deep] "2.prems"(1) by (intro well_named.field) auto
  qed
qed

text \<open>C25. The example request shows the selection: in a schema whose names are identifiers the text of the selection set parses, and
  what it parses to is the selection tree, field by field and fragment by fragment, at any indentation.\<close>

theorem request_selection_roundtrip:
  assumes "schema_ok types" and "buildSelectionTree types t opts visited \<noteq> []"
  shows "read_selection (renderSelectionSet (buildSelectionTree types t opts visited) ind) =
    Some (concat (map shapes (buildSelectionTree types t opts visited)))"
  using assms(2) build_named(1) [OF assms(1)] by (rule read_renderSelectionSet)

section \<open>An example\<close>

definition ex_field :: "string \<Rightarrow> gtype \<Rightarrow> field_def" where
  "ex_field name t = \<lparr>fdName = name, fdDescription = [], fdArguments = [], fdType = t, fdDirectives = []\<rparr>"

definition ex_object :: "field_def list \<Rightarrow> type_def" where
  "ex_object fs = \<lparr>tdKind = KObject, tdFields = fs, tdTypes = [], tdEnumValues = []\<rparr>"

definition ex_types :: types where
  "ex_types = [''ID'' \<mapsto> \<lparr>tdKind = KScalar, tdFields = [], tdTypes = [], tdEnumValues = []\<rparr>,
     ''User'' \<mapsto> ex_object [ex_field ''id'' (TNamed ''ID'' True), ex_field ''team'' (TNamed ''Team'' False)],
     ''Team'' \<mapsto> ex_object [ex_field ''id'' (TNamed ''ID'' True), ex_field ''owner'' (TNamed ''User'' True)]]"

lemma ex_types_simps [simp]:
  "ex_types ''ID'' = Some \<lparr>tdKind = KScalar, tdFields = [], tdTypes = [], tdEnumValues = []\<rparr>"
  "ex_types ''User'' = Some (ex_object [ex_field ''id'' (TNamed ''ID'' True), ex_field ''team'' (TNamed ''Team'' False)])"
  "ex_types ''Team'' = Some (ex_object [ex_field ''id'' (TNamed ''ID'' True), ex_field ''owner'' (TNamed ''User'' True)])"
  by (simp_all add: ex_types_def)

lemma ex_schema_ok: "schema_ok ex_types"
  by (auto simp: schema_ok_def ex_types_def ex_object_def ex_field_def ident_def alnum_def is_lower_def is_digit_def lower_char_def split: if_splits)

lemma ex_selection:
  "buildSelectionTree ex_types (TNamed ''User'' False) example_options {} =
    [Sel ''id'' [] [] True (TNamed ''ID'' True),
     Sel ''team'' [Sel ''id'' [] [] True (TNamed ''ID'' True), Sel ''owner'' [] [] True (TNamed ''User'' True)] [] False (TNamed ''Team'' False)]"
  by (simp add: buildSelectionTree.simps [of ex_types "TNamed ''User'' False"] buildSelectionTree.simps [of ex_types "TNamed ''Team'' False"]
      buildSelectionTree.simps [of ex_types "TNamed ''User'' True"] buildObjectSelection.simps ex_object_def ex_field_def example_options_def
      limited_def kind_in_def deeper_def Let_def)

theorem request_selection_roundtrip_witness:
  "read_selection (renderSelectionSet (buildSelectionTree ex_types (TNamed ''User'' False) example_options {}) 2) =
    Some [Shape ''id'' [], Shape ''team'' [Shape ''id'' [], Shape ''owner'' []]]"
  using request_selection_roundtrip [OF ex_schema_ok, of "TNamed ''User'' False" example_options "{}" 2] by (simp add: ex_selection)

section \<open>Responses\<close>

lemma concat_singles: "(\<And>x. x \<in> set xs \<Longrightarrow> f x = [g x]) \<Longrightarrow> concat (map f xs) = map g xs"
  by (induction xs) auto

lemma typed_name:
  assumes "typed_node types V d def n"
  obtains f where "f \<in> set (tdFields def)" and "FieldName n = fdName f"
  using assms by (cases rule: typed_node.cases) auto

text \<open>The top level of the example response mirrors the selection: on an object or interface type its example is an object with exactly the
  selected fields.\<close>

lemma response_mirrors_selection:
  assumes "schema_ok types" and "types b = Some def" and "tdKind def \<in> {KObject, KInterface}" and "scalar_example b = None"
    and "sel = buildSelectionTree types (TNamed b nonNull) opts V" and "sel \<noteq> []" and "0 < depth"
  shows "\<exists>kvs. exampleResponseValue types (TNamed b nonNull) sel depth = VObj kvs \<and> distinct (map fst kvs) \<and> fst ` set kvs = FieldName ` set sel"
proof -
  have "typed_sel types V (nat (MaxDepth opts)) b sel" using build_typed(1) [of types V opts "TNamed b nonNull"] assms(5) by simp
  then have typed: "\<exists>f\<in>set (tdFields def). FieldName n = fdName f" if "n \<in> set sel" for n
    using that assms(2,3) by (cases rule: typed_sel.cases) (auto elim!: typed_name)
  have names: "FieldName n \<noteq> []" if "n \<in> set sel" for n
    using typed [OF that] assms(1,2) unfolding schema_ok_def by (metis ident_not_Nil)
  obtain n ns where sel: "sel = n # ns" using assms(6) by (cases sel) auto
  let ?index = "map_of (rev (map (\<lambda>f. (fdName f, f)) (tdFields def)))"
  let ?kvs = "concat (map (\<lambda>n. if FieldName n = [] then [] else case ?index (FieldName n) of None \<Rightarrow> []
      | Some fd \<Rightarrow> [(FieldName n, exampleResponseValue types (fdType fd) (Children n) (depth - 1))]) sel)"
  have found: "?index (FieldName n) \<noteq> None" if "n \<in> set sel" for n
    using typed [OF that] by (auto simp: map_of_eq_None_iff image_image)
  have "exampleResponseValue types (TNamed b nonNull) sel depth = VObj (put_all ?kvs)"
    using assms(2-4,7) names [of n] sel by (auto simp: exampleResponseValue.simps(3) objectFromSelection.simps Let_def)
  moreover have "?kvs = map (\<lambda>n. (FieldName n, exampleResponseValue types (fdType (the (?index (FieldName n)))) (Children n) (depth - 1))) sel"
    by (rule concat_singles) (use found names in \<open>force split: option.split\<close>)
  then have "fst ` set ?kvs = FieldName ` set sel" by (simp add: image_image)
  ultimately show ?thesis using put_all_keys [of ?kvs] by auto
qed

lemma response_mirrors_selection_witness:
  "\<exists>kvs. exampleResponseValue ex_types (TNamed ''User'' False) (buildSelectionTree ex_types (TNamed ''User'' False) example_options {}) 3 = VObj kvs \<and>
     fst ` set kvs = {''id'', ''team''}"
  using response_mirrors_selection [OF ex_schema_ok, of "''User''" _ "buildSelectionTree ex_types (TNamed ''User'' False) example_options {}" False example_options "{}" 3]
  by (auto simp: ex_selection ex_object_def scalar_example_def)

section \<open>Limits of the examples\<close>

text \<open>A union has no fields of its own, so the example response of an operation that returns one is always the empty object.\<close>

lemma union_response_empty:
  assumes "types b = Some def" and "tdKind def = KUnion" and "tdFields def = []" and "scalar_example b = None"
  shows "exampleResponseValue types (TNamed b nonNull) sel depth = VObj []"
proof -
  have "objectFromSelection types b s d = VObj (put_all (concat (map (\<lambda>n. []) s)))" for s d
    unfolding objectFromSelection.simps using assms(1,3) by (simp add: Let_def cong: if_cong)
  moreover have "concat (map (\<lambda>n. []) s) = ([] :: (string \<times> val) list)" for s :: "selNode list" by (induction s) auto
  ultimately have "objectFromSelection types b s d = VObj []" for s d by (simp add: put_all_def)
  then show ?thesis unfolding exampleResponseValue.simps(3) using assms by (simp split: list.split)
qed

text \<open>A recursive field is selected without a selection of its own: the request example then has a field of an object type
  with no sub-selection, which is not a valid GraphQL request.\<close>

lemma recursive_field_bare:
  assumes "f \<in> set (tdFields def)" and "kind_in types {KObject, KInterface, KUnion} f" and "getBaseTypeName (fdType f) \<in> visited"
    and "1 < MaxDepth opts" and "length (tdFields def) \<le> nat (MaxObjectFields opts)"
  shows "Sel (fdName f) [] [] True (fdType f) \<in> set (buildObjectSelection types def opts visited)"
proof -
  let ?objects = "filter (kind_in types {KObject, KInterface, KUnion}) (tdFields def)"
  have "length ?objects \<le> nat (MaxObjectFields opts)" using assms(5) length_filter_le [of "kind_in types {KObject, KInterface, KUnion}" "tdFields def"] by linarith
  moreover have "0 < MaxObjectFields opts" using assms(1,5) by (cases "tdFields def") auto
  moreover have "buildSelectionTree types (fdType f) (deeper opts) visited = []"
    using assms(3) by (simp add: buildSelectionTree.simps [of types "fdType f"] Let_def)
  moreover have "f \<in> set ?objects" using assms(1,2) by simp
  ultimately show ?thesis using assms(4) by (subst buildObjectSelection.simps) (auto simp: limited_def Let_def image_iff intro!: bexI [of _ f])
qed

lemma recursive_field_bare_witness:
  "Sel ''owner'' [] [] True (TNamed ''User'' True) \<in> set (buildObjectSelection ex_types (the (ex_types ''Team'')) example_options {''User'', ''Team''})"
  using recursive_field_bare [of "ex_field ''owner'' (TNamed ''User'' True)" "the (ex_types ''Team'')" ex_types "{''User'', ''Team''}" example_options]
  by (simp add: ex_object_def ex_field_def kind_in_def example_options_def)

section \<open>Operations\<close>

definition root_fields :: "type_def option \<Rightarrow> string \<Rightarrow> (string \<times> string) list" where
  "root_fields td kind = (case td of None \<Rightarrow> []
     | Some d \<Rightarrow> map (\<lambda>f. (kind, fdName f)) (filter (\<lambda>f. \<not> HasPrefix (fdName f) ''__'') (tdFields d)))"

lemma extract_root_fields: "map (\<lambda>p. (poKind p, poName p)) (extractOperationsFromType types td kind) = root_fields td kind"
  by (simp add: extractOperationsFromType_def root_fields_def parseFieldAsOperation_def Let_def comp_def split: option.splits)

lemma sort_twice: "sorted_wrt (\<lambda>p q. poKind p < poKind q \<or> poKind p = poKind q \<and> poName p \<le> poName q) (sort_operations ops)"
  unfolding sort_operations_def using sorted_sort_key [of poName ops] by (intro sorted_wrt_sort_key) (simp add: sorted_map)

text \<open>C26. The operations of a schema are exactly the fields of its root types other than those of introspection, each once for
  each declaration, sorted by kind and then by name.\<close>

theorem ParseGraphQLSchemas_operations:
  assumes "ParseGraphQLSchemas LoadSchema contents = Inr ops"
  shows "\<exists>s. LoadSchema (map (\<lambda>(i, c). (''schema_'' @ decimal i @ ''.graphql'', c)) (enumerate 0 contents)) = Inr s \<and>
    mset (map (\<lambda>p. (poKind p, poName p)) ops) =
      mset (root_fields (scQuery s) ''Query'' @ root_fields (scMutation s) ''Mutation'' @ root_fields (scSubscription s) ''Subscription'') \<and>
    sorted_wrt (\<lambda>p q. poKind p < poKind q \<or> poKind p = poKind q \<and> poName p \<le> poName q) ops"
proof -
  let ?files = "map (\<lambda>(i, c). (''schema_'' @ decimal i @ ''.graphql'', c)) (enumerate 0 contents)"
  obtain s where s: "LoadSchema ?files = Inr s" and ops: "ops = sort_operations
      (extractOperationsFromType (scTypes s) (scQuery s) ''Query'' @ extractOperationsFromType (scTypes s) (scMutation s) ''Mutation'' @
       extractOperationsFromType (scTypes s) (scSubscription s) ''Subscription'')"
    using assms by (auto simp: ParseGraphQLSchemas_def split: if_splits sum.splits)
  have "mset (map g (sort_operations xs)) = mset (map g xs)" for g :: "parsedGraphQLOperation \<Rightarrow> string \<times> string" and xs
    by (simp only: sort_operations_def mset_map mset_sort)
  then have "mset (map (\<lambda>p. (poKind p, poName p)) ops) = mset (map (\<lambda>p. (poKind p, poName p))
      (extractOperationsFromType (scTypes s) (scQuery s) ''Query'' @ extractOperationsFromType (scTypes s) (scMutation s) ''Mutation'' @
       extractOperationsFromType (scTypes s) (scSubscription s) ''Subscription''))"
    unfolding ops by blast
  then show ?thesis using s sort_twice unfolding ops map_append extract_root_fields by blast
qed

lemma mset_one: "mset xs = mset [x] \<Longrightarrow> xs = [x]"
  by simp

definition ex_load :: "(string \<times> string) list \<Rightarrow> schema result" where
  "ex_load files = Inr \<lparr>scTypes = ex_types, scQuery = Some \<lparr>tdKind = KObject, tdFields = [ex_field ''__schema'' (TNamed ''ID'' True), ex_field ''me'' (TNamed ''User'' False)],
     tdTypes = [], tdEnumValues = []\<rparr>, scMutation = None, scSubscription = None\<rparr>"

theorem ParseGraphQLSchemas_operations_witness:
  "\<exists>ops. ParseGraphQLSchemas ex_load [''type User''] = Inr ops \<and> map (\<lambda>p. (poKind p, poName p)) ops = [(''Query'', ''me'')]"
proof -
  obtain ops where ops: "ParseGraphQLSchemas ex_load [''type User''] = Inr ops" by (simp add: ParseGraphQLSchemas_def ex_load_def)
  have "mset (map (\<lambda>p. (poKind p, poName p)) ops) = mset [(''Query'', ''me'')]"
    using ParseGraphQLSchemas_operations [OF ops] by (auto simp: ex_load_def root_fields_def ex_field_def HasPrefix_def)
  then have "map (\<lambda>p. (poKind p, poName p)) ops = [(''Query'', ''me'')]" by (rule mset_one)
  with ops show ?thesis by (intro exI [of _ ops] conjI)
qed

end
