(* ===== verification/Grpc.thy ===== *)
theory Grpc
  imports GoText "HOL-Library.Multiset"
begin

text \<open>
  \<open>internal/specparser/grpc.go\<close>: from the files of a protobuf description, one entry for each RPC method, with example messages.
  The parser of \<open>protocompile\<close> is a parameter; the syntax tree has the nodes that the code looks at.
\<close>

section \<open>Syntax trees (protocompile/ast)\<close>

datatype field_type = NoType | IdentType string | CompoundType "string list" | OtherType

record field_node =
  fnName :: string
  fnType :: field_type
  fnLabel :: "string option"

datatype message_node = Message string "message_decl list"
  and message_decl = FieldDecl field_node | MessageDecl message_node | OtherMessageDecl

record rpc_type =
  rtMessageType :: "string option"
  rtStream :: bool

record rpc_node =
  rpName :: string
  rpInput :: "rpc_type option"
  rpOutput :: "rpc_type option"

datatype service_decl = RPCDecl rpc_node | OtherServiceDecl

datatype file_decl =
    PackageDecl string
  | ServiceDecl string "service_decl list"
  | TopMessageDecl message_node
  | OtherDecl

type_synonym file_node = "file_decl list"

record parsedGrpcMethod =
  pmMethodID :: string
  pmPackageName :: string
  pmServiceName :: string
  pmMethodName :: string
  pmRequestType :: string
  pmResponseType :: string
  pmStreamingType :: string
  pmDescription :: string
  pmProtoSnippet :: string
  pmRequestExample :: string
  pmResponseExample :: string
  pmTags :: "string list"

record fileInfo =
  fiName :: string
  fiContent :: string
  fiNode :: file_node
  fiPkg :: string

record msgField =
  mfName :: string
  mfTypeName :: string
  mfIsList :: bool

record msgDef =
  mdFullName :: string
  mdFields :: "msgField list"

type_synonym typeIndex = "string \<rightharpoonup> msgDef"

section \<open>The index of messages\<close>

definition fieldTypeName :: "field_node \<Rightarrow> string" where
  "fieldTypeName f = (case fnType f of IdentType s \<Rightarrow> s | CompoundType parts \<Rightarrow> Join parts ''.'' | _ \<Rightarrow> [])"

primrec field_of :: "message_decl \<Rightarrow> msgField list" where
  "field_of (FieldDecl f) =
     (if fnName f = [] \<or> fieldTypeName f = [] then []
      else [\<lparr>mfName = fnName f, mfTypeName = fieldTypeName f,
             mfIsList = (case fnLabel f of None \<Rightarrow> False | Some l \<Rightarrow> EqualFold l ''repeated'')\<rparr>])"
| "field_of (MessageDecl m) = []"
| "field_of OtherMessageDecl = []"

definition extractMessageFields :: "message_decl list \<Rightarrow> msgField list" where
  "extractMessageFields decls = concat (map field_of decls)"

definition qualify :: "string \<Rightarrow> string \<Rightarrow> string" where
  "qualify pkg t = (let t = TrimPrefix (TrimSpace t) ''.'' in if pkg = [] \<or> Contains t ''.'' then t else pkg @ ''.'' @ t)"

definition clean :: "string \<Rightarrow> string" where
  "clean key = TrimSpace (TrimPrefix key ''.'')"

definition storeType :: "typeIndex \<Rightarrow> string \<Rightarrow> msgDef \<Rightarrow> typeIndex" where
  "storeType idx key def =
     (let key = clean key in
      if key = [] then idx else case idx key of None \<Rightarrow> idx(key \<mapsto> def) | Some _ \<Rightarrow> idx)"

fun indexMessageRecursive :: "typeIndex \<Rightarrow> string \<Rightarrow> string \<Rightarrow> message_node \<Rightarrow> typeIndex"
  and index_nested :: "typeIndex \<Rightarrow> string \<Rightarrow> string \<Rightarrow> message_decl list \<Rightarrow> typeIndex" where
  "indexMessageRecursive idx pkg prefix (Message name decls) =
     (let full = (if prefix \<noteq> [] then prefix @ ''.'' @ name else name);
          def = \<lparr>mdFullName = qualify pkg full, mdFields = extractMessageFields decls\<rparr>;
          idx = storeType (storeType idx name def) full def;
          idx = (if pkg \<noteq> [] then storeType (storeType idx (pkg @ ''.'' @ name) def) (pkg @ ''.'' @ full) def else idx)
      in index_nested idx pkg full decls)"
| "index_nested idx pkg full [] = idx"
| "index_nested idx pkg full (MessageDecl m # decls) = index_nested (indexMessageRecursive idx pkg full m) pkg full decls"
| "index_nested idx pkg full (_ # decls) = index_nested idx pkg full decls"

fun indexFileMessages :: "typeIndex \<Rightarrow> file_node \<Rightarrow> string \<Rightarrow> typeIndex" where
  "indexFileMessages idx [] pkg = idx"
| "indexFileMessages idx (TopMessageDecl m # decls) pkg = indexFileMessages (indexMessageRecursive idx pkg [] m) decls pkg"
| "indexFileMessages idx (_ # decls) pkg = indexFileMessages idx decls pkg"

definition buildMergedTypeIndex :: "fileInfo list \<Rightarrow> typeIndex" where
  "buildMergedTypeIndex files = foldl (\<lambda>idx f. indexFileMessages idx (fiNode f) (fiPkg f)) Map.empty files"

section \<open>Examples\<close>

definition number_types :: "string list" where
  "number_types = [''int32'', ''int64'', ''uint32'', ''uint64'', ''sint32'', ''sint64'', ''fixed32'', ''fixed64'', ''sfixed32'', ''sfixed64'']"

definition isScalarProtoType :: "string \<Rightarrow> bool" where
  "isScalarProtoType t \<longleftrightarrow> t \<in> {''string'', ''bytes''} \<or> t \<in> set number_types \<or> t \<in> {''float'', ''double''} \<or> t = ''bool'' \<or>
     t \<in> {''google.protobuf.Timestamp'', ''Timestamp''}"

definition exampleScalar :: "string \<Rightarrow> val" where
  "exampleScalar t =
     (if t = ''string'' then VStr ''example''
      else if t = ''bytes'' then VStr ''ZXhhbXBsZQ==''
      else if t \<in> set number_types then VInt 123
      else if t \<in> {''float'', ''double''} then VFloat ''123.45''
      else if t = ''bool'' then VBool True
      else if t \<in> {''google.protobuf.Timestamp'', ''Timestamp''} then VStr ''2025-01-01T00:00:00Z''
      else VStr ''example'')"

definition resolveTypeName :: "typeIndex \<Rightarrow> string \<Rightarrow> string \<Rightarrow> string" where
  "resolveTypeName idx pkg raw =
     (let raw = clean raw in
      if raw = [] then raw
      else if isScalarProtoType raw then raw
      else if idx raw \<noteq> None then raw
      else if pkg \<noteq> [] \<and> idx (pkg @ ''.'' @ raw) \<noteq> None then pkg @ ''.'' @ raw
      else raw)"

definition lookup_message :: "typeIndex \<Rightarrow> string \<Rightarrow> string \<Rightarrow> msgDef option" where
  "lookup_message idx pkg typeName =
     (case idx typeName of
        Some d \<Rightarrow> Some d
      | None \<Rightarrow> if pkg \<noteq> [] \<and> \<not> Contains typeName ''.'' then idx (pkg @ ''.'' @ typeName) else None)"

function exampleValueForType :: "typeIndex \<Rightarrow> string \<Rightarrow> string \<Rightarrow> int \<Rightarrow> val \<times> bool" where
  "exampleValueForType idx pkg typeName depth =
     (let typeName = clean typeName in
      if typeName = [] then (VObj [], False)
      else if isScalarProtoType typeName then (exampleScalar typeName, True)
      else if depth \<le> 0 then (VObj [], True)
      else case lookup_message idx pkg typeName of
        None \<Rightarrow> (VObj [], False)
      | Some def \<Rightarrow>
          (VObj (put_all (map (\<lambda>f. let v = fst (exampleValueForType idx pkg (clean (mfTypeName f)) (depth - 1)) in
             (mfName f, if mfIsList f then VArr [v] else v)) (mdFields def))), True))"
  by pat_completeness auto
termination by (relation "measure (\<lambda>(_, _, _, depth). nat depth)") auto

declare exampleValueForType.simps [simp del]

definition exampleJSONForType :: "typeIndex \<Rightarrow> string \<Rightarrow> string \<Rightarrow> int \<Rightarrow> string" where
  "exampleJSONForType idx pkg typeName depth =
     (case exampleValueForType idx pkg typeName depth of (v, ok) \<Rightarrow> if \<not> ok then ''{}'' else marshal_indent ''  '' v 0)"

section \<open>Methods\<close>

definition extractProtoPackage :: "file_node \<Rightarrow> string" where
  "extractProtoPackage file =
     (case find (\<lambda>d. case d of PackageDecl p \<Rightarrow> True | _ \<Rightarrow> False) file of Some (PackageDecl p) \<Rightarrow> p | _ \<Rightarrow> [])"

definition methodIdentifier :: "string \<Rightarrow> string \<Rightarrow> string \<Rightarrow> string" where
  "methodIdentifier pkg svc method = (if TrimSpace pkg = [] then svc @ ''/'' @ method else pkg @ ''.'' @ svc @ ''/'' @ method)"

definition rpcTypeRefString :: "rpc_type option \<Rightarrow> string \<times> bool" where
  "rpcTypeRefString t =
     (case t of None \<Rightarrow> ([], False) | Some t \<Rightarrow> (case rtMessageType t of None \<Rightarrow> ([], rtStream t) | Some m \<Rightarrow> (m, rtStream t)))"

definition classifyStreaming :: "bool \<Rightarrow> bool \<Rightarrow> string" where
  "classifyStreaming reqStream resStream =
     (if reqStream \<and> resStream then ''BIDIRECTIONAL_STREAMING''
      else if reqStream then ''CLIENT_STREAMING''
      else if resStream then ''SERVER_STREAMING''
      else ''UNARY'')"

definition snippetForRPC :: "rpc_node \<Rightarrow> string" where
  "snippetForRPC rpc =
     (let (req, reqStream) = rpcTypeRefString (rpInput rpc); (res, resStream) = rpcTypeRefString (rpOutput rpc) in
      ''rpc '' @ rpName rpc @ ''('' @ (if reqStream then ''stream '' else []) @ TrimPrefix req ''.'' @ '') returns ('' @
      (if resStream then ''stream '' else []) @ TrimPrefix res ''.'' @ '');'')"

definition method_of :: "typeIndex \<Rightarrow> string \<Rightarrow> string \<Rightarrow> rpc_node \<Rightarrow> parsedGrpcMethod" where
  "method_of idx pkg svcName rpc =
     (let (reqRaw, reqStream) = rpcTypeRefString (rpInput rpc); (resRaw, resStream) = rpcTypeRefString (rpOutput rpc);
          reqType = resolveTypeName idx pkg reqRaw; resType = resolveTypeName idx pkg resRaw in
      \<lparr>pmMethodID = methodIdentifier pkg svcName (rpName rpc), pmPackageName = pkg, pmServiceName = svcName, pmMethodName = rpName rpc,
       pmRequestType = reqType, pmResponseType = resType, pmStreamingType = classifyStreaming reqStream resStream, pmDescription = [],
       pmProtoSnippet = snippetForRPC rpc, pmRequestExample = exampleJSONForType idx pkg reqType 3,
       pmResponseExample = exampleJSONForType idx pkg resType 3, pmTags = [''gRPC'', svcName]\<rparr>)"

primrec rpcs_of :: "service_decl \<Rightarrow> rpc_node list" where
  "rpcs_of (RPCDecl r) = [r]"
| "rpcs_of OtherServiceDecl = []"

primrec services_of :: "file_decl \<Rightarrow> (string \<times> rpc_node) list" where
  "services_of (ServiceDecl name decls) = map (\<lambda>r. (name, r)) (concat (map rpcs_of decls))"
| "services_of (PackageDecl p) = []"
| "services_of (TopMessageDecl m) = []"
| "services_of OtherDecl = []"

definition extractAllMethods :: "fileInfo list \<Rightarrow> typeIndex \<Rightarrow> parsedGrpcMethod list" where
  "extractAllMethods files idx =
     concat (map (\<lambda>f. map (\<lambda>(svcName, rpc). method_of idx (fiPkg f) svcName rpc) (concat (map services_of (fiNode f)))) files)"

definition sort_methods :: "parsedGrpcMethod list \<Rightarrow> parsedGrpcMethod list" where
  "sort_methods ms = sort_key pmPackageName (sort_key pmServiceName (sort_key pmMethodName ms))"

fun parse_files :: "(string \<Rightarrow> string \<Rightarrow> file_node result) \<Rightarrow> (nat \<times> string) list \<Rightarrow> fileInfo list result" where
  "parse_files Parse [] = Inr []"
| "parse_files Parse ((i, content) # rest) =
     (let name = ''schema_'' @ decimal i @ ''.proto'' in
      case Parse name content of
        Inl err \<Rightarrow> Inl (Wrapf ''failed to parse %s: %w'' [name] err)
      | Inr node \<Rightarrow>
          (case parse_files Parse rest of
             Inl err \<Rightarrow> Inl err
           | Inr files \<Rightarrow> Inr (\<lparr>fiName = name, fiContent = content, fiNode = node, fiPkg = extractProtoPackage node\<rparr> # files)))"

definition ParseGrpcSchemas :: "(string \<Rightarrow> string \<Rightarrow> file_node result) \<Rightarrow> string list \<Rightarrow> parsedGrpcMethod list result" where
  "ParseGrpcSchemas Parse contents =
     (if contents = [] then Inl (Errorf ''no proto contents provided'' [])
      else case parse_files Parse (enumerate 0 contents) of
        Inl err \<Rightarrow> Inl err
      | Inr files \<Rightarrow> Inr (sort_methods (extractAllMethods files (buildMergedTypeIndex files))))"

definition ParseGrpc :: "(string \<Rightarrow> string \<Rightarrow> file_node result) \<Rightarrow> string \<Rightarrow> parsedGrpcMethod list result" where
  "ParseGrpc Parse content = ParseGrpcSchemas Parse [content]"

section \<open>The index is the list of declarations\<close>

text \<open>A reference: the keys under which a message and its nested messages are declared, in the order of the text.\<close>

fun message_entries :: "string \<Rightarrow> string \<Rightarrow> message_node \<Rightarrow> (string \<times> msgDef) list"
  and nested_entries :: "string \<Rightarrow> string \<Rightarrow> message_decl list \<Rightarrow> (string \<times> msgDef) list" where
  "message_entries pkg prefix (Message name decls) =
     (let full = (if prefix \<noteq> [] then prefix @ ''.'' @ name else name);
          def = \<lparr>mdFullName = qualify pkg full, mdFields = extractMessageFields decls\<rparr> in
      map (\<lambda>k. (clean k, def)) ([name, full] @ (if pkg \<noteq> [] then [pkg @ ''.'' @ name, pkg @ ''.'' @ full] else [])) @
      nested_entries pkg full decls)"
| "nested_entries pkg full [] = []"
| "nested_entries pkg full (MessageDecl m # decls) = message_entries pkg full m @ nested_entries pkg full decls"
| "nested_entries pkg full (_ # decls) = nested_entries pkg full decls"

fun file_entries :: "file_node \<Rightarrow> string \<Rightarrow> (string \<times> msgDef) list" where
  "file_entries [] pkg = []"
| "file_entries (TopMessageDecl m # decls) pkg = message_entries pkg [] m @ file_entries decls pkg"
| "file_entries (_ # decls) pkg = file_entries decls pkg"

definition first_of :: "(string \<times> msgDef) list \<Rightarrow> typeIndex" where
  "first_of es = map_of (filter (\<lambda>(k, d). k \<noteq> []) es)"

lemma storeType_first: "storeType (first_of es) key def = first_of (es @ [(clean key, def)])"
  by (auto simp: storeType_def first_of_def Let_def map_add_def fun_eq_iff split: option.splits)

lemma indexMessage_entries:
  "indexMessageRecursive (first_of es) pkg prefix m = first_of (es @ message_entries pkg prefix m)"
  "index_nested (first_of es) pkg full decls = first_of (es @ nested_entries pkg full decls)"
proof (induction pkg prefix m and pkg full decls arbitrary: es and es rule: message_entries_nested_entries.induct)
  case (1 pkg prefix name decls)
  show ?case using "1.IH" [OF refl refl] by (cases "prefix = []"; cases "pkg = []") (simp_all add: Let_def storeType_first)
qed simp_all

lemma indexFile_entries: "indexFileMessages (first_of es) node pkg = first_of (es @ file_entries node pkg)"
  by (induction node pkg arbitrary: es rule: file_entries.induct) (simp_all add: indexMessage_entries)

text \<open>C27. The merged index is the list of declarations with the first one winning: a key of the index is the short name, the nested
  name, or either of them with the package, of a message of the files, and stands for the first message in the order of the files
  that has this key.\<close>

theorem buildMergedTypeIndex_first:
  "buildMergedTypeIndex files = map_of (filter (\<lambda>(k, d). k \<noteq> []) (concat (map (\<lambda>f. file_entries (fiNode f) (fiPkg f)) files)))"
proof -
  have "foldl (\<lambda>idx f. indexFileMessages idx (fiNode f) (fiPkg f)) (first_of es) files =
      first_of (es @ concat (map (\<lambda>f. file_entries (fiNode f) (fiPkg f)) files))" for es
    by (induction files arbitrary: es) (simp_all add: indexFile_entries)
  from this [of "[]"] show ?thesis by (simp add: buildMergedTypeIndex_def first_of_def)
qed

section \<open>Methods\<close>

definition declared_methods :: "fileInfo list \<Rightarrow> (string \<times> string \<times> string) list" where
  "declared_methods files = concat (map (\<lambda>f. map (\<lambda>(svc, rpc). (fiPkg f, svc, rpName rpc)) (concat (map services_of (fiNode f)))) files)"

definition method_key :: "parsedGrpcMethod \<Rightarrow> string \<times> string \<times> string" where
  "method_key m = (pmPackageName m, pmServiceName m, pmMethodName m)"

lemma method_key_of: "method_key (method_of idx pkg svc rpc) = (pkg, svc, rpName rpc)"
  by (simp add: method_key_def method_of_def Let_def split_def)

lemma extract_keys: "map method_key (extractAllMethods files idx) = declared_methods files"
  by (simp add: extractAllMethods_def declared_methods_def map_concat comp_def split_def method_key_of)

lemma sort_methods_sorted:
  "sorted_wrt (\<lambda>a b. pmPackageName a < pmPackageName b \<or> pmPackageName a = pmPackageName b \<and>
     (pmServiceName a < pmServiceName b \<or> pmServiceName a = pmServiceName b \<and> pmMethodName a \<le> pmMethodName b)) (sort_methods ms)"
  unfolding sort_methods_def using sorted_sort_key [of pmMethodName ms] by (intro sorted_wrt_sort_key) (simp add: sorted_map)

text \<open>Parsing protobuf files gives exactly one entry for each RPC declaration of their services, sorted by package, service and
  method.\<close>

lemma ParseGrpcSchemas_methods:
  assumes "ParseGrpcSchemas Parse contents = Inr ms"
  shows "\<exists>files. parse_files Parse (enumerate 0 contents) = Inr files \<and> mset (map method_key ms) = mset (declared_methods files) \<and>
    sorted_wrt (\<lambda>a b. pmPackageName a < pmPackageName b \<or> pmPackageName a = pmPackageName b \<and>
     (pmServiceName a < pmServiceName b \<or> pmServiceName a = pmServiceName b \<and> pmMethodName a \<le> pmMethodName b)) ms"
proof -
  obtain files where f: "parse_files Parse (enumerate 0 contents) = Inr files"
      and ms: "ms = sort_methods (extractAllMethods files (buildMergedTypeIndex files))"
    using assms by (auto simp: ParseGrpcSchemas_def split: if_splits sum.splits)
  have "mset (map method_key (sort_methods xs)) = mset (map method_key xs)" for xs
    by (simp only: sort_methods_def mset_map mset_sort)
  then have "mset (map method_key ms) = mset (declared_methods files)" unfolding ms by (metis extract_keys)
  then show ?thesis using f sort_methods_sorted unfolding ms by blast
qed

section \<open>An example\<close>

text \<open>Two files: the package \<open>a\<close> with a message \<open>Req\<close> and no service, and the package \<open>b\<close> with its own \<open>Req\<close> and a service.\<close>

definition ex_message :: "string \<Rightarrow> string \<Rightarrow> file_decl" where
  "ex_message name field = TopMessageDecl (Message name [FieldDecl \<lparr>fnName = field, fnType = IdentType ''string'', fnLabel = None\<rparr>])"

definition ex_rpc :: rpc_node where
  "ex_rpc = \<lparr>rpName = ''Get'', rpInput = Some \<lparr>rtMessageType = Some ''Req'', rtStream = False\<rparr>,
     rpOutput = Some \<lparr>rtMessageType = Some ''Req'', rtStream = True\<rparr>\<rparr>"

definition ex_parse :: "string \<Rightarrow> string \<Rightarrow> file_node result" where
  "ex_parse name content = Inr (if content = ''a'' then [PackageDecl ''a'', ex_message ''Req'' ''x'']
     else [PackageDecl ''b'', ex_message ''Req'' ''y'', ServiceDecl ''S'' [RPCDecl ex_rpc]])"

lemma ParseGrpcSchemas_methods_witness:
  "\<exists>ms. ParseGrpcSchemas ex_parse [''a'', ''b''] = Inr ms \<and> mset (map method_key ms) = mset [(''b'', ''S'', ''Get'')]"
proof -
  obtain ms where ms: "ParseGrpcSchemas ex_parse [''a'', ''b''] = Inr ms"
    by (simp add: ParseGrpcSchemas_def ex_parse_def Let_def)
  have "mset (map method_key ms) = mset [(''b'', ''S'', ''Get'')]"
    using ParseGrpcSchemas_methods [OF ms] by (auto simp: ex_parse_def Let_def extractProtoPackage_def declared_methods_def ex_rpc_def ex_message_def)
  then show ?thesis using ms by (intro exI [of _ ms] conjI)
qed

text \<open>Short names are not resolved in their package: when two packages declare a message of the same name, a method of the
  second gets the example of the message of the first. Here the request type \<open>Req\<close> of the package \<open>b\<close>, whose field is \<open>y\<close>, is shown
  with the field \<open>x\<close> of \<open>a.Req\<close>.\<close>

lemma short_name_of_other_package:
  "\<exists>m. ParseGrpcSchemas ex_parse [''a'', ''b''] = Inr [m] \<and> pmRequestType m = ''Req'' \<and>
     pmRequestExample m = marshal_indent ''  '' (VObj [(''x'', VStr ''example'')]) 0"
proof -
  have trims: "clean ''Req'' = ''Req''" "clean ''a.Req'' = ''a.Req''" "clean ''b.Req'' = ''b.Req''" "clean ''string'' = ''string''"
    by (simp_all add: clean_def TrimPrefix_def HasPrefix_def TrimSpace_def isSpace_def)
  show ?thesis
    by (simp add: ParseGrpcSchemas_def ex_parse_def Let_def extractProtoPackage_def ex_message_def ex_rpc_def buildMergedTypeIndex_def
        storeType_def trims extractAllMethods_def method_of_def rpcTypeRefString_def resolveTypeName_def isScalarProtoType_def number_types_def
        exampleJSONForType_def exampleValueForType.simps lookup_message_def extractMessageFields_def fieldTypeName_def exampleScalar_def
        put_all_def sort_methods_def)
qed

section \<open>Identifiers\<close>

lemma cut_unique: "(c :: char) \<notin> set a \<Longrightarrow> c \<notin> set a' \<Longrightarrow> a @ c # b = a' @ c # b' \<Longrightarrow> a = a' \<and> b = b'"
  by (metis Cut_found prod.inject)

lemma methodIdentifier_inj:
  assumes "methodIdentifier p s m = methodIdentifier p' s' m'"
    and "CHR ''/'' \<notin> set p" "CHR ''/'' \<notin> set p'" "CHR ''.'' \<notin> set s" "CHR ''/'' \<notin> set s" "CHR ''.'' \<notin> set s'" "CHR ''/'' \<notin> set s'"
    and "TrimSpace p \<noteq> []" "TrimSpace p' \<noteq> []"
  shows "p = p' \<and> s = s' \<and> m = m'"
proof -
  have eq: "(p @ ''.'' @ s) @ CHR ''/'' # m = (p' @ ''.'' @ s') @ CHR ''/'' # m'" using assms(1,8,9) by (simp add: methodIdentifier_def)
  have "CHR ''/'' \<notin> set (p @ ''.'' @ s)" "CHR ''/'' \<notin> set (p' @ ''.'' @ s')" using assms by auto
  from cut_unique [OF this eq] have front: "p @ ''.'' @ s = p' @ ''.'' @ s'" and m: "m = m'" by blast+
  from arg_cong [OF front, of rev] have "rev s @ CHR ''.'' # rev p = rev s' @ CHR ''.'' # rev p'" by simp
  then have "rev s = rev s' \<and> rev p = rev p'" using assms(4,6) by (intro cut_unique) auto
  then show ?thesis using m by simp
qed

end
