(* ===== verification/ObjectStore.thy ===== *)
theory ObjectStore
  imports Tables Http
begin

text \<open>
  The object storage (\<open>internal/storage\<close>) beside the tables, and the idioms of the handlers that use it. A bucket is a map from keys to
  contents; the records of the components that keep objects extend \<open>object_db\<close>. A call to the storage may fail like a statement, with or
  without taking effect.
\<close>

section \<open>Objects\<close>

record object_db =
  blobs :: "string \<rightharpoonup> string"

definition Upload :: "string \<Rightarrow> string \<Rightarrow> ('z object_db_scheme, unit result) sprog" where
  "Upload key content = istmt (\<lambda>now i. Inr ((), i\<lparr>blobs := (blobs i)(key \<mapsto> content)\<rparr>))"

definition Download :: "string \<Rightarrow> ('z object_db_scheme, string result) sprog" where
  "Download key = iquery (\<lambda>now d i. case blobs i key of None \<Rightarrow> Inl (Errorf ''storage: object not found: %s'' [key]) | Some c \<Rightarrow> Inr c)"

lemma run_Upload_cases:
  assumes "run_state (Upload key content) g = (r, g')"
  obtains (same) "idb g' = idb g" and "\<And>a. r \<noteq> Inr a"
    | (stored) "idb g' = (idb g)\<lparr>blobs := (blobs (idb g))(key \<mapsto> content)\<rparr>"
  using assms unfolding Upload_def by (cases rule: run_istmt_cases) auto

section \<open>Idioms of the handlers\<close>

text \<open>\<open>if err != nil { httputil.Error(w, r, err); return }\<close>\<close>

definition ion_err :: "('i, 'a result) sprog \<Rightarrow> ('a \<Rightarrow> ('i, response) sprog) \<Rightarrow> ('i, response) sprog" where
  "ion_err m k = State_Monad.bind m (\<lambda>r. case r of Inl e \<Rightarrow> ret (Error e) | Inr a \<Rightarrow> k a)"

definition with_principal :: "http_request \<Rightarrow> (principal \<Rightarrow> ('i, response) sprog) \<Rightarrow> ('i, response) sprog" where
  "with_principal r k = (case ctxPrincipal r of None \<Rightarrow> ret Unauthorized | Some p \<Rightarrow> k p)"

text \<open>A nil slice is \<open>null\<close>.\<close>

definition slice_json :: "('a \<Rightarrow> json) \<Rightarrow> 'a list \<Rightarrow> json" where
  "slice_json f xs = (if xs = [] then JNull else JArr (map f xs))"

lemma keeps_ion_err [keeps_rules]: "keeps I m \<Longrightarrow> (\<And>a. keeps I (k a)) \<Longrightarrow> keeps I (ion_err m k)"
  unfolding ion_err_def by (intro keeps_rules)

lemma keeps_with_principal [keeps_rules]: "(\<And>p. keeps I (k p)) \<Longrightarrow> keeps I (with_principal r k)"
  unfolding with_principal_def by (cases "ctxPrincipal r") (auto intro: keeps_rules)

section \<open>Runs\<close>

lemma run_ibindE_cases:
  assumes "run_state (ibindE m k) g = (r, g')"
  obtains (failed) e where "run_state m g = (Inl e, g')" and "r = Inl e"
    | (passed) a g1 where "run_state m g = (Inr a, g1)" and "run_state (k a) g1 = (r, g')"
  using assms by (auto simp: ibindE_def split: prod.splits sum.splits)

lemma run_lift_idb: "run_state (lift m) g = (a, g') \<Longrightarrow> idb g' = idb g \<and> run_state m (base g) = (a, base g')"
  by (auto simp: lift_def split: prod.splits)

lemma run_read_idb:
  assumes "\<And>I. keeps (on_idb I) m" and "run_state m g = (a, g')"
  shows "idb g' = idb g"
  using kept [OF assms(1) assms(2), of "\<lambda>i. i = idb g"] by simp

lemma run_iwrap: "run_state (iwrap fmt m) g = (case run_state m g of (Inr a, g') \<Rightarrow> (Inr a, g') | (Inl e, g') \<Rightarrow>
    (Inl (if e = StoreErrNotFound then e else Wrapf fmt [] e), g'))"
  by (auto simp: iwrap_def split: prod.splits sum.splits)

lemma run_query_cases:
  assumes "run_state (iwrap fmt (iquery f)) g = (r, g')"
  shows "idb g' = idb g" "db (base g') = db (base g)" "\<And>a. r = Inr a \<Longrightarrow> f (clock (base g)) (db (base g)) (idb g) = Inr a"
proof -
  obtain r' where r': "run_state (iquery f) g = (r', g')" "\<And>a. r = Inr a \<longleftrightarrow> r' = Inr a"
    using run_iwrap_cases [OF assms] by metis
  from r'(1) show "idb g' = idb g" "db (base g') = db (base g)"
    unfolding iquery_def by (cases rule: run_txn_cases; auto split: sum.splits)+
  show "f (clock (base g)) (db (base g)) (idb g) = Inr a" if "r = Inr a" for a
    using r'(1) that unfolding r'(2) iquery_def by (cases rule: run_txn_cases) (auto split: sum.splits)
qed

lemma run_ion_err_cases:
  assumes "run_state (ion_err m k) g = (a, g')"
  obtains (failed) e where "run_state m g = (Inl e, g')" and "a = Error e"
    | (passed) x g1 where "run_state m g = (Inr x, g1)" and "run_state (k x) g1 = (a, g')"
  using assms by (auto simp: ion_err_def split: prod.splits sum.splits)

end
