(* ===== verification/Json.thy ===== *)
theory Json
  imports GoText
begin

text \<open>
  \<open>encoding/json\<close>, the reading side: \<open>json.Valid\<close> and \<open>json.Unmarshal\<close> into an \<open>interface{}\<close>. The text is cut into tokens and the tokens
  drive a machine with a stack of open arrays and objects, at most \<open>maxNestingDepth\<close> of them, as the scanner of the library does. The
  conversion of a number to a float and its shortest decimal form is the parameter \<open>num\<close>, which is \<open>None\<close> out of range.
\<close>

section \<open>Tokens\<close>

datatype token = OpenObj | CloseObj | OpenArr | CloseArr | Comma | Colon | Str string | Number string | Word string

text \<open>The content of a string: bytes, and the code units of \<open>\\u\<close> escapes.\<close>

datatype item = Byte char | Unit nat

datatype lex_state = Start | InStr "item list" | Escape "item list" | Hex "item list" nat nat | InNumber string | InWord string

definition utf8 :: "nat \<Rightarrow> string" where
  "utf8 n = map char_of
     (if n < 0x80 then [n]
      else if n < 0x800 then [0xC0 + n div 64, 0x80 + n mod 64]
      else if n < 0x10000 then [0xE0 + n div 4096, 0x80 + n div 64 mod 64, 0x80 + n mod 64]
      else [0xF0 + n div 262144, 0x80 + n div 4096 mod 64, 0x80 + n div 64 mod 64, 0x80 + n mod 64])"

text \<open>Two halves of a surrogate pair are one character; a half on its own is the replacement character.\<close>

fun decode_items :: "item list \<Rightarrow> string" where
  "decode_items [] = []"
| "decode_items (Byte c # is) = c # decode_items is"
| "decode_items (Unit h # Unit l # is) =
     (if 0xD800 \<le> h \<and> h < 0xDC00 \<and> 0xDC00 \<le> l \<and> l < 0xE000 then utf8 (0x10000 + (h - 0xD800) * 0x400 + (l - 0xDC00)) @ decode_items is
      else if 0xD800 \<le> h \<and> h < 0xE000 then utf8 0xFFFD @ decode_items (Unit l # is)
      else utf8 h @ decode_items (Unit l # is))"
| "decode_items (Unit h # is) = (if 0xD800 \<le> h \<and> h < 0xE000 then utf8 0xFFFD else utf8 h) @ decode_items is"

definition number_char :: "char \<Rightarrow> bool" where
  "number_char c \<longleftrightarrow> is_digit c \<or> c \<in> {CHR ''-'', CHR ''+'', CHR ''.'', CHR ''e'', CHR ''E''}"

definition white :: "char \<Rightarrow> bool" where
  "white c \<longleftrightarrow> c \<in> {CHR '' '', CHR 0x09, CHR 0x0A, CHR 0x0D}"

definition hex_value :: "char \<Rightarrow> nat option" where
  "hex_value c = (let n = of_char c in
     if 48 \<le> n \<and> n \<le> 57 then Some (n - 48)
     else if 97 \<le> n \<and> n \<le> 102 then Some (n - 87)
     else if 65 \<le> n \<and> n \<le> 70 then Some (n - 55) else None)"

text \<open>The character after a backslash.\<close>

definition unescape :: "char \<Rightarrow> char option" where
  "unescape c = map_of [(CHR 0x22, CHR 0x22), (CHR 0x5C, CHR 0x5C), (CHR ''/'', CHR ''/''), (CHR ''b'', CHR 0x08), (CHR ''f'', CHR 0x0C),
     (CHR ''n'', CHR 0x0A), (CHR ''r'', CHR 0x0D), (CHR ''t'', CHR 0x09)] c"

definition start_of :: "char \<Rightarrow> (token list \<times> lex_state) option" where
  "start_of c =
     (if white c then Some ([], Start)
      else if c = CHR ''{'' then Some ([OpenObj], Start)
      else if c = CHR ''}'' then Some ([CloseObj], Start)
      else if c = CHR ''['' then Some ([OpenArr], Start)
      else if c = CHR '']'' then Some ([CloseArr], Start)
      else if c = CHR '','' then Some ([Comma], Start)
      else if c = CHR '':'' then Some ([Colon], Start)
      else if c = CHR 0x22 then Some ([], InStr [])
      else if is_digit c \<or> c = CHR ''-'' then Some ([], InNumber [c])
      else if is_lower c then Some ([], InWord [c])
      else None)"

definition emit :: "token list \<Rightarrow> token list option \<Rightarrow> token list option" where
  "emit ts r = map_option (\<lambda>us. ts @ us) r"

fun lex :: "lex_state \<Rightarrow> string \<Rightarrow> token list option" where
  "lex Start [] = Some []"
| "lex (InNumber acc) [] = Some [Number (rev acc)]"
| "lex (InWord acc) [] = Some [Word (rev acc)]"
| "lex st [] = None"
| "lex Start (c # cs) = (case start_of c of None \<Rightarrow> None | Some (ts, st) \<Rightarrow> emit ts (lex st cs))"
| "lex (InNumber acc) (c # cs) =
     (if number_char c then lex (InNumber (c # acc)) cs
      else case start_of c of None \<Rightarrow> None | Some (ts, st) \<Rightarrow> emit (Number (rev acc) # ts) (lex st cs))"
| "lex (InWord acc) (c # cs) =
     (if is_lower c then lex (InWord (c # acc)) cs
      else case start_of c of None \<Rightarrow> None | Some (ts, st) \<Rightarrow> emit (Word (rev acc) # ts) (lex st cs))"
| "lex (InStr acc) (c # cs) =
     (if c = CHR 0x22 then emit [Str (decode_items (rev acc))] (lex Start cs)
      else if c = CHR 0x5C then lex (Escape acc) cs
      else if of_char c < (0x20 :: nat) then None
      else lex (InStr (Byte c # acc)) cs)"
| "lex (Escape acc) (c # cs) =
     (if c = CHR ''u'' then lex (Hex acc 4 0) cs
      else case unescape c of None \<Rightarrow> None | Some d \<Rightarrow> lex (InStr (Byte d # acc)) cs)"
| "lex (Hex acc k n) (c # cs) =
     (case hex_value c of None \<Rightarrow> None | Some v \<Rightarrow>
        if k \<le> 1 then lex (InStr (Unit (16 * n + v) # acc)) cs else lex (Hex acc (k - 1) (16 * n + v)) cs)"

section \<open>Numbers\<close>

definition valid_fraction :: "string \<Rightarrow> bool" where
  "valid_fraction s = (case s of [] \<Rightarrow> True | c # r \<Rightarrow>
     if c = CHR ''e'' \<or> c = CHR ''E'' then
       (let d = (case r of x # r' \<Rightarrow> if x = CHR ''+'' \<or> x = CHR ''-'' then r' else r | [] \<Rightarrow> r) in d \<noteq> [] \<and> list_all is_digit d)
     else False)"

definition valid_integer_rest :: "string \<Rightarrow> bool" where
  "valid_integer_rest s = (case s of [] \<Rightarrow> True | c # r \<Rightarrow>
     if c = CHR ''.'' then takeWhile is_digit r \<noteq> [] \<and> valid_fraction (dropWhile is_digit r) else valid_fraction s)"

definition valid_number :: "string \<Rightarrow> bool" where
  "valid_number s = (let u = (case s of c # r \<Rightarrow> if c = CHR ''-'' then r else s | [] \<Rightarrow> s) in
     case u of [] \<Rightarrow> False | c # r \<Rightarrow>
       if c = CHR ''0'' then valid_integer_rest r
       else if is_digit c then valid_integer_rest (dropWhile is_digit r) else False)"

section \<open>Values\<close>

text \<open>The open arrays and objects, the innermost first, each with its elements in reverse; an object may wait for the value of a key.\<close>

datatype frame = InArr "val list" | InObj "(string \<times> val) list" | InKey "(string \<times> val) list" string

datatype machine =
    Want "frame list" | WantOrEnd "frame list" | KeyOrEnd "frame list" | WantKey "frame list" | WantColon "frame list" | After "frame list"
  | Finished val | Failed

definition maxNestingDepth :: nat where "maxNestingDepth = 10000"

fun put_value :: "val \<Rightarrow> frame list \<Rightarrow> machine" where
  "put_value v [] = Finished v"
| "put_value v (InArr vs # fs) = After (InArr (v # vs) # fs)"
| "put_value v (InKey kvs k # fs) = After (InObj ((k, v) # kvs) # fs)"
| "put_value v (InObj kvs # fs) = Failed"

fun begin_value :: "(string \<Rightarrow> string option) \<Rightarrow> frame list \<Rightarrow> token \<Rightarrow> machine" where
  "begin_value num fs (Str s) = put_value (VStr s) fs"
| "begin_value num fs (Number s) =
     (if \<not> valid_number s then Failed else case num s of None \<Rightarrow> Failed | Some t \<Rightarrow> put_value (VFloat t) fs)"
| "begin_value num fs (Word s) =
     (if s = ''true'' then put_value (VBool True) fs
      else if s = ''false'' then put_value (VBool False) fs
      else if s = ''null'' then put_value VNull fs else Failed)"
| "begin_value num fs OpenArr = (if maxNestingDepth \<le> length fs then Failed else WantOrEnd (InArr [] # fs))"
| "begin_value num fs OpenObj = (if maxNestingDepth \<le> length fs then Failed else KeyOrEnd (InObj [] # fs))"
| "begin_value num fs _ = Failed"

fun close :: "frame list \<Rightarrow> token \<Rightarrow> machine" where
  "close (InArr vs # fs) CloseArr = put_value (VArr (rev vs)) fs"
| "close (InObj kvs # fs) CloseObj = put_value (VObj (put_all (rev kvs))) fs"
| "close fs t = Failed"

fun name_key :: "frame list \<Rightarrow> token \<Rightarrow> machine" where
  "name_key (InObj kvs # fs) (Str k) = WantColon (InKey kvs k # fs)"
| "name_key fs t = Failed"

fun next_element :: "frame list \<Rightarrow> machine" where
  "next_element (InArr vs # fs) = Want (InArr vs # fs)"
| "next_element (InObj kvs # fs) = WantKey (InObj kvs # fs)"
| "next_element fs = Failed"

primrec step :: "(string \<Rightarrow> string option) \<Rightarrow> token \<Rightarrow> machine \<Rightarrow> machine" where
  "step num t (Want fs) = begin_value num fs t"
| "step num t (WantOrEnd fs) = (if t = CloseArr then close fs t else begin_value num fs t)"
| "step num t (KeyOrEnd fs) = (if t = CloseObj then close fs t else name_key fs t)"
| "step num t (WantKey fs) = name_key fs t"
| "step num t (WantColon fs) = (if t = Colon then Want fs else Failed)"
| "step num t (After fs) = (if t = Comma then next_element fs else close fs t)"
| "step num t (Finished v) = Failed"
| "step num t Failed = Failed"

definition json_parse :: "(string \<Rightarrow> string option) \<Rightarrow> string \<Rightarrow> val option" where
  "json_parse num s = (case lex Start s of None \<Rightarrow> None | Some ts \<Rightarrow>
     (case fold (step num) ts (Want []) of Finished v \<Rightarrow> Some v | _ \<Rightarrow> None))"

definition Valid :: "string \<Rightarrow> bool" where
  "Valid s \<longleftrightarrow> json_parse Some s \<noteq> None"

text \<open>\<open>json.Unmarshal\<close> into an \<open>interface{}\<close> and into a \<open>string\<close>, which \<open>null\<close> leaves empty.\<close>

definition Unmarshal :: "(string \<Rightarrow> string option) \<Rightarrow> string \<Rightarrow> val option" where
  "Unmarshal num s = json_parse num s"

definition Unmarshal_string :: "string \<Rightarrow> string option" where
  "Unmarshal_string s = (case json_parse Some s of Some (VStr t) \<Rightarrow> Some t | Some VNull \<Rightarrow> Some [] | _ \<Rightarrow> None)"

end
