(* ===== verification/JsonRoundtrip.thy ===== *)
theory JsonRoundtrip
  imports Json
begin

text \<open>
  What \<open>json.Marshal\<close> and \<open>json.MarshalIndent\<close> print is read back by \<open>json.Unmarshal\<close>: both prints have the tokens \<open>toks v\<close> of their value,
  and the machine of the reader turns these tokens into \<open>reread num v\<close>, the value with its numbers converted and its keys in order.
\<close>

section \<open>Tokens of a value\<close>

fun commas :: "token list list \<Rightarrow> token list" where
  "commas [] = []"
| "commas [ts] = ts"
| "commas (ts # us # tss) = ts @ Comma # commas (us # tss)"

primrec toks :: "val \<Rightarrow> token list" where
  "toks (VStr s) = [Str s]"
| "toks (VInt n) = [Number (FormatInt n)]"
| "toks (VFloat s) = [Number s]"
| "toks (VBool b) = [Word (if b then ''true'' else ''false'')]"
| "toks VNull = [Word ''null'']"
| "toks (VArr vs) = OpenArr # commas (map toks vs) @ [CloseArr]"
| "toks (VObj kvs) = OpenObj # commas (map (\<lambda>(k, ts). Str k # Colon # ts) (sorted_entries (map (map_prod id toks) kvs))) @ [CloseObj]"

text \<open>The numbers of the value are numbers of JSON.\<close>

fun numbers_ok :: "(string \<Rightarrow> string option) \<Rightarrow> val \<Rightarrow> bool" where
  "numbers_ok num (VInt n) \<longleftrightarrow> num (FormatInt n) \<noteq> None"
| "numbers_ok num (VFloat s) \<longleftrightarrow> valid_number s \<and> list_all number_char s \<and> num s \<noteq> None"
| "numbers_ok num (VArr vs) \<longleftrightarrow> (\<forall>v\<in>set vs. numbers_ok num v)"
| "numbers_ok num (VObj kvs) \<longleftrightarrow> (\<forall>kv\<in>set kvs. numbers_ok num (snd kv))"
| "numbers_ok num v \<longleftrightarrow> True"

primrec reread :: "(string \<Rightarrow> string option) \<Rightarrow> val \<Rightarrow> val" where
  "reread num (VStr s) = VStr s"
| "reread num (VInt n) = VFloat (the (num (FormatInt n)))"
| "reread num (VFloat s) = VFloat (the (num s))"
| "reread num (VBool b) = VBool b"
| "reread num VNull = VNull"
| "reread num (VArr vs) = VArr (map (reread num) vs)"
| "reread num (VObj kvs) = VObj (put_all (sorted_entries (map (map_prod id (reread num)) kvs)))"

primrec nesting :: "val \<Rightarrow> nat" where
  "nesting (VStr s) = 0"
| "nesting (VInt n) = 0"
| "nesting (VFloat s) = 0"
| "nesting (VBool b) = 0"
| "nesting VNull = 0"
| "nesting (VArr vs) = Suc (Max (set (0 # map nesting vs)))"
| "nesting (VObj kvs) = Suc (Max (set (0 # map (\<lambda>kv. snd kv) (map (map_prod id nesting) kvs))))"

lemma sorted_entries_map_prod: "sorted_entries (map (map_prod id f) kvs) = map (map_prod id f) (sorted_entries kvs)"
proof -
  have "insort_key fst (map_prod id f kv) (map (map_prod id f) xs) = map (map_prod id f) (insort_key fst kv xs)" for kv xs
    by (induction xs) (auto simp: map_prod_def split_def)
  note insort = this
  show ?thesis unfolding sorted_entries_def by (induction kvs) (simp_all add: insort [unfolded id_def])
qed

section \<open>The lexer\<close>

lemma emit_emit [simp]: "emit ts (emit us r) = emit (ts @ us) r" "emit [] r = r"
  by (cases r; simp add: emit_def)+

lemma emit_None [simp]: "emit ts None = None"
  by (simp add: emit_def)

lemma emit_Some: "emit ts (Some us) = Some (ts @ us)"
  by (simp add: emit_def)

lemma char_of_of_char [simp]: "char_of (of_char c :: nat) = c"
  by simp

lemma char_less: "of_char c < (256 :: nat)"
  by (cases c) (simp add: of_char_def split: if_splits)

definition item_of :: "char \<Rightarrow> item" where
  "item_of c = (let n = of_char c :: nat in
     if (n < 0x20 \<or> n = 0x3C \<or> n = 0x3E \<or> n = 0x26) \<and> n \<notin> {0x08, 0x0C, 0x0A, 0x0D, 0x09} then Unit n else Byte c)"

lemma hex_value_char: "n < 16 \<Longrightarrow> hex_value (hex_char n) = Some n"
  by (auto simp: hex_value_def hex_char_def Let_def)

lemma char_eq: "c = d \<longleftrightarrow> of_char c = (of_char d :: nat)"
  by (metis char_of_of_char)

lemma lex_escape: "lex (InStr acc) (escape_char c @ rest) = lex (InStr (item_of c # acc)) rest"
proof -
  define n :: nat where "n = of_char c"
  have c: "c = char_of n" and n: "n < 256" using char_less [of c] by (simp_all add: n_def)
  have codes: "of_char (CHR 0x22) = (0x22 :: nat)" "of_char (CHR 0x5C) = (0x5C :: nat)" "of_char CHR ''u'' = (0x75 :: nat)" by simp_all
  have other: "c \<noteq> CHR 0x22 \<and> c \<noteq> CHR 0x5C" if "n \<noteq> 0x22" "n \<noteq> 0x5C" using that codes unfolding char_eq n_def by metis
  consider (quote) "n = 0x22 \<or> n = 0x5C" | (short) "n \<in> {0x08, 0x0C, 0x0A, 0x0D, 0x09}"
    | (unit) "n \<notin> {0x08, 0x0C, 0x0A, 0x0D, 0x09}" "n < 0x20 \<or> n = 0x3C \<or> n = 0x3E \<or> n = 0x26"
    | (plain) "n \<notin> {0x22, 0x5C, 0x3C, 0x3E, 0x26}" "\<not> n < 0x20" by blast
  then show ?thesis
  proof cases
    case quote
    then have "c = CHR 0x22 \<or> c = CHR 0x5C" unfolding char_eq n_def by simp
    then show ?thesis by (elim disjE) (simp_all add: escape_char_def item_of_def unescape_def Let_def)
  next
    case short
    then have "c = CHR 0x08 \<or> c = CHR 0x0C \<or> c = CHR 0x0A \<or> c = CHR 0x0D \<or> c = CHR 0x09" unfolding char_eq n_def by simp
    then show ?thesis by (elim disjE) (simp_all add: escape_char_def item_of_def unescape_def Let_def)
  next
    case unit
    have "16 * (n div 16) + n mod 16 = n" by simp
    moreover have "n div 16 < 16" "n mod 16 < 16" using n by auto
    moreover have "item_of c = Unit n" using unit by (auto simp: item_of_def n_def [symmetric])
    moreover have "escape_char c = [CHR 0x5C, CHR ''u'', CHR ''0'', CHR ''0'', hex_char (n div 16), hex_char (n mod 16)]"
      using unit by (auto simp: escape_char_def n_def [symmetric])
    moreover have "hex_value CHR ''0'' = Some 0" by (simp add: hex_value_def)
    ultimately show ?thesis by (simp add: hex_value_char)
  next
    case plain
    then have "escape_char c = [c]" "item_of c = Byte c" by (auto simp: escape_char_def item_of_def n_def [symmetric] Let_def)
    then show ?thesis using plain other n_def by simp
  qed
qed

lemma decode_plain: "(\<forall>i\<in>set is. \<exists>c. i = item_of c) \<Longrightarrow> decode_items is = map (\<lambda>i. case i of Byte c \<Rightarrow> c | Unit n \<Rightarrow> char_of n) is"
proof (induction "is" rule: decode_items.induct)
  case (3 h l "is")
  then have "h < 0x80" "l < 0x80" by (auto simp: item_of_def Let_def split: if_splits)
  then show ?case using 3 by (simp add: utf8_def)
qed (auto simp: item_of_def utf8_def Let_def split: if_splits)

lemma decode_item_of: "decode_items (map item_of s) = s"
proof -
  have "(case item_of c of Byte c \<Rightarrow> c | Unit n \<Rightarrow> char_of n) = c" for c
    by (simp add: item_of_def Let_def)
  then show ?thesis by (subst decode_plain) (auto simp: map_idI)
qed

lemma lex_json_string [simp]: "lex Start (json_string s @ rest) = emit [Str s] (lex Start rest)"
proof -
  have "lex (InStr acc) (concat (map escape_char s) @ CHR 0x22 # rest) = emit [Str (decode_items (rev acc @ map item_of s))] (lex Start rest)" for acc
    by (induction s arbitrary: acc) (simp_all add: lex_escape)
  from this [of "[]"] show ?thesis by (simp add: json_string_def start_of_def white_def decode_item_of)
qed

definition stops :: "string \<Rightarrow> bool" where
  "stops s \<longleftrightarrow> (case s of [] \<Rightarrow> True | c # r \<Rightarrow> \<not> number_char c \<and> \<not> is_lower c)"

lemma stops_simps [simp]: "stops []" "stops (c # r) \<longleftrightarrow> \<not> number_char c \<and> \<not> is_lower c"
  by (simp_all add: stops_def)

lemma start_of_number:
  assumes "is_digit c \<or> c = CHR ''-''"
  shows "start_of c = Some ([], InNumber [c])"
proof -
  have "c \<notin> {CHR '' '', CHR 0x09, CHR 0x0A, CHR 0x0D, CHR ''{'', CHR ''}'', CHR ''['', CHR '']'', CHR '','', CHR '':'', CHR 0x22}"
    using assms by (auto simp: is_digit_def)
  then show ?thesis using assms by (simp add: start_of_def white_def)
qed

lemma start_of_word:
  assumes "is_lower c"
  shows "start_of c = Some ([], InWord [c])"
proof -
  have "c \<notin> {CHR '' '', CHR 0x09, CHR 0x0A, CHR 0x0D, CHR ''{'', CHR ''}'', CHR ''['', CHR '']'', CHR '','', CHR '':'', CHR 0x22, CHR ''-''}"
    using assms by (auto simp: is_lower_def)
  moreover have "\<not> is_digit c" using assms by (auto simp: is_lower_def is_digit_def Let_def)
  ultimately show ?thesis using assms by (simp add: start_of_def white_def)
qed

lemma lex_number:
  assumes "s \<noteq> []" and "is_digit (hd s) \<or> hd s = CHR ''-''" and "list_all number_char s" and "stops rest"
  shows "lex Start (s @ rest) = emit [Number s] (lex Start rest)"
proof -
  have "lex (InNumber acc) (t @ rest) = emit [Number (rev acc @ t)] (lex Start rest)" if "list_all number_char t" for acc t
    using that
  proof (induction t arbitrary: acc)
    case Nil
    then show ?case using assms(4) by (cases rest) (simp_all add: emit_Some split: option.splits)
  qed simp
  note num = this
  obtain c r where s: "s = c # r" using assms(1) by (cases s) auto
  have "start_of c = Some ([], InNumber [c])" using assms(2) start_of_number s by simp
  then show ?thesis using assms(3) num [of r "[c]"] by (simp add: s)
qed

lemma lex_word:
  assumes "s \<noteq> []" and "list_all is_lower s" and "stops rest"
  shows "lex Start (s @ rest) = emit [Word s] (lex Start rest)"
proof -
  have "lex (InWord acc) (t @ rest) = emit [Word (rev acc @ t)] (lex Start rest)" if "list_all is_lower t" for acc t
    using that
  proof (induction t arbitrary: acc)
    case Nil
    then show ?case using assms(3) by (cases rest) (simp_all add: emit_Some split: option.splits)
  qed simp
  note word = this
  obtain c r where s: "s = c # r" using assms(1) by (cases s) auto
  have "start_of c = Some ([], InWord [c])" using assms(2) start_of_word s by simp
  then show ?thesis using assms(2) word [of r "[c]"] by (simp add: s)
qed

lemma start_of_marks [simp]:
  "start_of CHR ''{'' = Some ([OpenObj], Start)" "start_of CHR ''}'' = Some ([CloseObj], Start)"
  "start_of CHR ''['' = Some ([OpenArr], Start)" "start_of CHR '']'' = Some ([CloseArr], Start)"
  "start_of CHR '','' = Some ([Comma], Start)" "start_of CHR '':'' = Some ([Colon], Start)"
  "start_of CHR '' '' = Some ([], Start)" "start_of CHR 0x0A = Some ([], Start)"
  by (simp_all add: start_of_def white_def)

lemma lex_spaces [simp]: "lex Start (spaces n @ r) = lex Start r" "lex Start (concat (replicate k (spaces n)) @ r) = lex Start r"
proof -
  show s: "lex Start (spaces n @ r) = lex Start r" for r
    unfolding spaces_def by (induction n) simp_all
  show "lex Start (concat (replicate k (spaces n)) @ r) = lex Start r" by (induction k) (simp_all add: s)
qed

lemma stops_marks [simp]:
  "\<not> number_char CHR '',''" "\<not> is_lower CHR '',''" "\<not> number_char CHR '']''" "\<not> is_lower CHR '']''"
  "\<not> number_char CHR ''}''" "\<not> is_lower CHR ''}''" "\<not> number_char CHR 0x0A" "\<not> is_lower CHR 0x0A"
  by (simp_all add: number_char_def is_digit_def is_lower_def)

lemma decimal_digits: "decimal n \<noteq> []" "list_all is_digit (decimal n)"
proof (induction n rule: decimal.induct)
  case (1 n)
  {
    case 1
    then show ?case by (subst decimal.simps) simp
  next
    case 2
    have "is_digit (char_of (48 + d :: nat))" if "d < 10" for d using that by (simp add: is_digit_def)
    then show ?case using "1.IH" by (subst decimal.simps) simp
  }
qed

lemma FormatInt_number: "FormatInt n \<noteq> []" "is_digit (hd (FormatInt n)) \<or> hd (FormatInt n) = CHR ''-''" "list_all number_char (FormatInt n)"
proof -
  have d: "decimal m \<noteq> []" "list_all is_digit (decimal m)" for m by (rule decimal_digits)+
  show "FormatInt n \<noteq> []" using d by (simp add: FormatInt_def)
  show "is_digit (hd (FormatInt n)) \<or> hd (FormatInt n) = CHR ''-''"
    using d [of "nat \<bar>n\<bar>"] by (cases "decimal (nat \<bar>n\<bar>)") (auto simp: FormatInt_def)
  show "list_all number_char (FormatInt n)"
    using d(2) [of "nat \<bar>n\<bar>"] by (auto simp: FormatInt_def number_char_def list_all_iff)
qed

lemma lex_Join:
  assumes "\<And>f rest. f \<in> set fs \<Longrightarrow> stops rest \<Longrightarrow> lex Start (print f @ rest) = emit (tok f) (lex Start rest)"
    and "sep = '','' \<or> sep = '','' @ newline" and "stops rest"
  shows "lex Start (Join (map print fs) sep @ rest) = emit (commas (map tok fs)) (lex Start rest)"
  using assms(1)
proof (induction fs rule: induct_list012)
  case (3 f g fs)
  have "stops (sep @ r)" for r using assms(2) by auto
  then show ?case using 3 assms(2) by (auto simp: newline_def)
qed (use assms(3) in simp_all)

lemma lex_marshal:
  assumes "numbers_ok num v" and "stops rest"
  shows "lex Start (marshal v @ rest) = emit (toks v) (lex Start rest)"
  using assms
proof (induction v arbitrary: rest)
  case (VInt n)
  then show ?case by (simp add: lex_number FormatInt_number)
next
  case (VFloat s)
  then have "s \<noteq> []" "is_digit (hd s) \<or> hd s = CHR ''-''" by (auto simp: valid_number_def Let_def is_digit_def split: list.splits if_splits)
  then show ?case using VFloat by (simp add: lex_number)
next
  case (VBool b)
  have "list_all is_lower ''true''" "list_all is_lower ''false''" by (simp_all add: is_lower_def)
  then show ?case using VBool lex_word [of "''true''" rest] lex_word [of "''false''" rest] by auto
next
  case VNull
  have "list_all is_lower ''null''" by (simp add: is_lower_def)
  then show ?case using VNull lex_word [of "''null''" rest] by auto
next
  case (VArr vs)
  have "lex Start (Join (map marshal vs) '','' @ '']'' @ rest) = emit (commas (map toks vs)) (lex Start ('']'' @ rest))"
    using VArr by (intro lex_Join) auto
  then show ?case by simp
next
  case (VObj kvs)
  have "lex Start (Join (map (\<lambda>kv. json_string (fst kv) @ '':'' @ marshal (snd kv)) (sorted_entries kvs)) '','' @ ''}'' @ rest) =
      emit (commas (map (\<lambda>kv. Str (fst kv) # Colon # toks (snd kv)) (sorted_entries kvs))) (lex Start (''}'' @ rest))"
    using VObj by (intro lex_Join) (auto simp: snds.simps)
  then show ?case by (simp add: sorted_entries_map_prod comp_def split_def)
qed simp_all

lemma lex_marshal_indent:
  assumes "numbers_ok num v" and "stops rest"
  shows "lex Start (marshal_indent (spaces k) v n @ rest) = emit (toks v) (lex Start rest)"
  using assms
proof (induction v arbitrary: rest n)
  case (VInt i)
  then show ?case by (simp add: lex_number FormatInt_number)
next
  case (VFloat s)
  then have "s \<noteq> []" "is_digit (hd s) \<or> hd s = CHR ''-''" by (auto simp: valid_number_def Let_def is_digit_def split: list.splits if_splits)
  then show ?case using VFloat by (simp add: lex_number)
next
  case (VBool b)
  then show ?case using lex_marshal [of num "VBool b" rest] by simp
next
  case VNull
  then show ?case using lex_marshal [of num VNull rest] by simp
next
  case (VArr vs)
  have "lex Start (Join (map (\<lambda>v. concat (replicate (Suc n) (spaces k)) @ marshal_indent (spaces k) v (Suc n)) vs) ('','' @ newline) @
      newline @ concat (replicate n (spaces k)) @ '']'' @ rest) = emit (commas (map toks vs))
        (lex Start (newline @ concat (replicate n (spaces k)) @ '']'' @ rest))"
    using VArr by (intro lex_Join) (auto simp: newline_def)
  then show ?case by (simp add: newline_def comp_def)
next
  case (VObj kvs)
  have "lex Start (Join (map (\<lambda>kv. concat (replicate (Suc n) (spaces k)) @ json_string (fst kv) @ '': '' @ marshal_indent (spaces k) (snd kv) (Suc n))
      (sorted_entries kvs)) ('','' @ newline) @ newline @ concat (replicate n (spaces k)) @ ''}'' @ rest) =
      emit (commas (map (\<lambda>kv. Str (fst kv) # Colon # toks (snd kv)) (sorted_entries kvs)))
        (lex Start (newline @ concat (replicate n (spaces k)) @ ''}'' @ rest))"
    using VObj by (intro lex_Join) (auto simp: newline_def snds.simps)
  then show ?case by (simp add: newline_def sorted_entries_map_prod comp_def split_def)
qed simp_all

section \<open>The machine\<close>

lemma decimal_leading: "0 < m \<Longrightarrow> hd (decimal m) \<noteq> CHR ''0''"
proof (induction m rule: decimal.induct)
  case (1 m)
  show ?case
  proof (cases "m < 10")
    case True
    then show ?thesis using 1(2) by (subst decimal.simps) (simp add: char_eq [of _ "CHR ''0''"])
  next
    case False
    then have "hd (decimal (m div 10)) \<noteq> CHR ''0''" using 1(1) by simp
    then show ?thesis using False decimal_digits(1) [of "m div 10"] by (subst decimal.simps) simp
  qed
qed

lemma valid_decimal:
  assumes "0 < m"
  shows "valid_number (decimal m)" "valid_number (CHR ''-'' # decimal m)"
proof -
  obtain c r where d: "decimal m = c # r" using decimal_digits(1) by (cases "decimal m") auto
  have r: "is_digit c" "list_all is_digit r" using decimal_digits(2) [of m] by (simp_all add: d)
  then have drop: "dropWhile is_digit r = []" by (simp add: list_all_iff)
  have "valid_integer_rest (dropWhile is_digit r)" unfolding drop by (simp add: valid_integer_rest_def)
  moreover have "c \<noteq> CHR ''0''" using decimal_leading [OF assms] d by simp
  moreover have "c \<noteq> CHR ''-''" using r(1) by (auto simp: is_digit_def)
  ultimately show "valid_number (decimal m)" "valid_number (CHR ''-'' # decimal m)"
    using r(1) by (simp_all add: d valid_number_def)
qed

lemma valid_FormatInt: "valid_number (FormatInt n)"
proof (cases "n = 0")
  case True
  then have "FormatInt n = ''0''" by (simp add: FormatInt_def decimal.simps [of 0] char_eq)
  then show ?thesis by (simp add: valid_number_def valid_integer_rest_def)
qed (simp add: FormatInt_def valid_decimal)

lemma fold_WantOrEnd: "ts \<noteq> [] \<Longrightarrow> hd ts \<noteq> CloseArr \<Longrightarrow> fold (step num) ts (WantOrEnd fs) = fold (step num) ts (Want fs)"
  by (cases ts) simp_all

lemma fold_KeyOrEnd: "ts \<noteq> [] \<Longrightarrow> hd ts \<noteq> CloseObj \<Longrightarrow> fold (step num) ts (KeyOrEnd fs) = fold (step num) ts (WantKey fs)"
  by (cases ts) simp_all

lemma hd_commas: "ts \<noteq> [] \<Longrightarrow> commas (ts # tss) \<noteq> []" "ts \<noteq> [] \<Longrightarrow> hd (commas (ts # tss)) = hd ts"
  by (cases tss; simp)+

lemma toks_begin [simp]: "toks v \<noteq> []" "hd (toks v) \<noteq> CloseArr"
  by (cases v; simp)+

text \<open>The elements of an array and the entries of an object, one after the other.\<close>

lemma fold_array:
  assumes "\<And>v acc. v \<in> set vs \<Longrightarrow> fold (step num) (toks v) (Want (InArr acc # fs)) = After (InArr (reread num v # acc) # fs)"
  shows "fold (step num) (commas (map toks vs) @ [CloseArr]) (WantOrEnd (InArr [] # fs)) = put_value (VArr (map (reread num) vs)) fs"
proof -
  have loop: "fold (step num) (commas (map toks us)) (Want (InArr acc # fs)) = After (InArr (rev (map (reread num) us) @ acc) # fs)"
    if "us \<noteq> []" "set us \<subseteq> set vs" for us acc
    using that by (induction us arbitrary: acc rule: induct_list012) (simp_all add: assms)
  show ?thesis
  proof (cases vs)
    case (Cons u us)
    then have "fold (step num) (commas (map toks vs)) (WantOrEnd (InArr [] # fs)) = fold (step num) (commas (map toks vs)) (Want (InArr [] # fs))"
      by (intro fold_WantOrEnd) (simp_all add: hd_commas)
    then show ?thesis using loop [of vs "[]"] Cons by simp
  qed simp
qed

lemma fold_object:
  assumes "\<And>k v acc. (k, v) \<in> set kvs \<Longrightarrow> fold (step num) (toks v) (Want (InKey acc k # fs)) = After (InObj ((k, reread num v) # acc) # fs)"
  shows "fold (step num) (commas (map (\<lambda>(k, v). Str k # Colon # toks v) kvs) @ [CloseObj]) (KeyOrEnd (InObj [] # fs)) =
    put_value (VObj (put_all (map (map_prod id (reread num)) kvs))) fs"
proof -
  let ?entry = "\<lambda>(k, v). Str k # Colon # toks v"
  have loop: "fold (step num) (commas (map ?entry us)) (WantKey (InObj acc # fs)) = After (InObj (rev (map (map_prod id (reread num)) us) @ acc) # fs)"
    if "us \<noteq> []" "set us \<subseteq> set kvs" for us acc
    using that by (induction us arbitrary: acc rule: induct_list012) (auto simp: assms split_def)
  show ?thesis
  proof (cases kvs)
    case (Cons u us)
    then have "fold (step num) (commas (map ?entry kvs)) (KeyOrEnd (InObj [] # fs)) = fold (step num) (commas (map ?entry kvs)) (WantKey (InObj [] # fs))"
      by (intro fold_KeyOrEnd) (simp_all add: hd_commas split_def)
    then show ?thesis using loop [of kvs "[]"] Cons by simp
  qed (simp add: put_all_def)
qed

lemma fold_toks:
  assumes "numbers_ok num v" and "length fs + nesting v \<le> maxNestingDepth"
  shows "fold (step num) (toks v) (Want fs) = put_value (reread num v) fs"
  using assms
proof (induction v arbitrary: fs)
  case (VInt n)
  then show ?case by (auto simp: valid_FormatInt)
next
  case (VArr vs)
  have "fold (step num) (toks v) (Want (InArr acc # fs)) = After (InArr (reread num v # acc) # fs)" if "v \<in> set vs" for v acc
  proof -
    have "nesting v \<le> Max (set (0 # map nesting vs))" using that by (intro Max_ge) auto
    then have "length (InArr acc # fs) + nesting v \<le> maxNestingDepth" using VArr.prems(2) by simp
    then show ?thesis using VArr that by simp
  qed
  then show ?case using fold_array [of vs num fs] VArr.prems by simp
next
  case (VObj kvs)
  have "fold (step num) (toks v) (Want (InKey acc k # fs)) = After (InObj ((k, reread num v) # acc) # fs)" if "(k, v) \<in> set (sorted_entries kvs)" for k v acc
  proof -
    have "nesting v \<le> Max (set (0 # map (\<lambda>kv. snd kv) (map (map_prod id nesting) kvs)))" using that by (intro Max_ge) force+
    then have "length (InKey acc k # fs) + nesting v \<le> maxNestingDepth" using VObj.prems(2) by simp
    moreover have "numbers_ok num v" using VObj.prems(1) that by auto
    ultimately show ?thesis using VObj.IH [of "(k, v)" v] that by (simp add: snds.simps)
  qed
  then have "fold (step num) (commas (map (\<lambda>(k, v). Str k # Colon # toks v) (sorted_entries kvs)) @ [CloseObj]) (KeyOrEnd (InObj [] # fs)) =
      put_value (VObj (put_all (map (map_prod id (reread num)) (sorted_entries kvs)))) fs"
    by (rule fold_object)
  then show ?case using VObj.prems(2) by (simp add: sorted_entries_map_prod comp_def split_def)
qed auto

section \<open>Round trips\<close>

lemma Unmarshal_tokens:
  assumes "lex Start s = Some (toks v)" and "numbers_ok num v" and "nesting v \<le> maxNestingDepth"
  shows "Unmarshal num s = Some (reread num v)"
  using assms fold_toks [of num v "[]"] by (simp add: Unmarshal_def json_parse_def)

lemma Unmarshal_marshal:
  assumes "numbers_ok num v" and "nesting v \<le> maxNestingDepth"
  shows "Unmarshal num (marshal v) = Some (reread num v)"
  using Unmarshal_tokens [OF _ assms] lex_marshal [OF assms(1), of "[]"] by (simp add: emit_def)

lemma Unmarshal_marshal_indent:
  assumes "numbers_ok num v" and "nesting v \<le> maxNestingDepth"
  shows "Unmarshal num (marshal_indent (spaces k) v 0) = Some (reread num v)"
  using Unmarshal_tokens [OF _ assms] lex_marshal_indent [OF assms(1), of "[]" k 0] by (simp add: emit_def)

end
