(* ===== verification/OpenApi.thy ===== *)
theory OpenApi
  imports JsonRoundtrip
begin

text \<open>
  OpenAPI documents (\<open>internal/api/catalog/openapi_refs.go\<close>, \<open>openapi_examples.go\<close>, \<open>openapi_normalize.go\<close>, \<open>openapi_order.go\<close>). A decoded document is
  a value; a Go map is a list of its entries in the order of the iteration, which the language leaves open. A missing key and the
  value \<open>null\<close> are both \<open>nil\<close>. The parser of YAML is a parameter and its nodes are data.
\<close>

section \<open>Access to values\<close>

definition get :: "(string \<times> val) list \<Rightarrow> string \<Rightarrow> val" where
  "get m k = (case map_of m k of Some v \<Rightarrow> v | None \<Rightarrow> VNull)"

definition as_map :: "val \<Rightarrow> (string \<times> val) list option" where
  "as_map v = (case v of VObj m \<Rightarrow> Some m | _ \<Rightarrow> None)"

definition as_list :: "val \<Rightarrow> val list option" where
  "as_list v = (case v of VArr vs \<Rightarrow> Some vs | _ \<Rightarrow> None)"

definition as_string :: "val \<Rightarrow> string option" where
  "as_string v = (case v of VStr s \<Rightarrow> Some s | _ \<Rightarrow> None)"

definition string_or_empty :: "val \<Rightarrow> string" where
  "string_or_empty v = (case v of VStr s \<Rightarrow> s | _ \<Rightarrow> [])"

section \<open>References\<close>

fun follow :: "val \<Rightarrow> string list \<Rightarrow> val" where
  "follow current [] = current"
| "follow current (part # parts) =
     (case current of VObj m \<Rightarrow> (case map_of m part of Some v \<Rightarrow> follow v parts | None \<Rightarrow> VNull) | _ \<Rightarrow> VNull)"

definition resolveJSONPointer :: "(string \<times> val) list \<Rightarrow> string \<Rightarrow> val" where
  "resolveJSONPointer doc ref = (if \<not> HasPrefix ref ''#/'' then VNull else follow (VObj doc) (Split (drop 2 ref) CHR ''/''))"

text \<open>The first argument bounds the depth of the recursion: \<open>None\<close> is a stack that has grown beyond it.\<close>

fun resolveRefsInDoc :: "nat \<Rightarrow> (string \<times> val) list \<Rightarrow> val \<Rightarrow> val option" where
  "resolveRefsInDoc 0 doc v = None"
| "resolveRefsInDoc (Suc n) doc (VObj m) =
     (case as_string (get m ''$ref'') of
        Some ref \<Rightarrow> (let r = resolveJSONPointer doc ref in if r \<noteq> VNull then resolveRefsInDoc n doc r else Some (VObj m))
      | None \<Rightarrow> map_option VObj (those (map (\<lambda>(k, child). map_option (Pair k) (resolveRefsInDoc n doc child)) m)))"
| "resolveRefsInDoc (Suc n) doc (VArr vs) = map_option VArr (those (map (resolveRefsInDoc n doc) vs))"
| "resolveRefsInDoc (Suc n) doc v = Some v"

section \<open>Examples\<close>

definition format_example :: "string \<Rightarrow> string" where
  "format_example format =
     (if format = ''email'' then ''user@example.com''
      else if format = ''date-time'' then ''2024-01-01T00:00:00Z''
      else if format = ''date'' then ''2024-01-01''
      else if format = ''password'' then ''********''
      else if format = ''uuid'' then ''00000000-0000-0000-0000-000000000000''
      else if format = ''uri'' then ''https://example.com''
      else ''string'')"

definition scalar_schema :: "(string \<times> val) list \<Rightarrow> val" where
  "scalar_schema m = (let typ = string_or_empty (get m ''type'') in
     if typ = ''string'' then VStr (format_example (string_or_empty (get m ''format'')))
     else if typ = ''integer'' \<or> typ = ''number'' then VInt 0
     else if typ = ''boolean'' then VBool True
     else VNull)"

definition nonempty_list :: "(string \<times> val) list \<Rightarrow> string \<Rightarrow> val list" where
  "nonempty_list m k = (case as_list (get m k) of Some vs \<Rightarrow> vs | None \<Rightarrow> [])"

text \<open>The schemas of an \<open>allOf\<close>, merged: a later entry replaces an earlier one.\<close>

definition merge_all :: "val list \<Rightarrow> (string \<times> val) list" where
  "merge_all items = put_all (concat (map (\<lambda>item. case as_map item of Some sub \<Rightarrow> sub | None \<Rightarrow> []) items))"

function schemaToExample :: "val \<Rightarrow> int \<Rightarrow> val" where
  "schemaToExample schema depth =
     (if schema = VNull \<or> depth > 6 then VNull
      else case schema of
        VObj m \<Rightarrow>
          (case map_of m ''example'' of
             Some example \<Rightarrow> example
           | None \<Rightarrow>
               if nonempty_list m ''enum'' \<noteq> [] then hd (nonempty_list m ''enum'')
               else if nonempty_list m ''allOf'' \<noteq> [] then schemaToExample (VObj (merge_all (nonempty_list m ''allOf''))) (depth + 1)
               else if nonempty_list m ''anyOf'' \<noteq> [] then schemaToExample (hd (nonempty_list m ''anyOf'')) (depth + 1)
               else if nonempty_list m ''oneOf'' \<noteq> [] then schemaToExample (hd (nonempty_list m ''oneOf'')) (depth + 1)
               else if get m ''type'' = VStr ''object'' \<or> get m ''properties'' \<noteq> VNull then
                 VObj (map (\<lambda>(key, propSchema). (key, schemaToExample propSchema (depth + 1)))
                   (case as_map (get m ''properties'') of Some props \<Rightarrow> props | None \<Rightarrow> []))
               else if get m ''type'' = VStr ''array'' \<or> get m ''items'' \<noteq> VNull then
                 VArr [schemaToExample (if get m ''items'' = VNull then VObj [] else get m ''items'') (depth + 1)]
               else scalar_schema m)
      | _ \<Rightarrow> schema)"
  by pat_completeness auto
termination
  by (relation "measure (\<lambda>(schema, depth). nat (7 - depth))") auto

declare schemaToExample.simps [simp del]

section \<open>Bodies\<close>

definition first_schema :: "(string \<times> val) list \<Rightarrow> val" where
  "first_schema content = (case List.find (\<lambda>(k, ct). case as_map ct of Some ctMap \<Rightarrow> map_of ctMap ''schema'' \<noteq> None | None \<Rightarrow> False) content of
     Some (k, VObj ctMap) \<Rightarrow> get ctMap ''schema''
   | _ \<Rightarrow> VNull)"

definition pickContentSchema :: "(string \<times> val) list \<Rightarrow> val" where
  "pickContentSchema content =
     (case as_map (get content ''application/json'') of
        Some jsonContent \<Rightarrow> (case map_of jsonContent ''schema'' of Some schema \<Rightarrow> schema | None \<Rightarrow> first_schema content)
      | None \<Rightarrow> first_schema content)"

definition first_value :: "(string \<times> val) list \<Rightarrow> val" where
  "first_value examples = (case List.find (\<lambda>(k, ex). case as_map ex of Some exMap \<Rightarrow> map_of exMap ''value'' \<noteq> None | None \<Rightarrow> False) examples of
     Some (k, VObj exMap) \<Rightarrow> get exMap ''value''
   | _ \<Rightarrow> VNull)"

definition pickContentExample :: "(string \<times> val) list \<Rightarrow> val" where
  "pickContentExample content =
     (case as_map (get content ''application/json'') of
        Some jsonContent \<Rightarrow>
          (case map_of jsonContent ''example'' of
             Some example \<Rightarrow> example
           | None \<Rightarrow> (case as_map (get jsonContent ''examples'') of Some examples \<Rightarrow> first_value examples | None \<Rightarrow> VNull))
      | None \<Rightarrow> VNull)"

definition normalizeRequestBodyForStorage :: "val \<Rightarrow> val" where
  "normalizeRequestBodyForStorage v =
     (case v of
        VNull \<Rightarrow> VNull
      | VObj m \<Rightarrow>
          (case as_map (get m ''content'') of
             Some content \<Rightarrow>
               if pickContentExample content \<noteq> VNull then pickContentExample content
               else if pickContentSchema content \<noteq> VNull then schemaToExample (pickContentSchema content) 0
               else VNull
           | None \<Rightarrow> schemaToExample v 0)
      | _ \<Rightarrow> schemaToExample v 0)"

definition isHTTPStatusKey :: "string \<Rightarrow> bool" where
  "isHTTPStatusKey s \<longleftrightarrow> s = ''default'' \<or> length s = 3 \<and> list_all is_digit s"

definition response_example :: "(string \<times> val) list \<Rightarrow> val" where
  "response_example entryMap =
     (case as_map (get entryMap ''content'') of
        Some content \<Rightarrow>
          if pickContentExample content \<noteq> VNull then pickContentExample content
          else if pickContentSchema content \<noteq> VNull then schemaToExample (pickContentSchema content) 0
          else VNull
      | None \<Rightarrow>
          (case map_of entryMap ''example'' of
             Some ex \<Rightarrow> ex
           | None \<Rightarrow> (case map_of entryMap ''schema'' of Some schema \<Rightarrow> schemaToExample schema 0 | None \<Rightarrow> VNull)))"

definition status_examples :: "(string \<times> val) list \<Rightarrow> (string \<times> val) list" where
  "status_examples m = concat (map (\<lambda>(status, entry).
     if \<not> isHTTPStatusKey status then []
     else case as_map entry of
       None \<Rightarrow> []
     | Some entryMap \<Rightarrow> if response_example entryMap \<noteq> VNull then [(status, response_example entryMap)] else []) m)"

definition normalizeResponsesForStorage :: "val \<Rightarrow> val" where
  "normalizeResponsesForStorage v =
     (case as_map v of
        None \<Rightarrow> VObj []
      | Some m \<Rightarrow>
          (case status_examples m of
             [] \<Rightarrow> VObj []
           | [(status, ex)] \<Rightarrow> ex
           | examplesByStatus \<Rightarrow> VObj examplesByStatus))"

section \<open>The order of the document\<close>

datatype yaml_kind = DocumentNode | SequenceNode | MappingNode | ScalarNode | AliasNode

datatype yaml_node = Node (Kind: yaml_kind) (Value: string) (Content: "yaml_node list")

text \<open>The loop \<open>for i := 0; i+1 < len(Content); i += 2\<close>.\<close>

fun pairs :: "'a list \<Rightarrow> ('a \<times> 'a) list" where
  "pairs (x # y # xs) = (x, y) # pairs xs"
| "pairs _ = []"

definition isHTTPMethodKey :: "string \<Rightarrow> bool" where
  "isHTTPMethodKey s \<longleftrightarrow> s \<in> {''get'', ''post'', ''put'', ''delete'', ''patch'', ''head'', ''options'', ''trace''}"

definition documentContent :: "yaml_node \<Rightarrow> yaml_node option" where
  "documentContent root = (case Content root of [] \<Rightarrow> None | n # ns \<Rightarrow> Some n)"

definition mappingValue :: "yaml_node option \<Rightarrow> string \<Rightarrow> yaml_node option" where
  "mappingValue m key =
     (case m of
        None \<Rightarrow> None
      | Some n \<Rightarrow> if Kind n \<noteq> MappingNode then None else map_option snd (List.find (\<lambda>(k, v). Value k = key) (pairs (Content n))))"

definition methods_of :: "yaml_node \<Rightarrow> string list" where
  "methods_of item = filter isHTTPMethodKey (map (\<lambda>(k, v). ToLower (Value k)) (pairs (Content item)))"

definition parseOpenAPIDocumentOrder :: "(string \<Rightarrow> yaml_node result) \<Rightarrow> string \<Rightarrow> (string list \<times> (string \<times> string list) list) result" where
  "parseOpenAPIDocumentOrder yaml_Node spec =
     (case yaml_Node spec of
        Inl e \<Rightarrow> Inl e
      | Inr root \<Rightarrow>
          (case mappingValue (documentContent root) ''paths'' of
             None \<Rightarrow> Inr ([], [])
           | Some pathsNode \<Rightarrow>
               if Kind pathsNode \<noteq> MappingNode then Inr ([], [])
               else Inr (map (\<lambda>(k, v). Value k) (pairs (Content pathsNode)),
                 put_all (map (\<lambda>(k, v). (Value k, methods_of v)) (filter (\<lambda>(k, v). Kind v = MappingNode) (pairs (Content pathsNode)))))))"

definition sortedPathKeys :: "(string \<times> val) list \<Rightarrow> string list" where
  "sortedPathKeys paths = sort (map fst paths)"

definition httpMethods :: "string list" where
  "httpMethods = [''get'', ''post'', ''put'', ''delete'', ''patch'', ''head'', ''options'', ''trace'']"

definition methodsForPathItem :: "string \<Rightarrow> (string \<times> val) list \<Rightarrow> (string \<times> string list) list \<Rightarrow> string list" where
  "methodsForPathItem path item methodsByPath =
     filter (\<lambda>method. map_of item method \<noteq> None)
       (case map_of methodsByPath path of Some (m # ms) \<Rightarrow> m # ms | _ \<Rightarrow> httpMethods)"

end
