(* ===== verification/ApiEndpoints.thy ===== *)
theory ApiEndpoints
  imports OpenApi Graphql Grpc Identity
begin

text \<open>
  The endpoints of an API description (\<open>internal/api/catalog/service_logic.go\<close>, \<open>json_storage.go\<close>): one for each operation of an OpenAPI document, each root
  field of a GraphQL schema, each method of a proto file. \<open>json.RawMessage\<close> is its text, empty for \<open>nil\<close>; a \<open>float64\<close> is its bits. What the
  parsers of YAML, GraphQL and proto files answer is in the record \<open>spec_parsers\<close>; \<open>spStack\<close> is the depth of the recursion for which the stack has room.
\<close>

section \<open>Data (internal/catalog/catalog.go)\<close>

record loadTestThreshold =
  ltID :: string
  ltMetric :: string
  ltComparator :: string
  ltValue :: "64 word"

record endpointSLA =
  slaThresholds :: "loadTestThreshold list"

record apiEndpoint =
  aeID :: string
  aeAPIGroupID :: string
  aeAPIGroupVersionID :: "string option"
  aeServiceID :: string
  aeOrgID :: string
  aeOperationID :: string
  aeMethod :: string
  aePath :: string
  aeSummary :: string
  aeDescription :: string
  aeTags :: "string list option"
  aeTokenCount :: int
  aeParameters :: string
  aeRequestBody :: string
  aeResponses :: string
  aeExampleRequests :: string
  aeExampleResponses :: string
  aeOrder :: "64 word"
  aeSLA :: "endpointSLA option"
  aeCreatedBy :: string
  aeUpdatedBy :: "string option"
  aeCreatedByCommitHash :: "string option"
  aeUpdatedByCommitHash :: "string option"
  aeCreatedAt :: time
  aeUpdatedAt :: time
  aeDeletedAt :: "time option"
  aeDeletedBy :: "string option"

definition APIEndpoint_zero :: apiEndpoint where
  "APIEndpoint_zero = \<lparr>aeID = [], aeAPIGroupID = [], aeAPIGroupVersionID = None, aeServiceID = [], aeOrgID = [], aeOperationID = [], aeMethod = [],
     aePath = [], aeSummary = [], aeDescription = [], aeTags = None, aeTokenCount = 0, aeParameters = [], aeRequestBody = [], aeResponses = [],
     aeExampleRequests = [], aeExampleResponses = [], aeOrder = 0, aeSLA = None, aeCreatedBy = [], aeUpdatedBy = None,
     aeCreatedByCommitHash = None, aeUpdatedByCommitHash = None, aeCreatedAt = 0, aeUpdatedAt = 0, aeDeletedAt = None, aeDeletedBy = None\<rparr>"

text \<open>The exact \<open>float64\<close> of a number below \<open>2\<^sup>5\<^sup>3\<close>, and the order of the values of two floats.\<close>

fun log2 :: "nat \<Rightarrow> nat" where
  "log2 n = (if n < 2 then 0 else Suc (log2 (n div 2)))"

declare log2.simps [simp del]

definition float64 :: "nat \<Rightarrow> 64 word" where
  "float64 n = (if n = 0 then 0 else of_nat ((1023 + log2 n) * 2 ^ 52 + (n - 2 ^ log2 n) * 2 ^ (52 - log2 n)))"

definition float_key :: "64 word \<Rightarrow> int" where
  "float_key x = (if uint x < 2 ^ 63 then uint x else 2 ^ 63 - uint x)"

section \<open>Stored JSON (json_storage.go)\<close>

definition normalizeStoredJSON :: "string \<Rightarrow> string" where
  "normalizeStoredJSON raw =
     (if raw = [] then raw
      else case Unmarshal_string raw of
        None \<Rightarrow> raw
      | Some asString \<Rightarrow> if \<not> Valid asString then raw else asString)"

definition seedExampleSamplesJSON :: "(string \<Rightarrow> string option) \<Rightarrow> string \<Rightarrow> string" where
  "seedExampleSamplesJSON num payload =
     (if payload = [] \<or> payload \<in> {''{}'', ''null'', ''[]''} then ''[]''
      else case Unmarshal num payload of None \<Rightarrow> ''[]'' | Some v \<Rightarrow> marshal (VArr [v]))"

section \<open>Parsers\<close>

record spec_parsers =
  spNumber :: "string \<Rightarrow> string option"
  spYaml :: "string \<Rightarrow> (string \<times> val) list option"
  spYamlNode :: "string \<Rightarrow> yaml_node result"
  spLoadSchema :: "(string \<times> string) list \<Rightarrow> schema result"
  spParseProto :: "string \<Rightarrow> string \<Rightarrow> file_node result"
  spStack :: nat

record spec_context =
  scGroupID :: string
  scServiceID :: string
  scOrgID :: string
  scActorID :: string
  scNow :: time

definition new_endpoint :: "spec_context \<Rightarrow> string \<Rightarrow> nat \<Rightarrow> apiEndpoint" where
  "new_endpoint c ident order = APIEndpoint_zero\<lparr>aeID := ident, aeAPIGroupID := scGroupID c, aeServiceID := scServiceID c, aeOrgID := scOrgID c,
     aeOrder := float64 order, aeCreatedBy := scActorID c, aeCreatedAt := scNow c, aeUpdatedAt := scNow c\<rparr>"

definition ToUpper :: "string \<Rightarrow> string" where
  "ToUpper s = map upper_char s"

definition unmarshal_doc :: "spec_parsers \<Rightarrow> string \<Rightarrow> (string \<times> val) list option" where
  "unmarshal_doc ps spec =
     (case Unmarshal (spNumber ps) spec of
        Some (VObj m) \<Rightarrow> Some m
      | Some VNull \<Rightarrow> Some []
      | _ \<Rightarrow> spYaml ps spec)"

definition path_order :: "spec_parsers \<Rightarrow> string \<Rightarrow> (string \<times> val) list \<Rightarrow> string list \<times> (string \<times> string list) list" where
  "path_order ps spec rawPaths =
     (case parseOpenAPIDocumentOrder (spYamlNode ps) spec of
        Inl e \<Rightarrow> (sortedPathKeys rawPaths, [])
      | Inr (pathOrder, methodsByPath) \<Rightarrow>
          (pathOrder @ sort (filter (\<lambda>path. path \<notin> set pathOrder) (map fst rawPaths)), methodsByPath))"

text \<open>The operations in the order of the two loops.\<close>

definition operations :: "(string \<times> val) list \<Rightarrow> string list \<Rightarrow> (string \<times> string list) list \<Rightarrow> (string \<times> string \<times> (string \<times> val) list) list" where
  "operations rawPaths pathOrder methodsByPath = concat (map (\<lambda>path.
     case map_of rawPaths path of
       Some (VObj item) \<Rightarrow> concat (map (\<lambda>method.
         case as_map (get item method) of Some op \<Rightarrow> [(path, method, op)] | None \<Rightarrow> []) (methodsForPathItem path item methodsByPath))
     | _ \<Rightarrow> []) pathOrder)"

definition op_tags :: "(string \<times> val) list \<Rightarrow> string list option" where
  "op_tags op = (case as_list (get op ''tags'') of
     None \<Rightarrow> None
   | Some rawTags \<Rightarrow> (case concat (map (\<lambda>t. case as_string t of Some s \<Rightarrow> [s] | None \<Rightarrow> []) rawTags) of [] \<Rightarrow> None | tags \<Rightarrow> Some tags))"

definition operation_endpoint :: "spec_parsers \<Rightarrow> (string \<times> val) list \<Rightarrow> spec_context \<Rightarrow> (nat \<Rightarrow> string) \<Rightarrow> nat \<Rightarrow>
    string \<times> string \<times> (string \<times> val) list \<Rightarrow> apiEndpoint option" where
  "operation_endpoint ps doc c ids order = (\<lambda>(path, method, op).
     case (resolveRefsInDoc (spStack ps) doc (get op ''requestBody''), resolveRefsInDoc (spStack ps) doc (get op ''responses'')) of
       (Some resolvedReqBody, Some resolvedResponses) \<Rightarrow>
         (let operationID = string_or_empty (get op ''operationId'');
              reqBody = marshal (normalizeRequestBodyForStorage resolvedReqBody);
              responses = marshal (normalizeResponsesForStorage resolvedResponses) in
          Some ((new_endpoint c (ids order) order)
            \<lparr>aeOperationID := if operationID = [] then ToUpper method @ '' '' @ path else operationID,
             aeMethod := ToUpper method,
             aePath := path,
             aeSummary := string_or_empty (get op ''summary''),
             aeDescription := string_or_empty (get op ''description''),
             aeTags := op_tags op,
             aeParameters := marshal (get op ''parameters''),
             aeRequestBody := reqBody,
             aeResponses := responses,
             aeExampleRequests := seedExampleSamplesJSON (spNumber ps) reqBody,
             aeExampleResponses := seedExampleSamplesJSON (spNumber ps) responses\<rparr>))
     | _ \<Rightarrow> None)"

text \<open>\<open>None\<close> is a stack overflow, which ends the process.\<close>

definition parseSpecEndpoints :: "spec_parsers \<Rightarrow> string \<Rightarrow> spec_context \<Rightarrow> (nat \<Rightarrow> string) \<Rightarrow> apiEndpoint list result option" where
  "parseSpecEndpoints ps spec c ids =
     (case unmarshal_doc ps spec of
        None \<Rightarrow> Some (Inl (Errorf ''spec is not valid JSON or YAML'' []))
      | Some doc \<Rightarrow>
          (case as_map (get doc ''paths'') of
             None \<Rightarrow> Some (Inr [])
           | Some rawPaths \<Rightarrow>
               (case path_order ps spec rawPaths of (pathOrder, methodsByPath) \<Rightarrow>
                  map_option Inr (those (map (\<lambda>(i, operation). operation_endpoint ps doc c ids i operation)
                    (enumerate 0 (operations rawPaths pathOrder methodsByPath)))))))"

definition or_empty_object :: "string \<Rightarrow> string" where
  "or_empty_object raw = (if Valid raw then raw else marshal (VObj []))"

definition graphql_endpoint :: "spec_parsers \<Rightarrow> spec_context \<Rightarrow> (nat \<Rightarrow> string) \<Rightarrow> nat \<Rightarrow> parsedGraphQLOperation \<Rightarrow> apiEndpoint" where
  "graphql_endpoint ps c ids i op =
     (let requestBody = marshal (VObj [(''query'', VStr (poRequestExample op))]);
          responses = or_empty_object (poResponseExample op);
          parameters = or_empty_object (poVariables op) in
      (new_endpoint c (ids i) i)
        \<lparr>aeOperationID := poOperationID op,
         aeMethod := poKind op,
         aePath := poSignature op,
         aeDescription := poDescription op,
         aeTags := Some (poTags op),
         aeParameters := parameters,
         aeRequestBody := requestBody,
         aeResponses := responses,
         aeExampleRequests := seedExampleSamplesJSON (spNumber ps) requestBody,
         aeExampleResponses := seedExampleSamplesJSON (spNumber ps) responses\<rparr>)"

definition parseGraphQLSpecEndpoints :: "spec_parsers \<Rightarrow> string \<Rightarrow> spec_context \<Rightarrow> (nat \<Rightarrow> string) \<Rightarrow> apiEndpoint list result" where
  "parseGraphQLSpecEndpoints ps spec c ids =
     (case ParseGraphQL (spLoadSchema ps) spec of
        Inl e \<Rightarrow> Inl e
      | Inr ops \<Rightarrow> Inr (map (\<lambda>(i, op). graphql_endpoint ps c ids i op) (enumerate 0 ops)))"

definition grpc_endpoint :: "spec_parsers \<Rightarrow> spec_context \<Rightarrow> (nat \<Rightarrow> string) \<Rightarrow> nat \<Rightarrow> parsedGrpcMethod \<Rightarrow> apiEndpoint" where
  "grpc_endpoint ps c ids i m =
     (let grpcMeta = marshal (VObj [(''packageName'', VStr (pmPackageName m)), (''serviceName'', VStr (pmServiceName m)),
            (''requestType'', VStr (pmRequestType m)), (''responseType'', VStr (pmResponseType m))]);
          requestExample = or_empty_object (pmRequestExample m);
          responseExample = or_empty_object (pmResponseExample m);
          path = (if pmMethodID m \<noteq> [] \<and> \<not> HasPrefix (pmMethodID m) ''/'' then ''/'' @ pmMethodID m else pmMethodID m) in
      (new_endpoint c (ids i) i)
        \<lparr>aeOperationID := pmMethodName m,
         aeMethod := pmStreamingType m,
         aePath := path,
         aeSummary := pmProtoSnippet m,
         aeDescription := pmDescription m,
         aeTags := Some (pmTags m),
         aeParameters := grpcMeta,
         aeRequestBody := requestExample,
         aeResponses := responseExample,
         aeExampleRequests := seedExampleSamplesJSON (spNumber ps) requestExample,
         aeExampleResponses := seedExampleSamplesJSON (spNumber ps) responseExample\<rparr>)"

definition parseGrpcSpecEndpoints :: "spec_parsers \<Rightarrow> string \<Rightarrow> spec_context \<Rightarrow> (nat \<Rightarrow> string) \<Rightarrow> apiEndpoint list result" where
  "parseGrpcSpecEndpoints ps spec c ids =
     (case ParseGrpc (spParseProto ps) spec of
        Inl e \<Rightarrow> Inl e
      | Inr ms \<Rightarrow> Inr (map (\<lambda>(i, m). grpc_endpoint ps c ids i m) (enumerate 0 ms)))"

definition normalizeProtocol :: "string \<Rightarrow> string" where
  "normalizeProtocol protocol = (let p = ToLower (TrimSpace protocol) in
     if p = ''graphql'' then ''graphql'' else if p = ''grpc'' then ''grpc'' else ''openapi'')"

definition parseSpecEndpointsForProtocol :: "spec_parsers \<Rightarrow> string \<Rightarrow> string \<Rightarrow> spec_context \<Rightarrow> (nat \<Rightarrow> string) \<Rightarrow> apiEndpoint list result option" where
  "parseSpecEndpointsForProtocol ps spec protocol c ids =
     (let p = normalizeProtocol protocol in
      if p = ''graphql'' then Some (parseGraphQLSpecEndpoints ps spec c ids)
      else if p = ''grpc'' then Some (parseGrpcSpecEndpoints ps spec c ids)
      else parseSpecEndpoints ps spec c ids)"

section \<open>Service levels\<close>

definition endpointSLAKey :: "apiEndpoint \<Rightarrow> string" where
  "endpointSLAKey e = (if aeOperationID e \<noteq> [] then ''op:'' @ aeOperationID e else ''mp:'' @ ToUpper (aeMethod e) @ '' '' @ aePath e)"

definition preserveEndpointSLAs :: "apiEndpoint list \<Rightarrow> apiEndpoint list \<Rightarrow> apiEndpoint list" where
  "preserveEndpointSLAs existing fresh =
     (let byKey = map_of (rev (concat (map (\<lambda>e. case aeSLA e of Some sla \<Rightarrow> [(endpointSLAKey e, sla)] | None \<Rightarrow> []) existing))) in
      map (\<lambda>e. case byKey (endpointSLAKey e) of Some sla \<Rightarrow> e\<lparr>aeSLA := Some sla\<rparr> | None \<Rightarrow> e) fresh)"

definition specHash :: "string \<Rightarrow> string" where
  "specHash s = hex_encode (Sum256 (map byte_of_char s))"

end
