(* ===== verification/ApiGroupStore.thy ===== *)
theory ApiGroupStore
  imports ObjectStore ApiEndpoints
begin

text \<open>
  API groups, their versions and their endpoints (\<open>internal/store/postgres/catalog.go\<close>, migrations 0011, 0033, 0039, 0040, 0046, 0062),
  with the keys of their specifications in the object storage. \<open>jsonb_of\<close> is how the server prints a JSON value that it has
  read, \<open>None\<close> for a text that is not JSON; \<open>gen_uuid\<close> are the identifiers of \<open>gen_random_uuid()\<close>. A live row of \<open>api_endpoints\<close> without a version is part of
  the working copy of its group.
\<close>

section \<open>Tables\<close>

record apiGroup =
  agID :: string
  agServiceID :: string
  agOrgID :: string
  agName :: string
  agVersion :: string
  agLabel :: "string option"
  agProtocol :: string
  agSpecKey :: "string option"
  agSpecHash :: "string option"
  agCreatedBy :: string
  agUpdatedBy :: "string option"
  agCreatedByCommitHash :: "string option"
  agUpdatedByCommitHash :: "string option"
  agCreatedAt :: time
  agUpdatedAt :: time
  agDeletedAt :: "time option"
  agDeletedBy :: "string option"

record apiGroupVersion =
  avID :: string
  avAPIGroupID :: string
  avVersionNumber :: int
  avLabel :: "string option"
  avSpecKey :: string
  avSpecHash :: string
  avIsAutoVersion :: bool
  avCreatedBy :: string
  avCreatedByCommitHash :: "string option"
  avCreatedAt :: time

record publishInput =
  piGroup :: apiGroup
  piReplaceEndpoints :: bool
  piNewEndpoints :: "apiEndpoint list"
  piVersion :: apiGroupVersion
  piActorID :: string

record spec_db = object_db +
  api_groups :: "apiGroup list"
  api_group_versions :: "apiGroupVersion list"
  api_endpoints :: "apiEndpoint list"
  service_ids :: "string list"
  jsonb_of :: "string \<Rightarrow> string option"
  gen_uuid :: "nat \<Rightarrow> string"
  gen_seq :: nat

type_synonym 'a aprog = "(spec_db, 'a) sprog"

definition in_working_copy :: "string \<Rightarrow> apiEndpoint \<Rightarrow> bool" where
  "in_working_copy g e \<longleftrightarrow> aeAPIGroupID e = g \<and> aeAPIGroupVersionID e = None \<and> aeDeletedAt e = None"

definition in_version :: "string \<Rightarrow> string \<Rightarrow> apiEndpoint \<Rightarrow> bool" where
  "in_version g v e \<longleftrightarrow> aeAPIGroupID e = g \<and> aeAPIGroupVersionID e = Some v \<and> aeDeletedAt e = None"

section \<open>Object keys\<close>

definition APIGroupSpecKey :: "string \<Rightarrow> string \<Rightarrow> string \<Rightarrow> string" where
  "APIGroupSpecKey orgID serviceID apiGroupID = orgID @ ''/services/'' @ serviceID @ ''/api-groups/'' @ apiGroupID @ ''/spec''"

definition APIGroupVersionSpecKey :: "string \<Rightarrow> string \<Rightarrow> string \<Rightarrow> string \<Rightarrow> string" where
  "APIGroupVersionSpecKey orgID serviceID apiGroupID versionID =
     orgID @ ''/services/'' @ serviceID @ ''/api-groups/'' @ apiGroupID @ ''/versions/'' @ versionID @ ''/spec''"

section \<open>Groups\<close>

definition protocol_ok :: "string \<Rightarrow> bool" where
  "protocol_ok p \<longleftrightarrow> p \<in> {''REST'', ''GraphQL'', ''gRPC''}"

definition CreateAPIGroup :: "apiGroup \<Rightarrow> unit result aprog" where
  "CreateAPIGroup g = iwrap ''postgres: CreateAPIGroup: %w'' (txn (\<lambda>now d i.
     if exists_row (\<lambda>r. agID r = agID g) (api_groups i) then Inl (UniqueViolation ''api_groups_pkey'')
     else if agServiceID g \<notin> set (service_ids i) then Inl (ForeignKeyViolation ''api_groups_service_id_fkey'')
     else if \<not> exists_row (\<lambda>r. oID r = agOrgID g) (orgs d) then Inl (ForeignKeyViolation ''api_groups_org_id_fkey'')
     else if \<not> protocol_ok (agProtocol g) then Inl (CheckViolation ''api_groups_protocol_check'')
     else Inr ((), d, i\<lparr>api_groups := api_groups i @
       [g\<lparr>agUpdatedBy := None, agUpdatedByCommitHash := None, agDeletedAt := None, agDeletedBy := None\<rparr>]\<rparr>)))"

definition GetAPIGroup :: "string \<Rightarrow> apiGroup option result aprog" where
  "GetAPIGroup ident = iwrap ''postgres: GetAPIGroup: %w'' (iquery (\<lambda>now d i. Inr (List.find (\<lambda>g. agID g = ident) (api_groups i))))"

text \<open>\<open>ORDER BY (name = $2) DESC\<close> puts exact matches first.\<close>

definition ListAPIGroups :: "string \<Rightarrow> string option \<Rightarrow> apiGroup list result aprog" where
  "ListAPIGroups serviceID exactName = iwrap ''postgres: ListAPIGroups: %w'' (iquery (\<lambda>now d i. Inr
     (sort_key (\<lambda>g. case exactName of Some n \<Rightarrow> agName g \<noteq> n | None \<Rightarrow> False)
       (sort_key agCreatedAt (sort_key agID
         (filter (\<lambda>g. agServiceID g = serviceID \<and> agDeletedAt g = None \<and>
            (case exactName of Some n \<Rightarrow> ToLower (agName g) = ToLower n | None \<Rightarrow> True)) (api_groups i)))))))"

definition live_group :: "string \<Rightarrow> apiGroup \<Rightarrow> bool" where
  "live_group ident g \<longleftrightarrow> agID g = ident \<and> agDeletedAt g = None"

definition write_group :: "time \<Rightarrow> apiGroup \<Rightarrow> spec_db \<Rightarrow> spec_db result" where
  "write_group t g i =
     (if exists_row (live_group (agID g)) (api_groups i) \<and> \<not> protocol_ok (agProtocol g) then Inl (CheckViolation ''api_groups_protocol_check'')
      else Inr (i\<lparr>api_groups := update_where (live_group (agID g)) (\<lambda>r. r\<lparr>agName := agName g, agVersion := agVersion g, agLabel := agLabel g,
        agProtocol := agProtocol g, agSpecKey := agSpecKey g, agSpecHash := agSpecHash g, agUpdatedBy := agUpdatedBy g,
        agUpdatedByCommitHash := agUpdatedByCommitHash g, agUpdatedAt := t\<rparr>) (api_groups i)\<rparr>))"

definition UpdateAPIGroup :: "apiGroup \<Rightarrow> unit result aprog" where
  "UpdateAPIGroup g = iwrap ''postgres: UpdateAPIGroup: %w'' (istmt (\<lambda>now i.
     case write_group now g i of Inl e \<Rightarrow> Inl e | Inr i' \<Rightarrow> Inr ((), i')))"

definition SoftDeleteAPIGroup :: "string \<Rightarrow> string \<Rightarrow> unit result aprog" where
  "SoftDeleteAPIGroup ident deletedBy = iwrap ''postgres: SoftDeleteAPIGroup: %w'' (istmt (\<lambda>now i. Inr ((), i\<lparr>api_groups :=
     update_where (live_group ident) (\<lambda>r. r\<lparr>agDeletedAt := Some now, agDeletedBy := Some deletedBy\<rparr>) (api_groups i)\<rparr>)))"

section \<open>Versions\<close>

definition insert_version :: "apiGroupVersion \<Rightarrow> spec_db \<Rightarrow> spec_db result" where
  "insert_version v i =
     (if exists_row (\<lambda>r. avID r = avID v) (api_group_versions i) then Inl (UniqueViolation ''api_group_versions_pkey'')
      else if exists_row (\<lambda>r. avAPIGroupID r = avAPIGroupID v \<and> avVersionNumber r = avVersionNumber v) (api_group_versions i)
        then Inl (UniqueViolation ''api_group_versions_api_group_id_version_number_key'')
      else if \<not> exists_row (\<lambda>g. agID g = avAPIGroupID v) (api_groups i) then Inl (ForeignKeyViolation ''api_group_versions_api_group_id_fkey'')
      else Inr (i\<lparr>api_group_versions := api_group_versions i @ [v]\<rparr>))"

definition CreateAPIGroupVersion :: "apiGroupVersion \<Rightarrow> unit result aprog" where
  "CreateAPIGroupVersion v = iwrap ''postgres: CreateAPIGroupVersion: %w'' (istmt (\<lambda>now i.
     case insert_version v i of Inl e \<Rightarrow> Inl e | Inr i' \<Rightarrow> Inr ((), i')))"

definition GetAPIGroupVersion :: "string \<Rightarrow> apiGroupVersion option result aprog" where
  "GetAPIGroupVersion ident = iwrap ''postgres: GetAPIGroupVersion: %w'' (iquery (\<lambda>now d i.
     Inr (List.find (\<lambda>v. avID v = ident) (api_group_versions i))))"

definition ListAPIGroupVersions :: "string \<Rightarrow> apiGroupVersion list result aprog" where
  "ListAPIGroupVersions apiGroupID = iwrap ''postgres: ListAPIGroupVersions: %w'' (iquery (\<lambda>now d i.
     Inr (sort_key (\<lambda>v. - avVersionNumber v) (filter (\<lambda>v. avAPIGroupID v = apiGroupID) (api_group_versions i)))))"

definition latest_number :: "string \<Rightarrow> spec_db \<Rightarrow> int" where
  "latest_number apiGroupID i =
     (case filter (\<lambda>v. avAPIGroupID v = apiGroupID) (api_group_versions i) of [] \<Rightarrow> 0 | v # vs \<Rightarrow> Max (set (map avVersionNumber (v # vs))))"

definition LatestAPIGroupVersionNumber :: "string \<Rightarrow> int result aprog" where
  "LatestAPIGroupVersionNumber apiGroupID = iquery (\<lambda>now d i. Inr (latest_number apiGroupID i))"

section \<open>Endpoints\<close>

definition json_column :: "spec_db \<Rightarrow> string \<Rightarrow> string \<Rightarrow> string option" where
  "json_column i dflt raw = jsonb_of i (if raw = [] then dflt else raw)"

text \<open>The columns that an \<open>INSERT\<close> writes; the others are \<open>NULL\<close>.\<close>

definition endpoint_row :: "spec_db \<Rightarrow> apiEndpoint \<Rightarrow> apiEndpoint option" where
  "endpoint_row i e =
     (case (json_column i ''[]'' (aeParameters e), json_column i ''{}'' (aeRequestBody e), json_column i ''{}'' (aeResponses e),
         json_column i ''[]'' (aeExampleRequests e), json_column i ''[]'' (aeExampleResponses e)) of
        (Some params, Some reqBody, Some resps, Some exampleReqs, Some exampleResps) \<Rightarrow>
          Some (e\<lparr>aeTags := Some (case aeTags e of Some tags \<Rightarrow> tags | None \<Rightarrow> []), aeParameters := params, aeRequestBody := reqBody,
            aeResponses := resps, aeExampleRequests := exampleReqs, aeExampleResponses := exampleResps, aeUpdatedBy := None,
            aeUpdatedByCommitHash := None, aeDeletedAt := None, aeDeletedBy := None\<rparr>)
      | _ \<Rightarrow> None)"

definition working_twin :: "apiEndpoint \<Rightarrow> apiEndpoint \<Rightarrow> bool" where
  "working_twin e r \<longleftrightarrow> in_working_copy (aeAPIGroupID e) e \<and> in_working_copy (aeAPIGroupID e) r \<and> aeMethod r = aeMethod e \<and> aePath r = aePath e"

definition insert_endpoint :: "database \<Rightarrow> apiEndpoint \<Rightarrow> spec_db \<Rightarrow> spec_db result" where
  "insert_endpoint d e i =
     (case endpoint_row i e of
        None \<Rightarrow> Inl (Errorf ''pq: invalid input syntax for type json'' [])
      | Some row \<Rightarrow>
          if exists_row (\<lambda>r. aeID r = aeID row) (api_endpoints i) then Inl (UniqueViolation ''api_endpoints_pkey'')
          else if exists_row (working_twin row) (api_endpoints i) then Inl (UniqueViolation ''idx_api_endpoints_working_copy_unique'')
          else if \<not> exists_row (\<lambda>g. agID g = aeAPIGroupID row) (api_groups i) then Inl (ForeignKeyViolation ''api_endpoints_api_group_id_fkey'')
          else if \<not> (case aeAPIGroupVersionID row of None \<Rightarrow> True | Some v \<Rightarrow> exists_row (\<lambda>r. avID r = v) (api_group_versions i))
            then Inl (ForeignKeyViolation ''api_endpoints_api_group_version_id_fkey'')
          else if aeServiceID row \<notin> set (service_ids i) then Inl (ForeignKeyViolation ''api_endpoints_service_id_fkey'')
          else if \<not> exists_row (\<lambda>r. oID r = aeOrgID row) (orgs d) then Inl (ForeignKeyViolation ''api_endpoints_org_id_fkey'')
          else Inr (i\<lparr>api_endpoints := api_endpoints i @ [row]\<rparr>))"

definition CreateAPIEndpoint :: "apiEndpoint \<Rightarrow> unit result aprog" where
  "CreateAPIEndpoint e = iwrap ''postgres: CreateAPIEndpoint: %w'' (txn (\<lambda>now d i.
     case insert_endpoint d e i of Inl err \<Rightarrow> Inl err | Inr i' \<Rightarrow> Inr ((), d, i')))"

definition GetAPIEndpoint :: "string \<Rightarrow> apiEndpoint option result aprog" where
  "GetAPIEndpoint ident = iwrap ''postgres: GetAPIEndpoint: %w'' (iquery (\<lambda>now d i. Inr (List.find (\<lambda>e. aeID e = ident) (api_endpoints i))))"

definition in_order :: "apiEndpoint list \<Rightarrow> apiEndpoint list" where
  "in_order es = sort_key (\<lambda>e. float_key (aeOrder e)) (sort_key aeCreatedAt (sort_key aeID es))"

definition ListAPIEndpoints :: "string \<Rightarrow> string option \<Rightarrow> apiEndpoint list result aprog" where
  "ListAPIEndpoints apiGroupID exactOperationID = iwrap ''postgres: ListAPIEndpoints: %w'' (iquery (\<lambda>now d i.
     Inr (in_order (filter (\<lambda>e. in_working_copy apiGroupID e \<and> (exactOperationID = None \<or> exactOperationID = Some (aeOperationID e))) (api_endpoints i)))))"

definition ListAPIEndpointsForVersion :: "string \<Rightarrow> string \<Rightarrow> string option \<Rightarrow> apiEndpoint list result aprog" where
  "ListAPIEndpointsForVersion apiGroupID versionID exactOperationID = iwrap ''postgres: ListAPIEndpointsForVersion: %w'' (iquery (\<lambda>now d i.
     Inr (in_order (filter (\<lambda>e. in_version apiGroupID versionID e \<and> (exactOperationID = None \<or> exactOperationID = Some (aeOperationID e))) (api_endpoints i)))))"

definition live_endpoint :: "string \<Rightarrow> apiEndpoint \<Rightarrow> bool" where
  "live_endpoint ident e \<longleftrightarrow> aeID e = ident \<and> aeDeletedAt e = None"

text \<open>An \<open>UPDATE\<close> sends the JSON columns as they are: \<open>nil\<close> is \<open>NULL\<close>, which the column refuses.\<close>

definition write_endpoint :: "time \<Rightarrow> spec_db \<Rightarrow> apiEndpoint \<Rightarrow> apiEndpoint \<Rightarrow> apiEndpoint option" where
  "write_endpoint t i e r =
     (case (jsonb_of i (aeParameters e), jsonb_of i (aeRequestBody e), jsonb_of i (aeResponses e), jsonb_of i (aeExampleRequests e), jsonb_of i (aeExampleResponses e)) of
        (Some params, Some reqBody, Some resps, Some exampleReqs, Some exampleResps) \<Rightarrow>
          Some (r\<lparr>aeOperationID := aeOperationID e, aeMethod := aeMethod e, aePath := aePath e, aeSummary := aeSummary e,
            aeDescription := aeDescription e, aeTags := Some (case aeTags e of Some tags \<Rightarrow> tags | None \<Rightarrow> []), aeTokenCount := aeTokenCount e,
            aeParameters := params, aeRequestBody := reqBody, aeResponses := resps, aeExampleRequests := exampleReqs,
            aeExampleResponses := exampleResps, aeOrder := aeOrder e, aeSLA := aeSLA e, aeUpdatedBy := aeUpdatedBy e,
            aeUpdatedByCommitHash := aeUpdatedByCommitHash e, aeUpdatedAt := t\<rparr>)
      | _ \<Rightarrow> None)"

definition UpdateAPIEndpoint :: "apiEndpoint \<Rightarrow> unit result aprog" where
  "UpdateAPIEndpoint e = iwrap ''postgres: UpdateAPIEndpoint: %w'' (istmt (\<lambda>now i.
     case List.find (live_endpoint (aeID e)) (api_endpoints i) of
       None \<Rightarrow> Inr ((), i)
     | Some r \<Rightarrow>
         (case write_endpoint now i e r of
            None \<Rightarrow> Inl (Errorf ''pq: invalid input syntax for type json'' [])
          | Some row \<Rightarrow>
              if exists_row (\<lambda>q. aeID q \<noteq> aeID row \<and> working_twin row q) (api_endpoints i)
              then Inl (UniqueViolation ''idx_api_endpoints_working_copy_unique'')
              else Inr ((), i\<lparr>api_endpoints := update_where (live_endpoint (aeID e)) (\<lambda>_. row) (api_endpoints i)\<rparr>))))"

definition SoftDeleteAPIEndpoint :: "string \<Rightarrow> string \<Rightarrow> unit result aprog" where
  "SoftDeleteAPIEndpoint ident deletedBy = iwrap ''postgres: SoftDeleteAPIEndpoint: %w'' (istmt (\<lambda>now i. Inr ((), i\<lparr>api_endpoints :=
     update_where (live_endpoint ident) (\<lambda>r. r\<lparr>aeDeletedAt := Some now, aeDeletedBy := Some deletedBy\<rparr>) (api_endpoints i)\<rparr>)))"

definition clear_working :: "time \<Rightarrow> string \<Rightarrow> string \<Rightarrow> spec_db \<Rightarrow> spec_db" where
  "clear_working t apiGroupID deletedBy i = i\<lparr>api_endpoints :=
     update_where (in_working_copy apiGroupID) (\<lambda>r. r\<lparr>aeDeletedAt := Some t, aeDeletedBy := Some deletedBy\<rparr>) (api_endpoints i)\<rparr>"

definition SoftDeleteCurrentAPIEndpoints :: "string \<Rightarrow> string \<Rightarrow> unit result aprog" where
  "SoftDeleteCurrentAPIEndpoints apiGroupID deletedBy = iwrap ''postgres: SoftDeleteCurrentAPIEndpoints: %w'' (istmt (\<lambda>now i.
     Inr ((), clear_working now apiGroupID deletedBy i)))"

section \<open>Snapshots\<close>

definition snapshot_row :: "time \<Rightarrow> string \<Rightarrow> string \<Rightarrow> string \<Rightarrow> apiEndpoint \<Rightarrow> apiEndpoint" where
  "snapshot_row t versionID actorID ident e =
     e\<lparr>aeID := ident, aeAPIGroupVersionID := Some versionID, aeUpdatedBy := Some actorID, aeUpdatedAt := t\<rparr>"

definition snapshot_rows :: "time \<Rightarrow> string \<Rightarrow> string \<Rightarrow> string \<Rightarrow> spec_db \<Rightarrow> apiEndpoint list" where
  "snapshot_rows t apiGroupID versionID actorID i =
     map (\<lambda>(k, e). snapshot_row t versionID actorID (gen_uuid i k) e)
       (enumerate (gen_seq i) (filter (in_working_copy apiGroupID) (api_endpoints i)))"

definition copy_endpoints :: "time \<Rightarrow> string \<Rightarrow> string \<Rightarrow> string \<Rightarrow> spec_db \<Rightarrow> spec_db result" where
  "copy_endpoints t apiGroupID versionID actorID i =
     (let rows = snapshot_rows t apiGroupID versionID actorID i in
      if \<not> distinct (map aeID (api_endpoints i @ rows)) then Inl (UniqueViolation ''api_endpoints_pkey'')
      else if rows \<noteq> [] \<and> \<not> exists_row (\<lambda>r. avID r = versionID) (api_group_versions i)
        then Inl (ForeignKeyViolation ''api_endpoints_api_group_version_id_fkey'')
      else Inr (i\<lparr>api_endpoints := api_endpoints i @ rows, gen_seq := gen_seq i + length rows\<rparr>))"

definition CopyEndpointsForVersion :: "string \<Rightarrow> string \<Rightarrow> string \<Rightarrow> unit result aprog" where
  "CopyEndpointsForVersion apiGroupID versionID actorID = iwrap ''postgres: CopyEndpointsForVersion: %w'' (istmt (\<lambda>now i.
     case copy_endpoints now apiGroupID versionID actorID i of Inl e \<Rightarrow> Inl e | Inr i' \<Rightarrow> Inr ((), i')))"

section \<open>Publishing\<close>

definition in_step :: "string \<Rightarrow> 'a result \<Rightarrow> ('a \<Rightarrow> 'b result) \<Rightarrow> 'b result" where
  "in_step what r k = (case r of Inl e \<Rightarrow> Inl (Wrapf (''postgres: PublishAPIGroupVersion '' @ what @ '': %w'') [] e) | Inr a \<Rightarrow> k a)"

fun insert_endpoints :: "database \<Rightarrow> apiEndpoint list \<Rightarrow> spec_db \<Rightarrow> spec_db result" where
  "insert_endpoints d [] i = Inr i"
| "insert_endpoints d (e # es) i = (case insert_endpoint d e i of Inl err \<Rightarrow> Inl err | Inr i' \<Rightarrow> insert_endpoints d es i')"

definition replace_working :: "time \<Rightarrow> database \<Rightarrow> publishInput \<Rightarrow> spec_db \<Rightarrow> spec_db result" where
  "replace_working t d inp i =
     (if piReplaceEndpoints inp then in_step ''insert endpoint''
        (insert_endpoints d (piNewEndpoints inp) (clear_working t (agID (piGroup inp)) (piActorID inp) i)) Inr
      else Inr i)"

definition numbered :: "publishInput \<Rightarrow> spec_db \<Rightarrow> apiGroupVersion" where
  "numbered inp i =
     (let v = piVersion inp;
          n = (if avVersionNumber v \<le> 0 then latest_number (agID (piGroup inp)) i + 1 else avVersionNumber v);
          label = (case avLabel v of Some l \<Rightarrow> l | None \<Rightarrow> ''v'' @ FormatInt n) in
      v\<lparr>avVersionNumber := n, avLabel := Some label\<rparr>)"

definition publish_rows :: "time \<Rightarrow> database \<Rightarrow> publishInput \<Rightarrow> spec_db \<Rightarrow> error + apiGroupVersion \<times> spec_db" where
  "publish_rows t d inp i =
     (case replace_working t d inp i of
        Inl e \<Rightarrow> Inl e
      | Inr i1 \<Rightarrow>
          (let v = numbered inp i1; g = (piGroup inp)\<lparr>agVersion := the (avLabel v)\<rparr> in
           in_step ''insert version'' (insert_version v i1) (\<lambda>i2.
           in_step ''copy endpoints'' (copy_endpoints t (agID g) (avID v) (piActorID inp) i2) (\<lambda>i3.
           in_step ''update group'' (write_group t g i3) (\<lambda>i4.
           Inr (v, i4))))))"

definition PublishAPIGroupVersion :: "publishInput \<Rightarrow> apiGroupVersion result aprog" where
  "PublishAPIGroupVersion inp = txn (\<lambda>now d i. case publish_rows now d inp i of Inl e \<Rightarrow> Inl e | Inr (v, i') \<Rightarrow> Inr (v, d, i'))"

end
