(* ===== verification/ApiGroupHandler.thy ===== *)
theory ApiGroupHandler
  imports ApiGroupStore UserHandler
begin

text \<open>
  The handlers of API groups, versions and endpoints (\<open>internal/api/catalog\<close>: \<open>apigroup.go\<close>, \<open>apigroup_version.go\<close>, \<open>endpoint.go\<close>, \<open>byid.go\<close> and the publication in
  \<open>service_logic.go\<close>). The object storage is there from the start of the server on. A stack overflow in a parser ends the process: the
  model shows the state that it leaves behind, with the error \<open>stack_overflow\<close> in place of an answer.
\<close>

section \<open>Idioms\<close>

text \<open>A function that draws identifiers as it goes; \<open>n\<close> is how many it has drawn.\<close>

definition with_uuids :: "((nat \<Rightarrow> string) \<Rightarrow> 'a \<times> nat) \<Rightarrow> 'a prog" where
  "with_uuids f = State (\<lambda>w. case f (\<lambda>k. uuids w (uuid_draws w + k)) of (a, n) \<Rightarrow> (a, w\<lparr>uuid_draws := uuid_draws w + n\<rparr>))"

type_synonym ahandler = "http_request \<Rightarrow> response aprog"

section \<open>JSON\<close>

definition group_json :: "apiGroup \<Rightarrow> json" where
  "group_json g = JObj ([(''id'', JStr (agID g)), (''serviceId'', JStr (agServiceID g)), (''orgId'', JStr (agOrgID g)), (''name'', JStr (agName g)),
     (''version'', JStr (agVersion g))] @ omit_opt ''label'' JStr (agLabel g) @ [(''protocol'', JStr (agProtocol g))] @
     omit_opt ''specKey'' JStr (agSpecKey g) @ omit_opt ''specHash'' JStr (agSpecHash g) @ [(''createdBy'', JStr (agCreatedBy g))] @
     omit_opt ''updatedBy'' JStr (agUpdatedBy g) @ omit_opt ''createdByCommitHash'' JStr (agCreatedByCommitHash g) @
     omit_opt ''updatedByCommitHash'' JStr (agUpdatedByCommitHash g) @ [(''createdAt'', JTime (agCreatedAt g)), (''updatedAt'', JTime (agUpdatedAt g))] @
     omit_opt ''deletedAt'' JTime (agDeletedAt g) @ omit_opt ''deletedBy'' JStr (agDeletedBy g))"

definition version_json :: "apiGroupVersion \<Rightarrow> json" where
  "version_json v = JObj ([(''id'', JStr (avID v)), (''apiGroupId'', JStr (avAPIGroupID v)), (''versionNumber'', JInt (avVersionNumber v))] @
     omit_opt ''label'' JStr (avLabel v) @ [(''specKey'', JStr (avSpecKey v)), (''specHash'', JStr (avSpecHash v)),
     (''isAutoVersion'', JBool (avIsAutoVersion v)), (''createdBy'', JStr (avCreatedBy v))] @
     omit_opt ''createdByCommitHash'' JStr (avCreatedByCommitHash v) @ [(''createdAt'', JTime (avCreatedAt v))])"

definition threshold_json :: "loadTestThreshold \<Rightarrow> json" where
  "threshold_json t = JObj [(''id'', JStr (ltID t)), (''metric'', JStr (ltMetric t)), (''comparator'', JStr (ltComparator t)), (''value'', JFloat (ltValue t))]"

definition sla_json :: "endpointSLA \<Rightarrow> json" where
  "sla_json s = JObj (if slaThresholds s = [] then [] else [(''thresholds'', JArr (map threshold_json (slaThresholds s)))])"

definition raw_json :: "string \<Rightarrow> json" where
  "raw_json raw = (if raw = [] then JNull else JRaw raw)"

definition endpoint_json :: "apiEndpoint \<Rightarrow> json" where
  "endpoint_json e = JObj ([(''id'', JStr (aeID e)), (''apiGroupId'', JStr (aeAPIGroupID e))] @ omit_opt ''apiGroupVersionId'' JStr (aeAPIGroupVersionID e) @
     [(''serviceId'', JStr (aeServiceID e)), (''orgId'', JStr (aeOrgID e)), (''operationId'', JStr (aeOperationID e)), (''method'', JStr (aeMethod e)),
      (''path'', JStr (aePath e)), (''summary'', JStr (aeSummary e)), (''description'', JStr (aeDescription e)),
      (''tags'', case aeTags e of None \<Rightarrow> JNull | Some tags \<Rightarrow> JArr (map JStr tags)), (''tokenCount'', JInt (aeTokenCount e)),
      (''parameters'', raw_json (aeParameters e)), (''requestBody'', raw_json (aeRequestBody e)), (''responses'', raw_json (aeResponses e)),
      (''exampleRequests'', raw_json (aeExampleRequests e)), (''exampleResponses'', raw_json (aeExampleResponses e)), (''order'', JFloat (aeOrder e))] @
     omit_opt ''sla'' sla_json (aeSLA e) @ [(''createdBy'', JStr (aeCreatedBy e))] @ omit_opt ''updatedBy'' JStr (aeUpdatedBy e) @
     omit_opt ''createdByCommitHash'' JStr (aeCreatedByCommitHash e) @ omit_opt ''updatedByCommitHash'' JStr (aeUpdatedByCommitHash e) @
     [(''createdAt'', JTime (aeCreatedAt e)), (''updatedAt'', JTime (aeUpdatedAt e))] @ omit_opt ''deletedAt'' JTime (aeDeletedAt e) @
     omit_opt ''deletedBy'' JStr (aeDeletedBy e))"

section \<open>Publishing (service_logic.go)\<close>

definition resolveSpec :: "string \<Rightarrow> string option \<Rightarrow> string result aprog" where
  "resolveSpec spec specAssetID =
     (case specAssetID of
        None \<Rightarrow> ret (Inr spec)
      | Some i \<Rightarrow> State_Monad.bind (Download (AssetKey i)) (\<lambda>r. ret (case r of Inl e \<Rightarrow> Inl (Wrapf ''download spec asset: %w'' [] e) | Inr c \<Rightarrow> Inr c)))"

record publishParams =
  ppServiceID :: string
  ppSpec :: string
  ppEndpoints :: "apiEndpoint list option"
  ppLabel :: "string option"
  ppIsAuto :: bool
  ppActorID :: string
  ppCommitHash :: "string option"

definition stack_overflow :: error where
  "stack_overflow = Errorf ''fatal error: stack overflow'' []"

definition parse_endpoints :: "spec_parsers \<Rightarrow> string \<Rightarrow> string \<Rightarrow> spec_context \<Rightarrow> apiEndpoint list result prog" where
  "parse_endpoints ps spec protocol c = with_uuids (\<lambda>ids.
     case parseSpecEndpointsForProtocol ps spec protocol c ids of
       None \<Rightarrow> (Inl stack_overflow, 0)
     | Some (Inl e) \<Rightarrow> (Inl e, 0)
     | Some (Inr eps) \<Rightarrow> (Inr eps, length eps))"

text \<open>The last part of \<open>publishAPIGroupVersion\<close>; an error of \<open>ListAPIEndpoints\<close> is ignored.\<close>

definition snapshot :: "apiGroup \<Rightarrow> publishParams \<Rightarrow> apiGroupVersion \<Rightarrow> apiEndpoint list option \<Rightarrow> (apiGroup \<times> apiGroupVersion) result aprog" where
  "snapshot g p v newEndpoints =
     (let eps = map (\<lambda>e. e\<lparr>aeCreatedByCommitHash := ppCommitHash p\<rparr>) (case newEndpoints of Some eps \<Rightarrow> eps | None \<Rightarrow> []) in
      State_Monad.bind
        (if newEndpoints = None then ret eps
         else State_Monad.bind (ListAPIEndpoints (agID g) None) (\<lambda>existing.
           ret (case existing of Inl e \<Rightarrow> eps | Inr old \<Rightarrow> preserveEndpointSLAs old eps)))
        (\<lambda>eps. ibindE (PublishAPIGroupVersion \<lparr>piGroup = g, piReplaceEndpoints = (newEndpoints \<noteq> None), piNewEndpoints = eps,
             piVersion = v, piActorID = ppActorID p\<rparr>) (\<lambda>v'.
           ret (Inr (g\<lparr>agVersion := the (avLabel v')\<rparr>, v')))))"

text \<open>With a new specification: the working copy and the version get it, and its endpoints replace those of the working copy.\<close>

definition publish_spec :: "spec_parsers \<Rightarrow> apiGroup \<Rightarrow> publishParams \<Rightarrow> time \<Rightarrow> string \<Rightarrow> apiGroupVersion \<Rightarrow> (apiGroup \<times> apiGroupVersion) result aprog" where
  "publish_spec ps g p t vKey v =
     (let hash = specHash (ppSpec p); wcKey = APIGroupSpecKey (agOrgID g) (ppServiceID p) (agID g) in
      ibindE (Upload wcKey (ppSpec p)) (\<lambda>_.
      ibindE (Upload vKey (ppSpec p)) (\<lambda>_.
      ibindE (case ppEndpoints p of
          Some eps \<Rightarrow> ret (Inr eps)
        | None \<Rightarrow> lift (parse_endpoints ps (ppSpec p) (agProtocol g)
            \<lparr>scGroupID = agID g, scServiceID = ppServiceID p, scOrgID = agOrgID g, scActorID = ppActorID p, scNow = t\<rparr>)) (\<lambda>eps.
      snapshot (g\<lparr>agSpecKey := Some wcKey, agSpecHash := Some hash\<rparr>) p (v\<lparr>avSpecKey := vKey, avSpecHash := hash\<rparr>) (Some eps)))))"

text \<open>Without one: the specification of the working copy is copied as it is.\<close>

definition publish_current :: "apiGroup \<Rightarrow> publishParams \<Rightarrow> string \<Rightarrow> apiGroupVersion \<Rightarrow> (apiGroup \<times> apiGroupVersion) result aprog" where
  "publish_current g p vKey v =
     (case (agSpecKey g, agSpecHash g) of
        (Some key, Some hash) \<Rightarrow>
          ibindE (Download key) (\<lambda>content.
          ibindE (Upload vKey content) (\<lambda>_.
          snapshot g p (v\<lparr>avSpecKey := vKey, avSpecHash := hash\<rparr>) (ppEndpoints p)))
      | _ \<Rightarrow> ret (Inl (Errorf ''api group %s has no spec to version'' [agID g])))"

definition new_version :: "apiGroup \<Rightarrow> publishParams \<Rightarrow> time \<Rightarrow> string \<Rightarrow> apiGroupVersion" where
  "new_version g p t versionID = \<lparr>avID = versionID, avAPIGroupID = agID g, avVersionNumber = 0, avLabel = ppLabel p, avSpecKey = [], avSpecHash = [],
     avIsAutoVersion = ppIsAuto p, avCreatedBy = ppActorID p, avCreatedByCommitHash = ppCommitHash p, avCreatedAt = t\<rparr>"

definition publishAPIGroupVersion :: "spec_parsers \<Rightarrow> apiGroup \<Rightarrow> publishParams \<Rightarrow> (apiGroup \<times> apiGroupVersion) result aprog" where
  "publishAPIGroupVersion ps g p =
     State_Monad.bind (lift now) (\<lambda>t. State_Monad.bind (lift uuid_NewString) (\<lambda>versionID.
       let vKey = APIGroupVersionSpecKey (agOrgID g) (ppServiceID p) (agID g) versionID; v = new_version g p t versionID in
       if ppSpec p \<noteq> [] then publish_spec ps g p t vKey v else publish_current g p vKey v))"

section \<open>Groups (apigroup.go)\<close>

definition GroupHandler_ListAPIGroups :: ahandler where
  "GroupHandler_ListAPIGroups r = ion_err (ListAPIGroups (pathValue r ''serviceID'') (Exact (queryValue r) ''exact_name'')) (\<lambda>groups.
     ret (JSON 200 (JObj [(''apiGroups'', slice_json group_json groups)])))"

record createAPIGroupBody =
  cgName :: string
  cgVersion :: string
  cgLabel :: "string option"
  cgProtocol :: string
  cgSpec :: string
  cgSpecAssetID :: "string option"

definition GroupHandler_CreateAPIGroup :: "spec_parsers \<Rightarrow> createAPIGroupBody option \<Rightarrow> ahandler" where
  "GroupHandler_CreateAPIGroup ps body r = with_principal r (\<lambda>p.
     case body of
       None \<Rightarrow> ret (BadRequest (JStr ''invalid request body''))
     | Some b \<Rightarrow>
         if cgName b = [] then ret (BadRequest (JStr ''name is required''))
         else
           (let protocol = (if cgProtocol b = [] then ''REST'' else cgProtocol b);
                label = (if cgVersion b \<noteq> [] then Some (cgVersion b) else None);
                version = (if cgVersion b \<noteq> [] then cgVersion b else ''v1'') in
            ion_err (resolveSpec (cgSpec b) (cgSpecAssetID b)) (\<lambda>specContent.
            State_Monad.bind (lift uuid_NewString) (\<lambda>i.
            State_Monad.bind (lift now) (\<lambda>t.
              let g = \<lparr>agID = i, agServiceID = pathValue r ''serviceID'', agOrgID = pathValue r ''orgID'', agName = cgName b, agVersion = version,
                       agLabel = cgLabel b, agProtocol = protocol, agSpecKey = None, agSpecHash = None, agCreatedBy = pUserID p, agUpdatedBy = None,
                       agCreatedByCommitHash = None, agUpdatedByCommitHash = None, agCreatedAt = t, agUpdatedAt = t, agDeletedAt = None, agDeletedBy = None\<rparr> in
              ion_err (CreateAPIGroup g) (\<lambda>_.
                if specContent \<noteq> [] then
                  ion_err (publishAPIGroupVersion ps (g\<lparr>agUpdatedBy := Some (pUserID p)\<rparr>)
                      \<lparr>ppServiceID = pathValue r ''serviceID'', ppSpec = specContent, ppEndpoints = None, ppLabel = label, ppIsAuto = True,
                       ppActorID = pUserID p, ppCommitHash = None\<rparr>) (\<lambda>(g', v). ret (JSON 201 (group_json g')))
                else ret (JSON 201 (group_json g))))))))"

definition live :: "apiGroup option \<Rightarrow> (apiGroup \<Rightarrow> response aprog) \<Rightarrow> response aprog" where
  "live g k = (case g of None \<Rightarrow> ret (Error StoreErrNotFound) | Some g \<Rightarrow> if agDeletedAt g \<noteq> None then ret (Error StoreErrNotFound) else k g)"

definition GroupHandler_GetAPIGroup :: ahandler where
  "GroupHandler_GetAPIGroup r = ion_err (GetAPIGroup (pathValue r ''apiGroupID'')) (\<lambda>g. live g (\<lambda>g. ret (JSON 200 (group_json g))))"

definition GroupHandler_GetAPIGroupSpec :: ahandler where
  "GroupHandler_GetAPIGroupSpec r = ion_err (GetAPIGroup (pathValue r ''apiGroupID'')) (\<lambda>g. live g (\<lambda>g.
     let versionID = queryValue r ''versionId'';
         key = (if versionID \<noteq> [] then APIGroupVersionSpecKey (pathValue r ''orgID'') (pathValue r ''serviceID'') (agID g) versionID
                else case agSpecKey g of Some k \<Rightarrow> k | None \<Rightarrow> []) in
     if key = [] then ret (Error StoreErrNotFound)
     else ion_err (Download key) (\<lambda>content.
       ret (JSON 200 (JObj [(''apiGroupId'', JStr (agID g)), (''fileName'', JStr (agName g)), (''content'', JStr content)])))))"

record updateAPIGroupBody =
  ugName :: "string option"
  ugVersion :: "string option"
  ugLabel :: "string option"
  ugProtocol :: "string option"
  ugSpec :: "string option"
  ugSpecAssetID :: "string option"

definition edited_group :: "updateAPIGroupBody \<Rightarrow> string \<Rightarrow> apiGroup \<Rightarrow> apiGroup" where
  "edited_group b userID g = g
     \<lparr>agName := (case ugName b of Some n \<Rightarrow> n | None \<Rightarrow> agName g),
      agVersion := (case ugVersion b of Some v \<Rightarrow> v | None \<Rightarrow> agVersion g),
      agLabel := (case ugLabel b of Some l \<Rightarrow> Some l | None \<Rightarrow> agLabel g),
      agProtocol := (case ugProtocol b of Some pr \<Rightarrow> pr | None \<Rightarrow> agProtocol g),
      agUpdatedBy := Some userID, agUpdatedByCommitHash := None\<rparr>"

definition GroupHandler_UpdateAPIGroup :: "spec_parsers \<Rightarrow> updateAPIGroupBody option \<Rightarrow> ahandler" where
  "GroupHandler_UpdateAPIGroup ps body r = with_principal r (\<lambda>p.
     ion_err (GetAPIGroup (pathValue r ''apiGroupID'')) (\<lambda>g. live g (\<lambda>g.
       case body of
         None \<Rightarrow> ret (BadRequest (JStr ''invalid request body''))
       | Some b \<Rightarrow>
           (let g' = edited_group b (pUserID p) g;
                persist = ion_err (UpdateAPIGroup g') (\<lambda>_. ret (JSON 200 (group_json g'))) in
            if ugSpec b = None \<and> ugSpecAssetID b = None then persist
            else ion_err (resolveSpec (case ugSpec b of Some s \<Rightarrow> s | None \<Rightarrow> []) (ugSpecAssetID b)) (\<lambda>specContent.
              if specContent \<noteq> [] \<and> agSpecHash g' \<noteq> Some (specHash specContent) then
                ion_err (publishAPIGroupVersion ps g'
                    \<lparr>ppServiceID = pathValue r ''serviceID'', ppSpec = specContent, ppEndpoints = None,
                     ppLabel = (case ugVersion b of Some v \<Rightarrow> if v \<noteq> [] then Some v else None | None \<Rightarrow> None), ppIsAuto = True,
                     ppActorID = pUserID p, ppCommitHash = None\<rparr>) (\<lambda>(g'', v). ret (JSON 200 (group_json g'')))
              else persist)))))"

definition GroupHandler_DeleteAPIGroup :: ahandler where
  "GroupHandler_DeleteAPIGroup r = with_principal r (\<lambda>p.
     ion_err (SoftDeleteAPIGroup (pathValue r ''apiGroupID'') (pUserID p)) (\<lambda>_. ret NoContent))"

record syncAPIGroupBody =
  sgAPIGroupID :: "string option"
  sgName :: string
  sgVersion :: string
  sgProtocol :: string
  sgSpec :: string
  sgSpecAssetID :: "string option"
  sgCommitHash :: "string option"

definition sync_answer :: "nat \<Rightarrow> string \<Rightarrow> bool \<Rightarrow> response" where
  "sync_answer status i created = JSON status (JObj [(''apiGroupId'', JStr i), (''versionCreated'', JBool created)])"

definition sync_params :: "syncAPIGroupBody \<Rightarrow> http_request \<Rightarrow> principal \<Rightarrow> string \<Rightarrow> publishParams" where
  "sync_params b r p specContent = \<lparr>ppServiceID = pathValue r ''serviceID'', ppSpec = specContent, ppEndpoints = None,
     ppLabel = (if sgVersion b \<noteq> [] then Some (sgVersion b) else None), ppIsAuto = True, ppActorID = pUserID p, ppCommitHash = sgCommitHash b\<rparr>"

definition sync_update :: "spec_parsers \<Rightarrow> syncAPIGroupBody \<Rightarrow> string \<Rightarrow> principal \<Rightarrow> string \<Rightarrow> apiGroup \<Rightarrow> ahandler" where
  "sync_update ps b protocol p specContent g r =
     (if specContent \<noteq> [] \<and> agSpecHash g = Some (specHash specContent) then ret (sync_answer 200 (agID g) False)
      else
        (let g' = g\<lparr>agName := sgName b, agProtocol := protocol, agUpdatedBy := Some (pUserID p), agUpdatedByCommitHash := sgCommitHash b,
                   agVersion := if sgVersion b \<noteq> [] then sgVersion b else agVersion g\<rparr> in
         if specContent \<noteq> [] then
           ion_err (publishAPIGroupVersion ps g' (sync_params b r p specContent)) (\<lambda>(g'', v). ret (sync_answer 200 (agID g) True))
         else ion_err (UpdateAPIGroup g') (\<lambda>_. ret (sync_answer 200 (agID g) False))))"

definition sync_create :: "spec_parsers \<Rightarrow> syncAPIGroupBody \<Rightarrow> string \<Rightarrow> principal \<Rightarrow> string \<Rightarrow> ahandler" where
  "sync_create ps b protocol p specContent r =
     State_Monad.bind (lift uuid_NewString) (\<lambda>i.
     State_Monad.bind (lift now) (\<lambda>t.
       let g = \<lparr>agID = i, agServiceID = pathValue r ''serviceID'', agOrgID = pathValue r ''orgID'', agName = sgName b,
                agVersion = (if sgVersion b \<noteq> [] then sgVersion b else ''v1''), agLabel = None, agProtocol = protocol, agSpecKey = None, agSpecHash = None,
                agCreatedBy = pUserID p, agUpdatedBy = Some (pUserID p), agCreatedByCommitHash = sgCommitHash b, agUpdatedByCommitHash = None,
                agCreatedAt = t, agUpdatedAt = t, agDeletedAt = None, agDeletedBy = None\<rparr> in
       ion_err (CreateAPIGroup g) (\<lambda>_.
         if specContent \<noteq> [] then
           ion_err (publishAPIGroupVersion ps g (sync_params b r p specContent)) (\<lambda>(g', v). ret (sync_answer 201 i True))
         else ret (sync_answer 201 i False))))"

definition GroupHandler_SyncAPIGroup :: "spec_parsers \<Rightarrow> syncAPIGroupBody option \<Rightarrow> ahandler" where
  "GroupHandler_SyncAPIGroup ps body r = with_principal r (\<lambda>p.
     case body of
       None \<Rightarrow> ret (BadRequest (JStr ''invalid request body''))
     | Some b \<Rightarrow>
         if sgName b = [] then ret (BadRequest (JStr ''name is required''))
         else
           (let protocol = (if sgProtocol b = [] then ''REST'' else sgProtocol b) in
            ion_err (resolveSpec (sgSpec b) (sgSpecAssetID b)) (\<lambda>specContent.
              case sgAPIGroupID b of
                Some i \<Rightarrow> ion_err (GetAPIGroup i) (\<lambda>g. live g (\<lambda>g. sync_update ps b protocol p specContent g r))
              | None \<Rightarrow> sync_create ps b protocol p specContent r)))"

section \<open>Versions (apigroup.go, apigroup\_version.go)\<close>

definition GroupHandler_ListAPIGroupVersions :: ahandler where
  "GroupHandler_ListAPIGroupVersions r = ion_err (ListAPIGroupVersions (pathValue r ''apiGroupID'')) (\<lambda>versions.
     ret (JSON 200 (JObj [(''versions'', slice_json version_json versions)])))"

record createVersionBody =
  cvLabel :: "string option"
  cvSpec :: string
  cvSpecAssetID :: "string option"

text \<open>The error of the decoder is ignored: a body that cannot be decoded is an empty one.\<close>

definition GroupHandler_CreateAPIGroupVersion :: "spec_parsers \<Rightarrow> createVersionBody \<Rightarrow> ahandler" where
  "GroupHandler_CreateAPIGroupVersion ps b r = with_principal r (\<lambda>p.
     ion_err (GetAPIGroup (pathValue r ''apiGroupID'')) (\<lambda>g. live g (\<lambda>g.
     ion_err (resolveSpec (cvSpec b) (cvSpecAssetID b)) (\<lambda>specContent.
     ion_err (publishAPIGroupVersion ps (g\<lparr>agUpdatedBy := Some (pUserID p), agUpdatedByCommitHash := None\<rparr>)
         \<lparr>ppServiceID = pathValue r ''serviceID'', ppSpec = specContent, ppEndpoints = None,
          ppLabel = (case cvLabel b of Some l \<Rightarrow> if l \<noteq> [] then Some l else None | None \<Rightarrow> None), ppIsAuto = False,
          ppActorID = pUserID p, ppCommitHash = None\<rparr>) (\<lambda>(g', v). ret (JSON 201 (version_json v)))))))"

definition restored :: "time \<Rightarrow> string \<Rightarrow> string \<Rightarrow> apiEndpoint \<Rightarrow> apiEndpoint" where
  "restored t userID ident e = e\<lparr>aeID := ident, aeAPIGroupVersionID := None, aeCreatedBy := userID, aeUpdatedBy := None, aeCreatedAt := t, aeUpdatedAt := t\<rparr>"

definition restore_all :: "time \<Rightarrow> string \<Rightarrow> apiEndpoint list \<Rightarrow> apiEndpoint list prog" where
  "restore_all t userID es = with_uuids (\<lambda>ids. (map (\<lambda>(k, e). restored t userID (ids k) e) (enumerate 0 es), length es))"

definition restore_params :: "http_request \<Rightarrow> principal \<Rightarrow> string \<Rightarrow> apiEndpoint list \<Rightarrow> publishParams" where
  "restore_params r p specContent working = \<lparr>ppServiceID = pathValue r ''serviceID'', ppSpec = specContent, ppEndpoints = Some working, ppLabel = None,
     ppIsAuto = True, ppActorID = pUserID p, ppCommitHash = None\<rparr>"

definition restore_version :: "spec_parsers \<Rightarrow> http_request \<Rightarrow> principal \<Rightarrow> apiGroup \<Rightarrow> apiGroupVersion option \<Rightarrow> response aprog" where
  "restore_version ps r p g v =
     (case v of
        None \<Rightarrow> ret (Error StoreErrNotFound)
      | Some v \<Rightarrow>
          if avAPIGroupID v \<noteq> agID g then ret (Error StoreErrNotFound)
          else
            ion_err (Download (avSpecKey v)) (\<lambda>specContent.
            ion_err (ListAPIEndpointsForVersion (agID g) (avID v) None) (\<lambda>rows.
            State_Monad.bind (lift now) (\<lambda>t.
            State_Monad.bind (lift (restore_all t (pUserID p) rows)) (\<lambda>working.
              ion_err (publishAPIGroupVersion ps (g\<lparr>agUpdatedBy := Some (pUserID p), agUpdatedByCommitHash := None\<rparr>) (restore_params r p specContent working))
                (\<lambda>(g', v'). ret (JSON 200 (group_json g'))))))))"

definition GroupHandler_RestoreAPIGroupVersion :: "spec_parsers \<Rightarrow> ahandler" where
  "GroupHandler_RestoreAPIGroupVersion ps r = with_principal r (\<lambda>p.
     ion_err (GetAPIGroup (pathValue r ''apiGroupID'')) (\<lambda>g. live g (\<lambda>g.
     ion_err (GetAPIGroupVersion (pathValue r ''versionID'')) (restore_version ps r p g))))"

section \<open>Endpoints (endpoint.go, byid.go)\<close>

definition GroupHandler_ListAPIEndpoints :: ahandler where
  "GroupHandler_ListAPIEndpoints r =
     (let versionID = queryValue r ''versionId''; exact = Exact (queryValue r) ''exact_operation_id'' in
      ion_err (if versionID \<noteq> [] then ListAPIEndpointsForVersion (pathValue r ''apiGroupID'') versionID exact
               else ListAPIEndpoints (pathValue r ''apiGroupID'') exact) (\<lambda>endpoints.
        ret (JSON 200 (JObj [(''endpoints'', slice_json endpoint_json endpoints)]))))"

record createEndpointBody =
  ceOperationID :: string
  ceMethod :: string
  cePath :: string
  ceSummary :: string
  ceDescription :: string
  ceTags :: "string list option"
  ceParameters :: string
  ceRequestBody :: string
  ceResponses :: string
  ceExampleRequests :: string
  ceExampleResponses :: string
  ceOrder :: "64 word"
  ceSLA :: "endpointSLA option"

definition GroupHandler_CreateAPIEndpoint :: "createEndpointBody option \<Rightarrow> ahandler" where
  "GroupHandler_CreateAPIEndpoint body r = with_principal r (\<lambda>p.
     case body of
       None \<Rightarrow> ret (BadRequest (JStr ''invalid request body''))
     | Some b \<Rightarrow>
         if ceMethod b = [] \<or> cePath b = [] then ret (BadRequest (JStr ''method and path are required''))
         else State_Monad.bind (lift now) (\<lambda>t. State_Monad.bind (lift uuid_NewString) (\<lambda>i.
           let e = APIEndpoint_zero
                 \<lparr>aeID := i, aeAPIGroupID := pathValue r ''apiGroupID'', aeServiceID := pathValue r ''serviceID'', aeOrgID := pathValue r ''orgID'',
                  aeOperationID := ceOperationID b, aeMethod := ceMethod b, aePath := cePath b, aeSummary := ceSummary b,
                  aeDescription := ceDescription b, aeTags := ceTags b,
                  aeParameters := normalizeStoredJSON (ceParameters b), aeRequestBody := normalizeStoredJSON (ceRequestBody b),
                  aeResponses := normalizeStoredJSON (ceResponses b), aeExampleRequests := normalizeStoredJSON (ceExampleRequests b),
                  aeExampleResponses := normalizeStoredJSON (ceExampleResponses b), aeOrder := ceOrder b, aeSLA := ceSLA b,
                  aeCreatedBy := pUserID p, aeCreatedAt := t, aeUpdatedAt := t\<rparr> in
           ion_err (CreateAPIEndpoint e) (\<lambda>_. ret (JSON 201 (endpoint_json e))))))"

definition live_row :: "(apiEndpoint \<Rightarrow> bool) \<Rightarrow> apiEndpoint option \<Rightarrow> (apiEndpoint \<Rightarrow> response aprog) \<Rightarrow> response aprog" where
  "live_row ok e k = (case e of None \<Rightarrow> ret (Error StoreErrNotFound) | Some e \<Rightarrow> if aeDeletedAt e \<noteq> None \<or> \<not> ok e then ret (Error StoreErrNotFound) else k e)"

definition GroupHandler_GetAPIEndpoint :: ahandler where
  "GroupHandler_GetAPIEndpoint r = ion_err (GetAPIEndpoint (pathValue r ''endpointID'')) (\<lambda>e. live_row (\<lambda>_. True) e (\<lambda>e. ret (JSON 200 (endpoint_json e))))"

definition GroupHandler_GetAPIEndpointByID :: ahandler where
  "GroupHandler_GetAPIEndpointByID r = ion_err (GetAPIEndpoint (pathValue r ''endpointID'')) (\<lambda>e.
     live_row (\<lambda>e. aeOrgID e = pathValue r ''orgID'') e (\<lambda>e. ret (JSON 200 (endpoint_json e))))"

record updateEndpointBody =
  ueOperationID :: "string option"
  ueMethod :: "string option"
  uePath :: "string option"
  ueSummary :: "string option"
  ueDescription :: "string option"
  ueTags :: "string list option"
  ueParameters :: string
  ueRequestBody :: string
  ueResponses :: string
  ueExampleRequests :: string
  ueExampleResponses :: string
  ueOrder :: "64 word option"
  ueSLA :: "endpointSLA option"

definition given :: "'a option \<Rightarrow> 'a \<Rightarrow> 'a" where
  "given v old = (case v of Some x \<Rightarrow> x | None \<Rightarrow> old)"

definition given_raw :: "string \<Rightarrow> string \<Rightarrow> string" where
  "given_raw raw old = (if raw = [] then old else normalizeStoredJSON raw)"

definition edited_endpoint :: "updateEndpointBody \<Rightarrow> string \<Rightarrow> apiEndpoint \<Rightarrow> apiEndpoint" where
  "edited_endpoint b userID e = e
     \<lparr>aeOperationID := given (ueOperationID b) (aeOperationID e), aeMethod := given (ueMethod b) (aeMethod e), aePath := given (uePath b) (aePath e),
      aeSummary := given (ueSummary b) (aeSummary e), aeDescription := given (ueDescription b) (aeDescription e),
      aeTags := (if ueTags b = None then aeTags e else ueTags b),
      aeParameters := given_raw (ueParameters b) (aeParameters e), aeRequestBody := given_raw (ueRequestBody b) (aeRequestBody e),
      aeResponses := given_raw (ueResponses b) (aeResponses e), aeExampleRequests := given_raw (ueExampleRequests b) (aeExampleRequests e),
      aeExampleResponses := given_raw (ueExampleResponses b) (aeExampleResponses e), aeOrder := given (ueOrder b) (aeOrder e),
      aeSLA := (if ueSLA b = None then aeSLA e else ueSLA b), aeUpdatedBy := Some userID, aeUpdatedByCommitHash := None\<rparr>"

definition GroupHandler_UpdateAPIEndpoint :: "updateEndpointBody option \<Rightarrow> ahandler" where
  "GroupHandler_UpdateAPIEndpoint body r = with_principal r (\<lambda>p.
     ion_err (GetAPIEndpoint (pathValue r ''endpointID'')) (\<lambda>e. live_row (\<lambda>_. True) e (\<lambda>e.
       case body of
         None \<Rightarrow> ret (BadRequest (JStr ''invalid request body''))
       | Some b \<Rightarrow>
           (let e' = edited_endpoint b (pUserID p) e in
            ion_err (UpdateAPIEndpoint e') (\<lambda>_. ret (JSON 200 (endpoint_json e')))))))"

definition GroupHandler_DeleteAPIEndpoint :: ahandler where
  "GroupHandler_DeleteAPIEndpoint r = with_principal r (\<lambda>p.
     ion_err (SoftDeleteAPIEndpoint (pathValue r ''endpointID'') (pUserID p)) (\<lambda>_. ret NoContent))"

end
