(* ===== verification/ApiGroupTables.thy ===== *)
theory ApiGroupTables
  imports ApiGroupHandler
begin

text \<open>
  The invariant of the tables of API groups: keys are unique, references have their targets, a snapshot belongs to the group of its
  version, the working copy of a group has one row for each method and path, and the versions of a group are numbered without gaps from 1.
  Every statement and every publication keeps it.
\<close>

section \<open>The invariant\<close>

definition working :: "apiEndpoint \<Rightarrow> bool" where
  "working e \<longleftrightarrow> aeAPIGroupVersionID e = None \<and> aeDeletedAt e = None"

definition working_key :: "apiEndpoint \<Rightarrow> string \<times> string \<times> string" where
  "working_key e = (aeAPIGroupID e, aeMethod e, aePath e)"

definition groups_ok :: "apiGroup list \<Rightarrow> bool" where
  "groups_ok gs \<longleftrightarrow> distinct (map agID gs) \<and> (\<forall>g\<in>set gs. protocol_ok (agProtocol g))"

definition versions_ok :: "string set \<Rightarrow> apiGroupVersion list \<Rightarrow> bool" where
  "versions_ok gids vs \<longleftrightarrow> distinct (map avID vs) \<and> distinct (map (\<lambda>v. (avAPIGroupID v, avVersionNumber v)) vs) \<and> avAPIGroupID ` set vs \<subseteq> gids \<and>
     (\<forall>v\<in>set vs. 1 \<le> avVersionNumber v \<and> (\<forall>n. 1 \<le> n \<and> n < avVersionNumber v \<longrightarrow> (\<exists>u\<in>set vs. avAPIGroupID u = avAPIGroupID v \<and> avVersionNumber u = n)))"

definition endpoints_ok :: "string set \<Rightarrow> (string \<times> string) set \<Rightarrow> apiEndpoint list \<Rightarrow> bool" where
  "endpoints_ok gids vids es \<longleftrightarrow> distinct (map aeID es) \<and> distinct (map working_key (filter working es)) \<and>
     (\<forall>e\<in>set es. aeAPIGroupID e \<in> gids \<and> (\<forall>v. aeAPIGroupVersionID e = Some v \<longrightarrow> (v, aeAPIGroupID e) \<in> vids))"

definition group_ids :: "spec_db \<Rightarrow> string set" where
  "group_ids i = agID ` set (api_groups i)"

definition version_ids :: "spec_db \<Rightarrow> (string \<times> string) set" where
  "version_ids i = (\<lambda>v. (avID v, avAPIGroupID v)) ` set (api_group_versions i)"

definition spec_ok :: "spec_db \<Rightarrow> bool" where
  "spec_ok i \<longleftrightarrow> groups_ok (api_groups i) \<and> versions_ok (group_ids i) (api_group_versions i) \<and> endpoints_ok (group_ids i) (version_ids i) (api_endpoints i)"

lemma spec_okI:
  assumes "groups_ok (api_groups i)" and "versions_ok (group_ids i) (api_group_versions i)"
    and "endpoints_ok (group_ids i) (version_ids i) (api_endpoints i)"
  shows "spec_ok i"
  using assms by (simp add: spec_ok_def)

lemma in_working_copy_iff: "in_working_copy g e \<longleftrightarrow> working e \<and> aeAPIGroupID e = g"
  by (auto simp: in_working_copy_def working_def)

lemma group_ids_cong: "map agID (api_groups i) = map agID (api_groups j) \<Longrightarrow> group_ids i = group_ids j"
  unfolding group_ids_def by (metis set_map)

section \<open>Groups\<close>

lemma write_group_ids:
  assumes "write_group t g i = Inr i'"
  shows "map agID (api_groups i') = map agID (api_groups i)" "group_ids i' = group_ids i" "version_ids i' = version_ids i"
    "api_group_versions i' = api_group_versions i" "api_endpoints i' = api_endpoints i" "blobs i' = blobs i"
proof -
  show ids: "map agID (api_groups i') = map agID (api_groups i)" using assms by (auto simp: write_group_def split: if_splits)
  then show "group_ids i' = group_ids i" by (rule group_ids_cong)
qed (use assms in \<open>auto simp: write_group_def version_ids_def split: if_splits\<close>)

lemma write_group_ok:
  assumes "spec_ok i" and "write_group t g i = Inr i'"
  shows "spec_ok i'"
proof -
  have "groups_ok (api_groups i')"
    using assms write_group_ids(1) [OF assms(2)]
    by (auto simp: spec_ok_def groups_ok_def write_group_def set_update_where split: if_splits)
  then show ?thesis using assms(1) write_group_ids [OF assms(2)] by (simp add: spec_ok_def)
qed

lemma CreateAPIGroup_keeps [keeps_rules]: "keeps (on_idb spec_ok) (CreateAPIGroup g)"
  unfolding CreateAPIGroup_def
  by (intro keeps_rules keeps_txn)
    (auto simp: spec_ok_def groups_ok_def versions_ok_def endpoints_ok_def group_ids_def version_ids_def split: if_splits)

lemma UpdateAPIGroup_keeps [keeps_rules]: "keeps (on_idb spec_ok) (UpdateAPIGroup g)"
  unfolding UpdateAPIGroup_def by (intro keeps_rules keeps_istmt) (auto dest: write_group_ok split: sum.splits)

lemma SoftDeleteAPIGroup_keeps [keeps_rules]: "keeps (on_idb spec_ok) (SoftDeleteAPIGroup ident by_user)"
proof -
  have "spec_ok i'" if "spec_ok i" and i': "i' = i\<lparr>api_groups := update_where P (\<lambda>r. r\<lparr>agDeletedAt := Some t, agDeletedBy := Some b\<rparr>) (api_groups i)\<rparr>" for i i' P t b
  proof -
    have ids: "map agID (api_groups i') = map agID (api_groups i)" unfolding i' by simp
    moreover have "protocol_ok (agProtocol g)" if "g \<in> set (api_groups i')" for g
      using that \<open>spec_ok i\<close> unfolding i' by (auto simp: spec_ok_def groups_ok_def set_update_where)
    ultimately have "groups_ok (api_groups i')" using \<open>spec_ok i\<close> by (simp add: spec_ok_def groups_ok_def)
    moreover have "api_group_versions i' = api_group_versions i" "api_endpoints i' = api_endpoints i" "version_ids i' = version_ids i"
      unfolding i' by (simp_all add: version_ids_def)
    ultimately show ?thesis using \<open>spec_ok i\<close> group_ids_cong [OF ids] by (simp add: spec_ok_def)
  qed
  then show ?thesis unfolding SoftDeleteAPIGroup_def by (intro keeps_rules keeps_istmt) (metis Inr_inject prod.inject)
qed

section \<open>Versions\<close>

lemma latest_number_bound:
  assumes "versions_ok gids (api_group_versions i)" and "v \<in> set (api_group_versions i)" and "avAPIGroupID v = g"
  shows "avVersionNumber v \<le> latest_number g i"
proof -
  have v: "v \<in> set (filter (\<lambda>v. avAPIGroupID v = g) (api_group_versions i))" using assms by simp
  then obtain u us where f: "filter (\<lambda>v. avAPIGroupID v = g) (api_group_versions i) = u # us" by (cases "filter (\<lambda>v. avAPIGroupID v = g) (api_group_versions i)") auto
  then have "v \<in> set (u # us)" using v by metis
  then have "avVersionNumber v \<le> Max (set (map avVersionNumber (u # us)))" by (intro Max_ge) auto
  then show ?thesis unfolding latest_number_def f list.case .
qed

lemma latest_number_reached:
  assumes "versions_ok gids (api_group_versions i)"
  shows "0 \<le> latest_number g i" and "1 \<le> n \<Longrightarrow> n \<le> latest_number g i \<Longrightarrow> \<exists>u\<in>set (api_group_versions i). avAPIGroupID u = g \<and> avVersionNumber u = n"
proof -
  let ?vs = "filter (\<lambda>v. avAPIGroupID v = g) (api_group_versions i)"
  have top: "latest_number g i = 0 \<and> ?vs = [] \<or> (\<exists>u\<in>set ?vs. avVersionNumber u = latest_number g i)"
  proof (cases ?vs)
    case (Cons v vs)
    have "Max (avVersionNumber ` set ?vs) \<in> avVersionNumber ` set ?vs" by (rule Max_in) (use Cons in auto)
    then show ?thesis using Cons unfolding latest_number_def by auto
  qed (simp add: latest_number_def)
  then show "0 \<le> latest_number g i" using assms by (auto simp: versions_ok_def)
  show "\<exists>u\<in>set (api_group_versions i). avAPIGroupID u = g \<and> avVersionNumber u = n" if "1 \<le> n" "n \<le> latest_number g i"
    using top
  proof
    assume "\<exists>u\<in>set ?vs. avVersionNumber u = latest_number g i"
    then obtain u where u: "u \<in> set (api_group_versions i)" "avAPIGroupID u = g" "avVersionNumber u = latest_number g i" by auto
    show ?thesis
    proof (cases "n = latest_number g i")
      case False
      then show ?thesis using assms u that unfolding versions_ok_def by fastforce
    qed (use u in blast)
  qed (use that in auto)
qed

lemma insert_version_ok:
  assumes "spec_ok i" and "insert_version v i = Inr i'" and "avVersionNumber v = latest_number (avAPIGroupID v) i + 1"
  shows "spec_ok i'" "api_group_versions i' = api_group_versions i @ [v]" "api_endpoints i' = api_endpoints i" "api_groups i' = api_groups i"
    "avID v \<notin> avID ` set (api_group_versions i)" "blobs i' = blobs i" "gen_uuid i' = gen_uuid i" "gen_seq i' = gen_seq i"
proof -
  show i': "api_group_versions i' = api_group_versions i @ [v]" "api_endpoints i' = api_endpoints i" "api_groups i' = api_groups i"
      "blobs i' = blobs i" "gen_uuid i' = gen_uuid i" "gen_seq i' = gen_seq i" and new: "avID v \<notin> avID ` set (api_group_versions i)"
    using assms(2) by (auto simp: insert_version_def split: if_splits)
  have vs: "versions_ok (group_ids i) (api_group_versions i)" using assms(1) by (simp add: spec_ok_def)
  have free: "(avAPIGroupID v, avVersionNumber v) \<notin> (\<lambda>v. (avAPIGroupID v, avVersionNumber v)) ` set (api_group_versions i)" 
    using assms(2) by (auto simp: insert_version_def split: if_splits)
  have "\<exists>g\<in>set (api_groups i). agID g = avAPIGroupID v" using assms(2) by (auto simp: insert_version_def split: if_splits)
  then have known: "avAPIGroupID v \<in> group_ids i" unfolding group_ids_def by (metis imageI)
  have gap: "\<exists>u\<in>set (api_group_versions i). avAPIGroupID u = avAPIGroupID v \<and> avVersionNumber u = n" if "1 \<le> n" "n < avVersionNumber v" for n
    using latest_number_reached(2) [OF vs, of n "avAPIGroupID v"] that assms(3) by simp
  have "versions_ok (group_ids i) (api_group_versions i @ [v])"
    using vs new free known gap latest_number_reached(1) [OF vs, of "avAPIGroupID v"] assms(3) unfolding versions_ok_def by (auto simp: image_iff)
  moreover have "endpoints_ok (group_ids i) (version_ids i') (api_endpoints i)"
    using assms(1) unfolding spec_ok_def endpoints_ok_def version_ids_def i' by fastforce
  moreover have "group_ids i' = group_ids i" by (simp add: group_ids_def i')
  ultimately show "spec_ok i'" using assms(1) by (simp add: spec_ok_def i')
qed

section \<open>Endpoints\<close>

text \<open>A change of the rows that keeps identifiers, groups and versions, and takes rows out of working copies only.\<close>

lemma endpoints_ok_update:
  assumes "endpoints_ok gids vids es" and "\<And>e. aeID (f e) = aeID e" and "\<And>e. aeAPIGroupID (f e) = aeAPIGroupID e"
    and "\<And>e. aeAPIGroupVersionID (f e) = aeAPIGroupVersionID e" and "distinct (map working_key (filter working (update_where P f es)))"
  shows "endpoints_ok gids vids (update_where P f es)"
  using assms by (auto simp: endpoints_ok_def set_update_where)

lemma filter_retired:
  assumes "\<And>e. \<not> working (f e)"
  shows "filter working (update_where P f es) = filter (\<lambda>e. working e \<and> \<not> P e) es"
  using assms by (induction es) auto

lemma endpoints_ok_retire:
  assumes "endpoints_ok gids vids es"
  shows "endpoints_ok gids vids (update_where P (\<lambda>r. r\<lparr>aeDeletedAt := Some t, aeDeletedBy := Some b\<rparr>) es)"
proof (rule endpoints_ok_update [OF assms])
  have "filter working (update_where P (\<lambda>r. r\<lparr>aeDeletedAt := Some t, aeDeletedBy := Some b\<rparr>) es) = filter (\<lambda>e. \<not> P e) (filter working es)"
    by (subst filter_retired) (auto simp: working_def conj_commute)
  then show "distinct (map working_key (filter working (update_where P (\<lambda>r. r\<lparr>aeDeletedAt := Some t, aeDeletedBy := Some b\<rparr>) es)))"
    using assms distinct_map_filter [of working_key "filter working es" "\<lambda>e. \<not> P e"] by (simp only: endpoints_ok_def)
qed simp_all

lemma spec_ok_endpoints:
  assumes "spec_ok i" and "endpoints_ok (group_ids i) (version_ids i) es"
  shows "spec_ok (i\<lparr>api_endpoints := es\<rparr>)"
proof -
  have "group_ids (i\<lparr>api_endpoints := es\<rparr>) = group_ids i" "version_ids (i\<lparr>api_endpoints := es\<rparr>) = version_ids i"
    by (simp_all add: group_ids_def version_ids_def)
  then show ?thesis using assms by (simp add: spec_ok_def)
qed

lemma clear_working_ok: "spec_ok i \<Longrightarrow> spec_ok (clear_working t g b i)"
  unfolding clear_working_def by (rule spec_ok_endpoints) (auto simp: spec_ok_def intro: endpoints_ok_retire)

lemma endpoint_row_fields:
  assumes "endpoint_row i e = Some row"
  shows "aeID row = aeID e" "aeAPIGroupID row = aeAPIGroupID e" "aeAPIGroupVersionID row = aeAPIGroupVersionID e" "aeMethod row = aeMethod e"
    "aePath row = aePath e" "aeOperationID row = aeOperationID e" "aeDeletedAt row = None" "aeSLA row = aeSLA e" "aeOrder row = aeOrder e"
    "aeSummary row = aeSummary e" "aeDescription row = aeDescription e"
  using assms by (auto simp: endpoint_row_def split: option.splits)

lemma insert_endpoint_ok:
  assumes "spec_ok i" and "insert_endpoint d e i = Inr i'" and "aeAPIGroupVersionID e = None"
  shows "spec_ok i'" "\<exists>row. endpoint_row i e = Some row \<and> api_endpoints i' = api_endpoints i @ [row] \<and> i' = i\<lparr>api_endpoints := api_endpoints i @ [row]\<rparr>"
proof -
  obtain row where row: "endpoint_row i e = Some row" using assms(2) by (cases "endpoint_row i e") (simp_all add: insert_endpoint_def)
  have i': "i' = i\<lparr>api_endpoints := api_endpoints i @ [row]\<rparr>" and new: "aeID row \<notin> aeID ` set (api_endpoints i)"
      and alone: "\<forall>r\<in>set (api_endpoints i). \<not> working_twin row r" and "\<exists>g\<in>set (api_groups i). agID g = aeAPIGroupID row"
    using assms(2) row by (auto simp: insert_endpoint_def split: if_splits)
  then have known: "aeAPIGroupID row \<in> group_ids i" unfolding group_ids_def by (metis imageI)
  have none: "aeAPIGroupVersionID row = None" "working row" using endpoint_row_fields [OF row] assms(3) by (simp_all add: working_def)
  have "working_key row \<notin> working_key ` set (filter working (api_endpoints i))"
    using alone none by (auto simp: working_twin_def in_working_copy_iff working_key_def)
  then have "endpoints_ok (group_ids i) (version_ids i) (api_endpoints i @ [row])"
    using assms(1) new known none unfolding spec_ok_def endpoints_ok_def by (auto simp: image_iff)
  then show "spec_ok i'" unfolding i' by (rule spec_ok_endpoints [OF assms(1)])
  show "\<exists>row. endpoint_row i e = Some row \<and> api_endpoints i' = api_endpoints i @ [row] \<and> i' = i\<lparr>api_endpoints := api_endpoints i @ [row]\<rparr>"
    using row i' by auto
qed

lemma endpoint_row_cong: "jsonb_of i = jsonb_of j \<Longrightarrow> endpoint_row i e = endpoint_row j e"
  by (simp add: endpoint_row_def json_column_def)

lemma insert_endpoints_ok:
  assumes "spec_ok i" and "insert_endpoints d es i = Inr i'" and "\<forall>e\<in>set es. aeAPIGroupVersionID e = None"
  shows "spec_ok i' \<and> (\<exists>rows. map Some rows = map (endpoint_row i) es \<and> i' = i\<lparr>api_endpoints := api_endpoints i @ rows\<rparr>)"
  using assms
proof (induction es arbitrary: i)
  case (Cons e es)
  obtain j where j: "insert_endpoint d e i = Inr j" "insert_endpoints d es j = Inr i'" using Cons.prems(2) by (auto split: sum.splits)
  have e: "aeAPIGroupVersionID e = None" using Cons.prems(3) by simp
  obtain row where row: "endpoint_row i e = Some row" "j = i\<lparr>api_endpoints := api_endpoints i @ [row]\<rparr>"
    using insert_endpoint_ok(2) [OF Cons.prems(1) j(1) e] by blast
  have "spec_ok i' \<and> (\<exists>rows. map Some rows = map (endpoint_row j) es \<and> i' = j\<lparr>api_endpoints := api_endpoints j @ rows\<rparr>)"
    using Cons.IH [OF insert_endpoint_ok(1) [OF Cons.prems(1) j(1) e] j(2)] Cons.prems(3) by simp
  then obtain rows where ok: "spec_ok i'" and rows: "map Some rows = map (endpoint_row j) es" "i' = j\<lparr>api_endpoints := api_endpoints j @ rows\<rparr>" by blast
  have "endpoint_row j = endpoint_row i" using endpoint_row_cong [of j i] row(2) by auto
  then have "map Some (row # rows) = map (endpoint_row i) (e # es)" "i' = i\<lparr>api_endpoints := api_endpoints i @ (row # rows)\<rparr>"
    using rows row by simp_all
  then show ?case using ok by blast
qed auto

section \<open>Snapshots\<close>

lemma snapshot_rows_versions:
  assumes "e \<in> set (snapshot_rows t g v actor i)"
  shows "aeAPIGroupVersionID e = Some v" "aeAPIGroupID e = g" "aeDeletedAt e = None"
  using assms by (auto simp: snapshot_rows_def snapshot_row_def in_working_copy_def dest!: in_set_zipE set_zip_rightD
      simp: enumerate_eq_zip)

lemma copy_endpoints_ok:
  assumes "spec_ok i" and "copy_endpoints t g v actor i = Inr i'" and "(v, g) \<in> version_ids i"
  shows "spec_ok i'" "i' = i\<lparr>api_endpoints := api_endpoints i @ snapshot_rows t g v actor i, gen_seq := gen_seq i + length (snapshot_rows t g v actor i)\<rparr>"
proof -
  let ?rows = "snapshot_rows t g v actor i"
  show i': "i' = i\<lparr>api_endpoints := api_endpoints i @ ?rows, gen_seq := gen_seq i + length ?rows\<rparr>"
    using assms(2) by (auto simp: copy_endpoints_def Let_def split: if_splits)
  have ids: "distinct (map aeID (api_endpoints i @ ?rows))"
    using assms(2) by (auto simp: copy_endpoints_def Let_def split: if_splits)
  have gone: "filter working ?rows = []" using snapshot_rows_versions [of _ t g v actor i] by (auto simp: filter_empty_conv working_def)
  have "g \<in> group_ids i" using assms(1,3) by (auto simp: spec_ok_def versions_ok_def version_ids_def)
  then have "endpoints_ok (group_ids i) (version_ids i) (api_endpoints i @ ?rows)"
    using assms(1,3) ids gone snapshot_rows_versions [of _ t g v actor i] unfolding spec_ok_def endpoints_ok_def by auto
  then have "spec_ok (i\<lparr>api_endpoints := api_endpoints i @ ?rows\<rparr>)" by (rule spec_ok_endpoints [OF assms(1)])
  then show "spec_ok i'" unfolding i' by (simp add: spec_ok_def group_ids_def version_ids_def)
qed

section \<open>Statements on endpoints\<close>

lemma CreateAPIEndpoint_keeps: "aeAPIGroupVersionID e = None \<Longrightarrow> keeps (on_idb spec_ok) (CreateAPIEndpoint e)"
  unfolding CreateAPIEndpoint_def by (intro keeps_rules keeps_txn) (auto intro: insert_endpoint_ok(1) split: sum.splits)

lemma SoftDeleteAPIEndpoint_keeps [keeps_rules]: "keeps (on_idb spec_ok) (SoftDeleteAPIEndpoint ident b)"
proof -
  have "spec_ok (i\<lparr>api_endpoints := update_where P (\<lambda>r. r\<lparr>aeDeletedAt := Some t, aeDeletedBy := Some b\<rparr>) (api_endpoints i)\<rparr>)" if "spec_ok i" for i P t
    using that by (intro spec_ok_endpoints endpoints_ok_retire) (auto simp: spec_ok_def)
  then show ?thesis unfolding SoftDeleteAPIEndpoint_def by (intro keeps_rules keeps_istmt) (metis Inr_inject prod.inject)
qed

lemma write_endpoint_fields:
  assumes "write_endpoint t i e r = Some row"
  shows "aeID row = aeID r" "aeAPIGroupID row = aeAPIGroupID r" "aeAPIGroupVersionID row = aeAPIGroupVersionID r" "aeDeletedAt row = aeDeletedAt r"
    "aeSummary row = aeSummary e" "aeOperationID row = aeOperationID e" "aeMethod row = aeMethod e" "aePath row = aePath e"
  using assms by (auto simp: write_endpoint_def split: option.splits)

text \<open>One row is replaced by another with the same identity, whose key no other row has.\<close>

lemma update_one:
  assumes "distinct (map aeID es)" and "r \<in> set es" and "aeDeletedAt r = None"
  shows "update_where (live_endpoint (aeID r)) (\<lambda>_. row) es = map (\<lambda>e. if aeID e = aeID r then row else e) es"
  unfolding update_where_def using assms by (auto simp: live_endpoint_def distinct_map inj_on_def)

lemma distinct_replace_one:
  assumes "distinct (map aeID es)" and "distinct (map working_key (filter working es))" and "aeID row = k"
    and "\<And>e. e \<in> set es \<Longrightarrow> aeID e \<noteq> k \<Longrightarrow> working row \<Longrightarrow> working e \<Longrightarrow> working_key e \<noteq> working_key row"
  shows "distinct (map aeID (map (\<lambda>e. if aeID e = k then row else e) es)) \<and>
    distinct (map working_key (filter working (map (\<lambda>e. if aeID e = k then row else e) es)))"
  using assms
proof (induction es)
  case (Cons e es)
  let ?f = "\<lambda>e. if aeID e = k then row else e"
  have IH: "distinct (map aeID (map ?f es)) \<and> distinct (map working_key (filter working (map ?f es)))"
    using Cons.prems by (intro Cons.IH) (auto split: if_splits)
  have ids: "map aeID (map ?f es) = map aeID es" using Cons.prems(3) by (induction es) auto
  show ?case
  proof (cases "aeID e = k")
    case True
    have "aeID e \<notin> aeID ` set es" using Cons.prems(1) by simp
    then have other: "aeID x \<noteq> k" if "x \<in> set es" for x using True that by (metis imageI)
    then have "map ?f es = es" by (intro map_idI) simp
    moreover have "working_key row \<notin> working_key ` set (filter working es)" if "working row"
    proof
      assume "working_key row \<in> working_key ` set (filter working es)"
      then obtain x where "x \<in> set es" "working x" "working_key x = working_key row" by auto
      then show False using Cons.prems(4) [of x] other that by simp
    qed
    ultimately show ?thesis using IH Cons.prems(1,3) True by auto
  next
    case False
    have "working_key e \<notin> working_key ` set (filter working (map ?f es))" if "working e"
    proof
      assume "working_key e \<in> working_key ` set (filter working (map ?f es))"
      then obtain x where x: "x \<in> set es" "working (?f x)" "working_key (?f x) = working_key e" by auto
      show False
      proof (cases "aeID x = k")
        case True
        then show False using x Cons.prems(4) [of e] False that by simp
      next
        case f: False
        then have "working_key e \<in> working_key ` set (filter working es)" using x by auto (metis imageI mem_Collect_eq)
        then show False using Cons.prems(2) that by simp
      qed
    qed
    moreover have "aeID e \<notin> set (map aeID (map ?f es))" using Cons.prems(1) ids by simp
    ultimately show ?thesis using IH False by auto
  qed
qed simp

lemma UpdateAPIEndpoint_keeps [keeps_rules]: "keeps (on_idb spec_ok) (UpdateAPIEndpoint e)"
proof -
  have "spec_ok (i\<lparr>api_endpoints := update_where (live_endpoint (aeID e)) (\<lambda>_. row) (api_endpoints i)\<rparr>)"
    if ok: "spec_ok i" and r: "List.find (live_endpoint (aeID e)) (api_endpoints i) = Some r" and row: "write_endpoint t i e r = Some row"
      and alone: "\<not> (\<exists>q\<in>set (api_endpoints i). aeID q \<noteq> aeID row \<and> working_twin row q)" for i r row t
  proof (rule spec_ok_endpoints [OF ok])
    have rid: "r \<in> set (api_endpoints i)" "aeID r = aeID e" "aeDeletedAt r = None" using find_SomeD [OF r] by (auto simp: live_endpoint_def)
    have es: "endpoints_ok (group_ids i) (version_ids i) (api_endpoints i)" using ok by (simp add: spec_ok_def)
    note f = write_endpoint_fields [OF row]
    have upd: "update_where (live_endpoint (aeID e)) (\<lambda>_. row) (api_endpoints i) = map (\<lambda>e. if aeID e = aeID r then row else e) (api_endpoints i)"
      using update_one [of "api_endpoints i" r row] es rid by (simp add: endpoints_ok_def)
    have "working_key q \<noteq> working_key row" if "q \<in> set (api_endpoints i)" "aeID q \<noteq> aeID r" "working row" "working q" for q
      using that alone f(1) by (auto simp: working_twin_def in_working_copy_iff working_key_def)
    then have "distinct (map aeID (map (\<lambda>e. if aeID e = aeID r then row else e) (api_endpoints i))) \<and>
        distinct (map working_key (filter working (map (\<lambda>e. if aeID e = aeID r then row else e) (api_endpoints i))))"
      using es f(1) by (intro distinct_replace_one) (auto simp: endpoints_ok_def)
    then show "endpoints_ok (group_ids i) (version_ids i) (update_where (live_endpoint (aeID e)) (\<lambda>_. row) (api_endpoints i))"
      using es rid f unfolding upd endpoints_ok_def by auto
  qed
  then show ?thesis unfolding UpdateAPIEndpoint_def
    by (intro keeps_rules keeps_istmt) (auto split: option.splits if_splits)
qed

lemma Upload_keeps [keeps_rules]: "keeps (on_idb spec_ok) (Upload key content)"
  unfolding Upload_def by (intro keeps_istmt) (auto simp: spec_ok_def group_ids_def version_ids_def)

lemma reads_keep [keeps_rules]:
  "keeps (on_idb I) (Download key)" "keeps (on_idb I) (GetAPIGroup ident)" "keeps (on_idb I) (ListAPIGroups s x)"
  "keeps (on_idb I) (GetAPIGroupVersion ident)" "keeps (on_idb I) (ListAPIGroupVersions ident)" "keeps (on_idb I) (GetAPIEndpoint ident)"
  "keeps (on_idb I) (ListAPIEndpoints g x)" "keeps (on_idb I) (ListAPIEndpointsForVersion g v x)"
  unfolding Download_def GetAPIGroup_def ListAPIGroups_def GetAPIGroupVersion_def ListAPIGroupVersions_def GetAPIEndpoint_def
    ListAPIEndpoints_def ListAPIEndpointsForVersion_def by (intro keeps_rules)+

section \<open>Publishing\<close>

definition input_ok :: "publishInput \<Rightarrow> bool" where
  "input_ok inp \<longleftrightarrow> avAPIGroupID (piVersion inp) = agID (piGroup inp) \<and> avVersionNumber (piVersion inp) = 0 \<and>
     (\<forall>e\<in>set (piNewEndpoints inp). aeAPIGroupVersionID e = None)"

lemma replace_working_ok:
  assumes "spec_ok i" and "replace_working t d inp i = Inr i'" and "input_ok inp"
  shows "spec_ok i'" "api_group_versions i' = api_group_versions i" "api_groups i' = api_groups i" "blobs i' = blobs i"
    "\<And>g v. filter (in_version g v) (api_endpoints i') = filter (in_version g v) (api_endpoints i)"
    "piReplaceEndpoints inp \<Longrightarrow> map Some (filter (in_working_copy (agID (piGroup inp))) (api_endpoints i')) = map (endpoint_row i) (filter (\<lambda>e. aeAPIGroupID e = agID (piGroup inp)) (piNewEndpoints inp))"
    "\<not> piReplaceEndpoints inp \<Longrightarrow> i' = i"
proof -
  let ?g = "agID (piGroup inp)" and ?c = "clear_working t (agID (piGroup inp)) (piActorID inp) i"
  have cases: "\<not> piReplaceEndpoints inp \<and> i' = i \<or> piReplaceEndpoints inp \<and> insert_endpoints d (piNewEndpoints inp) ?c = Inr i'"
    using assms(2) by (auto simp: replace_working_def in_step_def split: if_splits sum.splits)
  have repl: "spec_ok i' \<and> (\<exists>rows. map Some rows = map (endpoint_row ?c) (piNewEndpoints inp) \<and> i' = ?c\<lparr>api_endpoints := api_endpoints ?c @ rows\<rparr>)"
    if "insert_endpoints d (piNewEndpoints inp) ?c = Inr i'"
    using insert_endpoints_ok [OF clear_working_ok [OF assms(1)] that] assms(3) unfolding input_ok_def by blast
  show "spec_ok i'" using cases repl assms(1) by blast
  show "api_group_versions i' = api_group_versions i" "api_groups i' = api_groups i" "blobs i' = blobs i" using cases repl by (auto simp: clear_working_def)
  show "i' = i" if "\<not> piReplaceEndpoints inp" using cases that by blast
  have kept: "filter (in_version g v) (api_endpoints ?c) = filter (in_version g v) (api_endpoints i)" for g v
    using filter_update_other [of "in_working_copy ?g" "in_version g v" "\<lambda>r. r\<lparr>aeDeletedAt := Some t, aeDeletedBy := Some (piActorID inp)\<rparr>" "api_endpoints i"]
    by (simp add: clear_working_def in_version_def in_working_copy_def)
  have none: "filter (in_version g v) rows = []" if "map Some rows = map (endpoint_row ?c) (piNewEndpoints inp)" for rows g v
  proof -
    have "aeAPIGroupVersionID r = None" if r: "r \<in> set rows" for r
    proof -
      have "Some r \<in> endpoint_row ?c ` set (piNewEndpoints inp)" using r \<open>map Some rows = _\<close> by (metis image_eqI list.set_map)
      then show ?thesis using endpoint_row_fields(3) assms(3) unfolding input_ok_def by (metis (no_types, lifting) imageE)
    qed
    then show ?thesis by (auto simp: filter_empty_conv in_version_def)
  qed
  show "filter (in_version g v) (api_endpoints i') = filter (in_version g v) (api_endpoints i)" for g v
    using cases
  proof
    assume "piReplaceEndpoints inp \<and> insert_endpoints d (piNewEndpoints inp) ?c = Inr i'"
    then obtain rows where "map Some rows = map (endpoint_row ?c) (piNewEndpoints inp)" "i' = ?c\<lparr>api_endpoints := api_endpoints ?c @ rows\<rparr>" using repl by blast
    then show ?thesis using none [of rows g v] kept by simp
  qed simp
  show "map Some (filter (in_working_copy ?g) (api_endpoints i')) = map (endpoint_row i) (filter (\<lambda>e. aeAPIGroupID e = ?g) (piNewEndpoints inp))" if "piReplaceEndpoints inp"
  proof -
    from that cases have "insert_endpoints d (piNewEndpoints inp) ?c = Inr i'" by blast
    then obtain rows where rows: "map Some rows = map (endpoint_row ?c) (piNewEndpoints inp)" and i': "i' = ?c\<lparr>api_endpoints := api_endpoints ?c @ rows\<rparr>"
      using repl by blast
    have "endpoint_row ?c = endpoint_row i" using endpoint_row_cong [of ?c i] by (auto simp: clear_working_def)
    then have rows: "map Some rows = map (endpoint_row i) (piNewEndpoints inp)" using rows by simp
    have "filter (in_working_copy ?g) (api_endpoints ?c) = []"
      by (auto simp: clear_working_def update_where_def filter_empty_conv in_working_copy_def)
    then have "filter (in_working_copy ?g) (api_endpoints i') = filter (in_working_copy ?g) rows" unfolding i' by simp
    moreover have "map Some (filter (in_working_copy ?g) rs) = map (endpoint_row i) (filter (\<lambda>e. aeAPIGroupID e = ?g) es)"
      if "map Some rs = map (endpoint_row i) es" "\<forall>e\<in>set es. aeAPIGroupVersionID e = None" for rs es
      using that
    proof (induction rs arbitrary: es)
      case (Cons r rs)
      then obtain e es' where es: "es = e # es'" "endpoint_row i e = Some r" by (cases es) auto
      then show ?case using Cons endpoint_row_fields [OF es(2)] by (auto simp: in_working_copy_def)
    qed simp
    ultimately show ?thesis using rows assms(3) unfolding input_ok_def by simp
  qed
qed

lemma numbered_fields [simp]:
  "avID (numbered inp i) = avID (piVersion inp)" "avAPIGroupID (numbered inp i) = avAPIGroupID (piVersion inp)"
  "avSpecKey (numbered inp i) = avSpecKey (piVersion inp)" "avSpecHash (numbered inp i) = avSpecHash (piVersion inp)"
  by (simp_all add: numbered_def Let_def)

lemma publish_rows_steps:
  assumes "publish_rows t d inp i = Inr (v, i')"
  obtains i1 i2 i3 where "replace_working t d inp i = Inr i1" and "v = numbered inp i1" and "insert_version v i1 = Inr i2"
    and "copy_endpoints t (agID (piGroup inp)) (avID v) (piActorID inp) i2 = Inr i3"
    and "write_group t ((piGroup inp)\<lparr>agVersion := the (avLabel v)\<rparr>) i3 = Inr i'"
  using assms by (auto simp: publish_rows_def in_step_def Let_def split: sum.splits)

lemma latest_number_cong: "api_group_versions i = api_group_versions j \<Longrightarrow> latest_number g i = latest_number g j"
  by (simp add: latest_number_def)

lemma publish_rows_ok:
  assumes "spec_ok i" and "publish_rows t d inp i = Inr (v, i')" and "input_ok inp"
  shows "spec_ok i'"
proof -
  obtain i1 i2 i3 where s: "replace_working t d inp i = Inr i1" "v = numbered inp i1" "insert_version v i1 = Inr i2"
      "copy_endpoints t (agID (piGroup inp)) (avID v) (piActorID inp) i2 = Inr i3" "write_group t ((piGroup inp)\<lparr>agVersion := the (avLabel v)\<rparr>) i3 = Inr i'"
    using assms(2) by (rule publish_rows_steps)
  have n: "avVersionNumber v = latest_number (avAPIGroupID v) i1 + 1" using assms(3) by (simp add: s(2) numbered_def Let_def input_ok_def)
  note ok1 = replace_working_ok(1) [OF assms(1) s(1) assms(3)]
  note ok2 = insert_version_ok [OF ok1 s(3) n]
  have "(avID v, agID (piGroup inp)) \<in> version_ids i2" using assms(3) by (simp add: version_ids_def ok2(2) s(2) input_ok_def)
  then have "spec_ok i3" using copy_endpoints_ok(1) [OF ok2(1) s(4)] by blast
  then show ?thesis using s(5) by (rule write_group_ok)
qed

lemma PublishAPIGroupVersion_keeps: "input_ok inp \<Longrightarrow> keeps (on_idb spec_ok) (PublishAPIGroupVersion inp)"
  unfolding PublishAPIGroupVersion_def by (intro keeps_txn) (auto dest: publish_rows_ok split: sum.splits)

text \<open>What an endpoint says, without the columns that a snapshot of it has of its own.\<close>

definition endpoint_content :: "apiEndpoint \<Rightarrow> apiEndpoint" where
  "endpoint_content e = e\<lparr>aeID := [], aeAPIGroupVersionID := None, aeUpdatedBy := None, aeUpdatedAt := 0\<rparr>"

lemma content_snapshot_rows: "map endpoint_content (snapshot_rows t g v actor i) = map endpoint_content (filter (in_working_copy g) (api_endpoints i))"
proof -
  have "map endpoint_content (map (\<lambda>(k, e). snapshot_row t v actor (f k) e) (enumerate n es)) = map endpoint_content es" for f n es
    by (induction es arbitrary: n) (simp_all add: endpoint_content_def snapshot_row_def)
  then show ?thesis by (simp only: snapshot_rows_def)
qed

lemma publish_rows_effect:
  assumes "spec_ok i" and "publish_rows t d inp i = Inr (v, i')" and "input_ok inp"
  shows "api_group_versions i' = api_group_versions i @ [v]" "avVersionNumber v = latest_number (agID (piGroup inp)) i + 1"
    "avID v = avID (piVersion inp)" "avSpecKey v = avSpecKey (piVersion inp)" "avSpecHash v = avSpecHash (piVersion inp)" "avID v \<notin> avID ` set (api_group_versions i)"
    "map endpoint_content (filter (in_version (agID (piGroup inp)) (avID v)) (api_endpoints i')) =
       map endpoint_content (filter (in_working_copy (agID (piGroup inp))) (api_endpoints i'))"
    "\<And>g w. w \<noteq> avID v \<Longrightarrow> filter (in_version g w) (api_endpoints i') = filter (in_version g w) (api_endpoints i)"
    "blobs i' = blobs i"
    "piReplaceEndpoints inp \<Longrightarrow> map Some (filter (in_working_copy (agID (piGroup inp))) (api_endpoints i')) =
       map (endpoint_row i) (filter (\<lambda>e. aeAPIGroupID e = agID (piGroup inp)) (piNewEndpoints inp))"
    "\<not> piReplaceEndpoints inp \<Longrightarrow> filter (in_working_copy (agID (piGroup inp))) (api_endpoints i') = filter (in_working_copy (agID (piGroup inp))) (api_endpoints i)"
    "\<And>r. r \<in> set (api_groups i') \<Longrightarrow> live_group (agID (piGroup inp)) r \<Longrightarrow> agSpecKey r = agSpecKey (piGroup inp) \<and> agSpecHash r = agSpecHash (piGroup inp)"
    "avAPIGroupID v = agID (piGroup inp)"
proof -
  let ?g = "agID (piGroup inp)"
  obtain i1 i2 i3 where s: "replace_working t d inp i = Inr i1" "v = numbered inp i1" "insert_version v i1 = Inr i2"
      "copy_endpoints t ?g (avID v) (piActorID inp) i2 = Inr i3" "write_group t ((piGroup inp)\<lparr>agVersion := the (avLabel v)\<rparr>) i3 = Inr i'"
    using assms(2) by (rule publish_rows_steps)
  note r = replace_working_ok [OF assms(1) s(1) assms(3)]
  have n: "avVersionNumber v = latest_number ?g i1 + 1" "avAPIGroupID v = ?g" using assms(3) by (simp_all add: s(2) numbered_def Let_def input_ok_def)
  note v = insert_version_ok [OF r(1) s(3)]
  have v2: "api_group_versions i2 = api_group_versions i1 @ [v]" "api_endpoints i2 = api_endpoints i1" "avID v \<notin> avID ` set (api_group_versions i1)" "blobs i2 = blobs i1"
      "spec_ok i2" using v n by simp_all
  have "(avID v, ?g) \<in> version_ids i2" using n(2) by (simp add: version_ids_def v2(1))
  then have i3: "i3 = i2\<lparr>api_endpoints := api_endpoints i2 @ snapshot_rows t ?g (avID v) (piActorID inp) i2,
      gen_seq := gen_seq i2 + length (snapshot_rows t ?g (avID v) (piActorID inp) i2)\<rparr>" by (rule copy_endpoints_ok(2) [OF v2(5) s(4)])
  let ?rows = "snapshot_rows t ?g (avID v) (piActorID inp) i2"
  note w = write_group_ids [OF s(5)]
  have es: "api_endpoints i' = api_endpoints i1 @ ?rows" by (simp add: w(5) i3 v2(2))
  have in_rows: "filter (in_version ?g (avID v)) ?rows = ?rows" "filter (in_working_copy ?g) ?rows = []" "w \<noteq> avID v \<Longrightarrow> filter (in_version g w) ?rows = []" for g w
    using snapshot_rows_versions [of _ t ?g "avID v" "piActorID inp" i2] by (auto simp: in_version_def in_working_copy_def filter_empty_conv intro!: filter_True)
  have unused: "filter (in_version ?g (avID v)) (api_endpoints i1) = []"
  proof -
    have "avID v \<in> avID ` set (api_group_versions i1)" if "e \<in> set (api_endpoints i1)" "aeAPIGroupVersionID e = Some (avID v)" for e
      using r(1) that unfolding spec_ok_def endpoints_ok_def version_ids_def by force
    then show ?thesis using v2(3) by (auto simp: filter_empty_conv in_version_def)
  qed
  show "api_group_versions i' = api_group_versions i @ [v]" by (simp add: w(4) i3 v2(1) r(2))
  show "avVersionNumber v = latest_number ?g i + 1" using n(1) latest_number_cong [OF r(2)] by simp
  show "avID v = avID (piVersion inp)" "avSpecKey v = avSpecKey (piVersion inp)" "avSpecHash v = avSpecHash (piVersion inp)" by (simp_all add: s(2))
  show "avID v \<notin> avID ` set (api_group_versions i)" using v2(3) r(2) by simp
  show "map endpoint_content (filter (in_version ?g (avID v)) (api_endpoints i')) = map endpoint_content (filter (in_working_copy ?g) (api_endpoints i'))"
    unfolding es using in_rows unused content_snapshot_rows [of t ?g "avID v" "piActorID inp" i2] by (simp add: v2(2))
  show "filter (in_version g w) (api_endpoints i') = filter (in_version g w) (api_endpoints i)" if "w \<noteq> avID v" for g w
    unfolding es using in_rows(3) [OF that] r(5) by simp
  show "blobs i' = blobs i" by (simp add: w(6) i3 v2(4) r(4))
  show "map Some (filter (in_working_copy ?g) (api_endpoints i')) = map (endpoint_row i) (filter (\<lambda>e. aeAPIGroupID e = ?g) (piNewEndpoints inp))" if "piReplaceEndpoints inp"
    unfolding es using in_rows(2) r(6) [OF that] by simp
  show "filter (in_working_copy ?g) (api_endpoints i') = filter (in_working_copy ?g) (api_endpoints i)" if "\<not> piReplaceEndpoints inp"
    unfolding es using in_rows(2) r(7) [OF that] by simp
  show "agSpecKey r = agSpecKey (piGroup inp) \<and> agSpecHash r = agSpecHash (piGroup inp)" if "r \<in> set (api_groups i')" "live_group ?g r" for r
    using s(5) that by (auto simp: write_group_def live_group_def update_where_def split: if_splits)
  show "avAPIGroupID v = ?g" by (rule n(2))
qed

end
