(* ===== verification/OpenApiRefs.thy ===== *)
theory OpenApiRefs
  imports OpenApi
begin

text \<open>
  When the resolution of references ends. A value descends to its children, or to the target of its reference; the resolution ends
  exactly when no chain of descents goes on forever, and never when a value descends to itself.
\<close>

inductive descends :: "(string \<times> val) list \<Rightarrow> val \<Rightarrow> val \<Rightarrow> bool" for doc where
  to_target: "descends doc (VObj m) (resolveJSONPointer doc ref)"
    if "as_string (get m ''$ref'') = Some ref" and "resolveJSONPointer doc ref \<noteq> VNull"
| to_entry: "descends doc (VObj m) child" if "as_string (get m ''$ref'') = None" and "(k, child) \<in> set m"
| to_element: "descends doc (VArr vs) child" if "child \<in> set vs"

inductive_simps descends_simps [simp]:
  "descends doc (VObj m) c" "descends doc (VArr vs) c" "descends doc (VStr s) c" "descends doc (VInt i) c" "descends doc (VFloat s) c"
  "descends doc (VBool b) c" "descends doc VNull c"

lemma those_map: "those (map f xs) = Some ys \<longleftrightarrow> list_all2 (\<lambda>x y. f x = Some y) xs ys"
proof (induction xs arbitrary: ys)
  case (Cons x xs)
  then show ?case by (cases ys) (auto split: option.splits simp: list_all2_Cons1)
qed auto

lemma those_map_defined: "those (map f xs) \<noteq> None \<longleftrightarrow> (\<forall>x\<in>set xs. f x \<noteq> None)"
  by (induction xs) (auto split: option.splits)

lemma resolve_step: "resolveRefsInDoc (Suc n) doc v \<noteq> None \<longleftrightarrow> (\<forall>c. descends doc v c \<longrightarrow> resolveRefsInDoc n doc c \<noteq> None)"
proof (cases v)
  case (VObj m)
  show ?thesis
  proof (cases "as_string (get m ''$ref'')")
    case None
    have "resolveRefsInDoc (Suc n) doc v \<noteq> None \<longleftrightarrow> (\<forall>kv\<in>set m. (\<lambda>(k, child). map_option (Pair k) (resolveRefsInDoc n doc child)) kv \<noteq> None)"
      using None unfolding VObj by (simp only: resolveRefsInDoc.simps option.case option.map_disc_iff those_map_defined not_False_eq_True)
    then show ?thesis using None unfolding VObj by fastforce
  next
    case (Some ref)
    then show ?thesis unfolding VObj by (auto simp: Let_def)
  qed
next
  case (VArr vs)
  have "resolveRefsInDoc (Suc n) doc v \<noteq> None \<longleftrightarrow> (\<forall>c\<in>set vs. resolveRefsInDoc n doc c \<noteq> None)"
    unfolding VArr by (simp only: resolveRefsInDoc.simps option.map_disc_iff those_map_defined)
  then show ?thesis unfolding VArr by auto
qed simp_all

lemma resolve_more: "resolveRefsInDoc n doc v = Some r \<Longrightarrow> n \<le> m \<Longrightarrow> resolveRefsInDoc m doc v = Some r"
proof (induction n arbitrary: v r m)
  case (Suc n)
  obtain k where m: "m = Suc k" "n \<le> k" using Suc.prems(2) by (cases m) auto
  show ?case
  proof (cases v)
    case (VObj kvs)
    have entries: "those (map (\<lambda>(k', child). map_option (Pair k') (resolveRefsInDoc n doc child)) kvs) = Some ys \<Longrightarrow>
        those (map (\<lambda>(k', child). map_option (Pair k') (resolveRefsInDoc k doc child)) kvs) = Some ys" for ys
      unfolding those_map by (erule list_all2_mono) (auto intro: Suc.IH m(2))
    show ?thesis
      using Suc.prems(1) Suc.IH [OF _ m(2)] unfolding VObj m(1) by (auto simp: Let_def split: option.splits if_splits dest!: entries)
  next
    case (VArr vs)
    have "those (map (resolveRefsInDoc n doc) vs) = Some ys \<Longrightarrow> those (map (resolveRefsInDoc k doc) vs) = Some ys" for ys
      unfolding those_map by (erule list_all2_mono) (auto intro: Suc.IH m(2))
    then show ?thesis using Suc.prems(1) unfolding VArr m(1) by auto
  qed (use Suc.prems(1) m in auto)
qed simp

lemma finite_descends: "finite {c. descends doc v c}"
proof (cases v)
  case (VObj m)
  have "{c. descends doc v c} \<subseteq> insert (resolveJSONPointer doc (the (as_string (get m ''$ref'')))) (snd ` set m)"
    unfolding VObj by force
  then show ?thesis by (rule finite_subset) simp
qed simp_all

text \<open>The resolution of the references of a document ends exactly for the values from which no infinite chain of children and targets
  of references starts: some depth of the stack is enough for these, and no depth is enough for the others.\<close>

lemma resolveRefsInDoc_terminates_iff:
  "(\<exists>n r. resolveRefsInDoc n doc v = Some r) \<longleftrightarrow> Wellfounded.accp (\<lambda>c a. descends doc a c) v"
proof
  assume "Wellfounded.accp (\<lambda>c a. descends doc a c) v"
  then have "\<exists>n. resolveRefsInDoc n doc v \<noteq> None"
  proof (induction rule: accp.induct)
    case (accI v)
    then obtain f where f: "descends doc v c \<Longrightarrow> resolveRefsInDoc (f c) doc c \<noteq> None" for c by metis
    define n where "n = Max (f ` {c. descends doc v c})"
    have "resolveRefsInDoc n doc c \<noteq> None" if "descends doc v c" for c
    proof -
      have "f c \<le> n" unfolding n_def using that by (intro Max_ge finite_imageI finite_descends) simp
      then show ?thesis using f [OF that] resolve_more [of "f c" doc c _ n] by (cases "resolveRefsInDoc (f c) doc c") simp_all
    qed
    then have "resolveRefsInDoc (Suc n) doc v \<noteq> None" using resolve_step [of n doc v] by blast
    then show ?case by blast
  qed
  then show "\<exists>n r. resolveRefsInDoc n doc v = Some r" by blast
next
  assume "\<exists>n r. resolveRefsInDoc n doc v = Some r"
  then obtain n where "resolveRefsInDoc n doc v \<noteq> None" by blast
  then show "Wellfounded.accp (\<lambda>c a. descends doc a c) v"
  proof (induction n arbitrary: v)
    case (Suc n)
    show ?case
    proof (rule accp.accI)
      fix c assume "descends doc v c"
      then show "Wellfounded.accp (\<lambda>c a. descends doc a c) c" using Suc.IH Suc.prems resolve_step [of n doc v] by metis
    qed
  qed simp
qed

text \<open>C30. A value that descends to itself, such as a schema with a property that refers back to it, is never resolved: whatever the size of
  the stack, the recursion outgrows it.\<close>

theorem resolveRefsInDoc_cyclic:
  assumes "(descends doc)\<^sup>+\<^sup>+ v v"
  shows "resolveRefsInDoc n doc v = None"
proof -
  have "\<exists>k<n. resolveRefsInDoc k doc u \<noteq> None" if "(descends doc)\<^sup>+\<^sup>+ v u" "resolveRefsInDoc n doc v \<noteq> None" for u n
    using that
  proof (induction rule: tranclp_induct)
    case (base u)
    then show ?case using resolve_step [of _ doc v] by (cases n) auto
  next
    case (step u w)
    then obtain k where k: "k < n" "resolveRefsInDoc k doc u \<noteq> None" by blast
    then obtain l where "k = Suc l" by (cases k) auto
    then have "l < n" "resolveRefsInDoc l doc w \<noteq> None" using k resolve_step [of l doc u] step.hyps(2) by auto
    then show ?case by blast
  qed
  note down = this [OF assms]
  show ?thesis
  proof (induction n rule: less_induct)
    case (less n)
    show ?case
    proof (rule ccontr)
      assume "resolveRefsInDoc n doc v \<noteq> None"
      then obtain k where "k < n" "resolveRefsInDoc k doc v \<noteq> None" using down by metis
      then show False using less.IH by metis
    qed
  qed
qed

text \<open>A tree: \<open>Node\<close> has children of its own type, as \<open>components/schemas\<close> of many documents have.\<close>

definition ex_node :: val where
  "ex_node = VObj [(''type'', VStr ''object''), (''properties'', VObj [(''children'', VObj [(''type'', VStr ''array''),
     (''items'', VObj [(''$ref'', VStr ''#/components/schemas/Node'')])])])]"

definition ex_tree_doc :: "(string \<times> val) list" where
  "ex_tree_doc = [(''components'', VObj [(''schemas'', VObj [(''Node'', ex_node)])])]"

lemma ex_node_cyclic: "(descends ex_tree_doc)\<^sup>+\<^sup>+ ex_node ex_node"
proof -
  let ?item = "VObj [(''$ref'', VStr ''#/components/schemas/Node'')]"
  let ?children = "VObj [(''type'', VStr ''array''), (''items'', ?item)]"
  have target: "resolveJSONPointer ex_tree_doc ''#/components/schemas/Node'' = ex_node"
    by (simp add: resolveJSONPointer_def HasPrefix_def ex_tree_doc_def)
  have "descends ex_tree_doc ex_node (VObj [(''children'', ?children)])"
    unfolding ex_node_def by (rule to_entry) (simp_all add: get_def as_string_def)
  moreover have "descends ex_tree_doc (VObj [(''children'', ?children)]) ?children"
    by (rule to_entry) (simp_all add: get_def as_string_def)
  moreover have "descends ex_tree_doc ?children ?item"
    by (rule to_entry) (simp_all add: get_def as_string_def)
  moreover have "descends ex_tree_doc ?item ex_node"
    using to_target [of "[(''$ref'', VStr ''#/components/schemas/Node'')]" "''#/components/schemas/Node''" ex_tree_doc] target
    by (simp add: get_def as_string_def ex_node_def)
  ultimately show ?thesis by (blast intro: tranclp_into_tranclp2 tranclp.r_into_trancl)
qed

theorem resolveRefsInDoc_cyclic_witness: "\<forall>n. resolveRefsInDoc n ex_tree_doc ex_node = None"
  using resolveRefsInDoc_cyclic [OF ex_node_cyclic] by simp

end
