(* ===== verification/ApiGroupSafety.thy ===== *)
theory ApiGroupSafety
  imports ApiGroupTables OpenApiRefs "HOL-Library.Sublist"
begin

text \<open>
  What the handlers of API groups guarantee. An invariant of the tables that every statement keeps is kept by every handler, whatever
  statements fail (locale \<open>spec_invariant\<close>, with two interpretations: the consistency of the tables, and that versions are only ever added). A publication
  is done as a whole or not at all, and a published version holds the endpoints of the working copy and its specification.
\<close>

section \<open>New endpoints belong to no version\<close>

definition unversioned :: "apiEndpoint list \<Rightarrow> bool" where
  "unversioned es \<longleftrightarrow> (\<forall>e\<in>set es. aeAPIGroupVersionID e = None)"

lemma new_endpoint_fields [simp]:
  "aeAPIGroupVersionID (new_endpoint c ident k) = None" "aeAPIGroupID (new_endpoint c ident k) = scGroupID c"
  by (simp_all add: new_endpoint_def APIEndpoint_zero_def)

lemma endpoints_fields [simp]:
  "aeAPIGroupVersionID (graphql_endpoint ps c ids k op) = None" "aeAPIGroupID (graphql_endpoint ps c ids k op) = scGroupID c"
  "aeAPIGroupVersionID (grpc_endpoint ps c ids k m) = None" "aeAPIGroupID (grpc_endpoint ps c ids k m) = scGroupID c"
  by (simp_all add: graphql_endpoint_def grpc_endpoint_def Let_def)

lemma operation_endpoint_fields:
  "operation_endpoint ps doc c ids k x = Some e \<Longrightarrow> aeAPIGroupVersionID e = None \<and> aeAPIGroupID e = scGroupID c"
  by (auto simp: operation_endpoint_def Let_def split: prod.splits option.splits)

lemma those_map_mem:
  assumes "those (map f xs) = Some ys" and "y \<in> set ys"
  obtains x where "x \<in> set xs" and "f x = Some y"
proof -
  have "list_all2 (\<lambda>x y. f x = Some y) xs ys" using assms(1) by (simp only: those_map)
  moreover obtain k where "k < length ys" "ys ! k = y" using assms(2) by (auto simp: in_set_conv_nth)
  ultimately show thesis using that [of "xs ! k"] by (auto simp: list_all2_conv_all_nth)
qed

lemma parsed_fields:
  assumes "parseSpecEndpointsForProtocol ps spec pr c ids = Some (Inr es)" and "e \<in> set es"
  shows "aeAPIGroupVersionID e = None \<and> aeAPIGroupID e = scGroupID c"
proof -
  consider "parseGraphQLSpecEndpoints ps spec c ids = Inr es" | "parseGrpcSpecEndpoints ps spec c ids = Inr es" | "parseSpecEndpoints ps spec c ids = Some (Inr es)"
    using assms(1) by (auto simp: parseSpecEndpointsForProtocol_def Let_def split: if_splits)
  then show ?thesis
  proof cases
    case 1
    then show ?thesis using assms(2) by (auto simp: parseGraphQLSpecEndpoints_def split: sum.splits)
  next
    case 2
    then show ?thesis using assms(2) by (auto simp: parseGrpcSpecEndpoints_def split: sum.splits)
  next
    case 3
    then obtain doc ops where "es = [] \<or> those (map (\<lambda>(i, operation). operation_endpoint ps doc c ids i operation) ops) = Some es"
      by (auto simp: parseSpecEndpoints_def split: option.splits prod.splits)
    then show ?thesis using assms(2) by (auto elim!: those_map_mem dest: operation_endpoint_fields)
  qed
qed

lemma parse_endpoints_fields:
  assumes "run_state (parse_endpoints ps spec pr c) w = (Inr es, w')"
  shows "unversioned es" "\<forall>e\<in>set es. aeAPIGroupID e = scGroupID c" "w' = w\<lparr>uuid_draws := uuid_draws w'\<rparr>"
  using assms parsed_fields [of ps spec pr c "\<lambda>k. uuids w (uuid_draws w + k)" es]
  by (auto simp: parse_endpoints_def with_uuids_def unversioned_def split: option.splits sum.splits)

lemma restore_all_fields:
  assumes "run_state (restore_all t u es) w = (out, w')"
  shows "unversioned out" "w' = w\<lparr>uuid_draws := uuid_draws w'\<rparr>"
  using assms by (auto simp: restore_all_def with_uuids_def unversioned_def restored_def)

lemma preserve_fields:
  "unversioned (preserveEndpointSLAs old es) \<longleftrightarrow> unversioned es"
  "(\<forall>e\<in>set (preserveEndpointSLAs old es). aeAPIGroupID e = g) \<longleftrightarrow> (\<forall>e\<in>set es. aeAPIGroupID e = g)"
  by (auto simp: preserveEndpointSLAs_def unversioned_def Let_def split: option.splits)

section \<open>Invariants\<close>

lemma keeps_live [keeps_rules]: "(\<And>g. keeps I (k g)) \<Longrightarrow> keeps I (live g k)" "(\<And>e. keeps I (k' e)) \<Longrightarrow> keeps I (live_row ok e k')"
  unfolding live_def live_row_def by (auto split: option.splits intro: keeps_rules)

lemma hoare_fact: "(Q \<Longrightarrow> hoare P m R) \<Longrightarrow> hoare (\<lambda>s. P s \<and> Q) m R"
  by (simp add: hoare_def)

lemma keeps_ibindE_value:
  assumes "hoare I m (\<lambda>r s. I s \<and> (\<forall>a. r = Inr a \<longrightarrow> Q a))" and "\<And>a. Q a \<Longrightarrow> keeps I (k a)"
  shows "keeps I (ibindE m k)"
  unfolding ibindE_def
  by (rule hoare_bind [OF assms(1)]) (use assms(2) in \<open>auto simp: hoare_def split: sum.splits prod.splits\<close>)

text \<open>A step is a request to one of the handlers, run to its end under any schedule of failures, or anything that leaves these tables alone.\<close>

inductive spec_step :: "spec_db side \<Rightarrow> spec_db side \<Rightarrow> bool" where
  create_group: "run_state (GroupHandler_CreateAPIGroup ps cb r) g = (a, g') \<Longrightarrow> spec_step g g'"
| update_group: "run_state (GroupHandler_UpdateAPIGroup ps ub r) g = (a, g') \<Longrightarrow> spec_step g g'"
| delete_group: "run_state (GroupHandler_DeleteAPIGroup r) g = (a, g') \<Longrightarrow> spec_step g g'"
| sync_group: "run_state (GroupHandler_SyncAPIGroup ps sb r) g = (a, g') \<Longrightarrow> spec_step g g'"
| create_version: "run_state (GroupHandler_CreateAPIGroupVersion ps vb r) g = (a, g') \<Longrightarrow> spec_step g g'"
| restore_version: "run_state (GroupHandler_RestoreAPIGroupVersion ps r) g = (a, g') \<Longrightarrow> spec_step g g'"
| create_endpoint: "run_state (GroupHandler_CreateAPIEndpoint ceb r) g = (a, g') \<Longrightarrow> spec_step g g'"
| update_endpoint: "run_state (GroupHandler_UpdateAPIEndpoint ueb r) g = (a, g') \<Longrightarrow> spec_step g g'"
| delete_endpoint: "run_state (GroupHandler_DeleteAPIEndpoint r) g = (a, g') \<Longrightarrow> spec_step g g'"
| reads: "m \<in> {GroupHandler_ListAPIGroups r, GroupHandler_GetAPIGroup r, GroupHandler_GetAPIGroupSpec r, GroupHandler_ListAPIGroupVersions r,
    GroupHandler_ListAPIEndpoints r, GroupHandler_GetAPIEndpoint r, GroupHandler_GetAPIEndpointByID r} \<Longrightarrow> run_state m g = (a, g') \<Longrightarrow> spec_step g g'"
| elsewhere: "idb g' = idb g \<Longrightarrow> spec_step g g'"

locale spec_invariant =
  fixes I :: "spec_db \<Rightarrow> bool"
  assumes create_group: "keeps (on_idb I) (CreateAPIGroup g)"
    and update_group: "keeps (on_idb I) (UpdateAPIGroup g)"
    and delete_group: "keeps (on_idb I) (SoftDeleteAPIGroup ident user)"
    and create_endpoint: "aeAPIGroupVersionID e = None \<Longrightarrow> keeps (on_idb I) (CreateAPIEndpoint e)"
    and update_endpoint: "keeps (on_idb I) (UpdateAPIEndpoint e)"
    and delete_endpoint: "keeps (on_idb I) (SoftDeleteAPIEndpoint ident user)"
    and upload: "keeps (on_idb I) (Upload key content)"
    and publish: "input_ok inp \<Longrightarrow> keeps (on_idb I) (PublishAPIGroupVersion inp)"
begin

lemma snapshot:
  assumes "avAPIGroupID v = agID g" and "avVersionNumber v = 0" and "\<And>es. new = Some es \<Longrightarrow> unversioned es"
  shows "keeps (on_idb I) (snapshot g p v new)"
proof -
  let ?eps = "map (\<lambda>e. e\<lparr>aeCreatedByCommitHash := ppCommitHash p\<rparr>) (case new of Some es \<Rightarrow> es | None \<Rightarrow> [])"
  have eps: "unversioned ?eps" using assms(3) by (auto simp: unversioned_def split: option.splits)
  have "hoare (on_idb I) (if new = None then ret ?eps else State_Monad.bind (ListAPIEndpoints (agID g) None) (\<lambda>existing.
       ret (case existing of Inl e \<Rightarrow> ?eps | Inr old \<Rightarrow> preserveEndpointSLAs old ?eps))) (\<lambda>es s. on_idb I s \<and> unversioned es)"
    using eps by (auto intro!: hoare_return hoare_bind [OF reads_keep(7)] simp: preserve_fields split: sum.splits)
  then show ?thesis
    unfolding snapshot_def Let_def
  proof (rule hoare_bind)
    show "hoare (\<lambda>s. on_idb I s \<and> unversioned es) (ibindE (PublishAPIGroupVersion \<lparr>piGroup = g, piReplaceEndpoints = (new \<noteq> None), piNewEndpoints = es,
        piVersion = v, piActorID = ppActorID p\<rparr>) (\<lambda>v'. ret (Inr (g\<lparr>agVersion := the (avLabel v')\<rparr>, v')))) (\<lambda>_. on_idb I)" for es
      by (intro hoare_fact keeps_ibindE publish keeps_return) (use assms(1,2) in \<open>simp add: input_ok_def unversioned_def\<close>)
  qed
qed

lemma publication:
  assumes "\<And>es. ppEndpoints p = Some es \<Longrightarrow> unversioned es"
  shows "keeps (on_idb I) (publishAPIGroupVersion ps g p)"
proof -
  have "hoare (on_idb I) (case ppEndpoints p of Some eps \<Rightarrow> ret (Inr eps) | None \<Rightarrow> lift (parse_endpoints ps spec pr c))
      (\<lambda>r s. on_idb I s \<and> (\<forall>es. r = Inr es \<longrightarrow> unversioned es))" for spec pr c
    using assms by (auto simp: lift_def on_idb_def hoare_def split: option.splits prod.splits dest: parse_endpoints_fields)
  note parse = keeps_ibindE_value [OF this]
  show ?thesis
    unfolding publishAPIGroupVersion_def publish_spec_def publish_current_def Let_def
    by (intro keeps_rules upload parse snapshot hoare_if) (auto simp: new_version_def split: option.splits intro!: keeps_rules upload snapshot assms)
qed

lemmas statements = create_group update_group delete_group create_endpoint update_endpoint delete_endpoint upload

lemma resolve: "keeps (on_idb I) (resolveSpec spec asset)"
  unfolding resolveSpec_def by (auto split: option.splits intro: keeps_rules)

lemma on_groups:
  "keeps (on_idb I) (GroupHandler_CreateAPIGroup ps cb r)" "keeps (on_idb I) (GroupHandler_UpdateAPIGroup ps ub r)"
  "keeps (on_idb I) (GroupHandler_DeleteAPIGroup r)"
proof -
  show "keeps (on_idb I) (GroupHandler_CreateAPIGroup ps cb r)"
    unfolding GroupHandler_CreateAPIGroup_def Let_def
    by (auto split: option.splits prod.splits intro!: keeps_rules statements publication resolve)
  show "keeps (on_idb I) (GroupHandler_UpdateAPIGroup ps ub r)"
    unfolding GroupHandler_UpdateAPIGroup_def Let_def
    by (auto split: option.splits prod.splits intro!: keeps_rules statements publication resolve)
  show "keeps (on_idb I) (GroupHandler_DeleteAPIGroup r)"
    unfolding GroupHandler_DeleteAPIGroup_def by (intro keeps_rules statements)
qed

lemma on_sync: "keeps (on_idb I) (GroupHandler_SyncAPIGroup ps sb r)"
proof -
  have params: "keeps (on_idb I) (publishAPIGroupVersion ps g (sync_params b r p spec))" for g b p spec
    by (rule publication) (simp add: sync_params_def)
  have "keeps (on_idb I) (sync_update ps b pr p spec g r)" "keeps (on_idb I) (sync_create ps b pr p spec r)" for b pr p spec g
    unfolding sync_update_def sync_create_def Let_def
    by (auto split: prod.splits intro!: keeps_rules statements params)
  then show ?thesis
    unfolding GroupHandler_SyncAPIGroup_def Let_def by (auto split: option.splits intro!: keeps_rules resolve)
qed

lemma on_versions:
  "keeps (on_idb I) (GroupHandler_CreateAPIGroupVersion ps vb r)" "keeps (on_idb I) (GroupHandler_RestoreAPIGroupVersion ps r)"
proof -
  show "keeps (on_idb I) (GroupHandler_CreateAPIGroupVersion ps vb r)"
    unfolding GroupHandler_CreateAPIGroupVersion_def
    by (auto split: prod.splits intro!: keeps_rules publication resolve)
  have restore: "hoare (on_idb I) (lift (restore_all t u es)) (\<lambda>out s. on_idb I s \<and> unversioned out)" for t u es
    by (auto simp: lift_def on_idb_def hoare_def split: prod.splits dest: restore_all_fields)
  have "keeps (on_idb I) (State_Monad.bind (lift (restore_all t u es)) (\<lambda>working.
      ion_err (publishAPIGroupVersion ps g (restore_params r p spec working)) (\<lambda>(g', v'). ret (JSON 200 (group_json g')))))" for t u es g p spec
    by (rule hoare_bind [OF restore]) (auto simp: restore_params_def split: prod.splits intro!: hoare_fact keeps_rules publication)
  note tail = this
  show "keeps (on_idb I) (GroupHandler_RestoreAPIGroupVersion ps r)"
    unfolding GroupHandler_RestoreAPIGroupVersion_def restore_version_def
    by (intro tail keeps_with_principal keeps_ion_err keeps_live reads_keep hoare_case_option hoare_if keeps_return keeps_bind keeps_lift)
qed

lemma on_endpoints:
  "keeps (on_idb I) (GroupHandler_CreateAPIEndpoint ceb r)" "keeps (on_idb I) (GroupHandler_UpdateAPIEndpoint ueb r)"
  "keeps (on_idb I) (GroupHandler_DeleteAPIEndpoint r)"
proof -
  show "keeps (on_idb I) (GroupHandler_CreateAPIEndpoint ceb r)"
    unfolding GroupHandler_CreateAPIEndpoint_def Let_def
    by (auto split: option.splits intro!: keeps_rules statements simp: APIEndpoint_zero_def)
  show "keeps (on_idb I) (GroupHandler_UpdateAPIEndpoint ueb r)"
    unfolding GroupHandler_UpdateAPIEndpoint_def Let_def by (auto split: option.splits intro!: keeps_rules statements)
  show "keeps (on_idb I) (GroupHandler_DeleteAPIEndpoint r)"
    unfolding GroupHandler_DeleteAPIEndpoint_def by (intro keeps_rules statements)
qed

lemma on_reads:
  "keeps (on_idb I) (GroupHandler_ListAPIGroups r)" "keeps (on_idb I) (GroupHandler_GetAPIGroup r)" "keeps (on_idb I) (GroupHandler_GetAPIGroupSpec r)"
  "keeps (on_idb I) (GroupHandler_ListAPIGroupVersions r)" "keeps (on_idb I) (GroupHandler_ListAPIEndpoints r)"
  "keeps (on_idb I) (GroupHandler_GetAPIEndpoint r)" "keeps (on_idb I) (GroupHandler_GetAPIEndpointByID r)"
  unfolding GroupHandler_ListAPIGroups_def GroupHandler_GetAPIGroup_def GroupHandler_GetAPIGroupSpec_def GroupHandler_ListAPIGroupVersions_def
    GroupHandler_ListAPIEndpoints_def GroupHandler_GetAPIEndpoint_def GroupHandler_GetAPIEndpointByID_def Let_def
  by (auto intro!: keeps_rules)

lemma step:
  assumes "spec_step g g'" and "I (idb g)"
  shows "I (idb g')"
  using assms(1)
proof (cases rule: spec_step.cases)
  case create_group
  then show ?thesis by (rule kept [OF on_groups(1) _ assms(2)])
next
  case update_group
  then show ?thesis by (rule kept [OF on_groups(2) _ assms(2)])
next
  case delete_group
  then show ?thesis by (rule kept [OF on_groups(3) _ assms(2)])
next
  case sync_group
  then show ?thesis by (rule kept [OF on_sync _ assms(2)])
next
  case create_version
  then show ?thesis by (rule kept [OF on_versions(1) _ assms(2)])
next
  case restore_version
  then show ?thesis by (rule kept [OF on_versions(2) _ assms(2)])
next
  case create_endpoint
  then show ?thesis by (rule kept [OF on_endpoints(1) _ assms(2)])
next
  case update_endpoint
  then show ?thesis by (rule kept [OF on_endpoints(2) _ assms(2)])
next
  case delete_endpoint
  then show ?thesis by (rule kept [OF on_endpoints(3) _ assms(2)])
next
  case (reads m r a)
  then have "keeps (on_idb I) m" using on_reads by auto
  then show ?thesis using reads(2) assms(2) by (rule kept)
next
  case elsewhere
  then show ?thesis using assms(2) by simp
qed

lemma steps: "spec_step\<^sup>*\<^sup>* g g' \<Longrightarrow> I (idb g) \<Longrightarrow> I (idb g')"
  by (induction rule: rtranclp_induct) (auto intro: step)

end

interpretation consistent: spec_invariant spec_ok
  by unfold_locales (intro keeps_rules CreateAPIEndpoint_keeps PublishAPIGroupVersion_keeps; assumption)+

definition extends :: "apiGroupVersion list \<Rightarrow> spec_db \<Rightarrow> bool" where
  "extends vs i \<longleftrightarrow> prefix vs (api_group_versions i)"

lemma insert_endpoints_versions: "insert_endpoints d es i = Inr i' \<Longrightarrow> api_group_versions i' = api_group_versions i"
  by (induction es arbitrary: i) (auto simp: insert_endpoint_def split: sum.splits option.splits if_splits)

lemma publish_rows_versions:
  assumes "publish_rows t d inp i = Inr (v, i')"
  shows "api_group_versions i' = api_group_versions i @ [v]"
proof -
  obtain i1 i2 i3 where s: "replace_working t d inp i = Inr i1" "insert_version v i1 = Inr i2"
      "copy_endpoints t (agID (piGroup inp)) (avID v) (piActorID inp) i2 = Inr i3" "write_group t ((piGroup inp)\<lparr>agVersion := the (avLabel v)\<rparr>) i3 = Inr i'"
    using assms by (rule publish_rows_steps)
  have "api_group_versions i1 = api_group_versions i"
    using s(1) insert_endpoints_versions by (auto simp: replace_working_def in_step_def clear_working_def split: if_splits sum.splits)
  moreover have "api_group_versions i2 = api_group_versions i1 @ [v]" using s(2) by (auto simp: insert_version_def split: if_splits)
  moreover have "api_group_versions i3 = api_group_versions i2" using s(3) by (auto simp: copy_endpoints_def Let_def split: if_splits)
  ultimately show ?thesis using write_group_ids(4) [OF s(4)] by simp
qed

lemma extends_statements:
  "keeps (on_idb (extends vs)) (CreateAPIGroup g)" "keeps (on_idb (extends vs)) (UpdateAPIGroup g)"
  "keeps (on_idb (extends vs)) (SoftDeleteAPIGroup ident u)" "keeps (on_idb (extends vs)) (CreateAPIEndpoint e)"
  "keeps (on_idb (extends vs)) (UpdateAPIEndpoint e)" "keeps (on_idb (extends vs)) (SoftDeleteAPIEndpoint ident u)"
  "keeps (on_idb (extends vs)) (Upload key content)" "keeps (on_idb (extends vs)) (PublishAPIGroupVersion inp)"
proof -
  show "keeps (on_idb (extends vs)) (CreateAPIGroup g)"
    unfolding CreateAPIGroup_def by (intro keeps_rules keeps_txn) (auto simp: extends_def split: if_splits)
  show "keeps (on_idb (extends vs)) (UpdateAPIGroup g)"
    unfolding UpdateAPIGroup_def by (intro keeps_rules keeps_istmt) (auto simp: extends_def write_group_ids(4) split: sum.splits)
  show "keeps (on_idb (extends vs)) (SoftDeleteAPIGroup ident u)"
    unfolding SoftDeleteAPIGroup_def by (intro keeps_rules keeps_istmt) (auto simp: extends_def)
  show "keeps (on_idb (extends vs)) (CreateAPIEndpoint e)"
    unfolding CreateAPIEndpoint_def by (intro keeps_rules keeps_txn) (auto simp: extends_def insert_endpoint_def split: sum.splits option.splits if_splits)
  show "keeps (on_idb (extends vs)) (UpdateAPIEndpoint e)"
    unfolding UpdateAPIEndpoint_def by (intro keeps_rules keeps_istmt) (auto simp: extends_def split: option.splits if_splits)
  show "keeps (on_idb (extends vs)) (SoftDeleteAPIEndpoint ident u)"
    unfolding SoftDeleteAPIEndpoint_def by (intro keeps_rules keeps_istmt) (auto simp: extends_def)
  show "keeps (on_idb (extends vs)) (Upload key content)"
    unfolding Upload_def by (intro keeps_istmt) (auto simp: extends_def)
  show "keeps (on_idb (extends vs)) (PublishAPIGroupVersion inp)"
    unfolding PublishAPIGroupVersion_def
    by (intro keeps_txn) (auto simp: extends_def publish_rows_versions intro: prefix_prefix split: sum.splits)
qed

interpretation history: spec_invariant "extends vs" for vs
  by unfold_locales (rule extends_statements)+

end
