(* ===== verification/ApiGroupPublish.thy ===== *)
theory ApiGroupPublish
  imports ApiGroupSafety
begin

text \<open>
  Publication as a whole: the uploads to the object storage, the parser, the transaction. The tables change in the transaction
  only; the specification of the working copy is overwritten before it.
\<close>

section \<open>Runs\<close>

text \<open>An upload changes the object storage only.\<close>

definition same_tables :: "spec_db \<Rightarrow> spec_db \<Rightarrow> bool" where
  "same_tables i j \<longleftrightarrow> j = i\<lparr>blobs := blobs j\<rparr>"

lemma same_tables_refl [simp]: "same_tables i i"
  by (simp add: same_tables_def)

lemma same_tables_blobs: "same_tables i (i\<lparr>blobs := b\<rparr>)"
  by (simp add: same_tables_def)

lemma same_tables_trans: "same_tables i j \<Longrightarrow> same_tables j k \<Longrightarrow> same_tables i k"
  by (cases i; cases j; cases k) (simp add: same_tables_def)

lemma same_tablesD:
  assumes "same_tables i j"
  shows "api_groups j = api_groups i" "api_group_versions j = api_group_versions i" "api_endpoints j = api_endpoints i" "jsonb_of j = jsonb_of i"
    "spec_ok j = spec_ok i" "latest_number g j = latest_number g i" "endpoint_row j = endpoint_row i"
proof -
  show e: "api_groups j = api_groups i" "api_group_versions j = api_group_versions i" "api_endpoints j = api_endpoints i" "jsonb_of j = jsonb_of i"
    using assms by (cases i; cases j; simp add: same_tables_def)+
  show "spec_ok j = spec_ok i" "latest_number g j = latest_number g i" using e by (simp_all add: spec_ok_def group_ids_def version_ids_def latest_number_def)
  show "endpoint_row j = endpoint_row i" using endpoint_row_cong [OF e(4)] by blast
qed

lemma run_Upload:
  assumes "run_state (Upload key content) g = (r, g')"
  shows "same_tables (idb g) (idb g')" "\<And>a. r = Inr a \<Longrightarrow> blobs (idb g') = (blobs (idb g))(key \<mapsto> content)"
proof -
  from assms have "idb g' = idb g \<and> (\<forall>a. r \<noteq> Inr a) \<or> idb g' = (idb g)\<lparr>blobs := (blobs (idb g))(key \<mapsto> content)\<rparr>"
    unfolding Upload_def by (cases rule: run_istmt_cases) simp_all
  then show "same_tables (idb g) (idb g')" "\<And>a. r = Inr a \<Longrightarrow> blobs (idb g') = (blobs (idb g))(key \<mapsto> content)"
    using same_tables_blobs [of "idb g"] by auto
qed

lemma run_iquery_Inr:
  assumes "run_state (iwrap fmt (iquery f)) g = (Inr a, g')"
  shows "f (clock (base g)) (db (base g)) (idb g) = Inr a"
proof -
  obtain r where "run_state (iquery f) g = (r, g')" "Inr a = r" using assms by (cases rule: run_iwrap_cases) metis
  then have "run_state (iquery f) g = (Inr a, g')" by simp
  then show ?thesis unfolding iquery_def by (cases rule: run_txn_cases) (auto split: sum.splits)
qed

lemma run_ListAPIEndpoints:
  assumes "run_state (ListAPIEndpoints g None) s = (Inr es, s')"
  shows "es = in_order (filter (in_working_copy g) (api_endpoints (idb s)))"
  using run_iquery_Inr [OF assms [unfolded ListAPIEndpoints_def]] by simp

section \<open>Publications\<close>

definition published :: "string \<Rightarrow> spec_db \<Rightarrow> apiGroupVersion \<Rightarrow> spec_db \<Rightarrow> bool" where
  "published g i v i' \<longleftrightarrow> api_group_versions i' = api_group_versions i @ [v] \<and> avAPIGroupID v = g \<and> avVersionNumber v = latest_number g i + 1 \<and>
     avID v \<notin> avID ` set (api_group_versions i) \<and>
     map endpoint_content (filter (in_version g (avID v)) (api_endpoints i')) = map endpoint_content (filter (in_working_copy g) (api_endpoints i')) \<and>
     (\<forall>h w. w \<noteq> avID v \<longrightarrow> filter (in_version h w) (api_endpoints i') = filter (in_version h w) (api_endpoints i))"

lemma published_cong: "same_tables i j \<Longrightarrow> published g j v i' \<longleftrightarrow> published g i v i'"
  by (simp add: published_def same_tablesD)

text \<open>The last part: with the endpoints that replace the working copy.\<close>

definition carried :: "spec_db \<Rightarrow> apiGroup \<Rightarrow> publishParams \<Rightarrow> apiEndpoint list \<Rightarrow> apiEndpoint list \<Rightarrow> bool" where
  "carried i g p es rows \<longleftrightarrow> (let stamped = map (\<lambda>e. e\<lparr>aeCreatedByCommitHash := ppCommitHash p\<rparr>) es in
     \<exists>new. (new = stamped \<or> new = preserveEndpointSLAs (in_order (filter (in_working_copy (agID g)) (api_endpoints i))) stamped) \<and>
       map Some rows = map (endpoint_row i) (filter (\<lambda>e. aeAPIGroupID e = agID g) new))"

text \<open>What becomes of the working copy: it is kept, or replaced by the given endpoints.\<close>

definition replaced :: "spec_db \<Rightarrow> apiGroup \<Rightarrow> publishParams \<Rightarrow> apiEndpoint list option \<Rightarrow> apiEndpoint list \<Rightarrow> bool" where
  "replaced i g p new rows \<longleftrightarrow> (case new of None \<Rightarrow> rows = filter (in_working_copy (agID g)) (api_endpoints i) | Some es \<Rightarrow> carried i g p es rows)"

text \<open>The row of the group names an object and its hash.\<close>

definition points_to :: "spec_db \<Rightarrow> string \<Rightarrow> string option \<Rightarrow> string option \<Rightarrow> bool" where
  "points_to i g key hash \<longleftrightarrow> (\<forall>r\<in>set (api_groups i). live_group g r \<longrightarrow> agSpecKey r = key \<and> agSpecHash r = hash)"

lemma run_snapshot:
  assumes "run_state (snapshot g p v new) s = (r, s')" and "spec_ok (idb s)" and "avAPIGroupID v = agID g" and "avVersionNumber v = 0"
    and "\<And>es. new = Some es \<Longrightarrow> unversioned es"
  shows "(\<exists>e. r = Inl e) \<and> idb s' = idb s \<or>
    (\<exists>v'. published (agID g) (idb s) v' (idb s') \<and> avID v' = avID v \<and> avSpecKey v' = avSpecKey v \<and> avSpecHash v' = avSpecHash v \<and> blobs (idb s') = blobs (idb s) \<and>
      (\<forall>x. r = Inr x \<longrightarrow> snd x = v') \<and>
      points_to (idb s') (agID g) (agSpecKey g) (agSpecHash g) \<and> replaced (idb s) g p new (filter (in_working_copy (agID g)) (api_endpoints (idb s'))))"
proof -
  let ?eps = "map (\<lambda>e. e\<lparr>aeCreatedByCommitHash := ppCommitHash p\<rparr>) (case new of Some es \<Rightarrow> es | None \<Rightarrow> [])"
  let ?old = "in_order (filter (in_working_copy (agID g)) (api_endpoints (idb s)))"
  let ?choose = "if new = None then ret ?eps else State_Monad.bind (ListAPIEndpoints (agID g) None) (\<lambda>existing.
       ret (case existing of Inl e \<Rightarrow> ?eps | Inr old \<Rightarrow> preserveEndpointSLAs old ?eps))"
  obtain es s1 where c: "run_state ?choose s = (es, s1)" and p1: "run_state (ibindE (PublishAPIGroupVersion \<lparr>piGroup = g, piReplaceEndpoints = (new \<noteq> None),
      piNewEndpoints = es, piVersion = v, piActorID = ppActorID p\<rparr>) (\<lambda>v'. ret (Inr (g\<lparr>agVersion := the (avLabel v')\<rparr>, v')))) s1 = (r, s')"
    using assms(1) unfolding snapshot_def Let_def by (rule run_bind_cases)
  have keep: "keeps (on_idb I) ?choose" for I by (intro hoare_if keeps_return keeps_bind reads_keep)
  have idb1: "idb s1 = idb s" by (rule run_read_idb [OF keep c])
  have es: "es = ?eps \<or> new \<noteq> None \<and> es = preserveEndpointSLAs ?old ?eps"
  proof (cases "new = None")
    case False
    then have "run_state (State_Monad.bind (ListAPIEndpoints (agID g) None) (\<lambda>existing.
       ret (case existing of Inl e \<Rightarrow> ?eps | Inr old \<Rightarrow> preserveEndpointSLAs old ?eps))) s = (es, s1)" using c by (simp only: if_False)
    then obtain x s2 where x: "run_state (ListAPIEndpoints (agID g) None) s = (x, s2)" and "es = (case x of Inl e \<Rightarrow> ?eps | Inr old \<Rightarrow> preserveEndpointSLAs old ?eps)"
      by (cases rule: run_bind_cases) auto
    then show ?thesis using False run_ListAPIEndpoints [of "agID g" s _ s2] by (cases x) auto
  qed (use c in simp)
  let ?inp = "\<lparr>piGroup = g, piReplaceEndpoints = (new \<noteq> None), piNewEndpoints = es, piVersion = v, piActorID = ppActorID p\<rparr>"
  have "unversioned ?eps" using assms(5) by (auto simp: unversioned_def split: option.splits)
  then have "unversioned es" using es by (auto simp: preserve_fields)
  then have inp: "input_ok ?inp" using assms(3,4) by (simp add: input_ok_def unversioned_def)
  obtain r1 where pub: "run_state (PublishAPIGroupVersion ?inp) s1 = (r1, s')" and r: "\<And>e. r1 = Inl e \<Longrightarrow> r = Inl e" "\<And>v'. r1 = Inr v' \<Longrightarrow> snd (projr r) = v' \<and> (\<exists>x. r = Inr x)"
    using p1 by (cases rule: run_ibindE_cases) auto
  from pub show ?thesis unfolding PublishAPIGroupVersion_def
  proof (cases rule: run_txn_cases)
    case same
    then show ?thesis using r(1) idb1 by (cases r1) auto
  next
    case (step v' d i)
    then have rows: "publish_rows (clock (base s1)) (db (base s1)) ?inp (idb s) = Inr (v', idb s')" using idb1 by (auto split: sum.splits prod.splits)
    note eff = publish_rows_effect [OF assms(2) rows inp]
    have "published (agID g) (idb s) v' (idb s')" using eff(1,2,6,7,8,13) by (simp add: published_def)
    moreover have "replaced (idb s) g p new (filter (in_working_copy (agID g)) (api_endpoints (idb s')))"
      using eff(10,11) es by (cases new) (auto simp: replaced_def carried_def Let_def)
    moreover have "points_to (idb s') (agID g) (agSpecKey g) (agSpecHash g)" using eff(12) by (simp add: points_to_def)
    moreover have "\<forall>x. r = Inr x \<longrightarrow> snd x = v'" using r step(4) by (cases r1) auto
    ultimately show ?thesis using eff(3,4,5,9) by auto
  qed
qed

lemma replaced_cong:
  assumes "same_tables i j" and "agID g' = agID g"
  shows "replaced j g' p new rows = replaced i g p new rows"
  using assms(2) unfolding replaced_def carried_def by (simp only: same_tablesD [OF assms(1)])

text \<open>The endpoints that replace the working copy: those that are given, else those of the given specification, else none.\<close>

definition replacement :: "spec_parsers \<Rightarrow> apiGroup \<Rightarrow> publishParams \<Rightarrow> apiEndpoint list option \<Rightarrow> bool" where
  "replacement ps g p new \<longleftrightarrow>
     (case ppEndpoints p of
        Some es \<Rightarrow> new = Some es
      | None \<Rightarrow> if ppSpec p = [] then new = None else
          (\<exists>es t ids. new = Some es \<and> parseSpecEndpointsForProtocol ps (ppSpec p) (agProtocol g)
             \<lparr>scGroupID = agID g, scServiceID = ppServiceID p, scOrgID = agOrgID g, scActorID = ppActorID p, scNow = t\<rparr> ids = Some (Inr es)))"

text \<open>
  The specification of a version: the given one, which becomes that of the working copy too, else a copy of the one that the working copy has.
\<close>

definition specified :: "apiGroup \<Rightarrow> publishParams \<Rightarrow> spec_db \<Rightarrow> apiGroupVersion \<Rightarrow> spec_db \<Rightarrow> bool" where
  "specified g p i v i' \<longleftrightarrow>
     (if ppSpec p \<noteq> [] then
        blobs i' (avSpecKey v) = Some (ppSpec p) \<and> avSpecHash v = specHash (ppSpec p) \<and>
        blobs i' (APIGroupSpecKey (agOrgID g) (ppServiceID p) (agID g)) = Some (ppSpec p) \<and>
        points_to i' (agID g) (Some (APIGroupSpecKey (agOrgID g) (ppServiceID p) (agID g))) (Some (specHash (ppSpec p)))
      else
        (\<exists>key c. agSpecKey g = Some key \<and> agSpecHash g = Some (avSpecHash v) \<and> blobs i key = Some c \<and> blobs i' (avSpecKey v) = Some c \<and>
           blobs i' key = Some c \<and> points_to i' (agID g) (Some key) (Some (avSpecHash v))))"

definition outcome :: "spec_parsers \<Rightarrow> apiGroup \<Rightarrow> publishParams \<Rightarrow> spec_db \<Rightarrow> (apiGroup \<times> apiGroupVersion) result \<Rightarrow> spec_db \<Rightarrow> bool" where
  "outcome ps g p i r i' \<longleftrightarrow> (\<exists>e. r = Inl e) \<and> same_tables i i' \<or>
     (\<exists>v new. published (agID g) i v i' \<and> specified g p i v i' \<and> (\<forall>x. r = Inr x \<longrightarrow> snd x = v) \<and>
        replacement ps g p new \<and> replaced i g p new (filter (in_working_copy (agID g)) (api_endpoints i')))"

lemma outcome_failed: "same_tables i i' \<Longrightarrow> outcome ps g p i (Inl e) i'"
  by (simp add: outcome_def)

text \<open>The transaction after the uploads.\<close>

lemma outcome_snapshot:
  assumes "run_state (snapshot g' p v new) s = (r, s')" and "spec_ok i" and "same_tables i (idb s)" and "agID g' = agID g" and "avAPIGroupID v = agID g"
    and "avVersionNumber v = 0" and "\<And>es. new = Some es \<Longrightarrow> unversioned es" and "replacement ps g p new"
    and "\<And>v' i'. avSpecKey v' = avSpecKey v \<Longrightarrow> avSpecHash v' = avSpecHash v \<Longrightarrow> blobs i' = blobs (idb s) \<Longrightarrow>
      points_to i' (agID g) (agSpecKey g') (agSpecHash g') \<Longrightarrow> specified g p i v' i'"
  shows "outcome ps g p i r (idb s')"
proof -
  have "spec_ok (idb s)" using assms(2) same_tablesD(5) [OF assms(3)] by simp
  from run_snapshot [OF assms(1) this _ assms(6) assms(7)] assms(4,5)
  consider e where "r = Inl e" "idb s' = idb s"
    | v' where "published (agID g) (idb s) v' (idb s')" "avSpecKey v' = avSpecKey v" "avSpecHash v' = avSpecHash v" "blobs (idb s') = blobs (idb s)"
      "\<forall>x. r = Inr x \<longrightarrow> snd x = v'" "points_to (idb s') (agID g) (agSpecKey g') (agSpecHash g')"
      "replaced (idb s) g' p new (filter (in_working_copy (agID g)) (api_endpoints (idb s')))"
    by auto
  then show ?thesis
  proof cases
    case 1
    then show ?thesis using assms(3) by (simp add: outcome_def)
  next
    case 2
    have "published (agID g) i v' (idb s')" using 2(1) published_cong [OF assms(3)] by blast
    moreover have "replaced i g p new (filter (in_working_copy (agID g)) (api_endpoints (idb s')))" using 2(7) replaced_cong [OF assms(3,4)] by blast
    ultimately show ?thesis using 2(5) assms(8) assms(9) [OF 2(2,3,4,6)] unfolding outcome_def by blast
  qed
qed

lemma parse_endpoints_parsed:
  assumes "run_state (parse_endpoints ps spec pr c) w = (Inr es, w')"
  shows "\<exists>ids. parseSpecEndpointsForProtocol ps spec pr c ids = Some (Inr es)"
  using assms by (auto simp: parse_endpoints_def with_uuids_def split: option.splits sum.splits)

lemma spec_keys_differ: "APIGroupSpecKey o1 sv g \<noteq> APIGroupVersionSpecKey o1 sv g v"
  by (simp add: APIGroupSpecKey_def APIGroupVersionSpecKey_def)

lemma outcome_spec:
  assumes "run_state (publish_spec ps g p t vKey v) s = (r, s')" and "spec_ok (idb s)" and "ppSpec p \<noteq> []" and "avAPIGroupID v = agID g" and "avVersionNumber v = 0"
    and new: "\<And>es. ppEndpoints p = Some es \<Longrightarrow> unversioned es" and key: "vKey \<noteq> APIGroupSpecKey (agOrgID g) (ppServiceID p) (agID g)"
  shows "outcome ps g p (idb s) r (idb s')"
  using assms(1) unfolding publish_spec_def Let_def
proof (cases rule: run_ibindE_cases)
  case (failed e)
  then show ?thesis using run_Upload(1) [OF failed(1)] by (simp add: outcome_failed)
next
  case (passed x s1)
  note up1 = run_Upload(1) [OF passed(1)] and blob1 = run_Upload(2) [OF passed(1) refl]
  from passed(2) show ?thesis
  proof (cases rule: run_ibindE_cases)
    case (failed e)
    then show ?thesis using same_tables_trans [OF up1 run_Upload(1) [OF failed(1)]] by (simp add: outcome_failed)
  next
    case (passed y s2)
    note up2 = same_tables_trans [OF up1 run_Upload(1) [OF passed(1)]] and blob = run_Upload(2) [OF passed(1) refl]
    from passed(2) show ?thesis
    proof (cases rule: run_ibindE_cases)
      case (failed e)
      have "idb s' = idb s2" using failed(1) by (auto split: option.splits dest: run_lift_idb)
      then show ?thesis using up2 failed(2) by (simp add: outcome_failed)
    next
      case (passed eps s3)
      have idb3: "idb s3 = idb s2" using passed(1) by (auto split: option.splits dest: run_lift_idb)
      have eps: "unversioned eps" using passed(1) new by (auto split: option.splits dest!: run_lift_idb dest: parse_endpoints_fields)
      have rep: "replacement ps g p (Some eps)"
        using passed(1) assms(3) by (auto simp: replacement_def split: option.splits dest!: run_lift_idb parse_endpoints_parsed)
      have blobs: "blobs (idb s3) = (blobs (idb s))(APIGroupSpecKey (agOrgID g) (ppServiceID p) (agID g) \<mapsto> ppSpec p, vKey \<mapsto> ppSpec p)"
        by (simp add: idb3 blob blob1)
      show ?thesis using passed(2)
        by (rule outcome_snapshot [where i = "idb s"]) (use assms(2-5) up2 idb3 eps rep blobs key in \<open>auto simp: specified_def\<close>)
    qed
  qed
qed

lemma run_Download_Inr:
  assumes "run_state (Download key) s = (Inr c, s')"
  shows "blobs (idb s) key = Some c"
  using assms unfolding Download_def iquery_def by (cases rule: run_txn_cases) (auto split: option.splits sum.splits)

lemma outcome_current:
  assumes "run_state (publish_current g p vKey v) s = (r, s')" and "spec_ok (idb s)" and "ppSpec p = []" and "avAPIGroupID v = agID g" and "avVersionNumber v = 0"
    and new: "\<And>es. ppEndpoints p = Some es \<Longrightarrow> unversioned es"
  shows "outcome ps g p (idb s) r (idb s')"
proof (cases "\<exists>key hash. agSpecKey g = Some key \<and> agSpecHash g = Some hash")
  case False
  then have "s' = s" "\<exists>e. r = Inl e" using assms(1) by (auto simp: publish_current_def split: option.splits)
  then show ?thesis by (auto intro: outcome_failed)
next
  case True
  then obtain key hash where k: "agSpecKey g = Some key" "agSpecHash g = Some hash" by blast
  from assms(1) have "run_state (ibindE (Download key) (\<lambda>content. ibindE (Upload vKey content) (\<lambda>_.
      snapshot g p (v\<lparr>avSpecKey := vKey, avSpecHash := hash\<rparr>) (ppEndpoints p)))) s = (r, s')" by (simp add: publish_current_def k)
  then show ?thesis
  proof (cases rule: run_ibindE_cases)
    case (failed e)
    then show ?thesis using run_read_idb [OF reads_keep(1) failed(1)] by (simp add: outcome_failed)
  next
    case (passed content s1)
    have idb1: "idb s1 = idb s" using run_read_idb [OF reads_keep(1) passed(1)] .
    have content: "blobs (idb s) key = Some content" by (rule run_Download_Inr [OF passed(1)])
    from passed(2) show ?thesis
    proof (cases rule: run_ibindE_cases)
      case (failed e)
      then show ?thesis using run_Upload(1) [OF failed(1)] idb1 by (simp add: outcome_failed)
    next
      case (passed y s2)
      have blobs: "blobs (idb s2) = (blobs (idb s))(vKey \<mapsto> content)" using run_Upload(2) [OF passed(1) refl] idb1 by simp
      have rep: "replacement ps g p (ppEndpoints p)" using assms(3) by (simp add: replacement_def split: option.splits)
      show ?thesis using passed(2)
        by (rule outcome_snapshot [where i = "idb s"])
          (use assms(2-5) new idb1 run_Upload(1) [OF passed(1)] rep blobs content k in \<open>auto simp: specified_def\<close>)
    qed
  qed
qed

lemma run_publish:
  assumes "run_state (publishAPIGroupVersion ps g p) s = (r, s')" and "spec_ok (idb s)" and "\<And>es. ppEndpoints p = Some es \<Longrightarrow> unversioned es"
  shows "outcome ps g p (idb s) r (idb s')"
proof -
  obtain t u s2 where s2: "idb s2 = idb s"
      and run: "run_state (if ppSpec p \<noteq> [] then publish_spec ps g p t (APIGroupVersionSpecKey (agOrgID g) (ppServiceID p) (agID g) u) (new_version g p t u)
        else publish_current g p (APIGroupVersionSpecKey (agOrgID g) (ppServiceID p) (agID g) u) (new_version g p t u)) s2 = (r, s')"
    using assms(1) unfolding publishAPIGroupVersion_def Let_def by (elim run_bind_cases) (auto dest!: run_lift_idb)
  have v: "avAPIGroupID (new_version g p t u) = agID g" "avVersionNumber (new_version g p t u) = 0" by (simp_all add: new_version_def)
  show ?thesis
  proof (cases "ppSpec p = []")
    case True
    with run have "run_state (publish_current g p (APIGroupVersionSpecKey (agOrgID g) (ppServiceID p) (agID g) u) (new_version g p t u)) s2 = (r, s')" by simp
    from outcome_current [OF this _ True v assms(3)] assms(2) show ?thesis by (simp add: s2)
  next
    case False
    with run have "run_state (publish_spec ps g p t (APIGroupVersionSpecKey (agOrgID g) (ppServiceID p) (agID g) u) (new_version g p t u)) s2 = (r, s')" by simp
    from outcome_spec [OF this _ False v assms(3) spec_keys_differ [symmetric]] assms(2) show ?thesis by (simp add: s2)
  qed
qed

end
