(* ===== verification/ApiGroupClaims.thy ===== *)
theory ApiGroupClaims
  imports ApiGroupPublish Examples
begin

text \<open>The properties of API groups, with an example: a group with one version and an endpoint in its working copy and in the version.\<close>

section \<open>An example\<close>

definition ex_group :: apiGroup where
  "ex_group = \<lparr>agID = ''p1'', agServiceID = ''s1'', agOrgID = ''g1'', agName = ''orders'', agVersion = ''v1'', agLabel = None, agProtocol = ''REST'',
     agSpecKey = Some ''k'', agSpecHash = Some ''h'', agCreatedBy = ''u1'', agUpdatedBy = None, agCreatedByCommitHash = None,
     agUpdatedByCommitHash = None, agCreatedAt = 1, agUpdatedAt = 1, agDeletedAt = None, agDeletedBy = None\<rparr>"

definition ex_version :: apiGroupVersion where
  "ex_version = \<lparr>avID = ''v1'', avAPIGroupID = ''p1'', avVersionNumber = 1, avLabel = Some ''v1'', avSpecKey = ''kv1'', avSpecHash = ''h'',
     avIsAutoVersion = True, avCreatedBy = ''u1'', avCreatedByCommitHash = None, avCreatedAt = 1\<rparr>"

definition ex_endpoint :: "string \<Rightarrow> string option \<Rightarrow> apiEndpoint" where
  "ex_endpoint ident v = APIEndpoint_zero\<lparr>aeID := ident, aeAPIGroupID := ''p1'', aeAPIGroupVersionID := v, aeServiceID := ''s1'', aeOrgID := ''g1'',
     aeOperationID := ''list'', aeMethod := ''GET'', aePath := ''/orders'', aeTags := Some [], aeParameters := ''[]'', aeRequestBody := ''{}'',
     aeResponses := ''{}'', aeExampleRequests := ''[]'', aeExampleResponses := ''[]'', aeCreatedBy := ''u1'', aeCreatedAt := 1, aeUpdatedAt := 1\<rparr>"

definition ex_spec_db :: spec_db where
  "ex_spec_db = \<lparr>blobs = [''k'' \<mapsto> ''{}'', ''kv1'' \<mapsto> ''{}''], api_groups = [ex_group], api_group_versions = [ex_version], api_endpoints = [ex_endpoint ''e1'' None, ex_endpoint ''e2'' (Some ''v1'')],
     service_ids = [''s1''], jsonb_of = Some, gen_uuid = (\<lambda>n. CHR ''x'' # replicate n CHR ''y''), gen_seq = 0\<rparr>"

definition ex_specs :: "spec_db side" where
  "ex_specs = \<lparr>base = ex_world, idb = ex_spec_db\<rparr>"

lemmas ex_spec_rows = ex_group_def ex_version_def ex_endpoint_def APIEndpoint_zero_def

lemma ex_specs_ok: "spec_ok (idb ex_specs)"
  by (auto simp: ex_specs_def ex_spec_db_def spec_ok_def groups_ok_def versions_ok_def endpoints_ok_def group_ids_def version_ids_def ex_spec_rows
      protocol_ok_def working_def working_key_def)

definition ex_parsers :: spec_parsers where
  "ex_parsers = \<lparr>spNumber = Some, spYaml = (\<lambda>_. None), spYamlNode = (\<lambda>_. Inl SyntaxError), spLoadSchema = (\<lambda>_. Inl SyntaxError),
     spParseProto = (\<lambda>_ _. Inl SyntaxError), spStack = 100\<rparr>"

definition ex_params :: "string \<Rightarrow> publishParams" where
  "ex_params spec = \<lparr>ppServiceID = ''s1'', ppSpec = spec, ppEndpoints = None, ppLabel = None, ppIsAuto = False, ppActorID = ''u1'', ppCommitHash = None\<rparr>"

definition ex_spec_request :: http_request where
  "ex_spec_request = ex_request\<lparr>pathValue := (\<lambda>k. if k = ''orgID'' then ''g1'' else if k = ''serviceID'' then ''s1'' else if k = ''apiGroupID'' then ''p1''
     else if k = ''versionID'' then ''v1'' else if k = ''endpointID'' then ''e2'' else []),
     ctxPrincipal := Some \<lparr>pKind = PrincipalUser, pUserID = ''u1'', pOrgID = [], pIsServerAdmin = False, pServiceAccountID = [], pScopes = [], pAuthProvider = []\<rparr>\<rparr>"

section \<open>Consistency\<close>

text \<open>C28. Whatever requests about API groups arrive, in whatever order and whatever statements fail, the tables stay consistent: keys are unique,
  references have their targets, every snapshot belongs to the group of its version, the working copy of a group has one endpoint for each
  method and path, and the versions of a group are numbered 1, 2, 3 and so on without gaps. No row of the table of versions is ever changed or
  removed. This holds of these rows only: the endpoints in a version can still be edited one by one (\<open>snapshot_can_be_edited\<close>).\<close>

theorem group_tables_consistent:
  assumes "spec_step\<^sup>*\<^sup>* s s'" and "spec_ok (idb s)"
  shows "spec_ok (idb s') \<and> prefix (api_group_versions (idb s)) (api_group_versions (idb s'))"
  using consistent.steps [OF assms] history.steps [OF assms(1), of "api_group_versions (idb s)"] by (simp add: extends_def)

lemma ex_step: "spec_step ex_specs (snd (run_state (GroupHandler_CreateAPIGroupVersion ex_parsers \<lparr>cvLabel = None, cvSpec = [], cvSpecAssetID = None\<rparr> ex_spec_request) ex_specs))"
  by (rule create_version) (rule prod.collapse [symmetric])

theorem group_tables_consistent_witness:
  "spec_ok (idb (snd (run_state (GroupHandler_CreateAPIGroupVersion ex_parsers \<lparr>cvLabel = None, cvSpec = [], cvSpecAssetID = None\<rparr> ex_spec_request) ex_specs)))"
  using group_tables_consistent [OF _ ex_specs_ok] ex_step by blast

section \<open>Publication\<close>

text \<open>C29. A publication happens in the tables as a whole or not at all, whatever statements and uploads fail. When it happens there is one new version of the
  group with the next number; the endpoints in it are those of the working copy afterwards, which are the given ones, or those parsed from the given
  specification, or as before when neither is given; the snapshots of all other versions are as before. The specification of the version
  is, byte for byte and with its hash, the given one, which the working copy holds too, or else a copy of the one that the working copy had and keeps.
  When it does not happen the tables are as before and the answer is an error. This says nothing of the object of the working copy in that case: it is
  written before the transaction (\<open>refused_spec_is_stored\<close>).\<close>

theorem publish_as_a_whole:
  assumes "run_state (publishAPIGroupVersion ps g p) s = (r, s')" and "spec_ok (idb s)" and "\<forall>es. ppEndpoints p = Some es \<longrightarrow> unversioned es"
  shows "(\<exists>e. r = Inl e) \<and> same_tables (idb s) (idb s') \<or>
    (\<exists>v new. published (agID g) (idb s) v (idb s') \<and> (\<forall>x. r = Inr x \<longrightarrow> snd x = v) \<and> specified g p (idb s) v (idb s') \<and>
      replacement ps g p new \<and> replaced (idb s) g p new (filter (in_working_copy (agID g)) (api_endpoints (idb s'))))"
  using run_publish [OF assms(1,2)] assms(3) unfolding outcome_def by blast

lemma ex_publish_ok: "\<exists>x. fst (run_state (publishAPIGroupVersion ex_parsers ex_group (ex_params [])) ex_specs) = Inr x"
  by (simp add: publishAPIGroupVersion_def publish_current_def snapshot_def PublishAPIGroupVersion_def ibindE_def lift_def Download_def Upload_def
      run_istmt_healthy run_iquery_healthy run_txn_healthy ex_specs_def ex_world_def ex_params_def ex_group_def ex_spec_db_def Let_def
      publish_rows_def replace_working_def in_step_def insert_version_def numbered_def new_version_def copy_endpoints_def snapshot_rows_def
      snapshot_row_def write_group_def protocol_ok_def ex_spec_rows in_working_copy_def latest_number_def live_group_def)

theorem publish_as_a_whole_witness:
  "\<exists>v. published ''p1'' ex_spec_db v (idb (snd (run_state (publishAPIGroupVersion ex_parsers ex_group (ex_params [])) ex_specs))) \<and>
    blobs (idb (snd (run_state (publishAPIGroupVersion ex_parsers ex_group (ex_params [])) ex_specs))) (avSpecKey v) = Some ''{}''"
proof -
  have "\<forall>es. ppEndpoints (ex_params []) = Some es \<longrightarrow> unversioned es" by (simp add: ex_params_def)
  from publish_as_a_whole [where ps = ex_parsers and g = ex_group and p = "ex_params []" and s = ex_specs, OF prod.collapse [symmetric] ex_specs_ok this] ex_publish_ok
  show ?thesis by (auto simp: ex_params_def ex_group_def ex_specs_def ex_spec_db_def specified_def)
qed

text \<open>C33. A specification that is refused still replaces the one of the working copy: the parser runs after the upload, so the answer is
  an error and the tables keep the hash of the old specification, but the object storage holds the refused text under the key of the working copy.\<close>

theorem refused_spec_is_stored:
  assumes "faults (base s) = []" and "ppSpec p \<noteq> []" and "ppEndpoints p = None"
    and "\<And>ids. parseSpecEndpointsForProtocol ps (ppSpec p) (agProtocol g) \<lparr>scGroupID = agID g, scServiceID = ppServiceID p, scOrgID = agOrgID g,
      scActorID = ppActorID p, scNow = clock (base s)\<rparr> ids = Some (Inl e)"
  shows "\<exists>s'. run_state (publishAPIGroupVersion ps g p) s = (Inl e, s') \<and> same_tables (idb s) (idb s') \<and>
    blobs (idb s') (APIGroupSpecKey (agOrgID g) (ppServiceID p) (agID g)) = Some (ppSpec p)"
  using assms
  by (auto simp: publishAPIGroupVersion_def publish_spec_def ibindE_def lift_def Upload_def run_istmt_healthy parse_endpoints_def with_uuids_def
      same_tables_def APIGroupSpecKey_def APIGroupVersionSpecKey_def Let_def split: prod.splits)

theorem refused_spec_is_stored_witness:
  "\<exists>s'. run_state (publishAPIGroupVersion ex_parsers ex_group (ex_params ''nonsense'')) ex_specs = (Inl (Errorf ''spec is not valid JSON or YAML'' []), s') \<and>
    blobs (idb s') ''g1/services/s1/api-groups/p1/spec'' = Some ''nonsense''"
proof -
  have "parseSpecEndpointsForProtocol ex_parsers ''nonsense'' ''REST'' c ids = Some (Inl (Errorf ''spec is not valid JSON or YAML'' []))" for c ids
  proof -
    have p: "normalizeProtocol ''REST'' = ''openapi''" by code_simp
    have u: "Unmarshal Some ''nonsense'' = None" by code_simp
    show ?thesis by (simp add: parseSpecEndpointsForProtocol_def p parseSpecEndpoints_def unmarshal_doc_def ex_parsers_def u)
  qed
  then show ?thesis
    using refused_spec_is_stored [of ex_specs "ex_params ''nonsense''" ex_parsers ex_group "Errorf ''spec is not valid JSON or YAML'' []"]
    by (auto simp: ex_specs_def ex_world_def ex_params_def ex_group_def APIGroupSpecKey_def)
qed

section \<open>Restoring\<close>

text \<open>
  The row of a restored endpoint: all that the snapshot says of the operation; the JSON columns are what PostgreSQL stores for those of the
  snapshot. A service level of the working copy, which people set by hand, takes precedence over that of the snapshot.
\<close>

definition brought_back :: "spec_db \<Rightarrow> apiEndpoint list \<Rightarrow> apiEndpoint \<Rightarrow> apiEndpoint \<Rightarrow> bool" where
  "brought_back i old e row \<longleftrightarrow>
     aeServiceID row = aeServiceID e \<and> aeOrgID row = aeOrgID e \<and> aeOperationID row = aeOperationID e \<and> aeMethod row = aeMethod e \<and> aePath row = aePath e \<and>
     aeSummary row = aeSummary e \<and> aeDescription row = aeDescription e \<and> aeTokenCount row = aeTokenCount e \<and> aeOrder row = aeOrder e \<and>
     aeTags row = Some (case aeTags e of Some tags \<Rightarrow> tags | None \<Rightarrow> []) \<and>
     json_column i ''[]'' (aeParameters e) = Some (aeParameters row) \<and> json_column i ''{}'' (aeRequestBody e) = Some (aeRequestBody row) \<and>
     json_column i ''{}'' (aeResponses e) = Some (aeResponses row) \<and> json_column i ''[]'' (aeExampleRequests e) = Some (aeExampleRequests row) \<and>
     json_column i ''[]'' (aeExampleResponses e) = Some (aeExampleResponses row) \<and>
     (aeSLA row = aeSLA e \<or> aeSLA row \<noteq> None \<and> (\<exists>q\<in>set old. endpointSLAKey q = endpointSLAKey e \<and> aeSLA row = aeSLA q))"

lemma brought_back_row:
  assumes "endpoint_row i e = Some row"
  shows "brought_back i old e row"
  using assms by (auto simp: endpoint_row_def brought_back_def split: option.splits)

text \<open>The fields that a restore and the stamp of a publication change are not among them.\<close>

lemma brought_back_restored [simp]: "brought_back i old (restored t u ident e) row = brought_back i old e row"
  by (simp add: brought_back_def restored_def endpointSLAKey_def)

lemma brought_back_stamped [simp]: "brought_back i old (e\<lparr>aeCreatedByCommitHash := h\<rparr>) = brought_back i old e"
  by (rule ext) (simp add: brought_back_def endpointSLAKey_def)

lemma brought_back_preserved:
  assumes "brought_back i [] (e\<lparr>aeSLA := Some sla\<rparr>) row" and "q \<in> set old" and "endpointSLAKey q = endpointSLAKey e" and "aeSLA q = Some sla"
  shows "brought_back i old e row"
proof -
  have "aeSLA row = Some sla" using assms(1) by (simp add: brought_back_def)
  then have "\<exists>q\<in>set old. endpointSLAKey q = endpointSLAKey e \<and> aeSLA row = aeSLA q" using assms(2-4) by auto
  then show ?thesis using assms(1) \<open>aeSLA row = Some sla\<close> by (simp add: brought_back_def)
qed

lemma brought_back_preserve:
  assumes "list_all2 (brought_back i []) (preserveEndpointSLAs old es) rows"
  shows "list_all2 (brought_back i old) es rows"
proof -
  let ?pairs = "rev (concat (map (\<lambda>e. case aeSLA e of Some sla \<Rightarrow> [(endpointSLAKey e, sla)] | None \<Rightarrow> []) old))"
  have from_old: "\<exists>q\<in>set old. endpointSLAKey q = k \<and> aeSLA q = Some sla" if "map_of ?pairs k = Some sla" for k sla
    using map_of_SomeD [OF that] by (auto split: option.splits)
  have row: "brought_back i old e r" if "brought_back i [] (case map_of ?pairs (endpointSLAKey e) of Some sla \<Rightarrow> e\<lparr>aeSLA := Some sla\<rparr> | None \<Rightarrow> e) r" for e r
  proof (cases "map_of ?pairs (endpointSLAKey e)")
    case None
    then show ?thesis using that by (auto simp: brought_back_def)
  next
    case (Some sla)
    then show ?thesis using that from_old [OF Some] brought_back_preserved by auto
  qed
  show ?thesis using assms unfolding preserveEndpointSLAs_def Let_def list.rel_map by (rule list_all2_mono) (rule row)
qed

lemma brought_back_weaken: "list_all2 (brought_back i []) es rows \<Longrightarrow> list_all2 (brought_back i old) es rows"
  by (erule list_all2_mono) (auto simp: brought_back_def)

lemma brought_back_rows: "map Some rows = map (endpoint_row i) es \<Longrightarrow> list_all2 (brought_back i old) es rows"
  by (auto simp: list_all2_conv_all_nth list_eq_iff_nth_eq intro: brought_back_row)

lemma brought_back_carried:
  assumes "carried i g p es rows" and "\<forall>e\<in>set es. aeAPIGroupID e = agID g"
  shows "list_all2 (brought_back i (filter (in_working_copy (agID g)) (api_endpoints i))) es rows"
proof -
  let ?stamped = "map (\<lambda>e. e\<lparr>aeCreatedByCommitHash := ppCommitHash p\<rparr>) es" and ?old = "filter (in_working_copy (agID g)) (api_endpoints i)"
  obtain new where new: "new = ?stamped \<or> new = preserveEndpointSLAs (in_order ?old) ?stamped"
      and rows: "map Some rows = map (endpoint_row i) (filter (\<lambda>e. aeAPIGroupID e = agID g) new)"
    using assms(1) by (auto simp: carried_def Let_def)
  have "\<forall>e\<in>set ?stamped. aeAPIGroupID e = agID g" using assms(2) by simp
  then have "\<forall>e\<in>set new. aeAPIGroupID e = agID g" using new preserve_fields(2) by blast
  then have "filter (\<lambda>e. aeAPIGroupID e = agID g) new = new" by simp
  then have "list_all2 (brought_back i []) new rows" using brought_back_rows rows by simp
  then have "list_all2 (brought_back i (in_order ?old)) ?stamped rows" using new brought_back_preserve brought_back_weaken by blast
  then have "list_all2 (brought_back i (in_order ?old)) es rows" by (simp add: list.rel_map)
  then show ?thesis by (rule list_all2_mono) (simp add: brought_back_def in_order_def)
qed

lemma run_ion_err_ok:
  assumes "run_state (ion_err m k) s = (a, s')" and "ok_status a"
  obtains x s1 where "run_state m s = (Inr x, s1)" and "run_state (k x) s1 = (a, s')"
  using assms by (auto simp: ion_err_def ok_status_def split: prod.splits sum.splits)

lemma restore_all_rows:
  assumes "run_state (restore_all t u es) w = (out, w')"
  shows "list_all2 (brought_back i old) out rows = list_all2 (brought_back i old) es rows"
    "(\<forall>e\<in>set es. aeAPIGroupID e = g) \<Longrightarrow> \<forall>e\<in>set out. aeAPIGroupID e = g"
proof -
  have out: "out = map (\<lambda>(k, e). restored t u (uuids w (uuid_draws w + k)) e) (enumerate 0 es)" using assms by (auto simp: restore_all_def with_uuids_def)
  have "list_all2 (brought_back i old) (map (\<lambda>(k, e). restored t u (f k) e) (enumerate n es)) rows = list_all2 (brought_back i old) es rows" for f n
    by (induction es arbitrary: n rows) (auto simp: list_all2_Cons1)
  then show "list_all2 (brought_back i old) out rows = list_all2 (brought_back i old) es rows" unfolding out .
  show "\<forall>e\<in>set out. aeAPIGroupID e = g" if "\<forall>e\<in>set es. aeAPIGroupID e = g"
    using that by (auto simp: out restored_def in_set_enumerate_eq)
qed

lemma run_live_ok:
  assumes "run_state (live go k) s = (a, s')" and "ok_status a"
  obtains g where "go = Some g" and "run_state (k g) s = (a, s')"
  using assms by (auto simp: live_def split: option.splits if_splits)

lemma run_ListAPIEndpointsForVersion:
  assumes "run_state (ListAPIEndpointsForVersion g v None) s = (Inr es, s')"
  shows "es = in_order (filter (in_version g v) (api_endpoints (idb s)))"
  using run_iquery_Inr [OF assms [unfolded ListAPIEndpointsForVersion_def]] by simp

text \<open>The specification of the restored version is that of the new one and of the working copy.\<close>

definition restored_spec :: "apiGroup \<Rightarrow> string \<Rightarrow> string \<Rightarrow> apiGroupVersion \<Rightarrow> spec_db \<Rightarrow> bool" where
  "restored_spec g serviceID c v i \<longleftrightarrow>
     blobs i (avSpecKey v) = Some c \<and> avSpecHash v = specHash c \<and> blobs i (APIGroupSpecKey (agOrgID g) serviceID (agID g)) = Some c \<and>
     points_to i (agID g) (Some (APIGroupSpecKey (agOrgID g) serviceID (agID g))) (Some (specHash c))"

lemma specified_restored:
  "specified (g\<lparr>agUpdatedBy := u, agUpdatedByCommitHash := None\<rparr>) (restore_params r p spec es) i v i' \<Longrightarrow> spec \<noteq> [] \<Longrightarrow>
    restored_spec g (pathValue r ''serviceID'') spec v i'"
  by (simp add: specified_def restored_spec_def restore_params_def)

lemma restore_version_run:
  assumes "run_state (restore_version ps r p g (Some v)) s = (a, s')" and "avAPIGroupID v = agID g" and "ok_status a" and "spec_ok (idb s)"
  shows "\<exists>v' c. list_all2 (brought_back (idb s) (filter (in_working_copy (agID g)) (api_endpoints (idb s))))
      (in_order (filter (in_version (agID g) (avID v)) (api_endpoints (idb s)))) (filter (in_working_copy (agID g)) (api_endpoints (idb s'))) \<and>
    published (agID g) (idb s) v' (idb s') \<and> blobs (idb s) (avSpecKey v) = Some c \<and> (c \<noteq> [] \<longrightarrow> restored_spec g (pathValue r ''serviceID'') c v' (idb s'))"
proof -
  from assms(1,2) have "run_state (ion_err (Download (avSpecKey v)) (\<lambda>specContent. ion_err (ListAPIEndpointsForVersion (agID g) (avID v) None) (\<lambda>rows.
      State_Monad.bind (lift now) (\<lambda>t. State_Monad.bind (lift (restore_all t (pUserID p) rows)) (\<lambda>working.
        ion_err (publishAPIGroupVersion ps (g\<lparr>agUpdatedBy := Some (pUserID p), agUpdatedByCommitHash := None\<rparr>) (restore_params r p specContent working))
          (\<lambda>(g', v'). ret (JSON 200 (group_json g')))))))) s = (a, s')" by (simp add: restore_version_def)
  then obtain spec s1 where d: "run_state (Download (avSpecKey v)) s = (Inr spec, s1)"
      and run1: "run_state (ion_err (ListAPIEndpointsForVersion (agID g) (avID v) None) (\<lambda>rows.
      State_Monad.bind (lift now) (\<lambda>t. State_Monad.bind (lift (restore_all t (pUserID p) rows)) (\<lambda>working.
        ion_err (publishAPIGroupVersion ps (g\<lparr>agUpdatedBy := Some (pUserID p), agUpdatedByCommitHash := None\<rparr>) (restore_params r p spec working))
          (\<lambda>(g', v'). ret (JSON 200 (group_json g'))))))) s1 = (a, s')"
    using assms(3) by (rule run_ion_err_ok)
  obtain rows s2 where l: "run_state (ListAPIEndpointsForVersion (agID g) (avID v) None) s1 = (Inr rows, s2)"
      and run2: "run_state (State_Monad.bind (lift now) (\<lambda>t. State_Monad.bind (lift (restore_all t (pUserID p) rows)) (\<lambda>working.
        ion_err (publishAPIGroupVersion ps (g\<lparr>agUpdatedBy := Some (pUserID p), agUpdatedByCommitHash := None\<rparr>) (restore_params r p spec working))
          (\<lambda>(g', v'). ret (JSON 200 (group_json g')))))) s2 = (a, s')"
    using run1 assms(3) by (rule run_ion_err_ok)
  obtain t s3 working s4 where t: "run_state (lift now) s2 = (t, s3)" and w: "run_state (lift (restore_all t (pUserID p) rows)) s3 = (working, s4)"
      and run3: "run_state (ion_err (publishAPIGroupVersion ps (g\<lparr>agUpdatedBy := Some (pUserID p), agUpdatedByCommitHash := None\<rparr>) (restore_params r p spec working))
          (\<lambda>(g', v'). ret (JSON 200 (group_json g')))) s4 = (a, s')"
    using run2 by (elim run_bind_cases)
  obtain x s5 where pub: "run_state (publishAPIGroupVersion ps (g\<lparr>agUpdatedBy := Some (pUserID p), agUpdatedByCommitHash := None\<rparr>) (restore_params r p spec working)) s4 = (Inr x, s5)"
      and s5: "run_state (case x of (g', v') \<Rightarrow> ret (JSON 200 (group_json g'))) s5 = (a, s')"
    using run3 assms(3) by (rule run_ion_err_ok)
  have idbs: "idb s1 = idb s" "idb s2 = idb s" "idb s3 = idb s" "idb s4 = idb s"
    using run_read_idb [OF reads_keep(1) d] run_read_idb [OF reads_keep(8) l] run_lift_idb [OF t] run_lift_idb [OF w] by simp_all
  have rows: "rows = in_order (filter (in_version (agID g) (avID v)) (api_endpoints (idb s)))" using run_ListAPIEndpointsForVersion [OF l] idbs by simp
  have wr: "run_state (restore_all t (pUserID p) rows) (base s3) = (working, base s4)" using run_lift_idb [OF w] by simp
  have "\<forall>e\<in>set rows. aeAPIGroupID e = agID g" by (auto simp: rows in_order_def in_version_def)
  then have ops: "\<forall>e\<in>set working. aeAPIGroupID e = agID g" "unversioned working"
    using restore_all_rows(2) [OF wr] restore_all_fields(1) [OF wr] by auto
  have "outcome ps (g\<lparr>agUpdatedBy := Some (pUserID p), agUpdatedByCommitHash := None\<rparr>) (restore_params r p spec working) (idb s4) (Inr x) (idb s5)"
    using run_publish [OF pub] assms(4) idbs(4) ops(2) by (simp add: restore_params_def)
  then obtain v' new where "published (agID g) (idb s) v' (idb s5)"
      and out: "specified (g\<lparr>agUpdatedBy := Some (pUserID p), agUpdatedByCommitHash := None\<rparr>) (restore_params r p spec working) (idb s) v' (idb s5)"
        "replacement ps (g\<lparr>agUpdatedBy := Some (pUserID p), agUpdatedByCommitHash := None\<rparr>) (restore_params r p spec working) new"
        "replaced (idb s) (g\<lparr>agUpdatedBy := Some (pUserID p), agUpdatedByCommitHash := None\<rparr>) (restore_params r p spec working) new
          (filter (in_working_copy (agID g)) (api_endpoints (idb s5)))"
    unfolding outcome_def idbs(4) by auto
  moreover have "new = Some working" using out(2) by (simp add: replacement_def restore_params_def)
  then have c: "carried (idb s) (g\<lparr>agUpdatedBy := Some (pUserID p), agUpdatedByCommitHash := None\<rparr>) (restore_params r p spec working) working
        (filter (in_working_copy (agID g)) (api_endpoints (idb s5)))" using out(3) by (simp add: replaced_def)
  moreover have "spec \<noteq> [] \<longrightarrow> restored_spec g (pathValue r ''serviceID'') spec v' (idb s5)" using specified_restored [OF out(1)] by blast
  moreover have "s' = s5" using s5 by (cases x) simp
  ultimately show ?thesis
    using brought_back_carried [OF c] ops(1) restore_all_rows(1) [OF wr] rows run_Download_Inr [OF d] by auto
qed


lemma ex_restore_ok:
  "ok_status (fst (run_state (GroupHandler_RestoreAPIGroupVersion ex_parsers ex_spec_request) ex_specs))"
  by (simp add: GroupHandler_RestoreAPIGroupVersion_def with_principal_def ion_err_def live_def restore_version_def restore_params_def restore_all_def
      with_uuids_def restored_def publishAPIGroupVersion_def publish_spec_def publish_current_def snapshot_def PublishAPIGroupVersion_def ibindE_def lift_def Download_def Upload_def
      GetAPIGroup_def GetAPIGroupVersion_def ListAPIEndpointsForVersion_def ListAPIEndpoints_def iwrap_def in_order_def
      run_istmt_healthy run_iquery_healthy run_txn_healthy ex_specs_def ex_world_def ex_spec_request_def ex_request_def ex_spec_db_def Let_def
      publish_rows_def replace_working_def in_step_def insert_version_def numbered_def new_version_def copy_endpoints_def snapshot_rows_def clear_working_def
      insert_endpoint_def endpoint_row_def json_column_def working_twin_def preserveEndpointSLAs_def endpointSLAKey_def ex_db_def ex_rows empty_database_def
      snapshot_row_def write_group_def protocol_ok_def ex_spec_rows in_working_copy_def in_version_def latest_number_def live_group_def)


section \<open>Snapshots are not protected\<close>

text \<open>C34. An endpoint of a published version can be edited: the handler of updates looks an endpoint up by its identifier alone, so a request with the
  identifier of a snapshot changes the version, which is documented as immutable.\<close>

theorem snapshot_can_be_edited:
  assumes "spec_ok (idb s)" and "faults (base s) = []" and "ctxPrincipal r = Some p"
    and "e \<in> set (api_endpoints (idb s))" and "aeDeletedAt e = None" and "aeAPIGroupVersionID e = Some v" and "pathValue r ''endpointID'' = aeID e"
    and "\<forall>raw\<in>{aeParameters e, aeRequestBody e, aeResponses e, aeExampleRequests e, aeExampleResponses e}. jsonb_of (idb s) raw \<noteq> None"
  shows "\<exists>a s' e'. run_state (GroupHandler_UpdateAPIEndpoint (Some \<lparr>ueOperationID = None, ueMethod = None, uePath = None, ueSummary = Some txt,
      ueDescription = None, ueTags = None, ueParameters = [], ueRequestBody = [], ueResponses = [], ueExampleRequests = [], ueExampleResponses = [],
      ueOrder = None, ueSLA = None\<rparr>) r) s = (a, s') \<and> rStatus a = 200 \<and> e' \<in> set (api_endpoints (idb s')) \<and> in_version (aeAPIGroupID e) v e' \<and>
      aeID e' = aeID e \<and> aeSummary e' = txt"
proof -
  let ?b = "\<lparr>ueOperationID = None, ueMethod = None, uePath = None, ueSummary = Some txt,
      ueDescription = None, ueTags = None, ueParameters = [], ueRequestBody = [], ueResponses = [], ueExampleRequests = [], ueExampleResponses = [],
      ueOrder = None, ueSLA = None\<rparr>"
  let ?e = "edited_endpoint ?b (pUserID p) e"
  have dist: "distinct (map aeID (api_endpoints (idb s)))" using assms(1) by (simp add: spec_ok_def endpoints_ok_def)
  then have find: "List.find (\<lambda>x. aeID x = aeID e) (api_endpoints (idb s)) = Some e" using assms(4) by (simp add: find_Some_iff_key)
  have id: "aeID ?e = aeID e" by (simp add: edited_endpoint_def)
  have live: "List.find (live_endpoint (aeID e)) (api_endpoints (idb s)) = Some e"
  proof -
    have "live_endpoint (aeID e) x \<longleftrightarrow> aeID x = aeID e" if "x \<in> set (api_endpoints (idb s))" for x
      using that assms(4,5) dist by (auto simp: live_endpoint_def distinct_map inj_on_def)
    then have "List.find (live_endpoint (aeID e)) (api_endpoints (idb s)) = List.find (\<lambda>x. aeID x = aeID e) (api_endpoints (idb s))"
      by (intro find_cong) auto
    then show ?thesis using find by simp
  qed
  obtain row where row: "write_endpoint (clock (base s)) (idb s) ?e e = Some row"
    using assms(8) by (auto simp: write_endpoint_def edited_endpoint_def given_raw_def split: option.splits)
  note f = write_endpoint_fields [OF row]
  have "\<not> exists_row (\<lambda>q. aeID q \<noteq> aeID row \<and> working_twin row q) (api_endpoints (idb s))"
    using f(3) assms(6) by (simp add: working_twin_def in_working_copy_def)
  then have upd: "run_state (UpdateAPIEndpoint ?e) s = (Inr (), s\<lparr>idb := (idb s)\<lparr>api_endpoints := update_where (live_endpoint (aeID e)) (\<lambda>_. row) (api_endpoints (idb s))\<rparr>\<rparr>)"
    using live row assms(2) by (simp add: UpdateAPIEndpoint_def iwrap_def run_istmt_healthy id)
  have run: "run_state (GroupHandler_UpdateAPIEndpoint (Some ?b) r) s =
      (JSON 200 (endpoint_json ?e), s\<lparr>idb := (idb s)\<lparr>api_endpoints := update_where (live_endpoint (aeID e)) (\<lambda>_. row) (api_endpoints (idb s))\<rparr>\<rparr>)"
    using assms(2,3,5,7) find upd
    by (simp add: GroupHandler_UpdateAPIEndpoint_def with_principal_def ion_err_def GetAPIEndpoint_def iwrap_def run_iquery_healthy live_row_def Let_def)
  have "row \<in> set (update_where (live_endpoint (aeID e)) (\<lambda>_. row) (api_endpoints (idb s)))"
    using assms(4,5) by (auto simp: set_update_where live_endpoint_def)
  moreover have "in_version (aeAPIGroupID e) v row" "aeID row = aeID e" "aeSummary row = txt"
    using f assms(5,6) by (simp_all add: in_version_def edited_endpoint_def given_def)
  ultimately show ?thesis using run by (intro exI [of _ "JSON 200 (endpoint_json ?e)"] exI conjI) auto
qed

theorem snapshot_can_be_edited_witness:
  "\<exists>a s' e'. run_state (GroupHandler_UpdateAPIEndpoint (Some \<lparr>ueOperationID = None, ueMethod = None, uePath = None, ueSummary = Some ''forged'',
      ueDescription = None, ueTags = None, ueParameters = [], ueRequestBody = [], ueResponses = [], ueExampleRequests = [], ueExampleResponses = [],
      ueOrder = None, ueSLA = None\<rparr>) ex_spec_request) ex_specs = (a, s') \<and> rStatus a = 200 \<and> e' \<in> set (api_endpoints (idb s')) \<and>
      in_version ''p1'' ''v1'' e' \<and> aeID e' = ''e2'' \<and> aeSummary e' = ''forged''"
proof -
  have e: "ex_endpoint ''e2'' (Some ''v1'') \<in> set (api_endpoints (idb ex_specs))" by (simp add: ex_specs_def ex_spec_db_def)
  have s: "faults (base ex_specs) = []" "jsonb_of (idb ex_specs) = Some" by (simp_all add: ex_specs_def ex_world_def ex_spec_db_def)
  have r: "ctxPrincipal ex_spec_request = Some (the (ctxPrincipal ex_spec_request))" "pathValue ex_spec_request ''endpointID'' = aeID (ex_endpoint ''e2'' (Some ''v1''))"
    by (simp_all add: ex_spec_request_def ex_endpoint_def)
  have f: "aeDeletedAt (ex_endpoint ''e2'' (Some ''v1'')) = None" "aeAPIGroupVersionID (ex_endpoint ''e2'' (Some ''v1'')) = Some ''v1''"
      "aeAPIGroupID (ex_endpoint ''e2'' (Some ''v1'')) = ''p1''" "aeID (ex_endpoint ''e2'' (Some ''v1'')) = ''e2''" by (simp_all add: ex_endpoint_def APIEndpoint_zero_def)
  show ?thesis using snapshot_can_be_edited [OF ex_specs_ok s(1) r(1) e f(1,2) r(2), of "''forged''"] unfolding f(3,4) s(2) by simp
qed

end
