(* ===== verification/EndpointClaims.thy ===== *)
theory EndpointClaims
  imports ApiEndpoints GraphqlExamples
begin

text \<open>
  What the endpoints of a description say: the example request of a GraphQL endpoint can be read back from its stored JSON, and a
  service level that was set by hand survives the next import of the description.
\<close>

section \<open>GraphQL endpoints\<close>

lemma Valid_marshal_empty: "Valid (marshal (VObj []))"
  using Unmarshal_marshal [of Some "VObj []"] by (simp add: Valid_def Unmarshal_def maxNestingDepth_def)

lemma Valid_or_empty [simp]: "Valid (or_empty_object raw)"
  by (simp add: or_empty_object_def Valid_marshal_empty del: marshal.simps)

lemma nth_enumerate_map: "k < length xs \<Longrightarrow> map (\<lambda>(i, x). f i x) (enumerate 0 xs) ! k = f k (xs ! k)"
  by (simp add: nth_enumerate_eq)

lemma query_read_back:
  assumes "body = marshal (VObj [(''query'', VStr q)])"
  shows "Unmarshal num body = Some (VObj [(''query'', VStr q)])" and "Unmarshal num (seedExampleSamplesJSON num body) = Some (VArr [VObj [(''query'', VStr q)]])"
proof -
  let ?v = "VObj [(''query'', VStr q)]"
  have re: "reread num ?v = ?v" by (simp add: sorted_entries_def put_all_def)
  show body: "Unmarshal num body = Some ?v" using Unmarshal_marshal [of num ?v] re by (simp add: assms maxNestingDepth_def)
  have "4 < length body" by (simp add: assms sorted_entries_def json_string_def escape_char_def)
  then have "body \<noteq> ''{}''" "body \<noteq> ''null''" "body \<noteq> ''[]''" "body \<noteq> []" by auto
  then have "seedExampleSamplesJSON num body = marshal (VArr [?v])" using body by (simp add: seedExampleSamplesJSON_def)
  moreover have "reread num (VArr [?v]) = VArr [?v]" using re by simp
  moreover have "Unmarshal num (marshal (VArr [?v])) = Some (reread num (VArr [?v]))" by (rule Unmarshal_marshal) (simp_all add: maxNestingDepth_def)
  ultimately show "Unmarshal num (seedExampleSamplesJSON num body) = Some (VArr [?v])" by simp
qed

text \<open>C32. The endpoints of a GraphQL schema are its operations, in their order: the stored request body of each is JSON that reads back as an object with the
  example request under \<open>query\<close>, the stored samples read back as the list of it, and its responses and parameters are valid JSON.\<close>

theorem graphql_endpoints_read_back:
  assumes "ParseGraphQL (spLoadSchema ps) spec = Inr ops"
  shows "\<exists>es. parseGraphQLSpecEndpoints ps spec c ids = Inr es \<and> length es = length ops \<and>
    (\<forall>k<length ops. aeOperationID (es ! k) = poOperationID (ops ! k) \<and> aeMethod (es ! k) = poKind (ops ! k) \<and> aeOrder (es ! k) = float64 k \<and>
      Unmarshal (spNumber ps) (aeRequestBody (es ! k)) = Some (VObj [(''query'', VStr (poRequestExample (ops ! k)))]) \<and>
      Unmarshal (spNumber ps) (aeExampleRequests (es ! k)) = Some (VArr [VObj [(''query'', VStr (poRequestExample (ops ! k)))]]) \<and>
      Valid (aeResponses (es ! k)) \<and> Valid (aeParameters (es ! k)))"
proof -
  let ?es = "map (\<lambda>(i, op). graphql_endpoint ps c ids i op) (enumerate 0 ops)"
  have "parseGraphQLSpecEndpoints ps spec c ids = Inr ?es" using assms by (simp add: parseGraphQLSpecEndpoints_def)
  moreover have "?es ! k = graphql_endpoint ps c ids k (ops ! k)" if "k < length ops" for k using that by (rule nth_enumerate_map)
  moreover have "aeOperationID (graphql_endpoint ps c ids k op) = poOperationID op" "aeMethod (graphql_endpoint ps c ids k op) = poKind op"
      "aeOrder (graphql_endpoint ps c ids k op) = float64 k" "aeRequestBody (graphql_endpoint ps c ids k op) = marshal (VObj [(''query'', VStr (poRequestExample op))])"
      "aeExampleRequests (graphql_endpoint ps c ids k op) = seedExampleSamplesJSON (spNumber ps) (marshal (VObj [(''query'', VStr (poRequestExample op))]))"
      "Valid (aeResponses (graphql_endpoint ps c ids k op))" "Valid (aeParameters (graphql_endpoint ps c ids k op))" for k op
    by (simp_all add: graphql_endpoint_def new_endpoint_def Let_def del: marshal.simps)
  ultimately show ?thesis using query_read_back [OF refl, of "spNumber ps"] by (intro exI [of _ ?es]) (simp del: marshal.simps)
qed

definition ex_graphql_parsers :: spec_parsers where
  "ex_graphql_parsers = \<lparr>spNumber = Some, spYaml = (\<lambda>_. None), spYamlNode = (\<lambda>_. Inl SyntaxError), spLoadSchema = ex_load,
     spParseProto = (\<lambda>_ _. Inl SyntaxError), spStack = 100\<rparr>"

definition ex_context :: spec_context where
  "ex_context = \<lparr>scGroupID = ''p1'', scServiceID = ''s1'', scOrgID = ''g1'', scActorID = ''u1'', scNow = 1000\<rparr>"

lemma ex_graphql_ops: "\<exists>ops. ParseGraphQL ex_load ''s'' = Inr ops"
  by (simp add: ParseGraphQL_def ParseGraphQLSchemas_def ex_load_def)

theorem graphql_endpoints_read_back_witness:
  "\<exists>ops es. ParseGraphQL ex_load ''s'' = Inr ops \<and> parseGraphQLSpecEndpoints ex_graphql_parsers ''s'' ex_context (\<lambda>k. replicate k CHR ''i'') = Inr es \<and> length es = length ops"
proof -
  obtain ops where "ParseGraphQL ex_load ''s'' = Inr ops" using ex_graphql_ops by blast
  moreover from this have "ParseGraphQL (spLoadSchema ex_graphql_parsers) ''s'' = Inr ops" by (simp add: ex_graphql_parsers_def)
  note graphql_endpoints_read_back [OF this, of ex_context "\<lambda>k. replicate k CHR ''i''"]
  ultimately show ?thesis by blast
qed

section \<open>Service levels\<close>

lemma map_of_rev_distinct: "distinct (map fst kvs) \<Longrightarrow> map_of (rev kvs) = map_of kvs"
  by (rule ext) (metis distinct_rev map_of_eq_Some_iff rev_map set_rev option.exhaust_sel not_None_eq)

text \<open>A service level that was set by hand is carried over: a new endpoint gets that of the endpoint with its operation (its method and path
  when it has no operation identifier) if there is one with a level, and is otherwise as the description has it. Nothing else is carried over.\<close>

lemma preserveEndpointSLAs_carries:
  assumes "distinct (map endpointSLAKey existing)" and "k < length fresh"
  shows "length (preserveEndpointSLAs existing fresh) = length fresh \<and>
    preserveEndpointSLAs existing fresh ! k =
      (case find (\<lambda>e. endpointSLAKey e = endpointSLAKey (fresh ! k)) existing of
         Some e \<Rightarrow> (case aeSLA e of Some sla \<Rightarrow> (fresh ! k)\<lparr>aeSLA := Some sla\<rparr> | None \<Rightarrow> fresh ! k)
       | None \<Rightarrow> fresh ! k)"
proof -
  let ?levels = "\<lambda>es. concat (map (\<lambda>e. case aeSLA e of Some sla \<Rightarrow> [(endpointSLAKey e, sla)] | None \<Rightarrow> []) es)"
  have keys: "fst ` set (?levels es) \<subseteq> endpointSLAKey ` set es" for es by (auto split: option.splits)
  have level: "map_of (?levels existing) key = (case find (\<lambda>e. endpointSLAKey e = key) existing of Some e \<Rightarrow> aeSLA e | None \<Rightarrow> None)" for key
    using assms(1)
  proof (induction existing)
    case (Cons e es)
    have "map_of (?levels es) key = None" if "endpointSLAKey e = key"
      using Cons.prems keys [of es] that by (auto simp: map_of_eq_None_iff)
    then show ?case using Cons by (auto split: option.splits)
  qed simp
  have "distinct (map fst (?levels existing))" using assms(1)
  proof (induction existing)
    case (Cons e es)
    then show ?case using keys [of es] by (auto split: option.splits)
  qed simp
  then have "map_of (rev (?levels existing)) = map_of (?levels existing)" by (rule map_of_rev_distinct)
  then show ?thesis using level assms(2) by (auto simp: preserveEndpointSLAs_def Let_def split: option.splits)
qed

lemma preserveEndpointSLAs_carries_witness:
  "preserveEndpointSLAs [APIEndpoint_zero\<lparr>aeOperationID := ''list'', aeSLA := Some \<lparr>slaThresholds = []\<rparr>\<rparr>] [APIEndpoint_zero\<lparr>aeOperationID := ''list'', aePath := ''/v2''\<rparr>] ! 0 =
   APIEndpoint_zero\<lparr>aeOperationID := ''list'', aePath := ''/v2'', aeSLA := Some \<lparr>slaThresholds = []\<rparr>\<rparr>"
  using preserveEndpointSLAs_carries [of "[APIEndpoint_zero\<lparr>aeOperationID := ''list'', aeSLA := Some \<lparr>slaThresholds = []\<rparr>\<rparr>]" 0
      "[APIEndpoint_zero\<lparr>aeOperationID := ''list'', aePath := ''/v2''\<rparr>]"]
  by (simp add: endpointSLAKey_def APIEndpoint_zero_def)

end
