(* ===== verification/Queue.thy ===== *)
theory Queue
  imports ObjectStore "HOL-Library.AList"
begin

text \<open>
  The queue of screenshot jobs (\<open>internal/queue/queue.go\<close>) on a sorted set of Redis: a score for each member, read in the order of the
  scores and, at equal scores, of the members. Locale \<open>sorted_set\<close> is what the queue relies on. A score is a time in milliseconds, far
  below \<open>2\<^sup>5\<^sup>3\<close>, so that the \<open>float64\<close> is exact.
\<close>

section \<open>Sorted sets\<close>

type_synonym zset = "(string \<times> int) list"

definition ZAdd :: "string \<Rightarrow> int \<Rightarrow> zset \<Rightarrow> zset" where
  "ZAdd member score s = AList.update member score s"

definition ZRem :: "string \<Rightarrow> zset \<Rightarrow> zset" where
  "ZRem member s = AList.delete member s"

definition ZRangeByScore :: "int \<Rightarrow> zset \<Rightarrow> string list" where
  "ZRangeByScore hi s = map fst (sort_key snd (sort_key fst (filter (\<lambda>(m, x). x \<le> hi) s)))"

locale sorted_set =
  fixes ok :: "'s \<Rightarrow> bool"
    and score :: "'s \<Rightarrow> string \<rightharpoonup> int"
    and zadd :: "string \<Rightarrow> int \<Rightarrow> 's \<Rightarrow> 's"
    and zrem :: "string \<Rightarrow> 's \<Rightarrow> 's"
    and zrange :: "int \<Rightarrow> 's \<Rightarrow> string list"
  assumes ok_zadd: "ok s \<Longrightarrow> ok (zadd m x s)"
    and ok_zrem: "ok s \<Longrightarrow> ok (zrem m s)"
    and score_zadd: "ok s \<Longrightarrow> score (zadd m x s) = (score s)(m \<mapsto> x)"
    and score_zrem: "ok s \<Longrightarrow> score (zrem m s) = (score s)(m := None)"
    and set_zrange: "ok s \<Longrightarrow> set (zrange t s) = {m. \<exists>x. score s m = Some x \<and> x \<le> t}"
    and distinct_zrange: "ok s \<Longrightarrow> distinct (zrange t s)"
    and sorted_zrange: "ok s \<Longrightarrow> sorted (map (\<lambda>m. the (score s m)) (zrange t s))"
begin

text \<open>Taking the first of the range again and again takes every member that is due, each once, in the order of their times.\<close>

primrec drain :: "nat \<Rightarrow> int \<Rightarrow> 's \<Rightarrow> string list \<times> 's" where
  "drain 0 t s = ([], s)"
| "drain (Suc n) t s =
     (case zrange t s of [] \<Rightarrow> ([], s) | m # _ \<Rightarrow> (case drain n t (zrem m s) of (ms, s') \<Rightarrow> (m # ms, s')))"

lemma range_after_first:
  assumes "ok s" and "zrange t s = m # ms"
  shows "set (zrange t (zrem m s)) = set ms" "length (zrange t (zrem m s)) = length ms"
proof -
  have "m \<notin> set ms" using distinct_zrange [OF assms(1), of t] assms(2) by simp
  moreover have "set (zrange t (zrem m s)) = set (zrange t s) - {m}"
    using assms(1) by (auto simp: set_zrange ok_zrem score_zrem)
  ultimately show "set (zrange t (zrem m s)) = set ms" using assms(2) by simp
  then show "length (zrange t (zrem m s)) = length ms"
    using distinct_card [OF distinct_zrange [OF ok_zrem [OF assms(1)], of t m]] distinct_card [of ms]
      distinct_zrange [OF assms(1), of t] assms(2) by simp
qed

lemma drain_all:
  assumes "ok s" and "length (zrange t s) \<le> n" and "drain n t s = (ms, s')"
  shows "ok s'" "set ms = {m. \<exists>x. score s m = Some x \<and> x \<le> t}" "distinct ms"
    "sorted (map (\<lambda>m. the (score s m)) ms)" "score s' = score s |` {m. \<exists>x. score s m = Some x \<and> t < x}"
proof -
  have "ok s' \<and> set ms = set (zrange t s) \<and> distinct ms \<and> sorted (map (\<lambda>m. the (score s m)) ms) \<and>
      score s' = score s |` (- set (zrange t s))"
    using assms
  proof (induction n arbitrary: s ms)
    case 0
    then show ?case by auto
  next
    case (Suc n)
    show ?case
    proof (cases "zrange t s")
      case Nil
      then show ?thesis using Suc.prems by (simp add: restrict_map_def)
    next
      case (Cons m rest)
      obtain ms2 where ms2: "drain n t (zrem m s) = (ms2, s')" "ms = m # ms2"
        using Suc.prems(3) Cons by (auto split: prod.splits)
      note range = range_after_first [OF Suc.prems(1) Cons]
      have IH: "ok s'" "set ms2 = set rest" "distinct ms2" "sorted (map (\<lambda>m'. the (score (zrem m s) m')) ms2)"
        "score s' = score (zrem m s) |` (- set rest)"
        using Suc.IH [OF ok_zrem [OF Suc.prems(1)] _ ms2(1)] Suc.prems(2) Cons range by auto
      have m: "m \<notin> set rest" using distinct_zrange [OF Suc.prems(1), of t] Cons by simp
      have same: "the (score (zrem m s) m') = the (score s m')" if "m' \<in> set rest" for m'
        using that m Suc.prems(1) by (auto simp: score_zrem)
      then have "map (\<lambda>m'. the (score (zrem m s) m')) ms2 = map (\<lambda>m'. the (score s m')) ms2"
        by (intro map_cong) (simp_all add: IH(2))
      with IH(4) have "sorted (map (\<lambda>m'. the (score s m')) ms2)" by argo
      moreover have "the (score s m) \<le> the (score s m')" if "m' \<in> set rest" for m'
        using sorted_zrange [OF Suc.prems(1), of t] Cons that by simp
      ultimately have "sorted (map (\<lambda>m'. the (score s m')) ms)" using IH(2) ms2(2) by simp
      moreover have "score s' = score s |` (- set (zrange t s))"
        using IH(5) Suc.prems(1) Cons by (auto simp: score_zrem restrict_map_def fun_eq_iff)
      ultimately show ?thesis using IH ms2(2) m Cons by simp
    qed
  qed
  moreover have "score s |` (- set (zrange t s)) = score s |` {m. \<exists>x. score s m = Some x \<and> t < x}"
    unfolding set_zrange [OF assms(1)] by (rule ext) (auto simp: restrict_map_def not_le dest: not_le_imp_less)
  ultimately show "ok s'" "set ms = {m. \<exists>x. score s m = Some x \<and> x \<le> t}" "distinct ms"
    "sorted (map (\<lambda>m. the (score s m)) ms)" "score s' = score s |` {m. \<exists>x. score s m = Some x \<and> t < x}"
    using set_zrange [OF assms(1)] by auto
qed

end

lemma sort_key_stable_pair: "set (sort_key f xs) = set xs" "distinct (map g (sort_key f xs)) \<longleftrightarrow> distinct (map g xs)"
  by (simp_all add: distinct_map inj_on_def)

interpretation redis: sorted_set "\<lambda>s. distinct (map fst s)" map_of ZAdd ZRem ZRangeByScore
proof unfold_locales
  fix s :: zset and m x t
  assume ok: "distinct (map fst s)"
  show "distinct (map fst (ZAdd m x s))" unfolding ZAdd_def using ok by (rule distinct_update)
  show "distinct (map fst (ZRem m s))" unfolding ZRem_def using ok by (rule distinct_delete)
  show "map_of (ZAdd m x s) = (map_of s)(m \<mapsto> x)" by (simp add: ZAdd_def update_conv')
  show "map_of (ZRem m s) = (map_of s)(m := None)" by (simp add: ZRem_def delete_conv')
  let ?due = "sort_key snd (sort_key fst (filter (\<lambda>(m, x). x \<le> t) s))"
  show "set (ZRangeByScore t s) = {m. \<exists>x. map_of s m = Some x \<and> x \<le> t}"
    using ok by (force simp: ZRangeByScore_def dest: map_of_SomeD)
  have "distinct (map fst (filter (\<lambda>(m, x). x \<le> t) s))" using ok by (rule distinct_map_filter)
  then show "distinct (ZRangeByScore t s)" by (simp add: ZRangeByScore_def sort_key_stable_pair)
  have "the (map_of s (fst e)) = snd e" if "e \<in> set ?due" for e
  proof -
    have "(fst e, snd e) \<in> set s" using that by simp
    then show ?thesis by (simp only: map_of_eq_Some_iff [OF ok, THEN iffD2] option.sel)
  qed
  then have "map (\<lambda>m. the (map_of s m)) (ZRangeByScore t s) = map snd ?due"
    by (simp add: ZRangeByScore_def)
  then show "sorted (map (\<lambda>m. the (map_of s m)) (ZRangeByScore t s))" by simp
qed

section \<open>Jobs\<close>

record screenshotJob =
  sjOrgID :: string
  sjDiagramID :: string

record queue_db = object_db +
  screenshot_jobs :: zset

type_synonym ('z, 'a) qprog = "('z queue_db_scheme, 'a) sprog"

text \<open>Times are in microseconds, \<open>debounceWindow\<close> in milliseconds.\<close>

definition debounceWindow :: int where
  "debounceWindow = 3000"

definition UnixMilli :: "time \<Rightarrow> int" where
  "UnixMilli t = t div 1000"

definition memberOf :: "screenshotJob \<Rightarrow> string" where
  "memberOf job = sjOrgID job @ ''|'' @ sjDiagramID job"

definition jobOf :: "string \<Rightarrow> screenshotJob option" where
  "jobOf member = (case Cut member ''|'' of (orgID, diagramID, found) \<Rightarrow> if \<not> found then None else Some \<lparr>sjOrgID = orgID, sjDiagramID = diagramID\<rparr>)"

definition enqueued :: "screenshotJob \<Rightarrow> time \<Rightarrow> zset \<Rightarrow> zset" where
  "enqueued job t s = ZAdd (memberOf job) (UnixMilli (t + 1000 * debounceWindow)) s"

definition EnqueueScreenshot :: "screenshotJob \<Rightarrow> ('z, unit result) qprog" where
  "EnqueueScreenshot job = istmt (\<lambda>now i. Inr ((), i\<lparr>screenshot_jobs := enqueued job now (screenshot_jobs i)\<rparr>))"

definition claimDue :: "int \<Rightarrow> zset \<Rightarrow> string option \<times> zset" where
  "claimDue now_ms s = (case ZRangeByScore now_ms s of [] \<Rightarrow> (None, s) | m # _ \<Rightarrow> (Some m, ZRem m s))"

definition DequeueScreenshot :: "('z, screenshotJob option result) qprog" where
  "DequeueScreenshot = istmt (\<lambda>now i. case claimDue (UnixMilli now) (screenshot_jobs i) of
     (None, _) \<Rightarrow> Inr (None, i)
   | (Some member, s) \<Rightarrow> Inr (jobOf member, i\<lparr>screenshot_jobs := s\<rparr>))"

lemma jobOf_memberOf:
  assumes "CHR ''|'' \<notin> set (sjOrgID job)"
  shows "jobOf (memberOf job) = Some job"
  using assms Cut_found [of "CHR ''|''" "sjOrgID job"] by (simp add: jobOf_def memberOf_def)

section \<open>Histories\<close>

text \<open>The events of a queue, the latest first: the calls that took effect, with the time of the request. A call whose reply is lost
  may have taken effect as well: then the job is enqueued, or it is claimed and nobody renders it.\<close>

datatype queue_event = Enqueued screenshotJob time | Claimed string time

fun event_member :: "queue_event \<Rightarrow> string" where
  "event_member (Enqueued job t) = memberOf job"
| "event_member (Claimed m t) = m"

inductive queue_history :: "queue_event list \<Rightarrow> zset \<Rightarrow> bool" where
  start: "queue_history [] []"
| enqueue: "queue_history es s \<Longrightarrow> queue_history (Enqueued job t # es) (enqueued job t s)"
| claim: "queue_history es s \<Longrightarrow> claimDue (UnixMilli t) s = (Some m, s') \<Longrightarrow> queue_history (Claimed m t # es) s'"

inductive_cases queue_history_claim [elim]: "queue_history (Claimed m t # es) s"

text \<open>The calls of the program are such events.\<close>

lemma EnqueueScreenshot_history:
  assumes "run_state (EnqueueScreenshot job) g = (r, g')" and "queue_history es (screenshot_jobs (idb g))"
  shows "queue_history (Enqueued job (clock (base g)) # es) (screenshot_jobs (idb g')) \<or>
    queue_history es (screenshot_jobs (idb g')) \<and> r \<noteq> Inr ()"
  using assms unfolding EnqueueScreenshot_def by (cases rule: run_istmt_cases) (auto intro: queue_history.intros)

lemma DequeueScreenshot_history:
  assumes "run_state DequeueScreenshot g = (r, g')" and "queue_history es (screenshot_jobs (idb g))"
  shows "queue_history es (screenshot_jobs (idb g')) \<and> (\<forall>job. r \<noteq> Inr (Some job)) \<or>
    (\<exists>m. queue_history (Claimed m (clock (base g)) # es) (screenshot_jobs (idb g')) \<and> (\<forall>job. r = Inr (Some job) \<longrightarrow> jobOf m = Some job))"
proof -
  obtain m s where claim: "claimDue (UnixMilli (clock (base g))) (screenshot_jobs (idb g)) = (m, s)" by fastforce
  show ?thesis
  proof (cases m)
    case None
    have "screenshot_jobs (idb g') = screenshot_jobs (idb g) \<and> (\<forall>job. r \<noteq> Inr (Some job))"
      using assms(1) unfolding DequeueScreenshot_def by (cases rule: run_istmt_cases) (auto simp: claim None)
    then show ?thesis using assms(2) by simp
  next
    case (Some m)
    have "screenshot_jobs (idb g') = screenshot_jobs (idb g) \<and> (\<forall>job. r \<noteq> Inr (Some job)) \<or>
        screenshot_jobs (idb g') = s \<and> (\<forall>job. r = Inr (Some job) \<longrightarrow> jobOf m = Some job)"
      using assms(1) unfolding DequeueScreenshot_def by (cases rule: run_istmt_cases) (auto simp: claim Some)
    then show ?thesis using assms(2) queue_history.claim [OF assms(2)] claim Some by auto
  qed
qed

text \<open>The score of a member says what happened to it last.\<close>

definition due_of :: "queue_event option \<Rightarrow> int option" where
  "due_of e = (case e of Some (Enqueued job t) \<Rightarrow> Some (UnixMilli t + debounceWindow) | _ \<Rightarrow> None)"

lemma UnixMilli_later: "UnixMilli (t + 1000 * d) = UnixMilli t + d"
  by (simp add: UnixMilli_def)

lemma claimDue_first:
  assumes "claimDue t s = (Some m, s')"
  shows "m \<in> set (ZRangeByScore t s)" "s' = ZRem m s"
  using assms by (auto simp: claimDue_def split: list.splits)

lemma queue_history_scores:
  assumes "queue_history es s"
  shows "distinct (map fst s)" "map_of s m = due_of (find (\<lambda>e. event_member e = m) es)"
proof -
  from assms have "distinct (map fst s) \<and> (\<forall>m. map_of s m = due_of (find (\<lambda>e. event_member e = m) es))"
  proof induction
    case start
    then show ?case by (simp add: due_of_def)
  next
    case (enqueue es s job t)
    then show ?case
      using redis.ok_zadd [of s] redis.score_zadd [of s] by (simp add: enqueued_def UnixMilli_later due_of_def)
  next
    case (claim es s t m s')
    then show ?case
      using redis.ok_zrem [of s] redis.score_zrem [of s] claimDue_first(2) [OF claim(2)] by (auto simp: due_of_def)
  qed
  then show "distinct (map fst s)" "map_of s m = due_of (find (\<lambda>e. event_member e = m) es)" by auto
qed

lemma queue_history_suffix: "queue_history (newer @ es) s \<Longrightarrow> \<exists>s0. queue_history es s0"
proof (induction newer arbitrary: s)
  case (Cons e newer)
  then show ?case by (auto elim: queue_history.cases)
qed auto

text \<open>C35. A screenshot is rendered for a settled diagram, and once for each burst of changes: whenever a job is claimed, the last thing that
  happened to it before is a request for it, at least three seconds earlier. So no job is claimed twice without a request in between,
  and none within three seconds of its latest request.\<close>

theorem claim_follows_last_request:
  assumes "queue_history (newer @ Claimed m t # older) s"
  shows "\<exists>job t0. find (\<lambda>e. event_member e = m) older = Some (Enqueued job t0) \<and> memberOf job = m \<and>
    UnixMilli t0 + debounceWindow \<le> UnixMilli t"
proof -
  obtain s0 s1 where s0: "queue_history older s0" "claimDue (UnixMilli t) s0 = (Some m, s1)"
    using queue_history_suffix [OF assms] by blast
  note scores = queue_history_scores [OF s0(1)]
  obtain x where x: "map_of s0 m = Some x" "x \<le> UnixMilli t"
    using claimDue_first(1) [OF s0(2)] redis.set_zrange [OF scores(1)] by auto
  with scores(2) [of m] have "due_of (find (\<lambda>e. event_member e = m) older) = Some x" by simp
  then obtain job t0 where e: "find (\<lambda>e. event_member e = m) older = Some (Enqueued job t0)" "x = UnixMilli t0 + debounceWindow"
    by (auto simp: due_of_def split: option.splits queue_event.splits)
  moreover have "memberOf job = m" using find_SomeD [OF e(1)] by simp
  ultimately show ?thesis using x(2) by auto
qed

definition ex_job :: screenshotJob where
  "ex_job = \<lparr>sjOrgID = ''g1'', sjDiagramID = ''d1''\<rparr>"

theorem claim_follows_last_request_witness:
  "\<exists>job t0. find (\<lambda>e. event_member e = ''g1|d1'') [Enqueued ex_job 2000000, Enqueued ex_job 1000000] = Some (Enqueued job t0) \<and>
    memberOf job = ''g1|d1'' \<and> UnixMilli t0 + debounceWindow \<le> UnixMilli 5000000"
proof (rule claim_follows_last_request [where newer = "[]"])
  let ?s = "enqueued ex_job 2000000 (enqueued ex_job 1000000 [])"
  have "queue_history [Enqueued ex_job 2000000, Enqueued ex_job 1000000] ?s"
    by (intro queue_history.intros)
  moreover have "claimDue (UnixMilli 5000000) ?s = (Some ''g1|d1'', [])" by code_simp
  ultimately show "queue_history ([] @ Claimed ''g1|d1'' 5000000 # [Enqueued ex_job 2000000, Enqueued ex_job 1000000]) []"
    by (auto intro: queue_history.claim)
qed

section \<open>Polling\<close>

text \<open>The worker polls the queue until nothing is due.\<close>

primrec polls :: "nat \<Rightarrow> int \<Rightarrow> zset \<Rightarrow> string list \<times> zset" where
  "polls 0 t s = ([], s)"
| "polls (Suc n) t s = (case claimDue t s of (None, s') \<Rightarrow> ([], s') | (Some m, s') \<Rightarrow> (case polls n t s' of (ms, s'') \<Rightarrow> (m # ms, s'')))"

lemma polls_eq: "polls n t s = redis.drain n t s"
  by (induction n arbitrary: s) (auto simp: claimDue_def split: list.splits prod.splits)

text \<open>C36. No job starves: as many polls as there are due jobs claim all of them, each once, in the order of their times, and leave the
  others as they are.\<close>

theorem polls_claim_all_due:
  assumes "queue_history es s" and "length (ZRangeByScore t s) \<le> n" and "polls n t s = (ms, s')"
  shows "set ms = {m. \<exists>x. map_of s m = Some x \<and> x \<le> t} \<and> distinct ms \<and> sorted (map (\<lambda>m. the (map_of s m)) ms) \<and>
    map_of s' = map_of s |` {m. \<exists>x. map_of s m = Some x \<and> t < x}"
  using redis.drain_all(2-5) [OF queue_history_scores(1) [OF assms(1)] assms(2)] assms(3) by (simp add: polls_eq)

theorem polls_claim_all_due_witness:
  "set [''g1|d1''] = {m. \<exists>x. map_of (enqueued ex_job 1000000 []) m = Some x \<and> x \<le> 4000}"
proof -
  have "queue_history [Enqueued ex_job 1000000] (enqueued ex_job 1000000 [])" by (intro queue_history.intros)
  moreover have "length (ZRangeByScore 4000 (enqueued ex_job 1000000 [])) \<le> 1" by code_simp
  moreover have "polls 1 4000 (enqueued ex_job 1000000 []) = ([''g1|d1''], [])" by code_simp
  ultimately show ?thesis by (rule polls_claim_all_due [THEN conjunct1])
qed

end
