(* ===== verification/Folder.thy ===== *)
theory Folder
  imports Queue ApiEndpoints Examples
begin

text \<open>
  Folders: \<open>internal/folder\<close>, \<open>internal/store/postgres/folders.go\<close> (migrations 0008 and 0018) and the handlers of \<open>internal/api/folder\<close>.
  The record \<open>folder_db\<close> extends the storage and the queue, which the diagrams in the folders use.
\<close>

section \<open>Store\<close>

record folder =
  fldID :: string
  fldOrgID :: string
  fldParentID :: "string option"
  fldTeamID :: "string option"
  fldType :: string
  fldName :: string
  fldOrder :: "64 word"
  fldCreatedBy :: string
  fldCreatedAt :: time
  fldUpdatedAt :: time
  fldDeletedAt :: "time option"

record folder_db = queue_db +
  folders :: "folder list"

type_synonym ('z, 'a) fprog = "('z folder_db_scheme, 'a) sprog"

definition folder_type_ok :: "string \<Rightarrow> bool" where
  "folder_type_ok t \<longleftrightarrow> t \<in> {''service'', ''diagram'', ''map'', ''doc''}"

text \<open>A foreign key that is NULL refers to nothing; a row may refer to itself.\<close>

definition refers :: "('r \<Rightarrow> string) \<Rightarrow> 'r list \<Rightarrow> string option \<Rightarrow> bool" where
  "refers k rows v \<longleftrightarrow> (case v of None \<Rightarrow> True | Some x \<Rightarrow> exists_row (\<lambda>r. k r = x) rows)"

definition CreateFolder :: "folder \<Rightarrow> ('z, unit result) fprog" where
  "CreateFolder f = iwrap ''postgres: CreateFolder: %w'' (txn (\<lambda>now d i.
     let row = f\<lparr>fldCreatedAt := if fldCreatedAt f = 0 then now else fldCreatedAt f, fldUpdatedAt := if fldUpdatedAt f = 0 then now else fldUpdatedAt f,
                 fldDeletedAt := None\<rparr> in
     if \<not> folder_type_ok (fldType f) then Inl (CheckViolation ''folders_type_check'')
     else if exists_row (\<lambda>r. fldID r = fldID f) (folders i) then Inl (UniqueViolation ''folders_pkey'')
     else if \<not> exists_row (\<lambda>r. oID r = fldOrgID f) (orgs d) then Inl (ForeignKeyViolation ''folders_org_id_fkey'')
     else if \<not> refers fldID (folders i @ [row]) (fldParentID f) then Inl (ForeignKeyViolation ''folders_parent_id_fkey'')
     else if \<not> refers tID (teams d) (fldTeamID f) then Inl (ForeignKeyViolation ''folders_team_id_fkey'')
     else Inr ((), d, i\<lparr>folders := folders i @ [row]\<rparr>)))"

definition GetFolder :: "string \<Rightarrow> ('z, folder option result) fprog" where
  "GetFolder ident = iwrap ''postgres: GetFolder: %w'' (iquery (\<lambda>now d i. Inr (List.find (\<lambda>f. fldID f = ident) (folders i))))"

definition ListFolders :: "string \<Rightarrow> string option \<Rightarrow> ('z, folder list result) fprog" where
  "ListFolders orgID t = iwrap ''postgres: ListFolders: %w'' (iquery (\<lambda>now d i. Inr
     (sort_key (\<lambda>f. float_key (fldOrder f)) (sort_key fldCreatedAt
       (filter (\<lambda>f. fldOrgID f = orgID \<and> fldDeletedAt f = None \<and> (case t of None \<Rightarrow> True | Some t \<Rightarrow> fldType f = t)) (folders i))))))"

definition live_folder :: "string \<Rightarrow> folder \<Rightarrow> bool" where
  "live_folder ident f \<longleftrightarrow> fldID f = ident \<and> fldDeletedAt f = None"

definition UpdateFolder :: "folder \<Rightarrow> ('z, unit result) fprog" where
  "UpdateFolder f = iwrap ''postgres: UpdateFolder: %w'' (txn (\<lambda>now d i.
     if \<not> exists_row (live_folder (fldID f)) (folders i) then Inr ((), d, i)
     else if \<not> refers fldID (folders i) (fldParentID f) then Inl (ForeignKeyViolation ''folders_parent_id_fkey'')
     else if \<not> refers tID (teams d) (fldTeamID f) then Inl (ForeignKeyViolation ''folders_team_id_fkey'')
     else Inr ((), d, i\<lparr>folders := update_where (live_folder (fldID f)) (\<lambda>r. r\<lparr>fldName := fldName f, fldOrder := fldOrder f,
       fldParentID := fldParentID f, fldTeamID := fldTeamID f, fldUpdatedAt := now\<rparr>) (folders i)\<rparr>)))"

definition DeleteFolder :: "string \<Rightarrow> string \<Rightarrow> ('z, unit result) fprog" where
  "DeleteFolder ident deletedBy = iwrap ''postgres: DeleteFolder: %w'' (istmt (\<lambda>now i. Inr ((), i\<lparr>folders :=
     update_where (live_folder ident) (\<lambda>r. r\<lparr>fldDeletedAt := Some now\<rparr>) (folders i)\<rparr>)))"

section \<open>Handlers\<close>

definition folder_json :: "folder \<Rightarrow> json" where
  "folder_json f = JObj ([(''id'', JStr (fldID f)), (''orgId'', JStr (fldOrgID f))] @ omit_opt ''parentId'' JStr (fldParentID f) @
     omit_opt ''teamId'' JStr (fldTeamID f) @ [(''type'', JStr (fldType f)), (''name'', JStr (fldName f)), (''order'', JFloat (fldOrder f)),
     (''createdBy'', JStr (fldCreatedBy f)), (''createdAt'', JTime (fldCreatedAt f)), (''updatedAt'', JTime (fldUpdatedAt f))] @
     omit_opt ''deletedAt'' JTime (fldDeletedAt f))"

type_synonym 'z fhandler = "http_request \<Rightarrow> ('z, response) fprog"

text \<open>\<open>if f == nil || f.DeletedAt != nil { httputil.Error(w, r, storepkg.ErrNotFound); return }\<close>\<close>

definition not_deleted :: "('r \<Rightarrow> time option) \<Rightarrow> 'r option \<Rightarrow> ('r \<Rightarrow> ('i, response) sprog) \<Rightarrow> ('i, response) sprog" where
  "not_deleted del row k = (case row of
     None \<Rightarrow> ret (Error StoreErrNotFound)
   | Some x \<Rightarrow> if del x \<noteq> None then ret (Error StoreErrNotFound) else k x)"

lemma keeps_not_deleted [keeps_rules]: "(\<And>x. keeps I (k x)) \<Longrightarrow> keeps I (not_deleted del row k)"
  unfolding not_deleted_def by (cases row) (auto intro: keeps_rules)

definition FolderHandler_List :: "'z fhandler" where
  "FolderHandler_List r =
     (let raw = queryValue r ''type'' in
      ion_err (ListFolders (pathValue r ''orgID'') (if raw \<noteq> [] then Some raw else None)) (\<lambda>fs.
        ret (JSON 200 (JObj [(''folders'', slice_json folder_json fs)]))))"

record createFolderBody =
  cfName :: string
  cfType :: string
  cfParentID :: "string option"
  cfTeamID :: "string option"
  cfOrder :: "64 word"

definition FolderHandler_Create :: "createFolderBody option \<Rightarrow> 'z fhandler" where
  "FolderHandler_Create body r = with_principal r (\<lambda>p.
     case body of
       None \<Rightarrow> ret (BadRequest (JStr ''invalid request body''))
     | Some b \<Rightarrow>
         if cfName b = [] \<or> cfType b = [] then ret (BadRequest (JStr ''name and type are required''))
         else State_Monad.bind (lift now) (\<lambda>t. State_Monad.bind (lift uuid_NewString) (\<lambda>i.
           let f = \<lparr>fldID = i, fldOrgID = pathValue r ''orgID'', fldParentID = cfParentID b, fldTeamID = cfTeamID b, fldType = cfType b,
                    fldName = cfName b, fldOrder = cfOrder b, fldCreatedBy = pUserID p, fldCreatedAt = t, fldUpdatedAt = t, fldDeletedAt = None\<rparr> in
           ion_err (CreateFolder f) (\<lambda>_. ret (JSON 201 (folder_json f))))))"

definition FolderHandler_Get :: "'z fhandler" where
  "FolderHandler_Get r = ion_err (GetFolder (pathValue r ''folderID'')) (\<lambda>f.
     not_deleted fldDeletedAt f (\<lambda>f. ret (JSON 200 (folder_json f))))"

record updateFolderBody =
  ufName :: "string option"
  ufParentID :: "string option"
  ufTeamID :: "string option"
  ufOrder :: "64 word option"

definition edited_folder :: "updateFolderBody \<Rightarrow> folder \<Rightarrow> folder" where
  "edited_folder b f = f
     \<lparr>fldName := (case ufName b of Some n \<Rightarrow> n | None \<Rightarrow> fldName f),
      fldParentID := (case ufParentID b of Some x \<Rightarrow> Some x | None \<Rightarrow> fldParentID f),
      fldTeamID := (case ufTeamID b of Some x \<Rightarrow> Some x | None \<Rightarrow> fldTeamID f),
      fldOrder := (case ufOrder b of Some x \<Rightarrow> x | None \<Rightarrow> fldOrder f)\<rparr>"

definition FolderHandler_Update :: "updateFolderBody option \<Rightarrow> 'z fhandler" where
  "FolderHandler_Update body r = ion_err (GetFolder (pathValue r ''folderID'')) (\<lambda>f. not_deleted fldDeletedAt f (\<lambda>f.
     case body of
       None \<Rightarrow> ret (BadRequest (JStr ''invalid request body''))
     | Some b \<Rightarrow> ion_err (UpdateFolder (edited_folder b f)) (\<lambda>_.
         State_Monad.bind (lift now) (\<lambda>t. ret (JSON 200 (folder_json ((edited_folder b f)\<lparr>fldUpdatedAt := t\<rparr>)))))))"

definition FolderHandler_Delete :: "'z fhandler" where
  "FolderHandler_Delete r = with_principal r (\<lambda>p.
     ion_err (DeleteFolder (pathValue r ''folderID'') (pUserID p)) (\<lambda>_. ret NoContent))"

section \<open>The tree of folders\<close>

text \<open>\<open>folders_ok\<close>: identifiers are unique, types are known, parents exist. \<open>parents\<close> leads from a folder to the one that contains it.\<close>

definition folders_ok :: "folder list \<Rightarrow> bool" where
  "folders_ok fs \<longleftrightarrow> distinct (map fldID fs) \<and> (\<forall>f\<in>set fs. folder_type_ok (fldType f) \<and> refers fldID fs (fldParentID f))"

definition parents :: "folder list \<Rightarrow> (string \<times> string) set" where
  "parents fs = {(x, p). (x, Some p) \<in> set (map (\<lambda>f. (fldID f, fldParentID f)) fs)}"

lemma refers_Some: "refers k rows (Some x) \<longleftrightarrow> x \<in> k ` set rows"
  by (auto simp: refers_def)

lemma refers_mono: "refers k rows v \<Longrightarrow> k ` set rows \<subseteq> k ` set rows' \<Longrightarrow> refers k rows' v"
  by (cases v) (auto simp: refers_def, metis image_eqI image_iff subsetD)

lemma refers_append: "refers k rows v \<Longrightarrow> refers k (rows @ rows') v"
  by (rule refers_mono) auto

text \<open>What the three writing statements do to the table, when they take effect.\<close>

lemma folders_ok_add:
  assumes "folders_ok fs" and "fldID f \<notin> fldID ` set fs" and "folder_type_ok (fldType f)" and "refers fldID (fs @ [f]) (fldParentID f)"
  shows "folders_ok (fs @ [f])"
  using assms by (auto simp: folders_ok_def intro: refers_append)

lemma folders_ok_update:
  assumes "folders_ok fs" and "\<And>r. fldID (h r) = fldID r" and "\<And>r. fldType (h r) = fldType r"
    and "\<And>r. r \<in> set fs \<Longrightarrow> refers fldID fs (fldParentID (h r))"
  shows "folders_ok (update_where P h fs)"
proof -
  have keys: "fldID ` set (update_where P h fs) = fldID ` set fs" using assms(2) by (rule keys_update_where)
  have "refers fldID (update_where P h fs) (fldParentID f)" if "f \<in> set (update_where P h fs)" for f
    by (rule refers_mono [of fldID fs]) (use that assms(1,4) keys in \<open>auto simp: set_update_where folders_ok_def\<close>)
  then show ?thesis using assms(1-3) by (auto simp: folders_ok_def set_update_where)
qed

lemma parents_add: "parents (fs @ [f]) = parents fs \<union> (case fldParentID f of None \<Rightarrow> {} | Some p \<Rightarrow> {(fldID f, p)})"
  by (auto simp: parents_def split: option.splits)

lemma parents_update_same: "(\<And>r. fldID (h r) = fldID r) \<Longrightarrow> (\<And>r. r \<in> set fs \<Longrightarrow> P r \<Longrightarrow> fldParentID (h r) = fldParentID r) \<Longrightarrow>
    parents (update_where P h fs) = parents fs"
proof -
  assume same: "\<And>r. fldID (h r) = fldID r" "\<And>r. r \<in> set fs \<Longrightarrow> P r \<Longrightarrow> fldParentID (h r) = fldParentID r"
  have "map (\<lambda>f. (fldID f, fldParentID f)) (update_where P h fs) = map (\<lambda>f. (fldID f, fldParentID f)) fs"
    using same by (induction fs) auto
  then show ?thesis by (simp only: parents_def)
qed

lemma acyclic_add:
  assumes "folders_ok fs" and "acyclic (parents fs)" and "fldID f \<notin> fldID ` set fs" and "fldParentID f \<noteq> Some (fldID f)"
  shows "acyclic (parents (fs @ [f]))"
proof (cases "fldParentID f")
  case None
  then show ?thesis using assms(2) by (simp add: parents_add)
next
  case (Some p)
  have "fldID f \<notin> Range (parents fs)"
  proof
    assume "fldID f \<in> Range (parents fs)"
    then obtain c where "c \<in> set fs" "fldParentID c = Some (fldID f)" by (auto simp: parents_def)
    then have "refers fldID fs (Some (fldID f))" using assms(1) by (auto simp: folders_ok_def)
    then show False using assms(3) by (simp add: refers_Some)
  qed
  moreover have "fldID f \<notin> Domain (parents fs)" using assms(3) by (auto simp: parents_def)
  ultimately have "(p, fldID f) \<notin> (parents fs)\<^sup>*" using Some assms(4) by (auto elim: rtranclE)
  then show ?thesis using assms(2) Some by (simp add: parents_add)
qed

section \<open>What the handlers keep\<close>

text \<open>\<open>folder_tree\<close>: the table is consistent and no folder is inside itself.\<close>

definition folder_tree :: "folder list \<Rightarrow> bool" where
  "folder_tree fs \<longleftrightarrow> folders_ok fs \<and> acyclic (parents fs)"

definition on_folders :: "(folder list \<Rightarrow> bool) \<Rightarrow> 'z folder_db_scheme side \<Rightarrow> bool" where
  "on_folders I = on_idb (\<lambda>i. I (folders i))"

lemmas on_folders_run = hoareD [where P = "on_folders I" and Q = "\<lambda>_. on_folders I" for I, unfolded on_folders_def on_idb_def]

lemma keeps_folder_reads [keeps_rules]:
  "keeps (on_folders I) (GetFolder ident)" "keeps (on_folders I) (ListFolders orgID t)" "keeps (on_folders I) (lift m)"
  unfolding GetFolder_def ListFolders_def on_folders_def by (intro keeps_rules)+

lemma folder_refers: "folders_ok fs \<Longrightarrow> f \<in> set fs \<Longrightarrow> refers fldID fs (fldParentID f)"
  by (simp add: folders_ok_def)

lemma keeps_DeleteFolder [keeps_rules]:
  "keeps (on_folders folders_ok) (DeleteFolder ident user)" "keeps (on_folders folder_tree) (DeleteFolder ident user)"
  unfolding DeleteFolder_def on_folders_def
  by (intro keeps_iwrap keeps_istmt; auto simp: folder_tree_def parents_update_same folder_refers intro!: folders_ok_update)+

lemma keeps_UpdateFolder [keeps_rules]: "keeps (on_folders folders_ok) (UpdateFolder f)"
  unfolding UpdateFolder_def on_folders_def
  by (intro keeps_iwrap keeps_txn) (auto intro!: folders_ok_update split: if_splits)

lemma keeps_CreateFolder [keeps_rules]: "keeps (on_folders folders_ok) (CreateFolder f)"
  unfolding CreateFolder_def on_folders_def
  by (intro keeps_iwrap keeps_txn) (auto simp: Let_def intro!: folders_ok_add split: if_splits)

lemma keeps_CreateFolder_tree: "fldParentID f \<noteq> Some (fldID f) \<Longrightarrow> keeps (on_folders folder_tree) (CreateFolder f)"
  unfolding CreateFolder_def on_folders_def folder_tree_def
  by (intro keeps_iwrap keeps_txn) (auto simp: Let_def intro!: folders_ok_add acyclic_add split: if_splits)

lemma UpdateFolder_same_parent:
  assumes "run_state (UpdateFolder f) g = (a, g')" and "folder_tree (folders (idb g))"
    and "\<And>r. r \<in> set (folders (idb g)) \<Longrightarrow> fldID r = fldID f \<Longrightarrow> fldParentID r = fldParentID f"
  shows "folder_tree (folders (idb g'))"
proof -
  obtain r where "run_state (txn (\<lambda>now d i.
     if \<not> exists_row (live_folder (fldID f)) (folders i) then Inr ((), d, i)
     else if \<not> refers fldID (folders i) (fldParentID f) then Inl (ForeignKeyViolation ''folders_parent_id_fkey'')
     else if \<not> refers tID (teams d) (fldTeamID f) then Inl (ForeignKeyViolation ''folders_team_id_fkey'')
     else Inr ((), d, i\<lparr>folders := update_where (live_folder (fldID f)) (\<lambda>r. r\<lparr>fldName := fldName f, fldOrder := fldOrder f,
       fldParentID := fldParentID f, fldTeamID := fldTeamID f, fldUpdatedAt := now\<rparr>) (folders i)\<rparr>))) g = (r, g')"
    using assms(1) unfolding UpdateFolder_def by (rule run_iwrap_cases)
  then show ?thesis
  proof (cases rule: run_txn_cases)
    case same
    then show ?thesis using assms(2) by simp
  next
    case (step x d i)
    let ?h = "\<lambda>r. r\<lparr>fldName := fldName f, fldOrder := fldOrder f, fldParentID := fldParentID f, fldTeamID := fldTeamID f,
      fldUpdatedAt := clock (base g)\<rparr>"
    have "folders (idb g') = folders (idb g) \<or> folders (idb g') = update_where (live_folder (fldID f)) ?h (folders (idb g)) \<and>
        refers fldID (folders (idb g)) (fldParentID f)"
      using step(1) by (auto simp: step(2) split: if_splits)
    moreover have "parents (update_where (live_folder (fldID f)) ?h (folders (idb g))) = parents (folders (idb g))"
      using assms(3) by (intro parents_update_same) (auto simp: live_folder_def)
    moreover have "folders_ok (update_where (live_folder (fldID f)) ?h (folders (idb g)))" if "refers fldID (folders (idb g)) (fldParentID f)"
      using that assms(2) by (intro folders_ok_update) (simp_all add: folder_tree_def)
    ultimately show ?thesis using assms(2) by (auto simp: folder_tree_def)
  qed
qed

lemma FolderHandler_Update_same_parent:
  assumes "run_state (FolderHandler_Update body r) g = (a, g')" and "folder_tree (folders (idb g))"
    and "\<And>b. body = Some b \<Longrightarrow> ufParentID b = None"
  shows "folder_tree (folders (idb g'))"
  using assms(1) unfolding FolderHandler_Update_def
proof (cases rule: run_ion_err_cases)
  case (failed e)
  then show ?thesis using run_query_cases(1) assms(2) unfolding GetFolder_def by fastforce
next
  case (passed row g1)
  note get = run_query_cases [OF passed(1) [unfolded GetFolder_def]]
  show ?thesis
  proof (cases "\<exists>f b. row = Some f \<and> fldDeletedAt f = None \<and> body = Some b")
    case True
    then obtain f b where fb: "row = Some f" "fldDeletedAt f = None" "body = Some b" by blast
    have f: "f \<in> set (folders (idb g))" using get(3) fb(1) find_SomeD by fastforce
    obtain c g2 where u: "run_state (UpdateFolder (edited_folder b f)) g1 = (c, g2)" "idb g' = idb g2"
      using passed(2) fb by (auto simp: not_deleted_def ion_err_def lift_def split: prod.splits sum.splits)
    have "folder_tree (folders (idb g2))"
    proof (rule UpdateFolder_same_parent [OF u(1)])
      show "folder_tree (folders (idb g1))" using assms(2) get(1) by simp
      fix r assume "r \<in> set (folders (idb g1))" "fldID r = fldID (edited_folder b f)"
      then have "r = f" using assms(2) get(1) f by (auto simp: folder_tree_def folders_ok_def edited_folder_def distinct_map dest: inj_onD)
      then show "fldParentID r = fldParentID (edited_folder b f)" using assms(3) [OF fb(3)] by (simp add: edited_folder_def)
    qed
    then show ?thesis using u(2) by simp
  next
    case False
    then have "g' = g1" using passed(2) by (auto simp: not_deleted_def split: option.splits if_splits)
    then show ?thesis using get(1) assms(2) by simp
  qed
qed

text \<open>C37. Folders stay a forest: creating, listing, reading and deleting a folder, and updating one without moving it, keep identifiers unique,
  types known, every parent in the table and no folder inside itself, whatever statements fail. The identifier of a new folder is not
  known to its creator beforehand.\<close>

theorem folder_tree_kept:
  assumes "run_state m g = (a, g')" and "folder_tree (folders (idb g))"
    and "m \<in> {FolderHandler_Create cb r, FolderHandler_List r, FolderHandler_Get r, FolderHandler_Update ub r, FolderHandler_Delete r}"
    and "\<And>b. cb = Some b \<Longrightarrow> cfParentID b \<noteq> Some (uuids (base g) (uuid_draws (base g)))" and "\<And>b. ub = Some b \<Longrightarrow> ufParentID b = None"
  shows "folder_tree (folders (idb g'))"
proof -
  have reads: "keeps (on_folders folder_tree) (FolderHandler_List r)" "keeps (on_folders folder_tree) (FolderHandler_Get r)"
    "keeps (on_folders folder_tree) (FolderHandler_Delete r)"
    unfolding FolderHandler_List_def FolderHandler_Get_def FolderHandler_Delete_def by (intro keeps_rules)+
  consider (create) "m = FolderHandler_Create cb r" | (update) "m = FolderHandler_Update ub r" | (other) "keeps (on_folders folder_tree) m"
    using assms(3) reads by auto
  then show ?thesis
  proof cases
    case create
    show ?thesis
    proof (cases "\<exists>p b. ctxPrincipal r = Some p \<and> cb = Some b \<and> cfName b \<noteq> [] \<and> cfType b \<noteq> []")
      case False
      then have "idb g' = idb g" using assms(1) create by (auto simp: FolderHandler_Create_def with_principal_def split: option.splits if_splits)
      then show ?thesis using assms(2) by simp
    next
      case True
      then obtain p b where pb: "ctxPrincipal r = Some p" "cb = Some b" "cfName b \<noteq> []" "cfType b \<noteq> []" by blast
      let ?i = "uuids (base g) (uuid_draws (base g))" and ?t = "clock (base g)"
      let ?f = "\<lparr>fldID = ?i, fldOrgID = pathValue r ''orgID'', fldParentID = cfParentID b, fldTeamID = cfTeamID b, fldType = cfType b,
        fldName = cfName b, fldOrder = cfOrder b, fldCreatedBy = pUserID p, fldCreatedAt = ?t, fldUpdatedAt = ?t, fldDeletedAt = None\<rparr>"
      obtain c g1 where "run_state (CreateFolder ?f) (g\<lparr>base := (base g)\<lparr>uuid_draws := Suc (uuid_draws (base g))\<rparr>\<rparr>) = (c, g1)" "idb g' = idb g1"
        using assms(1) create pb
        by (auto simp: FolderHandler_Create_def with_principal_def lift_def now_def uuid_NewString_def ion_err_def Let_def split: prod.splits sum.splits)
      moreover have "keeps (on_folders folder_tree) (CreateFolder ?f)" using assms(4) [OF pb(2)] by (intro keeps_CreateFolder_tree) simp
      ultimately show ?thesis using kept [where I = "\<lambda>i. folder_tree (folders i)"] assms(2) unfolding on_folders_def by fastforce
    qed
  next
    case update
    then show ?thesis using FolderHandler_Update_same_parent assms(1,2,5) by blast
  next
    case other
    then show ?thesis using assms(1,2) by (auto simp: on_folders_def on_idb_def dest: hoareD)
  qed
qed

lemma parentsI: "f \<in> set fs \<Longrightarrow> fldParentID f = Some p \<Longrightarrow> (fldID f, p) \<in> parents fs"
  by (force simp: parents_def)

lemma parents_kept:
  assumes "(x, y) \<in> parents fs" and "\<And>r. P r \<Longrightarrow> fldID r \<noteq> x"
  shows "(x, y) \<in> parents (update_where P h fs)"
  using assms by (induction fs) (auto simp: parents_def)

lemma path_kept:
  assumes "(x, i) \<in> (parents fs)\<^sup>*" and "\<And>r. P r \<Longrightarrow> fldID r = i"
  shows "(x, i) \<in> (parents (update_where P h fs))\<^sup>*"
  using assms(1)
proof (induction rule: converse_rtrancl_induct)
  case (step x y)
  then show ?case
    by (cases "x = i") (use assms(2) in \<open>auto intro: converse_rtrancl_into_rtrancl parents_kept\<close>)
qed simp

text \<open>C38. Nothing keeps a folder out of itself: an update that names the folder itself, or any folder below it, as its parent is
  accepted, and the folder is then on a cycle, out of reach from the top.\<close>

theorem folder_moved_into_itself:
  assumes "faults (base g) = []" and "folders_ok (folders (idb g))" and "f \<in> set (folders (idb g))" and "fldDeletedAt f = None"
    and "pathValue r ''folderID'' = fldID f" and "below \<in> fldID ` set (folders (idb g))" and "(below, fldID f) \<in> (parents (folders (idb g)))\<^sup>*"
    and "refers tID (teams (db (base g))) (fldTeamID f)"
  shows "\<exists>a g'. run_state (FolderHandler_Update (Some \<lparr>ufName = None, ufParentID = Some below, ufTeamID = None, ufOrder = None\<rparr>) r) g = (a, g') \<and>
    rStatus a = 200 \<and> (fldID f, fldID f) \<in> (parents (folders (idb g')))\<^sup>+"
proof -
  let ?h = "\<lambda>r. r\<lparr>fldName := fldName f, fldOrder := fldOrder f, fldParentID := Some below, fldTeamID := fldTeamID f,
    fldUpdatedAt := clock (base g)\<rparr>"
  let ?fs = "update_where (live_folder (fldID f)) ?h (folders (idb g))"
  have get: "find (\<lambda>x. fldID x = fldID f) (folders (idb g)) = Some f"
    using assms(2,3) by (simp add: folders_ok_def find_Some_iff_key)
  have row: "\<exists>x\<in>set (folders (idb g)). live_folder (fldID f) x" using assms(3,4) by (auto simp: live_folder_def)
  have "\<exists>a. run_state (FolderHandler_Update (Some \<lparr>ufName = None, ufParentID = Some below, ufTeamID = None, ufOrder = None\<rparr>) r) g =
      (a, g\<lparr>idb := (idb g)\<lparr>folders := ?fs\<rparr>\<rparr>) \<and> rStatus a = 200"
    using assms(1,4,5,6,8) get row
    by (simp add: FolderHandler_Update_def ion_err_def GetFolder_def UpdateFolder_def edited_folder_def run_iwrap run_iquery_healthy run_txn_healthy
        not_deleted_def refers_Some lift_def now_def JSON_def) blast
  moreover have "(fldID f, fldID f) \<in> (parents ?fs)\<^sup>+"
  proof -
    have "?h f \<in> set ?fs" using assms(3,4) by (subst set_update_where) (rule UnI1, rule imageI, simp add: live_folder_def)
    from parentsI [OF this] have "(fldID f, below) \<in> parents ?fs" by simp
    moreover from assms(7) have "(below, fldID f) \<in> (parents ?fs)\<^sup>*" by (rule path_kept) (simp add: live_folder_def)
    ultimately show ?thesis by (rule rtrancl_into_trancl2)
  qed
  ultimately show ?thesis by auto
qed

section \<open>An example\<close>

definition ex_folder :: "string \<Rightarrow> string option \<Rightarrow> folder" where
  "ex_folder ident parent = \<lparr>fldID = ident, fldOrgID = ''g1'', fldParentID = parent, fldTeamID = None, fldType = ''diagram'', fldName = ident,
     fldOrder = 0, fldCreatedBy = ''u1'', fldCreatedAt = 1, fldUpdatedAt = 1, fldDeletedAt = None\<rparr>"

definition ex_folders :: "folder_db side" where
  "ex_folders = \<lparr>base = ex_world, idb = \<lparr>blobs = Map.empty, screenshot_jobs = [], folders = [ex_folder ''f1'' None, ex_folder ''f2'' (Some ''f1'')]\<rparr>\<rparr>"

definition ex_folder_request :: http_request where
  "ex_folder_request = ex_request\<lparr>pathValue := (\<lambda>k. if k = ''orgID'' then ''g1'' else if k = ''folderID'' then ''f1'' else []),
     ctxPrincipal := Some \<lparr>pKind = PrincipalUser, pUserID = ''u1'', pOrgID = ''g1'', pIsServerAdmin = False, pServiceAccountID = [], pScopes = [], pAuthProvider = []\<rparr>\<rparr>"

lemma ex_folders_ok: "folders_ok (folders (idb ex_folders))" "parents (folders (idb ex_folders)) = {(''f2'', ''f1'')}"
  by (auto simp: ex_folders_def folders_ok_def ex_folder_def folder_type_ok_def refers_def parents_def)

lemma ex_folder_tree: "folder_tree (folders (idb ex_folders))"
  using acyclic_insert [of "''f2''" "''f1''" "{}"] by (simp add: folder_tree_def ex_folders_ok acyclic_def)

theorem folder_tree_kept_witness:
  "folder_tree (folders (idb (snd (run_state (FolderHandler_Create (Some \<lparr>cfName = ''new'', cfType = ''doc'', cfParentID = Some ''f2'', cfTeamID = None,
     cfOrder = 0\<rparr>) ex_folder_request) ex_folders))))"
proof -
  let ?b = "Some \<lparr>cfName = ''new'', cfType = ''doc'', cfParentID = Some ''f2'', cfTeamID = None, cfOrder = 0\<rparr>"
  obtain a g' where run: "run_state (FolderHandler_Create ?b ex_folder_request) ex_folders = (a, g')" using surj_pair by metis
  have "folder_tree (folders (idb g'))"
    by (rule folder_tree_kept [OF run ex_folder_tree, where cb = ?b and ub = None and r = ex_folder_request]) (auto simp: ex_folders_def ex_world_def)
  then show ?thesis by (simp add: run)
qed

theorem folder_moved_into_itself_witness:
  "\<exists>a g'. run_state (FolderHandler_Update (Some \<lparr>ufName = None, ufParentID = Some ''f2'', ufTeamID = None, ufOrder = None\<rparr>) ex_folder_request) ex_folders = (a, g') \<and>
    rStatus a = 200 \<and> (''f1'', ''f1'') \<in> (parents (folders (idb g')))\<^sup>+"
proof -
  have f: "fldID (ex_folder ''f1'' None) = ''f1''" by (simp add: ex_folder_def)
  show ?thesis
  proof (rule folder_moved_into_itself [of ex_folders "ex_folder ''f1'' None" ex_folder_request "''f2''", unfolded f])
    show "(''f2'', ''f1'') \<in> (parents (folders (idb ex_folders)))\<^sup>*" by (simp add: ex_folders_ok r_into_rtrancl)
  qed (use ex_folders_ok in \<open>simp_all add: ex_folders_def ex_folder_def ex_folder_request_def refers_def\<close>)
qed

end
