(* ===== verification/DiagramStore.thy ===== *)
theory DiagramStore
  imports Folder UserHandler GoText
begin

text \<open>
  Diagrams, their versions and images (\<open>internal/diagram\<close>, \<open>internal/store/postgres/diagrams.go\<close>; migrations 0009, 0014, 0016, 0021, 0028,
  0041, 0049), the keys of their contents in the object storage and in the cache. The content of a diagram is an object, its row has the
  key and the hash. \<open>service_diagrams\<close> are the live pairs of a service and a diagram. A cached value may be gone at any time.
\<close>

section \<open>Rows\<close>

record diagram =
  dgID :: string
  dgOrgID :: string
  dgFolderID :: "string option"
  dgTeamID :: "string option"
  dgName :: string
  dgContentKey :: string
  dgContentHash :: string
  dgContentTokenCount :: int
  dgPreviewAssetID :: "string option"
  dgPreviewContentHash :: "string option"
  dgPreviewStatus :: string
  dgSource :: "string option"
  dgCreatedBy :: string
  dgUpdatedBy :: "string option"
  dgCreatedByCommitHash :: "string option"
  dgUpdatedByCommitHash :: "string option"
  dgCreatedAt :: time
  dgUpdatedAt :: time
  dgDeletedAt :: "time option"
  dgDeletedBy :: "string option"

record diagramVersion =
  dvID :: string
  dvDiagramID :: string
  dvVersionNumber :: int
  dvLabel :: "string option"
  dvContentKey :: string
  dvContentHash :: string
  dvIsAutoVersion :: bool
  dvSource :: "string option"
  dvCreatedBy :: string
  dvCreatedAt :: time

record diagramImage =
  diID :: string
  diDiagramID :: string
  diOrgID :: string
  diAssetID :: string
  diFileName :: "string option"
  diOrder :: int
  diCreatedBy :: string
  diCreatedAt :: time

record diagram_db = folder_db +
  diagrams :: "diagram list"
  diagram_versions :: "diagramVersion list"
  diagram_images :: "diagramImage list"
  service_diagrams :: "(string \<times> string) list"

type_synonym 'a dprog = "(diagram_db, 'a) sprog"

definition PreviewStatusPending :: string where "PreviewStatusPending = ''pending''"
definition PreviewStatusSuccess :: string where "PreviewStatusSuccess = ''success''"
definition PreviewStatusFailed :: string where "PreviewStatusFailed = ''failed''"

section \<open>Keys\<close>

definition DiagramContentKey :: "string \<Rightarrow> string \<Rightarrow> string" where
  "DiagramContentKey orgID diagramID = orgID @ ''/diagrams/'' @ diagramID @ ''/content.json''"

definition DiagramVersionKey :: "string \<Rightarrow> string \<Rightarrow> string \<Rightarrow> string" where
  "DiagramVersionKey orgID diagramID versionID = orgID @ ''/diagrams/'' @ diagramID @ ''/versions/'' @ versionID @ ''.json''"

definition DiagramThumbnailAssetID :: "string \<Rightarrow> string" where
  "DiagramThumbnailAssetID diagramID = ''diagram_'' @ diagramID"

definition NewFileAssetID :: "string prog" where
  "NewFileAssetID = State_Monad.bind uuid_NewString (\<lambda>i. ret (''file_'' @ i))"

definition cache_DiagramContentKey :: "string \<Rightarrow> string" where
  "cache_DiagramContentKey diagramID = ''diagram:content:'' @ diagramID"

section \<open>The cache\<close>

text \<open>An error of the cache reads like a missing key; \<open>_ = cache.Set(...)\<close> ignores one.\<close>

definition cache_Get :: "string \<Rightarrow> string option prog" where
  "cache_Get key = State (\<lambda>w. (if next_fault w = Healthy then cache w key else None, w\<lparr>faults := tl (faults w)\<rparr>))"

definition cache_Set :: "string \<Rightarrow> string \<Rightarrow> unit prog" where
  "cache_Set key v = State (\<lambda>w.
     let w' = w\<lparr>faults := tl (faults w)\<rparr>
     in ((), if next_fault w = Lost then w' else w'\<lparr>cache := (cache w)(key \<mapsto> v)\<rparr>))"

section \<open>Diagrams\<close>

definition CreateDiagram :: "diagram \<Rightarrow> unit result dprog" where
  "CreateDiagram dg = iwrap ''postgres: CreateDiagram: %w'' (txn (\<lambda>now d i.
     let row = dg\<lparr>dgCreatedAt := if dgCreatedAt dg = 0 then now else dgCreatedAt dg, dgUpdatedAt := if dgUpdatedAt dg = 0 then now else dgUpdatedAt dg,
                  dgPreviewStatus := if dgPreviewStatus dg = [] then PreviewStatusPending else dgPreviewStatus dg,
                  dgDeletedAt := None, dgDeletedBy := None\<rparr> in
     if exists_row (\<lambda>r. dgID r = dgID dg) (diagrams i) then Inl (UniqueViolation ''diagrams_pkey'')
     else if \<not> exists_row (\<lambda>r. oID r = dgOrgID dg) (orgs d) then Inl (ForeignKeyViolation ''diagrams_org_id_fkey'')
     else if \<not> refers fldID (folders i) (dgFolderID dg) then Inl (ForeignKeyViolation ''diagrams_folder_id_fkey'')
     else if \<not> refers tID (teams d) (dgTeamID dg) then Inl (ForeignKeyViolation ''diagrams_team_id_fkey'')
     else Inr ((), d, i\<lparr>diagrams := diagrams i @ [row]\<rparr>)))"

definition GetDiagram :: "string \<Rightarrow> diagram option result dprog" where
  "GetDiagram ident = iwrap ''postgres: GetDiagram: %w'' (iquery (\<lambda>now d i. Inr (List.find (\<lambda>r. dgID r = ident) (diagrams i))))"

record listParams =
  lpFolderID :: "string option"
  lpTeamID :: "string option"
  lpServiceID :: "string option"
  lpSearch :: "string option"
  lpSortBy :: string
  lpSortDir :: string
  lpLimit :: int
  lpOffset :: int

definition no_params :: listParams where
  "no_params = \<lparr>lpFolderID = None, lpTeamID = None, lpServiceID = None, lpSearch = None, lpSortBy = [], lpSortDir = [], lpLimit = 0, lpOffset = 0\<rparr>"

text \<open>\<open>LIKE\<close> of the server: \<open>%\<close> is any text, \<open>_\<close> any character, and a backslash takes the next character as it is.\<close>

fun sql_like :: "string \<Rightarrow> string \<Rightarrow> bool" where
  "sql_like [] s = (s = [])"
| "sql_like (c # p) s =
     (if c = CHR ''%'' then sql_like p s \<or> (case s of [] \<Rightarrow> False | _ # s' \<Rightarrow> sql_like (c # p) s')
      else if c = CHR ''_'' then (case s of [] \<Rightarrow> False | _ # s' \<Rightarrow> sql_like p s')
      else if c = CHR 0x5C then (case p of [] \<Rightarrow> False | e # p' \<Rightarrow> (case s of [] \<Rightarrow> False | x # s' \<Rightarrow> x = e \<and> sql_like p' s'))
      else (case s of [] \<Rightarrow> False | x # s' \<Rightarrow> x = c \<and> sql_like p s'))"

definition ilike :: "string \<Rightarrow> string \<Rightarrow> bool" where
  "ilike s pat = sql_like (ToLower pat) (ToLower s)"

definition given_eq :: "'a option \<Rightarrow> 'a option \<Rightarrow> bool" where
  "given_eq want have_it = (case want of None \<Rightarrow> True | Some x \<Rightarrow> have_it = Some x)"

definition listed :: "diagram_db \<Rightarrow> string \<Rightarrow> listParams \<Rightarrow> diagram \<Rightarrow> bool" where
  "listed i orgID p r \<longleftrightarrow> dgOrgID r = orgID \<and> dgDeletedAt r = None \<and> given_eq (lpFolderID p) (dgFolderID r) \<and> given_eq (lpTeamID p) (dgTeamID r) \<and>
     (case lpServiceID p of None \<Rightarrow> True | Some s \<Rightarrow> (s, dgID r) \<in> set (service_diagrams i)) \<and>
     (case lpSearch p of None \<Rightarrow> True | Some q \<Rightarrow> q = [] \<or> ilike (dgName r) (''%'' @ q @ ''%''))"

definition in_direction :: "string \<Rightarrow> ('a \<Rightarrow> 'k::linorder) \<Rightarrow> 'a list \<Rightarrow> 'a list" where
  "in_direction dir k rows = (if EqualFold dir ''asc'' then sort_key k rows else rev (sort_key k (rev rows)))"

definition page :: "int \<Rightarrow> int \<Rightarrow> 'a list \<Rightarrow> 'a list" where
  "page limit offset rows = (if limit > 0 then take (nat limit) (drop (nat offset) rows) else rows)"

definition ListDiagrams :: "string \<Rightarrow> listParams \<Rightarrow> (diagram list \<times> int) result dprog" where
  "ListDiagrams orgID p =
     State_Monad.bind (lift collate) (\<lambda>key.
     ibindE (iwrap ''postgres: ListDiagrams count: %w'' (iquery (\<lambda>now d i. Inr (int (length (filter (listed i orgID p) (diagrams i))))))) (\<lambda>total.
     ibindE (iwrap ''postgres: ListDiagrams: %w'' (iquery (\<lambda>now d i.
       let rows = filter (listed i orgID p) (diagrams i) in
       Inr (page (lpLimit p) (lpOffset p)
         (if lpSortBy p = ''name'' then in_direction (lpSortDir p) (\<lambda>r. key (dgName r)) rows
          else if lpSortBy p = ''updated'' then in_direction (lpSortDir p) dgUpdatedAt rows
          else in_direction (lpSortDir p) dgCreatedAt rows))))) (\<lambda>rows.
     ret (Inr (rows, total)))))"

definition live_diagram :: "string \<Rightarrow> diagram \<Rightarrow> bool" where
  "live_diagram ident r \<longleftrightarrow> dgID r = ident \<and> dgDeletedAt r = None"

definition written :: "diagram \<Rightarrow> time \<Rightarrow> diagram \<Rightarrow> diagram" where
  "written dg t r = r\<lparr>dgName := dgName dg, dgFolderID := dgFolderID dg, dgTeamID := dgTeamID dg, dgContentKey := dgContentKey dg,
     dgContentHash := dgContentHash dg, dgContentTokenCount := dgContentTokenCount dg, dgPreviewAssetID := dgPreviewAssetID dg,
     dgPreviewContentHash := dgPreviewContentHash dg, dgPreviewStatus := dgPreviewStatus dg, dgSource := dgSource dg,
     dgUpdatedBy := dgUpdatedBy dg, dgUpdatedByCommitHash := dgUpdatedByCommitHash dg, dgUpdatedAt := t\<rparr>"

definition UpdateDiagram :: "diagram \<Rightarrow> unit result dprog" where
  "UpdateDiagram dg = iwrap ''postgres: UpdateDiagram: %w'' (txn (\<lambda>now d i.
     if \<not> exists_row (live_diagram (dgID dg)) (diagrams i) then Inr ((), d, i)
     else if \<not> refers fldID (folders i) (dgFolderID dg) then Inl (ForeignKeyViolation ''diagrams_folder_id_fkey'')
     else if \<not> refers tID (teams d) (dgTeamID dg) then Inl (ForeignKeyViolation ''diagrams_team_id_fkey'')
     else Inr ((), d, i\<lparr>diagrams := update_where (live_diagram (dgID dg)) (written dg now) (diagrams i)\<rparr>)))"

definition SetDiagramPreviewStatus :: "string \<Rightarrow> string \<Rightarrow> unit result dprog" where
  "SetDiagramPreviewStatus ident status = iwrap ''postgres: SetDiagramPreviewStatus: %w'' (istmt (\<lambda>now i. Inr ((), i\<lparr>diagrams :=
     update_where (live_diagram ident) (\<lambda>r. r\<lparr>dgPreviewStatus := status\<rparr>) (diagrams i)\<rparr>)))"

definition SoftDeleteDiagram :: "string \<Rightarrow> string \<Rightarrow> unit result dprog" where
  "SoftDeleteDiagram ident deletedBy = iwrap ''postgres: SoftDeleteDiagram: %w'' (istmt (\<lambda>now i. Inr ((), i\<lparr>diagrams :=
     update_where (live_diagram ident) (\<lambda>r. r\<lparr>dgDeletedAt := Some now, dgDeletedBy := Some deletedBy\<rparr>) (diagrams i)\<rparr>)))"

section \<open>Versions and images\<close>

definition CreateDiagramVersion :: "diagramVersion \<Rightarrow> unit result dprog" where
  "CreateDiagramVersion v = iwrap ''postgres: CreateDiagramVersion: %w'' (istmt (\<lambda>now i.
     if exists_row (\<lambda>r. dvID r = dvID v) (diagram_versions i) then Inl (UniqueViolation ''diagram_versions_pkey'')
     else if exists_row (\<lambda>r. dvDiagramID r = dvDiagramID v \<and> dvVersionNumber r = dvVersionNumber v) (diagram_versions i)
       then Inl (UniqueViolation ''diagram_versions_diagram_id_version_number_key'')
     else if \<not> exists_row (\<lambda>r. dgID r = dvDiagramID v) (diagrams i) then Inl (ForeignKeyViolation ''diagram_versions_diagram_id_fkey'')
     else Inr ((), i\<lparr>diagram_versions := diagram_versions i @ [v\<lparr>dvCreatedAt := if dvCreatedAt v = 0 then now else dvCreatedAt v\<rparr>]\<rparr>)))"

definition GetDiagramVersion :: "string \<Rightarrow> diagramVersion option result dprog" where
  "GetDiagramVersion ident = iwrap ''postgres: GetDiagramVersion: %w'' (iquery (\<lambda>now d i.
     Inr (List.find (\<lambda>v. dvID v = ident) (diagram_versions i))))"

definition ListDiagramVersions :: "string \<Rightarrow> diagramVersion list result dprog" where
  "ListDiagramVersions diagramID = iwrap ''postgres: ListDiagramVersions: %w'' (iquery (\<lambda>now d i.
     Inr (sort_key (\<lambda>v. - dvVersionNumber v) (filter (\<lambda>v. dvDiagramID v = diagramID) (diagram_versions i)))))"

definition latest_version :: "string \<Rightarrow> diagramVersion list \<Rightarrow> int" where
  "latest_version diagramID vs =
     (let ns = map dvVersionNumber (filter (\<lambda>v. dvDiagramID v = diagramID) vs) in if ns = [] then 0 else Max (set ns))"

definition LatestVersionNumber :: "string \<Rightarrow> int result dprog" where
  "LatestVersionNumber diagramID = iwrap ''postgres: LatestVersionNumber: %w'' (iquery (\<lambda>now d i.
     Inr (latest_version diagramID (diagram_versions i))))"

definition CreateDiagramImage :: "diagramImage \<Rightarrow> unit result dprog" where
  "CreateDiagramImage img = iwrap ''postgres: CreateDiagramImage: %w'' (txn (\<lambda>now d i.
     if exists_row (\<lambda>r. diID r = diID img) (diagram_images i) then Inl (UniqueViolation ''diagram_images_pkey'')
     else if \<not> exists_row (\<lambda>r. dgID r = diDiagramID img) (diagrams i) then Inl (ForeignKeyViolation ''diagram_images_diagram_id_fkey'')
     else if \<not> exists_row (\<lambda>r. oID r = diOrgID img) (orgs d) then Inl (ForeignKeyViolation ''diagram_images_org_id_fkey'')
     else Inr ((), d, i\<lparr>diagram_images := diagram_images i @ [img\<lparr>diCreatedAt := if diCreatedAt img = 0 then now else diCreatedAt img\<rparr>]\<rparr>)))"

definition ListDiagramImages :: "string \<Rightarrow> diagramImage list result dprog" where
  "ListDiagramImages diagramID = iwrap ''postgres: ListDiagramImages: %w'' (iquery (\<lambda>now d i.
     Inr (sort_key diOrder (sort_key diCreatedAt (filter (\<lambda>m. diDiagramID m = diagramID) (diagram_images i))))))"

end
