(* ===== verification/DiagramHandler.thy ===== *)
theory DiagramHandler
  imports DiagramStore
begin

text \<open>
  The handlers of diagrams, versions and images (\<open>internal/api/diagram\<close>: \<open>diagram.go\<close>, \<open>version.go\<close>, \<open>image.go\<close>). The cache, the queue and the
  client of the billing service may be absent; the object storage is there. An uploaded file is an argument, \<open>None\<close> when the form has none.
\<close>

section \<open>Helpers (diagram.go)\<close>

record diagram_handler =
  dhEnterprise :: enterprise_client
  dhHasCache :: bool
  dhHasQueue :: bool
  dhPresign :: "string \<Rightarrow> string result"

type_synonym dhandler = "http_request \<Rightarrow> response dprog"

definition sha256Hex :: "string \<Rightarrow> string" where
  "sha256Hex s = hex_encode (Sum256 (map byte_of_char s))"

definition uploadContent :: "string \<Rightarrow> string \<Rightarrow> unit result dprog" where
  "uploadContent key content = Upload key content"

definition downloadContent :: "string \<Rightarrow> string result dprog" where
  "downloadContent key = Download key"

definition cacheGet :: "diagram_handler \<Rightarrow> string \<Rightarrow> string option dprog" where
  "cacheGet h ident = (if \<not> dhHasCache h then ret None else lift (cache_Get (cache_DiagramContentKey ident)))"

definition cacheSet :: "diagram_handler \<Rightarrow> string \<Rightarrow> string \<Rightarrow> unit dprog" where
  "cacheSet h ident content = (if \<not> dhHasCache h then ret () else lift (cache_Set (cache_DiagramContentKey ident) content))"

definition cacheDel :: "diagram_handler \<Rightarrow> string \<Rightarrow> unit dprog" where
  "cacheDel h ident = (if \<not> dhHasCache h then ret () else lift (cache_Del (cache_DiagramContentKey ident)))"

definition forget_asset :: "diagram_handler \<Rightarrow> string \<Rightarrow> unit dprog" where
  "forget_asset h assetID = (if \<not> dhHasCache h then ret () else lift (cache_Del (AssetURLKey assetID)))"

definition getContent :: "diagram_handler \<Rightarrow> string \<Rightarrow> string \<Rightarrow> string result dprog" where
  "getContent h ident key = State_Monad.bind (cacheGet h ident) (\<lambda>cached.
     case cached of
       Some content \<Rightarrow> ret (Inr content)
     | None \<Rightarrow> ibindE (downloadContent key) (\<lambda>content.
         State_Monad.bind (cacheSet h ident content) (\<lambda>_. ret (Inr content))))"

definition enqueueScreenshotErr :: "string \<Rightarrow> string \<Rightarrow> unit result dprog" where
  "enqueueScreenshotErr orgID diagramID = ibindE (EnqueueScreenshot \<lparr>sjOrgID = orgID, sjDiagramID = diagramID\<rparr>) (\<lambda>_.
     SetDiagramPreviewStatus diagramID PreviewStatusPending)"

text \<open>An error is logged only.\<close>

definition enqueueScreenshot :: "diagram_handler \<Rightarrow> string \<Rightarrow> string \<Rightarrow> unit dprog" where
  "enqueueScreenshot h orgID diagramID =
     (if \<not> dhHasQueue h then ret () else State_Monad.bind (enqueueScreenshotErr orgID diagramID) (\<lambda>_. ret ()))"

definition diagram_limit :: "diagram_handler \<Rightarrow> string \<Rightarrow> response dprog \<Rightarrow> response dprog" where
  "diagram_limit h orgID k =
     (if dhEnterprise h = None then k
      else ion_err (ListDiagrams orgID (no_params\<lparr>lpLimit := 1\<rparr>)) (\<lambda>(_, total).
        case ResourceLimitReached (dhEnterprise h) orgID ''diagram'' total slMaxDiagrams of
          Some resp \<Rightarrow> ret resp
        | None \<Rightarrow> k))"

section \<open>JSON\<close>

definition diagram_fields :: "diagram \<Rightarrow> (string \<times> json) list" where
  "diagram_fields dg = [(''id'', JStr (dgID dg)), (''orgId'', JStr (dgOrgID dg))] @ omit_opt ''folderId'' JStr (dgFolderID dg) @
     omit_opt ''teamId'' JStr (dgTeamID dg) @ [(''name'', JStr (dgName dg)), (''contentKey'', JStr (dgContentKey dg)), (''contentHash'', JStr (dgContentHash dg)),
     (''contentTokenCount'', JInt (dgContentTokenCount dg))] @ omit_opt ''previewAssetId'' JStr (dgPreviewAssetID dg) @
     omit_opt ''previewContentHash'' JStr (dgPreviewContentHash dg) @ [(''previewStatus'', JStr (dgPreviewStatus dg))] @
     omit_opt ''source'' JStr (dgSource dg) @ [(''createdBy'', JStr (dgCreatedBy dg))] @ omit_opt ''updatedBy'' JStr (dgUpdatedBy dg) @
     omit_opt ''createdByCommitHash'' JStr (dgCreatedByCommitHash dg) @ omit_opt ''updatedByCommitHash'' JStr (dgUpdatedByCommitHash dg) @
     [(''createdAt'', JTime (dgCreatedAt dg)), (''updatedAt'', JTime (dgUpdatedAt dg))] @ omit_opt ''deletedAt'' JTime (dgDeletedAt dg) @
     omit_opt ''deletedBy'' JStr (dgDeletedBy dg)"

definition diagram_json :: "diagram \<Rightarrow> json" where
  "diagram_json dg = JObj (diagram_fields dg)"

definition diagram_version_json :: "diagramVersion \<Rightarrow> json" where
  "diagram_version_json v = JObj ([(''id'', JStr (dvID v)), (''diagramId'', JStr (dvDiagramID v)), (''versionNumber'', JInt (dvVersionNumber v))] @
     omit_opt ''label'' JStr (dvLabel v) @ [(''contentKey'', JStr (dvContentKey v)), (''contentHash'', JStr (dvContentHash v)),
     (''isAutoVersion'', JBool (dvIsAutoVersion v))] @ omit_opt ''source'' JStr (dvSource v) @
     [(''createdBy'', JStr (dvCreatedBy v)), (''createdAt'', JTime (dvCreatedAt v))])"

definition image_json :: "diagramImage \<Rightarrow> json" where
  "image_json m = JObj ([(''diagramImageId'', JStr (diID m)), (''diagramId'', JStr (diDiagramID m)), (''orgId'', JStr (diOrgID m)),
     (''assetId'', JStr (diAssetID m))] @ omit_opt ''fileName'' JStr (diFileName m) @ [(''order'', JInt (diOrder m)),
     (''createdBy'', JStr (diCreatedBy m)), (''createdAt'', JTime (diCreatedAt m))])"

definition content_answer :: "string \<Rightarrow> string \<Rightarrow> response" where
  "content_answer ident content = JSON 200 (JObj [(''diagramId'', JStr ident), (''content'', JStr content)])"

definition diagram_sync_answer :: "nat \<Rightarrow> string \<Rightarrow> bool \<Rightarrow> response" where
  "diagram_sync_answer status ident created = JSON status (JObj [(''diagramId'', JStr ident), (''versionCreated'', JBool created)])"

section \<open>Diagrams (diagram.go)\<close>

definition some_text :: "string \<Rightarrow> string option" where
  "some_text v = (if v = [] then None else Some v)"

definition list_params :: "http_request \<Rightarrow> listParams" where
  "list_params r = \<lparr>lpFolderID = some_text (queryValue r ''folderId''), lpTeamID = some_text (queryValue r ''teamId''),
     lpServiceID = some_text (queryValue r ''serviceId''), lpSearch = some_text (queryValue r ''search''),
     lpSortBy = queryValue r ''sortBy'', lpSortDir = queryValue r ''sortDir'',
     lpLimit = (if queryValue r ''limit'' \<noteq> [] then ListLimit (queryValue r ''limit'') else 0),
     lpOffset = (if queryValue r ''limit'' \<noteq> [] then ListOffset (queryValue r ''offset'') else 0)\<rparr>"

definition DiagramHandler_List :: dhandler where
  "DiagramHandler_List r = ion_err (ListDiagrams (pathValue r ''orgID'') (list_params r)) (\<lambda>(rows, total).
     ret (JSON 200 (JObj [(''diagrams'', slice_json diagram_json rows), (''total'', JInt total)])))"

record diagramBody =
  dbDiagramID :: "string option"
  dbName :: string
  dbFolderID :: "string option"
  dbTeamID :: "string option"
  dbSource :: "string option"
  dbCommitHash :: "string option"
  dbContent :: string

definition new_diagram :: "diagramBody \<Rightarrow> string \<Rightarrow> string \<Rightarrow> string \<Rightarrow> time \<Rightarrow> diagram" where
  "new_diagram b orgID ident userID t = \<lparr>dgID = ident, dgOrgID = orgID, dgFolderID = dbFolderID b, dgTeamID = dbTeamID b, dgName = dbName b,
     dgContentKey = DiagramContentKey orgID ident, dgContentHash = sha256Hex (dbContent b), dgContentTokenCount = 0, dgPreviewAssetID = None,
     dgPreviewContentHash = None, dgPreviewStatus = [], dgSource = dbSource b, dgCreatedBy = userID, dgUpdatedBy = None,
     dgCreatedByCommitHash = dbCommitHash b, dgUpdatedByCommitHash = dbCommitHash b, dgCreatedAt = t, dgUpdatedAt = t, dgDeletedAt = None, dgDeletedBy = None\<rparr>"

definition first_version :: "diagram \<Rightarrow> string \<Rightarrow> string \<Rightarrow> bool \<Rightarrow> diagramVersion" where
  "first_version dg versionID key auto = \<lparr>dvID = versionID, dvDiagramID = dgID dg, dvVersionNumber = 1, dvLabel = None, dvContentKey = key,
     dvContentHash = dgContentHash dg, dvIsAutoVersion = auto, dvSource = dgSource dg, dvCreatedBy = dgCreatedBy dg, dvCreatedAt = dgCreatedAt dg\<rparr>"

definition DiagramHandler_Create :: "diagram_handler \<Rightarrow> diagramBody option \<Rightarrow> dhandler" where
  "DiagramHandler_Create h body r = with_principal r (\<lambda>p.
     case body of
       None \<Rightarrow> ret (BadRequest (JStr ''invalid request body''))
     | Some b \<Rightarrow>
         if dbName b = [] \<or> dbContent b = [] then ret (BadRequest (JStr ''name and content are required''))
         else
           (let orgID = pathValue r ''orgID'' in
            diagram_limit h orgID (
              State_Monad.bind (lift uuid_NewString) (\<lambda>ident.
              ion_err (uploadContent (DiagramContentKey orgID ident) (dbContent b)) (\<lambda>_.
              State_Monad.bind (lift now) (\<lambda>t.
                let dg = new_diagram b orgID ident (pUserID p) t in
                ion_err (CreateDiagram dg) (\<lambda>_.
                State_Monad.bind (lift uuid_NewString) (\<lambda>versionID.
                  let vKey = DiagramVersionKey orgID ident versionID in
                  ion_err (uploadContent vKey (dbContent b)) (\<lambda>_.
                  State_Monad.bind (CreateDiagramVersion (first_version dg versionID vKey (dbSource b \<noteq> None))) (\<lambda>_.
                  State_Monad.bind (cacheSet h ident (dbContent b)) (\<lambda>_.
                  State_Monad.bind (enqueueScreenshot h orgID ident) (\<lambda>_.
                    ret (JSON 201 (diagram_json dg))))))))))))))"

definition DiagramHandler_Get :: "diagram_handler \<Rightarrow> dhandler" where
  "DiagramHandler_Get h r = ion_err (GetDiagram (pathValue r ''diagramID'')) (\<lambda>dg. not_deleted dgDeletedAt dg (\<lambda>dg.
     if queryValue r ''includeContent'' = ''true'' then
       ion_err (getContent h (dgID dg) (dgContentKey dg)) (\<lambda>content.
         ret (JSON 200 (JObj (diagram_fields dg @ [(''content'', JStr content)]))))
     else ret (JSON 200 (diagram_json dg))))"

definition DiagramHandler_GetContent :: "diagram_handler \<Rightarrow> dhandler" where
  "DiagramHandler_GetContent h r =
     (let ident = pathValue r ''diagramID'' in
      State_Monad.bind (cacheGet h ident) (\<lambda>cached.
        case cached of
          Some content \<Rightarrow> ret (content_answer ident content)
        | None \<Rightarrow> ion_err (GetDiagram ident) (\<lambda>dg. not_deleted dgDeletedAt dg (\<lambda>dg.
            ion_err (downloadContent (dgContentKey dg)) (\<lambda>content.
            State_Monad.bind (cacheSet h ident content) (\<lambda>_. ret (content_answer ident content)))))))"

record updateDiagramBody =
  udName :: "string option"
  udFolderID :: "string option"
  udTeamID :: "string option"
  udSource :: "string option"
  udCommitHash :: "string option"
  udContent :: "string option"

definition edited_diagram :: "updateDiagramBody \<Rightarrow> string \<Rightarrow> diagram \<Rightarrow> diagram" where
  "edited_diagram b userID dg = dg
     \<lparr>dgName := (case udName b of Some n \<Rightarrow> n | None \<Rightarrow> dgName dg),
      dgFolderID := (case udFolderID b of Some x \<Rightarrow> Some x | None \<Rightarrow> dgFolderID dg),
      dgTeamID := (case udTeamID b of Some x \<Rightarrow> Some x | None \<Rightarrow> dgTeamID dg),
      dgSource := (case udSource b of Some x \<Rightarrow> Some x | None \<Rightarrow> dgSource dg),
      dgUpdatedBy := Some userID, dgUpdatedByCommitHash := udCommitHash b\<rparr>"

definition DiagramHandler_Update :: "diagram_handler \<Rightarrow> updateDiagramBody option \<Rightarrow> dhandler" where
  "DiagramHandler_Update h body r = with_principal r (\<lambda>p.
     let ident = pathValue r ''diagramID'' in
     ion_err (GetDiagram ident) (\<lambda>dg. not_deleted dgDeletedAt dg (\<lambda>dg.
       case body of
         None \<Rightarrow> ret (BadRequest (JStr ''invalid request body''))
       | Some b \<Rightarrow>
           (let dg = edited_diagram b (pUserID p) dg in
            case udContent b of
              Some content \<Rightarrow>
                if sha256Hex content \<noteq> dgContentHash dg then
                  ion_err (uploadContent (dgContentKey dg) content) (\<lambda>_.
                    let dg = dg\<lparr>dgContentHash := sha256Hex content\<rparr> in
                    State_Monad.bind (cacheDel h ident) (\<lambda>_.
                    ion_err (UpdateDiagram dg) (\<lambda>_.
                    State_Monad.bind (enqueueScreenshot h (dgOrgID dg) (dgID dg)) (\<lambda>_. ret (JSON 200 (diagram_json dg))))))
                else ion_err (UpdateDiagram dg) (\<lambda>_. ret (JSON 200 (diagram_json dg)))
            | None \<Rightarrow> ion_err (UpdateDiagram dg) (\<lambda>_. ret (JSON 200 (diagram_json dg)))))))"

definition DiagramHandler_Delete :: "diagram_handler \<Rightarrow> dhandler" where
  "DiagramHandler_Delete h r = with_principal r (\<lambda>p.
     let ident = pathValue r ''diagramID'' in
     ion_err (SoftDeleteDiagram ident (pUserID p)) (\<lambda>_.
     State_Monad.bind (cacheDel h ident) (\<lambda>_. ret NoContent)))"

text \<open>\<open>latestVer, _ := h.store.LatestVersionNumber(...)\<close>: an error reads as 0.\<close>

definition latestVer :: "string \<Rightarrow> int dprog" where
  "latestVer ident = State_Monad.bind (LatestVersionNumber ident) (\<lambda>n. ret (case n of Inl _ \<Rightarrow> 0 | Inr n \<Rightarrow> n))"

text \<open>\<open>if err := h.uploadContent(...); err == nil { _ = h.store.CreateDiagramVersion(...) }\<close>\<close>

definition record_version :: "string \<Rightarrow> diagramVersion \<Rightarrow> unit dprog" where
  "record_version content v = State_Monad.bind (uploadContent (dvContentKey v) content) (\<lambda>r.
     case r of
       Inl _ \<Rightarrow> ret ()
     | Inr _ \<Rightarrow> State_Monad.bind (CreateDiagramVersion v) (\<lambda>_. ret ()))"

text \<open>The auto-version of a sync and of a restore.\<close>

definition auto_version :: "string \<Rightarrow> string \<Rightarrow> string \<Rightarrow> string \<Rightarrow> string option \<Rightarrow> string \<Rightarrow> unit dprog" where
  "auto_version orgID ident content hash source userID =
     State_Monad.bind (latestVer ident) (\<lambda>latest.
     State_Monad.bind (lift uuid_NewString) (\<lambda>versionID.
     State_Monad.bind (lift now) (\<lambda>t.
       record_version content \<lparr>dvID = versionID, dvDiagramID = ident, dvVersionNumber = latest + 1, dvLabel = None,
         dvContentKey = DiagramVersionKey orgID ident versionID, dvContentHash = hash, dvIsAutoVersion = True, dvSource = source,
         dvCreatedBy = userID, dvCreatedAt = t\<rparr>)))"

definition sync_existing :: "diagram_handler \<Rightarrow> diagramBody \<Rightarrow> principal \<Rightarrow> string \<Rightarrow> diagram \<Rightarrow> response dprog" where
  "sync_existing h b p orgID dg =
     (let newHash = sha256Hex (dbContent b) in
      if newHash = dgContentHash dg then ret (diagram_sync_answer 200 (dgID dg) False)
      else
        ion_err (uploadContent (dgContentKey dg) (dbContent b)) (\<lambda>_.
          let dg = dg\<lparr>dgContentHash := newHash, dgSource := dbSource b, dgUpdatedBy := Some (pUserID p), dgUpdatedByCommitHash := dbCommitHash b\<rparr> in
          ion_err (UpdateDiagram dg) (\<lambda>_.
          State_Monad.bind (cacheDel h (dgID dg)) (\<lambda>_.
          State_Monad.bind (auto_version orgID (dgID dg) (dbContent b) newHash (dbSource b) (pUserID p)) (\<lambda>_.
          State_Monad.bind (enqueueScreenshot h orgID (dgID dg)) (\<lambda>_.
            ret (diagram_sync_answer 200 (dgID dg) True)))))))"

definition sync_new :: "diagram_handler \<Rightarrow> diagramBody \<Rightarrow> principal \<Rightarrow> string \<Rightarrow> response dprog" where
  "sync_new h b p orgID = diagram_limit h orgID (
     State_Monad.bind (lift uuid_NewString) (\<lambda>ident.
     ion_err (uploadContent (DiagramContentKey orgID ident) (dbContent b)) (\<lambda>_.
     State_Monad.bind (lift now) (\<lambda>t.
       let dg = new_diagram b orgID ident (pUserID p) t in
       ion_err (CreateDiagram dg) (\<lambda>_.
       State_Monad.bind (lift uuid_NewString) (\<lambda>versionID.
       State_Monad.bind (record_version (dbContent b) (first_version dg versionID (DiagramVersionKey orgID ident versionID) True)) (\<lambda>_.
       State_Monad.bind (enqueueScreenshot h orgID ident) (\<lambda>_.
         ret (diagram_sync_answer 201 ident True)))))))))"

definition DiagramHandler_Sync :: "diagram_handler \<Rightarrow> diagramBody option \<Rightarrow> dhandler" where
  "DiagramHandler_Sync h body r = with_principal r (\<lambda>p.
     case body of
       None \<Rightarrow> ret (BadRequest (JStr ''invalid request body''))
     | Some b \<Rightarrow>
         if dbName b = [] \<or> dbContent b = [] then ret (BadRequest (JStr ''name and content are required''))
         else
           (case dbDiagramID b of
              Some ident \<Rightarrow> ion_err (GetDiagram ident) (\<lambda>dg. not_deleted dgDeletedAt dg (\<lambda>dg.
                sync_existing h b p (pathValue r ''orgID'') dg))
            | None \<Rightarrow> sync_new h b p (pathValue r ''orgID'')))"

section \<open>Thumbnails (diagram.go)\<close>

definition DiagramHandler_UpdateThumbnail :: "diagram_handler \<Rightarrow> string result option \<Rightarrow> dhandler" where
  "DiagramHandler_UpdateThumbnail h file r = with_principal r (\<lambda>p.
     let ident = pathValue r ''diagramID'' in
     ion_err (GetDiagram ident) (\<lambda>dg. not_deleted dgDeletedAt dg (\<lambda>dg.
       case file of
         None \<Rightarrow> ret (BadRequest (JStr ''missing file''))
       | Some (Inl e) \<Rightarrow> ret (Error e)
       | Some (Inr raw) \<Rightarrow>
           (let assetID = DiagramThumbnailAssetID ident; hash = sha256Hex raw in
            ion_err (Upload (AssetKey assetID) raw) (\<lambda>_.
            ion_err (UpdateDiagram (dg\<lparr>dgPreviewAssetID := Some assetID, dgPreviewContentHash := Some hash, dgUpdatedBy := Some (pUserID p)\<rparr>)) (\<lambda>_.
            State_Monad.bind (forget_asset h assetID) (\<lambda>_.
              ret (JSON 200 (JObj [(''assetId'', JStr assetID), (''previewContentHash'', JStr hash)])))))))))"

definition own_diagram :: "http_request \<Rightarrow> (principal \<Rightarrow> diagram \<Rightarrow> response dprog) \<Rightarrow> response dprog" where
  "own_diagram r k = with_principal r (\<lambda>p.
     ion_err (GetDiagram (pathValue r ''diagramID'')) (\<lambda>dg. not_deleted dgDeletedAt dg (\<lambda>dg.
       if dgOrgID dg \<noteq> pathValue r ''orgID'' then ret (Error StoreErrNotFound) else k p dg)))"

definition DiagramHandler_PrepareThumbnailUpload :: "diagram_handler \<Rightarrow> dhandler" where
  "DiagramHandler_PrepareThumbnailUpload h r = own_diagram r (\<lambda>p dg.
     let assetID = DiagramThumbnailAssetID (pathValue r ''diagramID'') in
     case dhPresign h (AssetKey assetID) of
       Inl e \<Rightarrow> ret (Error e)
     | Inr url \<Rightarrow> ret (JSON 200 (JObj [(''uploadUrl'', JStr url), (''assetId'', JStr assetID)])))"

definition DiagramHandler_ConfirmThumbnailUpload :: "diagram_handler \<Rightarrow> string option \<Rightarrow> dhandler" where
  "DiagramHandler_ConfirmThumbnailUpload h contentHash r = own_diagram r (\<lambda>p dg.
     case contentHash of
       None \<Rightarrow> ret (BadRequest (JStr ''invalid request body''))
     | Some hash \<Rightarrow>
         if hash = [] then ret (BadRequest (JStr ''contentHash is required''))
         else
           (let assetID = DiagramThumbnailAssetID (pathValue r ''diagramID'') in
            ion_err (UpdateDiagram (dg\<lparr>dgPreviewAssetID := Some assetID, dgPreviewContentHash := Some hash, dgUpdatedBy := Some (pUserID p)\<rparr>)) (\<lambda>_.
            State_Monad.bind (forget_asset h assetID) (\<lambda>_. ret (JSON 200 (JObj [(''ok'', JBool True)]))))))"

definition ServiceUnavailable :: "json \<Rightarrow> response" where
  "ServiceUnavailable msg = JSON 503 (apiError ''service_unavailable'' msg)"

definition DiagramHandler_GenerateThumbnail :: "diagram_handler \<Rightarrow> dhandler" where
  "DiagramHandler_GenerateThumbnail h r = own_diagram r (\<lambda>p dg.
     if \<not> dhHasQueue h then ret (ServiceUnavailable (JStr ''thumbnail generation is not available''))
     else ion_err (enqueueScreenshotErr (pathValue r ''orgID'') (pathValue r ''diagramID'')) (\<lambda>_.
       ret (JSON 202 (JObj [(''status'', JStr PreviewStatusPending)]))))"

section \<open>Versions (version.go)\<close>

definition DiagramHandler_ListVersions :: dhandler where
  "DiagramHandler_ListVersions r = ion_err (ListDiagramVersions (pathValue r ''diagramID'')) (\<lambda>vs.
     ret (JSON 200 (JObj [(''versions'', slice_json diagram_version_json vs)])))"

text \<open>The error of the decoder is ignored: \<open>label\<close> is \<open>None\<close> then.\<close>

definition DiagramHandler_CreateVersion :: "diagram_handler \<Rightarrow> string option \<Rightarrow> dhandler" where
  "DiagramHandler_CreateVersion h label r = with_principal r (\<lambda>p.
     let ident = pathValue r ''diagramID'' in
     ion_err (GetDiagram ident) (\<lambda>dg. not_deleted dgDeletedAt dg (\<lambda>dg.
     ion_err (getContent h ident (dgContentKey dg)) (\<lambda>content.
     State_Monad.bind (latestVer ident) (\<lambda>latest.
     State_Monad.bind (lift uuid_NewString) (\<lambda>versionID.
       let vKey = DiagramVersionKey (pathValue r ''orgID'') ident versionID in
       ion_err (uploadContent vKey content) (\<lambda>_.
       State_Monad.bind (lift now) (\<lambda>t.
         let v = \<lparr>dvID = versionID, dvDiagramID = ident, dvVersionNumber = latest + 1, dvLabel = label, dvContentKey = vKey,
                  dvContentHash = dgContentHash dg, dvIsAutoVersion = False, dvSource = dgSource dg, dvCreatedBy = pUserID p, dvCreatedAt = t\<rparr> in
         ion_err (CreateDiagramVersion v) (\<lambda>_. ret (JSON 201 (diagram_version_json v)))))))))))"

definition version_answer :: "string \<Rightarrow> string \<Rightarrow> response" where
  "version_answer ident content = JSON 200 (JObj [(''versionId'', JStr ident), (''content'', JStr content)])"

definition DiagramHandler_GetVersionContent :: dhandler where
  "DiagramHandler_GetVersionContent r = ion_err (GetDiagramVersion (pathValue r ''versionID'')) (\<lambda>v.
     case v of
       None \<Rightarrow> ret (Error StoreErrNotFound)
     | Some v \<Rightarrow> ion_err (downloadContent (dvContentKey v)) (\<lambda>content. ret (version_answer (dvID v) content)))"

definition restore_diagram :: "diagram_handler \<Rightarrow> http_request \<Rightarrow> principal \<Rightarrow> diagram \<Rightarrow> diagramVersion \<Rightarrow> response dprog" where
  "restore_diagram h r p dg v =
     (let ident = pathValue r ''diagramID''; src = ''restore:v'' @ FormatInt (dvVersionNumber v) in
      ion_err (downloadContent (dvContentKey v)) (\<lambda>content.
      ion_err (uploadContent (dgContentKey dg) content) (\<lambda>_.
        let dg = dg\<lparr>dgContentHash := dvContentHash v, dgSource := Some src, dgUpdatedBy := Some (pUserID p)\<rparr> in
        ion_err (UpdateDiagram dg) (\<lambda>_.
        State_Monad.bind (auto_version (pathValue r ''orgID'') ident content (dvContentHash v) (Some src) (pUserID p)) (\<lambda>_.
        State_Monad.bind (cacheDel h ident) (\<lambda>_. ret (JSON 200 (diagram_json dg))))))))"

definition DiagramHandler_RestoreVersion :: "diagram_handler \<Rightarrow> dhandler" where
  "DiagramHandler_RestoreVersion h r = with_principal r (\<lambda>p.
     ion_err (GetDiagram (pathValue r ''diagramID'')) (\<lambda>dg. not_deleted dgDeletedAt dg (\<lambda>dg.
     ion_err (GetDiagramVersion (pathValue r ''versionID'')) (\<lambda>v.
       case v of None \<Rightarrow> ret (Error StoreErrNotFound) | Some v \<Rightarrow> restore_diagram h r p dg v))))"

section \<open>Images (image.go)\<close>

definition DiagramHandler_ListImages :: dhandler where
  "DiagramHandler_ListImages r = ion_err (ListDiagramImages (pathValue r ''diagramID'')) (\<lambda>ms.
     ret (JSON 200 (JObj [(''images'', slice_json image_json ms)])))"

definition saveDiagramImage :: "string \<Rightarrow> string \<Rightarrow> string \<Rightarrow> string \<Rightarrow> string option \<Rightarrow> int \<Rightarrow> diagramImage result dprog" where
  "saveDiagramImage orgID diagramID userID assetID fileName order =
     State_Monad.bind (lift uuid_NewString) (\<lambda>i. State_Monad.bind (lift now) (\<lambda>t.
       let img = \<lparr>diID = i, diDiagramID = diagramID, diOrgID = orgID, diAssetID = assetID, diFileName = fileName, diOrder = order,
                  diCreatedBy = userID, diCreatedAt = t\<rparr> in
       ibindE (CreateDiagramImage img) (\<lambda>_. ret (Inr img))))"

record imageBody =
  ibAssetID :: string
  ibFileName :: "string option"
  ibOrder :: "int option"

definition createImageFromAsset :: "imageBody option \<Rightarrow> string \<Rightarrow> string \<Rightarrow> string \<Rightarrow> response dprog" where
  "createImageFromAsset body orgID diagramID userID =
     (case body of
        None \<Rightarrow> ret (BadRequest (JStr ''invalid request body''))
      | Some b \<Rightarrow>
          if ibAssetID b = [] then ret (BadRequest (JStr ''assetId is required''))
          else ion_err (saveDiagramImage orgID diagramID userID (ibAssetID b) (ibFileName b) (case ibOrder b of Some n \<Rightarrow> n | None \<Rightarrow> 0))
            (\<lambda>img. ret (JSON 201 (image_json img))))"

text \<open>\<open>file\<close> is the content and the file name of the form, \<open>form\<close> its other values.\<close>

definition DiagramHandler_CreateImage :: "string \<Rightarrow> imageBody option \<Rightarrow> (string \<times> string) option \<Rightarrow> (string \<Rightarrow> string) \<Rightarrow> dhandler" where
  "DiagramHandler_CreateImage contentType body file form r = with_principal r (\<lambda>p.
     let orgID = pathValue r ''orgID''; ident = pathValue r ''diagramID'' in
     ion_err (GetDiagram ident) (\<lambda>dg. not_deleted dgDeletedAt dg (\<lambda>dg.
       if HasPrefix contentType ''application/json'' then createImageFromAsset body orgID ident (pUserID p)
       else case file of
         None \<Rightarrow> ret (BadRequest (JStr ''missing file''))
       | Some (content, fname) \<Rightarrow>
           (let order = (if form ''order'' \<noteq> [] then (case Atoi (form ''order'') of Some n \<Rightarrow> n | None \<Rightarrow> 0) else 0);
                fileName = (if form ''fileName'' \<noteq> [] then Some (form ''fileName'') else some_text fname) in
            State_Monad.bind (lift NewFileAssetID) (\<lambda>assetID.
            ion_err (Upload (AssetKey assetID) content) (\<lambda>_.
            ion_err (saveDiagramImage orgID ident (pUserID p) assetID fileName order) (\<lambda>img. ret (JSON 201 (image_json img)))))))))"

end
