(* ===== verification/DiagramRuns.thy ===== *)
theory DiagramRuns
  imports DiagramHandler
begin

text \<open>
  Runs of the diagram handlers while nothing fails: one equation for each call, in the collection \<open>run_simps\<close>. They compute a handler
  to the state that it leaves.
\<close>

definition healthy :: "'i side \<Rightarrow> bool" where
  "healthy g \<longleftrightarrow> faults (base g) = []"

lemma healthy_update [simp]:
  "healthy (g\<lparr>idb := i\<rparr>) \<longleftrightarrow> healthy g" "healthy (g\<lparr>base := w\<rparr>) \<longleftrightarrow> faults w = []"
  by (simp_all add: healthy_def)

lemma healthy_faults: "healthy g \<Longrightarrow> faults (base g) = []"
  by (simp add: healthy_def)

lemma run_ion_err [run_simps]:
  "run_state (ion_err m k) g = (case run_state m g of (Inl e, g') \<Rightarrow> (Error e, g') | (Inr a, g') \<Rightarrow> run_state (k a) g')"
  by (auto simp: ion_err_def split: prod.splits sum.splits)

lemma run_ibindE [run_simps]:
  "run_state (ibindE m k) g = (case run_state m g of (Inl e, g') \<Rightarrow> (Inl e, g') | (Inr a, g') \<Rightarrow> run_state (k a) g')"
  by (auto simp: ibindE_def split: prod.splits sum.splits)

lemma run_with_principal [run_simps]:
  "run_state (with_principal r k) g = (case ctxPrincipal r of None \<Rightarrow> (Unauthorized, g) | Some p \<Rightarrow> run_state (k p) g)"
  by (simp add: with_principal_def split: option.splits)

lemma run_not_deleted [run_simps]:
  "run_state (not_deleted del row k) g = (case row of None \<Rightarrow> (Error StoreErrNotFound, g)
     | Some x \<Rightarrow> if del x \<noteq> None then (Error StoreErrNotFound, g) else run_state (k x) g)"
  by (simp add: not_deleted_def split: option.splits)

lemma run_lift_now [run_simps]: "run_state (lift now) g = (clock (base g), g)"
  by (simp add: lift_def now_def)

lemma run_lift_uuid [run_simps]:
  "run_state (lift uuid_NewString) g = (uuids (base g) (uuid_draws (base g)), g\<lparr>base := (base g)\<lparr>uuid_draws := Suc (uuid_draws (base g))\<rparr>\<rparr>)"
  by (simp add: lift_def uuid_NewString_def)

lemma run_UploadH [run_simps]:
  "healthy g \<Longrightarrow> run_state (Upload key c) g = (Inr (), g\<lparr>idb := (idb g)\<lparr>blobs := (blobs (idb g))(key \<mapsto> c)\<rparr>\<rparr>)"
  by (simp add: Upload_def run_istmt_healthy healthy_faults)

lemma run_DownloadH [run_simps]:
  "healthy g \<Longrightarrow> run_state (Download key) g =
     ((case blobs (idb g) key of None \<Rightarrow> Inl (Errorf ''storage: object not found: %s'' [key]) | Some c \<Rightarrow> Inr c), g)"
  by (simp add: Download_def run_iquery_healthy healthy_faults)

lemma run_uploadContent [run_simps]: "uploadContent = Upload" "downloadContent = Download"
  by (simp_all add: uploadContent_def downloadContent_def fun_eq_iff)

lemma run_GetDiagram [run_simps]:
  "healthy g \<Longrightarrow> run_state (GetDiagram ident) g = (Inr (find (\<lambda>r. dgID r = ident) (diagrams (idb g))), g)"
  by (simp add: GetDiagram_def run_iwrap run_iquery_healthy healthy_faults)

lemma run_GetDiagramVersion [run_simps]:
  "healthy g \<Longrightarrow> run_state (GetDiagramVersion ident) g = (Inr (find (\<lambda>v. dvID v = ident) (diagram_versions (idb g))), g)"
  by (simp add: GetDiagramVersion_def run_iwrap run_iquery_healthy healthy_faults)

lemma run_latestVer [run_simps]:
  "healthy g \<Longrightarrow> run_state (latestVer ident) g = (latest_version ident (diagram_versions (idb g)), g)"
  by (simp add: latestVer_def LatestVersionNumber_def run_iwrap run_iquery_healthy healthy_faults)

lemma ex_row_key: "(\<exists>r\<in>set rows. k r = x) \<longleftrightarrow> x \<in> k ` set rows"
  by auto

text \<open>The statements that write, when their constraints hold.\<close>

definition created_row :: "diagram \<Rightarrow> time \<Rightarrow> diagram" where
  "created_row dg t = dg\<lparr>dgCreatedAt := if dgCreatedAt dg = 0 then t else dgCreatedAt dg, dgUpdatedAt := if dgUpdatedAt dg = 0 then t else dgUpdatedAt dg,
     dgPreviewStatus := if dgPreviewStatus dg = [] then PreviewStatusPending else dgPreviewStatus dg, dgDeletedAt := None, dgDeletedBy := None\<rparr>"

definition referred :: "diagram_db side \<Rightarrow> diagram \<Rightarrow> bool" where
  "referred g dg \<longleftrightarrow> refers fldID (folders (idb g)) (dgFolderID dg) \<and> refers tID (teams (db (base g))) (dgTeamID dg)"

lemma run_CreateDiagram [run_simps]:
  assumes "healthy g" and "dgID dg \<notin> dgID ` set (diagrams (idb g))"
  shows "run_state (CreateDiagram dg) g =
    (if dgOrgID dg \<notin> oID ` set (orgs (db (base g))) then
       (Inl (Wrapf ''postgres: CreateDiagram: %w'' [] (ForeignKeyViolation ''diagrams_org_id_fkey'')), g)
     else if \<not> refers fldID (folders (idb g)) (dgFolderID dg) then
       (Inl (Wrapf ''postgres: CreateDiagram: %w'' [] (ForeignKeyViolation ''diagrams_folder_id_fkey'')), g)
     else if \<not> refers tID (teams (db (base g))) (dgTeamID dg) then
       (Inl (Wrapf ''postgres: CreateDiagram: %w'' [] (ForeignKeyViolation ''diagrams_team_id_fkey'')), g)
     else (Inr (), g\<lparr>idb := (idb g)\<lparr>diagrams := diagrams (idb g) @ [created_row dg (clock (base g))]\<rparr>\<rparr>))"
  using assms by (simp add: CreateDiagram_def run_iwrap run_txn_healthy healthy_faults created_row_def Let_def ex_row_key)

lemma run_UpdateDiagram [run_simps]:
  assumes "healthy g" and "\<exists>r\<in>set (diagrams (idb g)). live_diagram (dgID dg) r"
  shows "run_state (UpdateDiagram dg) g =
    (if \<not> refers fldID (folders (idb g)) (dgFolderID dg) then
       (Inl (Wrapf ''postgres: UpdateDiagram: %w'' [] (ForeignKeyViolation ''diagrams_folder_id_fkey'')), g)
     else if \<not> refers tID (teams (db (base g))) (dgTeamID dg) then
       (Inl (Wrapf ''postgres: UpdateDiagram: %w'' [] (ForeignKeyViolation ''diagrams_team_id_fkey'')), g)
     else (Inr (), g\<lparr>idb := (idb g)\<lparr>diagrams := update_where (live_diagram (dgID dg)) (written dg (clock (base g))) (diagrams (idb g))\<rparr>\<rparr>))"
  using assms by (auto simp: UpdateDiagram_def run_iwrap run_txn_healthy healthy_faults)

lemma run_SetDiagramPreviewStatus [run_simps]:
  "healthy g \<Longrightarrow> run_state (SetDiagramPreviewStatus ident status) g = (Inr (), g\<lparr>idb := (idb g)\<lparr>diagrams :=
     update_where (live_diagram ident) (\<lambda>r. r\<lparr>dgPreviewStatus := status\<rparr>) (diagrams (idb g))\<rparr>\<rparr>)"
  by (simp add: SetDiagramPreviewStatus_def run_iwrap run_istmt_healthy healthy_faults)

lemma run_SoftDeleteDiagram [run_simps]:
  "healthy g \<Longrightarrow> run_state (SoftDeleteDiagram ident user) g = (Inr (), g\<lparr>idb := (idb g)\<lparr>diagrams :=
     update_where (live_diagram ident) (\<lambda>r. r\<lparr>dgDeletedAt := Some (clock (base g)), dgDeletedBy := Some user\<rparr>) (diagrams (idb g))\<rparr>\<rparr>)"
  by (simp add: SoftDeleteDiagram_def run_iwrap run_istmt_healthy healthy_faults)

lemma latest_version_ge:
  assumes "v \<in> set vs" and "dvDiagramID v = ident"
  shows "dvVersionNumber v \<le> latest_version ident vs"
proof -
  let ?ns = "map dvVersionNumber (filter (\<lambda>v. dvDiagramID v = ident) vs)"
  have "dvVersionNumber v \<in> set ?ns" using assms by simp
  then have "?ns \<noteq> []" "dvVersionNumber v \<le> Max (set ?ns)" by (metis list.distinct(1) list.set_cases, simp)
  then show ?thesis unfolding latest_version_def Let_def by (simp only: if_False)
qed

definition version_row :: "diagramVersion \<Rightarrow> time \<Rightarrow> diagramVersion" where
  "version_row v t = v\<lparr>dvCreatedAt := if dvCreatedAt v = 0 then t else dvCreatedAt v\<rparr>"

lemma run_CreateDiagramVersion [run_simps]:
  assumes "healthy g" and "dvID v \<notin> dvID ` set (diagram_versions (idb g))" and "latest_version (dvDiagramID v) (diagram_versions (idb g)) < dvVersionNumber v"
    and "dvDiagramID v \<in> dgID ` set (diagrams (idb g))"
  shows "run_state (CreateDiagramVersion v) g = (Inr (), g\<lparr>idb := (idb g)\<lparr>diagram_versions := diagram_versions (idb g) @ [version_row v (clock (base g))]\<rparr>\<rparr>)"
proof -
  have "\<not> (\<exists>r\<in>set (diagram_versions (idb g)). dvDiagramID r = dvDiagramID v \<and> dvVersionNumber r = dvVersionNumber v)"
    using latest_version_ge assms(3) by fastforce
  then show ?thesis
    using assms(1,2,4) by (simp add: CreateDiagramVersion_def run_iwrap run_istmt_healthy healthy_faults version_row_def ex_row_key)
qed

lemma run_EnqueueScreenshot [run_simps]:
  "healthy g \<Longrightarrow> run_state (EnqueueScreenshot job) g =
     (Inr (), g\<lparr>idb := (idb g)\<lparr>screenshot_jobs := enqueued job (clock (base g)) (screenshot_jobs (idb g))\<rparr>\<rparr>)"
  by (simp add: EnqueueScreenshot_def run_istmt_healthy healthy_faults)

section \<open>The cache\<close>

lemma run_cacheGet [run_simps]:
  "healthy g \<Longrightarrow> run_state (cacheGet h ident) g = (if dhHasCache h then cache (base g) (cache_DiagramContentKey ident) else None, g)"
  by (cases g; cases "base g") (simp add: cacheGet_def lift_def cache_Get_def next_fault_def healthy_def)

lemma run_cacheSet [run_simps]:
  "healthy g \<Longrightarrow> run_state (cacheSet h ident c) g =
     ((), if dhHasCache h then g\<lparr>base := (base g)\<lparr>cache := (cache (base g))(cache_DiagramContentKey ident \<mapsto> c)\<rparr>\<rparr> else g)"
  by (cases g; cases "base g") (simp add: cacheSet_def lift_def cache_Set_def next_fault_def healthy_def)

lemma run_cacheDel [run_simps]:
  "healthy g \<Longrightarrow> run_state (cacheDel h ident) g =
     ((), if dhHasCache h then g\<lparr>base := (base g)\<lparr>cache := (cache (base g))(cache_DiagramContentKey ident := None)\<rparr>\<rparr> else g)"
  by (cases g; cases "base g") (simp add: cacheDel_def lift_def cache_Del_def next_fault_def healthy_def)

lemma run_forget_asset [run_simps]:
  "healthy g \<Longrightarrow> run_state (forget_asset h a) g =
     ((), if dhHasCache h then g\<lparr>base := (base g)\<lparr>cache := (cache (base g))(AssetURLKey a := None)\<rparr>\<rparr> else g)"
  by (cases g; cases "base g") (simp add: forget_asset_def lift_def cache_Del_def next_fault_def healthy_def)

lemma run_NewFileAssetID [run_simps]:
  "run_state (lift NewFileAssetID) g = (''file_'' @ uuids (base g) (uuid_draws (base g)), g\<lparr>base := (base g)\<lparr>uuid_draws := Suc (uuid_draws (base g))\<rparr>\<rparr>)"
  by (simp add: lift_def NewFileAssetID_def uuid_NewString_def)

end
