(* ===== verification/DiagramKeys.thy ===== *)
theory DiagramKeys
  imports DiagramRuns
begin

text \<open>
  The keys of diagrams in the object storage do not collide: identifiers are UUIDs, so they have no slash and no dot.
\<close>

definition plain_id :: "string \<Rightarrow> bool" where
  "plain_id s \<longleftrightarrow> CHR ''/'' \<notin> set s \<and> CHR ''.'' \<notin> set s \<and> s \<noteq> ''content''"

lemma plain_idD: "plain_id s \<Longrightarrow> CHR ''/'' \<notin> set s" "plain_id s \<Longrightarrow> CHR ''.'' \<notin> set s" "plain_id s \<Longrightarrow> s \<noteq> ''content''"
  by (simp_all add: plain_id_def)

text \<open>The part after the last slash.\<close>

lemma last_part:
  assumes "a @ c # b = a' @ c # b'" and "c \<notin> set b" and "c \<notin> set b'"
  shows "a = a'" "b = b'"
proof -
  have last: "rev (takeWhile (\<lambda>x. x \<noteq> c) (rev (x @ c # y))) = y" if "c \<notin> set y" for x y
  proof -
    have "takeWhile (\<lambda>x. x \<noteq> c) (rev y @ c # rev x) = rev y @ takeWhile (\<lambda>x. x \<noteq> c) (c # rev x)"
      by (rule takeWhile_append2) (use that in auto)
    then show ?thesis by simp
  qed
  from last [OF assms(2), of a] last [OF assms(3), of a'] assms(1) show "b = b'" by simp
  with assms(1) show "a = a'" by simp
qed

lemma content_key_split: "DiagramContentKey org i = (org @ ''/diagrams/'' @ i) @ CHR ''/'' # ''content.json''"
  by (simp add: DiagramContentKey_def)

lemma content_key_org_split: "org @ ''/diagrams/'' @ i = (org @ ''/diagrams'') @ CHR ''/'' # i"
  by simp

lemma version_key_split: "DiagramVersionKey org d v = (org @ ''/diagrams/'' @ d @ ''/versions'') @ CHR ''/'' # (v @ ''.json'')"
  by (simp add: DiagramVersionKey_def)

lemma asset_key_split: "AssetKey a = ''assets'' @ CHR ''/'' # a"
  by (simp add: AssetKey_def)

lemma content_key_inj:
  assumes "DiagramContentKey org i = DiagramContentKey org' i'" and "plain_id i" and "plain_id i'"
  shows "i = i'"
proof -
  have "org @ ''/diagrams/'' @ i = org' @ ''/diagrams/'' @ i'"
    using assms(1) unfolding content_key_split by (rule last_part) auto
  then show ?thesis unfolding content_key_org_split by (rule last_part) (use assms(2,3) in \<open>auto simp: plain_id_def\<close>)
qed

lemma version_key_inj:
  assumes "DiagramVersionKey org d v = DiagramVersionKey org' d' v'" and "plain_id v" and "plain_id v'"
  shows "v = v'"
proof -
  have "v @ ''.json'' = v' @ ''.json''"
    using assms(1) unfolding version_key_split by (rule last_part) (use assms(2,3) in \<open>auto simp: plain_id_def\<close>)
  then show ?thesis by simp
qed

lemma version_key_not_content:
  assumes "plain_id v"
  shows "DiagramVersionKey org d v \<noteq> DiagramContentKey org' i" "DiagramContentKey org' i \<noteq> DiagramVersionKey org d v"
proof -
  show "DiagramVersionKey org d v \<noteq> DiagramContentKey org' i"
  proof
    assume "DiagramVersionKey org d v = DiagramContentKey org' i"
    then have "v @ ''.json'' = ''content.json''"
      unfolding version_key_split content_key_split by (rule last_part) (use assms in \<open>auto simp: plain_id_def\<close>)
    then have "v @ ''.json'' = ''content'' @ ''.json''" by simp
    then have "v = ''content''" by (simp only: append_same_eq)
    then show False using assms by (simp add: plain_id_def)
  qed
  then show "DiagramContentKey org' i \<noteq> DiagramVersionKey org d v" by metis
qed

lemma asset_key_other:
  assumes "CHR ''/'' \<notin> set a" and "CHR ''.'' \<notin> set a"
  shows "plain_id v \<Longrightarrow> AssetKey a \<noteq> DiagramVersionKey org d v" "AssetKey a \<noteq> DiagramContentKey org i"
proof -
  show "AssetKey a \<noteq> DiagramContentKey org i"
  proof
    assume "AssetKey a = DiagramContentKey org i"
    then have "a = ''content.json''" unfolding asset_key_split content_key_split by (rule last_part) (use assms in auto)
    then show False using assms(2) by simp
  qed
  show "AssetKey a \<noteq> DiagramVersionKey org d v" if "plain_id v"
  proof
    assume "AssetKey a = DiagramVersionKey org d v"
    then have "a = v @ ''.json''" unfolding asset_key_split version_key_split by (rule last_part) (use assms that in \<open>auto simp: plain_id_def\<close>)
    then show False using assms(2) by simp
  qed
qed

lemma asset_id_chars:
  assumes "plain_id i"
  shows "CHR ''/'' \<notin> set (DiagramThumbnailAssetID i)" "CHR ''.'' \<notin> set (DiagramThumbnailAssetID i)"
    "CHR ''/'' \<notin> set (''file_'' @ i)" "CHR ''.'' \<notin> set (''file_'' @ i)"
  using assms by (auto simp: DiagramThumbnailAssetID_def plain_id_def)

lemma cache_key_inj [simp]: "cache_DiagramContentKey i = cache_DiagramContentKey j \<longleftrightarrow> i = j" "cache_DiagramContentKey i \<noteq> AssetURLKey a"
  "AssetURLKey a \<noteq> cache_DiagramContentKey i"
  by (auto simp: cache_DiagramContentKey_def AssetURLKey_def)

end
