(* ===== verification/DiagramCoherence.thy ===== *)
theory DiagramCoherence
  imports DiagramKeys
begin

text \<open>
  The rows, the objects and the cache of diagrams agree (\<open>coherent\<close>): a row has the hash of the object that it names, a cached content is
  that of the object, and identifiers that are still to be drawn are new. One lemma for each change that a handler makes, and what it does
  to the abstract content \<open>doc\<close> of a diagram.
\<close>

section \<open>Agreement\<close>

definition stored :: "(string \<rightharpoonup> string) \<Rightarrow> string \<Rightarrow> string \<Rightarrow> bool" where
  "stored bl key hash \<longleftrightarrow> (\<exists>c. bl key = Some c \<and> hash = sha256Hex c)"

definition linked :: "folder list \<Rightarrow> team list \<Rightarrow> diagram \<Rightarrow> bool" where
  "linked fs ts dg \<longleftrightarrow> refers fldID fs (dgFolderID dg) \<and> refers tID ts (dgTeamID dg)"

definition row_ok :: "folder list \<Rightarrow> team list \<Rightarrow> (string \<rightharpoonup> string) \<Rightarrow> diagram \<Rightarrow> bool" where
  "row_ok fs ts bl dg \<longleftrightarrow> plain_id (dgID dg) \<and> dgContentKey dg = DiagramContentKey (dgOrgID dg) (dgID dg) \<and>
     stored bl (dgContentKey dg) (dgContentHash dg) \<and> (dgDeletedAt dg = None \<longrightarrow> linked fs ts dg)"

definition version_ok :: "string set \<Rightarrow> (string \<rightharpoonup> string) \<Rightarrow> diagramVersion \<Rightarrow> bool" where
  "version_ok ids bl v \<longleftrightarrow> plain_id (dvID v) \<and> (\<exists>org. dvContentKey v = DiagramVersionKey org (dvDiagramID v) (dvID v)) \<and>
     dvDiagramID v \<in> ids \<and> 0 < dvVersionNumber v \<and> stored bl (dvContentKey v) (dvContentHash v)"

definition cached_ok :: "diagram list \<Rightarrow> (string \<rightharpoonup> string) \<Rightarrow> (string \<rightharpoonup> string) \<Rightarrow> bool" where
  "cached_ok ds bl ch \<longleftrightarrow> (\<forall>i c. ch (cache_DiagramContentKey i) = Some c \<longrightarrow> (\<exists>dg\<in>set ds. live_diagram i dg \<and> bl (dgContentKey dg) = Some c))"

definition unused :: "(nat \<Rightarrow> string) \<Rightarrow> nat \<Rightarrow> string set \<Rightarrow> bool" where
  "unused us n ids \<longleftrightarrow> inj us \<and> (\<forall>k. plain_id (us k)) \<and> (\<forall>k\<ge>n. us k \<notin> ids)"

definition agree ::
  "bool \<Rightarrow> diagram list \<Rightarrow> diagramVersion list \<Rightarrow> (string \<rightharpoonup> string) \<Rightarrow> (string \<rightharpoonup> string) \<Rightarrow> folder list \<Rightarrow> team list \<Rightarrow> (nat \<Rightarrow> string) \<Rightarrow> nat \<Rightarrow> bool" where
  "agree hc ds vs bl ch fs ts us n \<longleftrightarrow> distinct (map dgID ds) \<and> distinct (map dvID vs) \<and> (\<forall>dg\<in>set ds. row_ok fs ts bl dg) \<and>
     (\<forall>v\<in>set vs. version_ok (dgID ` set ds) bl v) \<and> (hc \<longrightarrow> cached_ok ds bl ch) \<and> unused us n (dgID ` set ds \<union> dvID ` set vs)"

definition coherent :: "diagram_handler \<Rightarrow> diagram_db side \<Rightarrow> bool" where
  "coherent h g \<longleftrightarrow> agree (dhHasCache h) (diagrams (idb g)) (diagram_versions (idb g)) (blobs (idb g)) (cache (base g)) (folders (idb g)) (teams (db (base g)))
     (uuids (base g)) (uuid_draws (base g))"

definition doc :: "diagram list \<Rightarrow> (string \<rightharpoonup> string) \<Rightarrow> string \<rightharpoonup> string" where
  "doc ds bl = (\<lambda>i. case find (live_diagram i) ds of None \<Rightarrow> None | Some dg \<Rightarrow> bl (dgContentKey dg))"

definition snaps :: "diagramVersion list \<Rightarrow> (string \<rightharpoonup> string) \<Rightarrow> string \<rightharpoonup> string" where
  "snaps vs bl = (\<lambda>i. case find (\<lambda>v. dvID v = i) vs of None \<Rightarrow> None | Some v \<Rightarrow> bl (dvContentKey v))"

lemma stored_other: "stored bl key hash \<Longrightarrow> key \<noteq> k \<Longrightarrow> stored (bl(k \<mapsto> c)) key hash"
  by (simp add: stored_def)

lemma find_key_None: "x \<notin> k ` set rows \<Longrightarrow> find (\<lambda>r. k r = x \<and> Q r) rows = None" "x \<notin> k ` set rows \<Longrightarrow> find (\<lambda>r. k r = x) rows = None"
  by (induction rows) auto

lemma find_live:
  assumes "distinct (map dgID ds)" and "dg \<in> set ds" and "dgDeletedAt dg = None"
  shows "find (live_diagram (dgID dg)) ds = Some dg"
  using assms by (induction ds) (auto simp: live_diagram_def image_iff)

lemma find_live_iff:
  assumes "distinct (map dgID ds)"
  shows "find (live_diagram i) ds = Some dg \<longleftrightarrow> dg \<in> set ds \<and> dgID dg = i \<and> dgDeletedAt dg = None"
  using find_live [OF assms] find_SomeD [of "live_diagram i" ds] by (auto simp: live_diagram_def)

lemma same_row: "distinct (map dgID ds) \<Longrightarrow> x \<in> set ds \<Longrightarrow> y \<in> set ds \<Longrightarrow> dgID x = dgID y \<Longrightarrow> x = y"
  by (auto simp: distinct_map dest: inj_onD)

lemma agreeD:
  assumes "agree hc ds vs bl ch fs ts us n"
  shows "distinct (map dgID ds)" "distinct (map dvID vs)" "\<And>dg. dg \<in> set ds \<Longrightarrow> row_ok fs ts bl dg"
    "\<And>v. v \<in> set vs \<Longrightarrow> version_ok (dgID ` set ds) bl v" "hc \<Longrightarrow> cached_ok ds bl ch" "unused us n (dgID ` set ds \<union> dvID ` set vs)"
  using assms by (auto simp: agree_def)

lemma unused_next:
  assumes "unused us n ids"
  shows "us n \<notin> ids" "plain_id (us n)" "unused us (Suc n) (insert (us n) ids)" "unused us (Suc n) ids"
  using assms by (auto simp: unused_def dest: injD)

lemma row_ok_other: "row_ok fs ts bl dg \<Longrightarrow> dgContentKey dg \<noteq> k \<Longrightarrow> row_ok fs ts (bl(k \<mapsto> c)) dg"
  by (auto simp: row_ok_def stored_def)

section \<open>Changes\<close>

lemma agree_draw: "agree hc ds vs bl ch fs ts us n \<Longrightarrow> agree hc ds vs bl ch fs ts us (Suc n)"
  by (auto simp: agree_def dest: unused_next(4))

text \<open>An object under another key changes nothing.\<close>

lemma agree_blob:
  assumes "agree hc ds vs bl ch fs ts us n" and "\<And>dg. dg \<in> set ds \<Longrightarrow> dgContentKey dg \<noteq> key" and "\<And>v. v \<in> set vs \<Longrightarrow> dvContentKey v \<noteq> key"
  shows "agree hc ds vs (bl(key \<mapsto> c)) ch fs ts us n" "doc ds (bl(key \<mapsto> c)) = doc ds bl" "snaps vs (bl(key \<mapsto> c)) = snaps vs bl"
proof -
  have "cached_ok ds (bl(key \<mapsto> c)) ch" if "cached_ok ds bl ch"
    using that assms(2) by (fastforce simp: cached_ok_def)
  then show "agree hc ds vs (bl(key \<mapsto> c)) ch fs ts us n"
    using assms by (auto simp: agree_def row_ok_def version_ok_def stored_other)
  show "doc ds (bl(key \<mapsto> c)) = doc ds bl" using assms(2) find_SomeD by (fastforce simp: doc_def split: option.splits)
  show "snaps vs (bl(key \<mapsto> c)) = snaps vs bl" using assms(3) find_SomeD by (fastforce simp: snaps_def split: option.splits)
qed

lemma version_key_of:
  assumes "version_ok ids bl v"
  obtains org where "dvContentKey v = DiagramVersionKey org (dvDiagramID v) (dvID v)" "plain_id (dvID v)"
  using assms by (auto simp: version_ok_def)

lemma content_key_new:
  assumes "agree hc ds vs bl ch fs ts us n" and "plain_id i" and "i \<notin> dgID ` set ds"
  shows "\<And>dg. dg \<in> set ds \<Longrightarrow> dgContentKey dg \<noteq> DiagramContentKey org i" "\<And>v. v \<in> set vs \<Longrightarrow> dvContentKey v \<noteq> DiagramContentKey org i"
proof -
  show "dgContentKey dg \<noteq> DiagramContentKey org i" if "dg \<in> set ds" for dg
    using agreeD(3) [OF assms(1) that] that assms(2,3) content_key_inj by (fastforce simp: row_ok_def)
  show "dvContentKey v \<noteq> DiagramContentKey org i" if "v \<in> set vs" for v
    using agreeD(4) [OF assms(1) that] by (elim version_key_of) (simp add: version_key_not_content)
qed

lemma version_key_new:
  assumes "agree hc ds vs bl ch fs ts us n" and "plain_id i" and "i \<notin> dvID ` set vs"
  shows "\<And>dg. dg \<in> set ds \<Longrightarrow> dgContentKey dg \<noteq> DiagramVersionKey org d i" "\<And>v. v \<in> set vs \<Longrightarrow> dvContentKey v \<noteq> DiagramVersionKey org d i"
proof -
  show "dgContentKey dg \<noteq> DiagramVersionKey org d i" if "dg \<in> set ds" for dg
    using agreeD(3) [OF assms(1) that] assms(2) by (simp add: row_ok_def version_key_not_content)
  show "dvContentKey v \<noteq> DiagramVersionKey org d i" if v: "v \<in> set vs" for v
  proof -
    obtain org' where key: "dvContentKey v = DiagramVersionKey org' (dvDiagramID v) (dvID v)" "plain_id (dvID v)"
      using agreeD(4) [OF assms(1) v] by (rule version_key_of)
    have "dvID v \<noteq> i" using v assms(3) by auto
    with version_key_inj [of org' "dvDiagramID v" "dvID v" org d i] key assms(2) show ?thesis by auto
  qed
qed

lemma asset_key_new:
  assumes "agree hc ds vs bl ch fs ts us n" and "CHR ''/'' \<notin> set a" and "CHR ''.'' \<notin> set a"
  shows "\<And>dg. dg \<in> set ds \<Longrightarrow> dgContentKey dg \<noteq> AssetKey a" "\<And>v. v \<in> set vs \<Longrightarrow> dvContentKey v \<noteq> AssetKey a"
proof -
  note other = asset_key_other [OF assms(2,3)]
  show "dgContentKey dg \<noteq> AssetKey a" if "dg \<in> set ds" for dg
    using agreeD(3) [OF assms(1) that] other(2) by (metis row_ok_def)
  show "dvContentKey v \<noteq> AssetKey a" if "v \<in> set vs" for v
    using agreeD(4) [OF assms(1) that] other(1) by (elim version_key_of) metis
qed

lemma agree_add_version:
  assumes "agree hc ds vs bl ch fs ts us n" and "dvID v = us m" and "us m \<notin> dvID ` set vs" and "n \<le> Suc m" and "us m \<notin> dgID ` set ds"
    and "dvContentKey v = DiagramVersionKey org (dvDiagramID v) (dvID v)" and "dvDiagramID v \<in> dgID ` set ds" and "0 < dvVersionNumber v"
    and "bl (dvContentKey v) = Some c" and "dvContentHash v = sha256Hex c"
  shows "agree hc ds (vs @ [v]) bl ch fs ts us (Suc m)" "snaps (vs @ [v]) bl = (snaps vs bl)(dvID v \<mapsto> c)"
proof -
  have "unused us (Suc m) (insert (us m) (dgID ` set ds \<union> dvID ` set vs))"
    using agreeD(6) [OF assms(1)] assms(4) by (auto simp: unused_def dest: injD)
  moreover have "version_ok (dgID ` set ds) bl v"
    using agreeD(6) [OF assms(1)] assms(2,6-10) by (auto simp: version_ok_def stored_def unused_def)
  ultimately show "agree hc ds (vs @ [v]) bl ch fs ts us (Suc m)"
    using assms(1-3) by (auto simp: agree_def Un_assoc)
  have "find (\<lambda>v'. dvID v' = dvID v) vs = None" using assms(2,3) by (simp add: find_key_None)
  then show "snaps (vs @ [v]) bl = (snaps vs bl)(dvID v \<mapsto> c)"
    using assms(9) by (auto simp: snaps_def fun_eq_iff find_append split: option.splits)
qed

lemma agree_add_diagram:
  assumes "agree hc ds vs bl ch fs ts us n" and "dgID dg = us m" and "us m \<notin> dgID ` set ds \<union> dvID ` set vs" and "n \<le> Suc m"
    and "dgContentKey dg = DiagramContentKey (dgOrgID dg) (dgID dg)" and "linked fs ts dg" and "dgDeletedAt dg = None"
    and "bl (dgContentKey dg) = Some c" and "dgContentHash dg = sha256Hex c"
  shows "agree hc (ds @ [dg]) vs bl ch fs ts us (Suc m)" "doc (ds @ [dg]) bl = (doc ds bl)(dgID dg \<mapsto> c)"
proof -
  have "unused us (Suc m) (insert (us m) (dgID ` set ds \<union> dvID ` set vs))"
    using agreeD(6) [OF assms(1)] assms(4) by (auto simp: unused_def dest: injD)
  moreover have "row_ok fs ts bl dg"
    using agreeD(6) [OF assms(1)] assms(2,5,6,8,9) by (auto simp: row_ok_def stored_def unused_def)
  moreover have "version_ok (insert (us m) (dgID ` set ds)) bl v" if "v \<in> set vs" for v
    using agreeD(4) [OF assms(1) that] by (auto simp: version_ok_def)
  moreover have "cached_ok (ds @ [dg]) bl ch" if hc using agreeD(5) [OF assms(1) that] by (fastforce simp: cached_ok_def)
  ultimately show "agree hc (ds @ [dg]) vs bl ch fs ts us (Suc m)"
    using assms(1-3) by (auto simp: agree_def)
  have "find (live_diagram (dgID dg)) ds = None" using assms(2,3) find_key_None(1) unfolding live_diagram_def [abs_def] by fastforce
  then show "doc (ds @ [dg]) bl = (doc ds bl)(dgID dg \<mapsto> c)"
    using assms(7,8) by (auto simp: doc_def fun_eq_iff find_append live_diagram_def split: option.splits)
qed

text \<open>A row gets a new content; the cached one is forgotten.\<close>

lemma ids_update: "(\<And>r. dgID (f r) = dgID r) \<Longrightarrow> dgID ` set (update_where P f ds) = dgID ` set ds"
  by (rule keys_update_where)

lemma agree_update:
  assumes "agree hc ds vs bl ch fs ts us n"
    and same: "\<And>r. dgID (f r) = dgID r" "\<And>r. dgOrgID (f r) = dgOrgID r" "\<And>r. r \<in> set ds \<Longrightarrow> P r \<Longrightarrow> dgContentKey (f r) = dgContentKey r"
    and hash: "\<And>r. r \<in> set ds \<Longrightarrow> P r \<Longrightarrow> dgContentHash (f r) = dgContentHash r"
    and live: "\<And>r. r \<in> set ds \<Longrightarrow> P r \<Longrightarrow> dgDeletedAt (f r) = dgDeletedAt r" and links: "\<And>r. r \<in> set ds \<Longrightarrow> P r \<Longrightarrow> dgDeletedAt r = None \<Longrightarrow> linked fs ts (f r)"
  shows "agree hc (update_where P f ds) vs bl ch fs ts us n" "doc (update_where P f ds) bl = doc ds bl"
proof -
  let ?ds = "update_where P f ds"
  note ids = ids_update [of f P ds, OF same(1)]
  have rows: "row_ok fs ts bl dg" if mem: "dg \<in> set ?ds" for dg
  proof -
    obtain r where r: "r \<in> set ds" "dg = (if P r then f r else r)" using mem by (auto simp: update_where_def)
    note ok = agreeD(3) [OF assms(1) r(1)]
    show ?thesis
    proof (cases "P r")
      case True
      show ?thesis using ok same(1,2) same(3) [OF r(1) True] hash [OF r(1) True] live [OF r(1) True] links [OF r(1) True] r(2) True by (auto simp: row_ok_def)
    qed (use ok r(2) in simp)
  qed
  have found: "find (live_diagram i) ?ds = map_option (\<lambda>r. if P r then f r else r) (find (live_diagram i) ds)" for i
    using same(1) live unfolding live_diagram_def [abs_def] by (induction ds) auto
  have "cached_ok ?ds bl ch" if hc
  proof -
    have "\<exists>dg\<in>set ?ds. live_diagram i dg \<and> bl (dgContentKey dg) = Some c" if hit: "ch (cache_DiagramContentKey i) = Some c" for i c
    proof -
      obtain dg where dg: "dg \<in> set ds" "live_diagram i dg" "bl (dgContentKey dg) = Some c"
        using agreeD(5) [OF assms(1) \<open>hc\<close>] hit by (auto simp: cached_ok_def)
      let ?r = "if P dg then f dg else dg"
      have "?r \<in> set ?ds" using dg(1) by (auto simp: set_update_where)
      moreover have "live_diagram i ?r \<and> bl (dgContentKey ?r) = Some c" using dg same live by (auto simp: live_diagram_def)
      ultimately show ?thesis by blast
    qed
    then show ?thesis by (simp add: cached_ok_def)
  qed
  then show "agree hc ?ds vs bl ch fs ts us n"
    using assms(1) rows ids same(1) by (simp add: agree_def)
  show "doc ?ds bl = doc ds bl"
    using same(3) find_SomeD by (fastforce simp: doc_def found fun_eq_iff split: option.splits)
qed

lemma agree_put:
  assumes "agree hc ds vs bl ch fs ts us n" and "dg \<in> set ds" and "dgDeletedAt dg = None"
    and same: "\<And>r. dgID (f r) = dgID r" "\<And>r. dgOrgID (f r) = dgOrgID r" "dgContentKey (f dg) = dgContentKey dg" "dgDeletedAt (f dg) = None"
    and "dgContentHash (f dg) = sha256Hex c" and "linked fs ts (f dg)"
  defines "ds' \<equiv> update_where (live_diagram (dgID dg)) f ds" and "bl' \<equiv> bl(dgContentKey dg \<mapsto> c)"
    and "ch' \<equiv> ch(cache_DiagramContentKey (dgID dg) := None)"
  shows "agree hc ds' vs bl' (if hc then ch' else ch) fs ts us n" "doc ds' bl' = (doc ds bl)(dgID dg \<mapsto> c)" "snaps vs bl' = snaps vs bl"
proof -
  note unique = agreeD(1) [OF assms(1)]
  have only: "r = dg" if "r \<in> set ds" "live_diagram (dgID dg) r" for r
    using that assms(2) same_row [OF unique] by (auto simp: live_diagram_def)
  then have only_iff: "r \<in> set ds \<Longrightarrow> live_diagram (dgID dg) r \<longleftrightarrow> r = dg" for r
    using assms(3) by (auto simp: live_diagram_def)
  have key: "dgContentKey r \<noteq> dgContentKey dg" if "r \<in> set ds" "dgID r \<noteq> dgID dg" for r
    using agreeD(3) [OF assms(1)] that assms(2) content_key_inj by (fastforce simp: row_ok_def)
  have vkey: "dvContentKey v \<noteq> dgContentKey dg" if "v \<in> set vs" for v
    using agreeD(4) [OF assms(1) that] agreeD(3) [OF assms(1) assms(2)] by (elim version_key_of) (simp add: row_ok_def version_key_not_content)
  have mem: "r \<in> set ds' \<longleftrightarrow> r = f dg \<or> r \<in> set ds \<and> dgID r \<noteq> dgID dg" for r
  proof -
    have "set ds' = f ` {r \<in> set ds. r = dg} \<union> {r \<in> set ds. r \<noteq> dg}" unfolding ds'_def set_update_where using only_iff by blast
    moreover have "r \<in> set ds \<Longrightarrow> r \<noteq> dg \<longleftrightarrow> dgID r \<noteq> dgID dg" using same_row [OF unique _ assms(2)] by blast
    ultimately show ?thesis using assms(2) by auto
  qed
  note dg_ok = agreeD(3) [OF assms(1,2)]
  have rows: "row_ok fs ts bl' r" if "r \<in> set ds'" for r
  proof (cases "r = f dg")
    case True
    then show ?thesis using dg_ok same assms(8,9) by (simp add: row_ok_def bl'_def stored_def)
  next
    case False
    then have "r \<in> set ds" "dgID r \<noteq> dgID dg" using that mem by auto
    then show ?thesis using agreeD(3) [OF assms(1)] key unfolding bl'_def by (intro row_ok_other) auto
  qed
  have versions: "version_ok (dgID ` set ds') bl' v" if "v \<in> set vs" for v
    using agreeD(4) [OF assms(1) that] vkey [OF that] ids_update [OF same(1)] by (simp add: version_ok_def ds'_def bl'_def stored_other)
  have cached: "cached_ok ds' bl' ch'" if hc
  proof -
    have "\<exists>r\<in>set ds'. live_diagram i r \<and> bl' (dgContentKey r) = Some x" if "ch' (cache_DiagramContentKey i) = Some x" for i x
    proof -
      have "i \<noteq> dgID dg" "ch (cache_DiagramContentKey i) = Some x" using that by (auto simp: ch'_def split: if_splits)
      moreover from this(2) obtain r where "r \<in> set ds" "live_diagram i r" "bl (dgContentKey r) = Some x"
        using agreeD(5) [OF assms(1) \<open>hc\<close>] by (auto simp: cached_ok_def)
      ultimately show ?thesis using mem key by (intro bexI [of _ r]) (auto simp: bl'_def live_diagram_def)
    qed
    then show ?thesis by (simp add: cached_ok_def)
  qed
  show "agree hc ds' vs bl' (if hc then ch' else ch) fs ts us n"
    using assms(1) rows versions cached ids_update [OF same(1)] same(1) by (simp add: agree_def ds'_def)
  have unique': "distinct (map dgID ds')" using unique same(1) by (simp add: ds'_def)
  show "doc ds' bl' = (doc ds bl)(dgID dg \<mapsto> c)"
  proof
    fix i
    have "find (live_diagram (dgID dg)) ds' = Some (f dg)" using find_live_iff [OF unique'] mem same by simp
    then have here: "doc ds' bl' (dgID dg) = Some c" using same(3) by (simp add: doc_def bl'_def)
    have there: "doc ds' bl' i = doc ds bl i" if "i \<noteq> dgID dg"
    proof -
      have "find (live_diagram i) ds' = find (live_diagram i) ds"
        using that same(1) unfolding ds'_def live_diagram_def [abs_def] by (induction ds) auto
      moreover have "dgContentKey r \<noteq> dgContentKey dg" if "find (live_diagram i) ds = Some r" for r
      proof -
        from that have "r \<in> set ds \<and> dgID r = i" by (simp add: find_live_iff [OF unique])
        then show ?thesis using \<open>i \<noteq> dgID dg\<close> key [of r] by simp
      qed
      ultimately show ?thesis by (simp add: doc_def bl'_def split: option.split)
    qed
    show "doc ds' bl' i = ((doc ds bl)(dgID dg \<mapsto> c)) i" using here there by simp
  qed
  show "snaps vs bl' = snaps vs bl" using vkey find_SomeD by (fastforce simp: snaps_def bl'_def split: option.splits)
qed

lemma row_ok_deleted: "row_ok fs ts bl r \<Longrightarrow> row_ok fs ts bl (r\<lparr>dgDeletedAt := Some t, dgDeletedBy := Some u\<rparr>)"
  by (auto simp: row_ok_def)

lemma agree_delete:
  fixes i u :: string and t :: time
  assumes "agree hc ds vs bl ch fs ts us n"
  defines "ds' \<equiv> update_where (live_diagram i) (\<lambda>r. r\<lparr>dgDeletedAt := Some t, dgDeletedBy := Some u\<rparr>) ds"
    and "ch' \<equiv> ch(cache_DiagramContentKey i := None)"
  shows "agree hc ds' vs bl (if hc then ch' else ch) fs ts us n" "doc ds' bl = (doc ds bl)(i := None)"
proof -
  note ids = ids_update [of "\<lambda>r. r\<lparr>dgDeletedAt := Some t, dgDeletedBy := Some u\<rparr>" "live_diagram i" ds]
  have other: "find (live_diagram j) ds' = (if j = i then None else find (live_diagram j) ds)" for j
    unfolding ds'_def live_diagram_def [abs_def] by (induction ds) auto
  have cached: "cached_ok ds' bl ch'" if hc
  proof -
    have "\<exists>r\<in>set ds'. live_diagram j r \<and> bl (dgContentKey r) = Some x" if "ch' (cache_DiagramContentKey j) = Some x" for j x
    proof -
      have "j \<noteq> i" "ch (cache_DiagramContentKey j) = Some x" using that by (auto simp: ch'_def split: if_splits)
      moreover from this(2) obtain r where "r \<in> set ds" "live_diagram j r" "bl (dgContentKey r) = Some x"
        using agreeD(5) [OF assms(1) \<open>hc\<close>] by (auto simp: cached_ok_def)
      ultimately show ?thesis by (intro bexI [of _ r]) (auto simp: ds'_def set_update_where live_diagram_def)
    qed
    then show ?thesis by (simp add: cached_ok_def)
  qed
  have "row_ok fs ts bl r" if "r \<in> set ds'" for r
    using that agreeD(3) [OF assms(1)] by (auto simp: ds'_def set_update_where intro: row_ok_deleted)
  then show "agree hc ds' vs bl (if hc then ch' else ch) fs ts us n"
    using assms(1) cached ids by (simp add: agree_def ds'_def)
  show "doc ds' bl = (doc ds bl)(i := None)" by (auto simp: doc_def other)
qed

lemma agree_cache:
  assumes "agree hc ds vs bl ch fs ts us n" and "dg \<in> set ds" and "dgDeletedAt dg = None" and "bl (dgContentKey dg) = Some c"
  shows "agree hc ds vs bl (ch(cache_DiagramContentKey (dgID dg) \<mapsto> c)) fs ts us n"
  using assms by (auto simp: agree_def cached_ok_def live_diagram_def)

lemma agree_forget: "agree hc ds vs bl ch fs ts us n \<Longrightarrow> agree hc ds vs bl (ch(k := None)) fs ts us n"
  by (auto simp: agree_def cached_ok_def)

end
