(* ===== verification/DiagramSpec.thy ===== *)
theory DiagramSpec
  imports DiagramCoherence
begin

text \<open>
  The specification of diagrams: a content for each diagram and a content for each version, and what a request does to them
  (\<open>doc_spec\<close>). The states that the handlers leave, as functions of the state before.
\<close>

section \<open>Specification\<close>

datatype diagram_call =
    CallList
  | CallCreate "diagramBody option"
  | CallGet
  | CallGetContent
  | CallUpdate "updateDiagramBody option"
  | CallDelete
  | CallSync "diagramBody option"
  | CallUpdateThumbnail "string result option"
  | CallPrepareThumbnailUpload
  | CallConfirmThumbnailUpload "string option"
  | CallGenerateThumbnail
  | CallListVersions
  | CallCreateVersion "string option"
  | CallGetVersionContent
  | CallRestoreVersion
  | CallListImages
  | CallCreateImage string "imageBody option" "(string \<times> string) option" "string \<Rightarrow> string"

primrec handle :: "diagram_handler \<Rightarrow> diagram_call \<Rightarrow> dhandler" where
  "handle h CallList = DiagramHandler_List"
| "handle h (CallCreate b) = DiagramHandler_Create h b"
| "handle h CallGet = DiagramHandler_Get h"
| "handle h CallGetContent = DiagramHandler_GetContent h"
| "handle h (CallUpdate b) = DiagramHandler_Update h b"
| "handle h CallDelete = DiagramHandler_Delete h"
| "handle h (CallSync b) = DiagramHandler_Sync h b"
| "handle h (CallUpdateThumbnail f) = DiagramHandler_UpdateThumbnail h f"
| "handle h CallPrepareThumbnailUpload = DiagramHandler_PrepareThumbnailUpload h"
| "handle h (CallConfirmThumbnailUpload c) = DiagramHandler_ConfirmThumbnailUpload h c"
| "handle h CallGenerateThumbnail = DiagramHandler_GenerateThumbnail h"
| "handle h CallListVersions = DiagramHandler_ListVersions"
| "handle h (CallCreateVersion l) = DiagramHandler_CreateVersion h l"
| "handle h CallGetVersionContent = DiagramHandler_GetVersionContent"
| "handle h CallRestoreVersion = DiagramHandler_RestoreVersion h"
| "handle h CallListImages = DiagramHandler_ListImages"
| "handle h (CallCreateImage t b f v) = DiagramHandler_CreateImage t b f v"

record docs =
  current :: "string \<rightharpoonup> string"
  snapshots :: "string \<rightharpoonup> string"

definition docs_of :: "diagram_db side \<Rightarrow> docs" where
  "docs_of g = \<lparr>current = doc (diagrams (idb g)) (blobs (idb g)), snapshots = snaps (diagram_versions (idb g)) (blobs (idb g))\<rparr>"

text \<open>A content becomes current, and a new version keeps it.\<close>

definition published_doc :: "string \<Rightarrow> string \<Rightarrow> docs \<Rightarrow> docs \<Rightarrow> bool" where
  "published_doc i c m m' \<longleftrightarrow> (\<exists>v. snapshots m v = None \<and> m' = m\<lparr>current := (current m)(i \<mapsto> c), snapshots := (snapshots m)(v \<mapsto> c)\<rparr>)"

definition new_doc :: "string \<Rightarrow> docs \<Rightarrow> docs \<Rightarrow> bool" where
  "new_doc c m m' \<longleftrightarrow> (\<exists>i. current m i = None \<and> published_doc i c m m')"

primrec doc_spec :: "diagram_call \<Rightarrow> http_request \<Rightarrow> response \<Rightarrow> docs \<Rightarrow> docs \<Rightarrow> bool" where
  "doc_spec CallList r a m m' = (m' = m)"
| "doc_spec (CallCreate b) r a m m' = (if rStatus a = 201 then b \<noteq> None \<and> new_doc (dbContent (the b)) m m' else m' = m)"
| "doc_spec CallGet r a m m' = (m' = m \<and> (case current m (pathValue r ''diagramID'') of
     None \<Rightarrow> a = Error StoreErrNotFound
   | Some c \<Rightarrow> rStatus a = 200 \<and> (queryValue r ''includeContent'' = ''true'' \<longrightarrow> (\<exists>fields. a = JSON 200 (JObj (fields @ [(''content'', JStr c)]))))))"
| "doc_spec CallGetContent r a m m' = (m' = m \<and> a = (case current m (pathValue r ''diagramID'') of
     None \<Rightarrow> Error StoreErrNotFound | Some c \<Rightarrow> content_answer (pathValue r ''diagramID'') c))"
| "doc_spec (CallUpdate b) r a m m' = (if ctxPrincipal r \<noteq> None \<and> b \<noteq> None \<and> current m (pathValue r ''diagramID'') \<noteq> None
     then rStatus a = 200 \<and> m' = (case udContent (the b) of
        None \<Rightarrow> m
      | Some c \<Rightarrow> if sha256Hex c = sha256Hex (the (current m (pathValue r ''diagramID''))) then m
          else m\<lparr>current := (current m)(pathValue r ''diagramID'' \<mapsto> c)\<rparr>)
     else rStatus a \<noteq> 200 \<and> m' = m)"
| "doc_spec CallDelete r a m m' = (if ctxPrincipal r \<noteq> None then rStatus a = 204 \<and> m' = m\<lparr>current := (current m)(pathValue r ''diagramID'' := None)\<rparr>
     else rStatus a = 401 \<and> m' = m)"
| "doc_spec (CallSync b) r a m m' = (case b of
     None \<Rightarrow> rStatus a \<notin> {200, 201} \<and> m' = m
   | Some b \<Rightarrow> (case dbDiagramID b of
       None \<Rightarrow> if rStatus a = 201 then new_doc (dbContent b) m m' else m' = m
     | Some i \<Rightarrow> if ctxPrincipal r \<noteq> None \<and> dbName b \<noteq> [] \<and> dbContent b \<noteq> [] \<and> current m i \<noteq> None
         then rStatus a = 200 \<and> (if sha256Hex (dbContent b) = sha256Hex (the (current m i)) then m' = m else published_doc i (dbContent b) m m')
         else rStatus a \<noteq> 200 \<and> m' = m))"
| "doc_spec (CallUpdateThumbnail f) r a m m' = (m' = m)"
| "doc_spec CallPrepareThumbnailUpload r a m m' = (m' = m)"
| "doc_spec (CallConfirmThumbnailUpload c) r a m m' = (m' = m)"
| "doc_spec CallGenerateThumbnail r a m m' = (m' = m)"
| "doc_spec CallListVersions r a m m' = (m' = m)"
| "doc_spec (CallCreateVersion l) r a m m' = (if ctxPrincipal r \<noteq> None \<and> current m (pathValue r ''diagramID'') \<noteq> None
     then rStatus a = 201 \<and> published_doc (pathValue r ''diagramID'') (the (current m (pathValue r ''diagramID''))) m m'
     else rStatus a \<noteq> 201 \<and> m' = m)"
| "doc_spec CallGetVersionContent r a m m' = (m' = m \<and> a = (case snapshots m (pathValue r ''versionID'') of
     None \<Rightarrow> Error StoreErrNotFound | Some c \<Rightarrow> version_answer (pathValue r ''versionID'') c))"
| "doc_spec CallRestoreVersion r a m m' =
     (if ctxPrincipal r \<noteq> None \<and> current m (pathValue r ''diagramID'') \<noteq> None \<and> snapshots m (pathValue r ''versionID'') \<noteq> None
     then rStatus a = 200 \<and> published_doc (pathValue r ''diagramID'') (the (snapshots m (pathValue r ''versionID''))) m m'
     else rStatus a \<noteq> 200 \<and> m' = m)"
| "doc_spec CallListImages r a m m' = (m' = m)"
| "doc_spec (CallCreateImage t b f v) r a m m' = (m' = m)"

section \<open>States\<close>

definition sound :: "diagram_handler \<Rightarrow> diagram_db side \<Rightarrow> bool" where
  "sound h g \<longleftrightarrow> healthy g \<and> coherent h g"

definition enqueue_state :: "diagram_handler \<Rightarrow> string \<Rightarrow> string \<Rightarrow> diagram_db side \<Rightarrow> diagram_db side" where
  "enqueue_state h org i g = (if dhHasQueue h then g\<lparr>idb := (idb g)
     \<lparr>screenshot_jobs := enqueued \<lparr>sjOrgID = org, sjDiagramID = i\<rparr> (clock (base g)) (screenshot_jobs (idb g)),
      diagrams := update_where (live_diagram i) (\<lambda>r. r\<lparr>dgPreviewStatus := PreviewStatusPending\<rparr>) (diagrams (idb g))\<rparr>\<rparr> else g)"

lemma run_enqueueScreenshotErr [run_simps]:
  "healthy g \<Longrightarrow> dhHasQueue h \<Longrightarrow> run_state (enqueueScreenshotErr org i) g = (Inr (), enqueue_state h org i g)"
  by (simp add: enqueueScreenshotErr_def enqueue_state_def run_simps)

lemma run_enqueueScreenshot [run_simps]: "healthy g \<Longrightarrow> run_state (enqueueScreenshot h org i) g = ((), enqueue_state h org i g)"
  by (simp add: enqueueScreenshot_def run_enqueueScreenshotErr) (simp add: enqueue_state_def)

lemma sound_enqueue:
  assumes "sound h g"
  shows "sound h (enqueue_state h org i g)" "docs_of (enqueue_state h org i g) = docs_of g"
proof -
  note agree = assms [unfolded sound_def coherent_def, THEN conjunct2]
  note up = agree_update [OF agree, of "\<lambda>r. r\<lparr>dgPreviewStatus := PreviewStatusPending\<rparr>" "live_diagram i"]
  have "linked (folders (idb g)) (teams (db (base g))) (r\<lparr>dgPreviewStatus := PreviewStatusPending\<rparr>)"
    if "r \<in> set (diagrams (idb g))" "dgDeletedAt r = None" for r
    using agreeD(3) [OF agree that(1)] that(2) by (simp add: row_ok_def linked_def)
  note up = up [simplified, OF this]
  then show "sound h (enqueue_state h org i g)" "docs_of (enqueue_state h org i g) = docs_of g"
    using assms by (auto simp: enqueue_state_def sound_def coherent_def docs_of_def)
qed

definition draw_state :: "diagram_db side \<Rightarrow> diagram_db side" where
  "draw_state g = g\<lparr>base := (base g)\<lparr>uuid_draws := Suc (uuid_draws (base g))\<rparr>\<rparr>"

definition next_id :: "diagram_db side \<Rightarrow> string" where
  "next_id g = uuids (base g) (uuid_draws (base g))"

lemma run_draw [run_simps]: "run_state (lift uuid_NewString) g = (next_id g, draw_state g)"
  by (simp add: draw_state_def next_id_def run_lift_uuid)

lemma sound_draw: "sound h g \<Longrightarrow> sound h (draw_state g)" "docs_of (draw_state g) = docs_of g"
  by (auto simp: sound_def coherent_def draw_state_def docs_of_def healthy_def intro: agree_draw)

lemma next_id_new:
  assumes "sound h g"
  shows "next_id g \<notin> dgID ` set (diagrams (idb g))" "next_id g \<notin> dvID ` set (diagram_versions (idb g))" "plain_id (next_id g)"
    "snapshots (docs_of g) (next_id g) = None" "current (docs_of g) (next_id g) = None"
proof -
  have "unused (uuids (base g)) (uuid_draws (base g)) (dgID ` set (diagrams (idb g)) \<union> dvID ` set (diagram_versions (idb g)))"
    using assms agreeD(6) by (auto simp: sound_def coherent_def)
  from unused_next [OF this]
  show new: "next_id g \<notin> dgID ` set (diagrams (idb g))" "next_id g \<notin> dvID ` set (diagram_versions (idb g))" "plain_id (next_id g)"
    by (auto simp: next_id_def)
  show "snapshots (docs_of g) (next_id g) = None" using new(2) by (simp add: docs_of_def snaps_def find_key_None)
  show "current (docs_of g) (next_id g) = None"
    using find_key_None(1) [OF new(1)] by (simp add: docs_of_def doc_def live_diagram_def [abs_def])
qed

text \<open>A new version with the next identifier.\<close>

definition snap_state :: "diagramVersion \<Rightarrow> string \<Rightarrow> diagram_db side \<Rightarrow> diagram_db side" where
  "snap_state v c g = g\<lparr>base := (base g)\<lparr>uuid_draws := Suc (uuid_draws (base g))\<rparr>,
     idb := (idb g)\<lparr>blobs := (blobs (idb g))(dvContentKey v \<mapsto> c), diagram_versions := diagram_versions (idb g) @ [version_row v (clock (base g))]\<rparr>\<rparr>"

definition snapshot_of :: "diagram_db side \<Rightarrow> diagramVersion \<Rightarrow> string \<Rightarrow> bool" where
  "snapshot_of g v c \<longleftrightarrow> dvID v = next_id g \<and> (\<exists>org. dvContentKey v = DiagramVersionKey org (dvDiagramID v) (dvID v)) \<and>
     dvDiagramID v \<in> dgID ` set (diagrams (idb g)) \<and> dvContentHash v = sha256Hex c \<and>
     0 < dvVersionNumber v \<and> latest_version (dvDiagramID v) (diagram_versions (idb g)) < dvVersionNumber v"

lemma sound_snap:
  assumes "sound h g" and "snapshot_of g v c"
  shows "sound h (snap_state v c g)"
    "docs_of (snap_state v c g) = (docs_of g)\<lparr>snapshots := (snapshots (docs_of g))(next_id g \<mapsto> c)\<rparr>"
proof -
  note agree = assms(1) [unfolded sound_def coherent_def, THEN conjunct2]
  obtain org where v: "dvID v = next_id g" "dvContentKey v = DiagramVersionKey org (dvDiagramID v) (next_id g)"
    "dvDiagramID v \<in> dgID ` set (diagrams (idb g))" "dvContentHash v = sha256Hex c" "0 < dvVersionNumber v"
    using assms(2) by (auto simp: snapshot_of_def)
  note new = next_id_new [OF assms(1)]
  note keys = version_key_new [OF agree new(3,2), of _ org "dvDiagramID v"]
  note put = agree_blob [OF agree, of "dvContentKey v" c, unfolded v(2), OF keys]
  let ?v = "version_row v (clock (base g))"
  have row: "dvID ?v = next_id g" "dvContentKey ?v = DiagramVersionKey org (dvDiagramID ?v) (dvID ?v)" "dvDiagramID ?v = dvDiagramID v"
    "dvContentHash ?v = sha256Hex c" "0 < dvVersionNumber ?v"
    using v by (simp_all add: version_row_def)
  note add = agree_add_version [OF put(1), of ?v "uuid_draws (base g)" org c]
  have "agree (dhHasCache h) (diagrams (idb g)) (diagram_versions (idb g) @ [?v]) ((blobs (idb g))(dvContentKey v \<mapsto> c)) (cache (base g)) (folders (idb g))
      (teams (db (base g))) (uuids (base g)) (Suc (uuid_draws (base g))) \<and>
      snaps (diagram_versions (idb g) @ [?v]) ((blobs (idb g))(dvContentKey v \<mapsto> c)) = (snaps (diagram_versions (idb g)) (blobs (idb g)))(next_id g \<mapsto> c)"
    using add new(1,2) row v put(3) by (simp add: next_id_def)
  then show "sound h (snap_state v c g)"
    "docs_of (snap_state v c g) = (docs_of g)\<lparr>snapshots := (snapshots (docs_of g))(next_id g \<mapsto> c)\<rparr>"
    using assms(1) put(2) v(2) by (simp_all add: sound_def coherent_def snap_state_def docs_of_def healthy_def)
qed

text \<open>A live row gets a new content; the cached one is forgotten.\<close>

definition forget_state :: "diagram_handler \<Rightarrow> string \<Rightarrow> diagram_db side \<Rightarrow> diagram_db side" where
  "forget_state h i g = (if dhHasCache h then g\<lparr>base := (base g)\<lparr>cache := (cache (base g))(cache_DiagramContentKey i := None)\<rparr>\<rparr> else g)"

definition write_state :: "diagram \<Rightarrow> diagram_db side \<Rightarrow> diagram_db side" where
  "write_state dg g = g\<lparr>idb := (idb g)\<lparr>diagrams := update_where (live_diagram (dgID dg)) (written dg (clock (base g))) (diagrams (idb g))\<rparr>\<rparr>"

definition upload_state :: "string \<Rightarrow> string \<Rightarrow> diagram_db side \<Rightarrow> diagram_db side" where
  "upload_state key c g = g\<lparr>idb := (idb g)\<lparr>blobs := (blobs (idb g))(key \<mapsto> c)\<rparr>\<rparr>"

definition put_state :: "diagram_handler \<Rightarrow> diagram \<Rightarrow> string \<Rightarrow> diagram_db side \<Rightarrow> diagram_db side" where
  "put_state h dg c g = forget_state h (dgID dg) (write_state dg (upload_state (dgContentKey dg) c g))"

text \<open>\<open>edits g dg row\<close>: \<open>dg\<close> is the live row \<open>row\<close> with fields edited that the handlers edit, and its folder and team exist.\<close>

definition edits :: "diagram_db side \<Rightarrow> diagram \<Rightarrow> diagram \<Rightarrow> bool" where
  "edits g dg row \<longleftrightarrow> row \<in> set (diagrams (idb g)) \<and> dgDeletedAt row = None \<and> dgID dg = dgID row \<and> dgContentKey dg = dgContentKey row \<and>
     linked (folders (idb g)) (teams (db (base g))) dg"

lemma written_fields [simp]:
  "dgID (written dg t r) = dgID r" "dgOrgID (written dg t r) = dgOrgID r" "dgContentKey (written dg t r) = dgContentKey dg"
  "dgContentHash (written dg t r) = dgContentHash dg" "dgDeletedAt (written dg t r) = dgDeletedAt r"
  "linked fs ts (written dg t r) = linked fs ts dg"
  by (simp_all add: written_def linked_def)

lemma sound_put:
  assumes "sound h g" and "edits g dg row" and "dgContentHash dg = sha256Hex c"
  shows "sound h (put_state h dg c g)" "docs_of (put_state h dg c g) = (docs_of g)\<lparr>current := (current (docs_of g))(dgID dg \<mapsto> c)\<rparr>"
proof -
  note agree = assms(1) [unfolded sound_def coherent_def, THEN conjunct2]
  note e = assms(2) [unfolded edits_def]
  note put = agree_put [OF agree, of row "written dg (clock (base g))" c]
  show "sound h (put_state h dg c g)" "docs_of (put_state h dg c g) = (docs_of g)\<lparr>current := (current (docs_of g))(dgID dg \<mapsto> c)\<rparr>"
    using assms(1,3) put e
    by (auto simp: sound_def coherent_def put_state_def forget_state_def write_state_def upload_state_def docs_of_def healthy_def)
qed

lemma sound_write:
  assumes "sound h g" and "edits g dg row" and "dgContentHash dg = dgContentHash row"
  shows "sound h (write_state dg g)" "docs_of (write_state dg g) = docs_of g"
proof -
  note agree = assms(1) [unfolded sound_def coherent_def, THEN conjunct2]
  note e = assms(2) [unfolded edits_def]
  have only: "r = row" if "r \<in> set (diagrams (idb g))" "live_diagram (dgID dg) r" for r
    using that e same_row [OF agreeD(1) [OF agree]] by (auto simp: live_diagram_def)
  note up = agree_update [OF agree, of "written dg (clock (base g))" "live_diagram (dgID dg)"]
  have "agree (dhHasCache h) (update_where (live_diagram (dgID dg)) (written dg (clock (base g))) (diagrams (idb g))) (diagram_versions (idb g)) (blobs (idb g))
      (cache (base g)) (folders (idb g)) (teams (db (base g))) (uuids (base g)) (uuid_draws (base g)) \<and>
      doc (update_where (live_diagram (dgID dg)) (written dg (clock (base g))) (diagrams (idb g))) (blobs (idb g)) = doc (diagrams (idb g)) (blobs (idb g))"
    by (intro conjI up) (use e assms(3) in \<open>auto dest: only\<close>)
  then show "sound h (write_state dg g)" "docs_of (write_state dg g) = docs_of g"
    using assms(1) by (auto simp: sound_def coherent_def write_state_def docs_of_def)
qed

lemma run_write [run_simps]:
  assumes "healthy g" and "edits g dg row"
  shows "run_state (UpdateDiagram dg) g = (Inr (), write_state dg g)"
proof -
  have "\<exists>r\<in>set (diagrams (idb g)). live_diagram (dgID dg) r" using assms(2) by (auto simp: edits_def live_diagram_def)
  then show ?thesis using assms by (simp add: run_UpdateDiagram edits_def linked_def write_state_def)
qed

lemma run_upload [run_simps]: "healthy g \<Longrightarrow> run_state (Upload key c) g = (Inr (), upload_state key c g)"
  by (simp add: run_UploadH upload_state_def)

lemma run_forget [run_simps]: "healthy g \<Longrightarrow> run_state (cacheDel h i) g = ((), forget_state h i g)"
  by (simp add: run_cacheDel forget_state_def)

lemma edits_states [simp]:
  "edits (upload_state key c g) dg row = edits g dg row" "edits (forget_state h i g) dg row = edits g dg row"
  "healthy (upload_state key c g) = healthy g" "healthy (forget_state h i g) = healthy g" "healthy (write_state dg g) = healthy g"
  "healthy (draw_state g) = healthy g" "healthy (enqueue_state h org i g) = healthy g"
  by (simp_all add: edits_def upload_state_def forget_state_def write_state_def draw_state_def enqueue_state_def healthy_def)

lemma put_commutes:
  "write_state dg (forget_state h i g) = forget_state h i (write_state dg g)"
  by (simp add: write_state_def forget_state_def)

section \<open>Reading\<close>

lemma sound_find:
  assumes "sound h g" and "find (\<lambda>r. dgID r = i) (diagrams (idb g)) = Some dg"
  shows "dg \<in> set (diagrams (idb g))" "dgID dg = i" "plain_id i"
    "\<exists>c. blobs (idb g) (dgContentKey dg) = Some c \<and> dgContentHash dg = sha256Hex c"
    "dgDeletedAt dg = None \<Longrightarrow> current (docs_of g) i = blobs (idb g) (dgContentKey dg)"
    "dgDeletedAt dg \<noteq> None \<Longrightarrow> current (docs_of g) i = None"
    "dgDeletedAt dg = None \<Longrightarrow> edits g dg dg"
proof -
  note agree = assms(1) [unfolded sound_def coherent_def, THEN conjunct2]
  show dg: "dg \<in> set (diagrams (idb g))" "dgID dg = i" using find_SomeD [OF assms(2)] by auto
  note ok = agreeD(3) [OF agree dg(1)]
  show "plain_id i" using ok dg(2) by (simp add: row_ok_def)
  show "\<exists>c. blobs (idb g) (dgContentKey dg) = Some c \<and> dgContentHash dg = sha256Hex c" using ok by (auto simp: row_ok_def stored_def)
  show "current (docs_of g) i = blobs (idb g) (dgContentKey dg)" if "dgDeletedAt dg = None"
    using find_live [OF agreeD(1) [OF agree] dg(1) that] dg(2) by (simp add: docs_of_def doc_def)
  show "edits g dg dg" if "dgDeletedAt dg = None" using ok dg(1) that by (simp add: edits_def row_ok_def)
  show "current (docs_of g) i = None" if "dgDeletedAt dg \<noteq> None"
  proof -
    have "find (live_diagram i) (diagrams (idb g)) = None"
    proof (cases "find (live_diagram i) (diagrams (idb g))")
      case (Some r)
      then have r: "r \<in> set (diagrams (idb g)) \<and> dgID r = i \<and> dgDeletedAt r = None" by (simp add: find_live_iff [OF agreeD(1) [OF agree]])
      then have "r = dg" by (intro same_row [OF agreeD(1) [OF agree] _ dg(1)]) (simp_all add: dg(2))
      then show ?thesis using r that by simp
    qed
    then show ?thesis by (simp add: docs_of_def doc_def)
  qed
qed

lemma sound_find_None:
  assumes "find (\<lambda>r. dgID r = i) (diagrams (idb g)) = None"
  shows "current (docs_of g) i = None"
proof -
  have "find (live_diagram i) (diagrams (idb g)) = None" using assms by (auto simp: find_None_iff live_diagram_def)
  then show ?thesis by (simp add: docs_of_def doc_def)
qed

lemma sound_cached:
  assumes "sound h g" and "dhHasCache h" and "cache (base g) (cache_DiagramContentKey i) = Some c"
  shows "current (docs_of g) i = Some c"
proof -
  note agree = assms(1) [unfolded sound_def coherent_def, THEN conjunct2]
  obtain dg where dg: "dg \<in> set (diagrams (idb g))" "live_diagram i dg" "blobs (idb g) (dgContentKey dg) = Some c"
    using agreeD(5) [OF agree assms(2)] assms(3) by (auto simp: cached_ok_def)
  have "find (live_diagram i) (diagrams (idb g)) = Some dg" using find_live [OF agreeD(1) [OF agree] dg(1)] dg(2) by (auto simp: live_diagram_def)
  then show ?thesis using dg(3) by (simp add: docs_of_def doc_def)
qed

lemma sound_find_version:
  assumes "sound h g" and "find (\<lambda>v. dvID v = i) (diagram_versions (idb g)) = Some v"
  shows "dvID v = i" "\<exists>c. blobs (idb g) (dvContentKey v) = Some c \<and> dvContentHash v = sha256Hex c \<and> snapshots (docs_of g) i = Some c"
proof -
  note agree = assms(1) [unfolded sound_def coherent_def, THEN conjunct2]
  have v: "v \<in> set (diagram_versions (idb g))" "dvID v = i" using find_SomeD [OF assms(2)] by auto
  then show "dvID v = i" by simp
  show "\<exists>c. blobs (idb g) (dvContentKey v) = Some c \<and> dvContentHash v = sha256Hex c \<and> snapshots (docs_of g) i = Some c"
    using agreeD(4) [OF agree v(1)] assms(2) by (auto simp: version_ok_def stored_def docs_of_def snaps_def)
qed

definition keep_state :: "diagram_handler \<Rightarrow> string \<Rightarrow> string \<Rightarrow> diagram_db side \<Rightarrow> diagram_db side" where
  "keep_state h i c g = (if dhHasCache h then g\<lparr>base := (base g)\<lparr>cache := (cache (base g))(cache_DiagramContentKey i \<mapsto> c)\<rparr>\<rparr> else g)"

lemma run_keep [run_simps]: "healthy g \<Longrightarrow> run_state (cacheSet h i c) g = ((), keep_state h i c g)"
  by (simp add: run_cacheSet keep_state_def)

lemma sound_keep:
  assumes "sound h g" and "current (docs_of g) i = Some c"
  shows "sound h (keep_state h i c g)" "docs_of (keep_state h i c g) = docs_of g" "healthy (keep_state h i c g)"
proof -
  note agree = assms(1) [unfolded sound_def coherent_def, THEN conjunct2]
  obtain dg where "find (live_diagram i) (diagrams (idb g)) = Some dg" "blobs (idb g) (dgContentKey dg) = Some c"
    using assms(2) by (auto simp: docs_of_def doc_def split: option.splits)
  then have dg: "dg \<in> set (diagrams (idb g))" "dgID dg = i" "dgDeletedAt dg = None" "blobs (idb g) (dgContentKey dg) = Some c"
    using find_live_iff [OF agreeD(1) [OF agree]] by auto
  show "sound h (keep_state h i c g)" "docs_of (keep_state h i c g) = docs_of g" "healthy (keep_state h i c g)"
    using assms(1) agree_cache [OF agree dg(1,3,4)] dg(2)
    by (auto simp: sound_def coherent_def keep_state_def docs_of_def healthy_def)
qed

end
