(* ===== verification/DiagramRefines.thy ===== *)
theory DiagramRefines
  imports DiagramSpec
begin

text \<open>
  The handlers of diagrams implement their specification while nothing fails: each keeps \<open>sound\<close> and does to the contents what \<open>doc_spec\<close> says.
\<close>

lemmas diagram_runs = run_ion_err run_ibindE run_with_principal run_not_deleted run_lift_now run_draw run_upload run_DownloadH run_uploadContent
  run_GetDiagram run_GetDiagramVersion run_latestVer run_write run_enqueueScreenshot run_forget run_keep run_cacheGet

lemma Error_status [simp]: "rStatus (Error e) \<noteq> 200" "rStatus (Error e) \<noteq> 201" "rStatus (Error e) \<noteq> 204" "rStatus (JSON n b) = n"
  "rStatus Unauthorized = 401" "rStatus (BadRequest b) = 400" "rStatus NoContent = 204"
  by (simp_all add: Error_def JSON_def Unauthorized_def BadRequest_def NoContent_def)

lemma sound_healthy: "sound h g \<Longrightarrow> healthy g"
  by (simp add: sound_def)

definition refines :: "diagram_handler \<Rightarrow> diagram_call \<Rightarrow> http_request \<Rightarrow> diagram_db side \<Rightarrow> bool" where
  "refines h req r g \<longleftrightarrow> (case run_state (handle h req r) g of (a, g') \<Rightarrow> sound h g' \<and> doc_spec req r a (docs_of g) (docs_of g'))"

section \<open>Reading\<close>

lemma refines_GetContent:
  assumes "sound h g"
  shows "refines h CallGetContent r g"
proof (cases "dhHasCache h \<and> cache (base g) (cache_DiagramContentKey (pathValue r ''diagramID'')) \<noteq> None")
  case True
  then obtain c where c: "cache (base g) (cache_DiagramContentKey (pathValue r ''diagramID'')) = Some c" by blast
  then show ?thesis
    using assms True sound_cached [OF assms _ c]
    by (simp add: refines_def DiagramHandler_GetContent_def diagram_runs sound_healthy Let_def)
next
  case False
  let ?i = "pathValue r ''diagramID''"
  have miss: "run_state (cacheGet h ?i) g = (None, g)" using False sound_healthy [OF assms] by (auto simp: run_cacheGet)
  show ?thesis
  proof (cases "find (\<lambda>r. dgID r = ?i) (diagrams (idb g))")
    case None
    then show ?thesis using assms sound_find_None [OF None]
      by (simp add: refines_def DiagramHandler_GetContent_def miss diagram_runs sound_healthy Let_def)
  next
    case (Some dg)
    note f = sound_find [OF assms Some]
    show ?thesis
    proof (cases "dgDeletedAt dg")
      case None
      obtain c where c: "blobs (idb g) (dgContentKey dg) = Some c" using f(4) by blast
      with f(5) None have "current (docs_of g) ?i = Some c" by simp
      then show ?thesis using assms Some None c sound_keep [OF assms, of ?i c]
        by (simp add: refines_def DiagramHandler_GetContent_def miss diagram_runs sound_healthy Let_def)
    next
      case (Some t)
      then show ?thesis using assms \<open>find _ _ = Some dg\<close> f(6)
        by (simp add: refines_def DiagramHandler_GetContent_def miss diagram_runs sound_healthy Let_def)
    qed
  qed
qed

lemma run_getContent:
  assumes "sound h g" and "find (\<lambda>r. dgID r = i) (diagrams (idb g)) = Some dg" and "dgDeletedAt dg = None"
  obtains c g' where "run_state (getContent h i (dgContentKey dg)) g = (Inr c, g')" and "sound h g'" and "docs_of g' = docs_of g" and "idb g' = idb g"
    and "next_id g' = next_id g" and "current (docs_of g) i = Some c" and "dgContentHash dg = sha256Hex c"
proof -
  note f = sound_find [OF assms(1,2)]
  obtain c where c: "blobs (idb g) (dgContentKey dg) = Some c" "dgContentHash dg = sha256Hex c" using f(4) by blast
  then have now: "current (docs_of g) i = Some c" using f(5) assms(3) by simp
  show thesis
  proof (cases "dhHasCache h \<and> cache (base g) (cache_DiagramContentKey i) \<noteq> None")
    case True
    then obtain c' where c': "cache (base g) (cache_DiagramContentKey i) = Some c'" by blast
    have "c' = c" using sound_cached [OF assms(1) _ c'] True now by simp
    then show thesis using True c' c now assms(1) by (intro that [of c g]) (simp_all add: getContent_def diagram_runs sound_healthy)
  next
    case False
    then have "run_state (cacheGet h i) g = (None, g)" using sound_healthy [OF assms(1)] by (auto simp: run_cacheGet)
    then show thesis using c now assms(1) sound_keep [OF assms(1) now]
      by (intro that [of c "keep_state h i c g"]) (simp_all add: getContent_def diagram_runs sound_healthy keep_state_def next_id_def)
  qed
qed

lemma refines_Get:
  assumes "sound h g"
  shows "refines h CallGet r g"
proof (cases "find (\<lambda>x. dgID x = pathValue r ''diagramID'') (diagrams (idb g))")
  case None
  then show ?thesis using assms sound_find_None [OF None] by (simp add: refines_def DiagramHandler_Get_def diagram_runs sound_healthy)
next
  case (Some dg)
  note f = sound_find [OF assms Some]
  show ?thesis
  proof (cases "dgDeletedAt dg = None \<and> queryValue r ''includeContent'' = ''true''")
    case True
    then have live: "dgDeletedAt dg = None" by simp
    obtain c g' where "run_state (getContent h (pathValue r ''diagramID'') (dgContentKey dg)) g = (Inr c, g')" "sound h g'" "docs_of g' = docs_of g"
        "current (docs_of g) (pathValue r ''diagramID'') = Some c"
      using run_getContent [OF assms Some live] by metis
    then show ?thesis using assms Some True f(2) by (auto simp: refines_def DiagramHandler_Get_def diagram_runs sound_healthy)
  next
    case False
    have "dgDeletedAt dg = None \<Longrightarrow> \<exists>c. current (docs_of g) (pathValue r ''diagramID'') = Some c" using f(4,5) by auto
    then show ?thesis using assms Some False f(6)
      by (cases "dgDeletedAt dg") (auto simp: refines_def DiagramHandler_Get_def diagram_runs sound_healthy)
  qed
qed

lemma refines_GetVersionContent:
  assumes "sound h g"
  shows "refines h CallGetVersionContent r g"
proof (cases "find (\<lambda>v. dvID v = pathValue r ''versionID'') (diagram_versions (idb g))")
  case None
  then show ?thesis using assms
    by (simp add: refines_def DiagramHandler_GetVersionContent_def diagram_runs sound_healthy docs_of_def snaps_def)
next
  case (Some v)
  note f = sound_find_version [OF assms Some]
  then obtain c where "blobs (idb g) (dvContentKey v) = Some c" "snapshots (docs_of g) (pathValue r ''versionID'') = Some c" by blast
  then show ?thesis using assms Some f(1)
    by (simp add: refines_def DiagramHandler_GetVersionContent_def diagram_runs sound_healthy)
qed

lemma run_ListDiagrams: "healthy g \<Longrightarrow> \<exists>rows total. run_state (ListDiagrams org p) g = (Inr (rows, total), g)"
  by (simp add: ListDiagrams_def run_ibindE run_iwrap run_iquery_healthy healthy_faults lift_def collate_def Let_def)

lemma refines_lists:
  assumes "sound h g"
  shows "refines h CallList r g" "refines h CallListVersions r g" "refines h CallListImages r g"
proof -
  show "refines h CallList r g"
    using run_ListDiagrams [OF sound_healthy [OF assms], of "pathValue r ''orgID''" "list_params r"] assms
    by (auto simp: refines_def DiagramHandler_List_def run_ion_err)
  show "refines h CallListVersions r g" "refines h CallListImages r g"
    using assms sound_healthy [OF assms]
    by (simp_all add: refines_def DiagramHandler_ListVersions_def DiagramHandler_ListImages_def ListDiagramVersions_def ListDiagramImages_def run_ion_err
        run_iwrap run_iquery_healthy healthy_faults)
qed

section \<open>Thumbnails and images\<close>

lemma run_own_diagram:
  assumes "sound h g"
  obtains (refused) a where "\<And>k. run_state (own_diagram r k) g = (a, g)"
    | (own) p dg where "\<And>k. run_state (own_diagram r k) g = run_state (k p dg) g" and "find (\<lambda>x. dgID x = pathValue r ''diagramID'') (diagrams (idb g)) = Some dg"
        and "dgDeletedAt dg = None"
proof (cases "\<exists>p dg. ctxPrincipal r = Some p \<and> find (\<lambda>x. dgID x = pathValue r ''diagramID'') (diagrams (idb g)) = Some dg \<and> dgDeletedAt dg = None \<and>
    dgOrgID dg = pathValue r ''orgID''")
  case True
  then show thesis using own assms by (auto simp: own_diagram_def diagram_runs sound_healthy)
next
  case False
  have "\<exists>a. \<forall>k. run_state (own_diagram r k) g = (a, g)"
  proof (cases "ctxPrincipal r")
    case None
    then show ?thesis by (simp add: own_diagram_def diagram_runs)
  next
    case p: (Some p)
    show ?thesis
    proof (cases "find (\<lambda>x. dgID x = pathValue r ''diagramID'') (diagrams (idb g))")
      case None
      then show ?thesis using p assms by (simp add: own_diagram_def diagram_runs sound_healthy)
    next
      case (Some dg)
      then have "dgDeletedAt dg \<noteq> None \<or> dgOrgID dg \<noteq> pathValue r ''orgID''" using False p by auto
      then show ?thesis using p Some assms by (auto simp: own_diagram_def diagram_runs sound_healthy)
    qed
  qed
  then show thesis using refused by blast
qed

lemma sound_asset:
  assumes "sound h g" and "CHR ''/'' \<notin> set a" and "CHR ''.'' \<notin> set a"
  shows "sound h (upload_state (AssetKey a) c g)" "docs_of (upload_state (AssetKey a) c g) = docs_of g"
proof -
  note agree = assms(1) [unfolded sound_def coherent_def, THEN conjunct2]
  note put = agree_blob [OF agree, of "AssetKey a" c, OF asset_key_new [OF agree assms(2,3)]]
  show "sound h (upload_state (AssetKey a) c g)" "docs_of (upload_state (AssetKey a) c g) = docs_of g"
    using assms(1) put by (simp_all add: sound_def coherent_def upload_state_def docs_of_def)
qed

lemma sound_forget_asset:
  assumes "sound h g"
  obtains g' where "run_state (forget_asset h a) g = ((), g')" and "sound h g'" and "docs_of g' = docs_of g"
  using assms run_forget_asset [OF sound_healthy [OF assms], of h a]
  by (intro that [of "if dhHasCache h then g\<lparr>base := (base g)\<lparr>cache := (cache (base g))(AssetURLKey a := None)\<rparr>\<rparr> else g"])
    (auto simp: sound_def coherent_def docs_of_def healthy_def intro: agree_forget)

lemma edits_preview:
  "edits g dg row \<Longrightarrow> edits g (dg\<lparr>dgPreviewAssetID := a, dgPreviewContentHash := b, dgUpdatedBy := u\<rparr>) row"
  by (simp add: edits_def linked_def)

lemma preview_written:
  fixes a b u :: "string option"
  assumes "sound h g" and "find (\<lambda>x. dgID x = i) (diagrams (idb g)) = Some dg" and "dgDeletedAt dg = None"
  defines "dg' \<equiv> dg\<lparr>dgPreviewAssetID := a, dgPreviewContentHash := b, dgUpdatedBy := u\<rparr>"
  shows "run_state (UpdateDiagram dg') g = (Inr (), write_state dg' g)" "sound h (write_state dg' g)" "docs_of (write_state dg' g) = docs_of g"
proof -
  have e: "edits g dg' dg" unfolding dg'_def using sound_find(7) [OF assms(1-3)] by (rule edits_preview)
  show "run_state (UpdateDiagram dg') g = (Inr (), write_state dg' g)" by (rule run_write [OF sound_healthy [OF assms(1)] e])
  show "sound h (write_state dg' g)" "docs_of (write_state dg' g) = docs_of g"
    using sound_write [OF assms(1) e] by (simp_all add: dg'_def)
qed

lemma refines_thumbnails:
  assumes "sound h g"
  shows "refines h CallPrepareThumbnailUpload r g" "refines h CallGenerateThumbnail r g" "refines h (CallConfirmThumbnailUpload hash) r g"
proof -
  show "refines h CallPrepareThumbnailUpload r g"
    by (rule run_own_diagram [OF assms, where r = r])
      (use assms in \<open>auto simp: refines_def DiagramHandler_PrepareThumbnailUpload_def Let_def split: sum.splits\<close>)
  show "refines h CallGenerateThumbnail r g"
    by (rule run_own_diagram [OF assms, where r = r])
      (use assms sound_enqueue [OF assms] in \<open>auto simp: refines_def DiagramHandler_GenerateThumbnail_def run_ion_err run_enqueueScreenshotErr sound_healthy\<close>)
  show "refines h (CallConfirmThumbnailUpload hash) r g"
  proof (rule run_own_diagram [OF assms, where r = r])
    fix p dg
    assume own: "\<And>k. run_state (own_diagram r k) g = run_state (k p dg) g"
      and dg: "find (\<lambda>x. dgID x = pathValue r ''diagramID'') (diagrams (idb g)) = Some dg" "dgDeletedAt dg = None"
    let ?a = "DiagramThumbnailAssetID (pathValue r ''diagramID'')"
    let ?dg = "\<lambda>b. dg\<lparr>dgPreviewAssetID := Some ?a, dgPreviewContentHash := Some b, dgUpdatedBy := Some (pUserID p)\<rparr>"
    note w = preview_written [OF assms dg, where a = "Some ?a" and b = "Some b" and u = "Some (pUserID p)" for b]
    have "refines h (CallConfirmThumbnailUpload (Some b)) r g" if "b \<noteq> []" for b
    proof -
      obtain g' where "run_state (forget_asset h ?a) (write_state (?dg b) g) = ((), g')" "sound h g'" "docs_of g' = docs_of (write_state (?dg b) g)"
        by (rule sound_forget_asset [OF w(2) [of b]])
      then show ?thesis using \<open>b \<noteq> []\<close> w(1,3) [of b] by (simp add: refines_def DiagramHandler_ConfirmThumbnailUpload_def own run_ion_err Let_def)
    qed
    then show ?thesis using assms by (cases hash) (auto simp: refines_def DiagramHandler_ConfirmThumbnailUpload_def own)
  qed (use assms in \<open>auto simp: refines_def DiagramHandler_ConfirmThumbnailUpload_def\<close>)
qed

text \<open>The other handlers look up a live diagram first.\<close>

lemma run_live_diagram:
  assumes "sound h g"
  obtains (refused) a where "\<And>k. run_state (with_principal r (\<lambda>p. ion_err (GetDiagram i) (\<lambda>dg. not_deleted dgDeletedAt dg (k p)))) g = (a, g)"
        and "rStatus a \<notin> {200, 201, 204}" and "ctxPrincipal r = None \<or> current (docs_of g) i = None"
    | (found) p dg where "ctxPrincipal r = Some p" and "\<And>k. run_state (with_principal r (\<lambda>p. ion_err (GetDiagram i) (\<lambda>dg. not_deleted dgDeletedAt dg (k p)))) g = run_state (k p dg) g"
        and "find (\<lambda>x. dgID x = i) (diagrams (idb g)) = Some dg" and "dgDeletedAt dg = None" and "current (docs_of g) i \<noteq> None"
proof (cases "ctxPrincipal r")
  case None
  then show thesis by (intro refused [of Unauthorized]) (simp_all add: diagram_runs)
next
  case p: (Some p)
  show thesis
  proof (cases "find (\<lambda>x. dgID x = i) (diagrams (idb g))")
    case None
    then show thesis using p assms sound_find_None [OF None] by (intro refused [of "Error StoreErrNotFound"]) (simp_all add: diagram_runs sound_healthy)
  next
    case (Some dg)
    show thesis
    proof (cases "dgDeletedAt dg")
      case None
      then have "current (docs_of g) i \<noteq> None" using sound_find(4,5) [OF assms Some] by auto
      with None show thesis using p Some assms by (intro found [of p dg]) (simp_all add: diagram_runs sound_healthy)
    next
      case del: (Some t)
      then show thesis using p Some assms sound_find(6) [OF assms Some]
        by (intro refused [of "Error StoreErrNotFound"]) (simp_all add: diagram_runs sound_healthy)
    qed
  qed
qed

lemma refines_UpdateThumbnail:
  assumes "sound h g"
  shows "refines h (CallUpdateThumbnail pic) r g"
proof (rule run_live_diagram [OF assms, where r = r and i = "pathValue r ''diagramID''"])
  fix p dg
  let ?i = "pathValue r ''diagramID''"
  assume caller: "ctxPrincipal r = Some p" and found: "\<And>k. run_state (with_principal r (\<lambda>p. ion_err (GetDiagram ?i) (\<lambda>dg. not_deleted dgDeletedAt dg (k p)))) g = run_state (k p dg) g"
    and dg: "find (\<lambda>x. dgID x = ?i) (diagrams (idb g)) = Some dg" "dgDeletedAt dg = None"
  let ?a = "DiagramThumbnailAssetID ?i"
  have "refines h (CallUpdateThumbnail (Some (Inr raw))) r g" for raw
  proof -
    note up = sound_asset [OF assms asset_id_chars(1,2) [OF sound_find(3) [OF assms dg(1)]], of raw]
    let ?g = "upload_state (AssetKey ?a) raw g"
    have "find (\<lambda>x. dgID x = ?i) (diagrams (idb ?g)) = Some dg" using dg(1) by (simp add: upload_state_def)
    note w = preview_written [OF up(1) this dg(2), where a = "Some ?a" and b = "Some (sha256Hex raw)" and u = "Some (pUserID p)"]
    let ?w = "write_state (dg\<lparr>dgPreviewAssetID := Some ?a, dgPreviewContentHash := Some (sha256Hex raw), dgUpdatedBy := Some (pUserID p)\<rparr>) ?g"
    obtain g' where "run_state (forget_asset h ?a) ?w = ((), g')" "sound h g'" "docs_of g' = docs_of ?w"
      by (rule sound_forget_asset [OF w(2)])
    then show ?thesis using w(1,3) up(2) run_upload [OF sound_healthy [OF assms]]
      by (simp add: refines_def DiagramHandler_UpdateThumbnail_def Let_def found run_ion_err)
  qed
  then show ?thesis using assms by (cases pic) (auto simp: refines_def DiagramHandler_UpdateThumbnail_def Let_def found split: sum.splits)
qed (use assms in \<open>auto simp: refines_def DiagramHandler_UpdateThumbnail_def Let_def\<close>)


lemma sound_images: "sound h (g\<lparr>idb := (idb g)\<lparr>diagram_images := ms\<rparr>\<rparr>) = sound h g" "docs_of (g\<lparr>idb := (idb g)\<lparr>diagram_images := ms\<rparr>\<rparr>) = docs_of g"
  by (simp_all add: sound_def coherent_def docs_of_def)

lemma run_CreateDiagramImage:
  assumes "sound h g"
  obtains x g' where "run_state (CreateDiagramImage img) g = (x, g')" and "sound h g'" and "docs_of g' = docs_of g"
proof -
  let ?row = "img\<lparr>diCreatedAt := if diCreatedAt img = 0 then clock (base g) else diCreatedAt img\<rparr>"
  let ?g = "g\<lparr>idb := (idb g)\<lparr>diagram_images := diagram_images (idb g) @ [?row]\<rparr>\<rparr>"
  have "snd (run_state (CreateDiagramImage img) g) = g \<or> snd (run_state (CreateDiagramImage img) g) = ?g"
    using sound_healthy [OF assms] by (auto simp: CreateDiagramImage_def run_iwrap run_txn_healthy healthy_faults)
  then have "sound h (snd (run_state (CreateDiagramImage img) g)) \<and> docs_of (snd (run_state (CreateDiagramImage img) g)) = docs_of g"
    using assms by (auto simp: sound_images)
  then show thesis by (intro that [of "fst (run_state (CreateDiagramImage img) g)" "snd (run_state (CreateDiagramImage img) g)"]) simp_all
qed

lemma run_saveDiagramImage:
  assumes "sound h g"
  obtains x g' where "run_state (saveDiagramImage org i u a n k) g = (x, g')" and "sound h g'" and "docs_of g' = docs_of g"
proof -
  let ?img = "\<lparr>diID = next_id g, diDiagramID = i, diOrgID = org, diAssetID = a, diFileName = n, diOrder = k, diCreatedBy = u, diCreatedAt = clock (base (draw_state g))\<rparr>"
  obtain x g' where run: "run_state (CreateDiagramImage ?img) (draw_state g) = (x, g')" "sound h g'" "docs_of g' = docs_of (draw_state g)"
    by (rule run_CreateDiagramImage [OF sound_draw(1) [OF assms]])
  show thesis
  proof (cases x)
    case (Inl e)
    then show thesis using run sound_draw(2) by (intro that [of "Inl e" g']) (simp_all add: saveDiagramImage_def diagram_runs Let_def)
  next
    case (Inr y)
    then show thesis using run sound_draw(2) by (intro that [of "Inr ?img" g']) (simp_all add: saveDiagramImage_def diagram_runs Let_def)
  qed
qed

lemma run_saved_image:
  assumes "sound h g"
  obtains x g' where "run_state (ion_err (saveDiagramImage org i u a n k) (\<lambda>img. ret (JSON 201 (image_json img)))) g = (x, g')"
    and "sound h g'" and "docs_of g' = docs_of g"
proof -
  obtain x g' where run: "run_state (saveDiagramImage org i u a n k) g = (x, g')" "sound h g'" "docs_of g' = docs_of g" by (rule run_saveDiagramImage [OF assms])
  show thesis by (cases x) (use run in \<open>simp_all add: run_ion_err that\<close>)
qed

lemma refines_CreateImage:
  assumes "sound h g"
  shows "refines h (CallCreateImage t b f v) r g"
proof (rule run_live_diagram [OF assms, where r = r and i = "pathValue r ''diagramID''"])
  fix p dg
  let ?i = "pathValue r ''diagramID''"
  assume caller: "ctxPrincipal r = Some p" and found: "\<And>k. run_state (with_principal r (\<lambda>p. ion_err (GetDiagram ?i) (\<lambda>dg. not_deleted dgDeletedAt dg (k p)))) g = run_state (k p dg) g"
  have json: "\<exists>x g'. run_state (createImageFromAsset b org i u) g = (x, g') \<and> sound h g' \<and> docs_of g' = docs_of g" for org i u
  proof (cases "b = None \<or> ibAssetID (the b) = []")
    case True
    then show ?thesis using assms by (auto simp: createImageFromAsset_def split: option.splits)
  next
    case False
    then obtain x where "b = Some x" "ibAssetID x \<noteq> []" by auto
    then show ?thesis by (simp add: createImageFromAsset_def) (metis run_saved_image [OF assms])
  qed
  let ?a = "''file_'' @ next_id g"
  note up = sound_asset [OF sound_draw(1) [OF assms] asset_id_chars(3,4) [OF next_id_new(3) [OF assms]]]
  have asset: "run_state (lift NewFileAssetID) g = (?a, draw_state g)" by (simp add: run_NewFileAssetID next_id_def draw_state_def)
  have stored: "run_state (Upload key c) (draw_state g) = (Inr (), upload_state key c (draw_state g))" for key c
    by (rule run_upload) (use sound_healthy [OF assms] in simp)
  show ?thesis
  proof (cases "HasPrefix t ''application/json''")
    case True
    obtain x g' where "run_state (createImageFromAsset b (pathValue r ''orgID'') ?i (pUserID p)) g = (x, g')" "sound h g'" "docs_of g' = docs_of g"
      using json by blast
    then show ?thesis using True by (simp add: refines_def DiagramHandler_CreateImage_def Let_def found)
  next
    case False
    show ?thesis
    proof (cases f)
      case None
      then show ?thesis using False assms by (simp add: refines_def DiagramHandler_CreateImage_def Let_def found)
    next
      case (Some cf)
      obtain c fname where cf: "f = Some (c, fname)" using Some by (cases cf) simp
      let ?order = "if v ''order'' \<noteq> [] then (case Atoi (v ''order'') of Some n \<Rightarrow> n | None \<Rightarrow> 0) else 0"
      let ?name = "if v ''fileName'' \<noteq> [] then Some (v ''fileName'') else some_text fname"
      obtain x g' where "run_state (ion_err (saveDiagramImage (pathValue r ''orgID'') ?i (pUserID p) ?a ?name ?order) (\<lambda>img. ret (JSON 201 (image_json img))))
          (upload_state (AssetKey ?a) c (draw_state g)) = (x, g')" "sound h g'" "docs_of g' = docs_of (upload_state (AssetKey ?a) c (draw_state g))"
        by (rule run_saved_image [OF up(1)])
      then show ?thesis using False cf up(2) sound_draw(2)
        by (simp add: refines_def DiagramHandler_CreateImage_def Let_def found asset stored run_ion_err [where m = "Upload key c" for key c])
    qed
  qed
qed (use assms in \<open>auto simp: refines_def DiagramHandler_CreateImage_def Let_def\<close>)

section \<open>Deleting\<close>

lemma refines_Delete:
  assumes "sound h g"
  shows "refines h CallDelete r g"
proof (cases "ctxPrincipal r")
  case None
  then show ?thesis using assms by (simp add: refines_def DiagramHandler_Delete_def diagram_runs)
next
  case (Some p)
  note del = agree_delete [OF assms [unfolded sound_def coherent_def, THEN conjunct2], where i = "pathValue r ''diagramID''" and t = "clock (base g)" and u = "pUserID p"]
  let ?g = "g\<lparr>idb := (idb g)\<lparr>diagrams := update_where (live_diagram (pathValue r ''diagramID''))
    (\<lambda>r. r\<lparr>dgDeletedAt := Some (clock (base g)), dgDeletedBy := Some (pUserID p)\<rparr>) (diagrams (idb g))\<rparr>\<rparr>"
  have h: "healthy ?g" using sound_healthy [OF assms] by simp
  have run: "run_state (DiagramHandler_Delete h r) g = (NoContent, forget_state h (pathValue r ''diagramID'') ?g)"
    using Some sound_healthy [OF assms] run_forget [OF h]
    by (simp add: DiagramHandler_Delete_def run_with_principal run_ion_err run_SoftDeleteDiagram Let_def)
  have "sound h (forget_state h (pathValue r ''diagramID'') ?g)"
    using del(1) h by (cases "dhHasCache h") (simp_all add: forget_state_def sound_def coherent_def healthy_def)
  moreover have "docs_of (forget_state h (pathValue r ''diagramID'') ?g) = (docs_of g)\<lparr>current := (current (docs_of g))(pathValue r ''diagramID'' := None)\<rparr>"
    using del(2) by (simp add: forget_state_def docs_of_def)
  ultimately show ?thesis using run Some by (simp add: refines_def)
qed

end
