(* ===== verification/DiagramWrites.thy ===== *)
theory DiagramWrites
  imports DiagramRefines
begin

text \<open>
  The handlers that write contents and versions: \<open>Create\<close>, \<open>Update\<close>, \<open>Sync\<close>, \<open>CreateVersion\<close> and \<open>RestoreVersion\<close>.
\<close>

section \<open>New versions\<close>

lemma latest_version_nonneg:
  assumes "sound h g"
  shows "0 \<le> latest_version i (diagram_versions (idb g))"
proof -
  have pos: "0 < dvVersionNumber v" if "v \<in> set (diagram_versions (idb g))" for v
    using agreeD(4) [OF assms [unfolded sound_def coherent_def, THEN conjunct2] that] by (simp add: version_ok_def)
  show ?thesis
  proof (cases "filter (\<lambda>v. dvDiagramID v = i) (diagram_versions (idb g))")
    case Nil
    then show ?thesis by (simp add: latest_version_def)
  next
    case (Cons v vs)
    then have "v \<in> set (filter (\<lambda>v. dvDiagramID v = i) (diagram_versions (idb g)))" by simp
    then have "v \<in> set (diagram_versions (idb g))" "dvDiagramID v = i" by simp_all
    from pos [OF this(1)] latest_version_ge [OF this] show ?thesis by simp
  qed
qed

text \<open>\<open>fresh g i\<close>: the next identifier is not one of a version, and the diagram \<open>i\<close> has a row.\<close>

definition fresh :: "diagram_db side \<Rightarrow> string \<Rightarrow> bool" where
  "fresh g i \<longleftrightarrow> healthy g \<and> next_id g \<notin> dvID ` set (diagram_versions (idb g)) \<and> i \<in> dgID ` set (diagrams (idb g))"

lemma run_stored_version:
  assumes "fresh g (dvDiagramID v)" and "dvID v = next_id g" and "latest_version (dvDiagramID v) (diagram_versions (idb g)) < dvVersionNumber v"
  shows "run_state (CreateDiagramVersion v) (upload_state (dvContentKey v) c (draw_state g)) = (Inr (), snap_state v c g)"
proof -
  let ?g = "upload_state (dvContentKey v) c (draw_state g)"
  have same: "idb ?g = (idb g)\<lparr>blobs := (blobs (idb g))(dvContentKey v \<mapsto> c)\<rparr>" "base ?g = (base g)\<lparr>uuid_draws := Suc (uuid_draws (base g))\<rparr>"
    by (simp_all add: upload_state_def draw_state_def)
  have "run_state (CreateDiagramVersion v) ?g = (Inr (), ?g\<lparr>idb := (idb ?g)\<lparr>diagram_versions := diagram_versions (idb ?g) @ [version_row v (clock (base ?g))]\<rparr>\<rparr>)"
    by (rule run_CreateDiagramVersion) (use assms in \<open>simp_all add: fresh_def same\<close>)
  then show ?thesis by (simp add: snap_state_def upload_state_def draw_state_def)
qed

lemma run_record_version:
  assumes "fresh g (dvDiagramID v)" and "dvID v = next_id g" and "latest_version (dvDiagramID v) (diagram_versions (idb g)) < dvVersionNumber v"
  shows "run_state (record_version c v) (draw_state g) = ((), snap_state v c g)"
  using run_stored_version [OF assms] assms(1) by (simp add: record_version_def run_uploadContent run_upload fresh_def)

definition auto_row :: "string \<Rightarrow> string \<Rightarrow> string \<Rightarrow> string option \<Rightarrow> string \<Rightarrow> diagram_db side \<Rightarrow> diagramVersion" where
  "auto_row org i hash src u g = \<lparr>dvID = next_id g, dvDiagramID = i, dvVersionNumber = latest_version i (diagram_versions (idb g)) + 1, dvLabel = None,
     dvContentKey = DiagramVersionKey org i (next_id g), dvContentHash = hash, dvIsAutoVersion = True, dvSource = src, dvCreatedBy = u,
     dvCreatedAt = clock (base g)\<rparr>"

lemma run_auto_version:
  assumes "fresh g i"
  shows "run_state (auto_version org i c hash src u) g = ((), snap_state (auto_row org i hash src u g) c g)"
proof -
  have "healthy g" "clock (base (draw_state g)) = clock (base g)" using assms by (simp_all add: fresh_def draw_state_def)
  then have "run_state (auto_version org i c hash src u) g = run_state (record_version c (auto_row org i hash src u g)) (draw_state g)"
    by (simp add: auto_version_def run_latestVer run_draw run_lift_now auto_row_def)
  also have "\<dots> = ((), snap_state (auto_row org i hash src u g) c g)" by (rule run_record_version) (use assms in \<open>simp_all add: auto_row_def\<close>)
  finally show ?thesis .
qed

lemma auto_snapshot:
  assumes "sound h g" and "i \<in> dgID ` set (diagrams (idb g))" and "hash = sha256Hex c"
  shows "snapshot_of g (auto_row org i hash src u g) c"
  using assms latest_version_nonneg [OF assms(1), of i] by (auto simp: snapshot_of_def auto_row_def)

lemma sound_fresh: "sound h g \<Longrightarrow> i \<in> dgID ` set (diagrams (idb g)) \<Longrightarrow> fresh g i"
  using next_id_new(2) by (auto simp: fresh_def sound_def)

text \<open>A content becomes current and a version keeps it.\<close>

lemma published_put:
  assumes "sound h g" and "edits g dg row" and "dgContentHash dg = sha256Hex c" and "snapshot_of (put_state h dg c g) v c"
  shows "sound h (snap_state v c (put_state h dg c g))" "published_doc (dgID dg) c (docs_of g) (docs_of (snap_state v c (put_state h dg c g)))"
proof -
  note put = sound_put [OF assms(1-3)]
  note snap = sound_snap [OF put(1) assms(4)]
  show "sound h (snap_state v c (put_state h dg c g))" by (rule snap(1))
  have "snapshots (docs_of g) (next_id (put_state h dg c g)) = None" using next_id_new(4) [OF put(1)] put(2) by simp
  then show "published_doc (dgID dg) c (docs_of g) (docs_of (snap_state v c (put_state h dg c g)))"
    unfolding published_doc_def using snap(2) put(2) by (intro exI [of _ "next_id (put_state h dg c g)"]) simp
qed

lemma put_state_fields [simp]:
  "next_id (put_state h dg c g) = next_id g" "diagram_versions (idb (put_state h dg c g)) = diagram_versions (idb g)"
  "dgID ` set (diagrams (idb (put_state h dg c g))) = dgID ` set (diagrams (idb g))" "clock (base (put_state h dg c g)) = clock (base g)"
  "healthy (put_state h dg c g) = healthy g"
  by (simp_all add: put_state_def forget_state_def write_state_def upload_state_def next_id_def healthy_def ids_update)

lemma healthy_snap [simp]: "healthy (snap_state v c g) = healthy g"
  by (simp add: snap_state_def healthy_def)

section \<open>CreateVersion\<close>

lemma refines_CreateVersion:
  assumes "sound h g"
  shows "refines h (CallCreateVersion label) r g"
proof (rule run_live_diagram [OF assms, where r = r and i = "pathValue r ''diagramID''"])
  fix p dg
  let ?i = "pathValue r ''diagramID''"
  assume caller: "ctxPrincipal r = Some p" and found: "\<And>k. run_state (with_principal r (\<lambda>p. ion_err (GetDiagram ?i) (\<lambda>dg. not_deleted dgDeletedAt dg (k p)))) g = run_state (k p dg) g"
    and dg: "find (\<lambda>x. dgID x = ?i) (diagrams (idb g)) = Some dg" "dgDeletedAt dg = None"
  obtain c g1 where c: "run_state (getContent h ?i (dgContentKey dg)) g = (Inr c, g1)" "sound h g1" "docs_of g1 = docs_of g" "idb g1 = idb g"
      "current (docs_of g) ?i = Some c" "dgContentHash dg = sha256Hex c"
    by (rule run_getContent [OF assms dg]) metis
  let ?v = "\<lparr>dvID = next_id g1, dvDiagramID = ?i, dvVersionNumber = latest_version ?i (diagram_versions (idb g1)) + 1, dvLabel = label,
    dvContentKey = DiagramVersionKey (pathValue r ''orgID'') ?i (next_id g1), dvContentHash = dgContentHash dg, dvIsAutoVersion = False,
    dvSource = dgSource dg, dvCreatedBy = pUserID p, dvCreatedAt = clock (base (upload_state (DiagramVersionKey (pathValue r ''orgID'') ?i (next_id g1)) c (draw_state g1)))\<rparr>"
  have row: "?i \<in> dgID ` set (diagrams (idb g1))" using sound_find(1,2) [OF assms dg(1)] c(4) by (metis imageI)
  have "snapshot_of g1 ?v c" using row c(6) latest_version_nonneg [OF c(2)] by (auto simp: snapshot_of_def add_nonneg_pos)
  note snap = sound_snap [OF c(2) this]
  have stored: "run_state (CreateDiagramVersion ?v) (upload_state (dvContentKey ?v) c (draw_state g1)) = (Inr (), snap_state ?v c g1)"
    by (rule run_stored_version) (use sound_fresh [OF c(2) row] in simp_all)
  have run: "run_state (DiagramHandler_CreateVersion h label r) g = (JSON 201 (diagram_version_json ?v), snap_state ?v c g1)"
    using sound_healthy [OF c(2)] stored c(1)
    by (simp add: DiagramHandler_CreateVersion_def Let_def found run_ion_err run_latestVer run_draw run_uploadContent run_upload run_lift_now)
  have "published_doc ?i c (docs_of g) (docs_of (snap_state ?v c g1))"
    unfolding published_doc_def using snap(2) c(3,5) next_id_new(4) [OF c(2)]
    by (intro exI [of _ "next_id g1"]) (simp add: fun_upd_idem)
  then show ?thesis using run snap(1) c(5) caller by (simp add: refines_def)
qed (use assms in \<open>auto simp: refines_def DiagramHandler_CreateVersion_def Let_def\<close>)

section \<open>RestoreVersion\<close>

lemma snap_forget:
  "forget_state h i (snap_state v c g) = snap_state v c (forget_state h i g)" "auto_row org i hash src u (forget_state h j g) = auto_row org i hash src u g"
  by (simp_all add: forget_state_def snap_state_def auto_row_def next_id_def)

lemma refines_RestoreVersion:
  assumes "sound h g"
  shows "refines h CallRestoreVersion r g"
proof (rule run_live_diagram [OF assms, where r = r and i = "pathValue r ''diagramID''"])
  fix p dg
  let ?i = "pathValue r ''diagramID''"
  assume caller: "ctxPrincipal r = Some p" and found: "\<And>k. run_state (with_principal r (\<lambda>p. ion_err (GetDiagram ?i) (\<lambda>dg. not_deleted dgDeletedAt dg (k p)))) g = run_state (k p dg) g"
    and dg: "find (\<lambda>x. dgID x = ?i) (diagrams (idb g)) = Some dg" "dgDeletedAt dg = None"
  show ?thesis
  proof (cases "find (\<lambda>v. dvID v = pathValue r ''versionID'') (diagram_versions (idb g))")
    case None
    then show ?thesis using assms
      by (simp add: refines_def DiagramHandler_RestoreVersion_def found run_ion_err run_GetDiagramVersion sound_healthy docs_of_def snaps_def)
  next
    case (Some v)
    obtain c where c: "blobs (idb g) (dvContentKey v) = Some c" "dvContentHash v = sha256Hex c" "snapshots (docs_of g) (pathValue r ''versionID'') = Some c"
      using sound_find_version(2) [OF assms Some] by blast
    note f = sound_find [OF assms dg(1)]
    let ?src = "''restore:v'' @ FormatInt (dvVersionNumber v)"
    let ?dg = "dg\<lparr>dgContentHash := dvContentHash v, dgSource := Some ?src, dgUpdatedBy := Some (pUserID p)\<rparr>"
    let ?w = "write_state ?dg (upload_state (dgContentKey dg) c g)"
    let ?v = "auto_row (pathValue r ''orgID'') ?i (dvContentHash v) (Some ?src) (pUserID p) ?w"
    have e: "edits g ?dg dg" using f(7) dg(2) by (simp add: edits_def linked_def)
    have put: "put_state h ?dg c g = forget_state h ?i ?w" using f(2) by (simp add: put_state_def)
    have row: "?i \<in> dgID ` set (diagrams (idb g))" using f(1,2) by (metis imageI)
    then have "fresh ?w ?i" using sound_fresh [OF assms row] by (simp add: fresh_def write_state_def upload_state_def next_id_def ids_update healthy_def)
    note auto = run_auto_version [OF this, of "pathValue r ''orgID''" c "dvContentHash v" "Some ?src" "pUserID p"]
    have "run_state (DiagramHandler_RestoreVersion h r) g = (JSON 200 (diagram_json ?dg), forget_state h ?i (snap_state ?v c ?w))"
      using sound_healthy [OF assms] Some c(1) e auto run_write [of "upload_state (dgContentKey dg) c g" ?dg dg] run_forget [of "snap_state ?v c ?w" h ?i]
      by (simp add: DiagramHandler_RestoreVersion_def restore_diagram_def Let_def found run_ion_err run_GetDiagramVersion run_uploadContent run_DownloadH run_upload)
    then have run: "run_state (DiagramHandler_RestoreVersion h r) g = (JSON 200 (diagram_json ?dg), snap_state ?v c (put_state h ?dg c g))"
      unfolding put snap_forget(1) .
    have "?v = auto_row (pathValue r ''orgID'') ?i (dvContentHash v) (Some ?src) (pUserID p) (put_state h ?dg c g)" unfolding put snap_forget(2) ..
    then have "snapshot_of (put_state h ?dg c g) ?v c"
      using auto_snapshot [OF sound_put(1) [OF assms e]] c(2) row by simp
    from published_put [OF assms e _ this] c(2) f(2)
    have "sound h (snap_state ?v c (put_state h ?dg c g))" "published_doc ?i c (docs_of g) (docs_of (snap_state ?v c (put_state h ?dg c g)))" by simp_all
    moreover have "current (docs_of g) ?i \<noteq> None" using f(4,5) dg(2) by auto
    ultimately show ?thesis using run c(3) caller by (simp add: refines_def)
  qed
qed (use assms in \<open>auto simp: refines_def DiagramHandler_RestoreVersion_def\<close>)

section \<open>Update\<close>

text \<open>The folder and the team that an update names exist.\<close>

definition named_ok :: "updateDiagramBody \<Rightarrow> diagram_db side \<Rightarrow> bool" where
  "named_ok b g \<longleftrightarrow> refers fldID (folders (idb g)) (udFolderID b) \<and> refers tID (teams (db (base g))) (udTeamID b)"

lemma edits_edited:
  assumes "edits g dg dg" and "named_ok b g"
  shows "edits g (edited_diagram b u dg) dg" "edits g ((edited_diagram b u dg)\<lparr>dgContentHash := x\<rparr>) dg"
  using assms by (auto simp: edits_def linked_def named_ok_def edited_diagram_def split: option.splits)

lemma edited_fields [simp]:
  "dgID (edited_diagram b u dg) = dgID dg" "dgContentKey (edited_diagram b u dg) = dgContentKey dg" "dgContentHash (edited_diagram b u dg) = dgContentHash dg"
  "dgOrgID (edited_diagram b u dg) = dgOrgID dg"
  by (simp_all add: edited_diagram_def)

lemma refines_Update:
  assumes "sound h g" and ok: "\<And>b. body = Some b \<Longrightarrow> named_ok b g"
  shows "refines h (CallUpdate body) r g"
proof (rule run_live_diagram [OF assms(1), where r = r and i = "pathValue r ''diagramID''"])
  fix p dg
  let ?i = "pathValue r ''diagramID''"
  assume caller: "ctxPrincipal r = Some p" and found: "\<And>k. run_state (with_principal r (\<lambda>p. ion_err (GetDiagram ?i) (\<lambda>dg. not_deleted dgDeletedAt dg (k p)))) g = run_state (k p dg) g"
    and dg: "find (\<lambda>x. dgID x = ?i) (diagrams (idb g)) = Some dg" "dgDeletedAt dg = None"
  note f = sound_find [OF assms(1) dg(1)]
  obtain old where old: "current (docs_of g) ?i = Some old" "dgContentHash dg = sha256Hex old" using f(4,5) dg(2) by auto
  show ?thesis
  proof (cases body)
    case None
    then show ?thesis using assms(1) by (simp add: refines_def DiagramHandler_Update_def Let_def found)
  next
    case (Some b)
    let ?dg = "edited_diagram b (pUserID p) dg"
    note e = edits_edited [OF f(7) [OF dg(2)] ok [OF Some], where u = "pUserID p"]
    note h = sound_healthy [OF assms(1)]
    show ?thesis
    proof (cases "\<exists>c. udContent b = Some c \<and> sha256Hex c \<noteq> dgContentHash dg")
      case True
      then obtain c where c: "udContent b = Some c" "sha256Hex c \<noteq> dgContentHash dg" by blast
      let ?new = "?dg\<lparr>dgContentHash := sha256Hex c\<rparr>" and ?u = "upload_state (dgContentKey dg) c g"
      have put: "write_state ?new (forget_state h ?i ?u) = put_state h ?new c g" using f(2) by (simp add: put_state_def put_commutes)
      have "run_state (UpdateDiagram ?new) (forget_state h ?i ?u) = (Inr (), put_state h ?new c g)"
        using run_write [of "forget_state h ?i ?u" ?new dg] e(2) h by (simp add: put)
      then have run: "run_state (DiagramHandler_Update h body r) g = (JSON 200 (diagram_json ?new), enqueue_state h (dgOrgID dg) (dgID dg) (put_state h ?new c g))"
        using Some c h
        by (simp add: DiagramHandler_Update_def Let_def found run_ion_err run_uploadContent run_upload run_forget run_enqueueScreenshot)
      note put = sound_put [OF assms(1) e(2), of _ c]
      have "docs_of (enqueue_state h (dgOrgID dg) (dgID dg) (put_state h ?new c g)) = (docs_of g)\<lparr>current := (current (docs_of g))(?i \<mapsto> c)\<rparr>"
        using sound_enqueue(2) [OF put(1)] put(2) f(2) by simp
      then show ?thesis using run sound_enqueue(1) [OF put(1)] old c Some caller by (simp add: refines_def)
    next
      case False
      then have run: "run_state (DiagramHandler_Update h body r) g = (JSON 200 (diagram_json ?dg), write_state ?dg g)"
        using Some h run_write [OF h e(1)] by (auto simp: DiagramHandler_Update_def Let_def found run_ion_err split: option.splits)
      note w = sound_write [OF assms(1) e(1)]
      show ?thesis using run w False Some old caller by (auto simp: refines_def split: option.splits)
    qed
  qed
qed (use assms(1) in \<open>auto simp: refines_def DiagramHandler_Update_def Let_def\<close>)

section \<open>Create and Sync\<close>

definition add_state :: "diagram \<Rightarrow> string \<Rightarrow> diagram_db side \<Rightarrow> diagram_db side" where
  "add_state dg c g = g\<lparr>base := (base g)\<lparr>uuid_draws := Suc (uuid_draws (base g))\<rparr>,
     idb := (idb g)\<lparr>blobs := (blobs (idb g))(dgContentKey dg \<mapsto> c), diagrams := diagrams (idb g) @ [created_row dg (clock (base g))]\<rparr>\<rparr>"

definition newborn :: "diagram_db side \<Rightarrow> diagram \<Rightarrow> string \<Rightarrow> bool" where
  "newborn g dg c \<longleftrightarrow> dgID dg = next_id g \<and> dgContentKey dg = DiagramContentKey (dgOrgID dg) (next_id g) \<and> dgContentHash dg = sha256Hex c"

lemma created_fields [simp]:
  "dgID (created_row dg t) = dgID dg" "dgOrgID (created_row dg t) = dgOrgID dg" "dgContentKey (created_row dg t) = dgContentKey dg"
  "dgContentHash (created_row dg t) = dgContentHash dg" "dgDeletedAt (created_row dg t) = None" "linked fs ts (created_row dg t) = linked fs ts dg"
  by (simp_all add: created_row_def linked_def)

lemma sound_newborn_blob:
  assumes "sound h g"
  shows "sound h (upload_state (DiagramContentKey org (next_id g)) c (draw_state g))"
    "docs_of (upload_state (DiagramContentKey org (next_id g)) c (draw_state g)) = docs_of g"
proof -
  note agree = assms [unfolded sound_def coherent_def, THEN conjunct2]
  note new = next_id_new [OF assms]
  note put = agree_blob [OF agree, where key = "DiagramContentKey org (next_id g)" and c = c, OF content_key_new [OF agree new(3,1)]]
  show "sound h (upload_state (DiagramContentKey org (next_id g)) c (draw_state g))"
    using assms agree_draw [OF put(1)] by (simp add: sound_def coherent_def upload_state_def draw_state_def healthy_def)
  show "docs_of (upload_state (DiagramContentKey org (next_id g)) c (draw_state g)) = docs_of g"
    using put(2,3) by (simp add: docs_of_def upload_state_def draw_state_def)
qed

lemma sound_add:
  assumes "sound h g" and "newborn g dg c" and "linked (folders (idb g)) (teams (db (base g))) dg"
  shows "sound h (add_state dg c g)" "docs_of (add_state dg c g) = (docs_of g)\<lparr>current := (current (docs_of g))(next_id g \<mapsto> c)\<rparr>"
proof -
  note agree = assms(1) [unfolded sound_def coherent_def, THEN conjunct2]
  note new = next_id_new [OF assms(1)]
  note dg = assms(2) [unfolded newborn_def]
  note put = agree_blob [OF agree, where key = "DiagramContentKey (dgOrgID dg) (next_id g)" and c = c, OF content_key_new [OF agree new(3,1)]]
  let ?dg = "created_row dg (clock (base g))"
  note add = agree_add_diagram [OF put(1), of ?dg "uuid_draws (base g)" c]
  have "agree (dhHasCache h) (diagrams (idb g) @ [?dg]) (diagram_versions (idb g)) ((blobs (idb g))(dgContentKey dg \<mapsto> c)) (cache (base g)) (folders (idb g))
      (teams (db (base g))) (uuids (base g)) (Suc (uuid_draws (base g))) \<and>
      doc (diagrams (idb g) @ [?dg]) ((blobs (idb g))(dgContentKey dg \<mapsto> c)) = (doc (diagrams (idb g)) (blobs (idb g)))(next_id g \<mapsto> c)"
    using add new(1,2) dg assms(3) put(2) by (simp add: next_id_def)
  then show "sound h (add_state dg c g)" "docs_of (add_state dg c g) = (docs_of g)\<lparr>current := (current (docs_of g))(next_id g \<mapsto> c)\<rparr>"
    using assms(1) put(3) dg by (simp_all add: sound_def coherent_def add_state_def docs_of_def healthy_def)
qed

lemma run_added:
  assumes "sound h g" and "newborn g dg c"
  shows "(\<exists>e. run_state (CreateDiagram dg) (upload_state (dgContentKey dg) c (draw_state g)) = (Inl e, upload_state (dgContentKey dg) c (draw_state g))) \<or>
    run_state (CreateDiagram dg) (upload_state (dgContentKey dg) c (draw_state g)) = (Inr (), add_state dg c g) \<and>
      linked (folders (idb g)) (teams (db (base g))) dg"
proof -
  let ?g = "upload_state (dgContentKey dg) c (draw_state g)"
  have same: "diagrams (idb ?g) = diagrams (idb g)" "folders (idb ?g) = folders (idb g)" "db (base ?g) = db (base g)" "healthy ?g"
    using sound_healthy [OF assms(1)] by (simp_all add: upload_state_def draw_state_def healthy_def)
  have "dgID dg \<notin> dgID ` set (diagrams (idb ?g))" using next_id_new(1) [OF assms(1)] assms(2) unfolding same(1) newborn_def by simp
  from run_CreateDiagram [OF same(4) this] show ?thesis
    by (auto simp: same linked_def add_state_def upload_state_def draw_state_def)
qed

text \<open>The limit is checked first.\<close>

lemma run_diagram_limit:
  assumes "healthy g"
  obtains (refused) a where "\<And>k. run_state (diagram_limit h org k) g = (a, g)" and "rStatus a \<noteq> 201"
    | (within) "\<And>k. run_state (diagram_limit h org k) g = run_state k g"
proof (cases "dhEnterprise h = None")
  case True
  then show thesis by (intro within) (simp add: diagram_limit_def)
next
  case False
  obtain rows total where l: "run_state (ListDiagrams org (no_params\<lparr>lpLimit := 1\<rparr>)) g = (Inr (rows, total), g)" using run_ListDiagrams [OF assms] by blast
  show thesis
  proof (cases "ResourceLimitReached (dhEnterprise h) org ''diagram'' total slMaxDiagrams")
    case None
    then show thesis using False l by (intro within) (simp add: diagram_limit_def run_ion_err)
  next
    case (Some a)
    then have "rStatus a = 409" by (auto simp: ResourceLimitReached_def Let_def split: option.splits sum.splits if_splits)
    then show thesis using False l Some by (intro refused [of a]) (auto simp: diagram_limit_def run_ion_err)
  qed
qed

lemma added_first:
  fixes org :: string and auto :: bool
  assumes "sound h g" and "newborn g dg c" and "linked (folders (idb g)) (teams (db (base g))) dg"
  defines "ga \<equiv> add_state dg c g"
  defines "v \<equiv> first_version dg (next_id ga) (DiagramVersionKey org (dgID dg) (next_id ga)) auto"
  shows "run_state (record_version c v) (draw_state ga) = ((), snap_state v c ga)"
    "run_state (CreateDiagramVersion v) (upload_state (DiagramVersionKey org (dgID dg) (next_id ga)) c (draw_state ga)) = (Inr (), snap_state v c ga)"
    "sound h (snap_state v c ga)" "new_doc c (docs_of g) (docs_of (snap_state v c ga))" "current (docs_of (snap_state v c ga)) (dgID dg) = Some c"
proof -
  note dg = assms(2) [unfolded newborn_def]
  note add = sound_add [OF assms(1-3), folded ga_def]
  have v: "dvID v = next_id ga" "dvDiagramID v = dgID dg" "dvVersionNumber v = 1" "dvContentKey v = DiagramVersionKey org (dgID dg) (next_id ga)"
    "dvContentHash v = sha256Hex c" using dg by (simp_all add: v_def first_version_def)
  have ids: "dgID dg \<in> dgID ` set (diagrams (idb ga))" by (simp add: ga_def add_state_def)
  have "dvDiagramID x \<noteq> dgID dg" if "x \<in> set (diagram_versions (idb g))" for x
    using agreeD(4) [OF assms(1) [unfolded sound_def coherent_def, THEN conjunct2] that] next_id_new(1) [OF assms(1)] dg by (auto simp: version_ok_def)
  then have "filter (\<lambda>x. dvDiagramID x = dgID dg) (diagram_versions (idb ga)) = []" by (simp add: ga_def add_state_def filter_empty_conv)
  then have latest: "latest_version (dvDiagramID v) (diagram_versions (idb ga)) < dvVersionNumber v" by (simp add: latest_version_def v(2,3))
  have fresh: "fresh ga (dvDiagramID v)" using sound_fresh [OF add(1) ids] v(2) by simp
  show "run_state (record_version c v) (draw_state ga) = ((), snap_state v c ga)" by (rule run_record_version [OF fresh v(1) latest])
  show "run_state (CreateDiagramVersion v) (upload_state (DiagramVersionKey org (dgID dg) (next_id ga)) c (draw_state ga)) = (Inr (), snap_state v c ga)"
    using run_stored_version [OF fresh v(1) latest, of c] v(4) by simp
  have "snapshot_of ga v c" using v ids latest by (auto simp: snapshot_of_def)
  note snap = sound_snap [OF add(1) this]
  show "sound h (snap_state v c ga)" by (rule snap(1))
  show "current (docs_of (snap_state v c ga)) (dgID dg) = Some c" using snap(2) add(2) dg by simp
  have "snapshots (docs_of g) (next_id ga) = None" using next_id_new(4) [OF add(1)] add(2) by simp
  then have "published_doc (next_id g) c (docs_of g) (docs_of (snap_state v c ga))"
    unfolding published_doc_def using snap(2) add(2) by (intro exI [of _ "next_id ga"]) simp
  then show "new_doc c (docs_of g) (docs_of (snap_state v c ga))" using next_id_new(5) [OF assms(1)] unfolding new_doc_def by blast
qed

lemma newborn_new: "newborn g (new_diagram b org (next_id g) u t) (dbContent b)"
  by (simp add: newborn_def new_diagram_def)

lemma new_diagram_fields [simp]:
  "dgContentKey (new_diagram b org i u t) = DiagramContentKey org i" "dgID (new_diagram b org i u t) = i" "dgOrgID (new_diagram b org i u t) = org"
  by (simp_all add: new_diagram_def)

lemma healthy_add [simp]: "healthy (add_state dg c g) = healthy g"
  by (simp add: add_state_def healthy_def)

lemma clock_states [simp]: "clock (base (upload_state key c (draw_state g))) = clock (base g)"
  by (simp add: upload_state_def draw_state_def)

lemma refines_Create:
  assumes "sound h g"
  shows "refines h (CallCreate body) r g"
proof (cases "\<exists>p b. ctxPrincipal r = Some p \<and> body = Some b \<and> dbName b \<noteq> [] \<and> dbContent b \<noteq> []")
  case False
  then show ?thesis using assms by (auto simp: refines_def DiagramHandler_Create_def run_with_principal split: option.splits)
next
  case True
  then obtain p b where b: "ctxPrincipal r = Some p" "body = Some b" "dbName b \<noteq> []" "dbContent b \<noteq> []" by blast
  let ?org = "pathValue r ''orgID''" and ?c = "dbContent b"
  let ?dg = "new_diagram b ?org (next_id g) (pUserID p) (clock (base g))"
  note h = sound_healthy [OF assms]
  show ?thesis
  proof (rule run_diagram_limit [OF h, of h ?org])
    assume within: "\<And>k. run_state (diagram_limit h ?org k) g = run_state k g"
    note blob = sound_newborn_blob [OF assms, of ?org ?c]
    from run_added [OF assms newborn_new [of g b ?org "pUserID p" "clock (base g)"]]
    consider e where "run_state (CreateDiagram ?dg) (upload_state (DiagramContentKey ?org (next_id g)) ?c (draw_state g)) =
        (Inl e, upload_state (DiagramContentKey ?org (next_id g)) ?c (draw_state g))"
      | "run_state (CreateDiagram ?dg) (upload_state (DiagramContentKey ?org (next_id g)) ?c (draw_state g)) = (Inr (), add_state ?dg ?c g)"
        "linked (folders (idb g)) (teams (db (base g))) ?dg"
      by auto
    then show ?thesis
    proof cases
      case 1
      then show ?thesis using b h blob
        by (simp add: refines_def DiagramHandler_Create_def run_with_principal Let_def within run_draw run_ion_err run_uploadContent run_upload run_lift_now)
    next
      case 2
      let ?ga = "add_state ?dg ?c g"
      let ?v = "first_version ?dg (next_id ?ga) (DiagramVersionKey ?org (dgID ?dg) (next_id ?ga)) (dbSource b \<noteq> None)"
      note first = added_first [OF assms newborn_new 2(2), where org = ?org and auto = "dbSource b \<noteq> None"]
      let ?s = "snap_state ?v ?c ?ga"
      note keep = sound_keep [OF first(3,5)]
      note queue = sound_enqueue [OF keep(1), of ?org "next_id g"]
      have "run_state (DiagramHandler_Create h body r) g = (JSON 201 (diagram_json ?dg), enqueue_state h ?org (next_id g) (keep_state h (next_id g) ?c ?s))"
        using b h 2(1) first(2) keep(3)
        by (simp add: DiagramHandler_Create_def run_with_principal Let_def within run_draw run_ion_err run_uploadContent run_upload run_lift_now
            run_keep run_enqueueScreenshot)
      then show ?thesis using queue keep(2) first(4) b(2) by (simp add: refines_def)
    qed
  qed (use assms b in \<open>auto simp: refines_def DiagramHandler_Create_def run_with_principal Let_def\<close>)
qed

lemma refines_sync_new:
  assumes "sound h g" and b: "ctxPrincipal r = Some p" "body = Some b" "dbName b \<noteq> []" "dbContent b \<noteq> []" "dbDiagramID b = None"
  shows "refines h (CallSync body) r g"
proof -
  let ?org = "pathValue r ''orgID''" and ?c = "dbContent b"
  let ?dg = "new_diagram b ?org (next_id g) (pUserID p) (clock (base g))"
  note h = sound_healthy [OF assms(1)]
  show ?thesis
  proof (rule run_diagram_limit [OF h, of h ?org])
    assume within: "\<And>k. run_state (diagram_limit h ?org k) g = run_state k g"
    note blob = sound_newborn_blob [OF assms(1), of ?org ?c]
    from run_added [OF assms(1) newborn_new [of g b ?org "pUserID p" "clock (base g)"]]
    consider e where "run_state (CreateDiagram ?dg) (upload_state (DiagramContentKey ?org (next_id g)) ?c (draw_state g)) =
        (Inl e, upload_state (DiagramContentKey ?org (next_id g)) ?c (draw_state g))"
      | "run_state (CreateDiagram ?dg) (upload_state (DiagramContentKey ?org (next_id g)) ?c (draw_state g)) = (Inr (), add_state ?dg ?c g)"
        "linked (folders (idb g)) (teams (db (base g))) ?dg"
      by auto
    then show ?thesis
    proof cases
      case 1
      then show ?thesis using b h blob
        by (simp add: refines_def DiagramHandler_Sync_def sync_new_def run_with_principal Let_def within run_draw run_ion_err run_uploadContent run_upload run_lift_now)
    next
      case 2
      let ?ga = "add_state ?dg ?c g"
      let ?v = "first_version ?dg (next_id ?ga) (DiagramVersionKey ?org (dgID ?dg) (next_id ?ga)) True"
      note first = added_first [OF assms(1) newborn_new 2(2), where org = ?org and auto = True]
      note queue = sound_enqueue [OF first(3), of ?org "next_id g"]
      have "run_state (DiagramHandler_Sync h body r) g = (diagram_sync_answer 201 (next_id g) True, enqueue_state h ?org (next_id g) (snap_state ?v ?c ?ga))"
        using b h 2(1) first(1)
        by (simp add: DiagramHandler_Sync_def sync_new_def run_with_principal Let_def within run_draw run_ion_err run_uploadContent run_upload run_lift_now
            run_enqueueScreenshot)
      then show ?thesis using queue first(4) b(2,5) by (simp add: refines_def diagram_sync_answer_def)
    qed
  qed (use assms(1) b in \<open>auto simp: refines_def DiagramHandler_Sync_def sync_new_def run_with_principal Let_def\<close>)
qed

lemma refines_sync_existing:
  assumes "sound h g" and b: "ctxPrincipal r = Some p" "body = Some b" "dbName b \<noteq> []" "dbContent b \<noteq> []" "dbDiagramID b = Some i"
  shows "refines h (CallSync body) r g"
proof (cases "\<exists>dg. find (\<lambda>x. dgID x = i) (diagrams (idb g)) = Some dg \<and> dgDeletedAt dg = None")
  case False
  have "current (docs_of g) i = None"
    using False sound_find_None sound_find(6) [OF assms(1)] by (cases "find (\<lambda>x. dgID x = i) (diagrams (idb g))") auto
  with False show ?thesis using assms sound_healthy [OF assms(1)]
    by (auto simp: refines_def DiagramHandler_Sync_def run_with_principal run_ion_err run_GetDiagram run_not_deleted split: option.splits)
next
  case True
  then obtain dg where dg: "find (\<lambda>x. dgID x = i) (diagrams (idb g)) = Some dg" "dgDeletedAt dg = None" by blast
  note f = sound_find [OF assms(1) dg(1)] and h = sound_healthy [OF assms(1)]
  obtain old where old: "current (docs_of g) i = Some old" "dgContentHash dg = sha256Hex old" using f(4,5) dg(2) by auto
  have start: "run_state (DiagramHandler_Sync h body r) g = run_state (sync_existing h b p (pathValue r ''orgID'') dg) g"
    using b h dg by (simp add: DiagramHandler_Sync_def run_with_principal run_ion_err run_GetDiagram run_not_deleted)
  let ?c = "dbContent b" and ?org = "pathValue r ''orgID''"
  show ?thesis
  proof (cases "sha256Hex ?c = dgContentHash dg")
    case True
    then show ?thesis using start assms(1) b old by (simp add: refines_def sync_existing_def diagram_sync_answer_def)
  next
    case False
    let ?dg = "dg\<lparr>dgContentHash := sha256Hex ?c, dgSource := dbSource b, dgUpdatedBy := Some (pUserID p), dgUpdatedByCommitHash := dbCommitHash b\<rparr>"
    let ?w = "write_state ?dg (upload_state (dgContentKey dg) ?c g)" and ?p = "put_state h ?dg ?c g"
    let ?v = "auto_row ?org i (sha256Hex ?c) (dbSource b) (pUserID p) ?p"
    have e: "edits g ?dg dg" using f(7) dg(2) by (simp add: edits_def linked_def)
    have put: "forget_state h i ?w = ?p" using f(2) by (simp add: put_state_def)
    have row: "i \<in> dgID ` set (diagrams (idb g))" using f(1,2) by (metis imageI)
    then have row': "i \<in> dgID ` set (diagrams (idb ?p))" by simp
    note sound_p = sound_put(1) [OF assms(1) e, of ?c]
    have fresh: "fresh ?p i" using sound_fresh [OF _ row'] sound_p by simp
    note done_write = run_write [of "upload_state (dgContentKey dg) ?c g" ?dg dg]
    have run: "run_state (DiagramHandler_Sync h body r) g = (diagram_sync_answer 200 i True, enqueue_state h ?org i (snap_state ?v ?c ?p))"
      using h e False f(2) done_write put run_auto_version [OF fresh]
      by (simp add: start sync_existing_def Let_def run_ion_err run_uploadContent run_upload run_forget run_enqueueScreenshot)
    have "snapshot_of ?p ?v ?c" by (rule auto_snapshot [OF _ row']) (use sound_p in simp_all)
    note pub = published_put [OF assms(1) e _ this]
    show ?thesis using run sound_enqueue [of h "snap_state ?v ?c ?p" ?org i] pub f(2) old b False by (simp add: refines_def diagram_sync_answer_def)
  qed
qed

lemma refines_Sync:
  assumes "sound h g"
  shows "refines h (CallSync body) r g"
proof (cases "\<exists>p b. ctxPrincipal r = Some p \<and> body = Some b \<and> dbName b \<noteq> [] \<and> dbContent b \<noteq> []")
  case False
  then show ?thesis using assms by (auto simp: refines_def DiagramHandler_Sync_def run_with_principal split: option.splits)
next
  case True
  then obtain p b where b: "ctxPrincipal r = Some p" "body = Some b" "dbName b \<noteq> []" "dbContent b \<noteq> []" by blast
  show ?thesis by (cases "dbDiagramID b") (use refines_sync_new [OF assms b] refines_sync_existing [OF assms b] in auto)
qed

end
