(* ===== verification/DiagramClaims.thy ===== *)
theory DiagramClaims
  imports DiagramWrites
begin

text \<open>
  The properties of diagrams. A run is any sequence of requests to the handlers while nothing fails; the clock goes on and the cache
  may forget any entry between two requests. An update that names an unknown folder or team is left out of a run: \<open>refused_update_replaces_content\<close>
  shows what it does.
\<close>

section \<open>Runs\<close>

fun names_ok :: "diagram_call \<Rightarrow> diagram_db side \<Rightarrow> bool" where
  "names_ok (CallUpdate (Some b)) g = named_ok b g"
| "names_ok req g = True"

inductive diagram_run :: "diagram_handler \<Rightarrow> (diagram_call \<times> http_request \<times> response) list \<Rightarrow> diagram_db side \<Rightarrow> diagram_db side \<Rightarrow> bool" where
  stop: "diagram_run h [] g g"
| request: "run_state (handle h req r) g = (a, g1) \<Longrightarrow> names_ok req g \<Longrightarrow> diagram_run h tr g1 g2 \<Longrightarrow> diagram_run h ((req, r, a) # tr) g g2"
| later: "diagram_run h tr (g\<lparr>base := (base g)\<lparr>clock := t\<rparr>\<rparr>) g2 \<Longrightarrow> diagram_run h tr g g2"
| evicted: "diagram_run h tr (g\<lparr>base := (base g)\<lparr>cache := (cache (base g))(k := None)\<rparr>\<rparr>) g2 \<Longrightarrow> diagram_run h tr g g2"

primrec spec_run :: "(diagram_call \<times> http_request \<times> response) list \<Rightarrow> docs \<Rightarrow> docs \<Rightarrow> bool" where
  "spec_run [] m m2 \<longleftrightarrow> m2 = m"
| "spec_run (x # tr) m m2 \<longleftrightarrow> (\<exists>m1. (case x of (req, r, a) \<Rightarrow> doc_spec req r a m m1) \<and> spec_run tr m1 m2)"

lemma refines_all:
  assumes "sound h g" and "names_ok req g"
  shows "refines h req r g"
proof (cases req)
  case (CallUpdate body)
  then show ?thesis using assms by (cases body) (auto intro: refines_Update)
qed (use assms in \<open>auto intro: refines_lists refines_Create refines_Get refines_GetContent refines_Delete refines_Sync refines_UpdateThumbnail refines_thumbnails
  refines_CreateVersion refines_GetVersionContent refines_RestoreVersion refines_CreateImage\<close>)

lemma sound_clock: "sound h (g\<lparr>base := (base g)\<lparr>clock := t\<rparr>\<rparr>) = sound h g" "docs_of (g\<lparr>base := (base g)\<lparr>clock := t\<rparr>\<rparr>) = docs_of g"
  by (simp_all add: sound_def coherent_def docs_of_def healthy_def)

lemma sound_evicted:
  "sound h g \<Longrightarrow> sound h (g\<lparr>base := (base g)\<lparr>cache := (cache (base g))(k := None)\<rparr>\<rparr>)"
  "docs_of (g\<lparr>base := (base g)\<lparr>cache := (cache (base g))(k := None)\<rparr>\<rparr>) = docs_of g"
  by (auto simp: sound_def coherent_def docs_of_def healthy_def intro: agree_forget)

lemma diagram_run_simulates:
  assumes "diagram_run h tr g g2" and "sound h g"
  shows "sound h g2 \<and> spec_run tr (docs_of g) (docs_of g2)"
  using assms
proof (induction rule: diagram_run.induct)
  case (request h req r g a g1 tr g2)
  then have "sound h g1" "doc_spec req r a (docs_of g) (docs_of g1)" using refines_all [OF request.prems request.hyps(2), of r] by (simp_all add: refines_def)
  then show ?case using request.IH by auto
qed (auto simp: sound_clock sound_evicted)

text \<open>In the specification no version ever changes.\<close>

lemma doc_spec_snapshots: "doc_spec req r a m m1 \<Longrightarrow> snapshots m \<subseteq>\<^sub>m snapshots m1"
  by (cases req) (auto simp: published_doc_def new_doc_def map_le_def split: if_splits option.splits)

lemma spec_run_snapshots: "spec_run tr m m2 \<Longrightarrow> snapshots m \<subseteq>\<^sub>m snapshots m2"
proof (induction tr arbitrary: m)
  case (Cons x tr)
  then obtain m1 where "case x of (req, r, a) \<Rightarrow> doc_spec req r a m m1" "spec_run tr m1 m2" by auto
  then have "snapshots m \<subseteq>\<^sub>m snapshots m1" "snapshots m1 \<subseteq>\<^sub>m snapshots m2" using doc_spec_snapshots Cons.IH by (auto split: prod.splits)
  then show ?case by (rule map_le_trans)
qed simp

section \<open>An example\<close>

definition ex_diagrams :: "diagram_db side" where
  "ex_diagrams = \<lparr>base = ex_world, idb = \<lparr>blobs = Map.empty, screenshot_jobs = [], folders = [], diagrams = [], diagram_versions = [], diagram_images = [],
     service_diagrams = []\<rparr>\<rparr>"

definition ex_diagram_handler :: diagram_handler where
  "ex_diagram_handler = \<lparr>dhEnterprise = None, dhHasCache = True, dhHasQueue = True, dhPresign = Inr\<rparr>"

definition ex_diagram_body :: diagramBody where
  "ex_diagram_body = \<lparr>dbDiagramID = None, dbName = ''flow'', dbFolderID = None, dbTeamID = None, dbSource = None, dbCommitHash = None, dbContent = ''{}''\<rparr>"

lemma ex_diagrams_sound: "sound ex_diagram_handler ex_diagrams"
  by (auto simp: sound_def coherent_def agree_def ex_diagrams_def healthy_def ex_world_def cached_ok_def unused_def plain_id_def inj_def)

definition ex_diagram_request :: http_request where
  "ex_diagram_request = ex_request\<lparr>pathValue := (\<lambda>k. if k = ''orgID'' then ''g1'' else if k = ''diagramID'' then ''d1'' else []),
     ctxPrincipal := Some \<lparr>pKind = PrincipalUser, pUserID = ''u1'', pOrgID = [], pIsServerAdmin = False, pServiceAccountID = [], pScopes = [], pAuthProvider = []\<rparr>\<rparr>"

section \<open>Refinement\<close>

text \<open>C40. Refinement: the rows, the objects and the cache of diagrams implement one content for each diagram and one for each version, in every run of
  requests while nothing fails, with the clock going on and the cache forgetting entries. Reading a diagram or a version, from the cache or not,
  answers the content that it has; creating and synchronising give a new diagram its content, kept by a first version; an update or a synchronisation with
  another hash replaces the content, the latter with a new version; a restored version becomes current and is kept as a new version; a deleted diagram has
  no content; requests that are refused, thumbnails and images change none. The contents of versions never change. (Updates that name an unknown folder or team are excluded,
  see \<open>refused_update_replaces_content\<close>.)\<close>

theorem diagrams_refine:
  assumes "diagram_run h tr g g'" and "sound h g"
  shows "sound h g' \<and> spec_run tr (docs_of g) (docs_of g') \<and> snapshots (docs_of g) \<subseteq>\<^sub>m snapshots (docs_of g')"
  using diagram_run_simulates [OF assms] spec_run_snapshots by blast

lemma ex_create:
  "rStatus (fst (run_state (DiagramHandler_Create ex_diagram_handler (Some ex_diagram_body) ex_diagram_request) ex_diagrams)) = 201"
  by (simp add: DiagramHandler_Create_def ex_diagram_request_def ex_diagram_body_def ex_diagram_handler_def diagram_limit_def run_simps ex_diagrams_def ex_world_def
      healthy_def ex_db_def ex_rows ex_request_def new_diagram_def refers_def Let_def first_version_def latest_version_def created_row_def)

theorem diagrams_refine_witness:
  "let g' = snd (run_state (DiagramHandler_Create ex_diagram_handler (Some ex_diagram_body) ex_diagram_request) ex_diagrams) in
    sound ex_diagram_handler g' \<and> new_doc ''{}'' (docs_of ex_diagrams) (docs_of g')"
proof -
  let ?run = "run_state (DiagramHandler_Create ex_diagram_handler (Some ex_diagram_body) ex_diagram_request) ex_diagrams"
  have "diagram_run ex_diagram_handler [(CallCreate (Some ex_diagram_body), ex_diagram_request, fst ?run)] ex_diagrams (snd ?run)"
    by (rule diagram_run.request [OF _ _ diagram_run.stop]) simp_all
  from diagrams_refine [OF this ex_diagrams_sound] show ?thesis using ex_create by (auto simp: Let_def ex_diagram_body_def)
qed

section \<open>A refused update\<close>

text \<open>C41. An update that is refused replaces the content all the same: the upload comes before the statement that the database refuses because of an unknown folder, so
  the answer is an error and the row keeps the hash of the old content, but every reader gets the content of the refused update.\<close>

theorem refused_update_replaces_content:
  assumes "healthy g" and "find (\<lambda>x. dgID x = pathValue r ''diagramID'') (diagrams (idb g)) = Some dg" and "dgDeletedAt dg = None" and "ctxPrincipal r = Some p"
    and "udContent b = Some c" and "sha256Hex c \<noteq> dgContentHash dg" and "udFolderID b = Some f" and "f \<notin> fldID ` set (folders (idb g))"
  shows "\<exists>e g'. run_state (DiagramHandler_Update h (Some b) r) g = (Error e, g') \<and> diagrams (idb g') = diagrams (idb g) \<and>
    fst (run_state (DiagramHandler_GetContent h r) g') = content_answer (pathValue r ''diagramID'') c"
proof -
  let ?i = "pathValue r ''diagramID''"
  let ?g = "forget_state h ?i (upload_state (dgContentKey dg) c g)"
  let ?new = "(edited_diagram b (pUserID p) dg)\<lparr>dgContentHash := sha256Hex c\<rparr>"
  have h: "healthy ?g" "healthy g" using assms(1) by simp_all
  have same: "diagrams (idb ?g) = diagrams (idb g)" "folders (idb ?g) = folders (idb g)" "blobs (idb ?g) (dgContentKey dg) = Some c"
    by (simp_all add: forget_state_def upload_state_def)
  have "\<exists>r\<in>set (diagrams (idb ?g)). live_diagram (dgID ?new) r"
    using find_SomeD [OF assms(2)] assms(3) same(1) by (auto simp: live_diagram_def)
  moreover have "\<not> refers fldID (folders (idb ?g)) (dgFolderID ?new)"
    using assms(7,8) unfolding same(2) by (auto simp: edited_diagram_def refers_def)
  ultimately obtain e where "run_state (UpdateDiagram ?new) ?g = (Inl e, ?g)" using run_UpdateDiagram [OF h(1)] by metis
  then have "run_state (DiagramHandler_Update h (Some b) r) g = (Error e, ?g)"
    using assms(2-6) h by (simp add: DiagramHandler_Update_def Let_def run_with_principal run_ion_err run_GetDiagram run_not_deleted run_uploadContent run_upload run_forget)
  moreover have "run_state (cacheGet h ?i) ?g = (None, ?g)" using h(1) by (simp add: run_cacheGet forget_state_def)
  then have "fst (run_state (DiagramHandler_GetContent h r) ?g) = content_answer ?i c"
    using h assms(2,3) same
    by (simp add: DiagramHandler_GetContent_def Let_def run_ion_err run_GetDiagram run_not_deleted run_uploadContent run_DownloadH run_keep)
  ultimately show ?thesis using same(1) by blast
qed

definition ex_diagram :: diagram where
  "ex_diagram = (new_diagram ex_diagram_body ''g1'' ''d1'' ''u1'' 1)\<lparr>dgContentHash := ''h'', dgPreviewStatus := PreviewStatusPending\<rparr>"

definition ex_drawn :: "diagram_db side" where
  "ex_drawn = ex_diagrams\<lparr>idb := (idb ex_diagrams)\<lparr>blobs := [DiagramContentKey ''g1'' ''d1'' \<mapsto> ''{}''], diagrams := [ex_diagram]\<rparr>\<rparr>"

lemma ex_hash: "sha256Hex c \<noteq> ''h''"
proof
  assume "sha256Hex c = ''h''"
  then have "length (sha256Hex c) = 1" by simp
  then show False by (simp add: sha256Hex_def length_hex_encode length_Sum256)
qed

theorem refused_update_replaces_content_witness:
  "\<exists>e g'. run_state (DiagramHandler_Update ex_diagram_handler (Some \<lparr>udName = None, udFolderID = Some ''nowhere'', udTeamID = None, udSource = None,
      udCommitHash = None, udContent = Some ''[]''\<rparr>) ex_diagram_request) ex_drawn = (Error e, g') \<and> diagrams (idb g') = [ex_diagram] \<and>
    fst (run_state (DiagramHandler_GetContent ex_diagram_handler ex_diagram_request) g') = content_answer ''d1'' ''[]''"
proof -
  let ?b = "\<lparr>udName = None, udFolderID = Some ''nowhere'', udTeamID = None, udSource = None, udCommitHash = None, udContent = Some ''[]''\<rparr>"
  have r: "pathValue ex_diagram_request ''diagramID'' = ''d1''" "ctxPrincipal ex_diagram_request = Some (the (ctxPrincipal ex_diagram_request))"
    by (simp_all add: ex_diagram_request_def)
  have g: "diagrams (idb ex_drawn) = [ex_diagram]" "folders (idb ex_drawn) = []" by (simp_all add: ex_drawn_def ex_diagrams_def)
  have healthy: "healthy ex_drawn" by (simp add: ex_drawn_def ex_diagrams_def healthy_def ex_world_def)
  have dg: "dgID ex_diagram = ''d1''" "dgDeletedAt ex_diagram = None" "dgContentHash ex_diagram = ''h''"
    by (simp_all add: ex_diagram_def new_diagram_def ex_diagram_body_def)
  show ?thesis
    using refused_update_replaces_content [OF healthy _ dg(2) r(2), where b = ?b and c = "''[]''" and f = "''nowhere''"] ex_hash
    by (simp add: r(1) g dg)
qed

end
