(* ===== verification/Spec2Isabelle.thy ===== *)
theory Spec2Isabelle
  imports SystemExamples AccountSafety ImportSafety GoTime GraphqlExamples Grpc ApiGroupClaims EndpointClaims Folder DiagramClaims
begin

text \<open>
  A verification development for \<open>uigraph-api\<close>.
\<close>

section \<open>The system\<close>


text \<open>C1. In every state that the identity layer and the repository imports can reach from an empty database, whatever requests arrive in whatever order,
  whatever GitHub reports, whatever the workers do and whatever statements fail: the keys of every table are unique and every reference has its target; a session is
  found only by the token that it was opened with; every scope of every service account is in the catalogue, those of the accounts that are made for
  imports included; every pending login returns to a path of the front end; every stored role mapping is valid and every provider has a known default role.\<close>

theorem reachable_invariants:
  assumes "reachable a w"
  shows "db_ok (db w) \<and> no_rotation (db w) \<and> scopes_valid (db w) \<and> redirects_local (db w) \<and>
    mappings_valid (phCompile (aProvider a)) (db w)"
  using reachable_ok [OF assms] by blast

theorem reachable_invariants_witness:
  "db_ok (db ex_with_provider) \<and> no_rotation (db ex_with_provider) \<and> scopes_valid (db ex_with_provider) \<and>
   redirects_local (db ex_with_provider) \<and> mappings_valid (phCompile (aProvider ex_app)) (db ex_with_provider)"
  by (rule reachable_invariants [OF ex_reachable(4)])

text \<open>C13. In every reachable state the role of a sign-in can be decided: for every provider and whatever the identity
  provider asserts, the stored rules resolve to one of the known roles, and never to an error.\<close>

theorem reachable_role_resolves:
  assumes "reachable a w" and "prov \<in> set (auth_providers (db w))" and "shCompile h = phCompile (aProvider a)"
  shows "\<exists>role. Resolve (shCompile h) (rules_of (db w) (apID prov)) attrs (apDefaultRole prov) = Inr role \<and> RoleScopes role \<noteq> None"
  unfolding assms(3)
proof (rule Resolve_validated)
  note valid = reachable_ok(5) [OF assms(1)]
  show "\<forall>r\<in>set (rules_of (db w) (apID prov)). ValidateRule (phCompile (aProvider a)) r = None"
    using valid by (rule stored_rules_valid)
  show "RoleScopes (apDefaultRole prov) \<noteq> None" using valid assms(2) by (simp add: mappings_valid_def list_all_iff)
qed

theorem reachable_role_resolves_witness:
  "\<exists>prov\<in>set (auth_providers (db ex_with_provider)). \<exists>role. Resolve (\<lambda>_. None) (rules_of (db ex_with_provider) (apID prov)) []
     (apDefaultRole prov) = Inr role \<and> RoleScopes role \<noteq> None"
proof -
  have "shCompile ex_session_handler = phCompile (aProvider ex_app)" and c: "shCompile ex_session_handler = (\<lambda>_. None)"
    by (simp_all add: ex_session_handler_def ex_app_def ex_provider_handler_def)
  with reachable_role_resolves [OF ex_reachable(4) _ this(1)] ex_with_provider show ?thesis unfolding c by blast
qed

text \<open>C21. A request without credentials to any route other than the public and the internal ones is answered 401 and
  changes nothing at all, whatever the state.\<close>

theorem anonymous_changes_nothing:
  assumes "(pattern, h) \<in> set (protected_routes a b @ admin_routes a b @ scoped_routes a b)" and "anonymous r"
  shows "run_state (h r) w = (JSON 401 unauthenticated_body, w)"
  using guarded_route [OF assms(1)] anonymous_refused [OF assms(2)] by blast

theorem anonymous_changes_nothing_witness:
  "run_state (requireScope mw ScopesForUser ''org:delete'' OrgHandler_Delete ex_anonymous) ex_started = (JSON 401 unauthenticated_body, ex_started)"
proof (rule anonymous_changes_nothing)
  show "(''DELETE /api/v1/orgs/{orgID}'', requireScope mw ScopesForUser ''org:delete'' OrgHandler_Delete)
      \<in> set (protected_routes ex_app ex_body @ admin_routes ex_app ex_body @ scoped_routes ex_app ex_body)"
    by (simp add: scoped_routes_def org_routes_def)
  show "anonymous ex_anonymous" by (simp add: anonymous_def ex_anonymous_def extractBearer_def)
qed

text \<open>The routes of the hosted service answer 401 and change nothing unless the request carries the configured
  token; when none is configured no request passes.\<close>

lemma internal_routes_need_token:
  assumes "(pattern, h) \<in> set (internal_routes a b)" and "aInternal a = Some token" and "token = [] \<or> hInternalToken r \<noteq> token"
  shows "run_state (h r) w = (Unauthorized, w)"
  using assms
  by (auto simp: internal_routes_def SignupHandler_ProvisionAccount_def SignupHandler_LookupAccountByEmail_def
      SignupHandler_SetAccountPassword_def internal_caller_def)

theorem internal_routes_need_token_witness:
  "run_state (SignupHandler_LookupAccountByEmail ''s3cret'' ex_anonymous) ex_started = (Unauthorized, ex_started)"
  by (rule internal_routes_need_token [where a = ex_app and b = ex_body and pattern = "''GET /internal/v1/accounts/lookup''" and token = "''s3cret''"])
    (simp_all add: internal_routes_def ex_app_def ex_anonymous_def ex_request_def)

text \<open>C4. In every reachable state the routes of the identity layer that write to an organisation, its members, teams, service accounts or identity
  providers refuse every caller who has at most the rights of an editor there, and change nothing but the time of the last use of the
  credential: a user who is editor or viewer of the organisation of the path or has no role in it, a service account of another
  organisation, and one whose scopes are among those of an editor, as the account is that the repository imports use. (The routes of diagrams,
  services and the other contents need scopes that editors do hold.)\<close>

theorem only_administrators_administer:
  assumes "(pattern, h) \<in> set (scoped_routes a b)" and "\<not> HasPrefix pattern ''GET ''"
    and "run_state (h r) w = (resp, w')" and "reachable a w"
    and "\<forall>p. credentials session_principal r w p \<longrightarrow> at_most_editor (db w) p (pathValue r ''orgID'')"
  shows "refusal resp \<and> same_but_touch w w'"
proof -
  obtain scope g where h: "h = requireScope mw ScopesForUser scope g" and scope: "scope \<in> set write_scopes"
    using assms(1,2) by (rule scoped_write_route)
  from assms(3) [unfolded h mw_def] reachable_ok(1) [OF assms(4)] show ?thesis
  proof (rule gr.requireScope_sound)
    fix p w1
    assume "credentials session_principal r w p" and "holds_scope user_scopes (db w) p (pathValue r ''orgID'') scope"
    with assms(5) write_scope_not_held [OF scope] show ?thesis by blast
  qed blast
qed

theorem only_administrators_administer_witness:
  "refusal (fst (run_state (requireScope mw ScopesForUser ''org:delete'' OrgHandler_Delete ex_intruder) ex_tenant))"
proof -
  have "(''DELETE /api/v1/orgs/{orgID}'', requireScope mw ScopesForUser ''org:delete'' OrgHandler_Delete) \<in> set (scoped_routes ex_app ex_body)"
    by (simp add: scoped_routes_def org_routes_def)
  moreover have "\<not> HasPrefix ''DELETE /api/v1/orgs/{orgID}'' ''GET ''" by code_simp
  moreover have "\<forall>p. credentials session_principal ex_intruder ex_tenant p \<longrightarrow>
      at_most_editor (db ex_tenant) p (pathValue ex_intruder ''orgID'')"
  proof -
    have "ex_admin_token \<noteq> []" by code_simp
    then show ?thesis
      by (auto simp: credentials_def ex_intruder_def ex_anonymous_def extractBearer_def session_principal_def at_most_editor_def ex_tenant_scopes)
  qed
  ultimately show ?thesis using only_administrators_administer [OF _ _ surjective_pairing ex_tenant_reachable] by blast
qed

text \<open>C9. In every reachable state a sign-in through an identity provider redirects, if at all, to a local path under
  the configured front end: a redirect target that an attacker puts into the login link never leaves it.\<close>

theorem sign_in_stays_local:
  assumes "reachable a w"
  shows "redirects_to (frontendBase h) (fst (run_state (SessionHandler_OIDCCallback h r) w)) \<and>
    redirects_to (frontendBase h) (fst (run_state (SessionHandler_SAMLACS h r) w))"
proof
  note callback = callback_redirects [OF reachable_ok(4) [OF assms]]
  show "redirects_to (frontendBase h) (fst (run_state (SessionHandler_OIDCCallback h r) w))"
    unfolding SessionHandler_OIDCCallback_def Let_def
    by (rule callback) (simp add: completeLogin_redirects split: sum.split)
  show "redirects_to (frontendBase h) (fst (run_state (SessionHandler_SAMLACS h r) w))"
  proof (cases "formValue r")
    case (Some form)
    show ?thesis unfolding SessionHandler_SAMLACS_def Some option.case Let_def
      by (rule callback) (simp add: completeLogin_redirects split: sum.split)
  qed (simp add: SessionHandler_SAMLACS_def)
qed

theorem sign_in_stays_local_witness:
  "redirects_to ''https://acme.io'' (fst (run_state (SessionHandler_OIDCCallback ex_session_handler ex_anonymous) ex_with_provider))"
proof -
  have "frontendBase ex_session_handler = ''https://acme.io''" by code_simp
  with sign_in_stays_local [OF ex_reachable(4), of ex_session_handler ex_anonymous] show ?thesis by simp
qed

end
